(* ===== verification/Go_Base.thy ===== *)
theory Go_Base
  imports Complex_Main "HOL-Library.Word" "HOL-Library.Sublist" "HOL-Library.Monad_Syntax"
begin

text \<open>
  The prelude of the development: the shapes every component shares.

  \<^item> A Go function that performs effects and returns \<open>(T, error)\<close> is an action
    \<open>'w \<Rightarrow> ('e + 'a) \<times> 'w\<close>: it takes the world, returns the error or the value, and
    the world afterwards. \<open>bindA\<close> is the idiom \<open>x, err := m(); if err != nil { return err }\<close>,
    \<open>tryA\<close> the same with a handler of its own in the error branch.
  \<^item> \<open>int64\<close> is a 64-bit word read by \<open>sint\<close>.
  \<^item> A Go string is a list of bytes (\<open>char list\<close>); the functions of package \<open>strings\<close>
    that the adapters use are given for ASCII, which is what the adapters pass them.

  \<open>keeps\<close> is the shared notion of an invariant of an action, with one composition rule
  per combinator in the collection \<open>keeps_intros\<close>.
\<close>

section \<open>Actions\<close>

named_theorems act_defs \<open>the definitions of the action combinators\<close>
named_theorems keeps_intros \<open>composition rules for invariants of actions\<close>

type_synonym ('w, 'e, 'a) act = "'w \<Rightarrow> ('e + 'a) \<times> 'w"

definition ret :: "'a \<Rightarrow> ('w, 'e, 'a) act" where
  [act_defs]: "ret a w = (Inr a, w)"

definition throw :: "'e \<Rightarrow> ('w, 'e, 'a) act" where
  [act_defs]: "throw e w = (Inl e, w)"

definition tryA :: "('w, 'e, 'a) act \<Rightarrow> ('e \<Rightarrow> ('w, 'f, 'b) act) \<Rightarrow> ('a \<Rightarrow> ('w, 'f, 'b) act)
    \<Rightarrow> ('w, 'f, 'b) act" where
  [act_defs]: "tryA m h f w =
    (case m w of (r, w') \<Rightarrow> (case r of Inl e \<Rightarrow> h e w' | Inr a \<Rightarrow> f a w'))"

definition bindA :: "('w, 'e, 'a) act \<Rightarrow> ('a \<Rightarrow> ('w, 'e, 'b) act) \<Rightarrow> ('w, 'e, 'b) act" where
  [act_defs]: "bindA m f = tryA m throw f"

text \<open>\<open>mapErrA\<close> wraps the error of a call, as \<open>fmt.Errorf("...: %w", err)\<close> does.\<close>

definition mapErrA :: "('e \<Rightarrow> 'f) \<Rightarrow> ('w, 'e, 'a) act \<Rightarrow> ('w, 'f, 'a) act" where
  [act_defs]: "mapErrA g m = tryA m (\<lambda>e. throw (g e)) ret"

definition liftA :: "'e + 'a \<Rightarrow> ('w, 'e, 'a) act" where
  [act_defs]: "liftA r w = (r, w)"

text \<open>\<open>guardA c e\<close> is \<open>if !c { return e }\<close>.\<close>

definition guardA :: "bool \<Rightarrow> 'e \<Rightarrow> ('w, 'e, unit) act" where
  [act_defs]: "guardA c e = (if c then ret () else throw e)"

text \<open>\<open>askA f\<close> reads a value off the world, e.g. the clock, without changing it.\<close>

definition askA :: "('w \<Rightarrow> 'a) \<Rightarrow> ('w, 'e, 'a) act" where
  [act_defs]: "askA f w = (Inr (f w), w)"

text \<open>A \<open>for _, x := range xs\<close> loop whose body may return an error.\<close>

fun forA :: "('a \<Rightarrow> ('w, 'e, unit) act) \<Rightarrow> 'a list \<Rightarrow> ('w, 'e, unit) act" where
  "forA f [] = ret ()"
| "forA f (x # xs) = bindA (f x) (\<lambda>_. forA f xs)"

text \<open>The same loop collecting the results, as \<open>append\<close> to a slice does.\<close>

fun mapA :: "('a \<Rightarrow> ('w, 'e, 'b) act) \<Rightarrow> 'a list \<Rightarrow> ('w, 'e, 'b list) act" where
  "mapA f [] = ret []"
| "mapA f (x # xs) = bindA (f x) (\<lambda>y. bindA (mapA f xs) (\<lambda>ys. ret (y # ys)))"

lemma ret_run [simp]: "ret a w = (Inr a, w)"
  by (simp add: ret_def)

lemma throw_run [simp]: "throw e w = (Inl e, w)"
  by (simp add: throw_def)

lemma liftA_run [simp]: "liftA r w = (r, w)"
  by (simp add: liftA_def)

lemma askA_run [simp]: "askA f w = (Inr (f w), w)"
  by (simp add: askA_def)

lemma guardA_simps [simp]: "guardA True e = ret ()" "guardA False e = throw e"
  by (simp_all add: guardA_def)

lemma tryA_run: "m w = (r, w') \<Longrightarrow>
    tryA m h f w = (case r of Inl e \<Rightarrow> h e w' | Inr a \<Rightarrow> f a w')"
  by (simp add: tryA_def)

lemma bindA_run: "m w = (r, w') \<Longrightarrow>
    bindA m f w = (case r of Inl e \<Rightarrow> (Inl e, w') | Inr a \<Rightarrow> f a w')"
  by (auto simp: bindA_def tryA_def split: sum.splits)

lemma mapErrA_run: "m w = (r, w') \<Longrightarrow>
    mapErrA g m w = (case r of Inl e \<Rightarrow> (Inl (g e), w') | Inr a \<Rightarrow> (Inr a, w'))"
  by (auto simp: mapErrA_def tryA_def split: sum.splits)

lemma bindA_ret [simp]: "bindA (ret a) f = f a"
  by (rule ext) (simp add: act_defs)

lemma bindA_throw [simp]: "bindA (throw e) f = throw e"
  by (rule ext) (simp add: act_defs)

lemma tryA_ret [simp]: "tryA (ret a) h f = f a"
  by (rule ext) (simp add: act_defs)

lemma tryA_throw [simp]: "tryA (throw e) h f = h e"
  by (rule ext) (simp add: act_defs)

lemma bindA_assoc: "bindA (bindA m f) g = bindA m (\<lambda>x. bindA (f x) g)"
  by (rule ext) (auto simp: act_defs split: sum.splits prod.splits)

text \<open>Inversion of a run of \<open>bindA\<close>: it failed in the first action, or went on.\<close>

lemma bindA_Inr:
  "bindA m f w = (Inr b, w'') \<longleftrightarrow> (\<exists>a w'. m w = (Inr a, w') \<and> f a w' = (Inr b, w''))"
  by (auto simp: act_defs split: sum.splits prod.splits)

lemma bindA_Inl:
  "bindA m f w = (Inl e, w'') \<longleftrightarrow>
    m w = (Inl e, w'') \<or> (\<exists>a w'. m w = (Inr a, w') \<and> f a w' = (Inl e, w''))"
  by (auto simp: act_defs split: sum.splits prod.splits)

lemma mapErrA_Inr [simp]: "mapErrA g m w = (Inr a, w') \<longleftrightarrow> m w = (Inr a, w')"
  by (auto simp: act_defs split: sum.splits prod.splits)

lemma mapErrA_Inl: "mapErrA g m w = (Inl e, w') \<longleftrightarrow> (\<exists>e'. m w = (Inl e', w') \<and> e = g e')"
  by (auto simp: act_defs split: sum.splits prod.splits)

lemma tryA_cases:
  assumes "tryA m h f w = (r, w')"
  obtains (err) e w1 where "m w = (Inl e, w1)" "h e w1 = (r, w')"
  | (ok) a w1 where "m w = (Inr a, w1)" "f a w1 = (r, w')"
  using assms by (auto simp: act_defs split: sum.splits prod.splits)

text \<open>A loop that returns the first success.\<close>

fun first_some :: "('a \<Rightarrow> 'b option) \<Rightarrow> 'a list \<Rightarrow> 'b option" where
  "first_some f [] = None"
| "first_some f (x # xs) = (case f x of Some y \<Rightarrow> Some y | None \<Rightarrow> first_some f xs)"

section \<open>Invariants of actions\<close>

definition keeps :: "('w \<Rightarrow> bool) \<Rightarrow> ('w, 'e, 'a) act \<Rightarrow> bool" where
  "keeps I m \<longleftrightarrow> (\<forall>w. I w \<longrightarrow> I (snd (m w)))"

lemma keepsI: "(\<And>w. I w \<Longrightarrow> I (snd (m w))) \<Longrightarrow> keeps I m"
  by (simp add: keeps_def)

lemma keepsD: "keeps I m \<Longrightarrow> I w \<Longrightarrow> I (snd (m w))"
  by (simp add: keeps_def)

lemma keeps_run: "keeps I m \<Longrightarrow> I w \<Longrightarrow> m w = (r, w') \<Longrightarrow> I w'"
  using keepsD [of I m w] by simp

lemma keeps_ret [keeps_intros]: "keeps I (ret a)"
  by (simp add: keeps_def)

lemma keeps_throw [keeps_intros]: "keeps I (throw e)"
  by (simp add: keeps_def)

lemma keeps_liftA [keeps_intros]: "keeps I (liftA r)"
  by (simp add: keeps_def)

lemma keeps_askA [keeps_intros]: "keeps I (askA f)"
  by (simp add: keeps_def)

lemma keeps_guardA [keeps_intros]: "keeps I (guardA c e)"
  by (cases c) (simp_all add: keeps_def)

lemma keeps_tryA [keeps_intros]:
  assumes "keeps I m" and "\<And>e. keeps I (h e)" and "\<And>a. keeps I (f a)"
  shows "keeps I (tryA m h f)"
proof (rule keepsI)
  fix w assume "I w"
  with assms(1) have "I (snd (m w))" by (rule keepsD)
  then show "I (snd (tryA m h f w))"
    using keepsD [OF assms(2)] keepsD [OF assms(3)]
    by (auto simp: tryA_def split: sum.splits prod.splits)
qed

lemma keeps_bindA [keeps_intros]:
  "keeps I m \<Longrightarrow> (\<And>a. keeps I (f a)) \<Longrightarrow> keeps I (bindA m f)"
  unfolding bindA_def by (intro keeps_intros)

lemma keeps_mapErrA [keeps_intros]: "keeps I m \<Longrightarrow> keeps I (mapErrA g m)"
  unfolding mapErrA_def by (intro keeps_intros)

lemma keeps_forA [keeps_intros]: "(\<And>x. keeps I (f x)) \<Longrightarrow> keeps I (forA f xs)"
  by (induction xs) (auto intro: keeps_intros)

lemma keeps_mapA [keeps_intros]: "(\<And>x. keeps I (f x)) \<Longrightarrow> keeps I (mapA f xs)"
  by (induction xs) (auto intro!: keeps_intros)

lemma keeps_if [keeps_intros]: "keeps I m \<Longrightarrow> keeps I m' \<Longrightarrow> keeps I (if c then m else m')"
  by simp

lemma keeps_option [keeps_intros]:
  "keeps I m \<Longrightarrow> (\<And>x. keeps I (f x)) \<Longrightarrow> keeps I (case x of None \<Rightarrow> m | Some y \<Rightarrow> f y)"
  by (simp split: option.split)

lemma keeps_case_prod [keeps_intros]:
  "(\<And>x y. keeps I (f x y)) \<Longrightarrow> keeps I (case p of (x, y) \<Rightarrow> f x y)"
  by (simp split: prod.split)

section \<open>Machine integers\<close>

type_synonym int64 = "64 word"

text \<open>\<open>big.Int.IsInt64\<close>.\<close>

definition is_int64 :: "int \<Rightarrow> bool" where
  "is_int64 i \<longleftrightarrow> - (2 ^ 63) \<le> i \<and> i < 2 ^ 63"

lemma sint_of_int64: "is_int64 i \<Longrightarrow> sint (word_of_int i :: int64) = i"
  by (simp add: is_int64_def sint_sbintrunc' signed_take_bit_int_eq_self)

lemma is_int64_sint [simp]: "is_int64 (sint (w :: int64))"
  using sint_range_size [of w] by (simp add: is_int64_def word_size)

lemma sint64_diff:
  assumes "sint (b :: int64) \<le> sint a" and "0 \<le> sint b"
  shows "sint (a - b) = sint a - sint b"
proof -
  have "is_int64 (sint a - sint b)"
    using assms is_int64_sint [of a] is_int64_sint [of b] unfolding is_int64_def by linarith
  then have "sint (word_of_int (sint a - sint b) :: int64) = sint a - sint b"
    by (rule sint_of_int64)
  then show ?thesis by simp
qed

text \<open>\<open>strconv.FormatInt(v, 10)\<close>.\<close>

fun dec_digits :: "nat \<Rightarrow> string" where
  "dec_digits n = (if n < 10 then [char_of (48 + n)]
     else dec_digits (n div 10) @ [char_of (48 + n mod 10)])"

declare dec_digits.simps [simp del]

definition format_int :: "int \<Rightarrow> string" where
  "format_int i = (if i < 0 then ''-'' @ dec_digits (nat (- i)) else dec_digits (nat i))"

text \<open>\<open>strconv.ParseInt(s, 10, _)\<close> without the range check: an optional sign and at least
  one digit.\<close>

definition is_digit :: "char \<Rightarrow> bool" where
  "is_digit c \<longleftrightarrow> 48 \<le> (of_char c :: nat) \<and> (of_char c :: nat) \<le> 57"

fun digits_val :: "nat \<Rightarrow> string \<Rightarrow> nat option" where
  "digits_val acc [] = Some acc"
| "digits_val acc (c # cs) =
     (if is_digit c then digits_val (10 * acc + (of_char c - 48)) cs else None)"

definition parse_uint :: "string \<Rightarrow> nat option" where
  "parse_uint s = (if s = [] then None else digits_val 0 s)"

definition parse_int :: "string \<Rightarrow> int option" where
  "parse_int s = (case s of
      [] \<Rightarrow> None
    | c # cs \<Rightarrow>
        if c = CHR ''-'' then map_option (\<lambda>n. - int n) (parse_uint cs)
        else if c = CHR ''+'' then map_option int (parse_uint cs)
        else map_option int (parse_uint s))"

text \<open>Printing and reading back a decimal integer is the identity.\<close>

lemma of_char_digit: "d < 10 \<Longrightarrow> (of_char (char_of (48 + d :: nat) :: char) :: nat) = 48 + d"
  by simp

lemma digits_val_append:
  "digits_val acc (xs @ ys) = Option.bind (digits_val acc xs) (\<lambda>a. digits_val a ys)"
  by (induction xs arbitrary: acc) auto

lemma digits_val_dec_digits: "digits_val 0 (dec_digits n) = Some n"
proof (induction n rule: dec_digits.induct)
  case (1 n)
  show ?case
  proof (cases "n < 10")
    case True
    then show ?thesis
      by (subst dec_digits.simps) (simp add: is_digit_def)
  next
    case False
    with "1.IH" have ih: "digits_val 0 (dec_digits (n div 10)) = Some (n div 10)" by simp
    from False show ?thesis
      by (subst dec_digits.simps) (simp add: digits_val_append ih is_digit_def)
  qed
qed

lemma dec_digits_first: "\<exists>c cs. dec_digits n = c # cs \<and> is_digit c"
proof (induction n rule: dec_digits.induct)
  case (1 n)
  then show ?case
    by (subst dec_digits.simps) (auto simp: is_digit_def)
qed

lemma parse_format_int: "parse_int (format_int i) = Some i"
proof (cases "i < 0")
  case True
  obtain c cs where d: "dec_digits (nat (- i)) = c # cs" using dec_digits_first by blast
  with True digits_val_dec_digits [of "nat (- i)"] show ?thesis
    by (simp add: format_int_def parse_int_def parse_uint_def)
next
  case False
  obtain c cs where d: "dec_digits (nat i) = c # cs" and "is_digit c"
    using dec_digits_first by blast
  then have "c \<noteq> CHR ''-''" "c \<noteq> CHR ''+''" by (auto simp: is_digit_def)
  with d False digits_val_dec_digits [of "nat i"] show ?thesis
    by (simp add: format_int_def parse_int_def parse_uint_def)
qed

section \<open>Strings\<close>

definition upper_char :: "char \<Rightarrow> char" where
  "upper_char c = (if 97 \<le> (of_char c :: nat) \<and> (of_char c :: nat) \<le> 122
     then char_of (of_char c - 32 :: nat) else c)"

definition lower_char :: "char \<Rightarrow> char" where
  "lower_char c = (if 65 \<le> (of_char c :: nat) \<and> (of_char c :: nat) \<le> 90
     then char_of (of_char c + 32 :: nat) else c)"

definition is_ascii :: "char \<Rightarrow> bool" where "is_ascii c \<longleftrightarrow> (of_char c :: nat) < 128"

text \<open>Strings are their UTF-8 bytes. \<open>strings.ToUpper\<close> and \<open>ToLower\<close> map two letters each from
  outside ASCII into ASCII, and \<open>EqualFold\<close> identifies two with ASCII letters; the functions below do
  the same. Other letters outside ASCII keep their case: no result is compared with one of them.\<close>

fun replace_runes :: "(string \<times> char) list \<Rightarrow> nat \<Rightarrow> string \<Rightarrow> string" where
  "replace_runes tbl n [] = []"
| "replace_runes tbl (Suc n) (c # cs) = replace_runes tbl n cs"
| "replace_runes tbl 0 (c # cs) = (case find (\<lambda>(p, u). prefix p (c # cs)) tbl of
      Some (p, u) \<Rightarrow> u # replace_runes tbl (length p - 1) cs
    | None \<Rightarrow> c # replace_runes tbl 0 cs)"

definition upper_runes :: "(string \<times> char) list" where
  "upper_runes = [([CHR 0xC4, CHR 0xB1], CHR ''I''), ([CHR 0xC5, CHR 0xBF], CHR ''S'')]"

definition lower_runes :: "(string \<times> char) list" where
  "lower_runes = [([CHR 0xC4, CHR 0xB0], CHR ''i''), ([CHR 0xE2, CHR 0x84, CHR 0xAA], CHR ''k'')]"

definition fold_runes :: "(string \<times> char) list" where
  "fold_runes = [([CHR 0xC5, CHR 0xBF], CHR ''s''), ([CHR 0xE2, CHR 0x84, CHR 0xAA], CHR ''k'')]"

definition to_upper :: "string \<Rightarrow> string" where
  "to_upper s = map upper_char (replace_runes upper_runes 0 s)"

definition to_lower :: "string \<Rightarrow> string" where
  "to_lower s = map lower_char (replace_runes lower_runes 0 s)"

definition fold_case :: "string \<Rightarrow> string" where
  "fold_case s = map lower_char (replace_runes fold_runes 0 s)"

definition equal_fold :: "string \<Rightarrow> string \<Rightarrow> bool" where
  "equal_fold s t \<longleftrightarrow> fold_case s = fold_case t"

lemma replace_runes_ascii:
  "list_all is_ascii s \<Longrightarrow> list_all (\<lambda>(p, u). p \<noteq> [] \<and> \<not> is_ascii (hd p)) tbl \<Longrightarrow>
   replace_runes tbl 0 s = s"
proof (induction s)
  case (Cons c cs)
  have "\<not> prefix p (c # cs)" if "(p, u) \<in> set tbl" for p u
    using that Cons.prems by (cases p) (auto simp: list_all_iff)
  then have "find (\<lambda>(p, u). prefix p (c # cs)) tbl = None"
    by (auto simp: find_None_iff)
  with Cons show ?case by simp
qed simp

lemma to_upper_ascii: "list_all is_ascii s \<Longrightarrow> to_upper s = map upper_char s"
  by (simp add: to_upper_def replace_runes_ascii upper_runes_def is_ascii_def)

lemma to_lower_ascii: "list_all is_ascii s \<Longrightarrow> to_lower s = map lower_char s"
  by (simp add: to_lower_def replace_runes_ascii lower_runes_def is_ascii_def)

lemma fold_case_ascii: "list_all is_ascii s \<Longrightarrow> fold_case s = map lower_char s"
  by (simp add: fold_case_def replace_runes_ascii fold_runes_def is_ascii_def)

lemma equal_fold_ascii:
  "list_all is_ascii s \<Longrightarrow> list_all is_ascii t \<Longrightarrow> equal_fold s t \<longleftrightarrow> map lower_char s = map lower_char t"
  by (simp add: equal_fold_def fold_case_ascii)

lemma is_ascii_literal [simp]: "is_ascii (Char b0 b1 b2 b3 b4 b5 b6 b7) \<longleftrightarrow> \<not> b7"
  by (simp add: is_ascii_def of_char_def)

definition is_space :: "char \<Rightarrow> bool" where
  "is_space c \<longleftrightarrow> (of_char c :: nat) \<in> {9, 10, 11, 12, 13, 32}"

text \<open>\<open>strings.TrimSpace\<close>, \<open>HasPrefix\<close>, \<open>HasSuffix\<close> and \<open>Contains\<close>. The white space
  outside ASCII is that of \<open>unicode.IsSpace\<close>, by its encoding.\<close>

definition space_runes :: "string list" where
  "space_runes = [[CHR 0xC2, CHR 0x85], [CHR 0xC2, CHR 0xA0], [CHR 0xE1, CHR 0x9A, CHR 0x80],
     [CHR 0xE2, CHR 0x80, CHR 0xA8], [CHR 0xE2, CHR 0x80, CHR 0xA9], [CHR 0xE2, CHR 0x80, CHR 0xAF],
     [CHR 0xE2, CHR 0x81, CHR 0x9F], [CHR 0xE3, CHR 0x80, CHR 0x80]]
   @ map (\<lambda>n. [CHR 0xE2, CHR 0x80, char_of n]) [0x80 ..< 0x8B :: nat]"

fun drop_runes :: "string list \<Rightarrow> nat \<Rightarrow> string \<Rightarrow> string" where
  "drop_runes ps n [] = []"
| "drop_runes ps (Suc n) (c # cs) = drop_runes ps n cs"
| "drop_runes ps 0 (c # cs) = (if is_space c then drop_runes ps 0 cs
     else (case find (\<lambda>p. prefix p (c # cs)) ps of
         Some p \<Rightarrow> drop_runes ps (length p - 1) cs
       | None \<Rightarrow> c # cs))"

definition trim_space :: "string \<Rightarrow> string" where
  "trim_space s = rev (drop_runes (map rev space_runes) 0 (rev (drop_runes space_runes 0 s)))"

lemma trim_space_Nil [simp]: "trim_space [] = []"
  by (simp add: trim_space_def)

text \<open>A text \<open>starts_blank\<close> when the loop drops something.\<close>

definition starts_blank :: "string list \<Rightarrow> string \<Rightarrow> bool" where
  "starts_blank ps s \<longleftrightarrow> s \<noteq> [] \<and> (is_space (hd s) \<or> (\<exists>p \<in> set ps. prefix p s))"

lemma drop_runes_id: "\<not> starts_blank ps s \<Longrightarrow> drop_runes ps 0 s = s"
  by (cases s) (auto simp: starts_blank_def find_None_iff find_Some_iff split: option.split)

lemma drop_runes_suffix: "suffix (drop_runes ps n s) s"
  by (induction ps n s rule: drop_runes.induct) (auto intro: suffix_ConsI split: option.split)

lemma drop_runes_starts: "\<not> starts_blank ps (drop_runes ps n s)"
  by (induction ps n s rule: drop_runes.induct)
    (auto simp: starts_blank_def find_None_iff split: option.split)

lemma starts_blank_prefix:
  assumes "prefix t s" and "\<not> starts_blank ps s"
  shows "\<not> starts_blank ps t"
proof
  assume "starts_blank ps t"
  moreover from this have "t \<noteq> []" by (simp add: starts_blank_def)
  with assms(1) have "s \<noteq> []" "hd t = hd s"
    by (auto simp: prefix_def simp del: append_assoc)
  moreover have "prefix p t \<Longrightarrow> prefix p s" for p
    using assms(1) prefix_order.trans by blast
  ultimately show False using assms(2) by (auto simp: starts_blank_def)
qed

lemma trim_space_id:
  "\<not> starts_blank space_runes s \<Longrightarrow> \<not> starts_blank (map rev space_runes) (rev s) \<Longrightarrow> trim_space s = s"
  by (simp add: trim_space_def drop_runes_id)

lemma trim_space_idem [simp]: "trim_space (trim_space s) = trim_space s"
proof (rule trim_space_id)
  have "prefix (trim_space s) (drop_runes space_runes 0 s)"
    using drop_runes_suffix [of "map rev space_runes" 0 "rev (drop_runes space_runes 0 s)"]
    by (simp add: trim_space_def suffix_to_prefix)
  then show "\<not> starts_blank space_runes (trim_space s)"
    by (rule starts_blank_prefix) (rule drop_runes_starts)
  show "\<not> starts_blank (map rev space_runes) (rev (trim_space s))"
    by (simp add: trim_space_def drop_runes_starts)
qed

text \<open>A text that begins and ends with a byte of ASCII that is no space is kept.\<close>

lemma space_runes_ends:
  "p \<in> set space_runes \<Longrightarrow> p \<noteq> [] \<and> \<not> is_ascii (hd p) \<and> \<not> is_ascii (last p)"
  by (auto simp: space_runes_def is_ascii_def)

lemma trim_space_ascii:
  assumes "s = [] \<or> is_ascii (hd s) \<and> is_ascii (last s) \<and> \<not> is_space (hd s) \<and> \<not> is_space (last s)"
  shows "trim_space s = s"
proof (rule trim_space_id)
  show "\<not> starts_blank space_runes s"
    using assms space_runes_ends by (cases s) (fastforce simp: starts_blank_def prefix_def Cons_eq_append_conv)+
  show "\<not> starts_blank (map rev space_runes) (rev s)"
  proof
    assume "starts_blank (map rev space_runes) (rev s)"
    then obtain p where p: "s \<noteq> []" "is_space (last s) \<or> p \<in> set space_runes \<and> prefix (rev p) (rev s)"
      by (auto simp: starts_blank_def hd_rev)
    with assms have "p \<in> set space_runes" "suffix p s" by (auto simp: suffix_to_prefix)
    then have "last s = last p" "\<not> is_ascii (last p)"
      using space_runes_ends [of p] by (auto simp: suffix_def)
    with assms p(1) show False by simp
  qed
qed

definition has_prefix :: "string \<Rightarrow> string \<Rightarrow> bool" where "has_prefix s p \<longleftrightarrow> prefix p s"
definition has_suffix :: "string \<Rightarrow> string \<Rightarrow> bool" where "has_suffix s p \<longleftrightarrow> suffix p s"
definition contains :: "string \<Rightarrow> string \<Rightarrow> bool" where "contains s t \<longleftrightarrow> sublist t s"

text \<open>\<open>strings.LastIndex(s, "/")\<close> as the split it is used for: the parts before and after
  the last occurrence of a byte.\<close>

fun split_last :: "char \<Rightarrow> string \<Rightarrow> (string \<times> string) option" where
  "split_last c [] = None"
| "split_last c (x # xs) = (case split_last c xs of
      Some (a, b) \<Rightarrow> Some (x # a, b)
    | None \<Rightarrow> if x = c then Some ([], xs) else None)"

lemma split_last_None: "split_last c s = None \<longleftrightarrow> c \<notin> set s"
  by (induction s) (auto split: option.splits)

lemma split_last_Some: "split_last c s = Some (a, b) \<longleftrightarrow> s = a @ c # b \<and> c \<notin> set b"
proof (induction s arbitrary: a b)
  case Nil
  then show ?case by simp
next
  case (Cons x xs)
  show ?case
  proof (cases "split_last c xs")
    case None
    then have "c \<notin> set xs" by (simp add: split_last_None)
    with None show ?thesis by (cases a) auto
  next
    case (Some p)
    then obtain a' b' where p: "split_last c xs = Some (a', b')" by (cases p) auto
    have x: "xs = a' @ c # b'" "c \<notin> set b'"
      using Cons.IH [of a' b'] p by simp_all
    show ?thesis
    proof
      assume "split_last c (x # xs) = Some (a, b)"
      with p x show "x # xs = a @ c # b \<and> c \<notin> set b" by auto
    next
      assume r: "x # xs = a @ c # b \<and> c \<notin> set b"
      show "split_last c (x # xs) = Some (a, b)"
      proof (cases a)
        case Nil
        with r x show ?thesis by auto
      next
        case (Cons y ys)
        with r have "xs = ys @ c # b \<and> c \<notin> set b" by simp
        then have "split_last c xs = Some (ys, b)" by (rule Cons.IH [THEN iffD2])
        with Cons r show ?thesis by simp
      qed
    qed
  qed
qed

end
