(* ===== verification/Go_Time.thy ===== *)
theory Go_Time
  imports Go_Base
begin

text \<open>
  The part of Go's package \<open>time\<close> the adapters use. An instant is its number of nanoseconds
  since the Unix epoch (\<open>time\<close>); a duration is a number of nanoseconds too. Year 1 is the
  zero \<open>time.Time\<close>.

  \<open>time.Parse\<close> is given for the layout elements of the adapters' layouts: a layout is the list
  of its literal pieces and elements, in the order \<open>nextStdChunk\<close> finds them. The quirks the
  adapters can meet are kept: a one-digit hour, a fraction after the seconds where the layout
  names none, a run of spaces for one space.
\<close>

type_synonym time = int

definition second :: time where "second = 1000000000"

section \<open>Civil dates\<close>

definition is_leap :: "int \<Rightarrow> bool" where
  "is_leap y \<longleftrightarrow> y mod 4 = 0 \<and> (y mod 100 \<noteq> 0 \<or> y mod 400 = 0)"

definition days_in :: "int \<Rightarrow> int \<Rightarrow> int" where
  "days_in m y = (if m = 2 then (if is_leap y then 29 else 28)
     else if m \<in> {4, 6, 9, 11} then 30 else 31)"

text \<open>Days from 1970-01-01 to a date of the proleptic Gregorian calendar.\<close>

definition days_from_civil :: "int \<Rightarrow> int \<Rightarrow> int \<Rightarrow> int" where
  "days_from_civil y m d =
     (let y' = (if m \<le> 2 then y - 1 else y);
          m' = (if m \<le> 2 then m + 9 else m - 3)
      in 365 * y' + y' div 4 - y' div 100 + y' div 400 + (153 * m' + 2) div 5 + d - 1 - 719468)"

definition zero_time :: time where
  "zero_time = days_from_civil 1 1 1 * 86400 * second"

definition is_zero_time :: "time \<Rightarrow> bool" where "is_zero_time t \<longleftrightarrow> t = zero_time"

lemma zero_time_value: "zero_time = -62135596800000000000"
  by (simp add: zero_time_def days_from_civil_def second_def)

section \<open>Parsing\<close>

datatype layout_elem = Lit string | Year4 | Month2 | Day2 | Hour | Minute2 | Second2
  | Frac0 nat | Frac9 | ZoneColon

record parsed =
  p_year :: int
  p_month :: int
  p_day :: int
  p_hour :: int
  p_min :: int
  p_sec :: int
  p_nsec :: int
  p_off :: "int option"

definition parsed0 :: parsed where
  "parsed0 = \<lparr>p_year = 0, p_month = -1, p_day = -1, p_hour = 0, p_min = 0, p_sec = 0,
     p_nsec = 0, p_off = None\<rparr>"

text \<open>\<open>skip\<close>: a space of the layout takes a run of spaces (or the end of the value).\<close>

function skip_lit :: "string \<Rightarrow> string \<Rightarrow> string option" where
  "skip_lit v [] = Some v"
| "skip_lit v (p # ps) =
     (if p = CHR '' '' then
        (if v \<noteq> [] \<and> hd v \<noteq> CHR '' '' then None
         else skip_lit (dropWhile (\<lambda>c. c = CHR '' '') v) (dropWhile (\<lambda>c. c = CHR '' '') ps))
      else (case v of [] \<Rightarrow> None | c # cs \<Rightarrow> if c = p then skip_lit cs ps else None))"
  by pat_completeness auto
termination
  by (relation "measure (\<lambda>(v, p). length p)") (auto simp: length_dropWhile_le le_imp_less_Suc)

definition digit_val :: "char \<Rightarrow> int" where "digit_val c = of_char c - 48"

text \<open>\<open>getnum\<close>: two digits, or one where the element is not fixed-width.\<close>

fun getnum :: "bool \<Rightarrow> string \<Rightarrow> (int \<times> string) option" where
  "getnum fixed (a # b # cs) =
     (if \<not> is_digit a then None
      else if is_digit b then Some (10 * digit_val a + digit_val b, cs)
      else if fixed then None else Some (digit_val a, b # cs))"
| "getnum fixed [a] = (if is_digit a \<and> \<not> fixed then Some (digit_val a, []) else None)"
| "getnum fixed [] = None"

definition comma_or_period :: "char \<Rightarrow> bool" where
  "comma_or_period c \<longleftrightarrow> c = CHR ''.'' \<or> c = CHR '',''"

text \<open>\<open>parseNanoseconds\<close> on a separator and digits; digits past the ninth are dropped.\<close>

definition parse_nanos :: "string \<Rightarrow> int option" where
  "parse_nanos s = (case s of
      [] \<Rightarrow> None
    | c # ds \<Rightarrow> if \<not> comma_or_period c then None
        else map_option (\<lambda>n. int n * 10 ^ (9 - length (take 9 ds))) (parse_uint (take 9 ds)))"

definition has_frac :: "string \<Rightarrow> bool" where
  "has_frac v \<longleftrightarrow> (case v of c # d # _ \<Rightarrow> comma_or_period c \<and> is_digit d | _ \<Rightarrow> False)"

definition take_frac :: "string \<Rightarrow> string \<times> string" where
  "take_frac v = (let n = Suc (length (takeWhile is_digit (tl v))) in (take n v, drop n v))"

definition in_range :: "int \<Rightarrow> int \<Rightarrow> (int \<times> string) option \<Rightarrow> (int \<times> string) option" where
  "in_range lo hi r = (case r of Some (n, v) \<Rightarrow> if lo \<le> n \<and> n \<le> hi then r else None | None \<Rightarrow> None)"

definition next_is_frac :: "layout_elem list \<Rightarrow> bool" where
  "next_is_frac es \<longleftrightarrow> (case es of Frac0 _ # _ \<Rightarrow> True | Frac9 # _ \<Rightarrow> True | _ \<Rightarrow> False)"

definition parse_zone :: "string \<Rightarrow> (int \<times> string) option" where
  "parse_zone v = (case v of
      CHR ''Z'' # cs \<Rightarrow> Some (0, cs)
    | s # a # b # c # d # e # cs \<Rightarrow>
        if c \<noteq> CHR '':'' \<or> (s \<noteq> CHR ''+'' \<and> s \<noteq> CHR ''-'') then None
        else (case (getnum True [a, b], getnum True [d, e]) of
            (Some (hr, _), Some (mm, _)) \<Rightarrow>
              if 24 < hr \<or> 60 < mm then None
              else Some ((if s = CHR ''-'' then -1 else 1) * (hr * 60 + mm) * 60, cs)
          | _ \<Rightarrow> None)
    | _ \<Rightarrow> None)"

fun parse_elems :: "layout_elem list \<Rightarrow> string \<Rightarrow> parsed \<Rightarrow> parsed option" where
  "parse_elems [] v p = (if v = [] then Some p else None)"
| "parse_elems (Lit l # es) v p = Option.bind (skip_lit v l) (\<lambda>v'. parse_elems es v' p)"
| "parse_elems (Year4 # es) v p =
     (if length v < 4 then None
      else Option.bind (parse_uint (take 4 v)) (\<lambda>y. parse_elems es (drop 4 v) (p\<lparr>p_year := int y\<rparr>)))"
| "parse_elems (Month2 # es) v p =
     Option.bind (in_range 1 12 (getnum True v)) (\<lambda>(n, v'). parse_elems es v' (p\<lparr>p_month := n\<rparr>))"
| "parse_elems (Day2 # es) v p =
     Option.bind (getnum True v) (\<lambda>(n, v'). parse_elems es v' (p\<lparr>p_day := n\<rparr>))"
| "parse_elems (Hour # es) v p =
     Option.bind (in_range 0 23 (getnum False v)) (\<lambda>(n, v'). parse_elems es v' (p\<lparr>p_hour := n\<rparr>))"
| "parse_elems (Minute2 # es) v p =
     Option.bind (in_range 0 59 (getnum True v)) (\<lambda>(n, v'). parse_elems es v' (p\<lparr>p_min := n\<rparr>))"
| "parse_elems (Second2 # es) v p =
     Option.bind (in_range 0 59 (getnum True v)) (\<lambda>(n, v').
       if has_frac v' \<and> \<not> next_is_frac es
       then (let (f, v'') = take_frac v' in
         Option.bind (parse_nanos f) (\<lambda>ns. parse_elems es v'' (p\<lparr>p_sec := n, p_nsec := ns\<rparr>)))
       else parse_elems es v' (p\<lparr>p_sec := n\<rparr>))"
| "parse_elems (Frac0 k # es) v p =
     (if length v < Suc k then None
      else Option.bind (parse_nanos (take (Suc k) v)) (\<lambda>ns.
        parse_elems es (drop (Suc k) v) (p\<lparr>p_nsec := ns\<rparr>)))"
| "parse_elems (Frac9 # es) v p =
     (if has_frac v
      then (let (f, v') = take_frac v in
        Option.bind (parse_nanos f) (\<lambda>ns. parse_elems es v' (p\<lparr>p_nsec := ns\<rparr>)))
      else parse_elems es v p)"
| "parse_elems (ZoneColon # es) v p =
     Option.bind (parse_zone v) (\<lambda>(off, v'). parse_elems es v' (p\<lparr>p_off := Some off\<rparr>))"

text \<open>\<open>time.ParseInLocation\<close> for a location that is a fixed offset in seconds.\<close>

definition instant :: "parsed \<Rightarrow> int \<Rightarrow> time" where
  "instant p off = (days_from_civil (p_year p) (p_month p) (p_day p) * 86400
     + p_hour p * 3600 + p_min p * 60 + p_sec p - off) * second + p_nsec p"

definition parse_in_location :: "layout_elem list \<Rightarrow> string \<Rightarrow> int \<Rightarrow> time option" where
  "parse_in_location layout s off = Option.bind (parse_elems layout s parsed0) (\<lambda>p.
     let p = p\<lparr>p_month := (if p_month p < 0 then 1 else p_month p),
               p_day := (if p_day p < 0 then 1 else p_day p)\<rparr>
     in if p_day p < 1 \<or> days_in (p_month p) (p_year p) < p_day p then None
        else Some (instant p (case p_off p of None \<Rightarrow> off | Some o' \<Rightarrow> o')))"

text \<open>\<open>time.RFC3339\<close> is \<open>2006-01-02T15:04:05Z07:00\<close>.\<close>

definition rfc3339 :: "layout_elem list" where
  "rfc3339 = [Year4, Lit ''-'', Month2, Lit ''-'', Day2, Lit ''T'', Hour, Lit '':'', Minute2,
     Lit '':'', Second2, ZoneColon]"

definition parse_rfc3339 :: "string \<Rightarrow> time option" where
  "parse_rfc3339 s = parse_in_location rfc3339 s 0"

lemma parse_rfc3339_epoch: "parse_rfc3339 ''1970-01-01T00:00:00Z'' = Some 0"
  by code_simp

lemma parse_rfc3339_zero: "parse_rfc3339 ''0001-01-01T00:00:00Z'' = Some zero_time"
  by code_simp

end
