(* ===== verification/Core_Port.thy ===== *)
theory Core_Port
  imports Go_Time
begin

text \<open>
  The types the adapters exchange with the core library (packages \<open>port\<close> and \<open>shared\<close> of
  \<open>contract-to-cash/core\<close>, not part of this repository): the structs with the fields the adapters
  read and write, and the enumerations with the constants they name. Constants of the core are
  constructors; a status or type the adapter passes through with its raw name is \<open>Raw\<close>.
  Human-readable message texts of errors are not modelled; error kinds, codes and wrapped causes are.
\<close>

section \<open>Money\<close>

text \<open>\<open>shared.Money\<close> seen through \<open>Amount()\<close> (a \<open>*big.Rat\<close>, possibly nil) and \<open>Currency()\<close>.\<close>

record money =
  m_amount :: "rat option"
  m_currency :: string

definition new_money :: "rat \<Rightarrow> string \<Rightarrow> money" where
  "new_money r c = \<lparr>m_amount = Some r, m_currency = c\<rparr>"

definition CurrencyJPY :: string where "CurrencyJPY = ''JPY''"
definition CurrencyUSD :: string where "CurrencyUSD = ''USD''"
definition CurrencyEUR :: string where "CurrencyEUR = ''EUR''"

text \<open>\<open>big.Rat.IsInt\<close>, \<open>Num\<close> and \<open>Denom\<close> on the normalised fraction.\<close>

definition rat_num :: "rat \<Rightarrow> int" where "rat_num r = fst (quotient_of r)"
definition rat_denom :: "rat \<Rightarrow> int" where "rat_denom r = snd (quotient_of r)"
definition rat_is_int :: "rat \<Rightarrow> bool" where "rat_is_int r \<longleftrightarrow> rat_denom r = 1"

lemma rat_is_int_of_int [simp]: "rat_is_int (of_int i)"
  by (simp add: rat_is_int_def rat_denom_def)

lemma rat_num_of_int [simp]: "rat_num (of_int i) = i"
  by (simp add: rat_num_def)

lemma rat_signed [simp]:
  "rat_is_int (signed (w :: 'a::len word))" "rat_num (signed w) = sint w"
  by (metis of_int_sint rat_is_int_of_int) (metis of_int_sint rat_num_of_int)

lemma rat_is_int_eq: "rat_is_int r \<Longrightarrow> r = of_int (rat_num r)"
  using quotient_of_div [of r "rat_num r" "rat_denom r"]
  by (simp add: rat_is_int_def rat_num_def rat_denom_def prod_eq_iff)

lemma rat_denom_pos: "0 < rat_denom r"
  using quotient_of_denom_pos [of r "fst (quotient_of r)" "snd (quotient_of r)"]
  by (simp add: rat_denom_def)

text \<open>\<open>new(big.Int).Div(r.Num(), r.Denom())\<close> is the floor.\<close>

lemma rat_div_floor: "rat_num r div rat_denom r = \<lfloor>r\<rfloor>"
  proof -
  have "r = of_int (rat_num r) / of_int (rat_denom r)"
    using quotient_of_div [of r "rat_num r" "rat_denom r"]
    by (simp add: rat_num_def rat_denom_def prod_eq_iff)
  then have "\<lfloor>r\<rfloor> = \<lfloor>(of_int (rat_num r) :: rat) / of_int (rat_denom r)\<rfloor>" by simp
  then show ?thesis by (simp only: floor_divide_of_int_eq)
qed

section \<open>Enumerations of the port\<close>

datatype error_code = ProcessingError | CurrencyNotSupported | MethodNotSupported
  | GatewayUnavailable | GatewayTimeout | RateLimitExceeded | CardDeclined | CustomerNotFound
  | AuthenticationRequired | AmountTooSmall | AmountTooLarge | InvalidExpiryYear
  | InvalidExpiryMonth | InvalidCard | InvalidCVC | InsufficientFunds | DuplicateTransaction
  | CardExpired

datatype webhook_error_code = InvalidSignature | InvalidPayload

datatype transaction_status = TxPending | TxRequiresAction | TxAuthorized | TxCaptured
  | TxCanceled | TxSucceeded | TxFailed

datatype transaction_type = TypeAuthorize | TypeCharge

datatype refund_status = RefundSucceeded | RefundPending | RefundFailed | RefundCanceled

datatype refund_reason = ReasonDuplicate | ReasonFraudulent | ReasonRequestedByCustomer | ReasonOther
  | ReasonRaw string

datatype method_type = CreditCard | DebitCard | ConvenienceStore | BankTransfer | QRCode
  | DirectDebit | MethodRaw string

datatype card_brand = Visa | Mastercard | Amex | JCB | Diners | Discover | BrandUnknown

datatype webhook_event_type = PaymentPending | PaymentSucceeded | PaymentFailed
  | PaymentMethodAttached | PaymentMethodDetached | SubscriptionCreated | SubscriptionUpdated
  | SubscriptionCanceled | EvRefundSucceeded | EvRefundFailed | ChargebackCreated
  | ChargebackUpdated | ChargebackClosed | PaymentInstructionCreated | EventRaw string

section \<open>Errors\<close>

text \<open>
  The \<open>error\<close> values of the gateways: their own types, the port's \<open>GatewayError\<close> and
  \<open>WebhookError\<close>, the error of the Stripe SDK, an opaque error of the standard library (\<open>PlainError\<close>) and \<open>errors.Join\<close>.
  An API error is the list of its \<open>(error_code, error_message)\<close> pairs.
\<close>

datatype go_error =
    ValidationError (ve_field: string)
  | GatewayError (ge_code: error_code) (ge_decline: string) (ge_retryable: bool)
      (ge_raw: "go_error option")
  | HTTPError (he_status: int) (he_method: string) (he_path: string)
      (he_api: "(string \<times> string) list option") (he_body: string)
  | PartialAuthorizeError (pa_order: string) (pa_access: string) (pa_cause: go_error)
  | WebhookError (we_code: webhook_error_code) (we_cause: "go_error option")
  | StripeError (se_type: string) (se_code: string) (se_decline: string) (se_status: int)
  | PlainError string
  | JoinedErrors "go_error list"

section \<open>Requests and responses\<close>

record three_d_secure_request =
  tds_Required :: bool
  tds_ReturnURL :: string

record charge_request =
  cq_Token :: "string option"
  cq_PaymentMethodID :: "string option"
  cq_CustomerID :: string
  cq_Amount :: money
  cq_Description :: string
  cq_IdempotencyKey :: string
  cq_ThreeDSecure :: "three_d_secure_request option"

record charge_response =
  cr_TransactionID :: string
  cr_Status :: transaction_status
  cr_Amount :: money
  cr_PaymentMethodID :: string
  cr_PaymentMethodType :: method_type
  cr_CreatedAt :: time
  cr_Metadata :: "(string \<times> string) list"

record authorize_request =
  aq_Token :: "string option"
  aq_PaymentMethodID :: "string option"
  aq_CustomerID :: string
  aq_Amount :: money
  aq_IdempotencyKey :: string
  aq_ThreeDSecure :: "three_d_secure_request option"

record authorize_response =
  ar_AuthorizationID :: string
  ar_TransactionID :: string
  ar_Status :: transaction_status
  ar_Amount :: money
  ar_CreatedAt :: time
  ar_ExpiresAt :: "time option"
  ar_Metadata :: "(string \<times> string) list"

record capture_request =
  pq_AuthorizationID :: string
  pq_Amount :: "money option"
  pq_IdempotencyKey :: string

record capture_response =
  pc_TransactionID :: string
  pc_AuthorizationID :: string
  pc_Status :: transaction_status
  pc_Amount :: money
  pc_CapturedAt :: time

record void_request =
  vq_AuthorizationID :: string
  vq_IdempotencyKey :: string

record void_response =
  vr_AuthorizationID :: string
  vr_Status :: transaction_status
  vr_VoidedAt :: time

record cancel_request =
  nq_TransactionID :: string
  nq_IdempotencyKey :: string

record cancel_response =
  nr_TransactionID :: string
  nr_Status :: transaction_status
  nr_CanceledAt :: time

record refund_request =
  rq_TransactionID :: string
  rq_Amount :: "money option"
  rq_Reason :: refund_reason
  rq_IdempotencyKey :: string

record refund_response =
  rr_RefundID :: string
  rr_TransactionID :: string
  rr_Status :: refund_status
  rr_Amount :: money
  rr_Reason :: refund_reason
  rr_RefundedAt :: time

record transaction =
  tx_ID :: string
  tx_GatewayID :: string
  tx_Type :: transaction_type
  tx_Status :: transaction_status
  tx_Amount :: money
  tx_CustomerID :: string
  tx_PaymentMethodID :: string
  tx_AuthorizationID :: "string option"
  tx_Metadata :: "(string \<times> string) list"
  tx_CreatedAt :: time
  tx_UpdatedAt :: time

record card_details =
  cd_Brand :: card_brand
  cd_Last4 :: string
  cd_ExpYear :: int
  cd_ExpMonth :: int

record payment_method_detail =
  pd_ID :: string
  pd_CustomerID :: string
  pd_Type :: method_type
  pd_IsDefault :: bool
  pd_CreatedAt :: time
  pd_Card :: card_details

record register_request =
  gq_Type :: method_type
  gq_CustomerID :: string
  gq_Token :: string
  gq_SetAsDefault :: bool

record address =
  ad_Line1 :: string
  ad_Line2 :: string
  ad_City :: string
  ad_State :: string
  ad_PostalCode :: string
  ad_Country :: string

record customer =
  cu_ID :: string
  cu_Name :: string
  cu_Email :: string
  cu_Phone :: string
  cu_Address :: "address option"
  cu_DefaultPaymentMethodID :: "string option"
  cu_CreatedAt :: time
  cu_UpdatedAt :: time

record create_customer_request =
  ccq_InternalID :: string
  ccq_Name :: string
  ccq_Email :: string
  ccq_Phone :: string
  ccq_Description :: string
  ccq_Address :: "address option"
  ccq_Metadata :: "(string \<times> string) list"

record update_customer_request =
  ucq_CustomerID :: string
  ucq_Name :: "string option"
  ucq_Email :: "string option"
  ucq_Phone :: "string option"
  ucq_Description :: "string option"
  ucq_Address :: "address option"
  ucq_Metadata :: "(string \<times> string) list"

record webhook_request =
  wq_Headers :: "(string \<times> string) list"
  wq_Body :: string

record webhook_event =
  wv_ID :: string
  wv_Type :: webhook_event_type
  wv_CreatedAt :: time
  wv_Data :: string

end
