(* ===== verification/Go_Json.thy ===== *)
theory Go_Json
  imports Core_Port
begin

text \<open>
  \<open>encoding/json\<close> as the adapters use it. A JSON text is parsed to a value of type \<open>json\<close> (the
  parser itself, from bytes to this type, is a parameter of the components that read JSON);
  what is given here is how \<open>Unmarshal\<close> fills a Go struct from the value by its field tags.
  \<open>JInt\<close> is a number literal without fraction or exponent, \<open>JFrac\<close> any other number.

  A key of an object goes to the field whose tag equals it up to case; later keys overwrite earlier
  ones, \<open>null\<close> leaves a non-pointer field as it is, and a value of the wrong kind makes the whole
  call fail.
\<close>

datatype json = JNull | JBool bool | JInt int | JFrac rat | JStr string
  | JArr "json list" | JObj "(string \<times> json) list"

type_synonym jobj = "(string \<times> json) list"

definition field_vals :: "string \<Rightarrow> jobj \<Rightarrow> json list" where
  "field_vals tag o' = map snd (filter (\<lambda>(k, v). equal_fold k tag) o')"

definition nonnull_vals :: "string \<Rightarrow> jobj \<Rightarrow> json list" where
  "nonnull_vals tag o' = filter (\<lambda>v. v \<noteq> JNull) (field_vals tag o')"

text \<open>One field: every value given for it must convert; the last one counts.\<close>

fun conv_last :: "(json \<Rightarrow> 'a option) \<Rightarrow> 'a \<Rightarrow> json list \<Rightarrow> 'a option" where
  "conv_last conv d [] = Some d"
| "conv_last conv d (v # vs) = Option.bind (conv v) (\<lambda>a. conv_last conv a vs)"

fun conv_str :: "json \<Rightarrow> string option" where
  "conv_str (JStr s) = Some s"
| "conv_str _ = None"

fun conv_int64 :: "json \<Rightarrow> int64 option" where
  "conv_int64 (JInt i) = (if is_int64 i then Some (word_of_int i) else None)"
| "conv_int64 _ = None"

definition str_field :: "string \<Rightarrow> jobj \<Rightarrow> string option" where
  "str_field tag o' = conv_last conv_str [] (nonnull_vals tag o')"

definition int64_field :: "string \<Rightarrow> jobj \<Rightarrow> int64 option" where
  "int64_field tag o' = conv_last conv_int64 0 (nonnull_vals tag o')"

text \<open>A pointer field: \<open>null\<close> sets it to nil.\<close>

fun conv_ptr :: "(json \<Rightarrow> 'a option) \<Rightarrow> json \<Rightarrow> 'a option option" where
  "conv_ptr conv JNull = Some None"
| "conv_ptr conv v = map_option Some (conv v)"

definition ptr_int_field :: "string \<Rightarrow> jobj \<Rightarrow> int64 option option" where
  "ptr_int_field tag o' = conv_last (conv_ptr conv_int64) None (field_vals tag o')"

text \<open>A slice of structs; \<open>null\<close> resets the slice to nil.\<close>

fun conv_slice :: "(json \<Rightarrow> 'a option) \<Rightarrow> json \<Rightarrow> 'a list option" where
  "conv_slice conv JNull = Some []"
| "conv_slice conv (JArr vs) = those (map conv vs)"
| "conv_slice conv _ = None"

definition slice_field :: "(json \<Rightarrow> 'a option) \<Rightarrow> string \<Rightarrow> jobj \<Rightarrow> 'a list option" where
  "slice_field conv tag o' = conv_last (conv_slice conv) [] (field_vals tag o')"

text \<open>The whole value of a struct: an object, or \<open>null\<close>, which leaves the zero struct.\<close>

definition conv_struct :: "(jobj \<Rightarrow> 'a option) \<Rightarrow> json \<Rightarrow> 'a option" where
  "conv_struct dec j = (case j of JObj o' \<Rightarrow> dec o' | JNull \<Rightarrow> dec [] | _ \<Rightarrow> None)"

text \<open>\<open>Marshal\<close> of a string field, plain or with \<open>omitempty\<close>, and of a pointer with \<open>omitempty\<close>.\<close>

definition put_str :: "string \<Rightarrow> string \<Rightarrow> jobj" where
  "put_str tag s = [(tag, JStr s)]"

definition put_str_omitempty :: "string \<Rightarrow> string \<Rightarrow> jobj" where
  "put_str_omitempty tag s = (if s = [] then [] else [(tag, JStr s)])"

definition put_ptr_omitempty :: "string \<Rightarrow> string option \<Rightarrow> jobj" where
  "put_ptr_omitempty tag p = (case p of None \<Rightarrow> [] | Some s \<Rightarrow> [(tag, JStr s)])"

text \<open>What was written under a tag is read back, and other tags do not disturb it.\<close>

lemma field_vals_Nil [simp]: "field_vals tag [] = []"
  by (simp add: field_vals_def)

lemma field_vals_append [simp]: "field_vals tag (xs @ ys) = field_vals tag xs @ field_vals tag ys"
  by (simp add: field_vals_def)

lemma nonnull_vals_append [simp]:
  "nonnull_vals tag (xs @ ys) = nonnull_vals tag xs @ nonnull_vals tag ys"
  by (simp add: nonnull_vals_def)

lemma equal_fold_refl [simp]: "equal_fold s s"
  by (simp add: equal_fold_def)

lemma nonnull_put [simp]:
  "nonnull_vals tag (put_str tag' s) = (if equal_fold tag' tag then [JStr s] else [])"
  "nonnull_vals tag (put_str_omitempty tag' s) =
     (if equal_fold tag' tag \<and> s \<noteq> [] then [JStr s] else [])"
  by (simp_all add: nonnull_vals_def field_vals_def put_str_def put_str_omitempty_def)

end
