(* ===== verification/Fincode_Types.thy ===== *)
theory Fincode_Types
  imports Go_Json
begin

text \<open>
  The wire types of \<open>fincode/types.go\<close>: the request bodies with their JSON encoding (\<open>omitempty\<close>
  included) and the responses with their decoding by field tag. The string enumerations of the Go
  code are strings, since the server may answer with a value the adapter does not know.
\<close>

definition PayTypeCard :: string where "PayTypeCard = ''Card''"

definition JobCodeAuth :: string where "JobCodeAuth = ''AUTH''"
definition JobCodeCapture :: string where "JobCodeCapture = ''CAPTURE''"

definition PayMethodLumpSum :: string where "PayMethodLumpSum = ''1''"

definition StatusUnprocessed :: string where "StatusUnprocessed = ''UNPROCESSED''"
definition StatusChecked :: string where "StatusChecked = ''CHECKED''"
definition StatusAuthorized :: string where "StatusAuthorized = ''AUTHORIZED''"
definition StatusCaptured :: string where "StatusCaptured = ''CAPTURED''"
definition StatusCanceled :: string where "StatusCanceled = ''CANCELED''"
definition StatusAuthenticated :: string where "StatusAuthenticated = ''AUTHENTICATED''"

lemmas fincode_consts = PayTypeCard_def JobCodeAuth_def JobCodeCapture_def PayMethodLumpSum_def
  StatusUnprocessed_def StatusChecked_def StatusAuthorized_def StatusCaptured_def
  StatusCanceled_def StatusAuthenticated_def

section \<open>Request bodies\<close>

record CreatePaymentRequest =
  cp_ID :: string
  cp_PayType :: string
  cp_JobCode :: string
  cp_Amount :: string
  cp_ClientField1 :: string

definition enc_CreatePayment :: "CreatePaymentRequest \<Rightarrow> json" where
  "enc_CreatePayment r = JObj (put_str_omitempty ''id'' (cp_ID r)
     @ put_str ''pay_type'' (cp_PayType r) @ put_str ''job_code'' (cp_JobCode r)
     @ put_str_omitempty ''amount'' (cp_Amount r)
     @ put_str_omitempty ''client_field_1'' (cp_ClientField1 r))"

record ExecutePaymentRequest =
  ep_PayType :: string
  ep_AccessID :: string
  ep_Token :: string
  ep_CustomerID :: string
  ep_CardID :: string
  ep_Method :: string

definition enc_ExecutePayment :: "ExecutePaymentRequest \<Rightarrow> json" where
  "enc_ExecutePayment r = JObj (put_str ''pay_type'' (ep_PayType r)
     @ put_str ''access_id'' (ep_AccessID r) @ put_str_omitempty ''token'' (ep_Token r)
     @ put_str_omitempty ''customer_id'' (ep_CustomerID r)
     @ put_str_omitempty ''card_id'' (ep_CardID r) @ put_str_omitempty ''method'' (ep_Method r))"

text \<open>\<open>CapturePaymentRequest\<close> and \<open>CancelPaymentRequest\<close> with the fields the gateway sets.\<close>

record AccessRequest =
  ac_PayType :: string
  ac_AccessID :: string

definition enc_Access :: "AccessRequest \<Rightarrow> json" where
  "enc_Access r = JObj (put_str ''pay_type'' (ac_PayType r) @ put_str ''access_id'' (ac_AccessID r))"

record ChangeAmountRequest =
  ca_PayType :: string
  ca_AccessID :: string
  ca_JobCode :: string
  ca_Amount :: string

definition enc_ChangeAmount :: "ChangeAmountRequest \<Rightarrow> json" where
  "enc_ChangeAmount r = JObj (put_str ''pay_type'' (ca_PayType r)
     @ put_str ''access_id'' (ca_AccessID r) @ put_str ''job_code'' (ca_JobCode r)
     @ put_str ''amount'' (ca_Amount r))"

record CreateCardRequest =
  cc_Token :: string
  cc_DefaultFlag :: string

definition enc_CreateCard :: "CreateCardRequest \<Rightarrow> json" where
  "enc_CreateCard r = JObj (put_str ''token'' (cc_Token r)
     @ put_str_omitempty ''default_flag'' (cc_DefaultFlag r))"

definition enc_UpdateCard :: "string \<Rightarrow> json" where
  "enc_UpdateCard flag = JObj (put_str_omitempty ''default_flag'' flag)"

record CreateCustomerRequest =
  fc_ID :: string
  fc_Name :: string
  fc_Email :: string
  fc_PhoneCC :: string
  fc_PhoneNo :: string
  fc_AddrCity :: string
  fc_AddrCountry :: string
  fc_AddrLine1 :: string
  fc_AddrLine2 :: string
  fc_AddrLine3 :: string
  fc_AddrPostCode :: string
  fc_AddrState :: string

definition enc_CreateCustomer :: "CreateCustomerRequest \<Rightarrow> json" where
  "enc_CreateCustomer r = JObj (put_str_omitempty ''id'' (fc_ID r)
     @ put_str_omitempty ''name'' (fc_Name r) @ put_str_omitempty ''email'' (fc_Email r)
     @ put_str_omitempty ''phone_cc'' (fc_PhoneCC r) @ put_str_omitempty ''phone_no'' (fc_PhoneNo r)
     @ put_str_omitempty ''addr_city'' (fc_AddrCity r)
     @ put_str_omitempty ''addr_country'' (fc_AddrCountry r)
     @ put_str_omitempty ''addr_line_1'' (fc_AddrLine1 r)
     @ put_str_omitempty ''addr_line_2'' (fc_AddrLine2 r)
     @ put_str_omitempty ''addr_line_3'' (fc_AddrLine3 r)
     @ put_str_omitempty ''addr_post_code'' (fc_AddrPostCode r)
     @ put_str_omitempty ''addr_state'' (fc_AddrState r))"

record UpdateCustomerRequest =
  fu_Name :: "string option"
  fu_Email :: "string option"
  fu_PhoneCC :: "string option"
  fu_PhoneNo :: "string option"
  fu_AddrCity :: "string option"
  fu_AddrCountry :: "string option"
  fu_AddrLine1 :: "string option"
  fu_AddrLine2 :: "string option"
  fu_AddrLine3 :: "string option"
  fu_AddrPostCode :: "string option"
  fu_AddrState :: "string option"

definition enc_UpdateCustomer :: "UpdateCustomerRequest \<Rightarrow> json" where
  "enc_UpdateCustomer r = JObj (put_ptr_omitempty ''name'' (fu_Name r)
     @ put_ptr_omitempty ''email'' (fu_Email r) @ put_ptr_omitempty ''phone_cc'' (fu_PhoneCC r)
     @ put_ptr_omitempty ''phone_no'' (fu_PhoneNo r) @ put_ptr_omitempty ''addr_city'' (fu_AddrCity r)
     @ put_ptr_omitempty ''addr_country'' (fu_AddrCountry r)
     @ put_ptr_omitempty ''addr_line_1'' (fu_AddrLine1 r)
     @ put_ptr_omitempty ''addr_line_2'' (fu_AddrLine2 r)
     @ put_ptr_omitempty ''addr_line_3'' (fu_AddrLine3 r)
     @ put_ptr_omitempty ''addr_post_code'' (fu_AddrPostCode r)
     @ put_ptr_omitempty ''addr_state'' (fu_AddrState r))"

section \<open>Responses\<close>

record PaymentResponse =
  py_ShopID :: string
  py_ID :: string
  py_AccessID :: string
  py_Amount :: int64
  py_Tax :: int64
  py_TotalAmount :: int64
  py_ClientField1 :: string
  py_ClientField2 :: string
  py_ClientField3 :: string
  py_ProcessDate :: string
  py_CustomerID :: string
  py_PayType :: string
  py_Status :: string
  py_JobCode :: string
  py_CardID :: string
  py_Brand :: string
  py_CardNo :: string
  py_Expire :: string
  py_HolderName :: string
  py_Method :: string
  py_PayTimes :: "int64 option"
  py_Forward :: string
  py_Issuer :: string
  py_TransactionID :: string
  py_Approve :: string
  py_AuthMaxDate :: string
  py_ErrorCode :: string
  py_Created :: string
  py_Updated :: string

definition dec_PaymentFields :: "jobj \<Rightarrow> PaymentResponse option" where
  "dec_PaymentFields o' = do {
     shop \<leftarrow> str_field ''shop_id'' o'; i \<leftarrow> str_field ''id'' o'; acc \<leftarrow> str_field ''access_id'' o';
     amt \<leftarrow> int64_field ''amount'' o'; tax \<leftarrow> int64_field ''tax'' o';
     tot \<leftarrow> int64_field ''total_amount'' o';
     f1 \<leftarrow> str_field ''client_field_1'' o'; f2 \<leftarrow> str_field ''client_field_2'' o';
     f3 \<leftarrow> str_field ''client_field_3'' o'; pd \<leftarrow> str_field ''process_date'' o';
     cust \<leftarrow> str_field ''customer_id'' o'; pt \<leftarrow> str_field ''pay_type'' o';
     st \<leftarrow> str_field ''status'' o'; jc \<leftarrow> str_field ''job_code'' o'; card \<leftarrow> str_field ''card_id'' o';
     br \<leftarrow> str_field ''brand'' o'; no \<leftarrow> str_field ''card_no'' o'; ex \<leftarrow> str_field ''expire'' o';
     hn \<leftarrow> str_field ''holder_name'' o'; me \<leftarrow> str_field ''method'' o';
     tms \<leftarrow> ptr_int_field ''pay_times'' o'; fw \<leftarrow> str_field ''forward'' o';
     iss \<leftarrow> str_field ''issuer'' o'; tid \<leftarrow> str_field ''transaction_id'' o';
     ap \<leftarrow> str_field ''approve'' o'; amd \<leftarrow> str_field ''auth_max_date'' o';
     ec \<leftarrow> str_field ''error_code'' o'; cr \<leftarrow> str_field ''created'' o'; up \<leftarrow> str_field ''updated'' o';
     Some \<lparr>py_ShopID = shop, py_ID = i, py_AccessID = acc, py_Amount = amt, py_Tax = tax,
       py_TotalAmount = tot, py_ClientField1 = f1, py_ClientField2 = f2, py_ClientField3 = f3,
       py_ProcessDate = pd, py_CustomerID = cust, py_PayType = pt, py_Status = st, py_JobCode = jc,
       py_CardID = card, py_Brand = br, py_CardNo = no, py_Expire = ex, py_HolderName = hn,
       py_Method = me, py_PayTimes = tms, py_Forward = fw, py_Issuer = iss, py_TransactionID = tid,
       py_Approve = ap, py_AuthMaxDate = amd, py_ErrorCode = ec, py_Created = cr, py_Updated = up\<rparr>
   }"

definition dec_Payment :: "json \<Rightarrow> PaymentResponse option" where
  "dec_Payment = conv_struct dec_PaymentFields"

record CardResponse =
  rc_CustomerID :: string
  rc_ID :: string
  rc_DefaultFlag :: string
  rc_CardNo :: string
  rc_Expire :: string
  rc_HolderName :: string
  rc_Type :: string
  rc_Brand :: string
  rc_Created :: string
  rc_Updated :: string

definition dec_Card :: "json \<Rightarrow> CardResponse option" where
  "dec_Card = conv_struct (\<lambda>o'. do {
     cust \<leftarrow> str_field ''customer_id'' o'; i \<leftarrow> str_field ''id'' o';
     df \<leftarrow> str_field ''default_flag'' o'; no \<leftarrow> str_field ''card_no'' o';
     ex \<leftarrow> str_field ''expire'' o'; hn \<leftarrow> str_field ''holder_name'' o';
     ty \<leftarrow> str_field ''type'' o'; br \<leftarrow> str_field ''brand'' o';
     cr \<leftarrow> str_field ''created'' o'; up \<leftarrow> str_field ''updated'' o';
     Some \<lparr>rc_CustomerID = cust, rc_ID = i, rc_DefaultFlag = df, rc_CardNo = no, rc_Expire = ex,
       rc_HolderName = hn, rc_Type = ty, rc_Brand = br, rc_Created = cr, rc_Updated = up\<rparr> })"

definition dec_CardList :: "json \<Rightarrow> CardResponse list option" where
  "dec_CardList = conv_struct (slice_field dec_Card ''list'')"

text \<open>The delete responses are decoded for well-formedness only; the gateway drops them.\<close>

definition dec_DeleteCard :: "json \<Rightarrow> (string \<times> string \<times> string) option" where
  "dec_DeleteCard = conv_struct (\<lambda>o'. do {
     cust \<leftarrow> str_field ''customer_id'' o'; i \<leftarrow> str_field ''id'' o';
     df \<leftarrow> str_field ''delete_flag'' o'; Some (cust, i, df) })"

record CustomerResponse =
  re_ID :: string
  re_Name :: string
  re_Email :: string
  re_PhoneCC :: string
  re_PhoneNo :: string
  re_AddrCity :: string
  re_AddrCountry :: string
  re_AddrLine1 :: string
  re_AddrLine2 :: string
  re_AddrLine3 :: string
  re_AddrPostCode :: string
  re_AddrState :: string
  re_CardRegistration :: string
  re_Created :: string
  re_Updated :: string

definition dec_Customer :: "json \<Rightarrow> CustomerResponse option" where
  "dec_Customer = conv_struct (\<lambda>o'. do {
     i \<leftarrow> str_field ''id'' o'; nm \<leftarrow> str_field ''name'' o'; em \<leftarrow> str_field ''email'' o';
     pc \<leftarrow> str_field ''phone_cc'' o'; pn \<leftarrow> str_field ''phone_no'' o';
     ci \<leftarrow> str_field ''addr_city'' o'; co \<leftarrow> str_field ''addr_country'' o';
     l1 \<leftarrow> str_field ''addr_line_1'' o'; l2 \<leftarrow> str_field ''addr_line_2'' o';
     l3 \<leftarrow> str_field ''addr_line_3'' o'; po \<leftarrow> str_field ''addr_post_code'' o';
     sta \<leftarrow> str_field ''addr_state'' o'; cg \<leftarrow> str_field ''card_registration'' o';
     cr \<leftarrow> str_field ''created'' o'; up \<leftarrow> str_field ''updated'' o';
     Some \<lparr>re_ID = i, re_Name = nm, re_Email = em, re_PhoneCC = pc, re_PhoneNo = pn,
       re_AddrCity = ci, re_AddrCountry = co, re_AddrLine1 = l1, re_AddrLine2 = l2,
       re_AddrLine3 = l3, re_AddrPostCode = po, re_AddrState = sta, re_CardRegistration = cg,
       re_Created = cr, re_Updated = up\<rparr> })"

definition dec_DeleteCustomer :: "json \<Rightarrow> (string \<times> string) option" where
  "dec_DeleteCustomer = conv_struct (\<lambda>o'. do {
     i \<leftarrow> str_field ''id'' o'; df \<leftarrow> str_field ''delete_flag'' o'; Some (i, df) })"

text \<open>The error body: the list of its \<open>(error_code, error_message)\<close> pairs.\<close>

definition dec_ErrorResponse :: "json \<Rightarrow> (string \<times> string) list option" where
  "dec_ErrorResponse = conv_struct (slice_field (conv_struct (\<lambda>o'. do {
     ec \<leftarrow> str_field ''error_code'' o'; em \<leftarrow> str_field ''error_message'' o'; Some (ec, em) }))
     ''errors'')"

section \<open>Errors\<close>

text \<open>
  \<open>errors.As(err, &he)\<close> for \<open>*HTTPError\<close>: the first one along the \<open>Unwrap\<close> chain. A \<open>GatewayError\<close>
  unwraps to its \<open>RawError\<close>, a partial-authorize error to its cause.
\<close>

fun as_http :: "go_error \<Rightarrow> (int \<times> (string \<times> string) list option) option"
  and as_http_list :: "go_error list \<Rightarrow> (int \<times> (string \<times> string) list option) option" where
  "as_http (HTTPError st _ _ api _) = Some (st, api)"
| "as_http (GatewayError _ _ _ raw) = (case raw of None \<Rightarrow> None | Some e \<Rightarrow> as_http e)"
| "as_http (PartialAuthorizeError _ _ c) = as_http c"
| "as_http (WebhookError _ c) = (case c of None \<Rightarrow> None | Some e \<Rightarrow> as_http e)"
| "as_http (ValidationError _) = None"
| "as_http (PlainError _) = None"
| "as_http (StripeError _ _ _ _) = None"
| "as_http (JoinedErrors es) = as_http_list es"
| "as_http_list [] = None"
| "as_http_list (e # es) = (case as_http e of None \<Rightarrow> as_http_list es | Some h \<Rightarrow> Some h)"

text \<open>\<open>ErrorResponse.Error()\<close>: the codes and messages, joined.\<close>

fun join_strings :: "string \<Rightarrow> string list \<Rightarrow> string" where
  "join_strings sep [] = []"
| "join_strings sep [s] = s"
| "join_strings sep (s # ss) = s @ sep @ join_strings sep ss"

definition error_response_text :: "(string \<times> string) list \<Rightarrow> string" where
  "error_response_text errs = (if errs = [] then ''fincode: unknown error''
     else ''fincode: '' @ join_strings ''; '' (map (\<lambda>(c, m). c @ '': '' @ m) errs))"

definition http_error_text :: "string \<Rightarrow> string \<Rightarrow> int \<Rightarrow> (string \<times> string) list option \<Rightarrow> string \<Rightarrow> string" where
  "http_error_text meth path st api body =
     ''fincode: '' @ meth @ '' '' @ path @ '': HTTP '' @ format_int st @ '': ''
       @ (case api of Some errs \<Rightarrow> error_response_text errs | None \<Rightarrow> body)"

end
