(* ===== verification/Go_Hash.thy ===== *)
theory Go_Hash
  imports Go_Base
begin

unbundle bit_operations_syntax

text \<open>
  The pieces of Go's \<open>crypto/sha256\<close>, \<open>crypto/hmac\<close>, \<open>encoding/base32\<close>,
  \<open>encoding/base64\<close> and \<open>encoding/hex\<close> that the gateways use: SHA-256 (FIPS 180-4),
  HMAC-SHA256 (RFC 2104), unpadded base32 and padded base64 (RFC 4648), lower-case hex.
  Bytes are \<open>8 word\<close>; \<open>bytes_of\<close> and \<open>string_of\<close> convert to and from strings.
  The lemmas give the lengths and alphabets the derived identifiers rely on.
\<close>

type_synonym byte = "8 word"
type_synonym w32 = "32 word"

definition bytes_of :: "string \<Rightarrow> byte list" where "bytes_of = map of_char"
definition string_of :: "byte list \<Rightarrow> string" where "string_of = map (\<lambda>b. char_of (unat b))"

lemma length_bytes_of [simp]: "length (bytes_of s) = length s"
  by (simp add: bytes_of_def)

section \<open>SHA-256\<close>

definition sha_K :: "w32 list" where
  "sha_K = [
    1116352408, 1899447441, 3049323471, 3921009573, 961987163, 1508970993, 2453635748, 2870763221,
    3624381080, 310598401, 607225278, 1426881987, 1925078388, 2162078206, 2614888103, 3248222580,
    3835390401, 4022224774, 264347078, 604807628, 770255983, 1249150122, 1555081692, 1996064986,
    2554220882, 2821834349, 2952996808, 3210313671, 3336571891, 3584528711, 113926993, 338241895,
    666307205, 773529912, 1294757372, 1396182291, 1695183700, 1986661051, 2177026350, 2456956037,
    2730485921, 2820302411, 3259730800, 3345764771, 3516065817, 3600352804, 4094571909, 275423344,
    430227734, 506948616, 659060556, 883997877, 958139571, 1322822218, 1537002063, 1747873779,
    1955562222, 2024104815, 2227730452, 2361852424, 2428436474, 2756734187, 3204031479, 3329325298]"

type_synonym sha_state = "w32 \<times> w32 \<times> w32 \<times> w32 \<times> w32 \<times> w32 \<times> w32 \<times> w32"

definition sha_init :: sha_state where
  "sha_init = (1779033703, 3144134277, 1013904242, 2773480762,
    1359893119, 2600822924, 528734635, 1541459225)"

definition rotr :: "nat \<Rightarrow> w32 \<Rightarrow> w32" where
  "rotr n x = drop_bit n x OR push_bit (32 - n) x"

definition big_sigma0 :: "w32 \<Rightarrow> w32" where
  "big_sigma0 x = rotr 2 x XOR rotr 13 x XOR rotr 22 x"
definition big_sigma1 :: "w32 \<Rightarrow> w32" where
  "big_sigma1 x = rotr 6 x XOR rotr 11 x XOR rotr 25 x"
definition small_sigma0 :: "w32 \<Rightarrow> w32" where
  "small_sigma0 x = rotr 7 x XOR rotr 18 x XOR drop_bit 3 x"
definition small_sigma1 :: "w32 \<Rightarrow> w32" where
  "small_sigma1 x = rotr 17 x XOR rotr 19 x XOR drop_bit 10 x"
definition sha_ch :: "w32 \<Rightarrow> w32 \<Rightarrow> w32 \<Rightarrow> w32" where
  "sha_ch x y z = (x AND y) XOR (NOT x AND z)"
definition sha_maj :: "w32 \<Rightarrow> w32 \<Rightarrow> w32 \<Rightarrow> w32" where
  "sha_maj x y z = (x AND y) XOR (x AND z) XOR (y AND z)"

definition be32 :: "byte list \<Rightarrow> w32" where
  "be32 = foldl (\<lambda>acc b. push_bit 8 acc OR ucast b) 0"

definition be_bytes :: "w32 \<Rightarrow> byte list" where
  "be_bytes w = [ucast (drop_bit 24 w), ucast (drop_bit 16 w), ucast (drop_bit 8 w), ucast w]"

fun chunks :: "nat \<Rightarrow> nat \<Rightarrow> 'a list \<Rightarrow> 'a list list" where
  "chunks 0 k xs = []"
| "chunks (Suc n) k xs = take k xs # chunks n k (drop k xs)"

text \<open>The padding: \<open>0x80\<close>, zeroes up to 56 bytes modulo 64, the length in bits.\<close>

definition sha_pad :: "byte list \<Rightarrow> byte list" where
  "sha_pad m = m @ [0x80] @ replicate ((119 - length m mod 64) mod 64) 0
     @ (let n = word_of_int (8 * int (length m)) :: 64 word
        in be_bytes (ucast (drop_bit 32 n)) @ be_bytes (ucast n))"

text \<open>The message schedule, kept reversed: the head is the latest word.\<close>

fun sha_schedule :: "nat \<Rightarrow> w32 list \<Rightarrow> w32 list" where
  "sha_schedule 0 ws = rev ws"
| "sha_schedule (Suc n) ws =
     sha_schedule n ((small_sigma1 (ws ! 1) + ws ! 6 + small_sigma0 (ws ! 14) + ws ! 15) # ws)"

fun sha_round :: "sha_state \<Rightarrow> w32 \<times> w32 \<Rightarrow> sha_state" where
  "sha_round (a, b, c, d, e, f, g, h) (k, w) =
     (let t1 = h + big_sigma1 e + sha_ch e f g + k + w;
          t2 = big_sigma0 a + sha_maj a b c
      in (t1 + t2, a, b, c, d + t1, e, f, g))"

fun sha_add :: "sha_state \<Rightarrow> sha_state \<Rightarrow> sha_state" where
  "sha_add (a, b, c, d, e, f, g, h) (a', b', c', d', e', f', g', h') =
     (a + a', b + b', c + c', d + d', e + e', f + f', g + g', h + h')"

definition sha_block :: "sha_state \<Rightarrow> byte list \<Rightarrow> sha_state" where
  "sha_block s blk =
     sha_add s (foldl sha_round s (zip sha_K (sha_schedule 48 (rev (map be32 (chunks 16 4 blk))))))"

fun sha_output :: "sha_state \<Rightarrow> byte list" where
  "sha_output (a, b, c, d, e, f, g, h) = concat (map be_bytes [a, b, c, d, e, f, g, h])"

definition sha256 :: "byte list \<Rightarrow> byte list" where
  "sha256 m = (let p = sha_pad m in
     sha_output (foldl sha_block sha_init (chunks (length p div 64) 64 p)))"

lemma length_be_bytes [simp]: "length (be_bytes w) = 4"
  by (simp add: be_bytes_def)

lemma length_sha256 [simp]: "length (sha256 m) = 32"
proof -
  have "length (sha_output s) = 32" for s by (cases s rule: sha_output.cases) simp
  then show ?thesis by (simp add: sha256_def Let_def)
qed

lemma length_sha_pad: "64 dvd length (sha_pad m)"
proof -
  define q r where "q = length m div 64" and "r = length m mod 64"
  then have m: "length m = 64 * q + r" and r: "r < 64" by simp_all
  have "64 dvd r + (9 + (119 - r) mod 64)"
    using r by (cases "r < 56") (simp_all add: mod_if)
  then have "64 dvd 64 * q + (r + (9 + (119 - r) mod 64))" by simp
  moreover have "length (sha_pad m) = 64 * q + (r + (9 + (119 - r) mod 64))"
    using m r by (simp add: sha_pad_def Let_def)
  ultimately show ?thesis by simp
qed

definition hmac_sha256 :: "byte list \<Rightarrow> byte list \<Rightarrow> byte list" where
  "hmac_sha256 key msg =
     (let k = (if 64 < length key then sha256 key else key);
          k' = k @ replicate (64 - length k) 0
      in sha256 (map (\<lambda>b. b XOR 0x5c) k' @ sha256 (map (\<lambda>b. b XOR 0x36) k' @ msg)))"

section \<open>Encodings\<close>

text \<open>All three encodings read the bytes as one bit string, most significant bit first.\<close>

definition byte_bits :: "byte \<Rightarrow> bool list" where
  "byte_bits b = map (bit b) [7, 6, 5, 4, 3, 2, 1, 0]"

definition bits_val :: "bool list \<Rightarrow> nat" where
  "bits_val = foldl (\<lambda>n b. 2 * n + (if b then 1 else 0)) 0"

text \<open>Groups of \<open>k\<close> bits, the last one filled with zero bits.\<close>

definition bit_groups :: "nat \<Rightarrow> byte list \<Rightarrow> nat list" where
  "bit_groups k bs = (let bits = concat (map byte_bits bs); n = (length bits + k - 1) div k
     in map bits_val (chunks n k (bits @ replicate (n * k - length bits) False)))"

definition base32_char :: "nat \<Rightarrow> char" where
  "base32_char n = char_of (if n < 26 then 65 + n else 50 + (n - 26))"

definition base32_nopad :: "byte list \<Rightarrow> string" where
  "base32_nopad bs = map base32_char (bit_groups 5 bs)"

definition base64_char :: "nat \<Rightarrow> char" where
  "base64_char n = char_of (if n < 26 then 65 + n else if n < 52 then 97 + (n - 26)
     else if n < 62 then 48 + (n - 52) else if n = 62 then 43 else 47)"

definition base64_std :: "byte list \<Rightarrow> string" where
  "base64_std bs = (let s = map base64_char (bit_groups 6 bs)
     in s @ replicate ((4 - length s mod 4) mod 4) (CHR ''=''))"

definition hex_char :: "nat \<Rightarrow> char" where
  "hex_char n = char_of (if n < 10 then 48 + n else 97 + (n - 10))"

definition hex_encode :: "byte list \<Rightarrow> string" where
  "hex_encode bs = map hex_char (bit_groups 4 bs)"

lemma length_byte_bits [simp]: "length (byte_bits b) = 8"
  by (simp add: byte_bits_def)

lemma length_chunks [simp]: "length (chunks n k xs) = n"
  by (induction n k xs rule: chunks.induct) simp_all

lemma length_concat_byte_bits [simp]: "length (concat (map byte_bits bs)) = 8 * length bs"
  by (induction bs) simp_all

lemma length_bit_groups: "length (bit_groups k bs) = (8 * length bs + k - 1) div k"
  by (simp add: bit_groups_def Let_def)

lemma bits_val_less: "bits_val bs < 2 ^ length bs"
proof (induction bs rule: rev_induct)
  case Nil
  then show ?case by (simp add: bits_val_def)
next
  case (snoc b bs)
  have "bits_val (bs @ [b]) = 2 * bits_val bs + (if b then 1 else 0)"
    by (simp add: bits_val_def)
  with snoc.IH show ?case by (cases b) auto
qed

lemma length_in_chunks: "c \<in> set (chunks n k xs) \<Longrightarrow> length c \<le> k"
  by (induction n k xs rule: chunks.induct) auto

lemma bit_groups_less: "g \<in> set (bit_groups k bs) \<Longrightarrow> g < 2 ^ k"
proof -
  assume "g \<in> set (bit_groups k bs)"
  then obtain c where g: "g = bits_val c" and c: "length c \<le> k"
    by (auto simp: bit_groups_def Let_def dest: length_in_chunks)
  have "bits_val c < 2 ^ length c" by (rule bits_val_less)
  also have "\<dots> \<le> 2 ^ k" using c by (intro power_increasing) simp_all
  finally show ?thesis using g by simp
qed

lemma length_base32_nopad: "length (base32_nopad bs) = (8 * length bs + 4) div 5"
  by (simp add: base32_nopad_def length_bit_groups)

text \<open>The characters of a lower-cased base32 string are digits and lower-case letters.\<close>

definition is_lower_alnum :: "char \<Rightarrow> bool" where
  "is_lower_alnum c \<longleftrightarrow> is_digit c \<or> (97 \<le> (of_char c :: nat) \<and> (of_char c :: nat) \<le> 122)"

lemma lower_base32_char: "n < 32 \<Longrightarrow> is_lower_alnum (lower_char (base32_char n))"
  by (auto simp: is_lower_alnum_def lower_char_def base32_char_def is_digit_def)

lemma base32_char_ascii: "n < 32 \<Longrightarrow> is_ascii (base32_char n)"
  by (auto simp: is_ascii_def base32_char_def)

lemma to_lower_base32: "to_lower (base32_nopad bs) = map lower_char (base32_nopad bs)"
proof (rule to_lower_ascii)
  show "list_all is_ascii (base32_nopad bs)"
    using bit_groups_less [of _ 5 bs] by (auto simp: base32_nopad_def list_all_iff intro!: base32_char_ascii)
qed

lemma lower_base32_alnum: "c \<in> set (to_lower (base32_nopad bs)) \<Longrightarrow> is_lower_alnum c"
  using bit_groups_less [of _ 5 bs]
  unfolding to_lower_base32 by (auto simp: base32_nopad_def intro!: lower_base32_char)

text \<open>Base64 text is never empty for nonempty input and has no white space.\<close>

lemma base64_char_not_space: "n < 64 \<Longrightarrow> is_ascii (base64_char n) \<and> \<not> is_space (base64_char n)"
  by (auto simp: is_space_def is_ascii_def base64_char_def)

lemma base64_std_not_space: "c \<in> set (base64_std bs) \<Longrightarrow> is_ascii c \<and> \<not> is_space c"
proof -
  assume "c \<in> set (base64_std bs)"
  then have "(\<exists>n \<in> set (bit_groups 6 bs). c = base64_char n) \<or> c = CHR ''=''"
    by (auto simp: base64_std_def Let_def split: if_splits)
  moreover have "is_ascii (CHR ''='') \<and> \<not> is_space (CHR ''='')" by (simp add: is_space_def is_ascii_def)
  ultimately show ?thesis
    using bit_groups_less [of _ 6 bs] base64_char_not_space by auto
qed

lemma trim_base64 [simp]: "trim_space (base64_std bs) = base64_std bs"
  by (rule trim_space_ascii) (meson base64_std_not_space hd_in_set last_in_set)

lemma base64_std_nonempty: "bs \<noteq> [] \<Longrightarrow> base64_std bs \<noteq> []"
  using length_bit_groups [of 6 bs] by (cases bs) (auto simp: base64_std_def Let_def)

lemma length_hmac_sha256 [simp]: "length (hmac_sha256 k m) = 32"
  by (simp add: hmac_sha256_def Let_def)

end
