(* ===== verification/Go_Url.thy ===== *)
theory Go_Url
  imports Go_Base
begin

text \<open>
  The escaping of \<open>net/url\<close> that the gateways and the PostgreSQL connection string use, on texts as lists of
  bytes, with the decoding of percent escapes.
\<close>

text \<open>\<open>url.PathEscape\<close> and \<open>url.QueryEscape\<close>.\<close>

definition unreserved :: "char \<Rightarrow> bool" where
  "unreserved c \<longleftrightarrow> is_digit c \<or> (65 \<le> (of_char c :: nat) \<and> (of_char c :: nat) \<le> 90)
     \<or> (97 \<le> (of_char c :: nat) \<and> (of_char c :: nat) \<le> 122) \<or> c \<in> set ''-_.~''"

definition upper_hex :: "nat \<Rightarrow> char" where
  "upper_hex n = char_of (if n < 10 then 48 + n else 65 + (n - 10))"

definition percent :: "char \<Rightarrow> string" where
  "percent c = [CHR ''%'', upper_hex (of_char c div 16), upper_hex (of_char c mod 16)]"

definition path_kept :: "char \<Rightarrow> bool" where
  "path_kept c \<longleftrightarrow> unreserved c \<or> c \<in> set ''$&+:=@''"

definition path_escape :: "string \<Rightarrow> string" where
  "path_escape s = concat (map (\<lambda>c. if path_kept c then [c] else percent c) s)"

definition query_escape :: "string \<Rightarrow> string" where
  "query_escape s = concat (map (\<lambda>c. if unreserved c then [c]
     else if c = CHR '' '' then ''+'' else percent c) s)"

section \<open>Escaped texts are safe and distinct\<close>

text \<open>
  \<open>path_escape\<close> keeps an identifier inside its path segment: no slash, question mark or hash
  survives, and different identifiers stay different.
\<close>

lemma upper_hex_inj: "m < 16 \<Longrightarrow> n < 16 \<Longrightarrow> upper_hex m = upper_hex n \<Longrightarrow> m = n"
proof -
  assume m: "m < 16" and n: "n < 16" and e: "upper_hex m = upper_hex n"
  have v: "(of_char (upper_hex k) :: nat) = (if k < 10 then 48 + k else 55 + k)" if "k < 16" for k
    using that by (auto simp: upper_hex_def)
  from e have "(of_char (upper_hex m) :: nat) = of_char (upper_hex n)" by simp
  with m n show "m = n" by (auto simp: v split: if_splits)
qed

lemma upper_hex_unreserved: "n < 16 \<Longrightarrow> unreserved (upper_hex n)"
  by (auto simp: unreserved_def upper_hex_def is_digit_def)

lemma of_char_less_256: "(of_char c :: nat) < 256"
  by (rule nat_of_char_less_256)

lemma percent_inj: "percent c = percent d \<Longrightarrow> c = d"
proof -
  assume a: "percent c = percent d"
  have hi: "(of_char x :: nat) div 16 < 16" for x by (simp add: of_char_less_256 less_mult_imp_div_less)
  have "(of_char c :: nat) div 16 = of_char d div 16" "(of_char c :: nat) mod 16 = of_char d mod 16"
    using a upper_hex_inj [OF hi hi] upper_hex_inj [of "of_char c mod 16" "of_char d mod 16"]
    by (simp_all add: percent_def)
  then have "(of_char c :: nat) = of_char d" by (metis div_mult_mod_eq)
  then show "c = d" by (simp add: of_char_eq_iff)
qed

lemma path_escape_Nil [simp]: "path_escape [] = []"
  by (simp add: path_escape_def)

lemma path_escape_Cons:
  "path_escape (c # s) = (if path_kept c then [c] else percent c) @ path_escape s"
  by (simp add: path_escape_def)

lemma percent_not_kept: "path_kept c \<Longrightarrow> c \<noteq> CHR ''%''"
  by (auto simp: path_kept_def unreserved_def is_digit_def)

lemma percent_Cons: "\<exists>a b. percent c = [CHR ''%'', a, b]"
  by (simp add: percent_def)

lemma path_escape_inj: "path_escape s = path_escape t \<Longrightarrow> s = t"
proof (induction s arbitrary: t)
  case Nil
  then show ?case by (cases t) (auto simp: path_escape_Cons percent_def split: if_splits)
next
  case (Cons c s)
  then obtain d t' where t: "t = d # t'"
    by (cases t) (auto simp: path_escape_Cons percent_def split: if_splits)
  have e: "(if path_kept c then [c] else percent c) @ path_escape s
         = (if path_kept d then [d] else percent d) @ path_escape t'"
    using Cons.prems unfolding t path_escape_Cons .
  obtain a b a' b' where p: "percent c = [CHR ''%'', a, b]" "percent d = [CHR ''%'', a', b']"
    using percent_Cons by meson
  have "c = d \<and> path_escape s = path_escape t'"
    using e p percent_inj [of c d] percent_not_kept [of c] percent_not_kept [of d]
    by (auto split: if_splits)
  with Cons.IH t show ?case by simp
qed

lemma percent_kept: "x \<in> set (percent c) \<Longrightarrow> unreserved x \<or> x = CHR ''%''"
  using upper_hex_unreserved [of "of_char c div 16"] upper_hex_unreserved [of "of_char c mod 16"]
    of_char_less_256 [of c]
  by (auto simp: percent_def less_mult_imp_div_less)

lemma path_escape_chars: "x \<in> set (path_escape s) \<Longrightarrow> path_kept x \<or> x = CHR ''%''"
  by (induction s) (auto simp: path_escape_Cons path_kept_def dest: percent_kept split: if_splits)

lemma path_escape_safe:
  assumes "x \<in> set (path_escape s)"
  shows "x \<notin> set ''/?#''"
  using path_escape_chars [OF assms] by (auto simp: path_kept_def unreserved_def is_digit_def)

section \<open>Decoding\<close>

definition hex_value :: "char \<Rightarrow> nat option" where
  "hex_value c = (let n = of_char c in
     if is_digit c then Some (n - 48) else if 65 \<le> n \<and> n \<le> 70 then Some (n - 55) else if 97 \<le> n \<and> n \<le> 102 then Some (n - 87)
     else None)"

text \<open>Percent escapes are decoded, everything else stays; \<open>None\<close> for an escape that is not one.\<close>

fun percent_decode :: "string \<Rightarrow> string option" where
  "percent_decode [] = Some []"
| "percent_decode (c # s) = (if c = CHR ''%'' then
     (case s of a # b # t \<Rightarrow> (case (hex_value a, hex_value b) of
          (Some h, Some l) \<Rightarrow> map_option (Cons (char_of (16 * h + l))) (percent_decode t) | _ \<Rightarrow> None)
      | _ \<Rightarrow> None)
     else map_option (Cons c) (percent_decode s))"

lemma hex_value_upper: "n < 16 \<Longrightarrow> hex_value (upper_hex n) = Some n"
  by (auto simp: hex_value_def upper_hex_def is_digit_def Let_def)

lemma percent_decode_percent: "percent_decode (percent c @ s) = map_option (Cons c) (percent_decode s)"
proof -
  have "(of_char c :: nat) div 16 < 16" by (simp add: of_char_less_256 less_mult_imp_div_less)
  then show ?thesis by (simp add: percent_def hex_value_upper)
qed

lemma query_escape_Cons:
  "query_escape (c # s) = (if unreserved c then [c] else if c = CHR '' '' then ''+'' else percent c) @ query_escape s"
  by (simp add: query_escape_def)

text \<open>Percent decoding gives an escaped text back but for its spaces, which stay plus signs.\<close>

lemma percent_decode_query_escape:
  "percent_decode (query_escape s) = Some (map (\<lambda>c. if c = CHR '' '' then CHR ''+'' else c) s)"
proof (induction s)
  case (Cons c s)
  have "unreserved c \<Longrightarrow> c \<noteq> CHR ''%''" "unreserved c \<Longrightarrow> c \<noteq> CHR '' ''" by (auto simp: unreserved_def is_digit_def)
  with Cons show ?case by (auto simp: query_escape_Cons percent_decode_percent simp del: percent_decode.simps(2))
      (simp_all)
qed (simp add: query_escape_def)

lemma query_escape_chars: "x \<in> set (query_escape s) \<Longrightarrow> unreserved x \<or> x \<in> set ''%+''"
  by (induction s) (auto simp: query_escape_def dest: percent_kept split: if_splits)

end
