(* ===== verification/Fincode_Client.thy ===== *)
theory Fincode_Client
  imports Fincode_Types Go_Hash Go_Url
begin

text \<open>
  The low-level HTTP client of \<open>fincode/client.go\<close>. The fincode server, the network and the clock
  are not part of the repository: they are the parameter \<open>env\<close>. \<open>env_send\<close> answers one request on
  a server state of any type \<open>'w\<close>; \<open>env_parse\<close> is the JSON parser of \<open>encoding/json\<close>; \<open>env_url_ok\<close>
  tells whether \<open>http.NewRequest\<close> accepts a URL; \<open>env_now\<close> is the injected clock.

  The world of an action is the server state with the log of the requests that went out, so that
  theorems can say which calls an operation makes.
\<close>

record http_request =
  hr_method :: string
  hr_url :: string
  hr_auth :: string
  hr_ctype :: "string option"
  hr_idem :: "string option"
  hr_body :: "json option"

datatype send_result = Response int string | SendFailed | ReadFailed

record 'w http_env =
  env_send :: "http_request \<Rightarrow> 'w \<Rightarrow> send_result \<times> 'w"
  env_parse :: "string \<Rightarrow> json option"
  env_url_ok :: "string \<Rightarrow> bool"
  env_now :: "'w \<Rightarrow> time"

record 'w net =
  srv :: 'w
  sent :: "http_request list"

type_synonym ('w, 'a) call = "('w net, go_error, 'a) act"

section \<open>Configuration\<close>

record config =
  cfg_APIKey :: string
  cfg_BaseURL :: string
  cfg_Sandbox :: bool

definition ProductionBaseURL :: string where "ProductionBaseURL = ''https://api.fincode.jp''"
definition SandboxBaseURL :: string where "SandboxBaseURL = ''https://api.test.fincode.jp''"

definition resolveBaseURL :: "config \<Rightarrow> go_error + string" where
  "resolveBaseURL c =
     (if cfg_BaseURL c \<noteq> [] then Inr (cfg_BaseURL c)
      else if cfg_Sandbox c then Inr SandboxBaseURL
      else Inl (ValidationError ''BaseURL''))"

record client =
  cl_apiKey :: string
  cl_baseURL :: string

definition NewClient :: "config \<Rightarrow> go_error + client" where
  "NewClient c = (case resolveBaseURL c of
      Inl e \<Rightarrow> Inl e
    | Inr u \<Rightarrow> Inr \<lparr>cl_apiKey = cfg_APIKey c, cl_baseURL = u\<rparr>)"

section \<open>Requests\<close>

type_synonym request_option = "http_request \<Rightarrow> http_request"

definition WithIdempotencyKey :: "string \<Rightarrow> request_option" where
  "WithIdempotencyKey key r = (if key \<noteq> [] then r\<lparr>hr_idem := Some key\<rparr> else r)"

text \<open>\<open>doJSONRaw\<close>: one request, its error classes in the order of the code.\<close>

definition base_request :: "client \<Rightarrow> string \<Rightarrow> string \<Rightarrow> json option \<Rightarrow> http_request" where
  "base_request c meth path body =
     \<lparr>hr_method = meth, hr_url = cl_baseURL c @ path, hr_auth = ''Bearer '' @ cl_apiKey c,
      hr_ctype = (if body \<noteq> None then Some ''application/json;charset=UTF-8'' else None),
      hr_idem = None, hr_body = body\<rparr>"

definition http_error :: "'w http_env \<Rightarrow> int \<Rightarrow> string \<Rightarrow> string \<Rightarrow> string \<Rightarrow> go_error" where
  "http_error env st meth path body = HTTPError st meth path
     (if body = [] then None else
        (case Option.bind (env_parse env body) dec_ErrorResponse of
           Some (e # es) \<Rightarrow> Some (e # es) | _ \<Rightarrow> None)) body"

definition doJSON :: "'w http_env \<Rightarrow> client \<Rightarrow> (json \<Rightarrow> 'a option) \<Rightarrow> string \<Rightarrow> string \<Rightarrow> json option
    \<Rightarrow> request_option list \<Rightarrow> ('w, 'a) call" where
  "doJSON env c dec meth path body opts w =
     (if \<not> env_url_ok env (cl_baseURL c @ path) then (Inl (PlainError ''create request''), w)
      else let rq = fold (\<lambda>opt r. opt r) opts (base_request c meth path body);
               (res, s') = env_send env rq (srv w);
               w' = w\<lparr>srv := s', sent := sent w @ [rq]\<rparr>
           in (case res of
                SendFailed \<Rightarrow> (Inl (PlainError ''send request''), w')
              | ReadFailed \<Rightarrow> (Inl (PlainError ''read response''), w')
              | Response st body' \<Rightarrow>
                  if 400 \<le> st then (Inl (http_error env st meth path body'), w')
                  else (case Option.bind (env_parse env body') dec of
                      None \<Rightarrow> (Inl (PlainError ''unmarshal response''), w')
                    | Some v \<Rightarrow> (Inr v, w'))))"

section \<open>Endpoints\<close>

definition payment_path :: "string \<Rightarrow> string" where
  "payment_path i = ''/v1/payments/'' @ path_escape i"

definition customer_path :: "string \<Rightarrow> string" where
  "customer_path i = ''/v1/customers/'' @ path_escape i"

definition card_path :: "string \<Rightarrow> string \<Rightarrow> string" where
  "card_path cust cid = customer_path cust @ ''/cards/'' @ path_escape cid"

definition CreatePayment :: "'w http_env \<Rightarrow> client \<Rightarrow> CreatePaymentRequest \<Rightarrow> string
    \<Rightarrow> ('w, PaymentResponse) call" where
  "CreatePayment env c req key = doJSON env c dec_Payment ''POST'' ''/v1/payments''
     (Some (enc_CreatePayment req)) [WithIdempotencyKey key]"

definition ExecutePayment :: "'w http_env \<Rightarrow> client \<Rightarrow> string \<Rightarrow> ExecutePaymentRequest
    \<Rightarrow> ('w, PaymentResponse) call" where
  "ExecutePayment env c i req =
     doJSON env c dec_Payment ''PUT'' (payment_path i) (Some (enc_ExecutePayment req)) []"

definition CapturePayment :: "'w http_env \<Rightarrow> client \<Rightarrow> string \<Rightarrow> AccessRequest \<Rightarrow> request_option list
    \<Rightarrow> ('w, PaymentResponse) call" where
  "CapturePayment env c i req opts =
     doJSON env c dec_Payment ''PUT'' (payment_path i @ ''/capture'') (Some (enc_Access req)) opts"

definition CancelPayment :: "'w http_env \<Rightarrow> client \<Rightarrow> string \<Rightarrow> AccessRequest \<Rightarrow> request_option list
    \<Rightarrow> ('w, PaymentResponse) call" where
  "CancelPayment env c i req opts =
     doJSON env c dec_Payment ''PUT'' (payment_path i @ ''/cancel'') (Some (enc_Access req)) opts"

definition ChangeAmount :: "'w http_env \<Rightarrow> client \<Rightarrow> string \<Rightarrow> ChangeAmountRequest
    \<Rightarrow> request_option list \<Rightarrow> ('w, PaymentResponse) call" where
  "ChangeAmount env c i req opts =
     doJSON env c dec_Payment ''PUT'' (payment_path i @ ''/change'') (Some (enc_ChangeAmount req)) opts"

definition RetrievePayment :: "'w http_env \<Rightarrow> client \<Rightarrow> string \<Rightarrow> string
    \<Rightarrow> ('w, PaymentResponse) call" where
  "RetrievePayment env c i payType = doJSON env c dec_Payment ''GET''
     (payment_path i @ ''?'' @ ''pay_type='' @ query_escape payType) None []"

definition CreateCard :: "'w http_env \<Rightarrow> client \<Rightarrow> string \<Rightarrow> CreateCardRequest
    \<Rightarrow> ('w, CardResponse) call" where
  "CreateCard env c cust req =
     doJSON env c dec_Card ''POST'' (customer_path cust @ ''/cards'') (Some (enc_CreateCard req)) []"

definition RetrieveCard :: "'w http_env \<Rightarrow> client \<Rightarrow> string \<Rightarrow> string \<Rightarrow> ('w, CardResponse) call" where
  "RetrieveCard env c cust cid = doJSON env c dec_Card ''GET'' (card_path cust cid) None []"

definition ListCards :: "'w http_env \<Rightarrow> client \<Rightarrow> string \<Rightarrow> ('w, CardResponse list) call" where
  "ListCards env c cust = doJSON env c dec_CardList ''GET'' (customer_path cust @ ''/cards'') None []"

definition DeleteCard :: "'w http_env \<Rightarrow> client \<Rightarrow> string \<Rightarrow> string
    \<Rightarrow> ('w, string \<times> string \<times> string) call" where
  "DeleteCard env c cust cid = doJSON env c dec_DeleteCard ''DELETE'' (card_path cust cid) None []"

definition UpdateCard :: "'w http_env \<Rightarrow> client \<Rightarrow> string \<Rightarrow> string \<Rightarrow> string
    \<Rightarrow> ('w, CardResponse) call" where
  "UpdateCard env c cust cid flag =
     doJSON env c dec_Card ''PUT'' (card_path cust cid) (Some (enc_UpdateCard flag)) []"

definition client_CreateCustomer :: "'w http_env \<Rightarrow> client \<Rightarrow> CreateCustomerRequest
    \<Rightarrow> ('w, CustomerResponse) call" where
  "client_CreateCustomer env c req =
     doJSON env c dec_Customer ''POST'' ''/v1/customers'' (Some (enc_CreateCustomer req)) []"

definition client_UpdateCustomer :: "'w http_env \<Rightarrow> client \<Rightarrow> string \<Rightarrow> UpdateCustomerRequest
    \<Rightarrow> ('w, CustomerResponse) call" where
  "client_UpdateCustomer env c i req =
     doJSON env c dec_Customer ''PUT'' (customer_path i) (Some (enc_UpdateCustomer req)) []"

definition client_RetrieveCustomer :: "'w http_env \<Rightarrow> client \<Rightarrow> string
    \<Rightarrow> ('w, CustomerResponse) call" where
  "client_RetrieveCustomer env c i = doJSON env c dec_Customer ''GET'' (customer_path i) None []"

definition client_DeleteCustomer :: "'w http_env \<Rightarrow> client \<Rightarrow> string
    \<Rightarrow> ('w, string \<times> string) call" where
  "client_DeleteCustomer env c i =
     doJSON env c dec_DeleteCustomer ''DELETE'' (customer_path i) None []"

lemmas endpoint_defs = CreatePayment_def ExecutePayment_def CapturePayment_def CancelPayment_def
  ChangeAmount_def RetrievePayment_def CreateCard_def RetrieveCard_def ListCards_def DeleteCard_def
  UpdateCard_def client_CreateCustomer_def client_UpdateCustomer_def client_RetrieveCustomer_def
  client_DeleteCustomer_def

section \<open>What one call does\<close>

text \<open>A call sends at most its one request, and nothing but the log and the server state changes.\<close>

lemma doJSON_sent:
  "doJSON env c dec meth path body opts w = (r, w') \<Longrightarrow>
     sent w' = sent w \<or>
     sent w' = sent w @ [fold (\<lambda>opt r. opt r) opts (base_request c meth path body)]"
  by (auto simp: doJSON_def Let_def split: if_splits prod.splits send_result.splits option.splits)

lemma doJSON_Inr_sent:
  "doJSON env c dec meth path body opts w = (Inr v, w') \<Longrightarrow>
     sent w' = sent w @ [fold (\<lambda>opt r. opt r) opts (base_request c meth path body)]"
  by (auto simp: doJSON_def Let_def split: if_splits prod.splits send_result.splits option.splits)

text \<open>The request of a call, as it leaves the client: the options change its headers only.\<close>

lemma WithIdempotencyKey_sel [simp]:
  "hr_method (WithIdempotencyKey k r) = hr_method r"
  "hr_url (WithIdempotencyKey k r) = hr_url r"
  "hr_body (WithIdempotencyKey k r) = hr_body r"
  "hr_auth (WithIdempotencyKey k r) = hr_auth r"
  by (simp_all add: WithIdempotencyKey_def)

lemma WithIdempotencyKey_idem:
  "hr_idem (WithIdempotencyKey k (base_request c m p b)) = (if k = [] then None else Some k)"
  by (simp add: WithIdempotencyKey_def base_request_def)

lemma base_request_sel [simp]:
  "hr_method (base_request c m p b) = m" "hr_url (base_request c m p b) = cl_baseURL c @ p"
  "hr_body (base_request c m p b) = b" "hr_auth (base_request c m p b) = ''Bearer '' @ cl_apiKey c"
  "hr_idem (base_request c m p b) = None"
  by (simp_all add: base_request_def)

text \<open>The errors of a call are an HTTP error exactly when the server answered with status 400 or more.\<close>

lemma doJSON_error_cases:
  assumes "doJSON env c dec meth path body opts w = (Inl e, w')"
  obtains st api b where "e = HTTPError st meth path api b" "400 \<le> st"
  | stage where "e = PlainError stage"
  using assms
  by (auto simp: doJSON_def Let_def http_error_def
      split: if_splits prod.splits send_result.splits option.splits)

end
