(* ===== verification/Fincode_Gateway.thy ===== *)
theory Fincode_Gateway
  imports Fincode_Client
begin

text \<open>
  The payment gateway of \<open>fincode/gateway.go\<close>: charge and authorize as register plus execute with
  recovery of lost responses and of duplicate registrations, capture with amount adjustment,
  void, cancel, refund, and the stored cards. Each operation is one definition over the client's
  calls; the helper functions of the file are pure definitions. Its lemmas are in
  \<open>Fincode_Gateway_Props\<close>.
\<close>

section \<open>Amounts and times\<close>

definition jpyMoney :: "int64 \<Rightarrow> money" where
  "jpyMoney a = new_money (of_int (sint a)) CurrencyJPY"

definition jpyAmount :: "string \<Rightarrow> money \<Rightarrow> go_error + int64" where
  "jpyAmount field m =
     (if m_currency m \<noteq> CurrencyJPY then Inl (GatewayError CurrencyNotSupported [] False None)
      else (case m_amount m of
          None \<Rightarrow> Inl (ValidationError field)
        | Some amt \<Rightarrow>
            if \<not> rat_is_int amt then Inl (ValidationError field)
            else if \<not> is_int64 (rat_num amt) then Inl (ValidationError field)
            else if sint (word_of_int (rat_num amt) :: int64) \<le> 0 then Inl (ValidationError field)
            else Inr (word_of_int (rat_num amt))))"

definition jst_offset :: int where "jst_offset = 9 * 60 * 60"

definition fincodeTimeLayouts :: "layout_elem list list" where
  "fincodeTimeLayouts =
    [[Year4, Lit ''/'', Month2, Lit ''/'', Day2, Lit '' '', Hour, Lit '':'', Minute2, Lit '':'',
      Second2, Frac0 3],
     [Year4, Lit ''/'', Month2, Lit ''/'', Day2, Lit '' '', Hour, Lit '':'', Minute2, Lit '':'',
      Second2],
     [Year4, Lit ''/'', Month2, Lit ''/'', Day2]]"

definition parseFincodeTime :: "string \<Rightarrow> time option" where
  "parseFincodeTime s = (if s = [] then None
     else first_some (\<lambda>layout. parse_in_location layout s jst_offset) fincodeTimeLayouts)"

definition timeOrNow :: "'w http_env \<Rightarrow> 'w net \<Rightarrow> string \<Rightarrow> time" where
  "timeOrNow env w s = (case parseFincodeTime s of Some t \<Rightarrow> t | None \<Rightarrow> env_now env (srv w))"

section \<open>Identifiers\<close>

definition deriveOrderID :: "string \<Rightarrow> string" where
  "deriveOrderID key = (if key = [] then []
     else ''o'' @ take 29 (to_lower (base32_nopad (sha256 (bytes_of key)))))"

definition deriveIdempotencyKey :: "string \<Rightarrow> string \<Rightarrow> string" where
  "deriveIdempotencyKey key op = (if key = [] then []
     else take 30 (to_lower (base32_nopad (sha256 (bytes_of (key @ ''|'' @ op))))))"

definition joinPaymentMethodID :: "string \<Rightarrow> string \<Rightarrow> string" where
  "joinPaymentMethodID cust cid = cust @ ''/'' @ cid"

definition splitPaymentMethodID :: "string \<Rightarrow> go_error + (string \<times> string)" where
  "splitPaymentMethodID i = (case split_last (CHR ''/'') i of
      None \<Rightarrow> Inl (ValidationError ''paymentMethodID'')
    | Some (a, b) \<Rightarrow> if a = [] \<or> b = [] then Inl (ValidationError ''paymentMethodID'') else Inr (a, b))"

record paymentSource =
  ps_token :: string
  ps_customerID :: string
  ps_cardID :: string

definition nonempty :: "string option \<Rightarrow> string option" where
  "nonempty p = (case p of Some s \<Rightarrow> if s = [] then None else Some s | None \<Rightarrow> None)"

definition resolvePaymentSource :: "string option \<Rightarrow> string option \<Rightarrow> string
    \<Rightarrow> go_error + paymentSource" where
  "resolvePaymentSource token pm customerID = (case nonempty token of
      Some t \<Rightarrow> Inr \<lparr>ps_token = t, ps_customerID = [], ps_cardID = []\<rparr>
    | None \<Rightarrow> (case nonempty pm of
          Some p \<Rightarrow> (case splitPaymentMethodID p of
              Inl e \<Rightarrow> Inl e
            | Inr (pmCustomer, cid) \<Rightarrow>
                Inr \<lparr>ps_token = [],
                     ps_customerID = (if customerID = [] then pmCustomer else customerID),
                     ps_cardID = cid\<rparr>)
        | None \<Rightarrow>
            if customerID \<noteq> [] then Inr \<lparr>ps_token = [], ps_customerID = customerID, ps_cardID = []\<rparr>
            else Inl (ValidationError ''Token/PaymentMethodID/CustomerID'')))"

section \<open>Mapping of responses\<close>

definition toTransactionStatus :: "string \<Rightarrow> transaction_status" where
  "toTransactionStatus s =
     (if s = StatusUnprocessed \<or> s = StatusChecked then TxPending
      else if s = StatusAuthenticated then TxRequiresAction
      else if s = StatusAuthorized then TxAuthorized
      else if s = StatusCaptured then TxCaptured
      else if s = StatusCanceled then TxCanceled
      else TxPending)"

definition toTransactionType :: "string \<Rightarrow> transaction_type" where
  "toTransactionType jc = (if jc = JobCodeAuth then TypeAuthorize else TypeCharge)"

definition currentTotal :: "PaymentResponse \<Rightarrow> int64" where
  "currentTotal r = (if py_TotalAmount r \<noteq> 0 then py_TotalAmount r else py_Amount r)"

definition toCardBrand :: "string \<Rightarrow> card_brand" where
  "toCardBrand brand = (let b = to_upper brand in
     if b = ''VISA'' then Visa
     else if b = ''MASTER'' \<or> b = ''MASTERCARD'' then Mastercard
     else if b = ''AMEX'' \<or> b = ''AMERICANEXPRESS'' then Amex
     else if b = ''JCB'' then JCB
     else if b = ''DINERS'' then Diners
     else if b = ''DISCOVER'' then Discover
     else BrandUnknown)"

definition toCardDetails :: "CardResponse \<Rightarrow> card_details" where
  "toCardDetails r = (let n = rc_CardNo r; ex = rc_Expire r in
     \<lparr>cd_Brand = toCardBrand (rc_Brand r),
      cd_Last4 = (if 4 \<le> length n then drop (length n - 4) n else []),
      cd_ExpYear = (if length ex = 4 then
        (case parse_int (take 2 ex) of Some yy \<Rightarrow> 2000 + yy | None \<Rightarrow> 0) else 0),
      cd_ExpMonth = (if length ex = 4 then
        (case parse_int (drop 2 ex) of Some mm \<Rightarrow> mm | None \<Rightarrow> 0) else 0)\<rparr>)"

definition toPaymentMethodDetail :: "'w http_env \<Rightarrow> 'w net \<Rightarrow> CardResponse \<Rightarrow> payment_method_detail" where
  "toPaymentMethodDetail env w r =
     \<lparr>pd_ID = joinPaymentMethodID (rc_CustomerID r) (rc_ID r), pd_CustomerID = rc_CustomerID r,
      pd_Type = CreditCard, pd_IsDefault = (rc_DefaultFlag r = ''1''),
      pd_CreatedAt = timeOrNow env w (rc_Created r), pd_Card = toCardDetails r\<rparr>"

definition methodIDOf :: "PaymentResponse \<Rightarrow> string" where
  "methodIDOf r = (if py_CustomerID r \<noteq> [] \<and> py_CardID r \<noteq> []
     then joinPaymentMethodID (py_CustomerID r) (py_CardID r) else [])"

definition toChargeResponse :: "'w http_env \<Rightarrow> PaymentResponse \<Rightarrow> 'w net \<Rightarrow> charge_response" where
  "toChargeResponse env r w =
     \<lparr>cr_TransactionID = py_ID r, cr_Status = toTransactionStatus (py_Status r),
      cr_Amount = jpyMoney (currentTotal r), cr_PaymentMethodID = methodIDOf r,
      cr_PaymentMethodType = CreditCard, cr_CreatedAt = timeOrNow env w (py_Created r),
      cr_Metadata = [(''fincode_access_id'', py_AccessID r)]\<rparr>"

definition toAuthorizeResponse :: "'w http_env \<Rightarrow> PaymentResponse \<Rightarrow> 'w net \<Rightarrow> authorize_response" where
  "toAuthorizeResponse env r w =
     \<lparr>ar_AuthorizationID = py_ID r, ar_TransactionID = py_ID r,
      ar_Status = toTransactionStatus (py_Status r), ar_Amount = jpyMoney (currentTotal r),
      ar_CreatedAt = timeOrNow env w (py_Created r), ar_ExpiresAt = parseFincodeTime (py_AuthMaxDate r),
      ar_Metadata = [(''fincode_access_id'', py_AccessID r)]\<rparr>"

section \<open>Errors\<close>

definition classifyFincodeErrorCode :: "string \<Rightarrow> error_code option" where
  "classifyFincodeErrorCode code = (if has_prefix code ''E9993'' then Some CardDeclined else None)"

definition unsupported3DSError :: go_error where
  "unsupported3DSError = GatewayError MethodNotSupported [] False None"

definition wrapGatewayError :: "go_error \<Rightarrow> go_error" where
  "wrapGatewayError err = (case as_http err of
      Some (st, api) \<Rightarrow>
        let (code, retryable) =
              (if st = 429 then (RateLimitExceeded, True)
               else if st = 408 \<or> st = 504 then (GatewayTimeout, True)
               else if 500 \<le> st then (GatewayUnavailable, True)
               else (ProcessingError, False));
            decline = (case api of Some ((ec, _) # _) \<Rightarrow> ec | _ \<Rightarrow> []);
            code' = (case api of
                Some (_ # _) \<Rightarrow>
                  if code = ProcessingError
                  then (case classifyFincodeErrorCode decline of Some m \<Rightarrow> m | None \<Rightarrow> code)
                  else code
              | _ \<Rightarrow> code)
        in GatewayError code' decline retryable (Some err)
    | None \<Rightarrow> GatewayError GatewayUnavailable [] True (Some err))"

section \<open>Charge and authorize\<close>

definition retrieve :: "'w http_env \<Rightarrow> client \<Rightarrow> string \<Rightarrow> ('w, PaymentResponse) call" where
  "retrieve env c orderID =
     (if orderID = [] then throw (ValidationError ''transactionID'')
      else mapErrA wrapGatewayError (RetrievePayment env c orderID PayTypeCard))"

definition successStatus :: "string \<Rightarrow> string" where
  "successStatus jobCode = (if jobCode = JobCodeAuth then StatusAuthorized else StatusCaptured)"

text \<open>\<open>None\<close> stands for the Go result \<open>(nil, nil)\<close>: report the original register error.\<close>

definition resolveExistingOrder :: "'w http_env \<Rightarrow> client \<Rightarrow> string \<Rightarrow> string \<Rightarrow> int64 \<Rightarrow> go_error
    \<Rightarrow> ('w, PaymentResponse option) call" where
  "resolveExistingOrder env c orderID jobCode amount registerErr =
     tryA (RetrievePayment env c orderID PayTypeCard)
       (\<lambda>err. case as_http err of
            Some (st, _) \<Rightarrow>
              if st = 404 then ret None
              else throw (GatewayError GatewayUnavailable [] True (Some (JoinedErrors [registerErr, err])))
          | None \<Rightarrow>
              throw (GatewayError GatewayUnavailable [] True (Some (JoinedErrors [registerErr, err]))))
       (\<lambda>current.
          if currentTotal current \<noteq> amount
          then throw (GatewayError ProcessingError [] False (Some registerErr))
          else if py_JobCode current \<noteq> [] \<and> py_JobCode current \<noteq> jobCode
          then throw (GatewayError ProcessingError [] False (Some registerErr))
          else if py_Status current = successStatus jobCode then ret (Some current)
          else if py_Status current = StatusUnprocessed \<or> py_Status current = StatusAuthorized
          then throw (PartialAuthorizeError orderID (py_AccessID current) (wrapGatewayError registerErr))
          else ret None)"

definition executeRegistered :: "'w http_env \<Rightarrow> client \<Rightarrow> string \<Rightarrow> string \<Rightarrow> paymentSource
    \<Rightarrow> ('w, PaymentResponse) call" where
  "executeRegistered env c orderID accessID src =
     (if orderID = [] then throw (ValidationError ''orderID'')
      else if accessID = [] then throw (ValidationError ''accessID'')
      else mapErrA wrapGatewayError (ExecutePayment env c orderID
        \<lparr>ep_PayType = PayTypeCard, ep_AccessID = accessID, ep_Token = ps_token src,
         ep_CustomerID = ps_customerID src, ep_CardID = ps_cardID src, ep_Method = PayMethodLumpSum\<rparr>))"

definition registerRequest :: "string \<Rightarrow> int64 \<Rightarrow> string \<Rightarrow> string \<Rightarrow> CreatePaymentRequest" where
  "registerRequest jobCode amount description key =
     \<lparr>cp_ID = deriveOrderID key, cp_PayType = PayTypeCard, cp_JobCode = jobCode,
      cp_Amount = format_int (sint amount), cp_ClientField1 = description\<rparr>"

text \<open>After a failed execute: the state is fetched once more, and a finished payment is a success.\<close>

definition confirmExecuted :: "'w http_env \<Rightarrow> client \<Rightarrow> string \<Rightarrow> PaymentResponse \<Rightarrow> go_error
    \<Rightarrow> ('w, PaymentResponse) call" where
  "confirmExecuted env c jobCode created err =
     tryA (RetrievePayment env c (py_ID created) PayTypeCard)
       (\<lambda>_. throw (PartialAuthorizeError (py_ID created) (py_AccessID created) err))
       (\<lambda>current. if py_Status current = successStatus jobCode then ret current
          else throw (PartialAuthorizeError (py_ID created) (py_AccessID created) err))"

definition registerAndExecute :: "'w http_env \<Rightarrow> client \<Rightarrow> string \<Rightarrow> int64 \<Rightarrow> string \<Rightarrow> string
    \<Rightarrow> paymentSource \<Rightarrow> ('w, PaymentResponse) call" where
  "registerAndExecute env c jobCode amount description key src =
     tryA (CreatePayment env c (registerRequest jobCode amount description key) key)
       (\<lambda>err.
          if cp_ID (registerRequest jobCode amount description key) \<noteq> []
          then bindA (resolveExistingOrder env c
                 (cp_ID (registerRequest jobCode amount description key)) jobCode amount err)
               (\<lambda>r. case r of Some resp \<Rightarrow> ret resp | None \<Rightarrow> throw (wrapGatewayError err))
          else throw (wrapGatewayError err))
       (\<lambda>created.
          tryA (executeRegistered env c (py_ID created) (py_AccessID created) src)
            (confirmExecuted env c jobCode created)
            ret)"

definition requires3DS :: "three_d_secure_request option \<Rightarrow> bool" where
  "requires3DS t = (case t of Some r \<Rightarrow> tds_Required r | None \<Rightarrow> False)"

definition Charge :: "'w http_env \<Rightarrow> client \<Rightarrow> charge_request option \<Rightarrow> ('w, charge_response) call" where
  "Charge env c reqo = (case reqo of
      None \<Rightarrow> throw (ValidationError ''req'')
    | Some req \<Rightarrow>
        if requires3DS (cq_ThreeDSecure req) then throw unsupported3DSError
        else bindA (liftA (resolvePaymentSource (cq_Token req) (cq_PaymentMethodID req) (cq_CustomerID req)))
          (\<lambda>src. bindA (liftA (jpyAmount ''Amount'' (cq_Amount req)))
          (\<lambda>amount. bindA (registerAndExecute env c JobCodeCapture amount (cq_Description req)
              (cq_IdempotencyKey req) src)
          (\<lambda>resp. askA (toChargeResponse env resp)))))"

definition CompleteCharge :: "'w http_env \<Rightarrow> client \<Rightarrow> string \<Rightarrow> string \<Rightarrow> charge_request option
    \<Rightarrow> ('w, charge_response) call" where
  "CompleteCharge env c orderID accessID reqo = (case reqo of
      None \<Rightarrow> throw (ValidationError ''req'')
    | Some req \<Rightarrow>
        bindA (liftA (resolvePaymentSource (cq_Token req) (cq_PaymentMethodID req) (cq_CustomerID req)))
          (\<lambda>src. bindA (retrieve env c orderID)
          (\<lambda>current. if py_Status current = StatusCaptured then askA (toChargeResponse env current)
             else bindA (executeRegistered env c orderID accessID src)
               (\<lambda>resp. askA (toChargeResponse env resp)))))"

definition Authorize :: "'w http_env \<Rightarrow> client \<Rightarrow> authorize_request option
    \<Rightarrow> ('w, authorize_response) call" where
  "Authorize env c reqo = (case reqo of
      None \<Rightarrow> throw (ValidationError ''req'')
    | Some req \<Rightarrow>
        if requires3DS (aq_ThreeDSecure req) then throw unsupported3DSError
        else bindA (liftA (resolvePaymentSource (aq_Token req) (aq_PaymentMethodID req) (aq_CustomerID req)))
          (\<lambda>src. bindA (liftA (jpyAmount ''Amount'' (aq_Amount req)))
          (\<lambda>amount. bindA (registerAndExecute env c JobCodeAuth amount [] (aq_IdempotencyKey req) src)
          (\<lambda>resp. askA (toAuthorizeResponse env resp)))))"

definition CompleteAuthorize :: "'w http_env \<Rightarrow> client \<Rightarrow> string \<Rightarrow> string \<Rightarrow> authorize_request option
    \<Rightarrow> ('w, authorize_response) call" where
  "CompleteAuthorize env c orderID accessID reqo = (case reqo of
      None \<Rightarrow> throw (ValidationError ''req'')
    | Some req \<Rightarrow>
        bindA (liftA (resolvePaymentSource (aq_Token req) (aq_PaymentMethodID req) (aq_CustomerID req)))
          (\<lambda>src. bindA (retrieve env c orderID)
          (\<lambda>current. if py_Status current = StatusAuthorized then askA (toAuthorizeResponse env current)
             else bindA (executeRegistered env c orderID accessID src)
               (\<lambda>resp. askA (toAuthorizeResponse env resp)))))"

section \<open>Capture, void, cancel, refund\<close>

definition accessOf :: "PaymentResponse \<Rightarrow> AccessRequest" where
  "accessOf current = \<lparr>ac_PayType = PayTypeCard, ac_AccessID = py_AccessID current\<rparr>"

text \<open>The amount of a capture: over-capture is refused, a smaller amount is changed first.\<close>

definition adjustBeforeCapture :: "'w http_env \<Rightarrow> client \<Rightarrow> capture_request \<Rightarrow> PaymentResponse
    \<Rightarrow> ('w, unit) call" where
  "adjustBeforeCapture env c req current = (case pq_Amount req of
      None \<Rightarrow> ret ()
    | Some m \<Rightarrow>
        bindA (liftA (jpyAmount ''Amount'' m)) (\<lambda>amount.
          if sint (currentTotal current) < sint amount then throw (ValidationError ''Amount'')
          else if amount \<noteq> currentTotal current
          then bindA (mapErrA wrapGatewayError (ChangeAmount env c (pq_AuthorizationID req)
                 \<lparr>ca_PayType = PayTypeCard, ca_AccessID = py_AccessID current,
                  ca_JobCode = JobCodeAuth, ca_Amount = format_int (sint amount)\<rparr>
                 [WithIdempotencyKey (deriveIdempotencyKey (pq_IdempotencyKey req) ''change'')]))
               (\<lambda>_. ret ())
          else ret ()))"

definition Capture :: "'w http_env \<Rightarrow> client \<Rightarrow> capture_request option \<Rightarrow> ('w, capture_response) call" where
  "Capture env c reqo = (case reqo of
      None \<Rightarrow> throw (ValidationError ''req'')
    | Some req \<Rightarrow>
        bindA (retrieve env c (pq_AuthorizationID req)) (\<lambda>current.
        bindA (adjustBeforeCapture env c req current) (\<lambda>_.
        bindA (mapErrA wrapGatewayError (CapturePayment env c (pq_AuthorizationID req) (accessOf current)
            [WithIdempotencyKey (deriveIdempotencyKey (pq_IdempotencyKey req) ''capture'')])) (\<lambda>resp.
        askA (\<lambda>w. \<lparr>pc_TransactionID = py_ID resp, pc_AuthorizationID = py_ID resp,
          pc_Status = toTransactionStatus (py_Status resp), pc_Amount = jpyMoney (currentTotal resp),
          pc_CapturedAt = timeOrNow env w (py_Updated resp)\<rparr>)))))"

definition Void :: "'w http_env \<Rightarrow> client \<Rightarrow> void_request option \<Rightarrow> ('w, void_response) call" where
  "Void env c reqo = (case reqo of
      None \<Rightarrow> throw (ValidationError ''req'')
    | Some req \<Rightarrow>
        bindA (retrieve env c (vq_AuthorizationID req)) (\<lambda>current.
        if py_Status current = StatusCaptured then throw (GatewayError ProcessingError [] False None)
        else bindA (mapErrA wrapGatewayError (CancelPayment env c (vq_AuthorizationID req)
            (accessOf current) [WithIdempotencyKey (vq_IdempotencyKey req)])) (\<lambda>resp.
        askA (\<lambda>w. \<lparr>vr_AuthorizationID = py_ID resp, vr_Status = toTransactionStatus (py_Status resp),
          vr_VoidedAt = timeOrNow env w (py_Updated resp)\<rparr>))))"

definition Cancel :: "'w http_env \<Rightarrow> client \<Rightarrow> cancel_request option \<Rightarrow> ('w, cancel_response) call" where
  "Cancel env c reqo = (case reqo of
      None \<Rightarrow> throw (ValidationError ''req'')
    | Some req \<Rightarrow>
        bindA (retrieve env c (nq_TransactionID req)) (\<lambda>current.
        bindA (mapErrA wrapGatewayError (CancelPayment env c (nq_TransactionID req)
            (accessOf current) [WithIdempotencyKey (nq_IdempotencyKey req)])) (\<lambda>resp.
        askA (\<lambda>w. \<lparr>nr_TransactionID = py_ID resp, nr_Status = toTransactionStatus (py_Status resp),
          nr_CanceledAt = timeOrNow env w (py_Updated resp)\<rparr>))))"

text \<open>The refund amount: the whole current total, or the amount asked for.\<close>

definition refundAmount :: "refund_request \<Rightarrow> int64 \<Rightarrow> go_error + int64" where
  "refundAmount req tot = (case rq_Amount req of
      None \<Rightarrow> Inr tot
    | Some m \<Rightarrow> jpyAmount ''Amount'' m)"

definition Refund :: "'w http_env \<Rightarrow> client \<Rightarrow> refund_request option \<Rightarrow> ('w, refund_response) call" where
  "Refund env c reqo = (case reqo of
      None \<Rightarrow> throw (ValidationError ''req'')
    | Some req \<Rightarrow>
        bindA (retrieve env c (rq_TransactionID req)) (\<lambda>current.
        bindA (liftA (refundAmount req (currentTotal current))) (\<lambda>amount.
        if sint (currentTotal current) < sint amount then throw (ValidationError ''Amount'')
        else bindA
          (if amount = currentTotal current
           then mapErrA wrapGatewayError (CancelPayment env c (rq_TransactionID req)
                  (accessOf current) [WithIdempotencyKey (rq_IdempotencyKey req)])
           else mapErrA wrapGatewayError (ChangeAmount env c (rq_TransactionID req)
                  \<lparr>ca_PayType = PayTypeCard, ca_AccessID = py_AccessID current,
                   ca_JobCode = JobCodeCapture,
                   ca_Amount = format_int (sint (currentTotal current - amount))\<rparr>
                  [WithIdempotencyKey (rq_IdempotencyKey req)]))
          (\<lambda>resp. askA (\<lambda>w. \<lparr>rr_RefundID = py_ID resp, rr_TransactionID = py_ID resp,
             rr_Status = RefundSucceeded, rr_Amount = jpyMoney amount, rr_Reason = rq_Reason req,
             rr_RefundedAt = timeOrNow env w (py_Updated resp)\<rparr>)))))"

definition fincodeGatewayID :: string where "fincodeGatewayID = ''fincode''"

definition GetTransaction :: "'w http_env \<Rightarrow> client \<Rightarrow> string \<Rightarrow> ('w, transaction) call" where
  "GetTransaction env c i =
     bindA (retrieve env c i) (\<lambda>resp. askA (\<lambda>w.
       \<lparr>tx_ID = py_ID resp, tx_GatewayID = fincodeGatewayID,
        tx_Type = toTransactionType (py_JobCode resp), tx_Status = toTransactionStatus (py_Status resp),
        tx_Amount = jpyMoney (currentTotal resp), tx_CustomerID = py_CustomerID resp,
        tx_PaymentMethodID = methodIDOf resp,
        tx_AuthorizationID = (if py_Status resp \<in> {StatusAuthorized, StatusCaptured, StatusCanceled}
          then Some (py_ID resp) else None),
        tx_Metadata = [(''fincode_status'', py_Status resp), (''fincode_access_id'', py_AccessID resp),
          (''fincode_transaction_id'', py_TransactionID resp)],
        tx_CreatedAt = timeOrNow env w (py_Created resp),
        tx_UpdatedAt = timeOrNow env w (py_Updated resp)\<rparr>))"

section \<open>Stored cards\<close>

definition SupportedMethods :: "method_type list" where "SupportedMethods = [CreditCard]"

definition RegisterPaymentMethod :: "'w http_env \<Rightarrow> client \<Rightarrow> register_request option
    \<Rightarrow> ('w, payment_method_detail) call" where
  "RegisterPaymentMethod env c reqo = (case reqo of
      None \<Rightarrow> throw (ValidationError ''req'')
    | Some req \<Rightarrow>
        if gq_Type req \<noteq> CreditCard then throw (GatewayError MethodNotSupported [] False None)
        else if gq_CustomerID req = [] then throw (ValidationError ''CustomerID'')
        else if gq_Token req = [] then throw (ValidationError ''Token'')
        else bindA (mapErrA wrapGatewayError (CreateCard env c (gq_CustomerID req)
               \<lparr>cc_Token = gq_Token req,
                cc_DefaultFlag = (if gq_SetAsDefault req then ''1'' else ''0'')\<rparr>))
             (\<lambda>r. askA (\<lambda>w. toPaymentMethodDetail env w r)))"

definition DeletePaymentMethod :: "'w http_env \<Rightarrow> client \<Rightarrow> string \<Rightarrow> ('w, unit) call" where
  "DeletePaymentMethod env c i =
     bindA (liftA (splitPaymentMethodID i)) (\<lambda>(cust, cid).
     bindA (mapErrA wrapGatewayError (DeleteCard env c cust cid)) (\<lambda>_. ret ()))"

definition GetPaymentMethod :: "'w http_env \<Rightarrow> client \<Rightarrow> string \<Rightarrow> ('w, payment_method_detail) call" where
  "GetPaymentMethod env c i =
     bindA (liftA (splitPaymentMethodID i)) (\<lambda>(cust, cid).
     bindA (mapErrA wrapGatewayError (RetrieveCard env c cust cid))
       (\<lambda>r. askA (\<lambda>w. toPaymentMethodDetail env w r)))"

definition ListPaymentMethods :: "'w http_env \<Rightarrow> client \<Rightarrow> string
    \<Rightarrow> ('w, payment_method_detail list) call" where
  "ListPaymentMethods env c cust =
     (if cust = [] then throw (ValidationError ''customerID'')
      else bindA (mapErrA wrapGatewayError (ListCards env c cust))
        (\<lambda>cards. askA (\<lambda>w. map (toPaymentMethodDetail env w) cards)))"

end
