(* ===== verification/Fincode_Gateway_Props.thy ===== *)
theory Fincode_Gateway_Props
  imports Fincode_Gateway
begin

text \<open>
  What \<open>Fincode_Gateway\<close> guarantees: which requests an operation puts on the wire and in which
  order, exact amounts, replay of an already captured order instead of a second execution, the
  guards of capture, void and refund, error classification, and the shape of derived identifiers.
\<close>

section \<open>Which requests go out\<close>

text \<open>
  \<open>adds S m\<close>: whatever the world, the HTTP methods of the requests \<open>m\<close> sends, in order, are one
  of the lists in \<open>S\<close>.
\<close>

definition adds :: "string list set \<Rightarrow> ('w, 'a) call \<Rightarrow> bool" where
  "adds S m \<longleftrightarrow> (\<forall>w. \<exists>rs. sent (snd (m w)) = sent w @ rs \<and> map hr_method rs \<in> S)"

named_theorems adds_intros \<open>rules for the requests of composed calls\<close>

lemma addsD:
  assumes "adds S m" and "m w = (r, w')"
  obtains rs where "sent w' = sent w @ rs" and "map hr_method rs \<in> S"
  using assms unfolding adds_def by (metis snd_conv)

lemma adds_mono: "adds S m \<Longrightarrow> S \<subseteq> T \<Longrightarrow> adds T m"
  unfolding adds_def by blast

lemma adds_ret [adds_intros]: "[] \<in> S \<Longrightarrow> adds S (ret a)"
  by (simp add: adds_def)

lemma adds_throw [adds_intros]: "[] \<in> S \<Longrightarrow> adds S (throw e)"
  by (simp add: adds_def)

lemma adds_liftA [adds_intros]: "[] \<in> S \<Longrightarrow> adds S (liftA e)"
  by (simp add: adds_def)

lemma adds_askA [adds_intros]: "[] \<in> S \<Longrightarrow> adds S (askA f)"
  by (simp add: adds_def)

lemma adds_if [adds_intros]: "adds S m \<Longrightarrow> adds S m' \<Longrightarrow> adds S (if b then m else m')"
  by simp

lemma adds_case_option [adds_intros]:
  "adds S m \<Longrightarrow> (\<And>x. adds S (f x)) \<Longrightarrow> adds S (case x of None \<Rightarrow> m | Some y \<Rightarrow> f y)"
  by (simp split: option.split)

lemma adds_case_prod [adds_intros]: "(\<And>x y. adds S (f x y)) \<Longrightarrow> adds S (case p of (x, y) \<Rightarrow> f x y)"
  by (simp split: prod.split)

text \<open>Two calls in sequence: the second may depend on the outcome of the first.\<close>

lemma adds_tryA:
  assumes m: "adds A m" and h: "\<And>e. adds B (h e)" and f: "\<And>a. adds B (f a)"
    and AB: "\<And>a b. a \<in> A \<Longrightarrow> b \<in> B \<Longrightarrow> a @ b \<in> S"
  shows "adds S (tryA m h f)"
  unfolding adds_def
proof
  fix w
  obtain r w' where run: "m w = (r, w')" by fastforce
  from m run obtain rs where rs: "sent w' = sent w @ rs" "map hr_method rs \<in> A" by (rule addsD)
  have "\<exists>rs'. sent (snd (tryA m h f w)) = sent w' @ rs' \<and> map hr_method rs' \<in> B"
    using h f unfolding adds_def by (cases r) (simp_all add: tryA_run [of m w, OF run])
  then show "\<exists>rs. sent (snd (tryA m h f w)) = sent w @ rs \<and> map hr_method rs \<in> S"
    using rs AB by (metis append.assoc map_append)
qed

lemma adds_bindA:
  assumes m: "adds A m" and f: "\<And>a. adds B (f a)"
    and B: "[] \<in> B" and AB: "\<And>a b. a \<in> A \<Longrightarrow> b \<in> B \<Longrightarrow> a @ b \<in> S"
  shows "adds S (bindA m f)"
  unfolding bindA_def by (rule adds_tryA [OF m adds_throw [OF B] f AB])

lemma adds_mapErrA [adds_intros]: "adds S m \<Longrightarrow> adds S (mapErrA g m)"
  unfolding mapErrA_def by (rule adds_tryA [where B = "{[]}"]) (auto intro: adds_intros)

lemma adds_liftA_bindA [adds_intros]:
  "[] \<in> S \<Longrightarrow> (\<And>a. adds S (f a)) \<Longrightarrow> adds S (bindA (liftA r) f)"
  by (rule adds_bindA [where A = "{[]}"]) (auto intro: adds_intros)

lemma adds_bindA_askA [adds_intros]: "adds S m \<Longrightarrow> adds S (bindA m (\<lambda>x. askA (g x)))"
  by (rule adds_bindA [where A = S and B = "{[]}"]) (auto intro: adds_intros)

text \<open>The options the gateway passes change a header only.\<close>

lemma adds_doJSON:
  "[] \<in> S \<Longrightarrow> [meth] \<in> S \<Longrightarrow> adds S (doJSON env c dec meth path body [])"
  "[] \<in> S \<Longrightarrow> [meth] \<in> S \<Longrightarrow> adds S (doJSON env c dec meth path body [WithIdempotencyKey k])"
  unfolding adds_def
  by (auto simp: doJSON_def Let_def split: prod.splits send_result.splits option.splits)

lemma adds_endpoints [adds_intros]:
  "[] \<in> S \<Longrightarrow> [''GET''] \<in> S \<Longrightarrow> adds S (RetrievePayment env c i pt)"
  "[] \<in> S \<Longrightarrow> [''POST''] \<in> S \<Longrightarrow> adds S (CreatePayment env c q k)"
  "[] \<in> S \<Longrightarrow> [''PUT''] \<in> S \<Longrightarrow> adds S (ExecutePayment env c i xr)"
  "[] \<in> S \<Longrightarrow> [''PUT''] \<in> S \<Longrightarrow> adds S (CancelPayment env c i ar [WithIdempotencyKey k])"
  "[] \<in> S \<Longrightarrow> [''PUT''] \<in> S \<Longrightarrow> adds S (CapturePayment env c i ar [WithIdempotencyKey k])"
  "[] \<in> S \<Longrightarrow> [''PUT''] \<in> S \<Longrightarrow> adds S (ChangeAmount env c i cr [WithIdempotencyKey k])"
  by (simp_all add: endpoint_defs adds_doJSON)

lemma retrieve_adds [adds_intros]:
  "[] \<in> S \<Longrightarrow> [''GET''] \<in> S \<Longrightarrow> adds S (retrieve env c i)"
  unfolding retrieve_def by (auto intro!: adds_intros)

section \<open>Register and execute\<close>

lemma resolveExistingOrder_adds [adds_intros]:
  "[] \<in> S \<Longrightarrow> [''GET''] \<in> S \<Longrightarrow> adds S (resolveExistingOrder env c i jc a e)"
  unfolding resolveExistingOrder_def
  by (rule adds_tryA [where A = "{[], [''GET'']}" and B = "{[]}"])
     (auto intro!: adds_intros)

lemma executeRegistered_adds [adds_intros]:
  "[] \<in> S \<Longrightarrow> [''PUT''] \<in> S \<Longrightarrow> adds S (executeRegistered env c i a src)"
  unfolding executeRegistered_def by (auto intro!: adds_intros)

lemma confirmExecuted_adds [adds_intros]:
  "[] \<in> S \<Longrightarrow> [''GET''] \<in> S \<Longrightarrow> adds S (confirmExecuted env c jc created err)"
  unfolding confirmExecuted_def
  by (rule adds_tryA [where A = "{[], [''GET'']}" and B = "{[]}"]) (auto intro!: adds_intros)

text \<open>The register request of an operation, as it goes out.\<close>

definition register_http :: "client \<Rightarrow> string \<Rightarrow> int64 \<Rightarrow> string \<Rightarrow> string \<Rightarrow> http_request" where
  "register_http c jc amount desc key = WithIdempotencyKey key
     (base_request c ''POST'' ''/v1/payments''
       (Some (enc_CreatePayment (registerRequest jc amount desc key))))"

lemma CreatePayment_Inr_sent:
  "CreatePayment env c (registerRequest jc amount desc key) key w = (Inr v, w') \<Longrightarrow>
     sent w' = sent w @ [register_http c jc amount desc key]"
  unfolding CreatePayment_def register_http_def by (drule doJSON_Inr_sent) simp

lemma CreatePayment_sent:
  "CreatePayment env c (registerRequest jc amount desc key) key w = (r, w') \<Longrightarrow>
     sent w' = sent w \<or> sent w' = sent w @ [register_http c jc amount desc key]"
  unfolding CreatePayment_def register_http_def by (drule doJSON_sent) simp

text \<open>
  The requests of a charge or an authorization: nothing, or at most the one register request
  followed by at most one \<open>PUT\<close> (the execution) and at most one \<open>GET\<close>, in this order. Without a
  sent register request there is no \<open>PUT\<close>.
\<close>

definition register_log :: "http_request \<Rightarrow> http_request list \<Rightarrow> bool" where
  "register_log reg rs \<longleftrightarrow>
     map hr_method rs \<in> {[], [''GET'']} \<or>
     (\<exists>xs. rs = reg # xs \<and> map hr_method xs \<in> {[], [''GET''], [''PUT''], [''PUT'', ''GET'']})"

lemma registerAndExecute_log:
  assumes "registerAndExecute env c jc amount desc key src w = (r, w')"
  shows "\<exists>rs. sent w' = sent w @ rs \<and> register_log (register_http c jc amount desc key) rs"
proof -
  define reg where "reg = register_http c jc amount desc key"
  from assms show ?thesis unfolding reg_def [symmetric] registerAndExecute_def
  proof (cases rule: tryA_cases)
    case (err e w1)
    have "adds {[], [''GET'']} (if cp_ID (registerRequest jc amount desc key) \<noteq> []
        then bindA (resolveExistingOrder env c (cp_ID (registerRequest jc amount desc key)) jc amount e)
               (\<lambda>r. case r of Some resp \<Rightarrow> ret resp | None \<Rightarrow> throw (wrapGatewayError e))
        else throw (wrapGatewayError e))"
      by (intro adds_if adds_bindA [where A = "{[], [''GET'']}" and B = "{[]}"] adds_throw
          resolveExistingOrder_adds adds_case_option adds_ret) auto
    then obtain xs where "sent w' = sent w1 @ xs" "map hr_method xs \<in> {[], [''GET'']}"
      using err(2) by (rule addsD)
    with CreatePayment_sent [OF err(1)] show "\<exists>rs. sent w' = sent w @ rs \<and> register_log reg rs"
      unfolding register_log_def reg_def [symmetric] by auto
  next
    case (ok created w1)
    have "adds {[], [''GET''], [''PUT''], [''PUT'', ''GET'']}
        (tryA (executeRegistered env c (py_ID created) (py_AccessID created) src)
           (confirmExecuted env c jc created) ret)"
      by (rule adds_tryA [where A = "{[], [''PUT'']}" and B = "{[], [''GET'']}"])
        (auto intro!: adds_intros)
    then obtain xs where "sent w' = sent w1 @ xs"
      "map hr_method xs \<in> {[], [''GET''], [''PUT''], [''PUT'', ''GET'']}"
      using ok(2) by (rule addsD)
    with CreatePayment_Inr_sent [OF ok(1)] show "\<exists>rs. sent w' = sent w @ rs \<and> register_log reg rs"
      unfolding register_log_def reg_def [symmetric] by auto
  qed
qed

text \<open>The other requests of the gateway, as they go out.\<close>

definition retrieve_http :: "client \<Rightarrow> string \<Rightarrow> http_request" where
  "retrieve_http c i = base_request c ''GET''
     (payment_path i @ ''?'' @ ''pay_type='' @ query_escape PayTypeCard) None"

definition cancel_http :: "client \<Rightarrow> string \<Rightarrow> PaymentResponse \<Rightarrow> string \<Rightarrow> http_request" where
  "cancel_http c i cur key = WithIdempotencyKey key
     (base_request c ''PUT'' (payment_path i @ ''/cancel'') (Some (enc_Access (accessOf cur))))"

definition capture_http :: "client \<Rightarrow> string \<Rightarrow> PaymentResponse \<Rightarrow> string \<Rightarrow> http_request" where
  "capture_http c i cur key = WithIdempotencyKey key
     (base_request c ''PUT'' (payment_path i @ ''/capture'') (Some (enc_Access (accessOf cur))))"

definition change_http :: "client \<Rightarrow> string \<Rightarrow> PaymentResponse \<Rightarrow> string \<Rightarrow> int \<Rightarrow> string \<Rightarrow> http_request" where
  "change_http c i cur job tot key = WithIdempotencyKey key
     (base_request c ''PUT'' (payment_path i @ ''/change'') (Some (enc_ChangeAmount
        \<lparr>ca_PayType = PayTypeCard, ca_AccessID = py_AccessID cur, ca_JobCode = job,
         ca_Amount = format_int tot\<rparr>)))"

lemma retrieve_Inr_sent:
  "retrieve env c i w = (Inr cur, w') \<Longrightarrow> sent w' = sent w @ [retrieve_http c i]"
  unfolding retrieve_def RetrievePayment_def retrieve_http_def
  by (auto split: if_splits dest: doJSON_Inr_sent)

lemma CancelPayment_Inr_sent:
  "CancelPayment env c i (accessOf cur) [WithIdempotencyKey k] w = (Inr v, w') \<Longrightarrow>
     sent w' = sent w @ [cancel_http c i cur k]"
  unfolding CancelPayment_def cancel_http_def by (drule doJSON_Inr_sent) simp

lemma CapturePayment_Inr_sent:
  "CapturePayment env c i (accessOf cur) [WithIdempotencyKey k] w = (Inr v, w') \<Longrightarrow>
     sent w' = sent w @ [capture_http c i cur k]"
  unfolding CapturePayment_def capture_http_def by (drule doJSON_Inr_sent) simp

lemma ChangeAmount_Inr_sent:
  "ChangeAmount env c i \<lparr>ca_PayType = PayTypeCard, ca_AccessID = py_AccessID cur, ca_JobCode = job,
       ca_Amount = format_int tot\<rparr> [WithIdempotencyKey k] w = (Inr v, w') \<Longrightarrow>
     sent w' = sent w @ [change_http c i cur job tot k]"
  unfolding ChangeAmount_def change_http_def by (drule doJSON_Inr_sent) simp

lemmas call_Inr_sent = retrieve_Inr_sent CancelPayment_Inr_sent CapturePayment_Inr_sent
  ChangeAmount_Inr_sent

section \<open>Amounts\<close>

lemma jpyAmount_Inr:
  "jpyAmount f m = Inr a \<longleftrightarrow>
     m_currency m = CurrencyJPY \<and> m_amount m = Some (of_int (sint a)) \<and> 0 < sint a"
proof
  assume "jpyAmount f m = Inr a"
  then obtain r where r: "m_currency m = CurrencyJPY" "m_amount m = Some r" "rat_is_int r"
      "is_int64 (rat_num r)" "0 < sint (word_of_int (rat_num r) :: int64)" "a = word_of_int (rat_num r)"
    by (auto simp: jpyAmount_def not_le split: if_splits option.splits)
  with sint_of_int64 [of "rat_num r"] have "sint a = rat_num r" by simp
  with r rat_is_int_eq [of r] show "m_currency m = CurrencyJPY \<and> m_amount m = Some (of_int (sint a)) \<and> 0 < sint a"
    by simp
next
  assume a: "m_currency m = CurrencyJPY \<and> m_amount m = Some (of_int (sint a)) \<and> 0 < sint a"
  then show "jpyAmount f m = Inr a" by (simp add: jpyAmount_def)
qed

lemma jpyAmount_money: "jpyAmount f m = Inr a \<longleftrightarrow> m = jpyMoney a \<and> 0 < sint a"
  by (cases m) (auto simp: jpyAmount_Inr jpyMoney_def new_money_def)

lemma jpyMoney_inj [simp]: "jpyMoney a = jpyMoney b \<longleftrightarrow> a = b"
  by (auto simp: jpyMoney_def new_money_def dest: signed_word_eqI simp del: of_int_sint)

lemma jpyAmount_Inl:
  assumes "jpyAmount f m = Inl e"
  shows "e = GatewayError CurrencyNotSupported [] False None \<or> e = ValidationError f"
  using assms by (auto simp: jpyAmount_def split: if_splits option.splits)

text \<open>The body of a register request: the derived order id and the amount in decimal digits.\<close>

lemma register_body:
  "hr_body (register_http c jc amount desc key) = Some (JObj
     ((if key = [] then [] else [(''id'', JStr (deriveOrderID key))])
      @ [(''pay_type'', JStr ''Card''), (''job_code'', JStr jc),
         (''amount'', JStr (format_int (sint amount)))]
      @ (if desc = [] then [] else [(''client_field_1'', JStr desc)])))"
proof -
  have "format_int (sint amount) \<noteq> []"
    using parse_format_int [of "sint amount"] by (auto simp: parse_int_def)
  then show ?thesis
    by (simp add: register_http_def enc_CreatePayment_def registerRequest_def put_str_def
        put_str_omitempty_def deriveOrderID_def PayTypeCard_def)
qed

section \<open>Outcomes of register and execute\<close>

definition execute_http :: "client \<Rightarrow> string \<Rightarrow> string \<Rightarrow> paymentSource \<Rightarrow> http_request" where
  "execute_http c i acc src = base_request c ''PUT'' (payment_path i) (Some (enc_ExecutePayment
     \<lparr>ep_PayType = PayTypeCard, ep_AccessID = acc, ep_Token = ps_token src,
      ep_CustomerID = ps_customerID src, ep_CardID = ps_cardID src, ep_Method = PayMethodLumpSum\<rparr>))"

lemma executeRegistered_sent:
  assumes "executeRegistered env c i a src w = (r, w')"
  shows "sent w' = sent w \<or> sent w' = sent w @ [execute_http c i a src]"
proof (cases "i = [] \<or> a = []")
  case True
  with assms show ?thesis by (auto simp: executeRegistered_def split: if_splits)
next
  case False
  with assms obtain r1 where "ExecutePayment env c i
      \<lparr>ep_PayType = PayTypeCard, ep_AccessID = a, ep_Token = ps_token src,
       ep_CustomerID = ps_customerID src, ep_CardID = ps_cardID src, ep_Method = PayMethodLumpSum\<rparr>
      w = (r1, w')"
    by (cases r) (auto simp: executeRegistered_def mapErrA_Inl)
  then show ?thesis
    unfolding ExecutePayment_def execute_http_def by (auto dest: doJSON_sent)
qed

lemma executeRegistered_url:
  assumes "executeRegistered env c i a src w = (r, w')"
  shows "\<exists>rs. sent w' = sent w @ rs \<and> (\<forall>q \<in> set rs. hr_url q = cl_baseURL c @ payment_path i)"
  using executeRegistered_sent [OF assms] by (auto simp: execute_http_def)

lemma confirmExecuted_Inl:
  assumes "confirmExecuted env c jc created err w = (Inl e, w')"
  shows "e = PartialAuthorizeError (py_ID created) (py_AccessID created) err"
  using assms unfolding confirmExecuted_def
  by (cases rule: tryA_cases) (auto split: if_splits)

text \<open>
  When an operation that registered and then sent its \<open>PUT\<close> fails, the error is the
  partial-authorize error with the identifiers of that very order.
\<close>

lemma registerAndExecute_failure:
  assumes run: "registerAndExecute env c jc amount desc key src w = (Inl e, w')"
    and s: "sent w' = sent w @ rs" and q: "q \<in> set rs" "hr_method q = ''PUT''"
  shows "\<exists>i a cause. e = PartialAuthorizeError i a cause \<and> hr_url q = cl_baseURL c @ payment_path i"
  using run unfolding registerAndExecute_def
proof (cases rule: tryA_cases)
  case (err e1 w1)
  have "adds {[], [''GET'']} (if cp_ID (registerRequest jc amount desc key) \<noteq> []
      then bindA (resolveExistingOrder env c (cp_ID (registerRequest jc amount desc key)) jc amount e1)
             (\<lambda>r. case r of Some resp \<Rightarrow> ret resp | None \<Rightarrow> throw (wrapGatewayError e1))
      else throw (wrapGatewayError e1))"
    by (intro adds_if adds_bindA [where A = "{[], [''GET'']}" and B = "{[]}"] adds_throw
        resolveExistingOrder_adds adds_case_option adds_ret) auto
  then obtain xs where "sent w' = sent w1 @ xs" "map hr_method xs \<in> {[], [''GET'']}"
    using err(2) by (rule addsD)
  with CreatePayment_sent [OF err(1)] s q show ?thesis
    by (auto simp: register_http_def)
next
  case (ok created w1)
  note reg = CreatePayment_Inr_sent [OF ok(1)]
  from ok(2) show ?thesis
  proof (cases rule: tryA_cases)
    case (err e1 w2)
    from executeRegistered_url [OF err(1)] obtain xs where xs: "sent w2 = sent w1 @ xs"
      "\<forall>q \<in> set xs. hr_url q = cl_baseURL c @ payment_path (py_ID created)" by blast
    have "adds {[], [''GET'']} (confirmExecuted env c jc created e1)" by (auto intro: adds_intros)
    then obtain ys where ys: "sent w' = sent w2 @ ys" "map hr_method ys \<in> {[], [''GET'']}"
      using err(2) by (rule addsD)
    have "q \<in> set xs" using reg xs(1) ys s q by (auto simp: register_http_def)
    with xs(2) confirmExecuted_Inl [OF err(2)] show ?thesis by blast
  next
    case (ok a w2)
    then show ?thesis by simp
  qed
qed

text \<open>A failed register request with a key: the state of the derived order decides.\<close>

lemma registerAndExecute_duplicate:
  assumes "CreatePayment env c (registerRequest jc amount desc key) key w = (Inl err, w1)"
    and "key \<noteq> []" and "RetrievePayment env c (deriveOrderID key) PayTypeCard w1 = (Inr cur, w2)"
  shows "registerAndExecute env c jc amount desc key src w =
     (if currentTotal cur \<noteq> amount \<or> py_JobCode cur \<noteq> [] \<and> py_JobCode cur \<noteq> jc
      then (Inl (GatewayError ProcessingError [] False (Some err)), w2)
      else if py_Status cur = successStatus jc then (Inr cur, w2)
      else if py_Status cur = StatusUnprocessed \<or> py_Status cur = StatusAuthorized
      then (Inl (PartialAuthorizeError (deriveOrderID key) (py_AccessID cur) (wrapGatewayError err)), w2)
      else (Inl (wrapGatewayError err), w2))"
proof -
  have i: "cp_ID (registerRequest jc amount desc key) = deriveOrderID key" "deriveOrderID key \<noteq> []"
    using assms(2) by (simp_all add: registerRequest_def deriveOrderID_def)
  have "resolveExistingOrder env c (deriveOrderID key) jc amount err w1 =
     (if currentTotal cur \<noteq> amount \<or> py_JobCode cur \<noteq> [] \<and> py_JobCode cur \<noteq> jc
      then (Inl (GatewayError ProcessingError [] False (Some err)), w2)
      else if py_Status cur = successStatus jc then (Inr (Some cur), w2)
      else if py_Status cur = StatusUnprocessed \<or> py_Status cur = StatusAuthorized
      then (Inl (PartialAuthorizeError (deriveOrderID key) (py_AccessID cur) (wrapGatewayError err)), w2)
      else (Inr None, w2))"
    using assms(3) by (auto simp: resolveExistingOrder_def tryA_def)
  then show ?thesis
    using assms(1) i by (auto simp: registerAndExecute_def tryA_def bindA_def)
qed

lemma Charge_run:
  assumes "\<not> requires3DS (cq_ThreeDSecure req)"
    and "resolvePaymentSource (cq_Token req) (cq_PaymentMethodID req) (cq_CustomerID req) = Inr src"
    and "jpyAmount ''Amount'' (cq_Amount req) = Inr amount"
  shows "Charge env c (Some req) = bindA (registerAndExecute env c JobCodeCapture amount
     (cq_Description req) (cq_IdempotencyKey req) src) (\<lambda>resp. askA (toChargeResponse env resp))"
  using assms by (intro ext) (simp add: Charge_def bindA_def tryA_def)

lemma Charge_cases:
  obtains e where "Charge env c (Some req) = throw e" "\<And>i a x. e \<noteq> PartialAuthorizeError i a x"
  | amount src where "jpyAmount ''Amount'' (cq_Amount req) = Inr amount"
      "Charge env c (Some req) = bindA (registerAndExecute env c JobCodeCapture amount
         (cq_Description req) (cq_IdempotencyKey req) src) (\<lambda>resp. askA (toChargeResponse env resp))"
proof (cases "requires3DS (cq_ThreeDSecure req)")
  case True
  then show ?thesis by (intro that(1) [of unsupported3DSError]) (simp_all add: Charge_def unsupported3DSError_def)
next
  case no3ds: False
  show ?thesis
  proof (cases "resolvePaymentSource (cq_Token req) (cq_PaymentMethodID req) (cq_CustomerID req)")
    case (Inl e)
    then have "\<And>i a x. e \<noteq> PartialAuthorizeError i a x"
      by (auto simp: resolvePaymentSource_def splitPaymentMethodID_def split: option.splits sum.splits if_splits)
    then show ?thesis using no3ds Inl
      by (intro that(1) [of e]) (auto simp: Charge_def act_defs fun_eq_iff)
  next
    case (Inr src)
    show ?thesis
    proof (cases "jpyAmount ''Amount'' (cq_Amount req)")
      case (Inl e)
      then show ?thesis using no3ds Inr jpyAmount_Inl [OF Inl]
        by (intro that(1) [of e]) (auto simp: Charge_def act_defs fun_eq_iff)
    next
      case amt: (Inr amount)
      then show ?thesis using Charge_run [OF no3ds Inr amt] by (intro that(2)) auto
    qed
  qed
qed

lemma Authorize_cases:
  obtains e where "Authorize env c (Some req) = throw e" "\<And>i a x. e \<noteq> PartialAuthorizeError i a x"
  | amount src where "jpyAmount ''Amount'' (aq_Amount req) = Inr amount"
      "Authorize env c (Some req) = bindA (registerAndExecute env c JobCodeAuth amount
         [] (aq_IdempotencyKey req) src) (\<lambda>resp. askA (toAuthorizeResponse env resp))"
proof (cases "requires3DS (aq_ThreeDSecure req)")
  case True
  then show ?thesis by (intro that(1) [of unsupported3DSError]) (simp_all add: Authorize_def unsupported3DSError_def)
next
  case no3ds: False
  show ?thesis
  proof (cases "resolvePaymentSource (aq_Token req) (aq_PaymentMethodID req) (aq_CustomerID req)")
    case (Inl e)
    then have "\<And>i a x. e \<noteq> PartialAuthorizeError i a x"
      by (auto simp: resolvePaymentSource_def splitPaymentMethodID_def split: option.splits sum.splits if_splits)
    then show ?thesis using no3ds Inl
      by (intro that(1) [of e]) (auto simp: Authorize_def act_defs fun_eq_iff)
  next
    case (Inr src)
    show ?thesis
    proof (cases "jpyAmount ''Amount'' (aq_Amount req)")
      case (Inl e)
      then show ?thesis using no3ds Inr jpyAmount_Inl [OF Inl]
        by (intro that(1) [of e]) (auto simp: Authorize_def act_defs fun_eq_iff)
    next
      case amt: (Inr amount)
      then show ?thesis using no3ds Inr
        by (intro that(2) [OF amt]) (auto simp: Authorize_def act_defs fun_eq_iff)
    qed
  qed
qed

lemma bindA_askA_sent: "sent (snd (bindA m (\<lambda>x. askA (g x)) w)) = sent (snd (m w))"
  by (auto simp: act_defs split: sum.splits prod.splits)

lemma registerAndExecute_sent:
  "\<exists>rs. sent (snd (bindA (registerAndExecute env c jc amount desc key src) (\<lambda>x. askA (g x)) w)) = sent w @ rs
     \<and> register_log (register_http c jc amount desc key) rs"
  unfolding bindA_askA_sent using registerAndExecute_log by (metis prod.collapse)

text \<open>An operation that retrieves first and later sent a \<open>PUT\<close> had a successful retrieval.\<close>

lemma retrieve_then_put:
  assumes run: "bindA (retrieve env c i) f w = (r, w')" and s: "sent w' = sent w @ rs"
    and x: "x \<in> set rs" "hr_method x = ''PUT''"
  obtains cur w1 where "retrieve env c i w = (Inr cur, w1)" "f cur w1 = (r, w')"
    "sent w1 = sent w @ [retrieve_http c i]"
proof (cases "retrieve env c i w")
  case (Pair r1 w1)
  show ?thesis
  proof (cases r1)
    case (Inl e)
    have "adds {[], [''GET'']} (retrieve env c i)" by (auto intro: adds_intros)
    then obtain ys where "sent w1 = sent w @ ys" "map hr_method ys \<in> {[], [''GET'']}"
      using Pair by (rule addsD)
    with run s x Pair Inl show ?thesis by (auto simp: bindA_run [of "retrieve env c i"])
  next
    case (Inr cur)
    with run Pair show ?thesis
      by (intro that [of cur w1]) (auto simp: bindA_run [of "retrieve env c i"] dest: retrieve_Inr_sent)
  qed
qed

lemma CancelPayment_sent:
  "CancelPayment env c i (accessOf cur) [WithIdempotencyKey k] w = (r, w') \<Longrightarrow>
     sent w' = sent w \<or> sent w' = sent w @ [cancel_http c i cur k]"
  unfolding CancelPayment_def cancel_http_def by (drule doJSON_sent) simp

end
