(* ===== verification/Fincode_Gateway_Claims.thy ===== *)
theory Fincode_Gateway_Claims
  imports Fincode_Gateway_Props
begin

text \<open>
  The properties of the fincode gateway, with their witnesses. The witnesses run the model against
  \<open>demo_env pay\<close>, a server that rejects every registration with status 400 and answers any other
  request with the payment \<open>pay\<close>, and against \<open>open_env pay\<close>, one that accepts registrations.
\<close>

section \<open>Servers for the witnesses\<close>

definition demo_payment :: "int \<Rightarrow> string \<Rightarrow> json" where
  "demo_payment tot st = JObj [(''id'', JStr ''o1''), (''access_id'', JStr ''a1''),
     (''amount'', JInt tot), (''total_amount'', JInt tot), (''status'', JStr st),
     (''job_code'', JStr JobCodeCapture)]"

definition demo_env :: "json \<Rightarrow> unit http_env" where
  "demo_env pay = \<lparr>env_send = (\<lambda>rq s. (if hr_method rq = ''POST'' then Response 400 [] else Response 200 ''p'', s)),
     env_parse = (\<lambda>b. if b = ''p'' then Some pay else None), env_url_ok = (\<lambda>_. True),
     env_now = (\<lambda>_. 0)\<rparr>"

definition open_env :: "json \<Rightarrow> unit http_env" where
  "open_env pay = \<lparr>env_send = (\<lambda>rq s. (if hr_method rq = ''PUT'' then SendFailed else Response 200 ''p'', s)),
     env_parse = (\<lambda>b. if b = ''p'' then Some pay else None), env_url_ok = (\<lambda>_. True),
     env_now = (\<lambda>_. 0)\<rparr>"

definition ok_env :: "json \<Rightarrow> unit http_env" where
  "ok_env pay = \<lparr>env_send = (\<lambda>rq s. (Response 200 ''p'', s)),
     env_parse = (\<lambda>b. if b = ''p'' then Some pay else None), env_url_ok = (\<lambda>_. True),
     env_now = (\<lambda>_. 0)\<rparr>"

definition demo_client :: client where
  "demo_client = \<lparr>cl_apiKey = ''k'', cl_baseURL = ''u''\<rparr>"

definition demo_net :: "unit net" where "demo_net = \<lparr>srv = (), sent = []\<rparr>"

definition demo_charge :: "rat \<Rightarrow> charge_request" where
  "demo_charge r = \<lparr>cq_Token = Some ''tok'', cq_PaymentMethodID = None, cq_CustomerID = [],
     cq_Amount = new_money r CurrencyJPY, cq_Description = [], cq_IdempotencyKey = ''key'',
     cq_ThreeDSecure = None\<rparr>"

definition demo_PaymentResponse :: "int64 \<Rightarrow> string \<Rightarrow> PaymentResponse" where
  "demo_PaymentResponse tot st = \<lparr>py_ShopID = [], py_ID = ''o1'', py_AccessID = ''a1'', py_Amount = tot,
     py_Tax = 0, py_TotalAmount = tot, py_ClientField1 = [], py_ClientField2 = [], py_ClientField3 = [],
     py_ProcessDate = [], py_CustomerID = [], py_PayType = [], py_Status = st, py_JobCode = JobCodeCapture,
     py_CardID = [], py_Brand = [], py_CardNo = [], py_Expire = [], py_HolderName = [], py_Method = [],
     py_PayTimes = None, py_Forward = [], py_Issuer = [], py_TransactionID = [], py_Approve = [],
     py_AuthMaxDate = [], py_ErrorCode = [], py_Created = [], py_Updated = []\<rparr>"

lemma dec_demo_payment:
  "is_int64 tot \<Longrightarrow> dec_Payment (demo_payment tot st) = Some (demo_PaymentResponse (word_of_int tot) st)"
  by (simp add: dec_Payment_def conv_struct_def demo_payment_def dec_PaymentFields_def
      demo_PaymentResponse_def str_field_def int64_field_def ptr_int_field_def nonnull_vals_def
      field_vals_def equal_fold_ascii lower_char_def)

text \<open>What the calls of a run return on these servers.\<close>

lemma demo_runs:
  "doJSON (demo_env pay) c dec meth path body opts w =
     (let rq = fold (\<lambda>opt r. opt r) opts (base_request c meth path body) in
      (if hr_method rq = ''POST'' then Inl (HTTPError 400 meth path None [])
       else (case dec pay of None \<Rightarrow> Inl (PlainError ''unmarshal response'') | Some v \<Rightarrow> Inr v),
       w\<lparr>sent := sent w @ [rq]\<rparr>))"
  "doJSON (open_env pay) c dec meth path body opts w =
     (let rq = fold (\<lambda>opt r. opt r) opts (base_request c meth path body) in
      (if hr_method rq = ''PUT'' then Inl (PlainError ''send request'')
       else (case dec pay of None \<Rightarrow> Inl (PlainError ''unmarshal response'') | Some v \<Rightarrow> Inr v),
       w\<lparr>sent := sent w @ [rq]\<rparr>))"
  "doJSON (ok_env pay) c dec meth path body opts w =
     (let rq = fold (\<lambda>opt r. opt r) opts (base_request c meth path body) in
      (case dec pay of None \<Rightarrow> Inl (PlainError ''unmarshal response'') | Some v \<Rightarrow> Inr v,
       w\<lparr>sent := sent w @ [rq]\<rparr>))"
  by (simp_all add: doJSON_def Let_def demo_env_def open_env_def ok_env_def http_error_def split: option.split)

lemma demo_charge_ok:
  "\<not> requires3DS (cq_ThreeDSecure (demo_charge r))"
  "resolvePaymentSource (cq_Token (demo_charge r)) (cq_PaymentMethodID (demo_charge r))
     (cq_CustomerID (demo_charge r)) = Inr \<lparr>ps_token = ''tok'', ps_customerID = [], ps_cardID = []\<rparr>"
  "jpyAmount ''Amount'' (cq_Amount (demo_charge 500)) = Inr 500"
  "cq_IdempotencyKey (demo_charge r) = ''key''"
  by (simp_all add: demo_charge_def requires3DS_def resolvePaymentSource_def nonempty_def jpyAmount_Inr
      new_money_def)

section \<open>Charge and authorize\<close>

text \<open>C1. The requests of a charge and of an authorization. Whatever the server answers, the
  requests one call sends are: none; or one retrieval; or exactly one register request, first,
  followed by at most one \<open>PUT\<close> (the execution) and then at most one retrieval. The register
  request carries the exact yen amount in decimal digits, the job code and the caller's idempotency key, from
  which the order id is derived, and no request but the retrieval goes out when the amount is not a positive
  integral number of yen.\<close>

theorem Charge_requests:
  "\<exists>rs rs'. sent (snd (Charge env c (Some q) w)) = sent w @ rs \<and>
     sent (snd (Authorize env c (Some a) w)) = sent w @ rs' \<and>
     (rs = [] \<or> (\<exists>amt reg. cq_Amount q = jpyMoney amt \<and> 0 < sint amt \<and>
        reg = register_http c JobCodeCapture amt (cq_Description q) (cq_IdempotencyKey q) \<and> register_log reg rs \<and>
        hr_body reg = Some (JObj
          ((if cq_IdempotencyKey q = [] then [] else [(''id'', JStr (deriveOrderID (cq_IdempotencyKey q)))])
           @ [(''pay_type'', JStr ''Card''), (''job_code'', JStr ''CAPTURE''), (''amount'', JStr (format_int (sint amt)))]
           @ (if cq_Description q = [] then [] else [(''client_field_1'', JStr (cq_Description q))]))))) \<and>
     (rs' = [] \<or> (\<exists>amt reg. aq_Amount a = jpyMoney amt \<and> 0 < sint amt \<and>
        reg = register_http c JobCodeAuth amt [] (aq_IdempotencyKey a) \<and> register_log reg rs' \<and>
        hr_body reg = Some (JObj
          ((if aq_IdempotencyKey a = [] then [] else [(''id'', JStr (deriveOrderID (aq_IdempotencyKey a)))])
           @ [(''pay_type'', JStr ''Card''), (''job_code'', JStr ''AUTH''), (''amount'', JStr (format_int (sint amt)))]))))"
proof -
  have "\<exists>rs. sent (snd (Charge env c (Some q) w)) = sent w @ rs \<and>
     (rs = [] \<or> (\<exists>amt. cq_Amount q = jpyMoney amt \<and> 0 < sint amt \<and>
        register_log (register_http c JobCodeCapture amt (cq_Description q) (cq_IdempotencyKey q)) rs))"
    by (cases rule: Charge_cases [of env c q])
      (simp, metis registerAndExecute_sent jpyAmount_money)
  moreover have "\<exists>rs. sent (snd (Authorize env c (Some a) w)) = sent w @ rs \<and>
     (rs = [] \<or> (\<exists>amt. aq_Amount a = jpyMoney amt \<and> 0 < sint amt \<and>
        register_log (register_http c JobCodeAuth amt [] (aq_IdempotencyKey a)) rs))"
    by (cases rule: Authorize_cases [of env c a])
      (simp, metis registerAndExecute_sent jpyAmount_money)
  ultimately show ?thesis by (simp only: register_body JobCodeCapture_def JobCodeAuth_def append_Nil2 if_True simp_thms ex_simps) blast
qed

text \<open>C2. No lost execution: when a charge or an authorization fails after its \<open>PUT\<close> went out
  (so the payment may have been executed), the error is a partial-authorize error, never a plain
  failure, and it names the order that the \<open>PUT\<close> addressed, so that the caller can complete it.\<close>

theorem Charge_failure_after_execute:
  assumes "Charge env c (Some q) w = (Inl e, w') \<or> Authorize env c (Some a) w = (Inl e, w')"
    and "sent w' = sent w @ rs" and "r \<in> set rs" and "hr_method r = ''PUT''"
  shows "\<exists>i acc cause. e = PartialAuthorizeError i acc cause \<and> hr_url r = cl_baseURL c @ payment_path i"
  using assms(1)
proof
  assume "Charge env c (Some q) w = (Inl e, w')"
  with assms(2-) show ?thesis
    by (cases rule: Charge_cases [of env c q]) (auto simp: bindA_Inl dest: registerAndExecute_failure)
next
  assume "Authorize env c (Some a) w = (Inl e, w')"
  with assms(2-) show ?thesis
    by (cases rule: Authorize_cases [of env c a]) (auto simp: bindA_Inl dest: registerAndExecute_failure)
qed

theorem Charge_failure_after_execute_witness:
  "\<exists>e w' r i acc cause.
     Charge (open_env (demo_payment 500 ''UNPROCESSED'')) demo_client (Some (demo_charge 500)) demo_net
       = (Inl e, w') \<and> r \<in> set (sent w') \<and> hr_method r = ''PUT'' \<and>
     e = PartialAuthorizeError i acc cause \<and> hr_url r = ''u'' @ payment_path i"
proof -
  let ?env = "open_env (demo_payment 500 ''UNPROCESSED'')" and ?q = "demo_charge 500"
  obtain e w' where run: "Charge ?env demo_client (Some ?q) demo_net = (Inl e, w')"
    and "\<exists>r \<in> set (sent w'). hr_method r = ''PUT''"
    by (simp add: Charge_run [OF demo_charge_ok(1,2,3)] registerAndExecute_def executeRegistered_def
        confirmExecuted_def endpoint_defs bindA_def mapErrA_def tryA_def demo_runs Let_def
        dec_demo_payment is_int64_def demo_PaymentResponse_def successStatus_def fincode_consts)
  then obtain r where r: "r \<in> set (sent w')" "hr_method r = ''PUT''" by blast
  have "sent w' = sent demo_net @ sent w'" by (simp add: demo_net_def)
  then show ?thesis
    using Charge_failure_after_execute [OF disjI1 [OF run] _ r] run r
    by (auto simp: demo_client_def)
qed

text \<open>C3. Replay of a finished payment. When the register request of a charge fails and the order
  derived from its idempotency key turns out to be captured for the same amount, the charge succeeds
  with that order's transaction and sends nothing after the retrieval: the card is not charged again.\<close>

theorem Charge_replays_captured:
  assumes "\<not> requires3DS (cq_ThreeDSecure q)"
    and "resolvePaymentSource (cq_Token q) (cq_PaymentMethodID q) (cq_CustomerID q) = Inr src"
    and "jpyAmount ''Amount'' (cq_Amount q) = Inr amount" and "cq_IdempotencyKey q \<noteq> []"
    and "CreatePayment env c (registerRequest JobCodeCapture amount (cq_Description q) (cq_IdempotencyKey q))
       (cq_IdempotencyKey q) w = (Inl err, w1)"
    and "RetrievePayment env c (deriveOrderID (cq_IdempotencyKey q)) PayTypeCard w1 = (Inr cur, w2)"
    and "py_Status cur = StatusCaptured" and "currentTotal cur = amount"
    and "py_JobCode cur \<in> {[], JobCodeCapture}"
  shows "\<exists>resp. Charge env c (Some q) w = (Inr resp, w2) \<and> cr_TransactionID resp = py_ID cur \<and>
     cr_Status resp = TxCaptured \<and> cr_Amount resp = cq_Amount q"
proof -
  have s: "successStatus JobCodeCapture = StatusCaptured"
    by (simp add: successStatus_def JobCodeCapture_def JobCodeAuth_def)
  have st: "toTransactionStatus StatusCaptured = TxCaptured"
    by (simp add: toTransactionStatus_def fincode_consts)
  have "registerAndExecute env c JobCodeCapture amount (cq_Description q) (cq_IdempotencyKey q) src w
      = (Inr cur, w2)"
    using assms(7-9) registerAndExecute_duplicate [OF assms(5,4,6), of src] s by auto
  then show ?thesis
    using assms(3,7,8) st
    by (simp add: Charge_run [OF assms(1-3)] bindA_def tryA_def toChargeResponse_def jpyAmount_money)
qed

theorem Charge_replays_captured_witness:
  "\<exists>resp w2. Charge (demo_env (demo_payment 500 ''CAPTURED'')) demo_client (Some (demo_charge 500)) demo_net
     = (Inr resp, w2) \<and> cr_TransactionID resp = ''o1''"
proof -
  let ?env = "demo_env (demo_payment 500 ''CAPTURED'')" and ?q = "demo_charge 500"
  obtain w1 err where c: "CreatePayment ?env demo_client (registerRequest JobCodeCapture 500
      (cq_Description ?q) (cq_IdempotencyKey ?q)) (cq_IdempotencyKey ?q) demo_net = (Inl err, w1)"
    by (simp add: CreatePayment_def demo_runs Let_def)
  obtain w2 where g: "RetrievePayment ?env demo_client (deriveOrderID (cq_IdempotencyKey ?q)) PayTypeCard w1
      = (Inr (demo_PaymentResponse 500 ''CAPTURED''), w2)"
    by (simp add: RetrievePayment_def demo_runs Let_def dec_demo_payment is_int64_def)
  show ?thesis
    using Charge_replays_captured [OF demo_charge_ok(1,2,3) _ c g]
    by (auto simp: demo_charge_ok fincode_consts currentTotal_def demo_PaymentResponse_def)
qed

text \<open>Reuse of an idempotency key. When the register request of a charge fails and the order
  derived from its key was registered for another amount, the charge fails for good, whatever the
  state of that order, and sends nothing more: the other order is neither replayed nor executed.\<close>

theorem Charge_key_reuse:
  assumes "\<not> requires3DS (cq_ThreeDSecure q)"
    and "resolvePaymentSource (cq_Token q) (cq_PaymentMethodID q) (cq_CustomerID q) = Inr src"
    and "jpyAmount ''Amount'' (cq_Amount q) = Inr amount" and "cq_IdempotencyKey q \<noteq> []"
    and "CreatePayment env c (registerRequest JobCodeCapture amount (cq_Description q) (cq_IdempotencyKey q))
       (cq_IdempotencyKey q) w = (Inl err, w1)"
    and "RetrievePayment env c (deriveOrderID (cq_IdempotencyKey q)) PayTypeCard w1 = (Inr cur, w2)"
    and "jpyMoney (currentTotal cur) \<noteq> cq_Amount q"
  shows "Charge env c (Some q) w = (Inl (GatewayError ProcessingError [] False (Some err)), w2)"
proof -
  have "currentTotal cur \<noteq> amount" using assms(3,7) by (auto simp: jpyAmount_money)
  then show ?thesis
    using registerAndExecute_duplicate [OF assms(5,4,6), of src]
    by (simp add: Charge_run [OF assms(1-3)] bindA_def tryA_def)
qed

theorem Charge_key_reuse_witness:
  "\<exists>err w2. Charge (demo_env (demo_payment 700 ''CAPTURED'')) demo_client (Some (demo_charge 500)) demo_net
     = (Inl (GatewayError ProcessingError [] False (Some err)), w2)"
proof -
  let ?env = "demo_env (demo_payment 700 ''CAPTURED'')" and ?q = "demo_charge 500"
  obtain w1 err where c: "CreatePayment ?env demo_client (registerRequest JobCodeCapture 500
      (cq_Description ?q) (cq_IdempotencyKey ?q)) (cq_IdempotencyKey ?q) demo_net = (Inl err, w1)"
    by (simp add: CreatePayment_def demo_runs Let_def)
  obtain w2 where g: "RetrievePayment ?env demo_client (deriveOrderID (cq_IdempotencyKey ?q)) PayTypeCard w1
      = (Inr (demo_PaymentResponse 700 ''CAPTURED''), w2)"
    by (simp add: RetrievePayment_def demo_runs Let_def dec_demo_payment is_int64_def)
  have "jpyMoney (currentTotal (demo_PaymentResponse 700 ''CAPTURED'')) \<noteq> cq_Amount ?q"
    by (simp add: jpyMoney_def new_money_def currentTotal_def demo_PaymentResponse_def demo_charge_def)
  with Charge_key_reuse [OF demo_charge_ok(1,2,3) _ c g] show ?thesis
    by (auto simp: demo_charge_ok)
qed

text \<open>Completion never executes twice. When \<open>CompleteCharge\<close> sends a \<open>PUT\<close>, it is the only one,
  it goes to the given order with the given access id, and it follows a retrieval of that order
  which found it not captured. An order found captured is reported as a success instead.\<close>

theorem CompleteCharge_executes_once:
  assumes "CompleteCharge env c oid acc (Some q) w = (r, w')" and "sent w' = sent w @ rs"
    and "x \<in> set rs" and "hr_method x = ''PUT''"
  shows "\<exists>cur w1 src. retrieve env c oid w = (Inr cur, w1) \<and> py_Status cur \<noteq> StatusCaptured \<and>
     rs = [retrieve_http c oid, x] \<and> x = execute_http c oid acc src"
proof -
  obtain src where src: "resolvePaymentSource (cq_Token q) (cq_PaymentMethodID q) (cq_CustomerID q) = Inr src"
    using assms by (cases "resolvePaymentSource (cq_Token q) (cq_PaymentMethodID q) (cq_CustomerID q)")
      (auto simp: CompleteCharge_def act_defs)
  have run: "bindA (retrieve env c oid) (\<lambda>current. if py_Status current = StatusCaptured
      then askA (toChargeResponse env current)
      else bindA (executeRegistered env c oid acc src) (\<lambda>resp. askA (toChargeResponse env resp))) w = (r, w')"
    using assms(1) src by (simp add: CompleteCharge_def bindA_def tryA_def)
  then obtain cur w1 where g: "retrieve env c oid w = (Inr cur, w1)"
    "sent w1 = sent w @ [retrieve_http c oid]"
    and k: "(if py_Status cur = StatusCaptured then askA (toChargeResponse env cur)
      else bindA (executeRegistered env c oid acc src) (\<lambda>resp. askA (toChargeResponse env resp))) w1 = (r, w')"
    using assms(2-4) by (rule retrieve_then_put)
  have nc: "py_Status cur \<noteq> StatusCaptured"
    using k g(2) assms(2-4) by (auto simp: retrieve_http_def)
  obtain r2 w2 where e: "executeRegistered env c oid acc src w1 = (r2, w2)" by fastforce
  with k nc have "w2 = w'" by (cases r2) (auto simp: bindA_run [of "executeRegistered env c oid acc src"])
  with executeRegistered_sent [OF e] g(2) assms(2-4)
  have "rs = [retrieve_http c oid, x] \<and> x = execute_http c oid acc src"
    by (auto simp: retrieve_http_def)
  with g nc show ?thesis by blast
qed

theorem CompleteCharge_executes_once_witness:
  "\<exists>r w' x cur w1 src. CompleteCharge (open_env (demo_payment 500 ''UNPROCESSED'')) demo_client ''o1'' ''a1''
       (Some (demo_charge 500)) demo_net = (r, w') \<and>
     retrieve (open_env (demo_payment 500 ''UNPROCESSED'')) demo_client ''o1'' demo_net = (Inr cur, w1) \<and>
     sent w' = [retrieve_http demo_client ''o1'', x] \<and> x = execute_http demo_client ''o1'' ''a1'' src"
proof -
  let ?env = "open_env (demo_payment 500 ''UNPROCESSED'')" and ?q = "demo_charge 500"
  obtain r w' where run: "CompleteCharge ?env demo_client ''o1'' ''a1'' (Some ?q) demo_net = (r, w')"
    and "\<exists>x \<in> set (sent w'). hr_method x = ''PUT''"
    by (simp add: CompleteCharge_def demo_charge_ok retrieve_def executeRegistered_def
        endpoint_defs bindA_def mapErrA_def tryA_def demo_runs Let_def
        dec_demo_payment is_int64_def demo_PaymentResponse_def fincode_consts)
  then obtain x where x: "x \<in> set (sent w')" "hr_method x = ''PUT''" by blast
  have "sent w' = sent demo_net @ sent w'" by (simp add: demo_net_def)
  from CompleteCharge_executes_once [OF run this x] run show ?thesis by blast
qed

section \<open>Capture, void and refund\<close>

text \<open>C4. What a successful capture sends, exactly. After the retrieval: without an amount, the
  capture of the order; with an amount, a positive yen amount of at most the authorized total, the
  same, preceded by a change of the authorization to that amount when it differs from the total.
  The change comes before the capture and the two carry keys derived for their own step.\<close>

theorem Capture_requests:
  assumes "Capture env c (Some req) w = (Inr resp, w')"
  shows "\<exists>cur w1. retrieve env c (pq_AuthorizationID req) w = (Inr cur, w1) \<and>
    (let cap = capture_http c (pq_AuthorizationID req) cur
           (deriveIdempotencyKey (pq_IdempotencyKey req) ''capture'')
     in (case pq_Amount req of
        None \<Rightarrow> sent w' = sent w @ [retrieve_http c (pq_AuthorizationID req), cap]
      | Some m \<Rightarrow> \<exists>amt. m = jpyMoney amt \<and> 0 < sint amt \<and> sint amt \<le> sint (currentTotal cur) \<and>
          sent w' = sent w @ [retrieve_http c (pq_AuthorizationID req)] @
            (if amt = currentTotal cur then [cap]
             else [change_http c (pq_AuthorizationID req) cur JobCodeAuth (sint amt)
                     (deriveIdempotencyKey (pq_IdempotencyKey req) ''change''), cap])))"
proof -
  obtain cur w1 w2 cresp where g: "retrieve env c (pq_AuthorizationID req) w = (Inr cur, w1)"
    and a: "adjustBeforeCapture env c req cur w1 = (Inr (), w2)"
    and p: "CapturePayment env c (pq_AuthorizationID req) (accessOf cur) [WithIdempotencyKey
        (deriveIdempotencyKey (pq_IdempotencyKey req) ''capture'')] w2 = (Inr cresp, w')"
    using assms by (auto simp: Capture_def bindA_Inr)
  note s = retrieve_Inr_sent [OF g] CapturePayment_Inr_sent [OF p]
  show ?thesis
  proof (cases "pq_Amount req")
    case None
    with a have "w2 = w1" by (simp add: adjustBeforeCapture_def)
    with g s None show ?thesis by (auto simp: Let_def)
  next
    case (Some m)
    from a obtain amt where amt: "jpyAmount ''Amount'' m = Inr amt" "sint amt \<le> sint (currentTotal cur)"
      and w2: "if amt = currentTotal cur then w2 = w1 else \<exists>v. ChangeAmount env c (pq_AuthorizationID req)
          \<lparr>ca_PayType = PayTypeCard, ca_AccessID = py_AccessID cur,
           ca_JobCode = JobCodeAuth, ca_Amount = format_int (sint amt)\<rparr>
          [WithIdempotencyKey (deriveIdempotencyKey (pq_IdempotencyKey req) ''change'')] w1 = (Inr v, w2)"
      using Some by (auto simp: adjustBeforeCapture_def bindA_Inr not_less split: if_splits)
    with g s Some show ?thesis
      by (auto simp: Let_def jpyAmount_money dest!: ChangeAmount_Inr_sent split: if_splits)
  qed
qed

definition demo_capture :: "money option \<Rightarrow> capture_request" where
  "demo_capture m = \<lparr>pq_AuthorizationID = ''o1'', pq_Amount = m, pq_IdempotencyKey = ''key''\<rparr>"

lemma jpyAmount_300: "jpyAmount ''Amount'' (new_money 300 CurrencyJPY) = Inr 300"
  by (simp add: jpyAmount_Inr new_money_def)

theorem Capture_requests_witness:
  "\<exists>resp w' cur w1. Capture (ok_env (demo_payment 500 ''AUTHORIZED'')) demo_client
       (Some (demo_capture (Some (new_money 300 CurrencyJPY)))) demo_net = (Inr resp, w') \<and>
     retrieve (ok_env (demo_payment 500 ''AUTHORIZED'')) demo_client ''o1'' demo_net = (Inr cur, w1) \<and>
     sent w' = [retrieve_http demo_client ''o1'',
       change_http demo_client ''o1'' cur JobCodeAuth 300 (deriveIdempotencyKey ''key'' ''change''),
       capture_http demo_client ''o1'' cur (deriveIdempotencyKey ''key'' ''capture'')]"
proof -
  let ?env = "ok_env (demo_payment 500 ''AUTHORIZED'')"
  obtain resp w' where run: "Capture ?env demo_client
      (Some (demo_capture (Some (new_money 300 CurrencyJPY)))) demo_net = (Inr resp, w')"
    by (simp add: Capture_def adjustBeforeCapture_def demo_capture_def retrieve_def jpyAmount_300
        endpoint_defs bindA_def mapErrA_def tryA_def demo_runs Let_def currentTotal_def
        dec_demo_payment is_int64_def demo_PaymentResponse_def)
  obtain w1 where g: "retrieve ?env demo_client ''o1'' demo_net
      = (Inr (demo_PaymentResponse 500 ''AUTHORIZED''), w1)"
    by (simp add: retrieve_def RetrievePayment_def mapErrA_def tryA_def demo_runs Let_def
        dec_demo_payment is_int64_def)
  have t: "currentTotal (demo_PaymentResponse 500 ''AUTHORIZED'') = 500"
    by (simp add: currentTotal_def demo_PaymentResponse_def)
  have "amt = 300" if "new_money 300 CurrencyJPY = jpyMoney amt" "0 < sint amt" for amt
    using that jpyAmount_300 jpyAmount_money [of "''Amount''" "new_money 300 CurrencyJPY"] by simp
  with Capture_requests [OF run] run g t show ?thesis
    by (fastforce simp: demo_capture_def demo_net_def Let_def)
qed

text \<open>C5. No amount beyond the payment. A capture above the authorized total and a refund above the
  current total are refused with a validation error, and the retrieval is all that was sent.\<close>

theorem excess_amount_refused:
  assumes "retrieve env c i w = (Inr cur, w1)" and "sint (currentTotal cur) < sint amt" and "0 < sint amt"
  shows "Capture env c (Some \<lparr>pq_AuthorizationID = i, pq_Amount = Some (jpyMoney amt), pq_IdempotencyKey = k\<rparr>) w
      = (Inl (ValidationError ''Amount''), w1) \<and>
    Refund env c (Some \<lparr>rq_TransactionID = i, rq_Amount = Some (jpyMoney amt), rq_Reason = rsn,
      rq_IdempotencyKey = k\<rparr>) w = (Inl (ValidationError ''Amount''), w1) \<and>
    sent w1 = sent w @ [retrieve_http c i]"
proof -
  have "jpyAmount ''Amount'' (jpyMoney amt) = Inr amt" using assms(3) by (simp add: jpyAmount_money)
  with assms retrieve_Inr_sent [OF assms(1)] show ?thesis
    by (simp add: Capture_def Refund_def adjustBeforeCapture_def refundAmount_def bindA_def tryA_def)
qed

theorem excess_amount_refused_witness:
  "\<exists>w1. Refund (ok_env (demo_payment 500 ''CAPTURED'')) demo_client (Some \<lparr>rq_TransactionID = ''o1'',
      rq_Amount = Some (jpyMoney 501), rq_Reason = ReasonOther, rq_IdempotencyKey = ''key''\<rparr>) demo_net
      = (Inl (ValidationError ''Amount''), w1) \<and> sent w1 = [retrieve_http demo_client ''o1'']"
proof -
  obtain w1 where g: "retrieve (ok_env (demo_payment 500 ''CAPTURED'')) demo_client ''o1'' demo_net
      = (Inr (demo_PaymentResponse 500 ''CAPTURED''), w1)"
    by (simp add: retrieve_def RetrievePayment_def mapErrA_def tryA_def demo_runs Let_def
        dec_demo_payment is_int64_def)
  have t: "sint (currentTotal (demo_PaymentResponse 500 ''CAPTURED'')) < sint (501 :: int64)" "0 < sint (501 :: int64)"
    by (simp_all add: currentTotal_def demo_PaymentResponse_def)
  from excess_amount_refused [OF g t, of "''key''" ReasonOther] show ?thesis
    by (simp add: demo_net_def)
qed

text \<open>C6. What a successful refund sends, exactly. The amount refunded is the one asked for, or the
  current total when none is given. The whole total is refunded by cancelling the payment; less than
  the total by changing the payment to the difference, computed without overflow, which is
  positive and smaller than the total. The response reports the refunded amount.\<close>

theorem Refund_requests:
  assumes "Refund env c (Some req) w = (Inr resp, w')"
  shows "\<exists>cur w1 amt. retrieve env c (rq_TransactionID req) w = (Inr cur, w1) \<and>
    rq_Amount req \<in> {None, Some (jpyMoney amt)} \<and> rr_Amount resp = jpyMoney amt \<and>
    rr_Reason resp = rq_Reason req \<and>
    (if rq_Amount req = None \<or> amt = currentTotal cur
     then amt = currentTotal cur \<and>
       sent w' = sent w @ [retrieve_http c (rq_TransactionID req),
         cancel_http c (rq_TransactionID req) cur (rq_IdempotencyKey req)]
     else 0 < sint amt \<and> sint amt < sint (currentTotal cur) \<and>
       sent w' = sent w @ [retrieve_http c (rq_TransactionID req),
         change_http c (rq_TransactionID req) cur JobCodeCapture (sint (currentTotal cur) - sint amt)
           (rq_IdempotencyKey req)])"
proof -
  obtain cur w1 amt where g: "retrieve env c (rq_TransactionID req) w = (Inr cur, w1)"
    and a: "refundAmount req (currentTotal cur) = Inr amt" and le: "sint amt \<le> sint (currentTotal cur)"
    and m: "rr_Amount resp = jpyMoney amt" "rr_Reason resp = rq_Reason req"
    and p: "\<exists>v. (if amt = currentTotal cur then CancelPayment env c (rq_TransactionID req)
            (accessOf cur) [WithIdempotencyKey (rq_IdempotencyKey req)]
          else ChangeAmount env c (rq_TransactionID req)
            \<lparr>ca_PayType = PayTypeCard, ca_AccessID = py_AccessID cur, ca_JobCode = JobCodeCapture,
             ca_Amount = format_int (sint (currentTotal cur - amt))\<rparr>
            [WithIdempotencyKey (rq_IdempotencyKey req)]) w1 = (Inr v, w')"
    using assms by (auto simp: Refund_def bindA_Inr not_less split: if_splits)
  note s = retrieve_Inr_sent [OF g]
  show ?thesis
  proof (cases "amt = currentTotal cur")
    case True
    with p g s m a show ?thesis
      by (auto simp: refundAmount_def jpyAmount_money dest!: CancelPayment_Inr_sent split: option.splits
          intro!: exI [of _ cur])
  next
    case False
    with a have amt: "rq_Amount req = Some (jpyMoney amt)" "0 < sint amt"
      by (auto simp: refundAmount_def jpyAmount_money split: option.splits)
    from False have "sint amt \<noteq> sint (currentTotal cur)" by (auto dest: signed_word_eqI)
    with le have lt: "sint amt < sint (currentTotal cur)" by simp
    with amt have d: "sint (currentTotal cur - amt) = sint (currentTotal cur) - sint amt"
      by (simp add: sint64_diff)
    from p False d have "sent w' = sent w1 @ [change_http c (rq_TransactionID req) cur JobCodeCapture
        (sint (currentTotal cur) - sint amt) (rq_IdempotencyKey req)]"
      by (auto dest: ChangeAmount_Inr_sent)
    with g s m amt lt False show ?thesis
      by (auto intro!: exI [of _ cur] exI [of _ amt])
  qed
qed

theorem Refund_requests_witness:
  "\<exists>resp w' cur w1. Refund (ok_env (demo_payment 500 ''CAPTURED'')) demo_client (Some \<lparr>rq_TransactionID = ''o1'',
      rq_Amount = Some (jpyMoney 200), rq_Reason = ReasonOther, rq_IdempotencyKey = ''key''\<rparr>) demo_net
      = (Inr resp, w') \<and>
     retrieve (ok_env (demo_payment 500 ''CAPTURED'')) demo_client ''o1'' demo_net = (Inr cur, w1) \<and>
     sent w' = [retrieve_http demo_client ''o1'',
       change_http demo_client ''o1'' cur JobCodeCapture 300 ''key'']"
proof -
  let ?env = "ok_env (demo_payment 500 ''CAPTURED'')"
  let ?req = "\<lparr>rq_TransactionID = ''o1'', rq_Amount = Some (jpyMoney 200), rq_Reason = ReasonOther,
    rq_IdempotencyKey = ''key''\<rparr>"
  have j: "jpyAmount ''Amount'' (jpyMoney 200) = Inr 200" by (simp add: jpyAmount_money)
  obtain resp w' where run: "Refund ?env demo_client (Some ?req) demo_net = (Inr resp, w')"
    by (simp add: Refund_def refundAmount_def j retrieve_def
        endpoint_defs bindA_def mapErrA_def tryA_def demo_runs Let_def currentTotal_def
        dec_demo_payment is_int64_def demo_PaymentResponse_def)
  obtain w1 where g: "retrieve ?env demo_client ''o1'' demo_net
      = (Inr (demo_PaymentResponse 500 ''CAPTURED''), w1)"
    by (simp add: retrieve_def RetrievePayment_def mapErrA_def tryA_def demo_runs Let_def
        dec_demo_payment is_int64_def)
  have t: "currentTotal (demo_PaymentResponse 500 ''CAPTURED'') = 500"
    by (simp add: currentTotal_def demo_PaymentResponse_def)
  from Refund_requests [OF run] obtain cur w1' amt where h: "retrieve ?env demo_client ''o1'' demo_net = (Inr cur, w1')"
      "jpyMoney 200 = jpyMoney amt"
      "if amt = currentTotal cur then amt = currentTotal cur \<and> sent w' = sent demo_net @
          [retrieve_http demo_client ''o1'', cancel_http demo_client ''o1'' cur ''key'']
       else 0 < sint amt \<and> sint amt < sint (currentTotal cur) \<and> sent w' = sent demo_net @
          [retrieve_http demo_client ''o1'', change_http demo_client ''o1'' cur JobCodeCapture
            (sint (currentTotal cur) - sint amt) ''key'']"
    by (simp only: refund_request.simps) (metis insert_iff option.distinct(1) option.inject singletonD)
  with run g t show ?thesis by (auto simp: demo_net_def)
qed

text \<open>A void never reverses a captured payment. When \<open>Void\<close> sends a \<open>PUT\<close>, it is the only one,
  it is the cancellation of the given authorization with the caller's idempotency key, and it
  follows a retrieval which found the payment not captured.\<close>

theorem Void_spares_captured:
  assumes "Void env c (Some q) w = (r, w')" and "sent w' = sent w @ rs"
    and "x \<in> set rs" and "hr_method x = ''PUT''"
  shows "\<exists>cur w1. retrieve env c (vq_AuthorizationID q) w = (Inr cur, w1) \<and>
     py_Status cur \<noteq> StatusCaptured \<and>
     rs = [retrieve_http c (vq_AuthorizationID q), x] \<and>
     x = cancel_http c (vq_AuthorizationID q) cur (vq_IdempotencyKey q)"
proof -
  obtain cur w1 where g: "retrieve env c (vq_AuthorizationID q) w = (Inr cur, w1)"
    "sent w1 = sent w @ [retrieve_http c (vq_AuthorizationID q)]"
    and k: "(if py_Status cur = StatusCaptured then throw (GatewayError ProcessingError [] False None)
        else bindA (mapErrA wrapGatewayError (CancelPayment env c (vq_AuthorizationID q)
            (accessOf cur) [WithIdempotencyKey (vq_IdempotencyKey q)])) (\<lambda>resp.
        askA (\<lambda>w. \<lparr>vr_AuthorizationID = py_ID resp, vr_Status = toTransactionStatus (py_Status resp),
          vr_VoidedAt = timeOrNow env w (py_Updated resp)\<rparr>))) w1 = (r, w')"
    using assms by (auto simp: Void_def elim: retrieve_then_put)
  have nc: "py_Status cur \<noteq> StatusCaptured"
    using k g(2) assms(2-4) by (auto simp: retrieve_http_def)
  obtain r2 w2 where e: "CancelPayment env c (vq_AuthorizationID q)
      (accessOf cur) [WithIdempotencyKey (vq_IdempotencyKey q)] w1 = (r2, w2)" by fastforce
  with k nc have "w2 = w'" by (cases r2) (auto simp: bindA_def mapErrA_def tryA_def)
  with CancelPayment_sent [OF e] g(2) assms(2-4)
  have "rs = [retrieve_http c (vq_AuthorizationID q), x] \<and>
      x = cancel_http c (vq_AuthorizationID q) cur (vq_IdempotencyKey q)"
    by (auto simp: retrieve_http_def)
  with g nc show ?thesis by blast
qed

theorem Void_spares_captured_witness:
  "\<exists>r w' x cur w1. Void (open_env (demo_payment 500 ''AUTHORIZED'')) demo_client
       (Some \<lparr>vq_AuthorizationID = ''o1'', vq_IdempotencyKey = ''key''\<rparr>) demo_net = (r, w') \<and>
     retrieve (open_env (demo_payment 500 ''AUTHORIZED'')) demo_client ''o1'' demo_net = (Inr cur, w1) \<and>
     sent w' = [retrieve_http demo_client ''o1'', x] \<and> x = cancel_http demo_client ''o1'' cur ''key''"
proof -
  let ?env = "open_env (demo_payment 500 ''AUTHORIZED'')"
  let ?q = "\<lparr>vq_AuthorizationID = ''o1'', vq_IdempotencyKey = ''key''\<rparr>"
  obtain r w' where run: "Void ?env demo_client (Some ?q) demo_net = (r, w')"
    and "\<exists>x \<in> set (sent w'). hr_method x = ''PUT''"
    by (simp add: Void_def retrieve_def endpoint_defs bindA_def mapErrA_def tryA_def demo_runs Let_def
        dec_demo_payment is_int64_def demo_PaymentResponse_def fincode_consts)
  then obtain x where x: "x \<in> set (sent w')" "hr_method x = ''PUT''" by blast
  have "sent w' = sent demo_net @ sent w'" by (simp add: demo_net_def)
  from Void_spares_captured [OF run this x] run show ?thesis by auto
qed

section \<open>Errors, amounts and identifiers\<close>

text \<open>Which failures may be retried. Every failed call is reported as a gateway error that keeps
  the cause; it is retryable exactly when no HTTP status was received or the status is 408, 429 or
  at least 500, and it is a card decline exactly for a status of another kind whose first error code
  is of the family E9993.\<close>

theorem wrapGatewayError_class:
  "\<exists>code decline rt. wrapGatewayError err = GatewayError code decline rt (Some err) \<and>
     (rt \<longleftrightarrow> (case as_http err of None \<Rightarrow> True | Some (st, _) \<Rightarrow> st \<in> {408, 429} \<or> 500 \<le> st)) \<and>
     (code = CardDeclined \<longleftrightarrow> (\<exists>st ec m es. as_http err = Some (st, Some ((ec, m) # es)) \<and>
        st \<notin> {408, 429} \<and> st < 500 \<and> has_prefix ec ''E9993''))"
  by (cases "as_http err")
    (auto simp: wrapGatewayError_def Let_def classifyFincodeErrorCode_def split: option.splits list.splits)

text \<open>Amounts cross the gateway exactly. An amount is accepted exactly when it is a positive
  integral number of yen within 64 bits, and then it is that number; converting it back gives the
  same money, and what the register request carries reads back as it.\<close>

theorem jpyAmount_exact:
  "((\<exists>a. jpyAmount f m = Inr a) \<longleftrightarrow> m_currency m = ''JPY'' \<and>
      (\<exists>n. m_amount m = Some (of_int n) \<and> 0 < n \<and> n < 2 ^ 63)) \<and>
   (jpyAmount f m = Inr a \<longleftrightarrow> m = jpyMoney a \<and> 0 < sint a) \<and>
   parse_int (cp_Amount (registerRequest jc a desc key)) = Some (sint a)"
proof (intro conjI)
  show "(\<exists>a. jpyAmount f m = Inr a) \<longleftrightarrow> m_currency m = ''JPY'' \<and>
     (\<exists>n. m_amount m = Some (of_int n) \<and> 0 < n \<and> n < 2 ^ 63)"
  proof
    assume "\<exists>a. jpyAmount f m = Inr a"
    then obtain a where a: "jpyAmount f m = Inr a" by blast
    with is_int64_sint [of a] show "m_currency m = ''JPY'' \<and>
        (\<exists>n. m_amount m = Some (of_int n) \<and> 0 < n \<and> n < 2 ^ 63)"
      unfolding jpyAmount_Inr is_int64_def CurrencyJPY_def by blast
  next
    assume "m_currency m = ''JPY'' \<and> (\<exists>n. m_amount m = Some (of_int n) \<and> 0 < n \<and> n < 2 ^ 63)"
    then obtain n where n: "m_currency m = CurrencyJPY" "m_amount m = Some (of_int n)" "0 < n" "n < 2 ^ 63"
      by (auto simp: CurrencyJPY_def)
    then have "sint (word_of_int n :: int64) = n" by (intro sint_of_int64) (simp add: is_int64_def)
    with n have "jpyAmount f m = Inr (word_of_int n)" by (simp add: jpyAmount_Inr del: of_int_sint)
    then show "\<exists>a. jpyAmount f m = Inr a" by blast
  qed
qed (simp_all add: jpyAmount_money registerRequest_def parse_format_int)

text \<open>Payment method identifiers. Splitting an identifier succeeds exactly when it is the join
  of a nonempty customer and a nonempty card without a slash, and then gives these two back; the
  customer may contain slashes.\<close>

theorem splitPaymentMethodID_join:
  "splitPaymentMethodID i = Inr (cust, cid) \<longleftrightarrow>
     i = joinPaymentMethodID cust cid \<and> cust \<noteq> [] \<and> cid \<noteq> [] \<and> CHR ''/'' \<notin> set cid"
proof -
  have "splitPaymentMethodID i = Inr (cust, cid) \<longleftrightarrow>
      split_last (CHR ''/'') i = Some (cust, cid) \<and> cust \<noteq> [] \<and> cid \<noteq> []"
    by (auto simp: splitPaymentMethodID_def split: option.splits if_splits)
  then show ?thesis unfolding split_last_Some joinPaymentMethodID_def by auto
qed

text \<open>Derived identifiers. For every nonempty key the derived order id has 30 characters, all
  lower-case letters or digits, the first an \<open>o\<close>, and the derived request key has 30 characters
  of the same alphabet; an empty key gives no identifier.\<close>

theorem derived_ids_shape:
  "length (deriveOrderID key) = (if key = [] then 0 else 30) \<and>
   length (deriveIdempotencyKey key op) = (if key = [] then 0 else 30) \<and>
   set (deriveOrderID key @ deriveIdempotencyKey key op) \<subseteq> Collect is_lower_alnum \<and>
   hd (deriveOrderID key @ ''o'') = CHR ''o''"
proof -
  have "is_lower_alnum (CHR ''o'')" by (simp add: is_lower_alnum_def)
  moreover have "length (to_lower (base32_nopad (sha256 bs))) = 52" for bs
    by (simp add: to_lower_base32 length_base32_nopad length_sha256)
  ultimately show ?thesis
    by (auto simp: deriveOrderID_def deriveIdempotencyKey_def dest!: in_set_takeD lower_base32_alnum)
qed

text \<open>One path per payment. The URLs of the requests for two orders differ whenever the orders
  differ, and the order id stays inside its path segment: whatever it contains, its escaped form has
  no slash, question mark or hash.\<close>

theorem payment_path_injective:
  "(hr_url (retrieve_http c i) = hr_url (retrieve_http c j) \<longleftrightarrow> i = j) \<and>
   (hr_url (cancel_http c i cur k) = hr_url (cancel_http c j cur k) \<longleftrightarrow> i = j) \<and>
   (\<exists>seg. payment_path i = ''/v1/payments/'' @ seg \<and> set seg \<inter> set ''/?#'' = {})"
  using path_escape_inj path_escape_safe
  by (auto simp: retrieve_http_def cancel_http_def payment_path_def)

end
