(* ===== verification/Go_Header.thy ===== *)
theory Go_Header
  imports Go_Json
begin

text \<open>
  Looking up an HTTP header in a map by its name: exactly, by its canonical form, or without regard
  to case. The map is the list of its entries in the order a \<open>range\<close> loop visits them.
\<close>

text \<open>\<open>textproto.CanonicalMIMEHeaderKey\<close>: upper case at the start and after a hyphen, lower case
  elsewhere; a name with a byte that is not a token character stays as it is.\<close>

definition header_token_char :: "char \<Rightarrow> bool" where
  "header_token_char c \<longleftrightarrow> is_digit c \<or> (65 \<le> (of_char c :: nat) \<and> (of_char c :: nat) \<le> 90)
     \<or> (97 \<le> (of_char c :: nat) \<and> (of_char c :: nat) \<le> 122) \<or> c \<in> set ''!#$%&*+-.^_|~''
     \<or> of_char c = (39 :: nat) \<or> of_char c = (96 :: nat)"

fun canonical_from :: "bool \<Rightarrow> string \<Rightarrow> string" where
  "canonical_from up [] = []"
| "canonical_from up (c # cs) =
     (if up then upper_char c else lower_char c) # canonical_from (c = CHR ''-'') cs"

definition canonical_header :: "string \<Rightarrow> string" where
  "canonical_header s = (if list_all header_token_char s then canonical_from True s else s)"

fun find_fold :: "(string \<times> string) list \<Rightarrow> string \<Rightarrow> string option" where
  "find_fold [] name = None"
| "find_fold ((k, v) # hs) name = (if equal_fold k name then Some v else find_fold hs name)"

end
