(* ===== verification/Fincode_Webhook.thy ===== *)
theory Fincode_Webhook
  imports Fincode_Gateway Go_Header
begin

text \<open>
  The webhook handler of \<open>fincode/webhook.go\<close>: configuration, header lookup, signature verification
  in the two modes, decoding of the payload, event ids and event types. The headers are the map's
  entries in the order a \<open>range\<close> loop visits them; the JSON parser and the clock's reading are
  arguments. \<open>EventRaw s\<close> is the pass-through type whose string is \<open>s\<close>.
\<close>

section \<open>Configuration\<close>

definition DefaultSignatureHeader :: string where "DefaultSignatureHeader = ''signature''"

text \<open>\<open>SignatureMode\<close> is a string type: any other string is an unknown mode.\<close>

definition SignatureModeStatic :: string where "SignatureModeStatic = ''static''"
definition SignatureModeHMAC :: string where "SignatureModeHMAC = ''hmac''"

record WebhookConfig =
  wc_Mode :: string
  wc_Secret :: string
  wc_SignatureHeader :: string

record WebhookHandler =
  wh_mode :: string
  wh_secret :: string
  wh_signatureHeader :: string

definition NewWebhookHandler :: "WebhookConfig \<Rightarrow> go_error + WebhookHandler" where
  "NewWebhookHandler cfg =
     (if wc_Mode cfg \<noteq> SignatureModeStatic \<and> wc_Mode cfg \<noteq> SignatureModeHMAC
      then Inl (ValidationError ''Mode'')
      else if wc_Secret cfg = [] then Inl (ValidationError ''Secret'')
      else Inr \<lparr>wh_mode = wc_Mode cfg, wh_secret = wc_Secret cfg,
        wh_signatureHeader = (if wc_SignatureHeader cfg = [] then DefaultSignatureHeader
          else wc_SignatureHeader cfg)\<rparr>)"

section \<open>Payload\<close>

record webhookPayload =
  wp_Event :: string
  wp_ID :: string
  wp_PaymentID :: string
  wp_Status :: string
  wp_ProcessDate :: string
  wp_Created :: string
  wp_Updated :: string

definition dec_webhookPayload :: "json \<Rightarrow> webhookPayload option" where
  "dec_webhookPayload = conv_struct (\<lambda>o'. do {
     ev \<leftarrow> str_field ''event'' o'; i \<leftarrow> str_field ''order_id'' o'; pid \<leftarrow> str_field ''id'' o';
     st \<leftarrow> str_field ''status'' o'; pd \<leftarrow> str_field ''process_date'' o';
     cr \<leftarrow> str_field ''created'' o'; up \<leftarrow> str_field ''updated'' o';
     Some \<lparr>wp_Event = ev, wp_ID = i, wp_PaymentID = pid, wp_Status = st, wp_ProcessDate = pd,
       wp_Created = cr, wp_Updated = up\<rparr> })"

section \<open>Headers\<close>

definition lookupHeader :: "(string \<times> string) list \<Rightarrow> string \<Rightarrow> string option" where
  "lookupHeader headers name = (case map_of headers name of
      Some v \<Rightarrow> Some v
    | None \<Rightarrow> (case map_of headers (canonical_header name) of
          Some v \<Rightarrow> Some v
        | None \<Rightarrow> find_fold headers name))"

section \<open>Signatures\<close>

definition SignBody :: "string \<Rightarrow> string \<Rightarrow> string" where
  "SignBody secret body = base64_std (hmac_sha256 (bytes_of secret) (bytes_of body))"

text \<open>\<open>subtle.ConstantTimeCompare(a, b) == 1\<close> is equality of the byte slices.\<close>

definition verify :: "WebhookHandler \<Rightarrow> string \<Rightarrow> string \<Rightarrow> bool" where
  "verify h body headerSig =
     (let got = trim_space headerSig in
      if wh_mode h = SignatureModeStatic then wh_secret h = got
      else if wh_mode h = SignatureModeHMAC
      then base64_std (hmac_sha256 (bytes_of (wh_secret h)) (bytes_of body)) = got
      else False)"

section \<open>Events\<close>

definition eventID :: "webhookPayload \<Rightarrow> string \<Rightarrow> string" where
  "eventID p body =
     (let r = (if wp_PaymentID p = [] then wp_ID p else wp_PaymentID p) in
      if r \<noteq> [] then wp_Event p @ '':'' @ r @ '':'' @ wp_ProcessDate p
      else wp_Event p @ '':'' @ hex_encode (sha256 (bytes_of body)))"

definition fincodeEventMap :: "(string \<times> webhook_event_type) list" where
  "fincodeEventMap = [(''payments.card.regist'', PaymentPending),
     (''payments.card.capture'', PaymentSucceeded), (''card.regist'', PaymentMethodAttached),
     (''subscription.card.regist'', SubscriptionCreated),
     (''subscription.card.update'', SubscriptionUpdated),
     (''subscription.card.delete'', SubscriptionCanceled)]"

definition toWebhookEventType :: "webhookPayload \<Rightarrow> webhook_event_type" where
  "toWebhookEventType p =
     (if wp_Event p = ''payments.card.exec''
      then (if wp_Status p = StatusCaptured then PaymentSucceeded else EventRaw (wp_Event p))
      else (case map_of fincodeEventMap (wp_Event p) of
          Some t \<Rightarrow> t
        | None \<Rightarrow> EventRaw (wp_Event p)))"

definition ParseAndVerify :: "WebhookHandler \<Rightarrow> (string \<Rightarrow> json option) \<Rightarrow> time \<Rightarrow> webhook_request option
    \<Rightarrow> go_error + webhook_event" where
  "ParseAndVerify h parse now reqo = (case reqo of
      None \<Rightarrow> Inl (WebhookError InvalidPayload None)
    | Some req \<Rightarrow> (case lookupHeader (wq_Headers req) (wh_signatureHeader h) of
          None \<Rightarrow> Inl (WebhookError InvalidSignature None)
        | Some sg \<Rightarrow>
            if sg = [] then Inl (WebhookError InvalidSignature None)
            else if \<not> verify h (wq_Body req) sg then Inl (WebhookError InvalidSignature None)
            else (case Option.bind (parse (wq_Body req)) dec_webhookPayload of
                None \<Rightarrow> Inl (WebhookError InvalidPayload (Some (PlainError ''unmarshal'')))
              | Some payload \<Rightarrow>
                  if wp_Event payload = [] then Inl (WebhookError InvalidPayload None)
                  else Inr \<lparr>wv_ID = eventID payload (wq_Body req), wv_Type = toWebhookEventType payload,
                    wv_CreatedAt = (case first_some parseFincodeTime
                        [wp_ProcessDate payload, wp_Updated payload, wp_Created payload] of
                      Some t \<Rightarrow> t | None \<Rightarrow> now),
                    wv_Data = wq_Body req\<rparr>)))"

section \<open>Properties\<close>

text \<open>The header value a configured handler accepts for a body.\<close>

definition expected_signature :: "WebhookHandler \<Rightarrow> string \<Rightarrow> string" where
  "expected_signature h body =
     (if wh_mode h = SignatureModeStatic then wh_secret h else SignBody (wh_secret h) body)"

definition authentic :: "WebhookHandler \<Rightarrow> webhook_request \<Rightarrow> bool" where
  "authentic h q \<longleftrightarrow> (\<exists>sg. lookupHeader (wq_Headers q) (wh_signatureHeader h) = Some sg \<and>
     trim_space sg = expected_signature h (wq_Body q))"

lemma NewWebhookHandler_mode:
  "NewWebhookHandler cfg = Inr h \<Longrightarrow> wh_mode h = wc_Mode cfg \<and> wh_secret h = wc_Secret cfg \<and>
     wc_Secret cfg \<noteq> [] \<and> wc_Mode cfg \<in> {SignatureModeStatic, SignatureModeHMAC}"
  by (auto simp: NewWebhookHandler_def split: if_splits)

lemma SignBody_nonempty: "SignBody s b \<noteq> []"
  unfolding SignBody_def by (rule base64_std_nonempty) (metis length_hmac_sha256 list.size(3) zero_neq_numeral)

lemma trim_SignBody [simp]: "trim_space (SignBody s b) = SignBody s b"
  by (simp add: SignBody_def)

lemma verify_expected:
  assumes "NewWebhookHandler cfg = Inr h"
  shows "sg \<noteq> [] \<and> verify h body sg \<longleftrightarrow> trim_space sg = expected_signature h body"
proof -
  have "expected_signature h body \<noteq> []"
    using NewWebhookHandler_mode [OF assms] SignBody_nonempty by (simp add: expected_signature_def)
  then have "trim_space sg = expected_signature h body \<Longrightarrow> sg \<noteq> []" by auto
  moreover have "verify h body sg \<longleftrightarrow> trim_space sg = expected_signature h body"
    using NewWebhookHandler_mode [OF assms]
    by (auto simp: verify_def expected_signature_def SignBody_def Let_def SignatureModeStatic_def
        SignatureModeHMAC_def)
  ultimately show ?thesis by blast
qed

text \<open>C7. Only authentic deliveries become events. For a handler the constructor accepts, a request
  whose signature header is not the expected one (the secret itself, or the HMAC of this body under
  the secret) is answered with the invalid-signature error, whatever the body; an authentic one is
  never answered so, and an event carries the verified body unchanged.\<close>

theorem ParseAndVerify_authentic:
  assumes "NewWebhookHandler cfg = Inr h"
  shows "case ParseAndVerify h parse now (Some q) of
      Inr ev \<Rightarrow> authentic h q \<and> wv_Data ev = wq_Body q
    | Inl e \<Rightarrow> (if authentic h q then \<exists>cause. e = WebhookError InvalidPayload cause
        else e = WebhookError InvalidSignature None)"
proof (cases "lookupHeader (wq_Headers q) (wh_signatureHeader h)")
  case None
  then show ?thesis by (simp add: ParseAndVerify_def authentic_def)
next
  case (Some sg)
  with verify_expected [OF assms, of sg "wq_Body q"] show ?thesis
    by (auto simp: ParseAndVerify_def authentic_def split: option.splits)
qed

theorem ParseAndVerify_authentic_witness:
  "ParseAndVerify \<lparr>wh_mode = ''static'', wh_secret = ''s'', wh_signatureHeader = ''signature''\<rparr>
     (\<lambda>_. None) 0 (Some \<lparr>wq_Headers = [(''signature'', ''t'')], wq_Body = []\<rparr>)
   = Inl (WebhookError InvalidSignature None)"
proof -
  have h: "NewWebhookHandler \<lparr>wc_Mode = ''static'', wc_Secret = ''s'', wc_SignatureHeader = []\<rparr>
      = Inr \<lparr>wh_mode = ''static'', wh_secret = ''s'', wh_signatureHeader = ''signature''\<rparr>"
    by (simp add: NewWebhookHandler_def SignatureModeStatic_def DefaultSignatureHeader_def)
  have "\<not> authentic \<lparr>wh_mode = ''static'', wh_secret = ''s'', wh_signatureHeader = ''signature''\<rparr>
      \<lparr>wq_Headers = [(''signature'', ''t'')], wq_Body = []\<rparr>"
    by (simp add: authentic_def lookupHeader_def expected_signature_def SignatureModeStatic_def
        trim_space_ascii is_space_def is_ascii_def)
  with ParseAndVerify_authentic [OF h, where parse = "\<lambda>_. None" and now = 0 and q = "\<lparr>wq_Headers = [(''signature'', ''t'')], wq_Body = []\<rparr>"]
  show ?thesis by (auto simp: ParseAndVerify_def lookupHeader_def split: if_splits option.splits)
qed

text \<open>Signing round trip. A body signed with \<open>SignBody\<close> under the shared secret is accepted by
  the HMAC handler whatever the capitalisation of the header name, and the event has the payload's
  type and identifier.\<close>

theorem SignBody_accepted:
  assumes "NewWebhookHandler \<lparr>wc_Mode = SignatureModeHMAC, wc_Secret = s, wc_SignatureHeader = hn\<rparr> = Inr h"
    and "equal_fold k (wh_signatureHeader h)"
    and "Option.bind (parse body) dec_webhookPayload = Some p" and "wp_Event p \<noteq> []"
  shows "\<exists>ev. ParseAndVerify h parse now
       (Some \<lparr>wq_Headers = [(k, SignBody s body)], wq_Body = body\<rparr>) = Inr ev \<and>
     wv_Type ev = toWebhookEventType p \<and> wv_ID ev = eventID p body"
proof -
  have l: "lookupHeader [(k, SignBody s body)] (wh_signatureHeader h) = Some (SignBody s body)"
    using assms(2) by (simp add: lookupHeader_def)
  have "expected_signature h body = SignBody s body"
    using NewWebhookHandler_mode [OF assms(1)]
    by (simp add: expected_signature_def SignatureModeStatic_def SignatureModeHMAC_def)
  with verify_expected [OF assms(1), of "SignBody s body" body]
  have "verify h body (SignBody s body)" "SignBody s body \<noteq> []" by auto
  with l assms(3,4) show ?thesis by (simp add: ParseAndVerify_def)
qed

theorem SignBody_accepted_witness:
  "\<exists>h ev. ParseAndVerify h (\<lambda>_. Some (JObj [(''event'', JStr ''card.regist'')])) 0
     (Some \<lparr>wq_Headers = [(''Signature'', SignBody ''s'' ''b'')], wq_Body = ''b''\<rparr>) = Inr ev \<and>
     wv_Type ev = PaymentMethodAttached"
proof -
  let ?h = "\<lparr>wh_mode = ''hmac'', wh_secret = ''s'', wh_signatureHeader = ''signature''\<rparr>"
  let ?p = "\<lparr>wp_Event = ''card.regist'', wp_ID = [], wp_PaymentID = [], wp_Status = [],
    wp_ProcessDate = [], wp_Created = [], wp_Updated = []\<rparr>"
  have h: "NewWebhookHandler \<lparr>wc_Mode = SignatureModeHMAC, wc_Secret = ''s'', wc_SignatureHeader = []\<rparr> = Inr ?h"
    by (simp add: NewWebhookHandler_def SignatureModeStatic_def SignatureModeHMAC_def DefaultSignatureHeader_def)
  have "equal_fold ''Signature'' ''signature''" by code_simp
  then have k: "equal_fold ''Signature'' (wh_signatureHeader ?h)" by simp
  have p: "Option.bind (Some (JObj [(''event'', JStr ''card.regist'')])) dec_webhookPayload = Some ?p"
    by (simp add: dec_webhookPayload_def conv_struct_def str_field_def nonnull_vals_def
        field_vals_def equal_fold_ascii lower_char_def)
  from SignBody_accepted [of "''s''" "[]" ?h "''Signature''" "\<lambda>_. Some (JObj [(''event'', JStr ''card.regist'')])"
      "''b''" ?p 0, OF h k] p
  show ?thesis by (auto simp: toWebhookEventType_def fincodeEventMap_def intro!: exI [of _ ?h])
qed

text \<open>Success is reported only for committed funds. The event type is payment-succeeded exactly
  for the capture event and for the execution event whose payload status is captured; an execution
  with any other status, and every unknown event, passes through under its own name.\<close>

theorem PaymentSucceeded_only_when_captured:
  "(toWebhookEventType p = PaymentSucceeded \<longleftrightarrow> wp_Event p = ''payments.card.capture'' \<or>
      wp_Event p = ''payments.card.exec'' \<and> wp_Status p = ''CAPTURED'') \<and>
   (toWebhookEventType p = EventRaw nm \<longleftrightarrow> nm = wp_Event p \<and> wp_Event p \<notin> fst ` set fincodeEventMap \<and>
      \<not> (wp_Event p = ''payments.card.exec'' \<and> wp_Status p = ''CAPTURED''))"
  by (auto simp: toWebhookEventType_def fincodeEventMap_def StatusCaptured_def)

text \<open>A static secret with white space at an end is accepted by the constructor, but the handler
  then rejects every request as badly signed: the header value is trimmed and the secret is not.\<close>

theorem static_secret_untrimmed:
  assumes "NewWebhookHandler cfg = Inr h" and "wc_Mode cfg = SignatureModeStatic"
    and "trim_space (wc_Secret cfg) \<noteq> wc_Secret cfg"
  shows "ParseAndVerify h parse now (Some q) = Inl (WebhookError InvalidSignature None)"
proof -
  have m: "wh_mode h = SignatureModeStatic" "wh_secret h = wc_Secret cfg"
    using NewWebhookHandler_mode [OF assms(1)] assms(2) by simp_all
  have "wc_Secret cfg \<noteq> trim_space sg" for sg
    using assms(3) by (metis trim_space_idem)
  with m have "\<not> verify h body sg" for body sg
    by (simp add: verify_def Let_def)
  then show ?thesis by (simp add: ParseAndVerify_def split: option.split)
qed

theorem static_secret_untrimmed_witness:
  "\<exists>h. NewWebhookHandler \<lparr>wc_Mode = ''static'', wc_Secret = ''s '', wc_SignatureHeader = []\<rparr> = Inr h \<and>
     (\<forall>parse now b. ParseAndVerify h parse now (Some \<lparr>wq_Headers = [(''signature'', ''s '')], wq_Body = b\<rparr>)
       = Inl (WebhookError InvalidSignature None))"
proof -
  let ?c = "\<lparr>wc_Mode = ''static'', wc_Secret = ''s '', wc_SignatureHeader = []\<rparr>"
  obtain h where h: "NewWebhookHandler ?c = Inr h"
    by (simp add: NewWebhookHandler_def SignatureModeStatic_def)
  have "trim_space ''s '' = ''s''" by code_simp
  then have "trim_space (wc_Secret ?c) \<noteq> wc_Secret ?c" by simp
  with static_secret_untrimmed [OF h] h show ?thesis
    by (simp add: SignatureModeStatic_def)
qed

end
