(* ===== verification/Fincode_Customer.thy ===== *)
theory Fincode_Customer
  imports Fincode_Gateway_Props
begin

text \<open>
  The customer gateway of \<open>fincode/customer.go\<close>: create, update, get, delete, the default payment
  method, and the mapping between the port's customer and fincode's.
\<close>

section \<open>Mapping\<close>

definition applyAddressToCreate :: "CreateCustomerRequest \<Rightarrow> address option \<Rightarrow> CreateCustomerRequest" where
  "applyAddressToCreate req a = (case a of
      None \<Rightarrow> req
    | Some ad \<Rightarrow> req\<lparr>fc_AddrLine1 := ad_Line1 ad, fc_AddrLine2 := ad_Line2 ad,
        fc_AddrCity := ad_City ad, fc_AddrState := ad_State ad, fc_AddrPostCode := ad_PostalCode ad,
        fc_AddrCountry := ad_Country ad\<rparr>)"

definition set_nonempty :: "string \<Rightarrow> string option \<Rightarrow> string option" where
  "set_nonempty s old = (if s \<noteq> [] then Some s else old)"

definition applyAddressToUpdate :: "UpdateCustomerRequest \<Rightarrow> address option \<Rightarrow> UpdateCustomerRequest" where
  "applyAddressToUpdate req a = (case a of
      None \<Rightarrow> req
    | Some ad \<Rightarrow> req\<lparr>fu_AddrLine1 := set_nonempty (ad_Line1 ad) (fu_AddrLine1 req),
        fu_AddrLine2 := set_nonempty (ad_Line2 ad) (fu_AddrLine2 req),
        fu_AddrCity := set_nonempty (ad_City ad) (fu_AddrCity req),
        fu_AddrState := set_nonempty (ad_State ad) (fu_AddrState req),
        fu_AddrPostCode := set_nonempty (ad_PostalCode ad) (fu_AddrPostCode req),
        fu_AddrCountry := set_nonempty (ad_Country ad) (fu_AddrCountry req)\<rparr>)"

definition addressFromCustomerResponse :: "CustomerResponse \<Rightarrow> address option" where
  "addressFromCustomerResponse r =
     (if re_AddrLine1 r = [] \<and> re_AddrLine2 r = [] \<and> re_AddrCity r = [] \<and> re_AddrState r = []
         \<and> re_AddrPostCode r = [] \<and> re_AddrCountry r = [] then None
      else Some \<lparr>ad_Line1 = re_AddrLine1 r, ad_Line2 = re_AddrLine2 r, ad_City = re_AddrCity r,
        ad_State = re_AddrState r, ad_PostalCode = re_AddrPostCode r, ad_Country = re_AddrCountry r\<rparr>)"

definition wrapCustomerError :: "go_error \<Rightarrow> go_error" where
  "wrapCustomerError err = (case wrapGatewayError err of
      GatewayError code decline rt raw \<Rightarrow>
        (case as_http err of
           Some (st, _) \<Rightarrow> GatewayError (if st = 404 then CustomerNotFound else code) decline rt raw
         | None \<Rightarrow> GatewayError code decline rt raw)
    | e \<Rightarrow> e)"

definition default_card :: "CardResponse list \<Rightarrow> CardResponse option" where
  "default_card cards = find (\<lambda>cd. rc_DefaultFlag cd = ''1'') cards"

definition toCustomer :: "'w http_env \<Rightarrow> client \<Rightarrow> CustomerResponse \<Rightarrow> ('w, customer) call" where
  "toCustomer env c resp =
     bindA (askA (\<lambda>w. timeOrNow env w (re_Created resp))) (\<lambda>createdAt.
     bindA (if re_Updated resp \<noteq> [] then askA (\<lambda>w. timeOrNow env w (re_Updated resp)) else ret createdAt)
       (\<lambda>updatedAt.
     bindA (if re_CardRegistration resp = ''1''
        then mapErrA wrapGatewayError (ListCards env c (re_ID resp)) else ret []) (\<lambda>cards.
     ret \<lparr>cu_ID = re_ID resp, cu_Name = re_Name resp, cu_Email = re_Email resp,
       cu_Phone = re_PhoneNo resp, cu_Address = addressFromCustomerResponse resp,
       cu_DefaultPaymentMethodID =
         map_option (\<lambda>cd. joinPaymentMethodID (re_ID resp) (rc_ID cd)) (default_card cards),
       cu_CreatedAt = createdAt, cu_UpdatedAt = updatedAt\<rparr>)))"

section \<open>Operations\<close>

definition create_request :: "create_customer_request \<Rightarrow> CreateCustomerRequest" where
  "create_request req = applyAddressToCreate
     \<lparr>fc_ID = ccq_InternalID req, fc_Name = ccq_Name req, fc_Email = ccq_Email req,
      fc_PhoneCC = [], fc_PhoneNo = ccq_Phone req, fc_AddrCity = [], fc_AddrCountry = [],
      fc_AddrLine1 = [], fc_AddrLine2 = [], fc_AddrLine3 = [], fc_AddrPostCode = [], fc_AddrState = []\<rparr>
     (ccq_Address req)"

definition CreateCustomer :: "'w http_env \<Rightarrow> client \<Rightarrow> create_customer_request option
    \<Rightarrow> ('w, customer) call" where
  "CreateCustomer env c reqo = (case reqo of
      None \<Rightarrow> throw (ValidationError ''req'')
    | Some req \<Rightarrow>
        if ccq_Metadata req \<noteq> [] then throw (ValidationError ''Metadata'')
        else if ccq_Description req \<noteq> [] then throw (ValidationError ''Description'')
        else bindA (mapErrA wrapCustomerError (client_CreateCustomer env c (create_request req)))
          (toCustomer env c))"

definition update_request :: "update_customer_request \<Rightarrow> UpdateCustomerRequest" where
  "update_request req = applyAddressToUpdate
     \<lparr>fu_Name = ucq_Name req, fu_Email = ucq_Email req, fu_PhoneCC = None, fu_PhoneNo = ucq_Phone req,
      fu_AddrCity = None, fu_AddrCountry = None, fu_AddrLine1 = None, fu_AddrLine2 = None,
      fu_AddrLine3 = None, fu_AddrPostCode = None, fu_AddrState = None\<rparr> (ucq_Address req)"

definition UpdateCustomer :: "'w http_env \<Rightarrow> client \<Rightarrow> update_customer_request option
    \<Rightarrow> ('w, customer) call" where
  "UpdateCustomer env c reqo = (case reqo of
      None \<Rightarrow> throw (ValidationError ''req'')
    | Some req \<Rightarrow>
        if ucq_CustomerID req = [] then throw (ValidationError ''CustomerID'')
        else if ucq_Metadata req \<noteq> [] then throw (ValidationError ''Metadata'')
        else if nonempty (ucq_Description req) \<noteq> None then throw (ValidationError ''Description'')
        else bindA (mapErrA wrapCustomerError
            (client_UpdateCustomer env c (ucq_CustomerID req) (update_request req)))
          (toCustomer env c))"

definition GetCustomer :: "'w http_env \<Rightarrow> client \<Rightarrow> string \<Rightarrow> ('w, customer) call" where
  "GetCustomer env c i =
     (if i = [] then throw (ValidationError ''customerID'')
      else bindA (mapErrA wrapCustomerError (client_RetrieveCustomer env c i)) (toCustomer env c))"

definition DeleteCustomer :: "'w http_env \<Rightarrow> client \<Rightarrow> string \<Rightarrow> ('w, unit) call" where
  "DeleteCustomer env c i =
     (if i = [] then throw (ValidationError ''customerID'')
      else bindA (mapErrA wrapCustomerError (client_DeleteCustomer env c i)) (\<lambda>_. ret ()))"

definition SetDefaultPaymentMethod :: "'w http_env \<Rightarrow> client \<Rightarrow> string \<Rightarrow> string \<Rightarrow> ('w, unit) call" where
  "SetDefaultPaymentMethod env c customerID pmID =
     (if customerID = [] then throw (ValidationError ''customerID'')
      else if pmID = [] then throw (ValidationError ''paymentMethodID'')
      else bindA (liftA (splitPaymentMethodID pmID)) (\<lambda>(pmCustomer, cid).
        if pmCustomer \<noteq> customerID then throw (ValidationError ''paymentMethodID'')
        else bindA (mapErrA wrapGatewayError (UpdateCard env c customerID cid ''1'')) (\<lambda>_. ret ())))"

section \<open>Properties\<close>

definition set_default_http :: "client \<Rightarrow> string \<Rightarrow> string \<Rightarrow> http_request" where
  "set_default_http c cust cid =
     base_request c ''PUT'' (card_path cust cid) (Some (enc_UpdateCard ''1''))"

lemma UpdateCard_sent:
  "UpdateCard env c cust cid ''1'' w = (r, w') \<Longrightarrow>
     sent w' = sent w \<or> sent w' = sent w @ [set_default_http c cust cid]"
  unfolding UpdateCard_def set_default_http_def by (drule doJSON_sent) simp

text \<open>A default card belongs to the customer. \<open>SetDefaultPaymentMethod\<close> sends nothing unless the
  payment method identifier joins the given customer and a card; then it sends only the update of
  that card under that customer. Success means that this request was sent.\<close>

theorem SetDefaultPaymentMethod_own_card:
  "case SetDefaultPaymentMethod env c cust pm w of (r, w') \<Rightarrow>
     sent w' = sent w \<and> r \<noteq> Inr () \<or>
     (\<exists>cid. pm = joinPaymentMethodID cust cid \<and> cid \<noteq> [] \<and> sent w' = sent w @ [set_default_http c cust cid])"
proof (cases "\<exists>cid. splitPaymentMethodID pm = Inr (cust, cid) \<and> cust \<noteq> []")
  case False
  then show ?thesis
    by (auto simp: SetDefaultPaymentMethod_def act_defs splitPaymentMethodID_def
        split: option.splits sum.splits prod.splits if_splits)
next
  case True
  then obtain cid where s: "splitPaymentMethodID pm = Inr (cust, cid)" and c: "cust \<noteq> []" by blast
  then have pm: "pm = joinPaymentMethodID cust cid" "pm \<noteq> []" "cid \<noteq> []"
    by (auto simp: splitPaymentMethodID_def joinPaymentMethodID_def split_last_Some
        split: option.splits if_splits)
  obtain r1 w1 where u: "UpdateCard env c cust cid ''1'' w = (r1, w1)" by fastforce
  have run: "SetDefaultPaymentMethod env c cust pm w =
      (case r1 of Inl e \<Rightarrow> (Inl (wrapGatewayError e), w1) | Inr _ \<Rightarrow> (Inr (), w1))"
    using s c pm u by (auto simp: SetDefaultPaymentMethod_def act_defs split: sum.splits)
  show ?thesis
  proof (cases r1)
    case (Inl e)
    with run pm UpdateCard_sent [OF u] show ?thesis by auto
  next
    case (Inr a)
    with u have "sent w1 = sent w @ [set_default_http c cust cid]"
      unfolding UpdateCard_def set_default_http_def by (auto dest: doJSON_Inr_sent)
    with run Inr pm show ?thesis by auto
  qed
qed

lemma wrapGatewayError_shape:
  obtains code decline rt where "wrapGatewayError err = GatewayError code decline rt (Some err)"
    "code \<noteq> CustomerNotFound"
proof (cases "as_http err")
  case None
  then show ?thesis by (intro that [of GatewayUnavailable "[]" True]) (simp_all add: wrapGatewayError_def)
next
  case (Some h)
  obtain code decline rt raw where w: "wrapGatewayError err = GatewayError code decline rt raw"
    using Some by (cases h) (simp add: wrapGatewayError_def Let_def case_prod_unfold)
  then have "raw = Some err \<and> code \<noteq> CustomerNotFound"
    using Some by (cases h) (auto simp: wrapGatewayError_def Let_def classifyFincodeErrorCode_def
      split: option.splits list.splits if_splits)
  with w show ?thesis by (intro that) auto
qed

text \<open>A missing customer is told apart. A failed customer call is reported as customer-not-found
  exactly when an HTTP status was received and it is 404; otherwise as any gateway failure. The
  retry flag and the cause are kept.\<close>

theorem wrapCustomerError_class:
  "\<exists>code decline rt code'. wrapGatewayError err = GatewayError code decline rt (Some err) \<and>
     wrapCustomerError err = GatewayError code' decline rt (Some err) \<and>
     code' = (if (\<exists>api. as_http err = Some (404, api)) then CustomerNotFound else code) \<and>
     (code' = CustomerNotFound \<longleftrightarrow> (\<exists>api. as_http err = Some (404, api)))"
proof -
  obtain code decline rt where w: "wrapGatewayError err = GatewayError code decline rt (Some err)"
      "code \<noteq> CustomerNotFound"
    by (rule wrapGatewayError_shape)
  then show ?thesis by (cases "as_http err") (auto simp: wrapCustomerError_def)
qed

text \<open>Updates are not destructive. The body of an update request has a field exactly for what the
  caller set: name, email and phone when given (even when empty, which clears them), an address part
  when an address is given and that part is not empty. Nothing else is sent.\<close>

theorem update_request_fields:
  "enc_UpdateCustomer (update_request req) = JObj
     (put_ptr_omitempty ''name'' (ucq_Name req) @ put_ptr_omitempty ''email'' (ucq_Email req) @
      put_ptr_omitempty ''phone_no'' (ucq_Phone req) @
      (case ucq_Address req of
         None \<Rightarrow> []
       | Some a \<Rightarrow>
           put_str_omitempty ''addr_city'' (ad_City a) @ put_str_omitempty ''addr_country'' (ad_Country a) @
           put_str_omitempty ''addr_line_1'' (ad_Line1 a) @ put_str_omitempty ''addr_line_2'' (ad_Line2 a) @
           put_str_omitempty ''addr_post_code'' (ad_PostalCode a) @
           put_str_omitempty ''addr_state'' (ad_State a)))"
  by (simp add: enc_UpdateCustomer_def update_request_def applyAddressToUpdate_def set_nonempty_def
      put_ptr_omitempty_def put_str_omitempty_def split: option.split)

text \<open>The response of a server that stored the fields of a create request.\<close>

definition customer_echo :: "CreateCustomerRequest \<Rightarrow> CustomerResponse" where
  "customer_echo r = \<lparr>re_ID = fc_ID r, re_Name = fc_Name r, re_Email = fc_Email r,
     re_PhoneCC = fc_PhoneCC r, re_PhoneNo = fc_PhoneNo r, re_AddrCity = fc_AddrCity r,
     re_AddrCountry = fc_AddrCountry r, re_AddrLine1 = fc_AddrLine1 r, re_AddrLine2 = fc_AddrLine2 r,
     re_AddrLine3 = fc_AddrLine3 r, re_AddrPostCode = fc_AddrPostCode r, re_AddrState = fc_AddrState r,
     re_CardRegistration = [], re_Created = [], re_Updated = []\<rparr>"

lemma fold_customer_tags:
  "fold_case ''id'' = ''id''" "fold_case ''name'' = ''name''" "fold_case ''email'' = ''email''"
  "fold_case ''phone_cc'' = ''phone_cc''" "fold_case ''phone_no'' = ''phone_no''"
  "fold_case ''addr_city'' = ''addr_city''" "fold_case ''addr_country'' = ''addr_country''"
  "fold_case ''addr_line_1'' = ''addr_line_1''" "fold_case ''addr_line_2'' = ''addr_line_2''"
  "fold_case ''addr_line_3'' = ''addr_line_3''" "fold_case ''addr_post_code'' = ''addr_post_code''"
  "fold_case ''addr_state'' = ''addr_state''" "fold_case ''card_registration'' = ''card_registration''"
  "fold_case ''created'' = ''created''" "fold_case ''updated'' = ''updated''"
  by code_simp+

lemma conv_omitempty:
  "conv_last conv_str [] (if s \<noteq> [] then [JStr s] else []) = Some s"
  "conv_last conv_str [] (if s = [] then [] else [JStr s]) = Some s"
  by simp_all

lemma dec_enc_Customer: "dec_Customer (enc_CreateCustomer r) = Some (customer_echo r)"
  by (simp add: dec_Customer_def conv_struct_def enc_CreateCustomer_def customer_echo_def str_field_def
      equal_fold_def fold_customer_tags conv_omitempty split del: if_split)

text \<open>Customers round trip. What a create request sends, decoded as a customer response, gives back
  the fields of the request, and the customer read from it has the caller's id, name, email, phone
  and address; an address whose parts are all empty comes back as none.\<close>

theorem customer_roundtrip:
  "dec_Customer (enc_CreateCustomer (create_request req)) = Some (customer_echo (create_request req)) \<and>
   (case toCustomer env c (customer_echo (create_request req)) w of (r, w') \<Rightarrow> w' = w \<and>
      (\<exists>cu. r = Inr cu \<and> cu_ID cu = ccq_InternalID req \<and> cu_Name cu = ccq_Name req \<and>
        cu_Email cu = ccq_Email req \<and> cu_Phone cu = ccq_Phone req \<and> cu_DefaultPaymentMethodID cu = None \<and>
        cu_Address cu = (case ccq_Address req of
          None \<Rightarrow> None
        | Some a \<Rightarrow> if a = \<lparr>ad_Line1 = [], ad_Line2 = [], ad_City = [], ad_State = [],
            ad_PostalCode = [], ad_Country = []\<rparr> then None else Some a)))"
proof
  show "dec_Customer (enc_CreateCustomer (create_request req)) = Some (customer_echo (create_request req))"
    by (rule dec_enc_Customer)
qed (auto simp: toCustomer_def customer_echo_def default_card_def act_defs create_request_def
      applyAddressToCreate_def addressFromCustomerResponse_def split: option.split)

end
