(* ===== verification/Sql_Base.thy ===== *)
theory Sql_Base
  imports Core_Port
begin

text \<open>
  The database as the SQL adapters see it. The database server and the drivers are not part of the
  repository; what is given here is their documented behaviour at the granularity of one statement:

  \<^item> a world holds the current contents \<open>db\<close>, the contents at the start of the open transaction
    (\<open>saved\<close>, which is also whether the context carries a transaction), the \<open>AUTO_INCREMENT\<close> counter
    (which a rollback does not restore), the injected clock and the server's, and a script of faults;
  \<^item> each statement takes one entry of the script: it runs, or it fails before running, or it runs
    and its answer is lost. A commit whose answer is lost may thus have happened;
  \<^item> errors wrapped with \<open>%w\<close> are the wrapped error, since \<open>errors.As\<close> sees through the wrapping.
\<close>

section \<open>Errors\<close>

text \<open>An error of the driver: a MySQL server error with number and message, a PostgreSQL server error with
  code and constraint name, the missing-row sentinel, a commit that the server turned into a rollback, a
  cancelled context, or any other failure.\<close>

datatype db_error = MySQLError nat string | PgError string string | ErrNoRows | TxCommitRollback | ContextDone | DriverError

text \<open>The codes of the core's \<open>shared.DomainError\<close> that the adapters use.\<close>

datatype domain_code = ErrCodeVersionConflict | ErrCodeConflict | ErrCodeNotFound | ErrCodeValidation
  | ErrCodeDuplicateRequest

text \<open>The errors of the adapters: a domain error, the core's sentinels \<open>tx.ErrVersionConflict\<close> and
  \<open>payment.DuplicateIdempotencyKeyError\<close> (key, attempted id, id of the winner), a driver error, or
  another failure.\<close>

datatype repo_error = DomainError domain_code "repo_error option" | TxVersionConflict
  | DuplicateIdempotencyKey string string string | DbError db_error | OtherError string

text \<open>\<open>errors.As\<close> for the driver's error: through a domain error to its cause.\<close>

fun as_db :: "repo_error \<Rightarrow> db_error option" where
  "as_db (DomainError c cause) = (case cause of None \<Rightarrow> None | Some e \<Rightarrow> as_db e)"
| "as_db (DbError e) = Some e"
| "as_db TxVersionConflict = None"
| "as_db (DuplicateIdempotencyKey k a x) = None"
| "as_db (OtherError s) = None"

section \<open>Statements\<close>

datatype fault = NoFault | FaultBefore db_error | FaultAfter db_error

record 'd world =
  db :: 'd
  saved :: "'d option"
  autoinc :: int
  clk :: time
  snow :: time
  faults :: "fault list"

type_synonym ('d, 'a) sql = "('d world, repo_error, 'a) act"

definition next_fault :: "'d world \<Rightarrow> fault" where
  "next_fault w = (case faults w of [] \<Rightarrow> NoFault | f # _ \<Rightarrow> f)"

definition drop_fault :: "'d world \<Rightarrow> 'd world" where
  "drop_fault w = w\<lparr>faults := tl (faults w)\<rparr>"

type_synonym ('d, 'a) statement = "'d \<Rightarrow> int \<Rightarrow> (db_error + 'a) \<times> 'd \<times> int"

definition stmt :: "('d, 'a) statement \<Rightarrow> ('d, 'a) sql" where
  "stmt f w = (case next_fault w of
      FaultBefore e \<Rightarrow> (Inl (DbError e), drop_fault w)
    | FaultAfter e \<Rightarrow> (case f (db w) (autoinc w) of (r, d, n) \<Rightarrow>
          (Inl (DbError e), (drop_fault w)\<lparr>db := d, autoinc := n\<rparr>))
    | NoFault \<Rightarrow> (case f (db w) (autoinc w) of (r, d, n) \<Rightarrow>
          (case r of Inl e \<Rightarrow> Inl (DbError e) | Inr a \<Rightarrow> Inr a,
           (drop_fault w)\<lparr>db := d, autoinc := n\<rparr>)))"

text \<open>A query reads and leaves everything as it is; an update changes the contents only.\<close>

definition query :: "('d \<Rightarrow> 'a) \<Rightarrow> ('d, 'a) sql" where
  "query f = stmt (\<lambda>d n. (Inr (f d), d, n))"

definition query_row :: "('d \<Rightarrow> 'a option) \<Rightarrow> ('d, 'a) sql" where
  "query_row f = stmt (\<lambda>d n. (case f d of None \<Rightarrow> Inl ErrNoRows | Some a \<Rightarrow> Inr a, d, n))"

definition exec_stmt :: "('d \<Rightarrow> (db_error + 'a) \<times> 'd) \<Rightarrow> ('d, 'a) sql" where
  "exec_stmt f = stmt (\<lambda>d n. (case f d of (r, d') \<Rightarrow> (r, d', n)))"

text \<open>A statement that uses \<open>NOW(6)\<close>.\<close>

definition with_now :: "(time \<Rightarrow> ('d, 'a) sql) \<Rightarrow> ('d, 'a) sql" where
  "with_now f w = f (snow w) w"

definition clock_now :: "('d, time) sql" where
  "clock_now w = (Inr (clk w), w)"

section \<open>Transactions\<close>

definition in_tx :: "('d, bool) sql" where
  "in_tx w = (Inr (saved w \<noteq> None), w)"

definition begin_tx :: "('d, unit) sql" where
  "begin_tx w = (case next_fault w of
      NoFault \<Rightarrow> (Inr (), (drop_fault w)\<lparr>saved := Some (db w)\<rparr>)
    | FaultBefore e \<Rightarrow> (Inl (DbError e), drop_fault w)
    | FaultAfter e \<Rightarrow> (Inl (DbError e), drop_fault w))"

definition restore :: "'d world \<Rightarrow> 'd world" where
  "restore w = w\<lparr>db := (case saved w of None \<Rightarrow> db w | Some d \<Rightarrow> d), saved := None\<rparr>"

definition rollback :: "('d, unit) sql" where
  "rollback w = (case next_fault w of
      NoFault \<Rightarrow> (Inr (), restore (drop_fault w))
    | FaultBefore e \<Rightarrow> (Inl (DbError e), restore (drop_fault w))
    | FaultAfter e \<Rightarrow> (Inl (DbError e), restore (drop_fault w)))"

definition commit :: "('d, unit) sql" where
  "commit w = (case next_fault w of
      NoFault \<Rightarrow> (Inr (), (drop_fault w)\<lparr>saved := None\<rparr>)
    | FaultBefore e \<Rightarrow> (Inl (DbError e), restore (drop_fault w))
    | FaultAfter e \<Rightarrow> (Inl (DbError e), (drop_fault w)\<lparr>saved := None\<rparr>))"

text \<open>The shape of every own-transaction operation: begin, run, roll back on error, commit.\<close>

definition in_own_tx :: "('d, 'a) sql \<Rightarrow> ('d, 'a) sql" where
  "in_own_tx body =
     bindA begin_tx (\<lambda>_.
     tryA body (\<lambda>e. tryA rollback (\<lambda>_. throw e) (\<lambda>_. throw e))
       (\<lambda>a. bindA commit (\<lambda>_. ret a)))"

section \<open>Contexts\<close>

text \<open>A Go context is a chain of values, and what \<open>Value\<close> finds is the one nearest its end. In the model's
  operations the transaction of the context is the open transaction of the world, which is what \<open>in_tx\<close> asks for;
  the two adapters' functions on contexts are in \<open>My_Tx\<close> and \<open>Pg_Tx\<close>.\<close>

datatype 't gocontext = Background | WithTx "'t gocontext" 't | WithValue "'t gocontext" string

datatype ('t, 'p) querier = TxQuerier 't | PoolQuerier 'p

section \<open>Unique keys\<close>

text \<open>A unique key: its name, the key value of a row if it is constrained (\<open>None\<close> is SQL \<open>NULL\<close>).\<close>

type_synonym 'r unique_key = "string \<times> ('r \<Rightarrow> string option)"

definition clashes :: "'r list \<Rightarrow> 'r \<Rightarrow> 'r unique_key \<Rightarrow> bool" where
  "clashes rows r k \<longleftrightarrow> snd k r \<noteq> None \<and> (\<exists>x \<in> set rows. snd k x = snd k r)"

definition quote_char :: char where "quote_char = CHR 0x27"

text \<open>MySQL's \<open>ER_DUP_ENTRY\<close>: number 1062, text \<open>Duplicate entry 'v' for key 't.k'\<close>.\<close>

definition dup_message :: "string \<Rightarrow> string \<Rightarrow> string" where
  "dup_message entry key = ''Duplicate entry '' @ quote_char # entry @ quote_char # '' for key ''
     @ quote_char # key @ [quote_char]"

definition dup_error :: "string \<Rightarrow> 'r unique_key \<Rightarrow> 'r \<Rightarrow> db_error" where
  "dup_error table k r = MySQLError 1062
     (dup_message (case snd k r of None \<Rightarrow> [] | Some v \<Rightarrow> v) (table @ ''.'' @ fst k))"

text \<open>An insert is checked against the keys in their order and fails on the first clash.\<close>

definition insert_row :: "string \<Rightarrow> 'r unique_key list \<Rightarrow> 'r \<Rightarrow> 'r list \<Rightarrow> db_error + 'r list" where
  "insert_row table keys r rows = (case find (clashes rows r) keys of
      Some k \<Rightarrow> Inl (dup_error table k r)
    | None \<Rightarrow> Inr (rows @ [r]))"

text \<open>
  An update of the row a condition picks out by its primary key: a clash of the new row with another
  row fails, and the number of affected rows is that of the rows that changed, as the MySQL driver
  reports it.
\<close>

definition update_one :: "string \<Rightarrow> 'r unique_key list \<Rightarrow> ('r \<Rightarrow> bool) \<Rightarrow> ('r \<Rightarrow> 'r) \<Rightarrow> 'r list
    \<Rightarrow> db_error + nat \<times> 'r list" where
  "update_one table keys p f rows = (case List.extract p rows of
      None \<Rightarrow> Inr (0, rows)
    | Some (xs, r, ys) \<Rightarrow> (case find (clashes (xs @ ys) (f r)) keys of
          Some k \<Rightarrow> Inl (dup_error table k (f r))
        | None \<Rightarrow> Inr (if f r = r then 0 else 1, xs @ f r # ys)))"

section \<open>Lemmas\<close>

lemma drop_fault_sel [simp]:
  "db (drop_fault w) = db w" "saved (drop_fault w) = saved w" "autoinc (drop_fault w) = autoinc w"
  "clk (drop_fault w) = clk w" "snow (drop_fault w) = snow w"
  by (simp_all add: drop_fault_def)

lemma restore_sel [simp]:
  "db (restore w) = (case saved w of None \<Rightarrow> db w | Some d \<Rightarrow> d)" "saved (restore w) = None"
  "autoinc (restore w) = autoinc w" "clk (restore w) = clk w" "snow (restore w) = snow w"
  by (simp_all add: restore_def)

lemma query_cases:
  assumes "query f w = (r, w')"
  obtains "r = Inr (f (db w))" "db w' = db w" "saved w' = saved w" "autoinc w' = autoinc w" "clk w' = clk w"
  | e where "r = Inl (DbError e)" "db w' = db w" "saved w' = saved w" "autoinc w' = autoinc w" "clk w' = clk w"
  using assms by (auto simp: query_def stmt_def split: fault.splits prod.splits)

lemma query_row_cases:
  assumes "query_row f w = (r, w')"
  obtains a where "r = Inr a" "f (db w) = Some a" "db w' = db w" "saved w' = saved w"
    "autoinc w' = autoinc w" "clk w' = clk w"
  | e where "r = Inl (DbError e)" "db w' = db w" "saved w' = saved w" "autoinc w' = autoinc w" "clk w' = clk w"
  using assms by (auto simp: query_row_def stmt_def split: fault.splits prod.splits option.splits)

lemma stmt_cases:
  assumes "stmt f w = (r, w')"
  obtains a where "r = Inr a" "f (db w) (autoinc w) = (Inr a, db w', autoinc w')" "saved w' = saved w" "clk w' = clk w"
  | e where "r = Inl (DbError e)" "f (db w) (autoinc w) = (Inl e, db w', autoinc w')" "saved w' = saved w" "clk w' = clk w"
  | e where "r = Inl (DbError e)" "db w' = db w" "autoinc w' = autoinc w" "saved w' = saved w" "clk w' = clk w"
  | e r' where "r = Inl (DbError e)" "f (db w) (autoinc w) = (r', db w', autoinc w')" "saved w' = saved w" "clk w' = clk w"
  using assms by (auto simp: stmt_def split: fault.splits prod.splits sum.splits)

lemma exec_stmt_effect:
  assumes "exec_stmt f w = (r, w')"
  shows "db w' = snd (f (db w)) \<or> db w' = db w \<and> isl r"
    and "r = Inr a \<Longrightarrow> fst (f (db w)) = Inr a \<and> db w' = snd (f (db w))"
    and "saved w' = saved w"
  using assms by (cases "f (db w)"; auto simp: exec_stmt_def elim!: stmt_cases)+

lemma update_one_cases:
  assumes "update_one t keys p f rows = r"
  obtains "r = Inr (0, rows)" "\<forall>x \<in> set rows. \<not> p x"
  | xs x ys k where "rows = xs @ x # ys" "p x" "\<forall>z \<in> set xs. \<not> p z" "k \<in> set keys"
      "clashes (xs @ ys) (f x) k" "r = Inl (dup_error t k (f x))"
  | xs x ys where "rows = xs @ x # ys" "p x" "\<forall>z \<in> set xs. \<not> p z"
      "\<forall>k \<in> set keys. \<not> clashes (xs @ ys) (f x) k"
      "r = Inr (if f x = x then 0 else 1, xs @ f x # ys)"
proof (cases "List.extract p rows")
  case None
  with assms that(1) show ?thesis by (auto simp: update_one_def extract_None_iff)
next
  case (Some t3)
  then obtain xs x ys where e: "List.extract p rows = Some (xs, x, ys)" by (cases t3) auto
  then have d: "rows = xs @ x # ys" "p x" "\<forall>z \<in> set xs. \<not> p z" by (auto simp: extract_Some_iff)
  show ?thesis
  proof (cases "find (clashes (xs @ ys) (f x)) keys")
    case None
    with e d assms show ?thesis by (intro that(3)) (auto simp: update_one_def find_None_iff)
  next
    case (Some k)
    then have "k \<in> set keys" "clashes (xs @ ys) (f x) k"
      by (auto simp: find_Some_iff)
    with e d assms Some show ?thesis by (intro that(2)) (auto simp: update_one_def)
  qed
qed

text \<open>Without faults a statement is its function.\<close>

lemma no_faults:
  "faults w = [] \<Longrightarrow> next_fault w = NoFault" "faults w = [] \<Longrightarrow> drop_fault w = w"
  by (simp_all add: next_fault_def drop_fault_def)

lemma stmt_run:
  "faults w = [] \<Longrightarrow> stmt f w = (case f (db w) (autoinc w) of (r, d, n) \<Rightarrow>
     (case r of Inl e \<Rightarrow> Inl (DbError e) | Inr a \<Rightarrow> Inr a, w\<lparr>db := d, autoinc := n\<rparr>))"
  by (simp add: stmt_def no_faults)

lemma query_run: "faults w = [] \<Longrightarrow> query f w = (Inr (f (db w)), w)"
  by (simp add: query_def stmt_run)

lemma query_row_run:
  "faults w = [] \<Longrightarrow> query_row f w =
     (case f (db w) of None \<Rightarrow> Inl (DbError ErrNoRows) | Some a \<Rightarrow> Inr a, w)"
  by (simp add: query_row_def stmt_run split: option.split)

lemma exec_stmt_run:
  "faults w = [] \<Longrightarrow> exec_stmt f w = (case f (db w) of (r, d) \<Rightarrow>
     (case r of Inl e \<Rightarrow> Inl (DbError e) | Inr a \<Rightarrow> Inr a, w\<lparr>db := d\<rparr>))"
  by (simp add: exec_stmt_def stmt_run split: prod.split)

lemma begin_tx_run: "faults w = [] \<Longrightarrow> begin_tx w = (Inr (), w\<lparr>saved := Some (db w)\<rparr>)"
  by (simp add: begin_tx_def no_faults)

lemma rollback_run: "faults w = [] \<Longrightarrow> rollback w = (Inr (), restore w)"
  by (simp add: rollback_def no_faults)

lemma commit_run: "faults w = [] \<Longrightarrow> commit w = (Inr (), w\<lparr>saved := None\<rparr>)"
  by (simp add: commit_def no_faults)

lemmas sql_runs = query_run query_row_run exec_stmt_run begin_tx_run rollback_run commit_run

text \<open>Actions that run inside the current transaction scope: they neither open nor close one, and the
  counter only grows.\<close>

named_theorems sane_intros \<open>composition rules for actions inside a transaction scope\<close>

definition sane :: "('d, 'a) sql \<Rightarrow> bool" where
  "sane m \<longleftrightarrow> (\<forall>w. saved (snd (m w)) = saved w \<and> clk (snd (m w)) = clk w \<and>
     autoinc w \<le> autoinc (snd (m w)))"

lemma saneD:
  assumes "sane m" and "m w = (r, w')"
  shows "saved w' = saved w" "clk w' = clk w" "autoinc w \<le> autoinc w'"
  using assms unfolding sane_def by (metis snd_conv)+

lemma sane_ret [sane_intros]: "sane (ret a)" by (simp add: sane_def)
lemma sane_throw [sane_intros]: "sane (throw e)" by (simp add: sane_def)
lemma sane_liftA [sane_intros]: "sane (liftA r)" by (simp add: sane_def)
lemma sane_clock [sane_intros]: "sane clock_now" by (simp add: sane_def clock_now_def)
lemma sane_in_tx [sane_intros]: "sane in_tx" by (simp add: sane_def in_tx_def)

lemma sane_stmt [sane_intros]: "(\<And>d n. n \<le> snd (snd (f d n))) \<Longrightarrow> sane (stmt f)"
  unfolding sane_def stmt_def
  by (auto split: fault.splits prod.splits) (metis snd_conv)+

lemma sane_query [sane_intros]: "sane (query f)" "sane (query_row g)" "sane (exec_stmt h)"
  unfolding query_def query_row_def exec_stmt_def
  by (auto intro!: sane_stmt split: prod.split)

lemma sane_with_now [sane_intros]: "(\<And>t. sane (f t)) \<Longrightarrow> sane (with_now f)"
  by (simp add: sane_def with_now_def)

lemma sane_tryA [sane_intros]:
  assumes m: "sane m" and h: "\<And>e. sane (h e)" and f: "\<And>a. sane (f a)"
  shows "sane (tryA m h f)"
  unfolding sane_def
proof
  fix w
  obtain r w' where run: "m w = (r, w')" by fastforce
  note w' = saneD [OF m run]
  show "saved (snd (tryA m h f w)) = saved w \<and> clk (snd (tryA m h f w)) = clk w \<and>
     autoinc w \<le> autoinc (snd (tryA m h f w))"
  proof (cases r)
    case (Inl e)
    with h [of e] w' show ?thesis unfolding sane_def tryA_run [of m w, OF run]
      by (auto simp: Inl intro: order_trans)
  next
    case (Inr a)
    with f [of a] w' show ?thesis unfolding sane_def tryA_run [of m w, OF run]
      by (auto simp: Inr intro: order_trans)
  qed
qed

lemma sane_bindA [sane_intros]: "sane m \<Longrightarrow> (\<And>a. sane (f a)) \<Longrightarrow> sane (bindA m f)"
  unfolding bindA_def by (intro sane_intros)

lemma sane_mapErrA [sane_intros]: "sane m \<Longrightarrow> sane (mapErrA g m)"
  unfolding sane_def mapErrA_def
  by (auto simp: tryA_def split: sum.splits prod.splits)
     (metis snd_conv)+

lemma sane_forA [sane_intros]: "(\<And>x. sane (f x)) \<Longrightarrow> sane (forA f xs)"
  by (induction xs) (auto intro!: sane_intros)

lemma sane_mapA [sane_intros]: "(\<And>x. sane (f x)) \<Longrightarrow> sane (mapA f xs)"
  by (induction xs) (auto intro!: sane_intros)

lemma sane_if [sane_intros]: "sane m \<Longrightarrow> sane m' \<Longrightarrow> sane (if b then m else m')"
  by simp

lemma sane_case_option [sane_intros]:
  "sane m \<Longrightarrow> (\<And>x. sane (f x)) \<Longrightarrow> sane (case x of None \<Rightarrow> m | Some y \<Rightarrow> f y)"
  by (simp split: option.split)

lemma sane_case_prod [sane_intros]: "(\<And>x y. sane (f x y)) \<Longrightarrow> sane (case p of (x, y) \<Rightarrow> f x y)"
  by (simp split: prod.split)

text \<open>
  An operation in its own transaction is all or nothing: on success the contents are those of the
  body; on failure they are the contents before, or those of a body that succeeded and whose commit
  went unanswered.
\<close>

lemma in_own_tx_cases:
  assumes run: "in_own_tx body w = (r, w')" and tx: "saved w = None"
    and body: "sane body"
  obtains (committed) a w1 w2 where "r = Inr a" "body w1 = (Inr a, w2)" "db w1 = db w" "autoinc w1 = autoinc w"
      "clk w1 = clk w" "saved w1 = Some (db w)" "db w' = db w2" "autoinc w' = autoinc w2" "saved w' = None"
  | (failed) e where "r = Inl e" "db w' = db w" "saved w' = None" "autoinc w \<le> autoinc w'"
  | (unanswered) e a w1 w2 where "r = Inl (DbError e)" "body w1 = (Inr a, w2)" "db w1 = db w"
      "autoinc w1 = autoinc w" "clk w1 = clk w" "saved w1 = Some (db w)"
      "db w' = db w2" "autoinc w' = autoinc w2" "saved w' = None"
proof -
  obtain rb w1 where b: "begin_tx w = (rb, w1)" by fastforce
  show thesis
  proof (cases rb)
    case (Inl e)
    with run b tx show thesis
      by (intro failed [of e]) (auto simp: in_own_tx_def bindA_run [of begin_tx] begin_tx_def split: fault.splits)
  next
    case (Inr u)
    with b have w1: "db w1 = db w" "autoinc w1 = autoinc w" "clk w1 = clk w" "saved w1 = Some (db w)"
      by (auto simp: begin_tx_def split: fault.splits)
    from run b Inr have k: "tryA body (\<lambda>e. tryA rollback (\<lambda>_. throw e) (\<lambda>_. throw e))
        (\<lambda>a. bindA commit (\<lambda>_. ret a)) w1 = (r, w')"
      by (simp add: in_own_tx_def bindA_run [of begin_tx])
    then show thesis
    proof (cases rule: tryA_cases)
      case (err e w2)
      from saneD [OF body err(1)] w1 have "saved w2 = Some (db w)" "autoinc w \<le> autoinc w2" by simp_all
      with err(2) show thesis
        by (intro failed [of e]) (auto simp: rollback_def tryA_def split: fault.splits)
    next
      case (ok a w2)
      from saneD [OF body ok(1)] w1 have s2: "saved w2 = Some (db w)" "autoinc w \<le> autoinc w2" by simp_all
      obtain rc w3 where c: "commit w2 = (rc, w3)" by fastforce
      with ok(2) have r: "w3 = w'" "r = (case rc of Inl e \<Rightarrow> Inl e | Inr _ \<Rightarrow> Inr a)"
        by (auto simp: bindA_run [of commit] split: sum.splits)
      show thesis
      proof (cases "next_fault w2")
        case NoFault
        with c r ok(1) w1 show thesis by (intro committed [of a w1 w2]) (auto simp: commit_def)
      next
        case (FaultBefore e)
        with c r s2 show thesis by (intro failed [of "DbError e"]) (auto simp: commit_def)
      next
        case (FaultAfter e)
        with c r ok(1) w1 show thesis by (intro unanswered [of e w1 a w2]) (auto simp: commit_def)
      qed
    qed
  qed
qed

text \<open>A world without faults stays one.\<close>

abbreviation calm :: "'d world \<Rightarrow> bool" where "calm w \<equiv> faults w = []"

lemma calm_stmt [keeps_intros]: "keeps calm (stmt f)"
  by (auto simp: keeps_def stmt_def drop_fault_def split: fault.splits prod.splits)

lemma calm_query [keeps_intros]: "keeps calm (query f)" "keeps calm (query_row g)" "keeps calm (exec_stmt h)"
  by (auto simp: query_def query_row_def exec_stmt_def intro: calm_stmt)

lemma calm_tx [keeps_intros]: "keeps calm begin_tx" "keeps calm rollback" "keeps calm commit"
  "keeps calm in_tx" "keeps calm clock_now"
  by (auto simp: keeps_def begin_tx_def rollback_def commit_def in_tx_def clock_now_def restore_def
      drop_fault_def split: fault.splits)

lemma calm_with_now [keeps_intros]: "(\<And>t. keeps I (f t)) \<Longrightarrow> keeps I (with_now f)"
  by (simp add: keeps_def with_now_def)

lemma calm_in_own_tx [keeps_intros]: "keeps calm body \<Longrightarrow> keeps calm (in_own_tx body)"
  unfolding in_own_tx_def by (intro keeps_intros)

section \<open>Reading a duplicate-key message\<close>

text \<open>A text without the quote character occurs in a quoted message exactly when it occurs in one of
  its parts.\<close>

lemma sublist_around:
  assumes "q \<notin> set k"
  shows "sublist k (xs @ q # ys) \<longleftrightarrow> sublist k xs \<or> sublist k ys"
proof
  assume "sublist k (xs @ q # ys)"
  then obtain as bs where e: "xs @ q # ys = as @ k @ bs" by (auto simp: sublist_def)
  show "sublist k xs \<or> sublist k ys"
  proof (cases "length (as @ k) \<le> length xs")
    case True
    with e have "\<exists>zs. xs = (as @ k) @ zs"
      by (metis append_assoc append_eq_append_conv_if append_take_drop_id)
    then show ?thesis by (auto simp: sublist_def)
  next
    case False
    show ?thesis
    proof (cases "length as \<le> length xs")
      case True
      with False e have "(as @ k @ bs) ! length xs = k ! (length xs - length as)"
        "length xs - length as < length k"
        by (auto simp: nth_append)
      moreover have "(as @ k @ bs) ! length xs = q" using e by (metis nth_append_length)
      ultimately show ?thesis using assms by (metis nth_mem)
    next
      case False
      then have "take (Suc (length xs)) as = xs @ [q]"
        using e by (metis (no_types, lifting) Suc_leI append.assoc append_Cons append_Nil
            append_eq_append_conv_if length_append_singleton linorder_not_le take_append)
      then obtain as' where "as = xs @ q # as'"
        by (metis append.assoc append_Cons append_Nil append_take_drop_id)
      with e show ?thesis by (auto simp: sublist_def)
    qed
  qed
next
  assume "sublist k xs \<or> sublist k ys"
  then show "sublist k (xs @ q # ys)"
    by (metis append.assoc append_Cons append_Nil sublist_appendI sublist_def)
qed

end
