(* ===== verification/My_Schema.thy ===== *)
theory My_Schema
  imports Sql_Base
begin

text \<open>
  The tables of the MySQL schema (\<open>mysql/schema.sql\<close> and \<open>mysql/migrations\<close>) that the adapter
  reads and writes, and the database server's part of an answer that the repository does not define:
  the parameter \<open>menv\<close> has the value a JSON column stores for a text (\<open>None\<close> where it is not valid
  JSON), the value a \<open>DATETIME(6)\<close> column or statement parameter has for an instant, the text that
  \<open>JSON_UNQUOTE(JSON_EXTRACT(doc, path))\<close> yields, and \<open>encoding/json\<close> for the event metadata, an
  opaque value of the core library.

  Text comparison is exact: the case-insensitive collation of the tables is not modelled.
\<close>

record menv =
  me_json :: "string \<Rightarrow> string option"
  me_time :: "time \<Rightarrow> time"
  me_extract :: "string \<Rightarrow> string \<Rightarrow> string option"
  me_marshal :: "string \<Rightarrow> string option"
  me_unmarshal :: "string \<Rightarrow> string option"

record event_row =
  er_pos :: int
  er_id :: string
  er_stream :: string
  er_type :: string
  er_version :: int
  er_schema :: int
  er_data :: string
  er_meta :: string
  er_occurred :: time
  er_recorded :: time

record snapshot_row =
  sr_stream :: string
  sr_version :: int
  sr_state :: string
  sr_as_of :: time
  sr_created :: time

text \<open>The tables of the event store, which both SQL adapters have, and the lock table of the MySQL adapter.\<close>

record log_db =
  t_events :: "event_row list"
  t_snapshots :: "snapshot_row list"

record my_db = log_db +
  t_append_lock :: "int list"

text \<open>The generated column of migration 009: the key of a contract creation, when it is not empty.\<close>

definition contract_idempotency_key :: "menv \<Rightarrow> event_row \<Rightarrow> string option" where
  "contract_idempotency_key env r =
     (if er_type r = ''contract.created''
      then (case me_extract env (er_data r) ''$.idempotency_key'' of
          Some s \<Rightarrow> if s = [] then None else Some s | None \<Rightarrow> None)
      else None)"

definition event_keys :: "menv \<Rightarrow> event_row unique_key list" where
  "event_keys env =
     [(''uq_event_id'', \<lambda>r. Some (er_id r)),
      (''uq_stream_version'', \<lambda>r. Some (er_stream r @ ''-'' @ format_int (er_version r))),
      (''ux_contract_idempotency_key'', contract_idempotency_key env)]"

end
