(* ===== verification/My_Errors.thy ===== *)
theory My_Errors
  imports My_Schema
begin

text \<open>
  \<open>mysql/errors.go\<close>: telling apart the duplicate-key errors of the server by the key name in their
  text, and the domain errors they are translated to.
\<close>

definition mysqlErrDupEntry :: nat where "mysqlErrDupEntry = 1062"

definition dupEntryOnKey :: "repo_error \<Rightarrow> string \<Rightarrow> bool" where
  "dupEntryOnKey err keyName = (case as_db err of
      Some (MySQLError n msg) \<Rightarrow> n = mysqlErrDupEntry \<and> contains msg keyName
    | _ \<Rightarrow> False)"

definition isStreamVersionConflict :: "repo_error \<Rightarrow> bool" where
  "isStreamVersionConflict err = dupEntryOnKey err ''uq_stream_version''"

definition isDuplicateEventID :: "repo_error \<Rightarrow> bool" where
  "isDuplicateEventID err = dupEntryOnKey err ''uq_event_id''"

definition isContractIdempotencyKeyConflict :: "repo_error \<Rightarrow> bool" where
  "isContractIdempotencyKeyConflict err = dupEntryOnKey err ''ux_contract_idempotency_key''"

definition versionConflict :: "repo_error option \<Rightarrow> repo_error" where
  "versionConflict cause = DomainError ErrCodeVersionConflict cause"

definition duplicateEventID :: "repo_error option \<Rightarrow> repo_error" where
  "duplicateEventID cause = DomainError ErrCodeConflict cause"

definition contractIdempotencyConflict :: "repo_error option \<Rightarrow> repo_error" where
  "contractIdempotencyConflict cause = DomainError ErrCodeConflict cause"

section \<open>Which key a message names\<close>

lemma contains_dup_message:
  assumes "quote_char \<notin> set k"
  shows "contains (dup_message entry key) k \<longleftrightarrow>
    contains ''Duplicate entry '' k \<or> contains entry k \<or> contains '' for key '' k \<or> contains key k \<or> k = []"
  unfolding contains_def dup_message_def sublist_around [OF assms] by simp

lemma dupEntryOnKey_dup:
  assumes "quote_char \<notin> set k" and "\<not> contains ''Duplicate entry '' k" and "\<not> contains '' for key '' k"
    and "k \<noteq> []"
  shows "dupEntryOnKey (DbError (dup_error table key r)) k \<longleftrightarrow>
    contains (case snd key r of None \<Rightarrow> [] | Some v \<Rightarrow> v) k \<or> contains (table @ ''.'' @ fst key) k"
  using assms by (simp add: dupEntryOnKey_def dup_error_def contains_dup_message mysqlErrDupEntry_def)

end
