(* ===== verification/My_EventStore.thy ===== *)
theory My_EventStore
  imports My_Errors
begin

text \<open>
  The event store of \<open>mysql/eventstore.go\<close>: append under optimistic concurrency control, the load
  operations, snapshots, and one round of the subscription's poll loop. The events table is the list
  of its rows in insertion order; \<open>ORDER BY\<close> is a stable sort.
\<close>

record event =
  ev_ID :: string
  ev_StreamID :: string
  ev_Type :: string
  ev_Version :: int
  ev_SchemaVersion :: int
  ev_Data :: string
  ev_Metadata :: string
  ev_OccurredAt :: time
  ev_RecordedAt :: time
  ev_GlobalPosition :: int

record snapshot =
  sn_StreamID :: string
  sn_Version :: int
  sn_State :: string
  sn_AsOf :: time
  sn_CreatedAt :: time

record es_options =
  eo_pollInterval :: int
  eo_pollBatchSize :: int
  eo_subscribeBuffer :: int

definition default_options :: es_options where
  "default_options = \<lparr>eo_pollInterval = second, eo_pollBatchSize = 256, eo_subscribeBuffer = 256\<rparr>"

definition WithPollInterval :: "int \<Rightarrow> es_options \<Rightarrow> es_options" where
  "WithPollInterval d s = (if 0 < d then s\<lparr>eo_pollInterval := d\<rparr> else s)"

definition WithSubscribeBuffer :: "int \<Rightarrow> es_options \<Rightarrow> es_options" where
  "WithSubscribeBuffer n s =
     (if 0 < n then s\<lparr>eo_subscribeBuffer := n, eo_pollBatchSize := n\<rparr> else s)"

definition New :: "(es_options \<Rightarrow> es_options) list \<Rightarrow> es_options" where
  "New opts = fold (\<lambda>opt s. opt s) opts default_options"

section \<open>Append\<close>

definition normalizeJSON :: "string \<Rightarrow> string" where
  "normalizeJSON b = (if b = [] then ''{}'' else b)"

text \<open>The \<open>INSERT\<close> of one event: a JSON column refuses invalid text, the position is the next
  \<open>AUTO_INCREMENT\<close> value, which is used up even when a unique key rejects the row.\<close>

definition insert_event :: "menv \<Rightarrow> event_row \<Rightarrow> ('m log_db_scheme, unit) statement" where
  "insert_event env r d n = (case (me_json env (er_data r), me_json env (er_meta r)) of
      (Some data, Some meta) \<Rightarrow>
        (let row = r\<lparr>er_pos := n, er_data := data, er_meta := meta\<rparr> in
         case insert_row ''events'' (event_keys env) row (t_events d) of
           Inl e \<Rightarrow> (Inl e, d, n + 1)
         | Inr rows \<Rightarrow> (Inr (), d\<lparr>t_events := rows\<rparr>, n + 1))
    | _ \<Rightarrow> (Inl (MySQLError 3140 ''Invalid JSON text''), d, n))"

definition event_to_row :: "menv \<Rightarrow> string \<Rightarrow> int \<Rightarrow> string \<Rightarrow> time \<Rightarrow> event \<Rightarrow> event_row" where
  "event_to_row env streamID version meta recordedAt e =
     \<lparr>er_pos = 0, er_id = ev_ID e, er_stream = streamID, er_type = ev_Type e, er_version = version,
      er_schema = ev_SchemaVersion e, er_data = normalizeJSON (ev_Data e), er_meta = meta,
      er_occurred = me_time env (ev_OccurredAt e), er_recorded = me_time env recordedAt\<rparr>"

definition translate_insert_error :: "repo_error \<Rightarrow> repo_error" where
  "translate_insert_error err =
     (if isDuplicateEventID err then duplicateEventID (Some err)
      else if isStreamVersionConflict err then versionConflict (Some err)
      else if isContractIdempotencyKeyConflict err then contractIdempotencyConflict (Some err)
      else err)"

definition append_one :: "menv \<Rightarrow> string \<Rightarrow> time \<Rightarrow> int \<times> event \<Rightarrow> ('m log_db_scheme, unit) sql" where
  "append_one env streamID recordedAt ve = (case ve of (version, e) \<Rightarrow>
     (case me_marshal env (ev_Metadata e) of
        None \<Rightarrow> throw (OtherError ''marshal metadata'')
      | Some meta \<Rightarrow> mapErrA translate_insert_error
          (stmt (insert_event env (event_to_row env streamID version meta recordedAt e)))))"

definition numbered :: "int \<Rightarrow> event list \<Rightarrow> (int \<times> event) list" where
  "numbered expected es = zip (map (\<lambda>i. expected + int i + 1) [0..<length es]) es"

definition count_stream :: "string \<Rightarrow> 'm log_db_scheme \<Rightarrow> int" where
  "count_stream s d = int (length (filter (\<lambda>r. er_stream r = s) (t_events d)))"

definition appendOn :: "menv \<Rightarrow> string \<Rightarrow> event list \<Rightarrow> int \<Rightarrow> ('m my_db_scheme, unit) sql" where
  "appendOn env streamID es expected =
     bindA (query_row (\<lambda>d. find (\<lambda>i. i = 1) (t_append_lock d))) (\<lambda>_.
     bindA (query (count_stream streamID)) (\<lambda>current.
     if current \<noteq> expected then throw (versionConflict None)
     else if \<exists>(v, e) \<in> set (numbered expected es). ev_Version e \<noteq> v
     then throw (DomainError ErrCodeValidation None)
     else bindA clock_now (\<lambda>recordedAt.
       forA (append_one env streamID recordedAt) (numbered expected es))))"

definition Append :: "menv \<Rightarrow> string \<Rightarrow> event list \<Rightarrow> int \<Rightarrow> ('m my_db_scheme, unit) sql" where
  "Append env streamID es expected =
     (if es = [] then ret ()
      else bindA in_tx (\<lambda>ambient.
        if ambient then appendOn env streamID es expected
        else in_own_tx (appendOn env streamID es expected)))"

section \<open>Load\<close>

definition row_to_event :: "menv \<Rightarrow> event_row \<Rightarrow> repo_error + event" where
  "row_to_event env r = (case (if er_meta r = [] then Some [] else me_unmarshal env (er_meta r)) of
      None \<Rightarrow> Inl (OtherError ''unmarshal metadata'')
    | Some meta \<Rightarrow> Inr
       \<lparr>ev_ID = er_id r, ev_StreamID = er_stream r, ev_Type = er_type r, ev_Version = er_version r,
        ev_SchemaVersion = er_schema r, ev_Data = er_data r, ev_Metadata = meta,
        ev_OccurredAt = er_occurred r, ev_RecordedAt = er_recorded r, ev_GlobalPosition = er_pos r\<rparr>)"

definition scanEvents :: "menv \<Rightarrow> event_row list \<Rightarrow> ('m log_db_scheme, event list) sql" where
  "scanEvents env rows = mapA (\<lambda>r. liftA (row_to_event env r)) rows"

definition stream_rows :: "string \<Rightarrow> 'm log_db_scheme \<Rightarrow> event_row list" where
  "stream_rows s d = sort_key er_version (filter (\<lambda>r. er_stream r = s) (t_events d))"

definition Load :: "menv \<Rightarrow> string \<Rightarrow> ('m log_db_scheme, event list) sql" where
  "Load env streamID = bindA (query (stream_rows streamID)) (scanEvents env)"

definition LoadUntilVersion :: "menv \<Rightarrow> string \<Rightarrow> int \<Rightarrow> ('m log_db_scheme, event list) sql" where
  "LoadUntilVersion env streamID version =
     bindA (query (\<lambda>d. filter (\<lambda>r. er_version r \<le> version) (stream_rows streamID d))) (scanEvents env)"

definition LoadUntil :: "menv \<Rightarrow> string \<Rightarrow> time \<Rightarrow> ('m log_db_scheme, event list) sql" where
  "LoadUntil env streamID until =
     bindA (query (\<lambda>d. filter (\<lambda>r. er_occurred r \<le> me_time env until) (stream_rows streamID d))) (scanEvents env)"

definition LoadRange :: "menv \<Rightarrow> string \<Rightarrow> time \<Rightarrow> time \<Rightarrow> ('m log_db_scheme, event list) sql" where
  "LoadRange env streamID fromT toT =
     bindA (query (\<lambda>d. filter (\<lambda>r. me_time env fromT \<le> er_occurred r \<and> er_occurred r < me_time env toT) (stream_rows streamID d)))
       (scanEvents env)"

definition all_rows :: "int \<Rightarrow> int \<Rightarrow> 'm log_db_scheme \<Rightarrow> event_row list" where
  "all_rows fromPosition lmt d =
     (let rows = sort_key er_pos (filter (\<lambda>r. fromPosition < er_pos r) (t_events d))
      in if 0 < lmt then take (nat lmt) rows else rows)"

definition LoadAll :: "menv \<Rightarrow> int \<Rightarrow> int \<Rightarrow> ('m log_db_scheme, event list) sql" where
  "LoadAll env fromPosition lmt = bindA (query (all_rows fromPosition lmt)) (scanEvents env)"

section \<open>Subscription\<close>

text \<open>
  One round of \<open>pollLoop\<close> without cancellation: a failed load is reported and leaves the position;
  otherwise the batch is delivered in order and the position is that of its last event. The flag
  tells whether the loop polls again at once. \<open>reportSubErr\<close> drops cancellations.
\<close>

definition reportable :: "repo_error \<Rightarrow> bool" where
  "reportable e \<longleftrightarrow> as_db e \<noteq> Some ContextDone"

definition poll_round :: "menv \<Rightarrow> es_options \<Rightarrow> int
    \<Rightarrow> 'm log_db_scheme world \<Rightarrow> (event list \<times> repo_error list \<times> int \<times> bool) \<times> 'm log_db_scheme world" where
  "poll_round env opts pos w = (case LoadAll env pos (eo_pollBatchSize opts) w of
      (Inl e, w') \<Rightarrow> (([], if reportable e then [e] else [], pos, False), w')
    | (Inr batch, w') \<Rightarrow>
        ((batch, [], (case batch of [] \<Rightarrow> pos | _ \<Rightarrow> ev_GlobalPosition (last batch)),
          int (length batch) = eo_pollBatchSize opts), w'))"

section \<open>Snapshots\<close>

definition upsert_snapshot :: "snapshot_row \<Rightarrow> snapshot_row list \<Rightarrow> snapshot_row list" where
  "upsert_snapshot r rows =
     (if \<exists>x \<in> set rows. sr_stream x = sr_stream r \<and> sr_version x = sr_version r
      then map (\<lambda>x. if sr_stream x = sr_stream r \<and> sr_version x = sr_version r then r else x) rows
      else rows @ [r])"

definition SaveSnapshot :: "menv \<Rightarrow> snapshot \<Rightarrow> ('m log_db_scheme, unit) sql" where
  "SaveSnapshot env s =
     bindA (if is_zero_time (sn_CreatedAt s) then clock_now else ret (sn_CreatedAt s)) (\<lambda>createdAt.
     exec_stmt (\<lambda>d. case me_json env (normalizeJSON (sn_State s)) of
         None \<Rightarrow> (Inl (MySQLError 3140 ''Invalid JSON text''), d)
       | Some state \<Rightarrow> (Inr (), d\<lparr>t_snapshots := upsert_snapshot
           \<lparr>sr_stream = sn_StreamID s, sr_version = sn_Version s, sr_state = state,
            sr_as_of = me_time env (sn_AsOf s), sr_created = me_time env createdAt\<rparr> (t_snapshots d)\<rparr>)))"

definition row_to_snapshot :: "snapshot_row \<Rightarrow> snapshot" where
  "row_to_snapshot r = \<lparr>sn_StreamID = sr_stream r, sn_Version = sr_version r, sn_State = sr_state r,
     sn_AsOf = sr_as_of r, sn_CreatedAt = sr_created r\<rparr>"

definition scanSnapshot :: "('m log_db_scheme, snapshot_row) sql \<Rightarrow> ('m log_db_scheme, snapshot option) sql" where
  "scanSnapshot m = tryA m (\<lambda>e. if as_db e = Some ErrNoRows then ret None else throw e)
     (\<lambda>r. ret (Some (row_to_snapshot r)))"

definition first_row :: "'a list \<Rightarrow> 'a option" where
  "first_row rows = (case rows of [] \<Rightarrow> None | r # _ \<Rightarrow> Some r)"

definition LoadSnapshot :: "string \<Rightarrow> ('m log_db_scheme, snapshot option) sql" where
  "LoadSnapshot streamID = scanSnapshot (query_row (\<lambda>d. first_row
     (sort_key (\<lambda>r. - sr_version r) (filter (\<lambda>r. sr_stream r = streamID) (t_snapshots d)))))"

definition LoadSnapshotBefore :: "menv \<Rightarrow> string \<Rightarrow> time \<Rightarrow> ('m log_db_scheme, snapshot option) sql" where
  "LoadSnapshotBefore env streamID before = scanSnapshot (query_row (\<lambda>d. first_row
     (sort_key (\<lambda>r. - sr_created r) (sort_key (\<lambda>r. - sr_version r)
       (filter (\<lambda>r. sr_stream r = streamID \<and> sr_created r < me_time env before) (t_snapshots d))))))"

end
