(* ===== verification/My_EventStore_Props.thy ===== *)
theory My_EventStore_Props
  imports My_EventStore
begin

text \<open>
  The event store is an append-only log: its invariant \<open>events_wf\<close> (positions increase and stay below
  the counter, ids are distinct, every stream is numbered 1, 2, 3 and so on), which every append
  keeps even under faults, the exact effect of an append, its errors, and what the loads return.
\<close>

section \<open>Well-formed logs\<close>

definition versions_of :: "string \<Rightarrow> event_row list \<Rightarrow> int list" where
  "versions_of s rows = map er_version (filter (\<lambda>r. er_stream r = s) rows)"

definition contiguous :: "int list \<Rightarrow> bool" where
  "contiguous vs \<longleftrightarrow> vs = map (\<lambda>i. int i + 1) [0..<length vs]"

definition events_wf :: "'m log_db_scheme \<Rightarrow> int \<Rightarrow> bool" where
  "events_wf d n \<longleftrightarrow> sorted_wrt (<) (map er_pos (t_events d)) \<and>
     (\<forall>r \<in> set (t_events d). 0 < er_pos r \<and> er_pos r < n) \<and> 0 < n \<and>
     distinct (map er_id (t_events d)) \<and> (\<forall>s. contiguous (versions_of s (t_events d)))"

lemma contiguous_snoc: "contiguous vs \<Longrightarrow> v = int (length vs) + 1 \<Longrightarrow> contiguous (vs @ [v])"
  unfolding contiguous_def by simp

lemma count_stream_versions: "count_stream s d = int (length (versions_of s (t_events d)))"
  by (simp add: count_stream_def versions_of_def)

lemma numbered_Nil [simp]: "numbered v [] = []"
  by (simp add: numbered_def)

lemma numbered_Cons [simp]: "numbered v (e # es) = (v + 1, e) # numbered (v + 1) es"
proof -
  have "map (\<lambda>i. v + int i + 1) [0..<Suc (length es)]
      = (v + 1) # map (\<lambda>i. v + 1 + int i + 1) [0..<length es]"
    by (simp add: upt_conv_Cons map_Suc_upt [symmetric] del: upt_Suc)
  then show ?thesis by (simp add: numbered_def del: upt_Suc)
qed

lemma length_numbered [simp]: "length (numbered v es) = length es"
  by (simp add: numbered_def)

text \<open>What the table keeps of an event: the argument's stream and number, the normalised payload.\<close>

definition stored :: "menv \<Rightarrow> string \<Rightarrow> time \<Rightarrow> int \<times> event \<Rightarrow> event_row \<Rightarrow> bool" where
  "stored env s recorded ve r \<longleftrightarrow> er_stream r = s \<and> er_version r = fst ve \<and> er_id r = ev_ID (snd ve) \<and>
     er_type r = ev_Type (snd ve) \<and> er_schema r = ev_SchemaVersion (snd ve) \<and>
     me_json env (normalizeJSON (ev_Data (snd ve))) = Some (er_data r) \<and>
     (\<exists>m. me_marshal env (ev_Metadata (snd ve)) = Some m \<and> me_json env m = Some (er_meta r)) \<and>
     er_occurred r = me_time env (ev_OccurredAt (snd ve)) \<and> er_recorded r = me_time env recorded"

section \<open>One insert\<close>

lemma insert_row_Inr:
  assumes "insert_row t keys r rows = Inr rows'"
  shows "rows' = rows @ [r] \<and> (\<forall>k \<in> set keys. \<not> clashes rows r k)"
  using assms by (auto simp: insert_row_def find_None_iff split: option.splits)

lemma insert_row_Inl:
  assumes "insert_row t keys r rows = Inl e"
  obtains k where "k \<in> set keys" "clashes rows r k" "e = dup_error t k r"
  using assms by (auto simp: insert_row_def find_Some_iff split: option.splits) (metis nth_mem)

lemma insert_event_effect:
  assumes "insert_event env (event_to_row env s v meta rec e) d n = (r, d', n')"
    and "me_marshal env (ev_Metadata e) = Some meta"
  shows "(d' = d \<and> n \<le> n' \<and> (\<exists>x. r = Inl x)) \<or>
    (\<exists>row. r = Inr () \<and> d' = d\<lparr>t_events := t_events d @ [row]\<rparr> \<and> n' = n + 1 \<and> er_pos row = n \<and>
       stored env s rec (v, e) row \<and> er_id row \<notin> er_id ` set (t_events d))"
proof -
  let ?row = "event_to_row env s v meta rec e"
  show ?thesis
  proof (cases "me_json env (er_data ?row)")
    case None
    with assms show ?thesis by (auto simp: insert_event_def split: option.splits)
  next
    case data: (Some data)
    show ?thesis
    proof (cases "me_json env (er_meta ?row)")
      case None
      with data assms show ?thesis by (auto simp: insert_event_def)
    next
      case md: (Some m)
      let ?r = "?row\<lparr>er_pos := n, er_data := data, er_meta := m\<rparr>"
      show ?thesis
      proof (cases "insert_row ''events'' (event_keys env) ?r (t_events d)")
        case (Inl x)
        with data md assms show ?thesis by (auto simp: insert_event_def Let_def)
      next
        case (Inr rows)
        from insert_row_Inr [OF this] have "rows = t_events d @ [?r]"
          "\<not> clashes (t_events d) ?r (''uq_event_id'', \<lambda>r. Some (er_id r))"
          by (auto simp: event_keys_def)
        moreover have "stored env s rec (v, e) ?r"
          using data md assms(2) by (simp add: stored_def event_to_row_def)
        moreover have "r = Inr () \<and> d' = d\<lparr>t_events := rows\<rparr> \<and> n' = n + 1"
          using data md Inr assms(1) by (auto simp: insert_event_def Let_def)
        ultimately show ?thesis
          by (intro disjI2 exI [of _ ?r]) (auto simp: clashes_def)
      qed
    qed
  qed
qed

lemma events_wf_snoc:
  assumes "events_wf d n" and "er_pos row = n" and "er_id row \<notin> er_id ` set (t_events d)"
    and "er_version row = count_stream (er_stream row) d + 1"
  shows "events_wf (d\<lparr>t_events := t_events d @ [row]\<rparr>) (n + 1)"
proof -
  have "contiguous (versions_of s (t_events d @ [row]))" for s
  proof (cases "er_stream row = s")
    case True
    then have "versions_of s (t_events d @ [row]) = versions_of s (t_events d) @ [er_version row]"
      by (simp add: versions_of_def)
    moreover have "contiguous (versions_of s (t_events d) @ [er_version row])"
      using assms(1,4) True by (intro contiguous_snoc) (simp_all add: events_wf_def count_stream_versions)
    ultimately show ?thesis by simp
  next
    case False
    with assms(1) show ?thesis by (simp add: versions_of_def events_wf_def)
  qed
  with assms(1-3) show ?thesis
    by (fastforce simp: events_wf_def sorted_wrt_append)
qed

lemma events_wf_mono: "events_wf d n \<Longrightarrow> n \<le> n' \<Longrightarrow> events_wf d n'"
  by (fastforce simp: events_wf_def)

lemma append_one_effect:
  assumes run: "append_one env s rec (v, e) w = (r, w')" and wf: "events_wf (db w) (autoinc w)"
    and v: "v = count_stream s (db w) + 1"
  shows "saved w' = saved w \<and> clk w' = clk w \<and> events_wf (db w') (autoinc w') \<and>
    (db w' = db w \<and> r \<noteq> Inr () \<or> (\<exists>row. db w' = (db w)\<lparr>t_events := t_events (db w) @ [row]\<rparr> \<and>
       stored env s rec (v, e) row))"
proof (cases "me_marshal env (ev_Metadata e)")
  case None
  with run wf show ?thesis by (auto simp: append_one_def)
next
  case (Some meta)
  with run obtain r1 where st: "stmt (insert_event env (event_to_row env s v meta rec e)) w = (r1, w')"
    and r1: "r = Inr () \<Longrightarrow> r1 = Inr ()"
    by (cases r) (auto simp: append_one_def mapErrA_Inl)
  have ins: "saved w' = saved w \<and> clk w' = clk w \<and> events_wf (db w') (autoinc w') \<and>
      (db w' = db w \<and> (\<exists>x. x0 = Inl x) \<or> (\<exists>row. db w' = (db w)\<lparr>t_events := t_events (db w) @ [row]\<rparr> \<and>
         stored env s rec (v, e) row))"
    if i: "insert_event env (event_to_row env s v meta rec e) (db w) (autoinc w) = (x0, db w', autoinc w')"
      and "saved w' = saved w" "clk w' = clk w" for x0
  proof -
    from insert_event_effect [OF i Some]
    consider "db w' = db w" "autoinc w \<le> autoinc w'" "\<exists>x. x0 = Inl x"
      | row where "db w' = (db w)\<lparr>t_events := t_events (db w) @ [row]\<rparr>" "autoinc w' = autoinc w + 1"
        "er_pos row = autoinc w" "stored env s rec (v, e) row" "er_id row \<notin> er_id ` set (t_events (db w))"
      by blast
    then show ?thesis
    proof cases
      case 1
      with that wf show ?thesis by (auto intro: events_wf_mono)
    next
      case 2
      have "events_wf (db w') (autoinc w')"
        unfolding 2(1,2) using 2 wf v by (intro events_wf_snoc) (auto simp: stored_def)
      with 2 that show ?thesis by blast
    qed
  qed
  from st show ?thesis
  proof (cases rule: stmt_cases)
    case (1 a) with ins show ?thesis by auto
  next
    case (2 x) with ins r1 show ?thesis by fastforce
  next
    case (3 x) with wf r1 show ?thesis by auto
  next
    case (4 x r') with ins r1 show ?thesis by fastforce
  qed
qed

section \<open>The loop over a batch\<close>

lemma count_stream_snoc:
  "count_stream s (d\<lparr>t_events := t_events d @ [row]\<rparr>) = count_stream s d + (if er_stream row = s then 1 else 0)"
  by (simp add: count_stream_def)

lemma append_loop:
  assumes "forA (append_one env s rec) (numbered v es) w = (r, w')" and "events_wf (db w) (autoinc w)"
    and "count_stream s (db w) = v"
  shows "saved w' = saved w \<and> clk w' = clk w \<and> events_wf (db w') (autoinc w') \<and>
    (\<exists>rows. db w' = (db w)\<lparr>t_events := t_events (db w) @ rows\<rparr> \<and>
       (r \<noteq> Inr () \<or> list_all2 (stored env s rec) (numbered v es) rows))"
  using assms
proof (induction es arbitrary: v w)
  case Nil
  then show ?case by (auto intro: exI [of _ "[]"])
next
  case (Cons e es)
  obtain r1 w1 where one: "append_one env s rec (v + 1, e) w = (r1, w1)" by fastforce
  from append_one_effect [OF one Cons.prems(2)] Cons.prems(3)
  have eff: "saved w1 = saved w" "clk w1 = clk w" "events_wf (db w1) (autoinc w1)"
    "db w1 = db w \<and> r1 \<noteq> Inr () \<or> (\<exists>row. db w1 = (db w)\<lparr>t_events := t_events (db w) @ [row]\<rparr> \<and>
       stored env s rec (v + 1, e) row)" by auto
  show ?case
  proof (cases r1)
    case (Inl x)
    with Cons.prems(1) one have "r = Inl x" "w' = w1" by (auto simp: bindA_run [of "append_one env s rec (v + 1, e)"])
    with eff show ?thesis by (fastforce intro: exI [of _ "[]"])
  next
    case (Inr u)
    with eff obtain row where row: "db w1 = (db w)\<lparr>t_events := t_events (db w) @ [row]\<rparr>"
      "stored env s rec (v + 1, e) row" by auto
    have run: "forA (append_one env s rec) (numbered (v + 1) es) w1 = (r, w')"
      using Cons.prems(1) one Inr by (simp add: bindA_run [of "append_one env s rec (v + 1, e)"])
    have c: "count_stream s (db w1) = v + 1"
      using row Cons.prems(3) by (simp add: count_stream_snoc stored_def)
    from Cons.IH [OF run eff(3) c] obtain rows where
      "saved w' = saved w1" "clk w' = clk w1" "events_wf (db w') (autoinc w')"
      "db w' = (db w1)\<lparr>t_events := t_events (db w1) @ rows\<rparr>"
      "r \<noteq> Inr () \<or> list_all2 (stored env s rec) (numbered (v + 1) es) rows" by blast
    with eff row show ?thesis by (auto intro!: exI [of _ "row # rows"])
  qed
qed

lemma appendOn_effect:
  assumes run: "appendOn env s es v w = (r, w')" and wf: "events_wf (db w) (autoinc w)"
  shows "saved w' = saved w \<and> clk w' = clk w \<and> events_wf (db w') (autoinc w') \<and>
    (\<exists>rows. db w' = (db w)\<lparr>t_events := t_events (db w) @ rows\<rparr> \<and>
       (r \<noteq> Inr () \<or> count_stream s (db w) = v \<and> (\<forall>(x, e) \<in> set (numbered v es). ev_Version e = x) \<and>
          list_all2 (stored env s (clk w)) (numbered v es) rows))"
proof -
  have idle: ?thesis if "saved w' = saved w" "clk w' = clk w" "db w' = db w" "autoinc w' = autoinc w" "r \<noteq> Inr ()"
    using that wf by (auto intro: exI [of _ "[]"])
  obtain r1 w1 where l: "query_row (\<lambda>d. find (\<lambda>i. i = 1) (t_append_lock d)) w = (r1, w1)" by fastforce
  show ?thesis
  proof (cases r1)
    case (Inl e)
    with run l have "r = Inl e" "w' = w1" by (auto simp: appendOn_def bindA_run [of "query_row _"])
    with l idle Inl show ?thesis by (auto elim!: query_row_cases)
  next
    case (Inr i)
    with l have w1: "saved w1 = saved w" "clk w1 = clk w" "db w1 = db w" "autoinc w1 = autoinc w"
      by (auto elim!: query_row_cases)
    obtain r2 w2 where q: "query (count_stream s) w1 = (r2, w2)" by fastforce
    show ?thesis
    proof (cases r2)
      case (Inl e)
      with run l Inr q have "r = Inl e" "w' = w2"
        by (auto simp: appendOn_def bindA_run [of "query_row _"] bindA_run [of "query _"])
      with q w1 idle show ?thesis by (auto elim!: query_cases)
    next
      case (Inr c)
      with q w1 have w2: "saved w2 = saved w" "clk w2 = clk w" "db w2 = db w" "autoinc w2 = autoinc w"
        "c = count_stream s (db w)" by (auto elim!: query_cases)
      have k: "(if c \<noteq> v then throw (versionConflict None)
          else if \<exists>(x, e) \<in> set (numbered v es). ev_Version e \<noteq> x then throw (DomainError ErrCodeValidation None)
          else bindA clock_now (\<lambda>recordedAt. forA (append_one env s recordedAt) (numbered v es))) w2 = (r, w')"
        using run l q Inr \<open>r1 = Inr i\<close>
        by (simp add: appendOn_def bindA_run [of "query_row _"] bindA_run [of "query _"])
      show ?thesis
      proof (cases "c = v \<and> (\<forall>(x, e) \<in> set (numbered v es). ev_Version e = x)")
        case False
        with k have "w' = w2" "r \<noteq> Inr ()" by (auto split: if_splits)
        with w2 idle show ?thesis by simp
      next
        case True
        then have "\<not> (\<exists>(x, e) \<in> set (numbered v es). ev_Version e \<noteq> x)" by blast
        with True k have f: "forA (append_one env s (clk w)) (numbered v es) w2 = (r, w')"
          using w2 by (simp add: bindA_def tryA_def clock_now_def)
        have "events_wf (db w2) (autoinc w2)" "count_stream s (db w2) = v" using wf w2 True by auto
        from append_loop [OF f this] True w2 show ?thesis by auto
      qed
    qed
  qed
qed

lemma sane_appendOn [sane_intros]: "sane (appendOn env s es v)"
proof -
  have "n \<le> snd (snd (insert_event env row d n))" for row d n
    by (auto simp: insert_event_def Let_def split: option.splits sum.splits)
  then show ?thesis
    unfolding appendOn_def append_one_def by (intro sane_intros)
qed

section \<open>The effect of an append\<close>

lemma Append_effect:
  assumes "events_wf (db w) (autoinc w)" and "saved w = None" and "Append env s es v w = (r, w')"
  shows "events_wf (db w') (autoinc w') \<and> saved w' = None \<and>
    (db w' = db w \<and> (r \<noteq> Inr () \<or> es = []) \<or>
     count_stream s (db w) = v \<and>
     (\<exists>rows. db w' = (db w)\<lparr>t_events := t_events (db w) @ rows\<rparr> \<and>
        list_all2 (stored env s (clk w)) (numbered v es) rows) \<and>
     (r = Inr () \<or> (\<exists>e. r = Inl (DbError e))))"
proof (cases "es = []")
  case True
  with assms show ?thesis by (simp add: Append_def)
next
  case False
  with assms have run: "in_own_tx (appendOn env s es v) w = (r, w')"
    by (simp add: Append_def in_tx_def bindA_def tryA_def)
  from run assms(2) sane_appendOn show ?thesis
  proof (cases rule: in_own_tx_cases)
    case (committed a w1 w2)
    with appendOn_effect [of env s es v w1 "Inr a" w2] assms show ?thesis by auto
  next
    case (failed e)
    with assms show ?thesis by (auto intro: events_wf_mono)
  next
    case (unanswered e a w1 w2)
    with appendOn_effect [of env s es v w1 "Inr a" w2] assms show ?thesis by auto
  qed
qed

text \<open>A concrete database for the witnesses: an empty log, the counter at 1, the clock at 5.\<close>

definition demo_menv :: menv where
  "demo_menv = \<lparr>me_json = Some, me_time = (\<lambda>t. t), me_extract = (\<lambda>d p. None),
     me_marshal = (\<lambda>m. Some (CHR ''m'' # m)), me_unmarshal = (\<lambda>t. Some (tl t))\<rparr>"

definition demo_world :: "my_db world" where
  "demo_world = \<lparr>db = \<lparr>t_events = [], t_snapshots = [], t_append_lock = [1]\<rparr>, saved = None,
     autoinc = 1, clk = 5, snow = 6, faults = []\<rparr>"

definition demo_event :: "int \<Rightarrow> event" where
  "demo_event v = \<lparr>ev_ID = ''e1'', ev_StreamID = [], ev_Type = ''t'', ev_Version = v, ev_SchemaVersion = 1,
     ev_Data = [], ev_Metadata = [], ev_OccurredAt = 3, ev_RecordedAt = 0, ev_GlobalPosition = 0\<rparr>"

lemma demo_world_wf: "events_wf (db demo_world) (autoinc demo_world)" "saved demo_world = None"
  by (simp_all add: demo_world_def events_wf_def versions_of_def contiguous_def)

lemma demo_append: "fst (Append demo_menv ''s'' [demo_event 1] 0 demo_world) = Inr ()"
  by code_simp

text \<open>An append is all or nothing, whatever statement fails and whether or not the commit is
  answered. Either the log is unchanged; or the stream had exactly the expected number of events and
  the log is extended by one row per event, in order, numbered from there on, with the caller's ids,
  types and payloads. Success means the second. The log stays well formed: positions increase, ids
  are distinct, and every stream is numbered 1, 2, 3 and so on.\<close>

theorem Append_all_or_nothing:
  assumes "events_wf (db w) (autoinc w)" and "saved w = None" and "Append env s es v w = (r, w')"
  shows "events_wf (db w') (autoinc w') \<and> saved w' = None \<and>
    (db w' = db w \<and> (r \<noteq> Inr () \<or> es = []) \<or>
     count_stream s (db w) = v \<and>
     (\<exists>rows. db w' = (db w)\<lparr>t_events := t_events (db w) @ rows\<rparr> \<and>
        list_all2 (stored env s (clk w)) (numbered v es) rows) \<and>
     (r = Inr () \<or> (\<exists>e. r = Inl (DbError e))))"
  by (rule Append_effect [OF assms])

theorem Append_all_or_nothing_witness:
  "\<exists>w' row. Append demo_menv ''s'' [demo_event 1] 0 demo_world = (Inr (), w') \<and>
     t_events (db w') = [row] \<and> stored demo_menv ''s'' 5 (1, demo_event 1) row"
proof -
  obtain w' where run: "Append demo_menv ''s'' [demo_event 1] 0 demo_world = (Inr (), w')"
    using demo_append by (metis prod.collapse)
  from Append_all_or_nothing [OF demo_world_wf run] run show ?thesis
    by (auto simp: demo_world_def list_all2_Cons1)
qed

section \<open>Errors of an append\<close>

lemma key_names:
  "contains ''events.uq_event_id'' ''uq_event_id''" "\<not> contains ''events.uq_event_id'' ''uq_stream_version''"
  "\<not> contains ''events.uq_event_id'' ''ux_contract_idempotency_key''"
  "\<not> contains ''events.uq_stream_version'' ''uq_event_id''" "contains ''events.uq_stream_version'' ''uq_stream_version''"
  "\<not> contains ''events.uq_stream_version'' ''ux_contract_idempotency_key''"
  "\<not> contains ''events.ux_contract_idempotency_key'' ''uq_event_id''"
  "\<not> contains ''events.ux_contract_idempotency_key'' ''uq_stream_version''"
  "contains ''events.ux_contract_idempotency_key'' ''ux_contract_idempotency_key''"
  by code_simp+

lemma key_names_quiet:
  "quote_char \<notin> set ''uq_event_id''" "quote_char \<notin> set ''uq_stream_version''"
  "quote_char \<notin> set ''ux_contract_idempotency_key''"
  "\<not> contains ''Duplicate entry '' ''uq_event_id''" "\<not> contains '' for key '' ''uq_event_id''"
  "\<not> contains ''Duplicate entry '' ''uq_stream_version''" "\<not> contains '' for key '' ''uq_stream_version''"
  "\<not> contains ''Duplicate entry '' ''ux_contract_idempotency_key''"
  "\<not> contains '' for key '' ''ux_contract_idempotency_key''"
  by code_simp+

lemma event_key_conflict:
  "isDuplicateEventID (DbError (dup_error ''events'' (nm, f) r)) \<longleftrightarrow>
     contains (case f r of None \<Rightarrow> [] | Some v \<Rightarrow> v) ''uq_event_id'' \<or> contains (''events.'' @ nm) ''uq_event_id''"
  "isStreamVersionConflict (DbError (dup_error ''events'' (nm, f) r)) \<longleftrightarrow>
     contains (case f r of None \<Rightarrow> [] | Some v \<Rightarrow> v) ''uq_stream_version'' \<or>
     contains (''events.'' @ nm) ''uq_stream_version''"
  "isContractIdempotencyKeyConflict (DbError (dup_error ''events'' (nm, f) r)) \<longleftrightarrow>
     contains (case f r of None \<Rightarrow> [] | Some v \<Rightarrow> v) ''ux_contract_idempotency_key'' \<or>
     contains (''events.'' @ nm) ''ux_contract_idempotency_key''"
  using key_names_quiet
  by (simp_all add: isDuplicateEventID_def isStreamVersionConflict_def isContractIdempotencyKeyConflict_def
      dupEntryOnKey_dup)

text \<open>A rejected insert is classified by the key it violates. As long as the offending value does
  not itself contain one of the three key names, a clash of stream and version is reported as the
  retryable version conflict, and a repeated event id or contract idempotency key as the
  non-retryable conflict; the server's error is kept as the cause.\<close>

theorem duplicate_key_classified:
  assumes "k \<in> set (event_keys env)" and "snd k r = Some entry"
    and "\<not> contains entry ''uq_event_id''" and "\<not> contains entry ''uq_stream_version''"
    and "\<not> contains entry ''ux_contract_idempotency_key''"
  shows "translate_insert_error (DbError (dup_error ''events'' k r)) =
    DomainError (if fst k = ''uq_stream_version'' then ErrCodeVersionConflict else ErrCodeConflict)
      (Some (DbError (dup_error ''events'' k r)))"
  using assms key_names
  by (auto simp: event_keys_def translate_insert_error_def event_key_conflict duplicateEventID_def
      versionConflict_def contractIdempotencyConflict_def)

theorem duplicate_key_classified_witness:
  "translate_insert_error (DbError (dup_error ''events'' (''uq_event_id'', \<lambda>r. Some (er_id r))
     \<lparr>er_pos = 1, er_id = ''e1'', er_stream = ''s'', er_type = ''t'', er_version = 1, er_schema = 1,
      er_data = ''{}'', er_meta = ''{}'', er_occurred = 0, er_recorded = 0\<rparr>))
   = DomainError ErrCodeConflict (Some (DbError (MySQLError 1062 (dup_message ''e1'' ''events.uq_event_id''))))"
proof -
  have n: "\<not> contains ''e1'' ''uq_event_id''" "\<not> contains ''e1'' ''uq_stream_version''"
    "\<not> contains ''e1'' ''ux_contract_idempotency_key''" by code_simp+
  show ?thesis
    by (subst duplicate_key_classified [OF _ _ n, where env = undefined])
       (simp_all add: event_keys_def dup_error_def)
qed

text \<open>The key name is looked for in the whole message, so the offending value counts too. A contract
  created twice with an idempotency key that contains \<open>uq_stream_version\<close> is reported as the
  retryable version conflict, although retrying can never succeed.\<close>

theorem idempotency_key_confused:
  assumes "contract_idempotency_key env r = Some entry" and "contains entry ''uq_stream_version''"
    and "\<not> contains entry ''uq_event_id''"
  shows "\<exists>cause. translate_insert_error (DbError (dup_error ''events''
     (''ux_contract_idempotency_key'', contract_idempotency_key env) r))
     = DomainError ErrCodeVersionConflict cause"
  using assms key_names
  by (simp add: translate_insert_error_def event_key_conflict versionConflict_def)

theorem idempotency_key_confused_witness:
  "\<exists>env r cause. contract_idempotency_key env r = Some ''uq_stream_version'' \<and>
     translate_insert_error (DbError (dup_error ''events''
       (''ux_contract_idempotency_key'', contract_idempotency_key env) r))
     = DomainError ErrCodeVersionConflict cause"
proof -
  let ?env = "\<lparr>me_json = Some, me_time = id, me_extract = (\<lambda>d p. Some d), me_marshal = Some, me_unmarshal = Some\<rparr>"
  let ?r = "\<lparr>er_pos = 1, er_id = ''e1'', er_stream = ''s'', er_type = ''contract.created'', er_version = 1,
    er_schema = 3, er_data = ''uq_stream_version'', er_meta = ''{}'', er_occurred = 0, er_recorded = 0\<rparr>"
  have k: "contract_idempotency_key ?env ?r = Some ''uq_stream_version''"
    by (simp add: contract_idempotency_key_def)
  have "contains ''uq_stream_version'' ''uq_stream_version''" "\<not> contains ''uq_stream_version'' ''uq_event_id''"
    by code_simp+
  from idempotency_key_confused [OF k this] k show ?thesis by blast
qed

section \<open>Loading\<close>

lemma sort_key_sorted: "sorted (map f xs) \<Longrightarrow> sort_key f xs = xs"
  by (induction xs) (auto simp: insort_is_Cons)

lemma contiguous_sorted: "contiguous vs \<Longrightarrow> sorted vs"
proof -
  assume "contiguous vs"
  then have "vs = map (\<lambda>i. int i + 1) [0..<length vs]" by (simp add: contiguous_def)
  moreover have "sorted (map (\<lambda>i. int i + 1) [0..<length vs])"
    by (simp add: sorted_iff_nth_mono)
  ultimately show ?thesis by simp
qed

lemma stream_rows_wf:
  "events_wf d n \<Longrightarrow> stream_rows s d = filter (\<lambda>r. er_stream r = s) (t_events d)"
  unfolding stream_rows_def
  by (intro sort_key_sorted contiguous_sorted) (simp add: events_wf_def versions_of_def)

lemma all_rows_wf:
  assumes "events_wf d n"
  shows "all_rows p lmt d = (let rows = filter (\<lambda>r. p < er_pos r) (t_events d)
     in if 0 < lmt then take (nat lmt) rows else rows)"
proof -
  have "sorted (map er_pos (t_events d))"
    using assms by (simp add: events_wf_def strict_sorted_imp_sorted strict_sorted_iff)
  then have "sorted (map er_pos (filter (\<lambda>r. p < er_pos r) (t_events d)))"
    by (induction "t_events d" arbitrary: d) (auto simp: sorted_filter)
  then show ?thesis by (simp add: all_rows_def sort_key_sorted)
qed

text \<open>Decoding rows, one by one.\<close>

lemma mapA_liftA:
  "mapA (\<lambda>r. liftA (g r)) xs w = (case those (map (\<lambda>r. case g r of Inl e \<Rightarrow> None | Inr a \<Rightarrow> Some a) xs) of
     Some ys \<Rightarrow> (Inr ys, w) | None \<Rightarrow> (Inl (projl (g (hd (filter (isl \<circ> g) xs)))), w))"
proof (induction xs)
  case Nil
  then show ?case by simp
next
  case (Cons x xs)
  then show ?case
    by (cases "g x") (auto simp: bindA_def tryA_def split: option.splits)
qed

definition decode :: "menv \<Rightarrow> event_row list \<Rightarrow> event list option" where
  "decode env rows = those (map (\<lambda>r. case row_to_event env r of Inl _ \<Rightarrow> None | Inr a \<Rightarrow> Some a) rows)"

lemma those_append: "those (xs @ ys) = (case (those xs, those ys) of (Some a, Some b) \<Rightarrow> Some (a @ b) | _ \<Rightarrow> None)"
  by (induction xs) (auto split: option.splits)

lemma decode_append:
  "decode env (xs @ ys) = (case (decode env xs, decode env ys) of (Some a, Some b) \<Rightarrow> Some (a @ b) | _ \<Rightarrow> None)"
  by (simp add: decode_def those_append)

lemma scanEvents_decode: "decode env rows = Some evs \<Longrightarrow> scanEvents env rows w = (Inr evs, w)"
  by (simp add: scanEvents_def mapA_liftA decode_def)

lemma scanEvents_Inr: "scanEvents env rows w = (Inr evs, w') \<Longrightarrow> decode env rows = Some evs \<and> w' = w"
  by (auto simp: scanEvents_def mapA_liftA decode_def split: option.splits)

lemma Load_run:
  "faults w = [] \<Longrightarrow> Load env s w = (case decode env (stream_rows s (db w)) of
     Some evs \<Rightarrow> (Inr evs, w) | None \<Rightarrow> scanEvents env (stream_rows s (db w)) w)"
  by (auto simp: Load_def bindA_run [OF query_run] dest: scanEvents_decode split: option.split)

lemma calm_Append [keeps_intros]: "keeps calm (Append env s es v)"
  unfolding Append_def appendOn_def append_one_def by (intro keeps_intros)

text \<open>What a load returns for an appended event.\<close>

definition loaded :: "menv \<Rightarrow> string \<Rightarrow> time \<Rightarrow> int \<times> event \<Rightarrow> event \<Rightarrow> bool" where
  "loaded env s recorded ve n \<longleftrightarrow> ev_StreamID n = s \<and> ev_Version n = fst ve \<and> ev_ID n = ev_ID (snd ve) \<and>
     ev_Type n = ev_Type (snd ve) \<and> ev_SchemaVersion n = ev_SchemaVersion (snd ve) \<and>
     ev_Metadata n = ev_Metadata (snd ve) \<and>
     me_json env (normalizeJSON (ev_Data (snd ve))) = Some (ev_Data n) \<and>
     ev_OccurredAt n = me_time env (ev_OccurredAt (snd ve)) \<and> ev_RecordedAt n = me_time env recorded"

definition meta_roundtrip :: "menv \<Rightarrow> bool" where
  "meta_roundtrip env \<longleftrightarrow> (\<forall>m t t'. me_marshal env m = Some t \<longrightarrow> me_json env t = Some t' \<longrightarrow>
     t' \<noteq> [] \<and> me_unmarshal env t' = Some m)"

lemma stored_loaded:
  assumes "stored env s rec ve r" and "meta_roundtrip env"
  shows "\<exists>n. row_to_event env r = Inr n \<and> loaded env s rec ve n"
  using assms by (fastforce simp: stored_def meta_roundtrip_def row_to_event_def loaded_def)

lemma decode_stored:
  assumes "list_all2 (stored env s rec) ves rows" and "meta_roundtrip env"
  shows "\<exists>new. decode env rows = Some new \<and> list_all2 (loaded env s rec) ves new"
  using assms(1)
proof (induction rule: list_all2_induct)
  case Nil
  then show ?case by (simp add: decode_def)
next
  case (Cons ve ves r rows)
  then obtain new where "decode env rows = Some new" "list_all2 (loaded env s rec) ves new" by blast
  moreover obtain n where "row_to_event env r = Inr n" "loaded env s rec ve n"
    using stored_loaded [OF Cons.hyps(1) assms(2)] by blast
  ultimately show ?case by (auto simp: decode_def)
qed

lemma stored_stream: "list_all2 (stored env s rec) ves rows \<Longrightarrow> \<forall>r \<in> set rows. er_stream r = s"
  by (induction rule: list_all2_induct) (auto simp: stored_def)

lemma Append_success:
  assumes "events_wf (db w) (autoinc w)" and "saved w = None" and "Append env s es v w = (Inr (), w')"
  shows "events_wf (db w') (autoinc w')" and "\<exists>rows. db w' = (db w)\<lparr>t_events := t_events (db w) @ rows\<rparr> \<and>
      list_all2 (stored env s (clk w)) (numbered v es) rows"
proof -
  note e = Append_effect [OF assms]
  from e show "events_wf (db w') (autoinc w')" by blast
  from e consider "db w' = db w" "es = []" | rows where "db w' = (db w)\<lparr>t_events := t_events (db w) @ rows\<rparr>"
      "list_all2 (stored env s (clk w)) (numbered v es) rows" by auto
  then show "\<exists>rows. db w' = (db w)\<lparr>t_events := t_events (db w) @ rows\<rparr> \<and>
      list_all2 (stored env s (clk w)) (numbered v es) rows"
    by cases (auto intro: exI [of _ "[]"])
qed

text \<open>Append and load round trip. After a successful append, loading the stream returns what
  loading it before returned, followed by the appended events in order: same ids, types, schema
  versions and metadata, the argument's stream, consecutive versions, the payload as the JSON column
  keeps it (an empty payload as an empty object) and the times at the column's precision. Loading
  any other stream is unaffected.\<close>

theorem Append_Load_roundtrip:
  assumes "events_wf (db w) (autoinc w)" and "saved w = None" and "calm w" and "meta_roundtrip env"
    and "Append env s es v w = (Inr (), w')" and "Load env s w = (Inr old, w0)"
    and "t \<noteq> s" and "Load env t w = (Inr other, w1)"
  shows "\<exists>new. Load env s w' = (Inr (old @ new), w') \<and>
    list_all2 (loaded env s (clk w)) (numbered v es) new \<and> Load env t w' = (Inr other, w')"
proof -
  note eff = Append_success [OF assms(1,2,5)]
  from eff(2) obtain rows where rows: "db w' = (db w)\<lparr>t_events := t_events (db w) @ rows\<rparr>"
    "list_all2 (stored env s (clk w)) (numbered v es) rows" by blast
  have cw: "calm w'" using keeps_run [OF calm_Append assms(3,5)] .
  have old: "decode env (stream_rows x (db w)) = Some evs" if "Load env x w = (Inr evs, w2)" for x evs w2
    using that assms(3) by (auto simp: Load_run dest: scanEvents_Inr split: option.splits)
  obtain new where new: "decode env rows = Some new" "list_all2 (loaded env s (clk w)) (numbered v es) new"
    using decode_stored [OF rows(2) assms(4)] by blast
  have "filter (\<lambda>r. er_stream r = s) rows = rows" "filter (\<lambda>r. er_stream r = t) rows = []"
    using stored_stream [OF rows(2)] assms(7) by (auto simp: filter_id_conv filter_empty_conv)
  then have "stream_rows s (db w') = stream_rows s (db w) @ rows" "stream_rows t (db w') = stream_rows t (db w)"
    unfolding stream_rows_wf [OF eff(1)] stream_rows_wf [OF assms(1)] using rows(1) by simp_all
  then show ?thesis
    using new old [OF assms(6)] old [OF assms(8)] cw by (auto simp: Load_run decode_append)
qed

theorem Append_Load_roundtrip_witness:
  "\<exists>w' n. Append demo_menv ''s'' [demo_event 1] 0 demo_world = (Inr (), w') \<and>
     Load demo_menv ''s'' w' = (Inr [n], w') \<and> ev_ID n = ''e1'' \<and> ev_Data n = ''{}'' \<and>
     Load demo_menv ''x'' w' = (Inr [], w')"
proof -
  obtain w' where run: "Append demo_menv ''s'' [demo_event 1] 0 demo_world = (Inr (), w')"
    using demo_append by (metis prod.collapse)
  have m: "meta_roundtrip demo_menv" by (simp add: meta_roundtrip_def demo_menv_def)
  have c: "calm demo_world" by (simp add: demo_world_def)
  have l: "Load demo_menv s demo_world = (Inr [], demo_world)" for s
    by (simp add: Load_run [OF c]) (simp add: demo_world_def stream_rows_def decode_def)
  from Append_Load_roundtrip [OF demo_world_wf c m run l _ l, of "''x''"] run show ?thesis
    by (fastforce simp: list_all2_Cons1 loaded_def demo_event_def normalizeJSON_def demo_menv_def)
qed

end
