(* ===== verification/My_Subscription.thy ===== *)
theory My_Subscription
  imports My_EventStore_Props
begin

text \<open>
  Concurrent appends and a subscriber (\<open>appendOn\<close> and \<open>pollLoop\<close> of \<open>mysql/eventstore.go\<close>). The
  steps are those the code's statements take at the server: an append transaction begins with the
  row lock of \<open>event_append_lock\<close>, its inserts draw positions from the \<open>AUTO_INCREMENT\<close> counter,
  its rows become visible when it commits, and the subscriber polls the visible rows. The flag
  \<open>locking\<close> tells whether the lock is taken; the code takes it, the other relation shows what it is for.
\<close>

record sys =
  sy_db :: my_db
  sy_pend :: "nat \<Rightarrow> event_row list option"
  sy_lock :: "nat option"
  sy_next :: int
  sy_pos :: int
  sy_out :: "event_row list"

definition publish :: "event_row list \<Rightarrow> my_db \<Rightarrow> my_db" where
  "publish rows d = d\<lparr>t_events := t_events d @ rows\<rparr>"

text \<open>The position after a batch, as \<open>pollLoop\<close> advances it with every delivered event.\<close>

definition advance :: "int \<Rightarrow> event_row list \<Rightarrow> int" where
  "advance pos rows = foldl (\<lambda>p r. er_pos r) pos rows"

inductive step :: "bool \<Rightarrow> int \<Rightarrow> sys \<Rightarrow> sys \<Rightarrow> bool" for locking batch where
  begin_append: "sy_pend \<sigma> t = None \<Longrightarrow> locking \<longrightarrow> sy_lock \<sigma> = None \<Longrightarrow>
    step locking batch \<sigma> (\<sigma>\<lparr>sy_pend := (sy_pend \<sigma>)(t \<mapsto> []), sy_lock := Some t\<rparr>)"
| insert_one: "sy_pend \<sigma> t = Some rows \<Longrightarrow>
    step locking batch \<sigma> (\<sigma>\<lparr>sy_pend := (sy_pend \<sigma>)(t \<mapsto> rows @ [row\<lparr>er_pos := sy_next \<sigma>\<rparr>]),
      sy_next := sy_next \<sigma> + 1\<rparr>)"
| insert_failed: "sy_pend \<sigma> t = Some rows \<Longrightarrow> 0 \<le> k \<Longrightarrow>
    step locking batch \<sigma> (\<sigma>\<lparr>sy_next := sy_next \<sigma> + k\<rparr>)"
| commit_append: "sy_pend \<sigma> t = Some rows \<Longrightarrow>
    step locking batch \<sigma> (\<sigma>\<lparr>sy_db := publish rows (sy_db \<sigma>), sy_pend := (sy_pend \<sigma>)(t := None),
      sy_lock := None\<rparr>)"
| abort_append: "sy_pend \<sigma> t = Some rows \<Longrightarrow>
    step locking batch \<sigma> (\<sigma>\<lparr>sy_pend := (sy_pend \<sigma>)(t := None), sy_lock := None\<rparr>)"
| poll: "step locking batch \<sigma> (\<sigma>\<lparr>sy_out := sy_out \<sigma> @ all_rows (sy_pos \<sigma>) batch (sy_db \<sigma>),
      sy_pos := advance (sy_pos \<sigma>) (all_rows (sy_pos \<sigma>) batch (sy_db \<sigma>))\<rparr>)"

inductive_cases step_cases: "step locking batch \<sigma> \<sigma>'"

abbreviation steps :: "bool \<Rightarrow> int \<Rightarrow> sys \<Rightarrow> sys \<Rightarrow> bool" where
  "steps locking batch \<equiv> (step locking batch)\<^sup>*\<^sup>*"

definition start :: "my_db \<Rightarrow> int \<Rightarrow> int \<Rightarrow> sys" where
  "start d n pos = \<lparr>sy_db = d, sy_pend = (\<lambda>_. None), sy_lock = None, sy_next = n, sy_pos = pos, sy_out = []\<rparr>"

text \<open>The visible rows after a position, up to another.\<close>

definition between :: "int \<Rightarrow> int \<Rightarrow> event_row list \<Rightarrow> event_row list" where
  "between a b rows = filter (\<lambda>r. a < er_pos r \<and> er_pos r \<le> b) rows"

section \<open>One poll\<close>

lemma advance_Nil [simp]: "advance p [] = p"
  by (simp add: advance_def)

lemma advance_snoc [simp]: "advance p (rows @ [r]) = er_pos r"
  by (simp add: advance_def)

lemma advance_last: "rows \<noteq> [] \<Longrightarrow> advance p rows = er_pos (last rows)"
  by (metis advance_snoc append_butlast_last_id)

definition log_sorted :: "event_row list \<Rightarrow> bool" where
  "log_sorted rows \<longleftrightarrow> sorted_wrt (<) (map er_pos rows)"

lemma all_rows_sorted:
  assumes "log_sorted (t_events d)"
  shows "all_rows p b d = (let rows = filter (\<lambda>r. p < er_pos r) (t_events d)
     in if 0 < b then take (nat b) rows else rows)"
proof -
  have "sorted_wrt (<) (map er_pos (filter (\<lambda>r. p < er_pos r) (t_events d)))"
    using assms unfolding log_sorted_def by (simp add: sorted_wrt_map sorted_wrt_filter)
  then have "sorted (map er_pos (filter (\<lambda>r. p < er_pos r) (t_events d)))"
    by (simp add: strict_sorted_imp_sorted)
  then show ?thesis by (simp add: all_rows_def sort_key_sorted)
qed

text \<open>A sorted list cut at the position of its \<open>k\<close>-th element is its first \<open>k\<close> elements.\<close>

lemma take_filter_le:
  assumes "log_sorted xs" and "k < length xs"
  shows "filter (\<lambda>r. er_pos r \<le> er_pos (xs ! k)) xs = take (Suc k) xs"
proof -
  have nth: "er_pos (xs ! i) < er_pos (xs ! j)" if "i < j" "j < length xs" for i j
    using assms(1) that unfolding log_sorted_def by (simp add: sorted_wrt_iff_nth_less)
  have "filter (\<lambda>r. er_pos r \<le> er_pos (xs ! k)) (take (Suc k) xs) = take (Suc k) xs"
    unfolding filter_id_conv using nth assms(2)
    by (auto simp: in_set_conv_nth) (metis less_Suc_eq less_le_not_le linorder_not_less nat_less_le)
  moreover have "filter (\<lambda>r. er_pos r \<le> er_pos (xs ! k)) (drop (Suc k) xs) = []"
    unfolding filter_empty_conv using nth assms(2)
    by (auto simp: in_set_conv_nth not_le)
  ultimately show ?thesis
    by (metis append_Nil2 append_take_drop_id filter_append)
qed

lemma poll_between:
  assumes "log_sorted (t_events d)"
  shows "between p (advance p (all_rows p b d)) (t_events d) = all_rows p b d"
    and "p \<le> advance p (all_rows p b d)"
proof -
  define xs where "xs = filter (\<lambda>r. p < er_pos r) (t_events d)"
  have sx: "log_sorted xs"
    using assms unfolding log_sorted_def xs_def by (simp add: sorted_wrt_map sorted_wrt_filter)
  have gt: "\<forall>r \<in> set xs. p < er_pos r" by (simp add: xs_def)
  have btw: "between p q (t_events d) = filter (\<lambda>r. er_pos r \<le> q) xs" for q
    by (auto simp: between_def xs_def intro: filter_cong)
  have all: "all_rows p b d = take (if 0 < b then nat b else length xs) xs"
    using all_rows_sorted [OF assms] by (simp add: xs_def Let_def)
  define k where "k = length (all_rows p b d)"
  have k: "all_rows p b d = take k xs" "k \<le> length xs"
    unfolding k_def all by (simp_all add: min_def)
  show "between p (advance p (all_rows p b d)) (t_events d) = all_rows p b d"
  proof (cases k)
    case 0
    then show ?thesis using gt by (auto simp: k(1) btw filter_empty_conv)
  next
    case (Suc j)
    with k have j: "j < length xs" "take k xs \<noteq> []" "last (take k xs) = xs ! j"
      by (auto simp: take_Suc_conv_app_nth)
    then show ?thesis unfolding k(1) btw advance_last [OF j(2)] j(3)
      using take_filter_le [OF sx j(1)] Suc by simp
  qed
  show "p \<le> advance p (all_rows p b d)"
  proof (cases "all_rows p b d = []")
    case False
    then have "last (all_rows p b d) \<in> set xs" using k(1) by (metis in_set_takeD last_in_set)
    with gt False show ?thesis by (simp add: advance_last order_less_imp_le)
  qed simp
qed

section \<open>The invariant\<close>

definition pend_rows :: "sys \<Rightarrow> event_row list" where
  "pend_rows \<sigma> = (case sy_lock \<sigma> of None \<Rightarrow> []
     | Some t \<Rightarrow> (case sy_pend \<sigma> t of None \<Rightarrow> [] | Some rows \<Rightarrow> rows))"

definition inv :: "int \<Rightarrow> sys \<Rightarrow> bool" where
  "inv p0 \<sigma> \<longleftrightarrow> (\<forall>t. sy_pend \<sigma> t = None \<or> sy_lock \<sigma> = Some t) \<and>
     log_sorted (t_events (sy_db \<sigma>) @ pend_rows \<sigma>) \<and>
     (\<forall>r \<in> set (t_events (sy_db \<sigma>) @ pend_rows \<sigma>). er_pos r < sy_next \<sigma>) \<and>
     (\<forall>r \<in> set (pend_rows \<sigma>). sy_pos \<sigma> < er_pos r) \<and>
     p0 \<le> sy_pos \<sigma> \<and> sy_pos \<sigma> < sy_next \<sigma> \<and>
     sy_out \<sigma> = between p0 (sy_pos \<sigma>) (t_events (sy_db \<sigma>))"

lemma between_empty: "\<forall>r \<in> set rows. b < er_pos r \<Longrightarrow> between a b rows = []"
  by (auto simp: between_def filter_empty_conv)

lemma between_append: "between a b (xs @ ys) = between a b xs @ between a b ys"
  by (simp add: between_def)

lemma between_split:
  assumes "log_sorted rows" and "a \<le> b" and "b \<le> c"
  shows "between a c rows = between a b rows @ between b c rows"
  using assms(1)
proof (induction rows)
  case Nil
  then show ?case by (simp add: between_def)
next
  case (Cons r rows)
  then have tl: "between a c rows = between a b rows @ between b c rows"
    and gt: "\<forall>x \<in> set rows. er_pos r < er_pos x" by (auto simp: log_sorted_def)
  show ?case
  proof (cases "er_pos r \<le> b")
    case True
    with tl assms(2,3) show ?thesis by (auto simp: between_def)
  next
    case False
    with gt have "between a b rows = []" by (intro between_empty) auto
    with False tl assms(2,3) show ?thesis by (auto simp: between_def)
  qed
qed

lemma log_sorted_snoc:
  "log_sorted xs \<Longrightarrow> \<forall>r \<in> set xs. er_pos r < er_pos x \<Longrightarrow> log_sorted (xs @ [x])"
  by (auto simp: log_sorted_def sorted_wrt_append)

lemma inv_pending:
  assumes "inv p0 \<sigma>" and "sy_pend \<sigma> t = Some rows"
  shows "sy_lock \<sigma> = Some t" "pend_rows \<sigma> = rows" "\<forall>t'. sy_pend \<sigma> t' = None \<or> t' = t"
proof -
  show l: "sy_lock \<sigma> = Some t" using assms unfolding inv_def by (metis option.distinct(1))
  with assms show "pend_rows \<sigma> = rows" by (simp add: pend_rows_def)
  show "\<forall>t'. sy_pend \<sigma> t' = None \<or> t' = t" using l assms(1) unfolding inv_def by (metis option.inject)
qed

lemma log_sorted_prefix: "log_sorted (xs @ ys) \<Longrightarrow> log_sorted xs"
  by (simp add: log_sorted_def sorted_wrt_append)

lemma inv_step:
  assumes "step True batch \<sigma> \<sigma>'" and "inv p0 \<sigma>"
  shows "inv p0 \<sigma>'"
  using assms(1)
proof (cases rule: step.cases)
  case (begin_append t)
  then have n: "\<forall>t. sy_pend \<sigma> t = None" "sy_lock \<sigma> = None"
    using assms(2) by (auto simp: inv_def)
  then have "pend_rows \<sigma> = []" "pend_rows \<sigma>' = []"
    unfolding begin_append(1) by (simp_all add: pend_rows_def)
  with n assms(2) show ?thesis unfolding inv_def begin_append(1) by simp
next
  case (insert_one t rows row)
  note pd = inv_pending [OF assms(2) insert_one(2)]
  let ?row = "row\<lparr>er_pos := sy_next \<sigma>\<rparr>"
  have "pend_rows \<sigma>' = rows @ [?row]" using pd(1) by (simp add: pend_rows_def insert_one(1))
  moreover have "log_sorted ((t_events (sy_db \<sigma>) @ rows) @ [?row])"
    using pd(2) assms(2) unfolding inv_def by (intro log_sorted_snoc) auto
  ultimately show ?thesis using pd assms(2) unfolding inv_def insert_one(1)
    by (auto intro: less_imp_le)
next
  case (insert_failed t rows k)
  then have "pend_rows \<sigma>' = pend_rows \<sigma>" by (simp add: pend_rows_def cong: option.case_cong)
  then show ?thesis using insert_failed(3) assms(2) unfolding inv_def insert_failed(1)
    by (auto intro: order_less_le_trans)
next
  case (commit_append t rows)
  note pd = inv_pending [OF assms(2) commit_append(2)]
  have "sy_out \<sigma> = between p0 (sy_pos \<sigma>) (t_events (sy_db \<sigma>) @ rows)"
    using pd(2) assms(2) between_empty [of rows "sy_pos \<sigma>" p0] by (simp add: inv_def between_append)
  moreover have "pend_rows \<sigma>' = []" by (simp add: pend_rows_def commit_append(1))
  ultimately show ?thesis using pd assms(2) unfolding inv_def commit_append(1)
    by (auto simp: publish_def)
next
  case (abort_append t rows)
  note pd = inv_pending [OF assms(2) abort_append(2)]
  have "pend_rows \<sigma>' = []" by (simp add: pend_rows_def abort_append(1))
  with pd assms(2) show ?thesis unfolding inv_def abort_append(1)
    by (auto dest: log_sorted_prefix)
next
  case poll
  define q where "q = advance (sy_pos \<sigma>) (all_rows (sy_pos \<sigma>) batch (sy_db \<sigma>))"
  have s: "log_sorted (t_events (sy_db \<sigma>))" "p0 \<le> sy_pos \<sigma>" "log_sorted (t_events (sy_db \<sigma>) @ pend_rows \<sigma>)"
    and o: "sy_out \<sigma> = between p0 (sy_pos \<sigma>) (t_events (sy_db \<sigma>))"
    using assms(2) by (auto simp: inv_def dest: log_sorted_prefix)
  note pb = poll_between [OF s(1), of "sy_pos \<sigma>" batch, folded q_def]
  have out: "sy_out \<sigma> @ all_rows (sy_pos \<sigma>) batch (sy_db \<sigma>) = between p0 q (t_events (sy_db \<sigma>))"
    using between_split [OF s(1,2) pb(2)] pb(1) o by simp
  let ?rs = "all_rows (sy_pos \<sigma>) batch (sy_db \<sigma>)"
  have "q = sy_pos \<sigma> \<or> (\<exists>r \<in> set (t_events (sy_db \<sigma>)). q = er_pos r)"
  proof (cases "?rs = []")
    case False
    have "set ?rs \<subseteq> set (t_events (sy_db \<sigma>))"
      unfolding pb(1) [symmetric] by (auto simp: between_def)
    with False show ?thesis unfolding q_def by (metis advance_last last_in_set subsetD)
  qed (simp add: q_def)
  then have q: "q < sy_next \<sigma>" "\<forall>r \<in> set (pend_rows \<sigma>). q < er_pos r"
    using assms(2) s(3) by (auto simp: inv_def log_sorted_def sorted_wrt_append)
  have "pend_rows \<sigma>' = pend_rows \<sigma>" by (simp add: pend_rows_def poll cong: option.case_cong)
  with out q pb(2) assms(2) s(2) show ?thesis
    unfolding inv_def poll q_def [symmetric] by simp
qed

lemma inv_start: "events_wf d n \<Longrightarrow> p0 < n \<Longrightarrow> inv p0 (start d n p0)"
  by (auto simp: inv_def start_def pend_rows_def events_wf_def log_sorted_def between_def filter_empty_conv)

lemma inv_steps: "steps True batch \<sigma> \<sigma>' \<Longrightarrow> inv p0 \<sigma> \<Longrightarrow> inv p0 \<sigma>'"
  by (induction rule: rtranclp_induct) (auto intro: inv_step)

section \<open>Properties\<close>

text \<open>C8. Subscriptions lose nothing. With any number of concurrent appends that take the append lock,
  in every reachable state the subscriber has received exactly the committed events after its start
  and up to its position, each once, in position order, and no transaction still open can add an
  event at or below that position.\<close>

theorem subscription_gap_free:
  assumes "events_wf d n" and "p0 < n" and "steps True batch (start d n p0) \<sigma>"
  shows "sy_out \<sigma> = between p0 (sy_pos \<sigma>) (t_events (sy_db \<sigma>)) \<and>
    sorted_wrt (<) (map er_pos (sy_out \<sigma>)) \<and>
    (\<forall>t. case sy_pend \<sigma> t of None \<Rightarrow> True | Some rows \<Rightarrow> \<forall>r \<in> set rows. sy_pos \<sigma> < er_pos r)"
proof -
  have i: "inv p0 \<sigma>" using inv_steps [OF assms(3) inv_start [OF assms(1,2)]] .
  then have o: "sy_out \<sigma> = between p0 (sy_pos \<sigma>) (t_events (sy_db \<sigma>))"
    and s: "log_sorted (t_events (sy_db \<sigma>))" by (auto simp: inv_def dest: log_sorted_prefix)
  moreover have "sorted_wrt (<) (map er_pos (sy_out \<sigma>))"
    unfolding o between_def using s unfolding log_sorted_def by (simp add: sorted_wrt_map sorted_wrt_filter)
  moreover have "case sy_pend \<sigma> t of None \<Rightarrow> True | Some rows \<Rightarrow> \<forall>r \<in> set rows. sy_pos \<sigma> < er_pos r" for t
    using i inv_pending [OF i] by (auto simp: inv_def split: option.split)
  ultimately show ?thesis by blast
qed

definition demo_row :: event_row where
  "demo_row = \<lparr>er_pos = 0, er_id = ''e'', er_stream = ''s'', er_type = ''t'', er_version = 1, er_schema = 1,
     er_data = ''{}'', er_meta = ''{}'', er_occurred = 0, er_recorded = 0\<rparr>"

definition demo_db :: my_db where
  "demo_db = \<lparr>t_events = [], t_snapshots = [], t_append_lock = [1]\<rparr>"

text \<open>The steps of one append of \<open>demo_row\<close>, and a poll of all that is visible.\<close>

definition demo_begin :: "nat \<Rightarrow> sys \<Rightarrow> sys" where
  "demo_begin t \<sigma> = \<sigma>\<lparr>sy_pend := (sy_pend \<sigma>)(t \<mapsto> []), sy_lock := Some t\<rparr>"

definition demo_insert :: "nat \<Rightarrow> sys \<Rightarrow> sys" where
  "demo_insert t \<sigma> = \<sigma>\<lparr>sy_pend := (sy_pend \<sigma>)(t \<mapsto> [] @ [demo_row\<lparr>er_pos := sy_next \<sigma>\<rparr>]),
     sy_next := sy_next \<sigma> + 1\<rparr>"

definition demo_commit :: "nat \<Rightarrow> sys \<Rightarrow> sys" where
  "demo_commit t \<sigma> = \<sigma>\<lparr>sy_db := publish (the (sy_pend \<sigma> t)) (sy_db \<sigma>), sy_pend := (sy_pend \<sigma>)(t := None),
     sy_lock := None\<rparr>"

definition demo_poll :: "sys \<Rightarrow> sys" where
  "demo_poll \<sigma> = \<sigma>\<lparr>sy_out := sy_out \<sigma> @ all_rows (sy_pos \<sigma>) 10 (sy_db \<sigma>),
     sy_pos := advance (sy_pos \<sigma>) (all_rows (sy_pos \<sigma>) 10 (sy_db \<sigma>))\<rparr>"

lemmas demo_moves = demo_begin_def demo_insert_def demo_commit_def demo_poll_def start_def demo_db_def

lemma demo_begin_steps:
  assumes "steps l 10 \<sigma>0 \<sigma>" and "sy_pend \<sigma> t = None" and "\<not> l \<or> sy_lock \<sigma> = None"
  shows "steps l 10 \<sigma>0 (demo_begin t \<sigma>)"
proof -
  have "step l 10 \<sigma> (demo_begin t \<sigma>)"
    unfolding demo_begin_def by (rule step.begin_append) (use assms in auto)
  with assms(1) show ?thesis by (rule rtranclp.rtrancl_into_rtrancl)
qed

lemma demo_insert_steps:
  assumes "steps l 10 \<sigma>0 \<sigma>" and "sy_pend \<sigma> t = Some []"
  shows "steps l 10 \<sigma>0 (demo_insert t \<sigma>)"
proof -
  have "step l 10 \<sigma> (demo_insert t \<sigma>)"
    unfolding demo_insert_def by (rule step.insert_one) (rule assms(2))
  with assms(1) show ?thesis by (rule rtranclp.rtrancl_into_rtrancl)
qed

lemma demo_commit_steps:
  assumes "steps l 10 \<sigma>0 \<sigma>" and "sy_pend \<sigma> t \<noteq> None"
  shows "steps l 10 \<sigma>0 (demo_commit t \<sigma>)"
proof -
  have "step l 10 \<sigma> (demo_commit t \<sigma>)"
    unfolding demo_commit_def by (rule step.commit_append) (use assms(2) in simp)
  with assms(1) show ?thesis by (rule rtranclp.rtrancl_into_rtrancl)
qed

lemma demo_poll_steps:
  assumes "steps l 10 \<sigma>0 \<sigma>"
  shows "steps l 10 \<sigma>0 (demo_poll \<sigma>)"
proof -
  have "step l 10 \<sigma> (demo_poll \<sigma>)" unfolding demo_poll_def by (rule step.poll)
  with assms show ?thesis by (rule rtranclp.rtrancl_into_rtrancl)
qed

lemmas demo_steps = demo_begin_steps demo_insert_steps demo_commit_steps demo_poll_steps
  rtranclp.rtrancl_refl

theorem subscription_gap_free_witness:
  "\<exists>\<sigma>. steps True 10 (start demo_db 1 0) \<sigma> \<and> sy_out \<sigma> = [demo_row\<lparr>er_pos := 1\<rparr>] \<and>
     sy_out \<sigma> = between 0 (sy_pos \<sigma>) (t_events (sy_db \<sigma>))"
proof -
  let ?s = "start demo_db 1 0"
  have r: "steps True 10 ?s (demo_poll (demo_commit 1 (demo_insert 1 (demo_begin 1 ?s))))"
    by (intro demo_steps) (simp_all add: demo_moves)
  have w: "events_wf demo_db 1" "(0 :: int) < 1"
    by (simp_all add: demo_db_def events_wf_def versions_of_def contiguous_def)
  have "sy_out (demo_poll (demo_commit 1 (demo_insert 1 (demo_begin 1 ?s)))) = [demo_row\<lparr>er_pos := 1\<rparr>]"
    by (simp add: demo_moves publish_def all_rows_def)
  with r subscription_gap_free [OF w r] show ?thesis by blast
qed

text \<open>The append lock is what makes this hold. If appends did not take it, a reachable state would
  have a committed event after the subscriber's start and below its position that the subscriber
  never received, and would never receive, since it only asks for later positions.\<close>

theorem append_lock_needed:
  "\<exists>\<sigma> r. steps False 10 (start demo_db 1 0) \<sigma> \<and> r \<in> set (t_events (sy_db \<sigma>)) \<and> 0 < er_pos r \<and>
     er_pos r \<le> sy_pos \<sigma> \<and> r \<notin> set (sy_out \<sigma>)"
proof -
  let ?s = "start demo_db 1 0"
  let ?e = "demo_commit 1 (demo_poll (demo_commit 2 (demo_insert 2 (demo_begin 2
    (demo_insert 1 (demo_begin 1 ?s))))))"
  have r: "steps False 10 ?s ?e"
    by (intro demo_steps) (simp_all add: demo_moves)
  have "demo_row\<lparr>er_pos := 1\<rparr> \<in> set (t_events (sy_db ?e))" "sy_pos ?e = 2"
    "sy_out ?e = [demo_row\<lparr>er_pos := 2\<rparr>]"
    by (simp_all add: demo_moves publish_def all_rows_def advance_def)
  with r show ?thesis
    by (intro exI [of _ ?e] exI [of _ "demo_row\<lparr>er_pos := 1\<rparr>"]) (simp add: demo_row_def)
qed

end
