(* ===== verification/Guarded_Store.thy ===== *)
theory Guarded_Store
  imports Sql_Base
begin

text \<open>
  The interface of a repository whose \<open>Save\<close> is guarded by an optimistic-lock version (the
  \<open>LoadedVersion\<close> contract of \<open>README.md\<close>): what a save promises, as a locale, and what follows for
  concurrent writers. A save is a run of the whole operation against the database; its result is
  the version the entity is left with. The repositories interpret the locale in their own theories.
\<close>

text \<open>Several saves, run one after the other: those that succeeded, and the world after them.\<close>

fun attempts :: "('e \<Rightarrow> ('d, int) sql) \<Rightarrow> 'e list \<Rightarrow> 'd world \<Rightarrow> 'e list \<times> 'd world" where
  "attempts save [] w = ([], w)"
| "attempts save (e # es) w = (case save e w of
      (Inl _, w') \<Rightarrow> attempts save es w'
    | (Inr _, w') \<Rightarrow> (case attempts save es w' of (es', w'') \<Rightarrow> (e # es', w'')))"

definition quiet :: "'d world \<Rightarrow> bool" where
  "quiet w \<longleftrightarrow> calm w \<and> saved w = None"

locale guarded_store =
  fixes save :: "'e \<Rightarrow> int \<Rightarrow> ('d, int) sql"
    and key :: "'e \<Rightarrow> string"
    and version :: "'e \<Rightarrow> int"
    and current :: "'d \<Rightarrow> string \<Rightarrow> int option"
    and wf :: "'d \<Rightarrow> bool"
  assumes save_ok: "quiet w \<Longrightarrow> wf (db w) \<Longrightarrow> save e l w = (Inr v, w') \<Longrightarrow>
      quiet w' \<and> wf (db w') \<and> v = version e \<and> current (db w) (key e) \<in> {None, Some l} \<and>
      current (db w') (key e) = Some (version e) \<and> (\<forall>k. k \<noteq> key e \<longrightarrow> current (db w') k = current (db w) k)"
    and save_failed: "quiet w \<Longrightarrow> wf (db w) \<Longrightarrow> save e l w = (Inl x, w') \<Longrightarrow>
      quiet w' \<and> db w' = db w"
begin

text \<open>A save based on a version that is no longer the stored one fails and changes nothing.\<close>

lemma stale_save_fails:
  assumes "quiet w" and "wf (db w)" and "current (db w) (key e) = Some c" and "c \<noteq> l"
  shows "\<exists>x w'. save e l w = (Inl x, w') \<and> db w' = db w"
proof (cases "save e l w")
  case (Pair r w')
  show ?thesis
  proof (cases r)
    case (Inl x)
    with Pair save_failed assms(1,2) show ?thesis by blast
  next
    case (Inr v)
    with Pair save_ok [OF assms(1,2)] assms(3,4) show ?thesis by fastforce
  qed
qed

text \<open>Of two writers that loaded the same version, the second to save loses.\<close>

lemma no_lost_update:
  assumes "quiet w" and "wf (db w)" and "save e1 l w = (Inr v, w1)" and "version e1 \<noteq> l"
    and "key e2 = key e1"
  shows "\<exists>x w2. save e2 l w1 = (Inl x, w2) \<and> db w2 = db w1"
  using save_ok [OF assms(1-3)] assms(4,5) by (intro stale_save_fails) auto

text \<open>Of any number of writers that loaded the stored version, at most one succeeds, and the stored
  version is the winner's.\<close>

lemma stale_attempts:
  assumes "quiet w" and "wf (db w)" and "current (db w) k = Some c" and "c \<noteq> l"
    and "\<forall>e \<in> set es. key e = k"
  shows "\<exists>w'. attempts (\<lambda>e. save e l) es w = ([], w') \<and> db w' = db w"
  using assms
proof (induction es arbitrary: w)
  case (Cons e es)
  then obtain x w' where s: "save e l w = (Inl x, w')" "db w' = db w"
    using stale_save_fails [of w e c l] by auto
  with save_failed [OF Cons.prems(1,2)] have "quiet w'" by blast
  with Cons.IH [of w'] Cons.prems s show ?case by simp
qed simp

lemma one_winner:
  assumes "quiet w" and "wf (db w)" and "\<forall>e \<in> set es. key e = k \<and> version e \<noteq> l"
    and "attempts (\<lambda>e. save e l) es w = (ws, w')"
  shows "(ws = [] \<and> db w' = db w) \<or>
    (\<exists>e \<in> set es. ws = [e] \<and> current (db w) k \<in> {None, Some l} \<and> current (db w') k = Some (version e))"
  using assms
proof (induction es arbitrary: w)
  case (Cons e es)
  obtain r w1 where run: "save e l w = (r, w1)" by fastforce
  show ?case
  proof (cases r)
    case (Inl x)
    with run save_failed [OF Cons.prems(1,2)] have "quiet w1" "db w1 = db w" by blast+
    with Inl run Cons.IH [of w1] Cons.prems show ?thesis by auto
  next
    case (Inr v)
    with run save_ok [OF Cons.prems(1,2)] have s: "quiet w1" "wf (db w1)"
      "current (db w1) (key e) = Some (version e)" "current (db w) (key e) \<in> {None, Some l}" by blast+
    have "\<exists>w2. attempts (\<lambda>e. save e l) es w1 = ([], w2) \<and> db w2 = db w1"
      using s Cons.prems(3) by (intro stale_attempts [of w1 k "version e"]) auto
    with run Inr s Cons.prems(3,4) show ?thesis by auto
  qed
qed simp

end

section \<open>Tables with a primary key\<close>

definition lookup_row :: "('r \<Rightarrow> string) \<Rightarrow> string \<Rightarrow> 'r list \<Rightarrow> 'r option" where
  "lookup_row kf k rows = find (\<lambda>r. kf r = k) rows"

lemma lookup_row_None: "lookup_row kf k rows = None \<longleftrightarrow> k \<notin> kf ` set rows"
  by (auto simp: lookup_row_def find_None_iff)

lemma lookup_row_snoc:
  "kf r \<notin> kf ` set rows \<Longrightarrow>
     lookup_row kf k (rows @ [r]) = (if k = kf r then Some r else lookup_row kf k rows)"
  by (induction rows) (auto simp: lookup_row_def)

lemma lookup_row_mid:
  "distinct (map kf (xs @ x # ys)) \<Longrightarrow> kf y = kf x \<Longrightarrow>
     lookup_row kf k (xs @ y # ys) = (if k = kf x then Some y else lookup_row kf k (xs @ x # ys))"
  by (induction xs) (auto simp: lookup_row_def)

lemma lookup_row_here: "distinct (map kf (xs @ x # ys)) \<Longrightarrow> lookup_row kf (kf x) (xs @ x # ys) = Some x"
  using lookup_row_mid [of kf xs x ys x "kf x"] by simp

text \<open>What an insert and an update by key and version do to the versions of a table.\<close>

lemma insert_row_current:
  assumes "insert_row t keys r rows = Inr rows'" and "(nm, \<lambda>x. Some (kf x)) \<in> set keys"
    and "distinct (map kf rows)"
  shows "distinct (map kf rows') \<and> lookup_row kf (kf r) rows = None \<and>
    (\<forall>k. lookup_row kf k rows' = (if k = kf r then Some r else lookup_row kf k rows))"
proof -
  from assms(1) have e: "rows' = rows @ [r]" "\<forall>k \<in> set keys. \<not> clashes rows r k"
    by (auto simp: insert_row_def find_None_iff split: option.splits)
  with assms(2) have "\<not> clashes rows r (nm, \<lambda>x. Some (kf x))" by blast
  then have "kf r \<notin> kf ` set rows" by (force simp: clashes_def)
  with e assms(3) show ?thesis by (auto simp: lookup_row_None lookup_row_snoc)
qed

lemma update_one_current:
  assumes "update_one t keys (\<lambda>r. kf r = k \<and> vf r = (l :: int)) f rows = Inr (n, rows')" and "n \<noteq> 0"
    and "distinct (map kf rows)" and "\<And>r. kf (f r) = k"
  shows "distinct (map kf rows') \<and> (\<exists>r. lookup_row kf k rows = Some r \<and> vf r = l \<and> f r \<noteq> r \<and>
    (\<forall>k'. lookup_row kf k' rows' = (if k' = k then Some (f r) else lookup_row kf k' rows)))"
  using assms(1)
proof (cases rule: update_one_cases)
  case 1
  with assms(2) show ?thesis by simp
next
  case (2 xs x ys u)
  then show ?thesis by simp
next
  case (3 xs x ys)
  then have x: "rows' = xs @ f x # ys" "f x \<noteq> x" "kf x = k" "vf x = l" using assms(2) by (auto split: if_splits)
  have d: "distinct (map kf (xs @ x # ys))" using assms(3) 3(1) by simp
  have "kf (f x) = kf x" using assms(4) x by simp
  with d x 3(1) lookup_row_here [OF d] lookup_row_mid [OF d, of "f x"] show ?thesis
    by auto
qed

lemma update_one_miss:
  "update_one t keys p f rows = Inr (0, rows') \<Longrightarrow> rows' = rows"
  by (erule update_one_cases) (auto split: if_splits)

text \<open>No two rows share a value of a unique key, and no statement makes them.\<close>

definition unique_keys :: "'r unique_key list \<Rightarrow> 'r list \<Rightarrow> bool" where
  "unique_keys keys rows \<longleftrightarrow> (\<forall>k \<in> set keys. distinct (filter (\<lambda>v. v \<noteq> None) (map (snd k) rows)))"

lemma insert_row_unique:
  "unique_keys keys rows \<Longrightarrow> insert_row t keys r rows = Inr rows' \<Longrightarrow> unique_keys keys rows'"
  by (fastforce simp: unique_keys_def insert_row_def find_None_iff clashes_def split: option.splits)

lemma distinct_mid:
  "distinct (xs @ x # ys) \<Longrightarrow> y \<notin> set (xs @ ys) \<Longrightarrow> distinct (xs @ y # ys)"
  by auto

lemma update_one_unique:
  assumes u: "unique_keys keys rows" and run: "update_one t keys p f rows = Inr (n, rows')"
  shows "unique_keys keys rows'"
  using run
proof (cases rule: update_one_cases)
  case (3 xs x ys)
  then have r: "rows' = xs @ f x # ys" by simp
  show ?thesis unfolding unique_keys_def r
  proof
    fix k assume k: "k \<in> set keys"
    have d: "distinct (filter (\<lambda>v. v \<noteq> None) (map (snd k) (xs @ x # ys)))"
      using u k 3(1) unfolding unique_keys_def by blast
    have "snd k (f x) = None \<or> snd k (f x) \<notin> snd k ` set (xs @ ys)"
      using bspec [OF 3(4) k] unfolding clashes_def by (metis imageE)
    with d show "distinct (filter (\<lambda>v. v \<noteq> None) (map (snd k) (xs @ f x # ys)))"
      by (cases "snd k x = None") auto
  qed
qed (use u in simp_all)

section \<open>Statements on one table\<close>

text \<open>A table of the database: its name, its unique keys, its rows and how they are replaced.\<close>

record ('d, 'r) table =
  tb_name :: string
  tb_keys :: "'r unique_key list"
  tb_get :: "'d \<Rightarrow> 'r list"
  tb_set :: "'r list \<Rightarrow> 'd \<Rightarrow> 'd"

definition lens :: "('d, 'r) table \<Rightarrow> bool" where
  "lens T \<longleftrightarrow> (\<forall>d rows. tb_get T (tb_set T rows d) = rows) \<and> (\<forall>d. tb_set T (tb_get T d) d = d)"

text \<open>
  \<open>INSERT\<close> of one row and \<open>UPDATE\<close> of the row with a given primary key. What is written may depend
  on \<open>NOW(6)\<close>; a value the server refuses, such as invalid JSON, is an error before any key is checked.
\<close>

definition insert_into :: "('d, 'r) table \<Rightarrow> (time \<Rightarrow> db_error + 'r) \<Rightarrow> ('d, unit) sql" where
  "insert_into T mk = with_now (\<lambda>now. exec_stmt (\<lambda>d. case mk now of
      Inl e \<Rightarrow> (Inl e, d)
    | Inr row \<Rightarrow> (case insert_row (tb_name T) (tb_keys T) row (tb_get T d) of
          Inl e \<Rightarrow> (Inl e, d) | Inr rows \<Rightarrow> (Inr (), tb_set T rows d))))"

definition update_where :: "('d, 'r) table \<Rightarrow> ('r \<Rightarrow> bool) \<Rightarrow> (time \<Rightarrow> db_error + ('r \<Rightarrow> 'r)) \<Rightarrow> ('d, nat) sql" where
  "update_where T p mk = with_now (\<lambda>now. exec_stmt (\<lambda>d. case mk now of
      Inl e \<Rightarrow> (Inl e, d)
    | Inr f \<Rightarrow> (case update_one (tb_name T) (tb_keys T) p f (tb_get T d) of
          Inl e \<Rightarrow> (Inl e, d) | Inr (n, rows) \<Rightarrow> (Inr n, tb_set T rows d))))"

lemma insert_into_run:
  "calm w \<Longrightarrow> insert_into T mk w = (case mk (snow w) of
      Inl e \<Rightarrow> (Inl (DbError e), w)
    | Inr row \<Rightarrow> (case insert_row (tb_name T) (tb_keys T) row (tb_get T (db w)) of
          Inl e \<Rightarrow> (Inl (DbError e), w) | Inr rows \<Rightarrow> (Inr (), w\<lparr>db := tb_set T rows (db w)\<rparr>)))"
  by (auto simp: insert_into_def with_now_def exec_stmt_run split: sum.split prod.split)

lemma update_where_run:
  "calm w \<Longrightarrow> update_where T p mk w = (case mk (snow w) of
      Inl e \<Rightarrow> (Inl (DbError e), w)
    | Inr f \<Rightarrow> (case update_one (tb_name T) (tb_keys T) p f (tb_get T (db w)) of
          Inl e \<Rightarrow> (Inl (DbError e), w) | Inr (n, rows) \<Rightarrow> (Inr n, w\<lparr>db := tb_set T rows (db w)\<rparr>)))"
  by (auto simp: update_where_def with_now_def exec_stmt_run split: sum.split prod.split)

lemma sane_table [sane_intros]: "sane (insert_into T mk)" "sane (update_where T p mk2)"
  unfolding insert_into_def update_where_def by (intro sane_intros)+

lemma calm_table [keeps_intros]: "keeps calm (insert_into T mk)" "keeps calm (update_where T p mk2)"
  unfolding insert_into_def update_where_def by (intro keeps_intros)+

lemma insert_into_cases:
  assumes "calm w" and "insert_into T mk w = (r, w')"
  obtains (inserted) row rows where "r = Inr ()" "w' = w\<lparr>db := tb_set T rows (db w)\<rparr>" "mk (snow w) = Inr row"
      "insert_row (tb_name T) (tb_keys T) row (tb_get T (db w)) = Inr rows"
  | (failed) e where "r = Inl (DbError e)" "w' = w"
  using assms by (auto simp: insert_into_run split: sum.splits)

lemma update_where_cases:
  assumes "calm w" and "lens T" and "update_where T p mk w = (r, w')"
  obtains (updated) f n rows where "r = Inr n" "n \<noteq> 0" "w' = w\<lparr>db := tb_set T rows (db w)\<rparr>" "mk (snow w) = Inr f"
      "update_one (tb_name T) (tb_keys T) p f (tb_get T (db w)) = Inr (n, rows)"
  | (missed) "r = Inr 0" "w' = w"
  | (failed) e where "r = Inl (DbError e)" "w' = w"
proof (cases "mk (snow w)")
  case (Inl e)
  with assms failed show thesis by (auto simp: update_where_run)
next
  case f: (Inr f)
  show thesis
  proof (cases "update_one (tb_name T) (tb_keys T) p f (tb_get T (db w))")
    case (Inl e)
    with f assms failed show thesis by (auto simp: update_where_run)
  next
    case (Inr nr)
    then obtain n rows where u: "update_one (tb_name T) (tb_keys T) p f (tb_get T (db w)) = Inr (n, rows)"
      by (cases nr) auto
    have "n = 0 \<Longrightarrow> tb_set T rows (db w) = db w"
      using u update_one_miss assms(2) unfolding lens_def by metis
    with u f assms missed updated show thesis
      by (cases "n = 0") (auto simp: update_where_run)
  qed
qed

text \<open>
  The shape of a save that inserts and, when the primary key exists, updates the version it loaded.
  \<open>D\<close> recognises another key's duplicate, handled by \<open>dup\<close>.
\<close>

lemma insert_else_update_cases:
  assumes run: "tryA (insert_into T mk) (\<lambda>err. if D err then dup else if P err
        then tryA (update_where T p mk2) (\<lambda>e. if D e then dup else throw e)
          (\<lambda>n. if n = 0 then throw x else ret v)
        else throw err) (\<lambda>_. ret v) w = (r, w')"
    and c: "calm w" and l: "lens T" and dup: "\<exists>e. dup w = (Inl e, w)"
  obtains (inserted) row rows where "r = Inr v" "w' = w\<lparr>db := tb_set T rows (db w)\<rparr>" "mk (snow w) = Inr row"
      "insert_row (tb_name T) (tb_keys T) row (tb_get T (db w)) = Inr rows"
  | (updated) f n rows where "r = Inr v" "w' = w\<lparr>db := tb_set T rows (db w)\<rparr>" "mk2 (snow w) = Inr f" "n \<noteq> 0"
      "update_one (tb_name T) (tb_keys T) p f (tb_get T (db w)) = Inr (n, rows)"
  | (rejected) e where "r = Inl e" "w' = w"
proof -
  obtain ri w1 where i: "insert_into T mk w = (ri, w1)" by fastforce
  obtain ru w2 where u: "update_where T p mk2 w = (ru, w2)" by fastforce
  from dup obtain e where d: "dup w = (Inl e, w)" ..
  from c i show thesis
  proof (cases rule: insert_into_cases)
    case (inserted row rows)
    with i run that(1) show thesis by (auto simp: tryA_def)
  next
    case ins: (failed e)
    from c l u show thesis
    proof (cases rule: update_where_cases)
      case (updated f n rows)
      with ins i u run d that show thesis by (auto simp: tryA_def split: if_splits)
    next
      case missed
      with ins i u run d that(3) show thesis by (auto simp: tryA_def split: if_splits)
    next
      case (failed e)
      with ins i u run d that(3) show thesis by (auto simp: tryA_def split: if_splits)
    qed
  qed
qed

section \<open>A table guarded by a version column\<close>

definition row_versions :: "('d, 'r) table \<Rightarrow> ('r \<Rightarrow> string) \<Rightarrow> ('r \<Rightarrow> int) \<Rightarrow> 'd \<Rightarrow> string \<Rightarrow> int option" where
  "row_versions T kf vf d k = map_option vf (lookup_row kf k (tb_get T d))"

definition keyed :: "('d, 'r) table \<Rightarrow> ('r \<Rightarrow> string) \<Rightarrow> 'd \<Rightarrow> bool" where
  "keyed T kf d \<longleftrightarrow> distinct (map kf (tb_get T d))"

text \<open>What a guarded save may do: insert its row, replace the row it loaded, or change nothing.\<close>

definition guarded_outcome :: "('d, 'r) table \<Rightarrow> ('r \<Rightarrow> string) \<Rightarrow> ('r \<Rightarrow> int) \<Rightarrow> string \<Rightarrow> int \<Rightarrow> int
    \<Rightarrow> 'd world \<Rightarrow> repo_error + int \<Rightarrow> 'd world \<Rightarrow> bool" where
  "guarded_outcome T kf vf k l v w r w' \<longleftrightarrow>
     (\<exists>row rows. r = Inr v \<and> w' = w\<lparr>db := tb_set T rows (db w)\<rparr> \<and> kf row = k \<and> vf row = v \<and>
        insert_row (tb_name T) (tb_keys T) row (tb_get T (db w)) = Inr rows) \<or>
     (\<exists>f n rows. r = Inr v \<and> w' = w\<lparr>db := tb_set T rows (db w)\<rparr> \<and> n \<noteq> 0 \<and> (\<forall>x. kf (f x) = k \<and> vf (f x) = v) \<and>
        update_one (tb_name T) (tb_keys T) (\<lambda>x. kf x = k \<and> vf x = l) f (tb_get T (db w)) = Inr (n, rows)) \<or>
     (\<exists>x. r = Inl x \<and> w' = w)"

lemma guarded_storeI:
  assumes l: "lens T" and pk: "(nm, \<lambda>x. Some (kf x)) \<in> set (tb_keys T)"
    and out: "\<And>e l w r w'. quiet w \<Longrightarrow> save e l w = (r, w') \<Longrightarrow>
        guarded_outcome T kf vf (key e) l (version e) w r w'"
  shows "guarded_store save key version (row_versions T kf vf) (keyed T kf)"
proof
  fix w e l v w' x
  assume q: "quiet w" and wf: "keyed T kf (db w)"
  have g: "tb_get T (tb_set T rows d) = rows" for rows d using l by (simp add: lens_def)
  show "quiet w' \<and> db w' = db w" if "save e l w = (Inl x, w')"
    using out [OF q that] q by (auto simp: guarded_outcome_def)
  assume run: "save e l w = (Inr v, w')"
  consider (ins) row rows where "v = version e" "w' = w\<lparr>db := tb_set T rows (db w)\<rparr>" "kf row = key e"
      "vf row = version e" "insert_row (tb_name T) (tb_keys T) row (tb_get T (db w)) = Inr rows"
    | (upd) f n rows where "v = version e" "w' = w\<lparr>db := tb_set T rows (db w)\<rparr>" "n \<noteq> 0"
      "\<forall>x. kf (f x) = key e \<and> vf (f x) = version e"
      "update_one (tb_name T) (tb_keys T) (\<lambda>x. kf x = key e \<and> vf x = l) f (tb_get T (db w)) = Inr (n, rows)"
    using out [OF q run] by (auto simp: guarded_outcome_def)
  then show "quiet w' \<and> keyed T kf (db w') \<and> v = version e \<and>
      row_versions T kf vf (db w) (key e) \<in> {None, Some l} \<and>
      row_versions T kf vf (db w') (key e) = Some (version e) \<and>
      (\<forall>k. k \<noteq> key e \<longrightarrow> row_versions T kf vf (db w') k = row_versions T kf vf (db w) k)"
  proof cases
    case ins
    from insert_row_current [OF ins(5) pk] wf ins q show ?thesis
      by (auto simp: keyed_def row_versions_def quiet_def g)
  next
    case upd
    from update_one_current [OF upd(5,3)] wf upd q show ?thesis
      by (auto simp: keyed_def row_versions_def quiet_def g)
  qed
qed

text \<open>After a guarded save the row under its key is the one written.\<close>

lemma insert_row_lookup:
  assumes "insert_row t keys r rows = Inr rows'" and "(nm, \<lambda>x. Some (kf x)) \<in> set keys"
    and "distinct (map kf rows)"
  shows "find (\<lambda>x. kf x = (kf r :: string)) rows = None \<and> find (\<lambda>x. kf x = kf r) rows' = Some r"
  using insert_row_current [OF assms] by (auto simp: lookup_row_def)

lemma update_one_lookup:
  assumes "update_one t keys (\<lambda>r. kf r = (k :: string) \<and> vf r = (l :: int)) f rows = Inr (n, rows')" and "n \<noteq> 0"
    and "distinct (map kf rows)" and "\<And>r. kf (f r) = k"
  shows "\<exists>r. find (\<lambda>x. kf x = k) rows = Some r \<and> find (\<lambda>x. kf x = k) rows' = Some (f r)"
  using update_one_current [OF assms] by (auto simp: lookup_row_def)

end
