(* ===== verification/My_Values.thy ===== *)
theory My_Values
  imports My_Errors Guarded_Store
begin

text \<open>
  Column values the repositories share: JSON columns, optional texts and times, and the amounts of
  \<open>mysql/money.go\<close>.
\<close>

text \<open>\<open>encoding/json\<close> for a type of the core library: \<open>Marshal\<close> and \<open>Unmarshal\<close>.\<close>

record 'a codec =
  co_enc :: "'a \<Rightarrow> string option"
  co_dec :: "string \<Rightarrow> 'a option"

definition codec_ok :: "menv \<Rightarrow> 'a codec \<Rightarrow> bool" where
  "codec_ok env c \<longleftrightarrow> (\<forall>a t. co_enc c a = Some t \<longrightarrow>
     (case me_json env t of None \<Rightarrow> True | Some t' \<Rightarrow> t' \<noteq> [] \<and> co_dec c t' = Some a))"

definition json_columns :: "menv \<Rightarrow> string \<Rightarrow> string \<Rightarrow> db_error + string \<times> string" where
  "json_columns env a b = (case (me_json env a, me_json env b) of
      (Some x, Some y) \<Rightarrow> Inr (x, y)
    | _ \<Rightarrow> Inl (MySQLError 3140 ''Invalid JSON text''))"

definition json_column :: "menv \<Rightarrow> string \<Rightarrow> db_error + string" where
  "json_column env a = (case me_json env a of
      Some x \<Rightarrow> Inr x | None \<Rightarrow> Inl (MySQLError 3140 ''Invalid JSON text''))"

lemma codec_column:
  "codec_ok env c \<Longrightarrow> co_enc c a = Some t \<Longrightarrow> json_column env t = Inr x \<Longrightarrow> x \<noteq> [] \<and> co_dec c x = Some a"
  by (auto simp: codec_ok_def json_column_def split: option.splits)

definition opt_string :: "string \<Rightarrow> string option" where
  "opt_string s = (if s = [] then None else Some s)"

definition moneyFromInt64 :: "int64 \<Rightarrow> string \<Rightarrow> money" where
  "moneyFromInt64 amount currency = new_money (of_int (sint amount)) currency"

text \<open>\<open>INSERT ... ON DUPLICATE KEY UPDATE\<close> on a table with a primary key only.\<close>

definition upsert_row :: "('r \<Rightarrow> string) \<Rightarrow> 'r \<Rightarrow> ('r \<Rightarrow> 'r) \<Rightarrow> 'r list \<Rightarrow> 'r list" where
  "upsert_row kf new upd rows = (if \<exists>r \<in> set rows. kf r = kf new
     then map (\<lambda>r. if kf r = kf new then upd r else r) rows else rows @ [new])"

lemma find_upsert_row:
  assumes "\<And>r. kf (upd r) = kf new"
  shows "find (\<lambda>r. kf r = kf new) (upsert_row kf new upd rows) =
    Some (case find (\<lambda>r. kf r = kf new) rows of None \<Rightarrow> new | Some r \<Rightarrow> upd r)"
proof (cases "find (\<lambda>r. kf r = kf new) rows")
  case None
  have "find (\<lambda>r. kf r = kf new) (rows @ [new]) = Some new"
    using None by (induction rows) auto
  moreover have "\<not> (\<exists>r \<in> set rows. kf r = kf new)" using None by (auto simp: find_None_iff)
  ultimately show ?thesis using None by (simp only: upsert_row_def if_False option.case)
next
  case (Some x)
  then have "\<exists>r \<in> set rows. kf r = kf new" by (auto simp: find_Some_iff)
  moreover have "find (\<lambda>r. kf r = kf new) (map (\<lambda>r. if kf r = kf new then upd r else r) rows) = Some (upd x)"
    using Some assms by (induction rows) (auto split: if_splits)
  ultimately show ?thesis using Some by (simp add: upsert_row_def)
qed

text \<open>A concrete server for the witnesses: it stores JSON and times as they are.\<close>

definition demo_env :: menv where
  "demo_env = \<lparr>me_json = Some, me_time = (\<lambda>t. t), me_extract = (\<lambda>d p. None), me_marshal = Some, me_unmarshal = Some\<rparr>"

end
