(* ===== verification/My_Payment_Repo.thy ===== *)
theory My_Payment_Repo
  imports My_Values
begin

text \<open>
  The payment repository of \<open>mysql/payment_repo.go\<close>: the guarded save with the idempotency-key
  sentinel, and the finders. The payment aggregate, its validation, the JSON form of its money and
  its metadata are the core library's: a parameter. A payment is its snapshot with the version it
  was loaded at.
\<close>

record payment_snapshot =
  ps_ID :: string
  ps_InvoiceID :: string
  ps_IdempotencyKey :: string
  ps_Amount :: money
  ps_RefundedAmount :: money
  ps_Status :: string
  ps_Method :: string
  ps_GatewayTransactionID :: string
  ps_FailureReason :: "string option"
  ps_ProcessedAt :: time
  ps_Metadata :: string
  ps_Version :: int

record payment =
  pm_snap :: payment_snapshot
  pm_loaded :: int

record pay_core =
  pk_int64 :: "money \<Rightarrow> int64"
  pk_state :: "(money \<times> money) codec"
  pk_meta :: "string codec"
  pk_valid :: "payment_snapshot \<Rightarrow> bool"

definition payment_FromSnapshot :: "pay_core \<Rightarrow> payment_snapshot \<Rightarrow> repo_error + payment" where
  "payment_FromSnapshot co s =
     (if pk_valid co s then Inr \<lparr>pm_snap = s, pm_loaded = ps_Version s\<rparr>
      else Inl (OtherError ''payment snapshot''))"

record payment_row =
  pr_id :: string
  pr_invoice :: string
  pr_idem :: "string option"
  pr_amount :: int64
  pr_refunded :: int64
  pr_currency :: string
  pr_status :: string
  pr_method :: string
  pr_gtx :: string
  pr_failure :: string
  pr_processed :: "time option"
  pr_metadata :: string
  pr_state :: "string option"
  pr_lock_version :: int
  pr_created :: time
  pr_updated :: time

definition payment_keys :: "payment_row unique_key list" where
  "payment_keys = [(''PRIMARY'', \<lambda>r. Some (pr_id r)), (''idempotency_key'', pr_idem)]"

type_synonym pay_db = "payment_row list"

definition payments_table :: "(pay_db, payment_row) table" where
  "payments_table = \<lparr>tb_name = ''payments'', tb_keys = payment_keys, tb_get = (\<lambda>d. d), tb_set = (\<lambda>rows _. rows)\<rparr>"

section \<open>Save\<close>

text \<open>The row both statements write; JSON columns and times as the database keeps them.\<close>

definition payment_to_row :: "menv \<Rightarrow> pay_core \<Rightarrow> payment_snapshot \<Rightarrow> string \<Rightarrow> string \<Rightarrow> time \<Rightarrow> payment_row" where
  "payment_to_row env co s metadata state now =
     \<lparr>pr_id = ps_ID s, pr_invoice = ps_InvoiceID s, pr_idem = opt_string (ps_IdempotencyKey s),
      pr_amount = pk_int64 co (ps_Amount s), pr_refunded = pk_int64 co (ps_RefundedAmount s),
      pr_currency = m_currency (ps_Amount s), pr_status = ps_Status s, pr_method = ps_Method s,
      pr_gtx = ps_GatewayTransactionID s,
      pr_failure = (case ps_FailureReason s of None \<Rightarrow> [] | Some r \<Rightarrow> r),
      pr_processed = (if is_zero_time (ps_ProcessedAt s) then None else Some (me_time env (ps_ProcessedAt s))),
      pr_metadata = metadata, pr_state = Some state, pr_lock_version = ps_Version s,
      pr_created = now, pr_updated = now\<rparr>"

definition insert_payment :: "menv \<Rightarrow> pay_core \<Rightarrow> payment_snapshot \<Rightarrow> string \<Rightarrow> string \<Rightarrow> (pay_db, unit) sql" where
  "insert_payment env co s metadata state = insert_into payments_table (\<lambda>now.
     case json_columns env metadata state of
       Inl e \<Rightarrow> Inl e | Inr (m, st) \<Rightarrow> Inr (payment_to_row env co s m st now))"

definition update_payment :: "menv \<Rightarrow> pay_core \<Rightarrow> payment_snapshot \<Rightarrow> int \<Rightarrow> string \<Rightarrow> string
    \<Rightarrow> (pay_db, nat) sql" where
  "update_payment env co s loaded metadata state = update_where payments_table
     (\<lambda>r. pr_id r = ps_ID s \<and> pr_lock_version r = loaded)
     (\<lambda>now. case json_columns env metadata state of
       Inl e \<Rightarrow> Inl e
     | Inr (m, st) \<Rightarrow> Inr (\<lambda>r. (payment_to_row env co s m st now)\<lparr>pr_created := pr_created r\<rparr>))"

definition duplicateIdempotencyKey :: "payment_snapshot \<Rightarrow> (pay_db, int) sql" where
  "duplicateIdempotencyKey s =
     tryA (query_row (\<lambda>d. find (\<lambda>r. pr_idem r = Some (ps_IdempotencyKey s)) d))
       (\<lambda>_. throw (DuplicateIdempotencyKey (ps_IdempotencyKey s) (ps_ID s) []))
       (\<lambda>r. throw (DuplicateIdempotencyKey (ps_IdempotencyKey s) (ps_ID s) (pr_id r)))"

definition Save :: "menv \<Rightarrow> pay_core \<Rightarrow> payment_snapshot \<Rightarrow> int \<Rightarrow> (pay_db, int) sql" where
  "Save env co s loaded = (case co_enc (pk_meta co) (ps_Metadata s) of
      None \<Rightarrow> throw (OtherError ''marshal metadata'')
    | Some metadata \<Rightarrow> (case co_enc (pk_state co) (ps_Amount s, ps_RefundedAmount s) of
        None \<Rightarrow> throw (OtherError ''marshal state'')
      | Some state \<Rightarrow>
          tryA (insert_payment env co s metadata state)
            (\<lambda>err. if dupEntryOnKey err ''idempotency_key'' then duplicateIdempotencyKey s
               else if dupEntryOnKey err ''PRIMARY''
               then tryA (update_payment env co s loaded metadata state)
                 (\<lambda>upErr. if dupEntryOnKey upErr ''idempotency_key'' then duplicateIdempotencyKey s
                    else throw upErr)
                 (\<lambda>affected. if affected = 0 then throw TxVersionConflict else ret (ps_Version s))
               else throw err)
            (\<lambda>_. ret (ps_Version s))))"

section \<open>Finders\<close>

definition scanPaymentSnapshot :: "pay_core \<Rightarrow> payment_row \<Rightarrow> repo_error + payment_snapshot" where
  "scanPaymentSnapshot co r =
     (case (case pr_state r of
          Some st \<Rightarrow> if st = [] then Some (moneyFromInt64 (pr_amount r) (pr_currency r),
              moneyFromInt64 (pr_refunded r) (pr_currency r)) else co_dec (pk_state co) st
        | None \<Rightarrow> Some (moneyFromInt64 (pr_amount r) (pr_currency r),
              moneyFromInt64 (pr_refunded r) (pr_currency r))) of
        None \<Rightarrow> Inl (OtherError ''unmarshal state'')
      | Some (amount, refunded) \<Rightarrow>
          (case (if pr_metadata r = [] then Some [] else co_dec (pk_meta co) (pr_metadata r)) of
             None \<Rightarrow> Inl (OtherError ''unmarshal metadata'')
           | Some meta \<Rightarrow> Inr
              \<lparr>ps_ID = pr_id r, ps_InvoiceID = pr_invoice r,
               ps_IdempotencyKey = (case pr_idem r of Some k \<Rightarrow> k | None \<Rightarrow> []),
               ps_Amount = amount, ps_RefundedAmount = refunded, ps_Status = pr_status r,
               ps_Method = pr_method r, ps_GatewayTransactionID = pr_gtx r,
               ps_FailureReason = opt_string (pr_failure r),
               ps_ProcessedAt = (case pr_processed r of Some t \<Rightarrow> t | None \<Rightarrow> zero_time),
               ps_Metadata = meta, ps_Version = pr_lock_version r\<rparr>))"

definition payment_of_row :: "pay_core \<Rightarrow> payment_row \<Rightarrow> repo_error + payment" where
  "payment_of_row co r = (case scanPaymentSnapshot co r of
      Inl e \<Rightarrow> Inl e | Inr s \<Rightarrow> payment_FromSnapshot co s)"

definition FindByID :: "pay_core \<Rightarrow> string \<Rightarrow> (pay_db, payment) sql" where
  "FindByID co i = tryA (query_row (\<lambda>d. find (\<lambda>r. pr_id r = i) d))
     (\<lambda>e. if as_db e = Some ErrNoRows then throw (DomainError ErrCodeNotFound None) else throw e)
     (\<lambda>r. liftA (payment_of_row co r))"

definition scanPaymentRows :: "pay_core \<Rightarrow> payment_row list \<Rightarrow> (pay_db, payment list) sql" where
  "scanPaymentRows co rows = mapA (\<lambda>r. liftA (payment_of_row co r)) rows"

definition FindByInvoiceID :: "pay_core \<Rightarrow> string \<Rightarrow> (pay_db, payment list) sql" where
  "FindByInvoiceID co i =
     bindA (query (\<lambda>d. sort_key (\<lambda>r. - pr_created r) (filter (\<lambda>r. pr_invoice r = i) d))) (scanPaymentRows co)"

definition FindByIdempotencyKey :: "pay_core \<Rightarrow> string \<Rightarrow> (pay_db, payment option) sql" where
  "FindByIdempotencyKey co k = tryA (query_row (\<lambda>d. find (\<lambda>r. pr_idem r = Some k) d))
     (\<lambda>e. if as_db e = Some ErrNoRows then ret None else throw e)
     (\<lambda>r. bindA (liftA (payment_of_row co r)) (\<lambda>p. ret (Some p)))"

section \<open>Runs without faults\<close>

lemma payments_lens [simp]: "lens payments_table" by (simp add: lens_def payments_table_def)

lemma payments_sel [simp]: "tb_get payments_table d = d" "tb_set payments_table rows d = rows"
  "tb_keys payments_table = payment_keys"
  by (simp_all add: payments_table_def)

lemma payment_primary: "(''PRIMARY'', \<lambda>r. Some (pr_id r)) \<in> set payment_keys"
  by (simp add: payment_keys_def)

lemma duplicateIdempotencyKey_run:
  "calm w \<Longrightarrow> duplicateIdempotencyKey s w = (Inl (DuplicateIdempotencyKey (ps_IdempotencyKey s) (ps_ID s)
     (case find (\<lambda>r. pr_idem r = Some (ps_IdempotencyKey s)) (db w) of None \<Rightarrow> [] | Some r \<Rightarrow> pr_id r)), w)"
  by (auto simp: duplicateIdempotencyKey_def tryA_def query_row_run split: option.split)

lemma payment_to_row_sel [simp]:
  "pr_id (payment_to_row env co s m t n) = ps_ID s"
  "pr_lock_version (payment_to_row env co s m t n) = ps_Version s"
  by (simp_all add: payment_to_row_def)

text \<open>The outcomes of a save: it inserted, it updated the row it had loaded, or it changed nothing.\<close>

lemma payment_Save_cases:
  assumes c: "calm w" and run: "Save env co s l w = (r, w')"
  obtains (inserted) md st m t d where "r = Inr (ps_Version s)" "w' = w\<lparr>db := d\<rparr>"
      "co_enc (pk_meta co) (ps_Metadata s) = Some md" "co_enc (pk_state co) (ps_Amount s, ps_RefundedAmount s) = Some st"
      "json_columns env md st = Inr (m, t)"
      "insert_row (tb_name payments_table) payment_keys (payment_to_row env co s m t (snow w)) (db w) = Inr d"
  | (updated) md st m t n d where "r = Inr (ps_Version s)" "w' = w\<lparr>db := d\<rparr>" "n \<noteq> 0"
      "co_enc (pk_meta co) (ps_Metadata s) = Some md" "co_enc (pk_state co) (ps_Amount s, ps_RefundedAmount s) = Some st"
      "json_columns env md st = Inr (m, t)"
      "update_one (tb_name payments_table) payment_keys (\<lambda>r. pr_id r = ps_ID s \<and> pr_lock_version r = l)
         (\<lambda>r. (payment_to_row env co s m t (snow w))\<lparr>pr_created := pr_created r\<rparr>) (db w) = Inr (n, d)"
  | (rejected) e where "r = Inl e" "w' = w"
proof (cases "co_enc (pk_meta co) (ps_Metadata s)")
  case None
  with run rejected show thesis by (auto simp: Save_def)
next
  case md: (Some metadata)
  show thesis
  proof (cases "co_enc (pk_state co) (ps_Amount s, ps_RefundedAmount s)")
    case None
    with md run rejected show thesis by (auto simp: Save_def)
  next
    case st: (Some state)
    have dup: "\<exists>e. duplicateIdempotencyKey s w = (Inl e, w)" using duplicateIdempotencyKey_run [OF c] by blast
    from run md st have run': "tryA (insert_payment env co s metadata state)
            (\<lambda>err. if dupEntryOnKey err ''idempotency_key'' then duplicateIdempotencyKey s
               else if dupEntryOnKey err ''PRIMARY''
               then tryA (update_payment env co s l metadata state)
                 (\<lambda>upErr. if dupEntryOnKey upErr ''idempotency_key'' then duplicateIdempotencyKey s
                    else throw upErr)
                 (\<lambda>affected. if affected = 0 then throw TxVersionConflict else ret (ps_Version s))
               else throw err)
            (\<lambda>_. ret (ps_Version s)) w = (r, w')"
      by (simp add: Save_def)
    show thesis
    proof (rule insert_else_update_cases [of payments_table _ "\<lambda>e. dupEntryOnKey e ''idempotency_key''"
          "duplicateIdempotencyKey s" "\<lambda>e. dupEntryOnKey e ''PRIMARY''",
          OF run' [unfolded insert_payment_def update_payment_def] c payments_lens dup])
    qed (use md st that in \<open>auto split: sum.splits prod.splits\<close>)
  qed
qed

section \<open>The repository is a guarded store\<close>

interpretation payments: guarded_store "Save env co" ps_ID ps_Version
    "row_versions payments_table pr_id pr_lock_version" "keyed payments_table pr_id" for env co
proof (rule guarded_storeI)
  show "lens payments_table" "(''PRIMARY'', \<lambda>x. Some (pr_id x)) \<in> set (tb_keys payments_table)"
    by (simp_all add: payment_primary)
  fix e l w r w'
  assume q: "quiet w" and run: "Save env co e l w = (r, w')"
  then have "calm w" by (simp add: quiet_def)
  then show "guarded_outcome payments_table pr_id pr_lock_version (ps_ID e) l (ps_Version e) w r w'"
    using run
  proof (cases rule: payment_Save_cases)
    case (inserted md st m t d)
    then show ?thesis unfolding guarded_outcome_def
      by (intro disjI1 exI [of _ "payment_to_row env co e m t (snow w)"]) simp
  next
    case (updated md st m t n d)
    then show ?thesis unfolding guarded_outcome_def
      by (intro disjI2 disjI1 exI [of _ "\<lambda>r. (payment_to_row env co e m t (snow w))\<lparr>pr_created := pr_created r\<rparr>"]
          exI [of _ n] exI [of _ d]) simp
  qed (simp add: guarded_outcome_def)
qed

section \<open>Properties\<close>

text \<open>A payment as it is read back.\<close>

definition as_stored :: "menv \<Rightarrow> payment_snapshot \<Rightarrow> payment_snapshot" where
  "as_stored env s = s\<lparr>
     ps_ProcessedAt := (if is_zero_time (ps_ProcessedAt s) then zero_time else me_time env (ps_ProcessedAt s)),
     ps_FailureReason := (if ps_FailureReason s = Some [] then None else ps_FailureReason s)\<rparr>"

lemma scan_written:
  assumes "codec_ok env (pk_meta co)" and "codec_ok env (pk_state co)"
    and "co_enc (pk_meta co) (ps_Metadata s) = Some md"
    and "co_enc (pk_state co) (ps_Amount s, ps_RefundedAmount s) = Some st"
    and "json_columns env md st = Inr (m, t)"
  shows "scanPaymentSnapshot co ((payment_to_row env co s m t now)\<lparr>pr_created := c\<rparr>) = Inr (as_stored env s)"
proof -
  have "m \<noteq> []" "co_dec (pk_meta co) m = Some (ps_Metadata s)" "t \<noteq> []"
    "co_dec (pk_state co) t = Some (ps_Amount s, ps_RefundedAmount s)"
    using assms by (auto simp: codec_ok_def json_columns_def split: option.splits)
  then show ?thesis
    by (auto simp: scanPaymentSnapshot_def payment_to_row_def as_stored_def opt_string_def is_zero_time_def
        split: option.split)
qed


text \<open>A concrete table with one payment, and codecs for one amount, for the witnesses.\<close>

definition demo_money :: money where "demo_money = new_money 100 ''JPY''"

definition demo_core :: pay_core where
  "demo_core = \<lparr>pk_int64 = (\<lambda>_. 100),
     pk_state = \<lparr>co_enc = (\<lambda>a. if a = (demo_money, demo_money) then Some ''S'' else None),
                 co_dec = (\<lambda>t. Some (demo_money, demo_money))\<rparr>,
     pk_meta = \<lparr>co_enc = (\<lambda>m. Some (CHR ''m'' # m)), co_dec = (\<lambda>t. Some (tl t))\<rparr>, pk_valid = (\<lambda>_. True)\<rparr>"

definition demo_payment :: "string \<Rightarrow> string \<Rightarrow> int \<Rightarrow> payment_snapshot" where
  "demo_payment i status v = \<lparr>ps_ID = i, ps_InvoiceID = ''inv'', ps_IdempotencyKey = ''k'', ps_Amount = demo_money,
     ps_RefundedAmount = demo_money, ps_Status = status, ps_Method = ''card'', ps_GatewayTransactionID = [],
     ps_FailureReason = None, ps_ProcessedAt = 7, ps_Metadata = [], ps_Version = v\<rparr>"

definition demo_payments :: "pay_db world" where
  "demo_payments = \<lparr>db = [payment_to_row demo_env demo_core (demo_payment ''p1'' ''pending'' 1) ''m'' ''S'' 3],
     saved = None, autoinc = 1, clk = 5, snow = 6, faults = []\<rparr>"

lemma demo_payments_ok: "calm demo_payments" "quiet demo_payments"
    "keyed payments_table pr_id (db demo_payments)"
  by (simp_all add: demo_payments_def quiet_def keyed_def)

lemma demo_core_ok: "codec_ok demo_env (pk_meta demo_core)" "codec_ok demo_env (pk_state demo_core)"
  by (auto simp: codec_ok_def demo_env_def demo_core_def split: if_splits)

lemma demo_Save_updates:
  "\<exists>w'. Save demo_env demo_core (demo_payment ''p1'' ''done'' 2) 1 demo_payments = (Inr 2, w')"
proof -
  let ?s = "demo_payment ''p1'' ''done'' 2"
  have j: "json_columns demo_env ''m'' ''S'' = Inr (''m'', ''S'')"
    by (simp add: json_columns_def demo_env_def)
  have m: "co_enc (pk_meta demo_core) (ps_Metadata ?s) = Some ''m''"
    "co_enc (pk_state demo_core) (ps_Amount ?s, ps_RefundedAmount ?s) = Some ''S''"
    by (simp_all add: demo_core_def demo_payment_def)
  let ?row = "payment_to_row demo_env demo_core ?s ''m'' ''S'' 6"
  have row: "pr_id ?row = ''p1''" by (simp add: demo_payment_def)
  have ins: "insert_row (tb_name payments_table) payment_keys ?row (db demo_payments)
      = Inl (dup_error (tb_name payments_table) (''PRIMARY'', \<lambda>r. Some (pr_id r)) ?row)"
    by (simp add: insert_row_def payment_keys_def clashes_def demo_payments_def demo_payment_def)
  have d: "\<not> dupEntryOnKey (DbError (dup_error (tb_name payments_table) (''PRIMARY'', \<lambda>r. Some (pr_id r)) ?row))
      ''idempotency_key''"
    "dupEntryOnKey (DbError (dup_error (tb_name payments_table) (''PRIMARY'', \<lambda>r. Some (pr_id r)) ?row)) ''PRIMARY''"
    by (subst dupEntryOnKey_dup; code_simp)+
  have upd: "\<exists>rows. update_one (tb_name payments_table) payment_keys (\<lambda>r. pr_id r = ps_ID ?s \<and> pr_lock_version r = 1)
     (\<lambda>r. ?row\<lparr>pr_created := pr_created r\<rparr>) (db demo_payments) = Inr (1, rows)"
    by (simp add: update_one_def extract_Cons_code demo_payments_def demo_payment_def payment_to_row_def
        payment_keys_def clashes_def)
  then obtain rows where "update_one (tb_name payments_table) payment_keys
     (\<lambda>r. pr_id r = ps_ID ?s \<and> pr_lock_version r = 1)
     (\<lambda>r. ?row\<lparr>pr_created := pr_created r\<rparr>) (db demo_payments) = Inr (1, rows)" ..
  moreover have "snow demo_payments = 6" "ps_Version ?s = 2" by (simp_all add: demo_payments_def demo_payment_def)
  ultimately show ?thesis
    using m j ins d by (simp add: Save_def tryA_def insert_payment_def update_payment_def insert_into_run
        update_where_run demo_payments_ok)
qed


text \<open>A payment with a new id and an idempotency key that another payment holds is refused with
  the sentinel that names the key, the refused id and the holder's id; the holder's row, and the whole
  table, are left as they are.\<close>

theorem idempotency_key_held:
  assumes "calm w" and "r \<in> set (db w)" and "pr_idem r = Some (ps_IdempotencyKey s)"
    and "ps_IdempotencyKey s \<noteq> []" and "\<forall>r' \<in> set (db w). pr_idem r' = pr_idem r \<longrightarrow> pr_id r' = pr_id r"
    and "ps_ID s \<notin> pr_id ` set (db w)"
    and "co_enc (pk_meta co) (ps_Metadata s) = Some md"
    and "co_enc (pk_state co) (ps_Amount s, ps_RefundedAmount s) = Some st"
    and "json_columns env md st = Inr mt"
  shows "Save env co s l w =
    (Inl (DuplicateIdempotencyKey (ps_IdempotencyKey s) (ps_ID s) (pr_id r)), w)"
proof -
  obtain m t where mt: "json_columns env md st = Inr (m, t)" using assms(9) by (cases mt) auto
  define row where "row = payment_to_row env co s m t (snow w)"
  have idem: "pr_idem row = Some (ps_IdempotencyKey s)" "pr_id row = ps_ID s"
    using assms(4) by (simp_all add: row_def payment_to_row_def opt_string_def)
  have k: "find (clashes (db w) row) payment_keys = Some (''idempotency_key'', pr_idem)"
    using assms(2,3,6) idem by (force simp: payment_keys_def clashes_def)
  have dup: "dupEntryOnKey (DbError (dup_error (tb_name payments_table) (''idempotency_key'', pr_idem) row))
      ''idempotency_key''"
    by (subst dupEntryOnKey_dup) (auto simp: quote_char_def contains_def sublist_code payments_table_def)
  have "\<exists>r'. find (\<lambda>r. pr_idem r = Some (ps_IdempotencyKey s)) (db w) = Some r' \<and> pr_id r' = pr_id r"
  proof (cases "find (\<lambda>r. pr_idem r = Some (ps_IdempotencyKey s)) (db w)")
    case None
    with assms(2,3) show ?thesis by (auto simp: find_None_iff)
  next
    case (Some r')
    then have "r' \<in> set (db w)" "pr_idem r' = Some (ps_IdempotencyKey s)" by (auto simp: find_Some_iff)
    with assms(3,5) Some show ?thesis by auto
  qed
  then show ?thesis
    using assms(1,7,8) mt k dup duplicateIdempotencyKey_run [OF assms(1), of s]
    by (auto simp: Save_def tryA_def insert_payment_def insert_into_run insert_row_def row_def)
qed

theorem idempotency_key_held_witness:
  "Save demo_env demo_core (demo_payment ''p2'' ''pending'' 1) 0 demo_payments =
     (Inl (DuplicateIdempotencyKey ''k'' ''p2'' ''p1''), demo_payments)"
proof -
  have "json_columns demo_env ''m'' ''S'' = Inr (''m'', ''S'')" by (simp add: json_columns_def demo_env_def)
  from idempotency_key_held [OF demo_payments_ok(1) _ _ _ _ _ _ _ this, of _ "demo_payment ''p2'' ''pending'' 1" demo_core 0]
  show ?thesis
    by (simp add: demo_payments_def payment_to_row_def demo_payment_def demo_core_def opt_string_def)
qed

text \<open>A payment that was saved is found under its id with every field it had, monetary amounts
  exactly, and is based on the version saved. Two fields are normalised: the processing time is the
  instant as the column stores it, and an empty failure reason is none.\<close>

theorem payment_Save_FindByID:
  assumes "calm w" and "keyed payments_table pr_id (db w)"
    and "codec_ok env (pk_meta co)" and "codec_ok env (pk_state co)"
    and "pk_valid co (as_stored env s)" and "Save env co s l w = (Inr v, w')"
  shows "FindByID co (ps_ID s) w' = (Inr \<lparr>pm_snap = as_stored env s, pm_loaded = v\<rparr>, w')"
proof -
  have "\<exists>row. find (\<lambda>r. pr_id r = ps_ID s) (db w') = Some row \<and>
      scanPaymentSnapshot co row = Inr (as_stored env s) \<and> v = ps_Version s \<and> calm w'"
    using assms(1,6)
  proof (cases rule: payment_Save_cases)
    case (inserted md st m t d)
    define row where "row = payment_to_row env co s m t (snow w)"
    have "find (\<lambda>r. pr_id r = pr_id row) d = Some row"
      using insert_row_lookup [OF inserted(6) payment_primary] assms(2) by (simp add: row_def keyed_def)
    moreover have "scanPaymentSnapshot co (row\<lparr>pr_created := pr_created row\<rparr>) = Inr (as_stored env s)"
      unfolding row_def by (rule scan_written [OF assms(3,4) inserted(3,4,5)])
    ultimately show ?thesis using inserted assms(1) by (simp add: row_def)
  next
    case (updated md st m t n d)
    have "\<exists>r :: payment_row. find (\<lambda>x. pr_id x = ps_ID s) (db w) = Some r \<and> find (\<lambda>x. pr_id x = ps_ID s) d
        = Some ((payment_to_row env co s m t (snow w))\<lparr>pr_created := pr_created r\<rparr>)"
      by (rule update_one_lookup [OF updated(7,3)]) (use assms(2) in \<open>simp_all add: keyed_def\<close>)
    then obtain r :: payment_row where "find (\<lambda>x. pr_id x = ps_ID s) d
        = Some ((payment_to_row env co s m t (snow w))\<lparr>pr_created := pr_created r\<rparr>)" by blast
    with updated scan_written [OF assms(3,4) updated(4,5,6)] assms(1) show ?thesis by simp
  qed simp
  with assms(5) show ?thesis
    by (auto simp: FindByID_def tryA_def query_row_run payment_of_row_def payment_FromSnapshot_def as_stored_def)
qed

theorem payment_Save_FindByID_witness:
  "\<exists>w'. Save demo_env demo_core (demo_payment ''p1'' ''done'' 2) 1 demo_payments = (Inr 2, w') \<and>
     FindByID demo_core ''p1'' w' = (Inr \<lparr>pm_snap = demo_payment ''p1'' ''done'' 2, pm_loaded = 2\<rparr>, w')"
proof -
  obtain w' where run: "Save demo_env demo_core (demo_payment ''p1'' ''done'' 2) 1 demo_payments = (Inr 2, w')"
    using demo_Save_updates by blast
  have "pk_valid demo_core s" for s by (simp add: demo_core_def)
  from payment_Save_FindByID [OF demo_payments_ok(1,3) demo_core_ok this run] run show ?thesis
    by (simp add: as_stored_def demo_payment_def is_zero_time_def zero_time_value demo_env_def)
qed

end
