(* ===== verification/My_CreditNote_Repo.thy ===== *)
theory My_CreditNote_Repo
  imports My_Values
begin

text \<open>
  The credit note repository of \<open>mysql/creditnote_repo.go\<close>: the guarded save (\<open>INSERT\<close>, or on a
  primary-key duplicate an \<open>UPDATE\<close> of the loaded version) and the finders. Item snapshots, the
  validation of a snapshot and \<open>Money.Int64\<close> are the core library's.
\<close>

record creditNoteJSONState =
  js_Items :: string
  js_Subtotal :: money
  js_TaxAmount :: money
  js_Total :: money
  js_CreditAmount :: money
  js_RefundAmount :: money

record creditnote_snapshot =
  cs_ID :: string
  cs_Number :: string
  cs_InvoiceID :: string
  cs_AccountID :: string
  cs_ContractID :: string
  cs_Status :: string
  cs_Reason :: string
  cs_Memo :: string
  cs_state :: creditNoteJSONState
  cs_IssuedAt :: "time option"
  cs_CreatedAt :: time
  cs_Version :: int

record creditnote =
  cn_snap :: creditnote_snapshot
  cn_loaded :: int

record creditnote_core =
  ck_int64 :: "money \<Rightarrow> int64"
  ck_state :: "creditNoteJSONState codec"
  ck_valid :: "creditnote_snapshot \<Rightarrow> bool"

definition CreditNoteFromSnapshot :: "creditnote_core \<Rightarrow> creditnote_snapshot \<Rightarrow> repo_error + creditnote" where
  "CreditNoteFromSnapshot co s = (if ck_valid co s then Inr \<lparr>cn_snap = s, cn_loaded = cs_Version s\<rparr>
     else Inl (OtherError ''credit note snapshot''))"

record creditnote_row =
  cr_id :: string
  cr_number :: string
  cr_invoice :: string
  cr_contract :: string
  cr_account :: string
  cr_status :: string
  cr_reason :: string
  cr_memo :: string
  cr_items :: string
  cr_subtotal :: int64
  cr_tax :: int64
  cr_total :: int64
  cr_credit :: int64
  cr_refund :: int64
  cr_currency :: string
  cr_issued :: "time option"
  cr_lock_version :: int
  cr_created :: time
  cr_updated :: time

type_synonym cn_db = "creditnote_row list"

definition creditnotes_table :: "(cn_db, creditnote_row) table" where
  "creditnotes_table = \<lparr>tb_name = ''credit_notes'', tb_keys = [(''PRIMARY'', \<lambda>r. Some (cr_id r))],
     tb_get = (\<lambda>d. d), tb_set = (\<lambda>rows _. rows)\<rparr>"

section \<open>Save\<close>

definition creditnote_to_row :: "menv \<Rightarrow> creditnote_core \<Rightarrow> creditnote_snapshot \<Rightarrow> string \<Rightarrow> time \<Rightarrow> creditnote_row" where
  "creditnote_to_row env co s items now =
     \<lparr>cr_id = cs_ID s, cr_number = cs_Number s, cr_invoice = cs_InvoiceID s, cr_contract = cs_ContractID s,
      cr_account = cs_AccountID s, cr_status = cs_Status s, cr_reason = cs_Reason s, cr_memo = cs_Memo s,
      cr_items = items, cr_subtotal = ck_int64 co (js_Subtotal (cs_state s)),
      cr_tax = ck_int64 co (js_TaxAmount (cs_state s)), cr_total = ck_int64 co (js_Total (cs_state s)),
      cr_credit = ck_int64 co (js_CreditAmount (cs_state s)), cr_refund = ck_int64 co (js_RefundAmount (cs_state s)),
      cr_currency = m_currency (js_Total (cs_state s)), cr_issued = map_option (me_time env) (cs_IssuedAt s),
      cr_lock_version = cs_Version s, cr_created = now, cr_updated = now\<rparr>"

definition insert_creditnote :: "menv \<Rightarrow> creditnote_core \<Rightarrow> creditnote_snapshot \<Rightarrow> string \<Rightarrow> (cn_db, unit) sql" where
  "insert_creditnote env co s jsonState = insert_into creditnotes_table (\<lambda>now. case json_column env jsonState of
      Inl e \<Rightarrow> Inl e | Inr items \<Rightarrow> Inr (creditnote_to_row env co s items now))"

definition update_creditnote :: "menv \<Rightarrow> creditnote_core \<Rightarrow> creditnote_snapshot \<Rightarrow> int \<Rightarrow> string \<Rightarrow> (cn_db, nat) sql" where
  "update_creditnote env co s loaded jsonState = update_where creditnotes_table
     (\<lambda>r. cr_id r = cs_ID s \<and> cr_lock_version r = loaded)
     (\<lambda>now. case json_column env jsonState of
        Inl e \<Rightarrow> Inl e
      | Inr items \<Rightarrow> Inr (\<lambda>r. (creditnote_to_row env co s items now)\<lparr>cr_created := cr_created r\<rparr>))"

definition Save :: "menv \<Rightarrow> creditnote_core \<Rightarrow> creditnote_snapshot \<Rightarrow> int \<Rightarrow> (cn_db, int) sql" where
  "Save env co s loaded = (case co_enc (ck_state co) (cs_state s) of
      None \<Rightarrow> throw (OtherError ''marshal state'')
    | Some jsonState \<Rightarrow>
        tryA (insert_creditnote env co s jsonState)
          (\<lambda>err. if dupEntryOnKey err ''PRIMARY''
             then tryA (update_creditnote env co s loaded jsonState) throw
               (\<lambda>affected. if affected = 0 then throw TxVersionConflict else ret (cs_Version s))
             else throw err)
          (\<lambda>_. ret (cs_Version s)))"

section \<open>Finders\<close>

definition zero_money :: money where "zero_money = new_money 0 []"

definition zero_creditNoteJSONState :: creditNoteJSONState where
  "zero_creditNoteJSONState = \<lparr>js_Items = [], js_Subtotal = zero_money, js_TaxAmount = zero_money,
     js_Total = zero_money, js_CreditAmount = zero_money, js_RefundAmount = zero_money\<rparr>"

definition scanCreditNoteSnapshot :: "creditnote_core \<Rightarrow> creditnote_row \<Rightarrow> repo_error + creditnote_snapshot" where
  "scanCreditNoteSnapshot co r =
     (case (if cr_items r = [] then Some zero_creditNoteJSONState else co_dec (ck_state co) (cr_items r)) of
        None \<Rightarrow> Inl (OtherError ''unmarshal state'')
      | Some js \<Rightarrow> Inr
         \<lparr>cs_ID = cr_id r, cs_Number = cr_number r, cs_InvoiceID = cr_invoice r, cs_AccountID = cr_account r,
          cs_ContractID = cr_contract r, cs_Status = cr_status r, cs_Reason = cr_reason r, cs_Memo = cr_memo r,
          cs_state = js, cs_IssuedAt = cr_issued r, cs_CreatedAt = cr_created r, cs_Version = cr_lock_version r\<rparr>)"

definition creditnote_of_row :: "creditnote_core \<Rightarrow> creditnote_row \<Rightarrow> repo_error + creditnote" where
  "creditnote_of_row co r = (case scanCreditNoteSnapshot co r of
      Inl e \<Rightarrow> Inl e | Inr s \<Rightarrow> CreditNoteFromSnapshot co s)"

definition FindByID :: "creditnote_core \<Rightarrow> string \<Rightarrow> (cn_db, creditnote) sql" where
  "FindByID co i = tryA (query_row (\<lambda>d. find (\<lambda>r. cr_id r = i) d))
     (\<lambda>e. if as_db e = Some ErrNoRows then throw (DomainError ErrCodeNotFound None) else throw e)
     (\<lambda>r. liftA (creditnote_of_row co r))"

definition findMany :: "creditnote_core \<Rightarrow> (creditnote_row \<Rightarrow> bool) \<Rightarrow> (cn_db, creditnote list) sql" where
  "findMany co p = bindA (query (\<lambda>d. sort_key (\<lambda>r. - cr_created r) (filter p d)))
     (\<lambda>rows. mapA (\<lambda>r. liftA (creditnote_of_row co r)) rows)"

definition FindByInvoiceID :: "creditnote_core \<Rightarrow> string \<Rightarrow> (cn_db, creditnote list) sql" where
  "FindByInvoiceID co i = findMany co (\<lambda>r. cr_invoice r = i)"

definition FindByAccountID :: "creditnote_core \<Rightarrow> string \<Rightarrow> (cn_db, creditnote list) sql" where
  "FindByAccountID co i = findMany co (\<lambda>r. cr_account r = i)"

definition FindByContractID :: "creditnote_core \<Rightarrow> string \<Rightarrow> (cn_db, creditnote list) sql" where
  "FindByContractID co i = findMany co (\<lambda>r. cr_contract r = i)"

definition FindByStatus :: "creditnote_core \<Rightarrow> string \<Rightarrow> (cn_db, creditnote list) sql" where
  "FindByStatus co i = findMany co (\<lambda>r. cr_status r = i)"

section \<open>The repository is a guarded store\<close>

lemma creditnotes_lens [simp]: "lens creditnotes_table" by (simp add: lens_def creditnotes_table_def)

lemma creditnotes_sel [simp]: "tb_get creditnotes_table d = d" "tb_set creditnotes_table rows d = rows"
  by (simp_all add: creditnotes_table_def)

lemma creditnote_primary: "(''PRIMARY'', \<lambda>r. Some (cr_id r)) \<in> set (tb_keys creditnotes_table)"
  by (simp add: creditnotes_table_def)

lemma creditnote_to_row_sel [simp]:
  "cr_id (creditnote_to_row env co s m n) = cs_ID s"
  "cr_lock_version (creditnote_to_row env co s m n) = cs_Version s"
  by (simp_all add: creditnote_to_row_def)

lemma creditnote_Save_cases:
  assumes c: "calm w" and run: "Save env co s l w = (r, w')"
  obtains (inserted) js items d where "r = Inr (cs_Version s)" "w' = w\<lparr>db := d\<rparr>"
      "co_enc (ck_state co) (cs_state s) = Some js" "json_column env js = Inr items"
      "insert_row (tb_name creditnotes_table) (tb_keys creditnotes_table)
         (creditnote_to_row env co s items (snow w)) (db w) = Inr d"
  | (updated) js items n d where "r = Inr (cs_Version s)" "w' = w\<lparr>db := d\<rparr>" "n \<noteq> 0"
      "co_enc (ck_state co) (cs_state s) = Some js" "json_column env js = Inr items"
      "update_one (tb_name creditnotes_table) (tb_keys creditnotes_table)
         (\<lambda>r. cr_id r = cs_ID s \<and> cr_lock_version r = l)
         (\<lambda>r. (creditnote_to_row env co s items (snow w))\<lparr>cr_created := cr_created r\<rparr>) (db w) = Inr (n, d)"
  | (rejected) e where "r = Inl e" "w' = w"
proof (cases "co_enc (ck_state co) (cs_state s)")
  case None
  with run rejected show thesis by (auto simp: Save_def)
next
  case js: (Some js)
  from run js have run': "tryA (insert_creditnote env co s js)
          (\<lambda>err. if False then throw TxVersionConflict else if dupEntryOnKey err ''PRIMARY''
             then tryA (update_creditnote env co s l js) (\<lambda>e. if False then throw TxVersionConflict else throw e)
               (\<lambda>affected. if affected = 0 then throw TxVersionConflict else ret (cs_Version s))
             else throw err)
          (\<lambda>_. ret (cs_Version s)) w = (r, w')"
    by (simp only: Save_def option.case if_False)
  show thesis
  proof (rule insert_else_update_cases [of creditnotes_table _ "\<lambda>_. False" "throw TxVersionConflict"
        "\<lambda>e. dupEntryOnKey e ''PRIMARY''",
        OF run' [unfolded insert_creditnote_def update_creditnote_def] c creditnotes_lens])
  qed (use js that in \<open>auto split: sum.splits\<close>)
qed

interpretation creditnotes: guarded_store "Save env co" cs_ID cs_Version
    "row_versions creditnotes_table cr_id cr_lock_version" "keyed creditnotes_table cr_id" for env co
proof (rule guarded_storeI)
  show "lens creditnotes_table" "(''PRIMARY'', \<lambda>x. Some (cr_id x)) \<in> set (tb_keys creditnotes_table)"
    by (simp_all add: creditnote_primary)
  fix e l w r w'
  assume q: "quiet w" and run: "Save env co e l w = (r, w')"
  then have "calm w" by (simp add: quiet_def)
  then show "guarded_outcome creditnotes_table cr_id cr_lock_version (cs_ID e) l (cs_Version e) w r w'"
    using run
  proof (cases rule: creditnote_Save_cases)
    case (inserted js items d)
    then show ?thesis unfolding guarded_outcome_def
      by (intro disjI1 exI [of _ "creditnote_to_row env co e items (snow w)"]) simp
  next
    case (updated js items n d)
    then show ?thesis unfolding guarded_outcome_def
      by (intro disjI2 disjI1 exI [of _ "\<lambda>r. (creditnote_to_row env co e items (snow w))\<lparr>cr_created := cr_created r\<rparr>"]
          exI [of _ n] exI [of _ d]) simp
  qed (simp add: guarded_outcome_def)
qed

section \<open>Properties\<close>

text \<open>Concurrent transitions of one credit note: of any number of writers that loaded the same version
  and changed it (an apply and a refund of the same issued note, say), at most one \<open>Save\<close> succeeds, and
  the stored version is then the winner's.\<close>

theorem creditnote_one_winner:
  assumes "quiet w" and "keyed creditnotes_table cr_id (db w)"
    and "\<forall>c \<in> set cs. cs_ID c = k \<and> cs_Version c \<noteq> l"
    and "attempts (\<lambda>c. Save env co c l) cs w = (ws, w')"
  shows "(ws = [] \<and> db w' = db w) \<or>
    (\<exists>c \<in> set cs. ws = [c] \<and> row_versions creditnotes_table cr_id cr_lock_version (db w) k \<in> {None, Some l} \<and>
       row_versions creditnotes_table cr_id cr_lock_version (db w') k = Some (cs_Version c))"
  by (rule creditnotes.one_winner [OF assms])

text \<open>A credit note that was saved is found under its id with all its fields and based on the saved
  version; its creation time is that of the first save, whatever the saved snapshot says.\<close>

theorem creditnote_Save_FindByID:
  assumes "calm w" and "keyed creditnotes_table cr_id (db w)" and "codec_ok env (ck_state co)"
    and "Save env co s l w = (Inr v, w')"
    and "s' = s\<lparr>cs_IssuedAt := map_option (me_time env) (cs_IssuedAt s),
      cs_CreatedAt := (case find (\<lambda>r. cr_id r = cs_ID s) (db w) of None \<Rightarrow> snow w | Some r \<Rightarrow> cr_created r)\<rparr>"
    and "ck_valid co s'"
  shows "FindByID co (cs_ID s) w' = (Inr \<lparr>cn_snap = s', cn_loaded = cs_Version s\<rparr>, w')"
proof -
  have scan: "scanCreditNoteSnapshot co ((creditnote_to_row env co s items now)\<lparr>cr_created := c\<rparr>)
      = Inr (s\<lparr>cs_IssuedAt := map_option (me_time env) (cs_IssuedAt s), cs_CreatedAt := c\<rparr>)"
    if "co_enc (ck_state co) (cs_state s) = Some js" "json_column env js = Inr items" for js items now c
    using codec_column [OF assms(3) that] by (simp add: scanCreditNoteSnapshot_def creditnote_to_row_def)
  have "\<exists>row. find (\<lambda>r. cr_id r = cs_ID s) (db w') = Some row \<and> scanCreditNoteSnapshot co row = Inr s' \<and> calm w'"
    using assms(1,4)
  proof (cases rule: creditnote_Save_cases)
    case (inserted js items d)
    let ?row = "creditnote_to_row env co s items (snow w)"
    from insert_row_lookup [OF inserted(5) creditnote_primary] assms(2)
    have "find (\<lambda>r. cr_id r = cs_ID s) (db w) = None" "find (\<lambda>r. cr_id r = cs_ID s) d = Some ?row"
      by (simp_all add: keyed_def)
    moreover have "?row\<lparr>cr_created := snow w\<rparr> = ?row" by (simp add: creditnote_to_row_def)
    ultimately show ?thesis using scan [OF inserted(3,4), of "snow w" "snow w"] inserted(2) assms(1,5) by simp
  next
    case (updated js items n d)
    have "\<exists>r :: creditnote_row. find (\<lambda>x. cr_id x = cs_ID s) (db w) = Some r \<and> find (\<lambda>x. cr_id x = cs_ID s) d
        = Some ((creditnote_to_row env co s items (snow w))\<lparr>cr_created := cr_created r\<rparr>)"
      by (rule update_one_lookup [OF updated(6,3)]) (use assms(2) in \<open>simp_all add: keyed_def\<close>)
    then show ?thesis using scan [OF updated(4,5)] updated(2) assms(1,5) by auto
  qed simp
  with assms(5,6) show ?thesis
    by (auto simp: FindByID_def tryA_def query_row_run creditnote_of_row_def CreditNoteFromSnapshot_def)
qed

text \<open>A concrete table with an issued note, for the witnesses.\<close>

definition demo_cn_core :: creditnote_core where
  "demo_cn_core = \<lparr>ck_int64 = (\<lambda>_. 0), ck_state = \<lparr>co_enc = (\<lambda>a. if a = zero_creditNoteJSONState then Some ''S'' else None),
     co_dec = (\<lambda>t. Some zero_creditNoteJSONState)\<rparr>, ck_valid = (\<lambda>_. True)\<rparr>"

definition demo_note :: "string \<Rightarrow> int \<Rightarrow> creditnote_snapshot" where
  "demo_note status v = \<lparr>cs_ID = ''c1'', cs_Number = ''1'', cs_InvoiceID = ''i'', cs_AccountID = ''a'',
     cs_ContractID = ''k'', cs_Status = status, cs_Reason = [], cs_Memo = [], cs_state = zero_creditNoteJSONState,
     cs_IssuedAt = Some 3, cs_CreatedAt = 0, cs_Version = v\<rparr>"

definition demo_notes :: "cn_db world" where
  "demo_notes = \<lparr>db = [creditnote_to_row demo_env demo_cn_core (demo_note ''issued'' 1) ''S'' 3],
     saved = None, autoinc = 1, clk = 5, snow = 6, faults = []\<rparr>"

lemma demo_notes_ok: "calm demo_notes" "quiet demo_notes" "keyed creditnotes_table cr_id (db demo_notes)"
  by (simp_all add: demo_notes_def quiet_def keyed_def)

lemma demo_note_applied:
  "\<exists>w'. Save demo_env demo_cn_core (demo_note ''applied'' 2) 1 demo_notes = (Inr 2, w')"
proof -
  let ?s = "demo_note ''applied'' 2"
  let ?row = "creditnote_to_row demo_env demo_cn_core ?s ''S'' 6"
  have j: "json_column demo_env ''S'' = Inr ''S''" "co_enc (ck_state demo_cn_core) (cs_state ?s) = Some ''S''"
    by (simp_all add: json_column_def demo_env_def demo_cn_core_def demo_note_def)
  have ins: "insert_row (tb_name creditnotes_table) (tb_keys creditnotes_table) ?row (db demo_notes)
      = Inl (dup_error (tb_name creditnotes_table) (''PRIMARY'', \<lambda>r. Some (cr_id r)) ?row)"
    by (simp add: insert_row_def clashes_def creditnotes_table_def demo_notes_def demo_note_def)
  have d: "dupEntryOnKey (DbError (dup_error (tb_name creditnotes_table) (''PRIMARY'', \<lambda>r. Some (cr_id r)) ?row)) ''PRIMARY''"
    by (subst dupEntryOnKey_dup; code_simp)+
  have "\<exists>rows. update_one (tb_name creditnotes_table) (tb_keys creditnotes_table)
      (\<lambda>r. cr_id r = cs_ID ?s \<and> cr_lock_version r = 1) (\<lambda>r. ?row\<lparr>cr_created := cr_created r\<rparr>) (db demo_notes) = Inr (1, rows)"
    by (simp add: update_one_def extract_Cons_code demo_notes_def demo_note_def creditnote_to_row_def clashes_def
        creditnotes_table_def)
  then obtain rows where "update_one (tb_name creditnotes_table) (tb_keys creditnotes_table)
      (\<lambda>r. cr_id r = cs_ID ?s \<and> cr_lock_version r = 1) (\<lambda>r. ?row\<lparr>cr_created := cr_created r\<rparr>) (db demo_notes) = Inr (1, rows)" ..
  moreover have "snow demo_notes = 6" "cs_Version ?s = 2" by (simp_all add: demo_notes_def demo_note_def)
  ultimately show ?thesis
    using j ins d by (simp add: Save_def tryA_def insert_creditnote_def update_creditnote_def insert_into_run
        update_where_run demo_notes_ok)
qed

theorem creditnote_one_winner_witness:
  "\<exists>c w'. attempts (\<lambda>c. Save demo_env demo_cn_core c 1) [demo_note ''applied'' 2, demo_note ''refunded'' 2]
      demo_notes = ([c], w')"
proof -
  let ?cs = "[demo_note ''applied'' 2, demo_note ''refunded'' 2]"
  obtain ws w' where run: "attempts (\<lambda>c. Save demo_env demo_cn_core c 1) ?cs demo_notes = (ws, w')" by fastforce
  obtain w1 where "Save demo_env demo_cn_core (demo_note ''applied'' 2) 1 demo_notes = (Inr 2, w1)"
    using demo_note_applied by blast
  with run have "ws \<noteq> []" by (auto split: prod.splits)
  with creditnote_one_winner [OF demo_notes_ok(2,3) _ run, of "''c1''"] run show ?thesis
    by (auto simp: demo_note_def)
qed

theorem creditnote_Save_FindByID_witness:
  "\<exists>w' c. Save demo_env demo_cn_core (demo_note ''applied'' 2) 1 demo_notes = (Inr 2, w') \<and>
     FindByID demo_cn_core ''c1'' w' = (Inr c, w') \<and> cs_Status (cn_snap c) = ''applied'' \<and> cs_CreatedAt (cn_snap c) = 3"
proof -
  obtain w' where run: "Save demo_env demo_cn_core (demo_note ''applied'' 2) 1 demo_notes = (Inr 2, w')"
    using demo_note_applied by blast
  have c: "codec_ok demo_env (ck_state demo_cn_core)" "ck_valid demo_cn_core s" for s
    by (auto simp: codec_ok_def demo_env_def demo_cn_core_def split: if_splits)
  from creditnote_Save_FindByID [OF demo_notes_ok(1,3) c(1) run refl c(2)] run show ?thesis
    by (auto simp: demo_note_def demo_notes_def creditnote_to_row_def)
qed

end
