(* ===== verification/My_Balance_Repo.thy ===== *)
theory My_Balance_Repo
  imports My_Values "HOL-Library.Char_ord" "HOL-Library.List_Lexorder" "HOL-Library.Multiset"
begin

text \<open>
  The balance repository of \<open>mysql/balance_repo.go\<close> and the filters of \<open>mysql/money.go\<close>: guarded
  save of entries, availability and expiry queries on the exact amounts, applications and refunds.
  The entry aggregate, \<open>Money\<close> and their JSON form are the core library's: parameters.
\<close>

record balance_snapshot =
  bs_ID :: string
  bs_AccountID :: string
  bs_OriginalAmount :: money
  bs_RemainingAmount :: money
  bs_Reason :: string
  bs_SourceType :: string
  bs_SourceID :: string
  bs_Description :: string
  bs_ExpiresAt :: "time option"
  bs_Version :: int
  bs_CreatedAt :: time

record balance_entry =
  be_snap :: balance_snapshot
  be_loaded :: int

definition RemainingAmount :: "balance_entry \<Rightarrow> money" where
  "RemainingAmount e = bs_RemainingAmount (be_snap e)"

record balance_application =
  ba_ID :: string
  ba_BalanceEntryID :: string
  ba_InvoiceID :: string
  ba_Amount :: money
  ba_AppliedAt :: time

record balance_refund =
  bf_ID :: string
  bf_BalanceEntryID :: string
  bf_AccountID :: string
  bf_Amount :: money
  bf_RefundedAt :: time
  bf_InvoiceID :: string
  bf_ApplicationID :: string

text \<open>The core's \<open>Money\<close>: \<open>Int64\<close>, \<open>IsZero\<close>, \<open>IsNegative\<close>, \<open>Zero\<close>, \<open>Add\<close>; and the entry's codec and validation.\<close>

record balance_core =
  bk_int64 :: "money \<Rightarrow> int64"
  bk_isZero :: "money \<Rightarrow> bool"
  bk_isNegative :: "money \<Rightarrow> bool"
  bk_zero :: "string \<Rightarrow> money"
  bk_add :: "money \<Rightarrow> money \<Rightarrow> repo_error + money"
  bk_state :: "(money \<times> money) codec"
  bk_valid :: "balance_snapshot \<Rightarrow> bool"

definition balance_FromSnapshot :: "balance_core \<Rightarrow> balance_snapshot \<Rightarrow> repo_error + balance_entry" where
  "balance_FromSnapshot co s = (if bk_valid co s then Inr \<lparr>be_snap = s, be_loaded = bs_Version s\<rparr>
     else Inl (OtherError ''balance snapshot''))"

record balance_row =
  br_id :: string
  br_account :: string
  br_original :: int64
  br_remaining :: int64
  br_currency :: string
  br_reason :: string
  br_source_type :: string
  br_source_id :: string
  br_description :: string
  br_expires :: "time option"
  br_version :: int
  br_created :: time
  br_state :: "string option"

record application_row =
  ar_id :: string
  ar_entry :: string
  ar_invoice :: string
  ar_amount :: int64
  ar_currency :: string
  ar_applied :: time

record refund_row =
  rr_id :: string
  rr_entry :: string
  rr_account :: string
  rr_amount :: int64
  rr_currency :: string
  rr_refunded :: time
  rr_invoice :: string
  rr_application :: string

record balance_db =
  t_entries :: "balance_row list"
  t_applications :: "application_row list"
  t_refunds :: "refund_row list"

definition entries_table :: "(balance_db, balance_row) table" where
  "entries_table = \<lparr>tb_name = ''balance_entries'', tb_keys = [(''PRIMARY'', \<lambda>r. Some (br_id r))],
     tb_get = t_entries, tb_set = (\<lambda>rows d. d\<lparr>t_entries := rows\<rparr>)\<rparr>"

definition applications_table :: "(balance_db, application_row) table" where
  "applications_table = \<lparr>tb_name = ''balance_applications'', tb_keys = [(''PRIMARY'', \<lambda>r. Some (ar_id r))],
     tb_get = t_applications, tb_set = (\<lambda>rows d. d\<lparr>t_applications := rows\<rparr>)\<rparr>"

definition refunds_table :: "(balance_db, refund_row) table" where
  "refunds_table = \<lparr>tb_name = ''balance_refunds'', tb_keys = [(''PRIMARY'', \<lambda>r. Some (rr_id r))],
     tb_get = t_refunds, tb_set = (\<lambda>rows d. d\<lparr>t_refunds := rows\<rparr>)\<rparr>"

section \<open>Save\<close>

definition entry_to_row :: "menv \<Rightarrow> balance_core \<Rightarrow> balance_snapshot \<Rightarrow> string \<Rightarrow> balance_row" where
  "entry_to_row env co s state =
     \<lparr>br_id = bs_ID s, br_account = bs_AccountID s, br_original = bk_int64 co (bs_OriginalAmount s),
      br_remaining = bk_int64 co (bs_RemainingAmount s), br_currency = m_currency (bs_OriginalAmount s),
      br_reason = bs_Reason s, br_source_type = bs_SourceType s, br_source_id = bs_SourceID s,
      br_description = bs_Description s, br_expires = map_option (me_time env) (bs_ExpiresAt s),
      br_version = bs_Version s, br_created = me_time env (bs_CreatedAt s), br_state = Some state\<rparr>"

text \<open>The \<open>UPDATE\<close> leaves the id, the account and the creation time as they are, and has no
  \<open>updated_at\<close>.\<close>

definition insert_entry :: "menv \<Rightarrow> balance_core \<Rightarrow> balance_snapshot \<Rightarrow> string \<Rightarrow> (balance_db, unit) sql" where
  "insert_entry env co s jsonState = insert_into entries_table (\<lambda>_. case json_column env jsonState of
      Inl e \<Rightarrow> Inl e | Inr state \<Rightarrow> Inr (entry_to_row env co s state))"

definition update_entry :: "menv \<Rightarrow> balance_core \<Rightarrow> balance_snapshot \<Rightarrow> int \<Rightarrow> string \<Rightarrow> (balance_db, nat) sql" where
  "update_entry env co s loaded jsonState = update_where entries_table
     (\<lambda>r. br_id r = bs_ID s \<and> br_version r = loaded)
     (\<lambda>_. case json_column env jsonState of
        Inl e \<Rightarrow> Inl e
      | Inr state \<Rightarrow> Inr (\<lambda>r. (entry_to_row env co s state)
          \<lparr>br_account := br_account r, br_created := br_created r\<rparr>))"

definition Save :: "menv \<Rightarrow> balance_core \<Rightarrow> balance_snapshot \<Rightarrow> int \<Rightarrow> (balance_db, int) sql" where
  "Save env co s loaded = (case co_enc (bk_state co) (bs_OriginalAmount s, bs_RemainingAmount s) of
      None \<Rightarrow> throw (OtherError ''marshal state'')
    | Some jsonState \<Rightarrow>
        if loaded = 0 then bindA (insert_entry env co s jsonState) (\<lambda>_. ret (bs_Version s))
        else bindA (update_entry env co s loaded jsonState) (\<lambda>affected.
          if affected = 0 then throw TxVersionConflict else ret (bs_Version s)))"

section \<open>Finders\<close>

definition scanBalanceEntrySnapshot :: "balance_core \<Rightarrow> balance_row \<Rightarrow> repo_error + balance_snapshot" where
  "scanBalanceEntrySnapshot co r =
     (case (case br_state r of
          Some st \<Rightarrow> if st = [] then Some (moneyFromInt64 (br_original r) (br_currency r),
              moneyFromInt64 (br_remaining r) (br_currency r)) else co_dec (bk_state co) st
        | None \<Rightarrow> Some (moneyFromInt64 (br_original r) (br_currency r),
              moneyFromInt64 (br_remaining r) (br_currency r))) of
        None \<Rightarrow> Inl (OtherError ''unmarshal state'')
      | Some (original, remaining) \<Rightarrow> Inr
         \<lparr>bs_ID = br_id r, bs_AccountID = br_account r, bs_OriginalAmount = original,
          bs_RemainingAmount = remaining, bs_Reason = br_reason r, bs_SourceType = br_source_type r,
          bs_SourceID = br_source_id r, bs_Description = br_description r, bs_ExpiresAt = br_expires r,
          bs_Version = br_version r, bs_CreatedAt = br_created r\<rparr>)"

definition entry_of_row :: "balance_core \<Rightarrow> balance_row \<Rightarrow> repo_error + balance_entry" where
  "entry_of_row co r = (case scanBalanceEntrySnapshot co r of
      Inl e \<Rightarrow> Inl e | Inr s \<Rightarrow> balance_FromSnapshot co s)"

definition scanBalanceEntries :: "balance_core \<Rightarrow> balance_row list \<Rightarrow> (balance_db, balance_entry list) sql" where
  "scanBalanceEntries co rows = mapA (\<lambda>r. liftA (entry_of_row co r)) rows"

definition FindByID :: "balance_core \<Rightarrow> string \<Rightarrow> (balance_db, balance_entry) sql" where
  "FindByID co i = tryA (query_row (\<lambda>d. find (\<lambda>r. br_id r = i) (t_entries d)))
     (\<lambda>e. if as_db e = Some ErrNoRows then throw (DomainError ErrCodeNotFound None) else throw e)
     (\<lambda>r. liftA (entry_of_row co r))"

text \<open>The filters of \<open>money.go\<close> on the exact remaining amounts.\<close>

definition filterAvailableBalance :: "balance_core \<Rightarrow> balance_entry list \<Rightarrow> balance_entry list" where
  "filterAvailableBalance co entries = filter (\<lambda>e. \<not> (bk_isZero co (RemainingAmount e) \<or>
     bk_isNegative co (RemainingAmount e))) entries"

definition filterExpiredBalance :: "balance_core \<Rightarrow> balance_entry list \<Rightarrow> balance_entry list" where
  "filterExpiredBalance co entries = filter (\<lambda>e. \<not> bk_isZero co (RemainingAmount e)) entries"

fun sum_from :: "balance_core \<Rightarrow> money \<Rightarrow> balance_entry list \<Rightarrow> repo_error + money" where
  "sum_from co acc [] = Inr acc"
| "sum_from co acc (e # es) = (case bk_add co acc (RemainingAmount e) of
      Inl x \<Rightarrow> Inl x | Inr t \<Rightarrow> sum_from co t es)"

definition sumRemaining :: "balance_core \<Rightarrow> balance_entry list \<Rightarrow> string \<Rightarrow> repo_error + money" where
  "sumRemaining co entries currency = sum_from co (bk_zero co currency) entries"

text \<open>\<open>WHERE account_id = ? AND currency = ? AND (expires_at IS NULL OR expires_at > NOW(6))\<close>.\<close>

definition live_rows :: "string \<Rightarrow> string \<Rightarrow> time \<Rightarrow> balance_db \<Rightarrow> balance_row list" where
  "live_rows account currency now d = filter (\<lambda>r. br_account r = account \<and> br_currency r = currency \<and>
     (case br_expires r of None \<Rightarrow> True | Some t \<Rightarrow> now < t)) (t_entries d)"

definition FindAvailable :: "balance_core \<Rightarrow> string \<Rightarrow> string \<Rightarrow> (balance_db, balance_entry list) sql" where
  "FindAvailable co account currency =
     bindA (with_now (\<lambda>now. query (\<lambda>d. sort_key br_created (live_rows account currency now d)))) (\<lambda>rows.
     bindA (scanBalanceEntries co rows) (\<lambda>entries. ret (filterAvailableBalance co entries)))"

definition GetBalance :: "balance_core \<Rightarrow> string \<Rightarrow> string \<Rightarrow> (balance_db, money) sql" where
  "GetBalance co account currency =
     bindA (with_now (\<lambda>now. query (live_rows account currency now))) (\<lambda>rows.
     bindA (scanBalanceEntries co rows) (\<lambda>entries. liftA (sumRemaining co entries currency)))"

text \<open>\<open>ORDER BY created_at ASC, id ASC\<close>, with a \<open>LIMIT\<close> when it is positive, before the filter.\<close>

definition expired_rows :: "time \<Rightarrow> int \<Rightarrow> balance_db \<Rightarrow> balance_row list" where
  "expired_rows asOf lmt d =
     (let rows = sort_key br_created (sort_key br_id (filter (\<lambda>r. case br_expires r of
          None \<Rightarrow> False | Some t \<Rightarrow> t < asOf) (t_entries d)))
      in if 0 < lmt then take (nat lmt) rows else rows)"

definition FindExpired :: "menv \<Rightarrow> balance_core \<Rightarrow> time \<Rightarrow> int \<Rightarrow> (balance_db, balance_entry list) sql" where
  "FindExpired env co asOf lmt =
     bindA (query (expired_rows (me_time env asOf) lmt)) (\<lambda>rows.
     bindA (scanBalanceEntries co rows) (\<lambda>entries. ret (filterExpiredBalance co entries)))"

definition FindByAccountID :: "balance_core \<Rightarrow> string \<Rightarrow> string \<Rightarrow> (balance_db, balance_entry list) sql" where
  "FindByAccountID co account currency =
     bindA (query (\<lambda>d. sort_key br_created (filter (\<lambda>r. br_account r = account \<and> br_currency r = currency)
       (t_entries d)))) (scanBalanceEntries co)"

section \<open>Applications and refunds\<close>

text \<open>Both tables keep whole units and have \<open>CHECK (amount > 0)\<close>.\<close>

definition check_amount :: "int64 \<Rightarrow> 'r \<Rightarrow> db_error + 'r" where
  "check_amount amount r =
     (if sint amount \<le> 0 then Inl (MySQLError 3819 ''Check constraint is violated'') else Inr r)"

definition SaveApplication :: "menv \<Rightarrow> balance_core \<Rightarrow> balance_application \<Rightarrow> (balance_db, unit) sql" where
  "SaveApplication env co app = insert_into applications_table (\<lambda>_. check_amount (bk_int64 co (ba_Amount app))
     \<lparr>ar_id = ba_ID app, ar_entry = ba_BalanceEntryID app, ar_invoice = ba_InvoiceID app,
      ar_amount = bk_int64 co (ba_Amount app), ar_currency = m_currency (ba_Amount app),
      ar_applied = me_time env (ba_AppliedAt app)\<rparr>)"

definition application_of_row :: "application_row \<Rightarrow> balance_application" where
  "application_of_row r = \<lparr>ba_ID = ar_id r, ba_BalanceEntryID = ar_entry r, ba_InvoiceID = ar_invoice r,
     ba_Amount = moneyFromInt64 (ar_amount r) (ar_currency r), ba_AppliedAt = ar_applied r\<rparr>"

definition FindApplicationsByInvoice :: "string \<Rightarrow> (balance_db, balance_application list) sql" where
  "FindApplicationsByInvoice i = bindA (query (\<lambda>d. sort_key ar_applied
     (filter (\<lambda>r. ar_invoice r = i) (t_applications d)))) (\<lambda>rows. ret (map application_of_row rows))"

definition SaveRefund :: "menv \<Rightarrow> balance_core \<Rightarrow> balance_refund \<Rightarrow> (balance_db, unit) sql" where
  "SaveRefund env co rf = insert_into refunds_table (\<lambda>_. check_amount (bk_int64 co (bf_Amount rf))
     \<lparr>rr_id = bf_ID rf, rr_entry = bf_BalanceEntryID rf, rr_account = bf_AccountID rf,
      rr_amount = bk_int64 co (bf_Amount rf), rr_currency = m_currency (bf_Amount rf),
      rr_refunded = me_time env (bf_RefundedAt rf), rr_invoice = bf_InvoiceID rf,
      rr_application = bf_ApplicationID rf\<rparr>)"

definition refund_of_row :: "refund_row \<Rightarrow> balance_refund" where
  "refund_of_row r = \<lparr>bf_ID = rr_id r, bf_BalanceEntryID = rr_entry r, bf_AccountID = rr_account r,
     bf_Amount = moneyFromInt64 (rr_amount r) (rr_currency r), bf_RefundedAt = rr_refunded r,
     bf_InvoiceID = rr_invoice r, bf_ApplicationID = rr_application r\<rparr>"

definition FindRefundsByInvoice :: "string \<Rightarrow> (balance_db, balance_refund list) sql" where
  "FindRefundsByInvoice i = bindA (query (\<lambda>d. sort_key rr_refunded
     (filter (\<lambda>r. rr_invoice r = i) (t_refunds d)))) (\<lambda>rows. ret (map refund_of_row rows))"

section \<open>The repository is a guarded store\<close>

lemma balance_lenses [simp]: "lens entries_table" "lens applications_table" "lens refunds_table"
  by (simp_all add: lens_def entries_table_def applications_table_def refunds_table_def)

lemma entries_sel [simp]: "tb_get entries_table d = t_entries d"
  "tb_set entries_table rows d = d\<lparr>t_entries := rows\<rparr>"
  by (simp_all add: entries_table_def)

lemma entry_primary: "(''PRIMARY'', \<lambda>r. Some (br_id r)) \<in> set (tb_keys entries_table)"
  by (simp add: entries_table_def)

lemma entry_to_row_sel [simp]:
  "br_id (entry_to_row env co s st) = bs_ID s" "br_version (entry_to_row env co s st) = bs_Version s"
  by (simp_all add: entry_to_row_def)

lemma balance_Save_outcome:
  assumes "calm w" and "Save env co s l w = (r, w')"
  shows "guarded_outcome entries_table br_id br_version (bs_ID s) l (bs_Version s) w r w'"
proof (cases "co_enc (bk_state co) (bs_OriginalAmount s, bs_RemainingAmount s)")
  case None
  with assms show ?thesis by (auto simp: Save_def guarded_outcome_def)
next
  case (Some js)
  show ?thesis
  proof (cases "l = 0")
    case True
    obtain ri w1 where i: "insert_entry env co s js w = (ri, w1)" by fastforce
    from assms(1) i [unfolded insert_entry_def] show ?thesis
    proof (cases rule: insert_into_cases)
      case (inserted row rows)
      with i Some True assms(2) show ?thesis
        by (auto simp: Save_def bindA_run [of "insert_entry env co s js"] guarded_outcome_def
            split: sum.splits)
    next
      case (failed e)
      with i Some True assms(2) show ?thesis
        by (auto simp: Save_def bindA_run [of "insert_entry env co s js"] guarded_outcome_def)
    qed
  next
    case False
    obtain ru w1 where u: "update_entry env co s l js w = (ru, w1)" by fastforce
    from assms(1) balance_lenses(1) u [unfolded update_entry_def] show ?thesis
    proof (cases rule: update_where_cases)
      case (updated f n rows)
      then have "\<forall>x. br_id (f x) = bs_ID s \<and> br_version (f x) = bs_Version s"
        by (auto split: sum.splits)
      moreover have "r = Inr (bs_Version s)" "w' = w1"
        using updated u Some False assms(2)
        by (auto simp: Save_def bindA_run [of "update_entry env co s l js"])
      ultimately show ?thesis using updated unfolding guarded_outcome_def
        by (intro disjI2 disjI1 exI [of _ f] exI [of _ n] exI [of _ rows]) simp
    next
      case missed
      with u Some False assms(2) show ?thesis
        by (auto simp: Save_def bindA_run [of "update_entry env co s l js"] guarded_outcome_def)
    next
      case (failed e)
      with u Some False assms(2) show ?thesis
        by (auto simp: Save_def bindA_run [of "update_entry env co s l js"] guarded_outcome_def)
    qed
  qed
qed

interpretation balances: guarded_store "Save env co" bs_ID bs_Version
    "row_versions entries_table br_id br_version" "keyed entries_table br_id" for env co
  by (rule guarded_storeI [OF balance_lenses(1) entry_primary])
    (rule balance_Save_outcome, simp_all add: quiet_def)

section \<open>What the queries return\<close>

lemma scanBalanceEntries_run:
  "map (entry_of_row co) rows = map Inr es \<Longrightarrow> scanBalanceEntries co rows w = (Inr es, w)"
  unfolding scanBalanceEntries_def
  by (induction rows arbitrary: es) (auto simp: bindA_run [of "liftA r" for r] Cons_eq_map_conv bindA_def tryA_def)

text \<open>Decoding commutes with the reordering of the rows.\<close>

lemma decode_mset:
  assumes "map f rows = map Inr es" and "mset rows' = mset rows"
  shows "\<exists>es'. map f rows' = map Inr es' \<and> mset es' = mset es"
proof -
  let ?g = "\<lambda>r. case f r of Inr e \<Rightarrow> e"
  have ok: "\<forall>r \<in> set rows. f r = Inr (?g r)"
  proof
    fix r assume "r \<in> set rows"
    then have "f r \<in> set (map Inr es)" using assms(1) by (metis image_eqI list.set_map)
    then show "f r = Inr (?g r)" by auto
  qed
  have "es = map ?g rows" using assms(1) ok
    by (induction rows arbitrary: es) (auto simp: Cons_eq_map_conv map_eq_Cons_conv)
  moreover have "map f rows' = map Inr (map ?g rows')"
    using ok mset_eq_setD [OF assms(2)] by simp
  ultimately show ?thesis using assms(2) by (metis mset_map)
qed

text \<open>The amount as a number; a nil amount counts as zero.\<close>

definition amt :: "money \<Rightarrow> rat" where
  "amt x = (case m_amount x of Some r \<Rightarrow> r | None \<Rightarrow> 0)"

lemma amt_new_money [simp]: "amt (new_money r c) = r"
  by (simp add: amt_def new_money_def)

lemma m_currency_new_money [simp]: "m_currency (new_money r c) = c"
  by (simp add: new_money_def)

text \<open>The laws of the core's \<open>Money\<close> the sums rely on.\<close>

definition money_laws :: "balance_core \<Rightarrow> bool" where
  "money_laws co \<longleftrightarrow> (\<forall>c. bk_zero co c = new_money 0 c) \<and>
     (\<forall>a b. m_currency a = m_currency b \<longrightarrow>
        bk_add co a b = Inr (new_money (amt a + amt b) (m_currency a))) \<and>
     (\<forall>a. bk_isZero co a = (amt a = 0)) \<and> (\<forall>a. bk_isNegative co a = (amt a < 0))"

lemma sum_from_exact:
  assumes "money_laws co" and "\<forall>e \<in> set es. m_currency (RemainingAmount e) = c"
  shows "sum_from co (new_money x c) es = Inr (new_money (x + sum_list (map (\<lambda>e. amt (RemainingAmount e)) es)) c)"
  using assms by (induction es arbitrary: x) (auto simp: money_laws_def add.assoc)

section \<open>Properties\<close>

text \<open>Of any number of writers that consume the same loaded version of a balance entry, at most one
  \<open>Save\<close> succeeds: the same credit is not spent twice.\<close>

theorem balance_one_winner:
  assumes "quiet w" and "keyed entries_table br_id (db w)"
    and "\<forall>e \<in> set es. bs_ID e = k \<and> bs_Version e \<noteq> l"
    and "attempts (\<lambda>e. Save env co e l) es w = (ws, w')"
  shows "(ws = [] \<and> db w' = db w) \<or>
    (\<exists>e \<in> set es. ws = [e] \<and> row_versions entries_table br_id br_version (db w) k \<in> {None, Some l} \<and>
       row_versions entries_table br_id br_version (db w') k = Some (bs_Version e))"
  by (rule balances.one_winner [OF assms])

text \<open>A decoded entry has the account, the expiry and the creation time of its row.\<close>

lemma entry_of_row_sel:
  assumes "entry_of_row co r = Inr e"
  shows "bs_AccountID (be_snap e) = br_account r" "bs_ExpiresAt (be_snap e) = br_expires r" "bs_CreatedAt (be_snap e) = br_created r"
  using assms by (auto simp: entry_of_row_def scanBalanceEntrySnapshot_def balance_FromSnapshot_def
      split: sum.splits option.splits if_splits)

lemma map_created:
  assumes "map (entry_of_row co) rows = map Inr es"
  shows "map (\<lambda>e. bs_CreatedAt (be_snap e)) es = map br_created rows"
  using assms by (induction rows arbitrary: es) (auto simp: Cons_eq_map_conv map_eq_Cons_conv entry_of_row_sel)

lemma GetBalance_live:
  assumes "calm w" and "money_laws co"
    and "map (entry_of_row co) (live_rows account currency (snow w) (db w)) = map Inr es"
    and "\<forall>e \<in> set es. m_currency (RemainingAmount e) = currency"
  shows "GetBalance co account currency w
      = (Inr (new_money (sum_list (map (\<lambda>e. amt (RemainingAmount e)) es)) currency), w)"
  using assms sum_from_exact [OF assms(2,4), of 0]
  by (simp add: GetBalance_def with_now_def bindA_def tryA_def query_run scanBalanceEntries_run sumRemaining_def
      money_laws_def liftA_def)

lemma FindAvailable_live:
  assumes "calm w" and "money_laws co"
    and "map (entry_of_row co) (live_rows account currency (snow w) (db w)) = map Inr es"
  shows "\<exists>av. FindAvailable co account currency w = (Inr av, w) \<and>
       mset av = mset (filter (\<lambda>e. 0 < amt (RemainingAmount e)) es) \<and> sorted (map (\<lambda>e. bs_CreatedAt (be_snap e)) av)"
proof -
  obtain es' where es': "map (entry_of_row co) (sort_key br_created (live_rows account currency (snow w) (db w))) = map Inr es'"
      "mset es' = mset es"
    using decode_mset [OF assms(3)] by (metis mset_sort)
  have "filterAvailableBalance co es' = filter (\<lambda>e. 0 < amt (RemainingAmount e)) es'"
    unfolding filterAvailableBalance_def using assms(2)
    by (intro filter_cong) (auto simp: money_laws_def)
  moreover have "sorted (map (\<lambda>e. bs_CreatedAt (be_snap e)) es')" by (simp add: map_created [OF es'(1)])
  ultimately show ?thesis using es' assms(1)
    by (simp add: FindAvailable_def with_now_def bindA_def tryA_def query_run scanBalanceEntries_run
        mset_filter sorted_filter)
qed

text \<open>C13. When the rows of the table decode to entries whose currency is that of the column, the balance of an account
  in a currency is the exact sum, fractions included, of the remaining amounts of the entries of that account in that
  currency that never expire or expire after the server's time; and the available entries are exactly those of them with
  a positive remaining amount, the oldest first.\<close>

theorem GetBalance_exact:
  assumes "calm w" and "money_laws co"
    and "list_all2 (\<lambda>r e. entry_of_row co r = Inr e \<and> m_currency (RemainingAmount e) = br_currency r) (t_entries (db w)) es"
    and "held = filter (\<lambda>e. bs_AccountID (be_snap e) = account \<and> m_currency (RemainingAmount e) = currency \<and>
      (bs_ExpiresAt (be_snap e) = None \<or> (\<exists>t. bs_ExpiresAt (be_snap e) = Some t \<and> snow w < t))) es"
  shows "GetBalance co account currency w
      = (Inr (new_money (sum_list (map (\<lambda>e. amt (RemainingAmount e)) held)) currency), w) \<and>
    (\<exists>av. FindAvailable co account currency w = (Inr av, w) \<and>
       mset av = mset (filter (\<lambda>e. 0 < amt (RemainingAmount e)) held) \<and> sorted (map (\<lambda>e. bs_CreatedAt (be_snap e)) av))"
proof -
  have "map (entry_of_row co) (live_rows account currency (snow w) (db w)) = map Inr held"
    unfolding live_rows_def assms(4) using assms(3)
    by (induction rule: list_all2_induct) (auto simp: entry_of_row_sel split: option.splits)
  moreover have "\<forall>e \<in> set held. m_currency (RemainingAmount e) = currency" by (simp add: assms(4))
  ultimately show ?thesis using GetBalance_live FindAvailable_live assms(1,2) by blast
qed


text \<open>Applications are kept in whole units although balances are exact: when \<open>Money.Int64\<close> drops the
  fraction, an application of less than one unit is refused by the table's check, and a larger one is
  read back without its fraction.\<close>

theorem application_whole_units:
  assumes "calm w" and "ba_ID a \<notin> ar_id ` set (t_applications (db w))"
    and "sint (bk_int64 co (ba_Amount a)) = \<lfloor>amt (ba_Amount a)\<rfloor>"
  shows "(amt (ba_Amount a) < 1 \<longrightarrow>
      SaveApplication env co a w = (Inl (DbError (MySQLError 3819 ''Check constraint is violated'')), w)) \<and>
    (1 \<le> amt (ba_Amount a) \<longrightarrow> (\<exists>w' apps b. SaveApplication env co a w = (Inr (), w') \<and>
      FindApplicationsByInvoice (ba_InvoiceID a) w' = (Inr apps, w') \<and> b \<in> set apps \<and> ba_ID b = ba_ID a \<and>
      amt (ba_Amount b) = of_int \<lfloor>amt (ba_Amount a)\<rfloor>))"
proof (intro conjI impI)
  assume "amt (ba_Amount a) < 1"
  then have "\<lfloor>amt (ba_Amount a)\<rfloor> \<le> 0" by linarith
  with assms show "SaveApplication env co a w = (Inl (DbError (MySQLError 3819 ''Check constraint is violated'')), w)"
    by (simp add: SaveApplication_def insert_into_run check_amount_def)
next
  assume "1 \<le> amt (ba_Amount a)"
  then have pos: "\<not> sint (bk_int64 co (ba_Amount a)) \<le> 0" using assms(3) by linarith
  define row where "row = \<lparr>ar_id = ba_ID a, ar_entry = ba_BalanceEntryID a, ar_invoice = ba_InvoiceID a,
      ar_amount = bk_int64 co (ba_Amount a), ar_currency = m_currency (ba_Amount a),
      ar_applied = me_time env (ba_AppliedAt a)\<rparr>"
  define w' where "w' = w\<lparr>db := (db w)\<lparr>t_applications := t_applications (db w) @ [row]\<rparr>\<rparr>"
  have run: "SaveApplication env co a w = (Inr (), w')"
    using assms(1,2) pos
    by (force simp: SaveApplication_def insert_into_run check_amount_def insert_row_def clashes_def
        applications_table_def w'_def row_def)
  have "application_of_row row \<in> set (map application_of_row (sort_key ar_applied
      (filter (\<lambda>r. ar_invoice r = ba_InvoiceID a) (t_applications (db w')))))"
    by (simp add: w'_def) (simp add: row_def)
  moreover have "ba_ID (application_of_row row) = ba_ID a"
    "amt (ba_Amount (application_of_row row)) = of_int \<lfloor>amt (ba_Amount a)\<rfloor>"
    using assms(3) by (simp_all add: row_def application_of_row_def moneyFromInt64_def)
  moreover have "calm w'" using assms(1) by (simp add: w'_def)
  ultimately show "\<exists>w' apps b. SaveApplication env co a w = (Inr (), w') \<and>
      FindApplicationsByInvoice (ba_InvoiceID a) w' = (Inr apps, w') \<and> b \<in> set apps \<and> ba_ID b = ba_ID a \<and>
      amt (ba_Amount b) = of_int \<lfloor>amt (ba_Amount a)\<rfloor>"
    using run by (intro exI [of _ w']) (auto simp: FindApplicationsByInvoice_def bindA_def tryA_def query_run)
qed

section \<open>Witnesses\<close>

text \<open>An account with a consumed entry and one with three quarters of a unit left, both expired at 20.\<close>

definition demo_balance_core :: balance_core where
  "demo_balance_core = \<lparr>bk_int64 = (\<lambda>m. word_of_int \<lfloor>amt m\<rfloor>), bk_isZero = (\<lambda>m. amt m = 0),
     bk_isNegative = (\<lambda>m. amt m < 0), bk_zero = new_money 0,
     bk_add = (\<lambda>a b. Inr (new_money (amt a + amt b) (m_currency a))),
     bk_state = \<lparr>co_enc = (\<lambda>_. Some ''S''),
       co_dec = (\<lambda>t. Some (new_money 1 ''USD'', new_money (if t = ''0'' then 0 else 3/4) ''USD''))\<rparr>,
     bk_valid = (\<lambda>_. True)\<rparr>"

definition demo_entry_row :: "string \<Rightarrow> time \<Rightarrow> string \<Rightarrow> balance_row" where
  "demo_entry_row i created state = \<lparr>br_id = i, br_account = ''a'', br_original = 1, br_remaining = 0,
     br_currency = ''USD'', br_reason = [], br_source_type = [], br_source_id = [], br_description = [],
     br_expires = Some 20, br_version = 1, br_created = created, br_state = Some state\<rparr>"

definition demo_balances :: "balance_db world" where
  "demo_balances = \<lparr>db = \<lparr>t_entries = [demo_entry_row ''b1'' 1 ''0'', demo_entry_row ''b2'' 2 ''S''],
     t_applications = [], t_refunds = []\<rparr>, saved = None, autoinc = 1, clk = 5, snow = 6, faults = []\<rparr>"

definition demo_entry :: "string \<Rightarrow> time \<Rightarrow> rat \<Rightarrow> int \<Rightarrow> balance_snapshot" where
  "demo_entry i created x v = \<lparr>bs_ID = i, bs_AccountID = ''a'', bs_OriginalAmount = new_money 1 ''USD'',
     bs_RemainingAmount = new_money x ''USD'', bs_Reason = [], bs_SourceType = [], bs_SourceID = [],
     bs_Description = [], bs_ExpiresAt = Some 20, bs_Version = v, bs_CreatedAt = created\<rparr>"

lemma demo_balances_ok: "calm demo_balances" "quiet demo_balances" "keyed entries_table br_id (db demo_balances)"
    "money_laws demo_balance_core"
  by (simp_all add: demo_balances_def quiet_def keyed_def demo_entry_row_def money_laws_def demo_balance_core_def)

lemma demo_entry_of_row: "entry_of_row demo_balance_core (demo_entry_row i c t)
    = Inr \<lparr>be_snap = demo_entry i c (if t = ''0'' then 0 else 3/4) 1, be_loaded = 1\<rparr>" if "t \<noteq> []"
  using that by (simp add: entry_of_row_def scanBalanceEntrySnapshot_def balance_FromSnapshot_def demo_balance_core_def
      demo_entry_row_def demo_entry_def)

theorem balance_one_winner_witness:
  "\<exists>e w'. attempts (\<lambda>e. Save demo_env demo_balance_core e 1) [demo_entry ''b2'' 2 (1/4) 2, demo_entry ''b2'' 2 0 2]
     demo_balances = ([e], w') \<and> row_versions entries_table br_id br_version (db w') ''b2'' = Some 2"
proof -
  let ?es = "[demo_entry ''b2'' 2 (1/4) 2, demo_entry ''b2'' 2 0 2]"
  obtain ws w' where run: "attempts (\<lambda>e. Save demo_env demo_balance_core e 1) ?es demo_balances = (ws, w')" by fastforce
  have "\<exists>w1. Save demo_env demo_balance_core (demo_entry ''b2'' 2 (1/4) 2) 1 demo_balances = (Inr 2, w1)"
    by (simp add: Save_def demo_balance_core_def update_entry_def bindA_def tryA_def update_where_run demo_balances_ok
        json_column_def demo_env_def)
      (simp add: demo_balances_def update_one_def extract_Cons_code demo_entry_row_def demo_entry_def entry_to_row_def
        entries_table_def clashes_def)
  then obtain w1 where "Save demo_env demo_balance_core (demo_entry ''b2'' 2 (1/4) 2) 1 demo_balances = (Inr 2, w1)" ..
  with run have "ws \<noteq> []" by (auto split: prod.splits)
  with balance_one_winner [OF demo_balances_ok(2,3) _ run, of "''b2''"] run show ?thesis
    by (auto simp: demo_entry_def)
qed

text \<open>At 6 both entries count; at 20 they have expired.\<close>

theorem GetBalance_exact_witness:
  "GetBalance demo_balance_core ''a'' ''USD'' demo_balances = (Inr (new_money (3/4) ''USD''), demo_balances) \<and>
   (\<exists>e. FindAvailable demo_balance_core ''a'' ''USD'' demo_balances = (Inr [e], demo_balances)) \<and>
   fst (GetBalance demo_balance_core ''a'' ''USD'' (demo_balances\<lparr>snow := 20\<rparr>)) = Inr (new_money 0 ''USD'')"
proof -
  let ?es = "[\<lparr>be_snap = demo_entry ''b1'' 1 0 1, be_loaded = 1\<rparr>, \<lparr>be_snap = demo_entry ''b2'' 2 (3/4) 1, be_loaded = 1\<rparr>]"
  let ?p = "\<lambda>r e. entry_of_row demo_balance_core r = Inr e \<and> m_currency (RemainingAmount e) = br_currency r"
  have t: "t_entries (db demo_balances) = [demo_entry_row ''b1'' 1 ''0'', demo_entry_row ''b2'' 2 ''S'']"
    by (simp add: demo_balances_def)
  have c: "m_currency (RemainingAmount \<lparr>be_snap = demo_entry i c x 1, be_loaded = 1\<rparr>) = br_currency (demo_entry_row i c st)" for i c x st
    by (simp add: RemainingAmount_def demo_entry_def demo_entry_row_def)
  have rows: "list_all2 ?p (t_entries (db demo_balances)) ?es" by (simp add: t demo_entry_of_row c)
  then have rows': "list_all2 ?p (t_entries (db (demo_balances\<lparr>snow := 20\<rparr>))) ?es" by simp
  have calm: "calm (demo_balances\<lparr>snow := 20\<rparr>)" and now: "snow demo_balances = 6" by (simp_all add: demo_balances_def)
  from GetBalance_exact [OF demo_balances_ok(1,4) rows refl, of "''a''" "''USD''"]
    GetBalance_exact [OF calm demo_balances_ok(4) rows' refl, of "''a''" "''USD''"]
  show ?thesis using now by (auto simp: RemainingAmount_def demo_entry_def)
qed


theorem application_whole_units_witness:
  "\<exists>w' apps b. SaveApplication demo_env demo_balance_core
      \<lparr>ba_ID = ''x'', ba_BalanceEntryID = ''b2'', ba_InvoiceID = ''i'', ba_Amount = new_money (3/2) ''USD'', ba_AppliedAt = 6\<rparr>
      demo_balances = (Inr (), w') \<and>
    FindApplicationsByInvoice ''i'' w' = (Inr apps, w') \<and> b \<in> set apps \<and> ba_ID b = ''x'' \<and> amt (ba_Amount b) = 1"
proof -
  let ?a = "\<lparr>ba_ID = ''x'', ba_BalanceEntryID = ''b2'', ba_InvoiceID = ''i'', ba_Amount = new_money (3/2) ''USD'', ba_AppliedAt = 6\<rparr>"
  have f: "\<lfloor>3/2 :: rat\<rfloor> = 1" by (simp add: floor_eq_iff)
  have "sint (bk_int64 demo_balance_core (ba_Amount ?a)) = \<lfloor>amt (ba_Amount ?a)\<rfloor>"
    by (simp add: demo_balance_core_def f)
  moreover have "ba_ID ?a \<notin> ar_id ` set (t_applications (db demo_balances))" by (simp add: demo_balances_def)
  ultimately show ?thesis
    using application_whole_units [OF demo_balances_ok(1), of ?a demo_balance_core demo_env] f by simp
qed

end
