(* ===== verification/My_Invoice_Repo.thy ===== *)
theory My_Invoice_Repo
  imports My_Values
begin

text \<open>
  The invoice repository of \<open>mysql/invoice_repo.go\<close>: \<open>Save\<close> in its own or the ambient transaction
  (guarded \<open>UPDATE\<close>, else probe and \<open>INSERT\<close>, then the bitemporal history row), the finders and the
  as-of lookup. The invoice aggregate, its validation and JSON forms are the core library's. The row
  lock \<open>FindByID\<close> takes inside a transaction orders concurrent transactions and has no effect in one.
\<close>

text \<open>\<open>shared.DateRange\<close>: none when it is zero, else start and end.\<close>

type_synonym date_range = "(time \<times> time) option"

record invoiceJSONState =
  iv_Subtotal :: money
  iv_TaxAmount :: money
  iv_DiscountAmount :: money
  iv_Total :: money
  iv_AppliedBalance :: money
  iv_AmountDue :: money
  iv_PaidAmount :: money
  iv_Balance :: money
  iv_BillingPeriod :: date_range
  iv_LineItems :: string

record invoice_snapshot =
  is_ID :: string
  is_InvoiceNumber :: string
  is_AccountID :: string
  is_ContractID :: string
  is_Status :: string
  is_state :: invoiceJSONState
  is_IssueDate :: time
  is_DueDate :: time
  is_PaidAt :: "time option"
  is_PaymentMethodID :: "string option"
  is_AllowPartialPay :: bool
  is_OriginalInvoiceID :: "string option"
  is_RevisionOf :: "string option"
  is_VoidReason :: string
  is_Metadata :: string
  is_Version :: int

record invoice =
  in_snap :: invoice_snapshot
  in_loaded :: int

text \<open>The core library's part, and the text MySQL gives an instant in the generated key column.\<close>

record invoice_core =
  ik_int64 :: "money \<Rightarrow> int64"
  ik_state :: "invoiceJSONState codec"
  ik_meta :: "string codec"
  ik_history :: "invoice_snapshot codec"
  ik_valid :: "invoice_snapshot \<Rightarrow> bool"
  ik_datetime :: "time \<Rightarrow> string"

definition InvoiceFromSnapshot :: "invoice_core \<Rightarrow> invoice_snapshot \<Rightarrow> repo_error + invoice" where
  "InvoiceFromSnapshot co s = (if ik_valid co s then Inr \<lparr>in_snap = s, in_loaded = is_Version s\<rparr>
     else Inl (OtherError ''invoice snapshot''))"

record invoice_row =
  ir_id :: string
  ir_number :: string
  ir_account :: string
  ir_contract :: string
  ir_status :: string
  ir_amounts :: "int64 list"
  ir_currency :: string
  ir_from :: "time option"
  ir_to :: "time option"
  ir_issue :: "time option"
  ir_due :: "time option"
  ir_paid :: "time option"
  ir_void :: string
  ir_revision :: "string option"
  ir_original :: "string option"
  ir_method :: "string option"
  ir_partial :: bool
  ir_state :: string
  ir_metadata :: string
  ir_version :: int
  ir_lock_version :: int
  ir_created :: time
  ir_updated :: time

record history_row =
  hr_id :: string
  hr_version :: int
  hr_snapshot :: string
  hr_from :: time
  hr_to :: "time option"

record invoice_db =
  t_invoices :: "invoice_row list"
  t_history :: "history_row list"

text \<open>The generated column of migration 011.\<close>

definition period_uniq_key :: "menv \<Rightarrow> invoice_core \<Rightarrow> invoice_row \<Rightarrow> string option" where
  "period_uniq_key env co r = (case (ir_from r, ir_to r) of
      (Some from, Some to) \<Rightarrow>
        if ir_status r \<noteq> ''voided'' \<and> me_extract env (ir_metadata r) ''$.invoice_type'' \<noteq> Some ''proration''
        then Some (ir_contract r @ ''|'' @ ik_datetime co from @ ''|'' @ ik_datetime co to) else None
    | _ \<Rightarrow> None)"

definition invoices_table :: "menv \<Rightarrow> invoice_core \<Rightarrow> (invoice_db, invoice_row) table" where
  "invoices_table env co = \<lparr>tb_name = ''invoices'',
     tb_keys = [(''PRIMARY'', \<lambda>r. Some (ir_id r)), (''ux_invoice_period'', period_uniq_key env co)],
     tb_get = t_invoices, tb_set = (\<lambda>rows d. d\<lparr>t_invoices := rows\<rparr>)\<rparr>"

section \<open>Save\<close>

definition nonzero_time :: "menv \<Rightarrow> time \<Rightarrow> time option" where
  "nonzero_time env t = (if is_zero_time t then None else Some (me_time env t))"

text \<open>The row \<open>INSERT\<close> writes; the amounts in the order of the columns from \<open>subtotal\<close> to \<open>balance\<close>.\<close>

definition invoice_to_row :: "menv \<Rightarrow> invoice_core \<Rightarrow> invoice_snapshot \<Rightarrow> string \<Rightarrow> string \<Rightarrow> time \<Rightarrow> invoice_row" where
  "invoice_to_row env co s state metadata now = (let st = is_state s in
     \<lparr>ir_id = is_ID s, ir_number = is_InvoiceNumber s, ir_account = is_AccountID s,
      ir_contract = is_ContractID s, ir_status = is_Status s,
      ir_amounts = map (ik_int64 co) [iv_Subtotal st, iv_TaxAmount st, iv_DiscountAmount st, iv_Total st,
        iv_AppliedBalance st, iv_AmountDue st, iv_PaidAmount st, iv_Balance st],
      ir_currency = m_currency (iv_Total st),
      ir_from = map_option (\<lambda>p. me_time env (fst p)) (iv_BillingPeriod st),
      ir_to = map_option (\<lambda>p. me_time env (snd p)) (iv_BillingPeriod st),
      ir_issue = nonzero_time env (is_IssueDate s), ir_due = nonzero_time env (is_DueDate s),
      ir_paid = map_option (me_time env) (is_PaidAt s), ir_void = is_VoidReason s,
      ir_revision = is_RevisionOf s, ir_original = is_OriginalInvoiceID s, ir_method = is_PaymentMethodID s,
      ir_partial = is_AllowPartialPay s, ir_state = state, ir_metadata = metadata,
      ir_version = 1, ir_lock_version = is_Version s, ir_created = now, ir_updated = now\<rparr>)"

text \<open>The \<open>UPDATE\<close> leaves account, contract and creation time, and counts the save.\<close>

definition update_invoice :: "menv \<Rightarrow> invoice_core \<Rightarrow> invoice_snapshot \<Rightarrow> int \<Rightarrow> string \<Rightarrow> string
    \<Rightarrow> (invoice_db, nat) sql" where
  "update_invoice env co s loaded jsonState metadata = update_where (invoices_table env co)
     (\<lambda>r. ir_id r = is_ID s \<and> ir_lock_version r = loaded)
     (\<lambda>now. case json_columns env jsonState metadata of
        Inl e \<Rightarrow> Inl e
      | Inr (st, m) \<Rightarrow> Inr (\<lambda>r. (invoice_to_row env co s st m now)
          \<lparr>ir_account := ir_account r, ir_contract := ir_contract r, ir_version := ir_version r + 1,
           ir_created := ir_created r\<rparr>))"

definition insert_invoice :: "menv \<Rightarrow> invoice_core \<Rightarrow> invoice_snapshot \<Rightarrow> string \<Rightarrow> string
    \<Rightarrow> (invoice_db, unit) sql" where
  "insert_invoice env co s jsonState metadata = insert_into (invoices_table env co)
     (\<lambda>now. case json_columns env jsonState metadata of
        Inl e \<Rightarrow> Inl e | Inr (st, m) \<Rightarrow> Inr (invoice_to_row env co s st m now))"

definition translateInvoiceSaveErr :: "repo_error \<Rightarrow> repo_error" where
  "translateInvoiceSaveErr err =
     (if dupEntryOnKey err ''ux_invoice_period'' then DomainError ErrCodeConflict None
      else if dupEntryOnKey err ''PRIMARY'' then TxVersionConflict else err)"

text \<open>\<open>UPDATE invoice_history SET valid_to = ? WHERE id = ? AND valid_to IS NULL\<close>.\<close>

definition close_history :: "string \<Rightarrow> time \<Rightarrow> history_row list \<Rightarrow> history_row list" where
  "close_history i t rows = map (\<lambda>r. if hr_id r = i \<and> hr_to r = None then r\<lparr>hr_to := Some t\<rparr> else r) rows"

text \<open>\<open>COALESCE((SELECT version FROM invoices WHERE id = ?), 1)\<close> and the upsert on \<open>(id, version)\<close>.\<close>

definition stored_version :: "string \<Rightarrow> invoice_row list \<Rightarrow> int" where
  "stored_version i rows = (case find (\<lambda>r. ir_id r = i) rows of None \<Rightarrow> 1 | Some r \<Rightarrow> ir_version r)"

definition open_history :: "history_row \<Rightarrow> history_row list \<Rightarrow> history_row list" where
  "open_history h rows =
     (if \<exists>x \<in> set rows. hr_id x = hr_id h \<and> hr_version x = hr_version h
      then map (\<lambda>x. if hr_id x = hr_id h \<and> hr_version x = hr_version h
             then x\<lparr>hr_snapshot := hr_snapshot h, hr_from := hr_from h, hr_to := None\<rparr> else x) rows
      else rows @ [h])"

definition close_current :: "menv \<Rightarrow> string \<Rightarrow> time \<Rightarrow> (invoice_db, unit) sql" where
  "close_current env i histNow = exec_stmt (\<lambda>d. (Inr (),
     d\<lparr>t_history := close_history i (me_time env histNow) (t_history d)\<rparr>))"

definition insert_history :: "menv \<Rightarrow> string \<Rightarrow> string \<Rightarrow> time \<Rightarrow> (invoice_db, unit) sql" where
  "insert_history env i snapshot histNow = exec_stmt (\<lambda>d. case json_column env snapshot of
      Inl e \<Rightarrow> (Inl e, d)
    | Inr sn \<Rightarrow> (Inr (), d\<lparr>t_history := open_history
        \<lparr>hr_id = i, hr_version = stored_version i (t_invoices d), hr_snapshot = sn,
         hr_from = me_time env histNow, hr_to = None\<rparr> (t_history d)\<rparr>))"

definition write_invoice :: "menv \<Rightarrow> invoice_core \<Rightarrow> invoice_snapshot \<Rightarrow> int \<Rightarrow> string \<Rightarrow> string
    \<Rightarrow> (invoice_db, unit) sql" where
  "write_invoice env co s loaded jsonState metadata =
     bindA (mapErrA translateInvoiceSaveErr (update_invoice env co s loaded jsonState metadata)) (\<lambda>affected.
     if affected = 0
     then tryA (query_row (\<lambda>d. find (\<lambda>r. ir_id r = is_ID s) (t_invoices d)))
        (\<lambda>e. if as_db e = Some ErrNoRows
           then mapErrA translateInvoiceSaveErr (insert_invoice env co s jsonState metadata) else throw e)
        (\<lambda>_. throw TxVersionConflict)
     else ret ())"

definition write_history :: "menv \<Rightarrow> invoice_core \<Rightarrow> invoice_snapshot \<Rightarrow> (invoice_db, unit) sql" where
  "write_history env co s =
     bindA clock_now (\<lambda>histNow.
     bindA (close_current env (is_ID s) histNow) (\<lambda>_.
     case co_enc (ik_history co) s of
       None \<Rightarrow> throw (OtherError ''marshal snapshot'')
     | Some snapshot \<Rightarrow> insert_history env (is_ID s) snapshot histNow))"

definition saveOn :: "menv \<Rightarrow> invoice_core \<Rightarrow> invoice_snapshot \<Rightarrow> int \<Rightarrow> (invoice_db, int) sql" where
  "saveOn env co s loaded = (case co_enc (ik_state co) (is_state s) of
      None \<Rightarrow> throw (OtherError ''marshal state'')
    | Some jsonState \<Rightarrow> (case co_enc (ik_meta co) (is_Metadata s) of
        None \<Rightarrow> throw (OtherError ''marshal metadata'')
      | Some metadata \<Rightarrow>
          bindA (write_invoice env co s loaded jsonState metadata) (\<lambda>_.
          bindA (write_history env co s) (\<lambda>_. ret (is_Version s)))))"

definition Save :: "menv \<Rightarrow> invoice_core \<Rightarrow> invoice_snapshot \<Rightarrow> int \<Rightarrow> (invoice_db, int) sql" where
  "Save env co s loaded = bindA in_tx (\<lambda>ambient.
     if ambient then saveOn env co s loaded else in_own_tx (saveOn env co s loaded))"

section \<open>Finders\<close>

definition zero_invoiceJSONState :: invoiceJSONState where
  "zero_invoiceJSONState = (let z = \<lparr>m_amount = None, m_currency = []\<rparr> in
     \<lparr>iv_Subtotal = z, iv_TaxAmount = z, iv_DiscountAmount = z, iv_Total = z, iv_AppliedBalance = z,
      iv_AmountDue = z, iv_PaidAmount = z, iv_Balance = z, iv_BillingPeriod = None, iv_LineItems = []\<rparr>)"

definition scanInvoiceSnapshot :: "invoice_core \<Rightarrow> invoice_row \<Rightarrow> repo_error + invoice_snapshot" where
  "scanInvoiceSnapshot co r =
     (case (if ir_state r = [] then Some zero_invoiceJSONState else co_dec (ik_state co) (ir_state r)) of
        None \<Rightarrow> Inl (OtherError ''unmarshal state'')
      | Some js \<Rightarrow>
          (case (if ir_metadata r = [] then Some [] else co_dec (ik_meta co) (ir_metadata r)) of
             None \<Rightarrow> Inl (OtherError ''unmarshal metadata'')
           | Some meta \<Rightarrow> Inr
              \<lparr>is_ID = ir_id r, is_InvoiceNumber = ir_number r, is_AccountID = ir_account r,
               is_ContractID = ir_contract r, is_Status = ir_status r, is_state = js,
               is_IssueDate = (case ir_issue r of Some t \<Rightarrow> t | None \<Rightarrow> zero_time),
               is_DueDate = (case ir_due r of Some t \<Rightarrow> t | None \<Rightarrow> zero_time),
               is_PaidAt = ir_paid r, is_PaymentMethodID = ir_method r, is_AllowPartialPay = ir_partial r,
               is_OriginalInvoiceID = ir_original r, is_RevisionOf = ir_revision r,
               is_VoidReason = ir_void r, is_Metadata = meta, is_Version = ir_lock_version r\<rparr>))"

definition invoice_of_row :: "invoice_core \<Rightarrow> invoice_row \<Rightarrow> repo_error + invoice" where
  "invoice_of_row co r = (case scanInvoiceSnapshot co r of
      Inl e \<Rightarrow> Inl e | Inr s \<Rightarrow> InvoiceFromSnapshot co s)"

definition FindByID :: "invoice_core \<Rightarrow> string \<Rightarrow> (invoice_db, invoice) sql" where
  "FindByID co i = tryA (query_row (\<lambda>d. find (\<lambda>r. ir_id r = i) (t_invoices d)))
     (\<lambda>e. if as_db e = Some ErrNoRows then throw (DomainError ErrCodeNotFound None) else throw e)
     (\<lambda>r. liftA (invoice_of_row co r))"

definition scanInvoiceRows :: "invoice_core \<Rightarrow> invoice_row list \<Rightarrow> (invoice_db, invoice list) sql" where
  "scanInvoiceRows co rows = mapA (\<lambda>r. liftA (invoice_of_row co r)) rows"

text \<open>Ascending order of a nullable column: \<open>NULL\<close> first, or last where the code sorts on \<open>IS NULL\<close>.\<close>

definition nulls_first :: "('r \<Rightarrow> time option) \<Rightarrow> 'r list \<Rightarrow> 'r list" where
  "nulls_first f rows = filter (\<lambda>r. f r = None) rows @ sort_key (\<lambda>r. the (f r)) (filter (\<lambda>r. f r \<noteq> None) rows)"

definition nulls_last :: "('r \<Rightarrow> time option) \<Rightarrow> 'r list \<Rightarrow> 'r list" where
  "nulls_last f rows = sort_key (\<lambda>r. the (f r)) (filter (\<lambda>r. f r \<noteq> None) rows) @ filter (\<lambda>r. f r = None) rows"

definition newest :: "(invoice_row \<Rightarrow> bool) \<Rightarrow> invoice_db \<Rightarrow> invoice_row list" where
  "newest p d = sort_key (\<lambda>r. - ir_created r) (filter p (t_invoices d))"

definition FindByContractID :: "invoice_core \<Rightarrow> string \<Rightarrow> (invoice_db, invoice list) sql" where
  "FindByContractID co c = bindA (query (newest (\<lambda>r. ir_contract r = c))) (scanInvoiceRows co)"

definition FindByAccountID :: "invoice_core \<Rightarrow> string \<Rightarrow> (invoice_db, invoice list) sql" where
  "FindByAccountID co a = bindA (query (newest (\<lambda>r. ir_account r = a))) (scanInvoiceRows co)"

definition FindByStatus :: "invoice_core \<Rightarrow> string \<Rightarrow> (invoice_db, invoice list) sql" where
  "FindByStatus co st = bindA (query (newest (\<lambda>r. ir_status r = st))) (scanInvoiceRows co)"

definition FindByContractAndStatus :: "invoice_core \<Rightarrow> string \<Rightarrow> string \<Rightarrow> (invoice_db, invoice list) sql" where
  "FindByContractAndStatus co c st =
     bindA (query (newest (\<lambda>r. ir_contract r = c \<and> ir_status r = st))) (scanInvoiceRows co)"

definition overdue :: "time \<Rightarrow> invoice_row \<Rightarrow> bool" where
  "overdue now r \<longleftrightarrow> ir_status r = ''overdue'' \<or>
     (ir_status r \<in> {''issued'', ''finalized''} \<and> (case ir_due r of None \<Rightarrow> False | Some t \<Rightarrow> t < now))"

definition FindOverdue :: "invoice_core \<Rightarrow> (invoice_db, invoice list) sql" where
  "FindOverdue co = bindA (with_now (\<lambda>now. query (\<lambda>d. nulls_first ir_due (filter (overdue now) (t_invoices d)))))
     (scanInvoiceRows co)"

definition FindByContractAndPeriod :: "menv \<Rightarrow> invoice_core \<Rightarrow> string \<Rightarrow> time \<Rightarrow> time
    \<Rightarrow> (invoice_db, invoice list) sql" where
  "FindByContractAndPeriod env co c from to = bindA (query (\<lambda>d. nulls_first ir_issue (filter (\<lambda>r.
     ir_contract r = c \<and> ir_from r = Some (me_time env from) \<and> ir_to r = Some (me_time env to)) (t_invoices d))))
     (scanInvoiceRows co)"

definition FindUnpaidByContract :: "invoice_core \<Rightarrow> string \<Rightarrow> (invoice_db, invoice list) sql" where
  "FindUnpaidByContract co c = bindA (query (\<lambda>d. nulls_last ir_due (filter (\<lambda>r.
     ir_contract r = c \<and> ir_status r \<notin> {''paid'', ''voided'', ''refunded''}) (t_invoices d))))
     (scanInvoiceRows co)"

text \<open>The history row valid at an instant; the newest version where there are several.\<close>

definition valid_at :: "string \<Rightarrow> time \<Rightarrow> history_row list \<Rightarrow> history_row option" where
  "valid_at i t rows = (case sort_key (\<lambda>r. - hr_version r) (filter (\<lambda>r. hr_id r = i \<and> hr_from r \<le> t \<and>
      (case hr_to r of None \<Rightarrow> True | Some u \<Rightarrow> t < u)) rows) of [] \<Rightarrow> None | r # _ \<Rightarrow> Some r)"

definition FindByIDAsOf :: "menv \<Rightarrow> invoice_core \<Rightarrow> string \<Rightarrow> time \<Rightarrow> (invoice_db, invoice) sql" where
  "FindByIDAsOf env co i asOf = tryA (query_row (\<lambda>d. valid_at i (me_time env asOf) (t_history d)))
     (\<lambda>e. if as_db e = Some ErrNoRows then throw (DomainError ErrCodeNotFound None) else throw e)
     (\<lambda>r. case co_dec (ik_history co) (hr_snapshot r) of
        None \<Rightarrow> throw (OtherError ''unmarshal history'')
      | Some s \<Rightarrow> liftA (InvoiceFromSnapshot co s))"

end
