(* ===== verification/My_Invoice_Props.thy ===== *)
theory My_Invoice_Props
  imports My_Invoice_Repo
begin

text \<open>
  Properties of the invoice repository: a save writes the row and its history together or not at
  all, the history is a sequence of adjoining windows from which the as-of lookup reads the right
  version, saves are guarded by the loaded version, and a billing period is invoiced once.
\<close>

section \<open>What a successful write does\<close>

lemma invoices_lens [simp]: "lens (invoices_table env co)"
  by (simp add: lens_def invoices_table_def)

lemma invoices_sel [simp]: "tb_get (invoices_table env co) d = t_invoices d"
  "tb_set (invoices_table env co) rows d = d\<lparr>t_invoices := rows\<rparr>"
  by (simp_all add: invoices_table_def)

lemma invoice_primary: "(''PRIMARY'', \<lambda>r. Some (ir_id r)) \<in> set (tb_keys (invoices_table env co))"
  by (simp add: invoices_table_def)

lemma invoice_to_row_sel [simp]:
  "ir_id (invoice_to_row env co s st m n) = is_ID s"
  "ir_lock_version (invoice_to_row env co s st m n) = is_Version s"
  "ir_version (invoice_to_row env co s st m n) = 1"
  by (simp_all add: invoice_to_row_def Let_def)

text \<open>A write replaces the row it had loaded, counting the save, or adds the first row.\<close>

definition invoice_written :: "menv \<Rightarrow> invoice_core \<Rightarrow> string \<Rightarrow> int \<Rightarrow> int \<Rightarrow> invoice_row list \<Rightarrow> invoice_row list \<Rightarrow> bool" where
  "invoice_written env co i l v rows rows' \<longleftrightarrow>
     (\<exists>f n. update_one (tb_name (invoices_table env co)) (tb_keys (invoices_table env co))
         (\<lambda>r. ir_id r = i \<and> ir_lock_version r = l) f rows = Inr (n, rows') \<and> n \<noteq> 0 \<and>
         (\<forall>r. ir_id (f r) = i \<and> ir_lock_version (f r) = v \<and> ir_version (f r) = ir_version r + 1)) \<or>
     (\<exists>row. insert_row (tb_name (invoices_table env co)) (tb_keys (invoices_table env co)) row rows = Inr rows' \<and>
         ir_id row = i \<and> ir_lock_version row = v \<and> ir_version row = 1)"

lemma exec_stmt_ok:
  "exec_stmt f w = (Inr a, w') \<Longrightarrow> f (db w) = (Inr a, db w') \<and> saved w' = saved w \<and> clk w' = clk w"
  unfolding exec_stmt_def by (erule stmt_cases) (auto split: prod.splits)

lemma update_where_effect:
  assumes run: "update_where T p mk w = (r, w')" and l: "lens T"
  shows "saved w' = saved w \<and> clk w' = clk w \<and>
    (db w' = db w \<and> (isl r \<or> r = Inr 0) \<or>
     (\<exists>f n rows. mk (snow w) = Inr f \<and> update_one (tb_name T) (tb_keys T) p f (tb_get T (db w)) = Inr (n, rows) \<and> n \<noteq> 0 \<and>
       db w' = tb_set T rows (db w) \<and> (isl r \<or> r = Inr n)))"
proof -
  let ?F = "\<lambda>d. case mk (snow w) of Inl e \<Rightarrow> (Inl e, d)
      | Inr f \<Rightarrow> (case update_one (tb_name T) (tb_keys T) p f (tb_get T d) of
          Inl e \<Rightarrow> (Inl e, d) | Inr (n, rows) \<Rightarrow> (Inr n, tb_set T rows d))"
  from run have e: "exec_stmt ?F w = (r, w')" by (simp add: update_where_def with_now_def)
  have ok: "db w' = snd (?F (db w)) \<and> (isl r \<or> r = Inr n)" if "db w' \<noteq> db w \<or> \<not> isl r" "fst (?F (db w)) = Inr n" for n
    using that exec_stmt_effect(1) [OF e] exec_stmt_effect(2) [OF e] by (cases r) auto
  have bad: "db w' = db w \<and> isl r" if "\<not> (\<exists>n. fst (?F (db w)) = Inr n)"
    using that exec_stmt_effect(1) [OF e] exec_stmt_effect(2) [OF e] by (cases r) (auto split: sum.splits prod.splits)
  have miss: "tb_set T rows (db w) = db w" if "update_one (tb_name T) (tb_keys T) p f (tb_get T (db w)) = Inr (0, rows)" for f rows
    using that update_one_miss l unfolding lens_def by metis
  have "db w' = db w \<and> (isl r \<or> r = Inr 0) \<or>
     (\<exists>f n rows. mk (snow w) = Inr f \<and> update_one (tb_name T) (tb_keys T) p f (tb_get T (db w)) = Inr (n, rows) \<and> n \<noteq> 0 \<and>
       db w' = tb_set T rows (db w) \<and> (isl r \<or> r = Inr n))"
  proof (cases "\<exists>n. fst (?F (db w)) = Inr n")
    case True
    then obtain f n rows where f: "mk (snow w) = Inr f"
      "update_one (tb_name T) (tb_keys T) p f (tb_get T (db w)) = Inr (n, rows)" "fst (?F (db w)) = Inr n"
      by (auto split: sum.splits prod.splits)
    with ok [of n] miss [of f rows] show ?thesis by (cases "n = 0") auto
  qed (use bad in blast)
  moreover have "saved w' = saved w" "clk w' = clk w" using e unfolding exec_stmt_def by (auto elim: stmt_cases)
  ultimately show ?thesis by simp
qed

lemma insert_into_effect:
  assumes run: "insert_into T mk w = (r, w')"
  shows "saved w' = saved w \<and> clk w' = clk w \<and>
    (db w' = db w \<and> isl r \<or>
     (\<exists>row rows. mk (snow w) = Inr row \<and> insert_row (tb_name T) (tb_keys T) row (tb_get T (db w)) = Inr rows \<and>
       db w' = tb_set T rows (db w)))"
proof -
  let ?F = "\<lambda>d. case mk (snow w) of Inl e \<Rightarrow> (Inl e, d)
      | Inr row \<Rightarrow> (case insert_row (tb_name T) (tb_keys T) row (tb_get T d) of
          Inl e \<Rightarrow> (Inl e, d) | Inr rows \<Rightarrow> (Inr (), tb_set T rows d))"
  from run have e: "exec_stmt ?F w = (r, w')" by (simp add: insert_into_def with_now_def)
  have "db w' = snd (?F (db w)) \<and> (isl r \<or> fst (?F (db w)) = Inr ()) \<or> db w' = db w \<and> isl r"
    using exec_stmt_effect(1) [OF e] exec_stmt_effect(2) [OF e, of "()"] by (cases r) auto
  then have "db w' = db w \<and> isl r \<or>
     (\<exists>row rows. mk (snow w) = Inr row \<and> insert_row (tb_name T) (tb_keys T) row (tb_get T (db w)) = Inr rows \<and>
       db w' = tb_set T rows (db w))"
    by (auto split: sum.splits)
  moreover have "saved w' = saved w" "clk w' = clk w" using e unfolding exec_stmt_def by (auto elim: stmt_cases)
  ultimately show ?thesis by simp
qed

lemma mapErrA_effect: "mapErrA g m w = (r, w') \<Longrightarrow> \<exists>r0. m w = (r0, w') \<and> (isl r0 \<longleftrightarrow> isl r)"
  by (cases "m w"; cases "fst (m w)") (auto simp: mapErrA_run)

lemma update_invoice_effect:
  assumes "update_invoice env co s l js md w = (r, w')"
  shows "saved w' = saved w \<and> clk w' = clk w \<and>
    (db w' = db w \<and> (isl r \<or> r = Inr 0) \<or> (isl r \<or> r \<noteq> Inr 0) \<and> (\<exists>rows. db w' = (db w)\<lparr>t_invoices := rows\<rparr> \<and>
       invoice_written env co (is_ID s) l (is_Version s) (t_invoices (db w)) rows))"
proof -
  let ?mk = "\<lambda>now. case json_columns env js md of Inl e \<Rightarrow> Inl e
      | Inr (st, m) \<Rightarrow> Inr (\<lambda>r. (invoice_to_row env co s st m now)
          \<lparr>ir_account := ir_account r, ir_contract := ir_contract r, ir_version := ir_version r + 1, ir_created := ir_created r\<rparr>)"
  have ff: "\<forall>r. ir_id (f r) = is_ID s \<and> ir_lock_version (f r) = is_Version s \<and> ir_version (f r) = ir_version r + 1"
    if "?mk now = Inr f" for now f
    using that by (auto split: sum.splits prod.splits)
  from update_where_effect [OF assms [unfolded update_invoice_def] invoices_lens]
  show ?thesis
  proof (elim conjE disjE exE)
    fix f n rows assume u: "?mk (snow w) = Inr f" "saved w' = saved w" "clk w' = clk w" "n \<noteq> 0"
      "update_one (tb_name (invoices_table env co)) (tb_keys (invoices_table env co)) (\<lambda>r. ir_id r = is_ID s \<and> ir_lock_version r = l)
        f (tb_get (invoices_table env co) (db w)) = Inr (n, rows)"
      "db w' = tb_set (invoices_table env co) rows (db w)"
    then have "invoice_written env co (is_ID s) l (is_Version s) (t_invoices (db w)) rows"
      unfolding invoice_written_def using ff [OF u(1)] by (intro disjI1 exI [of _ f] exI [of _ n]) simp
    with u show "isl r \<Longrightarrow> ?thesis" "r = Inr n \<Longrightarrow> ?thesis" by auto
  qed auto
qed

lemma insert_invoice_effect:
  assumes "insert_invoice env co s js md w = (r, w')"
  shows "saved w' = saved w \<and> clk w' = clk w \<and>
    (db w' = db w \<and> isl r \<or> (\<exists>rows. db w' = (db w)\<lparr>t_invoices := rows\<rparr> \<and>
       invoice_written env co (is_ID s) l (is_Version s) (t_invoices (db w)) rows))"
proof -
  have row: "ir_id row = is_ID s" "ir_lock_version row = is_Version s" "ir_version row = 1"
    if "(case json_columns env js md of Inl e \<Rightarrow> Inl e | Inr (st, m) \<Rightarrow> Inr (invoice_to_row env co s st m now)) = Inr row" for now row
    using that by (auto split: sum.splits prod.splits)
  from insert_into_effect [OF assms [unfolded insert_invoice_def]] row
  show ?thesis unfolding invoice_written_def by (elim conjE disjE exE) (simp, fastforce)
qed

text \<open>Whatever fails, the write of the row takes place or not; if it is reported, it did.\<close>

lemma write_invoice_effect:
  assumes run: "write_invoice env co s l js md w = (r, w')"
  shows "saved w' = saved w \<and> clk w' = clk w \<and>
    (db w' = db w \<and> isl r \<or> (\<exists>rows. db w' = (db w)\<lparr>t_invoices := rows\<rparr> \<and>
       invoice_written env co (is_ID s) l (is_Version s) (t_invoices (db w)) rows))"
proof -
  obtain r1 w1 where upd: "update_invoice env co s l js md w = (r1, w1)" by fastforce
  note u = update_invoice_effect [OF upd]
  have m: "mapErrA translateInvoiceSaveErr (update_invoice env co s l js md) w = (map_sum translateInvoiceSaveErr id r1, w1)"
    by (cases r1) (simp_all add: mapErrA_run [of "update_invoice env co s l js md" w, OF upd])
  note run1 = run [unfolded write_invoice_def bindA_run [of "mapErrA translateInvoiceSaveErr (update_invoice env co s l js md)" w, OF m]]
  show ?thesis
  proof (cases "r1 = Inr 0")
    case False
    with run1 have "w' = w1 \<and> (isl r1 \<longrightarrow> isl r)" by (cases r1) (auto split: if_splits simp: ret_def)
    with u False show ?thesis by auto
  next
    case True
    with u have w1: "db w1 = db w" "saved w1 = saved w" "clk w1 = clk w" by simp_all
    obtain r2 w2 where p: "query_row (\<lambda>d. find (\<lambda>r. ir_id r = is_ID s) (t_invoices d)) w1 = (r2, w2)" by fastforce
    then have w2: "db w2 = db w" "saved w2 = saved w" "clk w2 = clk w" using w1 by (auto elim: query_row_cases)
    show ?thesis
    proof (cases "\<exists>e. r2 = Inl e \<and> as_db e = Some ErrNoRows")
      case True
      with \<open>r1 = Inr 0\<close> run1 have "mapErrA translateInvoiceSaveErr (insert_invoice env co s js md) w2 = (r, w')"
        by (auto simp: tryA_run [of "query_row (\<lambda>d. find (\<lambda>r. ir_id r = is_ID s) (t_invoices d))" w1, OF p])
      from mapErrA_effect [OF this] obtain r3 where i: "insert_invoice env co s js md w2 = (r3, w')" "isl r3 \<longleftrightarrow> isl r"
        by blast
      from insert_invoice_effect [OF i(1), of l] i(2) w2 show ?thesis by auto
    next
      case False
      with \<open>r1 = Inr 0\<close> run1 have "w' = w2 \<and> isl r" by (auto simp: tryA_run [of "query_row (\<lambda>d. find (\<lambda>r. ir_id r = is_ID s) (t_invoices d))" w1, OF p] throw_def split: sum.splits)
      with w2 show ?thesis by simp
    qed
  qed
qed

definition history_after :: "string \<Rightarrow> time \<Rightarrow> string \<Rightarrow> invoice_row list \<Rightarrow> history_row list \<Rightarrow> history_row list" where
  "history_after i t sn rows hist = open_history
     \<lparr>hr_id = i, hr_version = stored_version i rows, hr_snapshot = sn, hr_from = t, hr_to = None\<rparr>
     (close_history i t hist)"

text \<open>The text of a snapshot in the history table.\<close>

definition recorded :: "menv \<Rightarrow> invoice_core \<Rightarrow> invoice_snapshot \<Rightarrow> string \<Rightarrow> bool" where
  "recorded env co s sn \<longleftrightarrow> (\<exists>x. co_enc (ik_history co) s = Some x \<and> json_column env x = Inr sn)"

lemma write_history_effect:
  assumes run: "write_history env co s w = (r, w')"
  shows "saved w' = saved w \<and> clk w' = clk w \<and>
    (isl r \<and> (db w' = db w \<or> db w' = (db w)\<lparr>t_history := close_history (is_ID s) (me_time env (clk w)) (t_history (db w))\<rparr>) \<or>
     (\<exists>sn. recorded env co s sn \<and>
       db w' = (db w)\<lparr>t_history := history_after (is_ID s) (me_time env (clk w)) sn (t_invoices (db w)) (t_history (db w))\<rparr>))"
proof -
  let ?closed = "(db w)\<lparr>t_history := close_history (is_ID s) (me_time env (clk w)) (t_history (db w))\<rparr>"
  obtain r1 w1 where c: "close_current env (is_ID s) (clk w) w = (r1, w1)" by fastforce
  have w1: "saved w1 = saved w" "clk w1 = clk w" "db w1 = ?closed \<or> db w1 = db w \<and> isl r1"
    using c exec_stmt_effect(1) [OF c [unfolded close_current_def]]
    by (auto simp: close_current_def exec_stmt_def elim: stmt_cases)
  note run1 = run [unfolded write_history_def bindA_run [of clock_now w, OF clock_now_def [of w]] sum.case
      bindA_run [of "close_current env (is_ID s) (clk w)" w, OF c]]
  show ?thesis
  proof (cases "\<exists>e. r1 = Inl e \<or> co_enc (ik_history co) s = None")
    case True
    with run1 have "w' = w1 \<and> isl r" by (auto simp: throw_def split: sum.splits)
    with w1 show ?thesis by auto
  next
    case False
    with run1 obtain x where x: "co_enc (ik_history co) s = Some x" "insert_history env (is_ID s) x (clk w) w1 = (r, w')"
      by (auto split: sum.splits)
    from False w1(3) have d1: "db w1 = ?closed" by (cases r1) auto
    let ?F = "\<lambda>d. case json_column env x of Inl e \<Rightarrow> (Inl e, d)
      | Inr sn \<Rightarrow> (Inr (), d\<lparr>t_history := open_history \<lparr>hr_id = is_ID s, hr_version = stored_version (is_ID s) (t_invoices d),
          hr_snapshot = sn, hr_from = me_time env (clk w), hr_to = None\<rparr> (t_history d)\<rparr>)"
    from x(2) have i: "exec_stmt ?F w1 = (r, w')" by (simp add: insert_history_def)
    have "saved w' = saved w1" "clk w' = clk w1" using i unfolding exec_stmt_def by (auto elim: stmt_cases)
    moreover have "db w' = ?closed \<and> isl r \<or> (\<exists>sn. recorded env co s sn \<and>
       db w' = (db w)\<lparr>t_history := history_after (is_ID s) (me_time env (clk w)) sn (t_invoices (db w)) (t_history (db w))\<rparr>)"
    proof (cases "json_column env x")
      case (Inl e)
      then have "isl r" using exec_stmt_effect(2) [OF i, of "()"] by (cases r) auto
      with Inl exec_stmt_effect(1) [OF i] d1 show ?thesis by auto
    next
      case (Inr sn)
      with x(1) have "recorded env co s sn" by (auto simp: recorded_def)
      with Inr exec_stmt_effect(1) [OF i] d1 show ?thesis by (auto simp: history_after_def)
    qed
    ultimately show ?thesis using w1 by auto
  qed
qed

definition invoice_saved :: "menv \<Rightarrow> invoice_core \<Rightarrow> invoice_snapshot \<Rightarrow> int \<Rightarrow> time \<Rightarrow> string \<Rightarrow> invoice_db \<Rightarrow> invoice_db \<Rightarrow> bool" where
  "invoice_saved env co s l t sn d d' \<longleftrightarrow> recorded env co s sn \<and>
     invoice_written env co (is_ID s) l (is_Version s) (t_invoices d) (t_invoices d') \<and>
     t_history d' = history_after (is_ID s) t sn (t_invoices d') (t_history d)"

text \<open>What a save that fails may have done: nothing, the row, the row and the end of the last window, or everything.\<close>

definition partly_saved :: "menv \<Rightarrow> invoice_core \<Rightarrow> invoice_snapshot \<Rightarrow> int \<Rightarrow> time \<Rightarrow> invoice_db \<Rightarrow> invoice_db \<Rightarrow> bool" where
  "partly_saved env co s l t d d' \<longleftrightarrow> d' = d \<or>
     invoice_written env co (is_ID s) l (is_Version s) (t_invoices d) (t_invoices d') \<and>
     (t_history d' = t_history d \<or> t_history d' = close_history (is_ID s) t (t_history d) \<or>
      (\<exists>sn. invoice_saved env co s l t sn d d'))"

lemma saveOn_effect:
  assumes run: "saveOn env co s l w = (r, w')"
  shows "saved w' = saved w \<and>
    (case r of Inl e \<Rightarrow> partly_saved env co s l (me_time env (clk w)) (db w) (db w')
     | Inr v \<Rightarrow> v = is_Version s \<and> (\<exists>sn. invoice_saved env co s l (me_time env (clk w)) sn (db w) (db w')))"
proof (cases "\<exists>js md. co_enc (ik_state co) (is_state s) = Some js \<and> co_enc (ik_meta co) (is_Metadata s) = Some md")
  case False
  with run show ?thesis by (auto simp: saveOn_def throw_def partly_saved_def split: option.splits)
next
  case True
  then obtain js md where enc: "co_enc (ik_state co) (is_state s) = Some js" "co_enc (ik_meta co) (is_Metadata s) = Some md" by blast
  obtain r1 w1 where w: "write_invoice env co s l js md w = (r1, w1)" by fastforce
  note 1 = write_invoice_effect [OF w]
  show ?thesis
  proof (cases r1)
    case (Inl e)
    with run enc 1 show ?thesis by (auto simp: saveOn_def bindA_run [of "write_invoice env co s l js md" w, OF w] partly_saved_def)
  next
    case (Inr u)
    obtain r2 w2 where h: "write_history env co s w1 = (r2, w2)" by fastforce
    from run enc Inr have fin: "w' = w2" "r = (case r2 of Inl e \<Rightarrow> Inl e | Inr _ \<Rightarrow> Inr (is_Version s))"
      by (auto simp: saveOn_def bindA_run [of "write_invoice env co s l js md" w, OF w]
          bindA_run [of "write_history env co s" w1, OF h] ret_def split: sum.splits)
    from 1 Inr obtain rows where rows: "db w1 = (db w)\<lparr>t_invoices := rows\<rparr>" "saved w1 = saved w" "clk w1 = clk w"
      "invoice_written env co (is_ID s) l (is_Version s) (t_invoices (db w)) rows" by auto
    from write_history_effect [OF h] rows fin show ?thesis
      by (cases r2) (auto simp: partly_saved_def invoice_saved_def)
  qed
qed

lemma saveOn_ok:
  assumes "saveOn env co s l w = (Inr v, w')"
  shows "v = is_Version s \<and> saved w' = saved w \<and>
    (\<exists>sn. invoice_saved env co s l (me_time env (clk w)) sn (db w) (db w'))"
  using saveOn_effect [OF assms] by simp

lemma sane_saveOn: "sane (saveOn env co s l)"
  unfolding saveOn_def write_invoice_def write_history_def update_invoice_def insert_invoice_def
    close_current_def insert_history_def
  by (intro sane_intros)

lemma calm_saveOn: "keeps calm (saveOn env co s l)"
  unfolding saveOn_def write_invoice_def write_history_def update_invoice_def insert_invoice_def
    close_current_def insert_history_def
  by (intro keeps_intros)

section \<open>The rows after a write\<close>

definition next_version :: "invoice_row option \<Rightarrow> int" where
  "next_version old = (case old of None \<Rightarrow> 1 | Some r \<Rightarrow> ir_version r + 1)"

lemma invoice_written_rows:
  assumes "invoice_written env co i l v rows rows'" and "distinct (map ir_id rows)"
  shows "distinct (map ir_id rows') \<and> map_option ir_lock_version (lookup_row ir_id i rows) \<in> {None, Some l} \<and>
    (\<exists>r. lookup_row ir_id i rows' = Some r \<and> ir_lock_version r = v \<and>
       ir_version r = next_version (lookup_row ir_id i rows)) \<and>
    (\<forall>j. j \<noteq> i \<longrightarrow> lookup_row ir_id j rows' = lookup_row ir_id j rows)"
  using assms(1) unfolding invoice_written_def
proof (elim disjE exE conjE)
  fix f n
  assume u: "update_one (tb_name (invoices_table env co)) (tb_keys (invoices_table env co))
      (\<lambda>r. ir_id r = i \<and> ir_lock_version r = l) f rows = Inr (n, rows')" "n \<noteq> 0"
    and f: "\<forall>r. ir_id (f r) = i \<and> ir_lock_version (f r) = v \<and> ir_version (f r) = ir_version r + 1"
  from update_one_current [OF u assms(2)] f show ?thesis by (auto simp: next_version_def)
next
  fix row
  assume ins: "insert_row (tb_name (invoices_table env co)) (tb_keys (invoices_table env co)) row rows = Inr rows'"
    and "ir_id row = i" "ir_lock_version row = v" "ir_version row = 1"
  with insert_row_current [OF ins invoice_primary assms(2)] show ?thesis by (auto simp: next_version_def)
qed

section \<open>Adjoining history windows\<close>

text \<open>The history of an invoice saved at given instants with given texts: window after window, the last
  one open.\<close>

fun windows :: "string \<Rightarrow> int \<Rightarrow> (time \<times> string) list \<Rightarrow> history_row list" where
  "windows i v [] = []"
| "windows i v ((t, sn) # xs) =
     \<lparr>hr_id = i, hr_version = v, hr_snapshot = sn, hr_from = t, hr_to = (case xs of [] \<Rightarrow> None | (u, _) # _ \<Rightarrow> Some u)\<rparr>
     # windows i (v + 1) xs"

definition history_ok :: "string \<Rightarrow> (time \<times> string) list \<Rightarrow> invoice_db \<Rightarrow> bool" where
  "history_ok i xs d \<longleftrightarrow> filter (\<lambda>r. hr_id r = i) (t_history d) = windows i 1 xs \<and>
     (case lookup_row ir_id i (t_invoices d) of None \<Rightarrow> xs = [] | Some r \<Rightarrow> ir_version r = int (length xs))"

lemma windows_versions: "r \<in> set (windows i v xs) \<Longrightarrow> hr_id r = i \<and> v \<le> hr_version r \<and> hr_version r < v + int (length xs)"
  by (induction i v xs rule: windows.induct) auto

lemma windows_snoc:
  "windows i v (xs @ [(t, sn)]) = close_history i t (windows i v xs) @
     [\<lparr>hr_id = i, hr_version = v + int (length xs), hr_snapshot = sn, hr_from = t, hr_to = None\<rparr>]"
proof (induction i v xs rule: windows.induct)
  case (2 i v t' sn' xs)
  then show ?case by (cases xs) (auto simp: close_history_def)
qed (simp add: close_history_def)

lemma filter_close_history:
  "filter (\<lambda>r. hr_id r = j) (close_history i t hist) =
     (if j = i then close_history i t (filter (\<lambda>r. hr_id r = i) hist) else filter (\<lambda>r. hr_id r = j) hist)"
  by (induction hist) (auto simp: close_history_def)

lemma close_history_keys [simp]:
  "(\<exists>x \<in> set (close_history i t hist). hr_id x = j \<and> hr_version x = v)
     \<longleftrightarrow> (\<exists>x \<in> set hist. hr_id x = j \<and> hr_version x = v)"
  by (induction hist) (auto simp: close_history_def)

text \<open>A save appends one window to the history of its invoice and leaves the others.\<close>

lemma invoice_saved_history:
  assumes sv: "invoice_saved env co s l t sn d d'" and k: "distinct (map ir_id (t_invoices d))"
    and h: "history_ok (is_ID s) xs d"
  shows "history_ok (is_ID s) (xs @ [(t, sn)]) d' \<and> (\<forall>j ys. j \<noteq> is_ID s \<longrightarrow> history_ok j ys d \<longrightarrow> history_ok j ys d')"
proof -
  let ?i = "is_ID s"
  from sv have w: "invoice_written env co ?i l (is_Version s) (t_invoices d) (t_invoices d')"
    and hist: "t_history d' = history_after ?i t sn (t_invoices d') (t_history d)"
    by (simp_all add: invoice_saved_def)
  note rows = invoice_written_rows [OF w k]
  from rows obtain r where r: "lookup_row ir_id ?i (t_invoices d') = Some r"
    "ir_version r = next_version (lookup_row ir_id ?i (t_invoices d))" by blast
  have v: "ir_version r = int (length xs) + 1"
    using r(2) h by (auto simp: history_ok_def next_version_def split: option.splits)
  have sver: "stored_version ?i (t_invoices d') = int (length xs) + 1"
    using r(1) v by (simp add: stored_version_def lookup_row_def)
  have fresh: "\<not> (\<exists>x \<in> set (t_history d). hr_id x = ?i \<and> hr_version x = int (length xs) + 1)"
  proof
    assume "\<exists>x \<in> set (t_history d). hr_id x = ?i \<and> hr_version x = int (length xs) + 1"
    then obtain x where "x \<in> set (filter (\<lambda>r. hr_id r = ?i) (t_history d))" "hr_version x = int (length xs) + 1" by auto
    with h windows_versions [of x ?i 1 xs] show False by (simp add: history_ok_def)
  qed
  have "t_history d' = close_history ?i t (t_history d) @
     [\<lparr>hr_id = ?i, hr_version = int (length xs) + 1, hr_snapshot = sn, hr_from = t, hr_to = None\<rparr>]"
    unfolding hist history_after_def sver open_history_def using fresh by simp
  then show ?thesis
    using rows r v h
    by (auto simp: history_ok_def windows_snoc filter_close_history add.commute)
qed

text \<open>In windows with ordered starts the row valid at an instant is the last one that started by then.\<close>

definition in_window :: "time \<Rightarrow> history_row \<Rightarrow> bool" where
  "in_window t r \<longleftrightarrow> hr_from r \<le> t \<and> (case hr_to r of None \<Rightarrow> True | Some u \<Rightarrow> t < u)"

lemma in_windows:
  "sorted (map fst xs) \<Longrightarrow> map hr_snapshot (filter (in_window t) (windows i v xs)) =
     (case filter (\<lambda>x. fst x \<le> t) xs of [] \<Rightarrow> [] | y # ys \<Rightarrow> [snd (last (y # ys))])"
proof (induction i v xs rule: windows.induct)
  case (2 i v t' sn xs)
  then have IH: "map hr_snapshot (filter (in_window t) (windows i (v + 1) xs)) =
     (case filter (\<lambda>x. fst x \<le> t) xs of [] \<Rightarrow> [] | y # ys \<Rightarrow> [snd (last (y # ys))])" by simp
  show ?case
  proof (cases xs)
    case Nil
    then show ?thesis by (simp add: in_window_def)
  next
    case (Cons x xs')
    obtain u sn' where x: "x = (u, sn')" by fastforce
    have le: "t' \<le> u" "\<forall>z \<in> set xs. u \<le> fst z" using 2(2) Cons x by auto
    define h where "h = \<lparr>hr_id = i, hr_version = v, hr_snapshot = sn, hr_from = t', hr_to = Some u\<rparr>"
    have ws: "windows i v ((t', sn) # xs) = h # windows i (v + 1) xs" by (simp add: h_def Cons x)
    have h: "in_window t h \<longleftrightarrow> t' \<le> t \<and> \<not> u \<le> t" "hr_snapshot h = sn" by (auto simp: h_def in_window_def)
    show ?thesis
    proof (cases "u \<le> t")
      case True
      then have "filter (\<lambda>x. fst x \<le> t) xs = x # filter (\<lambda>x. fst x \<le> t) xs'" by (simp add: Cons x)
      with IH True le show ?thesis unfolding ws by (simp add: h)
    next
      case False
      with le(2) have none: "filter (\<lambda>x. fst x \<le> t) xs = []" by (fastforce simp: filter_empty_conv)
      with IH have "filter (in_window t) (windows i (v + 1) xs) = []" by simp
      with False none show ?thesis unfolding ws by (simp add: h)
    qed
  qed
qed simp

lemma valid_at_windows:
  assumes "filter (\<lambda>r. hr_id r = i) rows = windows i 1 xs" and "sorted (map fst xs)"
  shows "map_option hr_snapshot (valid_at i t rows) =
    (case filter (\<lambda>x. fst x \<le> t) xs of [] \<Rightarrow> None | y # ys \<Rightarrow> Some (snd (last (y # ys))))"
proof -
  have "filter (\<lambda>r. hr_id r = i \<and> hr_from r \<le> t \<and> (case hr_to r of None \<Rightarrow> True | Some u \<Rightarrow> t < u)) rows
      = filter (in_window t) (filter (\<lambda>r. hr_id r = i) rows)"
    by (simp add: in_window_def conj_commute)
  then have f: "filter (\<lambda>r. hr_id r = i \<and> hr_from r \<le> t \<and> (case hr_to r of None \<Rightarrow> True | Some u \<Rightarrow> t < u)) rows
      = filter (in_window t) (windows i 1 xs)" by (simp add: assms(1))
  note w = in_windows [OF assms(2), of t i 1]
  show ?thesis
  proof (cases "filter (\<lambda>x. fst x \<le> t) xs")
    case Nil
    with w have "filter (in_window t) (windows i 1 xs) = []" by simp
    with Nil show ?thesis by (simp add: valid_at_def f)
  next
    case (Cons y ys)
    with w obtain r where "filter (in_window t) (windows i 1 xs) = [r]" "hr_snapshot r = snd (last (y # ys))" by auto
    with Cons show ?thesis by (simp add: valid_at_def f)
  qed
qed

section \<open>The repository is a guarded store\<close>

definition invoice_version :: "invoice_db \<Rightarrow> string \<Rightarrow> int option" where
  "invoice_version d i = map_option ir_lock_version (lookup_row ir_id i (t_invoices d))"

definition invoices_keyed :: "invoice_db \<Rightarrow> bool" where
  "invoices_keyed d \<longleftrightarrow> distinct (map ir_id (t_invoices d))"

lemma Save_own_tx: "saved w = None \<Longrightarrow> Save env co s l w = in_own_tx (saveOn env co s l) w"
  by (simp add: Save_def bindA_def tryA_def in_tx_def)

lemma invoice_Save_cases:
  assumes "saved w = None" and "Save env co s l w = (r, w')"
  obtains (stored) sn where "r = Inr (is_Version s) \<or> (\<exists>e. r = Inl (DbError e))" "saved w' = None"
      "invoice_saved env co s l (me_time env (clk w)) sn (db w) (db w')"
  | (unchanged) e where "r = Inl e" "db w' = db w" "saved w' = None"
proof -
  from assms(2) have "in_own_tx (saveOn env co s l) w = (r, w')" by (simp add: Save_own_tx [OF assms(1)])
  then show thesis
    using assms(1) sane_saveOn
  proof (cases rule: in_own_tx_cases)
    case (committed a w1 w2)
    from saveOn_ok [OF committed(2)] committed stored show thesis by auto
  next
    case (failed e)
    with unchanged show thesis by blast
  next
    case (unanswered e a w1 w2)
    from saveOn_ok [OF unanswered(2)] unanswered stored show thesis by auto
  qed
qed

lemma calm_Save:
  assumes "quiet w" and "Save env co s l w = (r, w')"
  shows "quiet w'" and "r = Inl e \<Longrightarrow> db w' = db w"
proof -
  from assms have run: "in_own_tx (saveOn env co s l) w = (r, w')" and c: "calm w" "saved w = None"
    by (simp_all add: Save_own_tx quiet_def)
  have "saved w' = None" using invoice_Save_cases [OF c(2) assms(2)] by metis
  moreover have "calm w'" using keeps_run [OF calm_in_own_tx [OF calm_saveOn] c(1) run] .
  ultimately show "quiet w'" by (simp add: quiet_def)
  assume "r = Inl e"
  obtain rb w1 where b: "saveOn env co s l (w\<lparr>saved := Some (db w)\<rparr>) = (rb, w1)" by fastforce
  with c have "calm w1" using keeps_run [OF calm_saveOn _ b] by simp
  with run b c \<open>r = Inl e\<close> saneD(1) [OF sane_saveOn b] show "db w' = db w"
    by (cases rb) (auto simp: in_own_tx_def bindA_def tryA_def begin_tx_run commit_run rollback_run split: sum.splits)
qed

interpretation invoices: guarded_store "Save env co" is_ID is_Version invoice_version invoices_keyed
  for env co
proof
  fix w :: "invoice_db world" and e l v w' x
  assume q: "quiet w" and k: "invoices_keyed (db w)"
  show "quiet w' \<and> db w' = db w" if "Save env co e l w = (Inl x, w')"
    using calm_Save [OF q that] by simp
  assume run: "Save env co e l w = (Inr v, w')"
  from q have s: "saved w = None" by (simp add: quiet_def)
  from s run show "quiet w' \<and> invoices_keyed (db w') \<and> v = is_Version e \<and>
       invoice_version (db w) (is_ID e) \<in> {None, Some l} \<and>
       invoice_version (db w') (is_ID e) = Some (is_Version e) \<and>
       (\<forall>k. k \<noteq> is_ID e \<longrightarrow> invoice_version (db w') k = invoice_version (db w) k)"
  proof (cases rule: invoice_Save_cases)
    case (stored sn)
    then have "invoice_written env co (is_ID e) l (is_Version e) (t_invoices (db w)) (t_invoices (db w'))"
      by (simp add: invoice_saved_def)
    from invoice_written_rows [OF this] k stored calm_Save(1) [OF q run] show ?thesis
      by (auto simp: invoices_keyed_def invoice_version_def)
  qed simp
qed

lemma unique_keyed:
  "unique_keys (tb_keys (invoices_table env co)) rows \<Longrightarrow> distinct (map ir_id rows)"
  by (auto simp: unique_keys_def invoices_table_def distinct_map inj_on_def comp_def filter_True)

section \<open>Properties\<close>

lemma invoice_written_versions:
  assumes "invoice_written env co i l v (t_invoices d) (t_invoices d')" and "invoices_keyed d"
  shows "invoices_keyed d'" "invoice_version d i \<in> {None, Some l}" "invoice_version d' i = Some v"
    "\<forall>j. j \<noteq> i \<longrightarrow> invoice_version d' j = invoice_version d j"
  using invoice_written_rows [OF assms(1)] assms(2) by (auto simp: invoices_keyed_def invoice_version_def)

lemma invoice_saved_effect:
  assumes sv: "invoice_saved env co s l t sn d d'" and k: "invoices_keyed d" and h: "\<And>i. history_ok i (H i) d"
  shows "invoices_keyed d' \<and> invoice_version d (is_ID s) \<in> {None, Some l} \<and> invoice_version d' (is_ID s) = Some (is_Version s) \<and>
    recorded env co s sn \<and> history_ok (is_ID s) (H (is_ID s) @ [(t, sn)]) d' \<and>
    (\<forall>i. i \<noteq> is_ID s \<longrightarrow> invoice_version d' i = invoice_version d i \<and> history_ok i (H i) d')"
proof -
  from sv have w: "invoice_written env co (is_ID s) l (is_Version s) (t_invoices d) (t_invoices d')" "recorded env co s sn"
    by (simp_all add: invoice_saved_def)
  have "distinct (map ir_id (t_invoices d))" using k by (simp add: invoices_keyed_def)
  with invoice_written_versions [OF w(1) k] invoice_saved_history [OF sv _ h] w(2) h show ?thesis by blast
qed

lemma partly_saved_effect:
  assumes pt: "partly_saved env co s l t d d'" and k: "invoices_keyed d" and h: "\<And>i. history_ok i (H i) d"
  shows "invoices_keyed d' \<and> (\<forall>i. i \<noteq> is_ID s \<longrightarrow> invoice_version d' i = invoice_version d i \<and> history_ok i (H i) d') \<and>
    (d' = d \<or> invoice_version d (is_ID s) \<in> {None, Some l} \<and> invoice_version d' (is_ID s) = Some (is_Version s) \<and>
      (t_history d' = t_history d \<or> t_history d' = close_history (is_ID s) t (t_history d) \<or>
       (\<exists>sn. recorded env co s sn \<and> history_ok (is_ID s) (H (is_ID s) @ [(t, sn)]) d')))"
proof (cases "d' = d \<or> (\<exists>sn. invoice_saved env co s l t sn d d')")
  case True
  then show ?thesis
  proof
    assume "\<exists>sn. invoice_saved env co s l t sn d d'"
    then obtain sn where "invoice_saved env co s l t sn d d'" ..
    from invoice_saved_effect [where H = H, OF this k h] show ?thesis by blast
  qed (use k h in simp)
next
  case False
  with pt have w: "invoice_written env co (is_ID s) l (is_Version s) (t_invoices d) (t_invoices d')"
    and hist: "t_history d' = t_history d \<or> t_history d' = close_history (is_ID s) t (t_history d)"
    by (auto simp: partly_saved_def)
  have "distinct (map ir_id (t_invoices d))" using k by (simp add: invoices_keyed_def)
  note rows = invoice_written_rows [OF w this] and versions = invoice_written_versions [OF w k]
  have "filter (\<lambda>r. hr_id r = i) (t_history d') = filter (\<lambda>r. hr_id r = i) (t_history d)" if "i \<noteq> is_ID s" for i
    using hist that by (auto simp: filter_close_history)
  then have "\<forall>i. i \<noteq> is_ID s \<longrightarrow> history_ok i (H i) d'" using rows h by (simp add: history_ok_def)
  with versions hist show ?thesis by blast
qed

text \<open>C10. Whatever fails on the way, a save leaves every other invoice and its history as before. In a transaction of its
  own it is all or nothing: it changes nothing and reports an error, or, when it succeeds or only the answer of its commit
  is lost, the invoice is at the saved version and has exactly one new history window, which adjoins the previous one. In
  the caller's transaction success means the same; a failure may leave the row written and perhaps the last window
  closed, with no new one, and it is for the caller to roll back, which restores the contents at the begin.\<close>

theorem invoice_Save_all_or_nothing:
  assumes "invoices_keyed (db w)" and "\<And>i. history_ok i (H i) (db w)" and "Save env co s l w = (r, w')"
    and t: "t = me_time env (clk w)"
    and stored: "stored \<longleftrightarrow> invoice_version (db w) (is_ID s) \<in> {None, Some l} \<and> invoice_version (db w') (is_ID s) = Some (is_Version s) \<and>
       (\<exists>sn. recorded env co s sn \<and> history_ok (is_ID s) (H (is_ID s) @ [(t, sn)]) (db w'))"
  shows "saved w' = saved w \<and> invoices_keyed (db w') \<and>
    (\<forall>i. i \<noteq> is_ID s \<longrightarrow> invoice_version (db w') i = invoice_version (db w) i \<and> history_ok i (H i) (db w')) \<and>
    (case saved w of
       None \<Rightarrow> (\<exists>e. r = Inl e \<and> db w' = db w) \<or> (r = Inr (is_Version s) \<or> (\<exists>e. r = Inl (DbError e))) \<and> stored
     | Some d \<Rightarrow> db (snd (rollback w')) = d \<and>
         (case r of
            Inr v \<Rightarrow> v = is_Version s \<and> stored
          | Inl e \<Rightarrow> db w' = db w \<or> stored \<or>
              invoice_version (db w) (is_ID s) \<in> {None, Some l} \<and> invoice_version (db w') (is_ID s) = Some (is_Version s) \<and>
              t_history (db w') \<in> {t_history (db w), close_history (is_ID s) t (t_history (db w))}))"
proof (cases "saved w")
  case None
  from this assms(3) show ?thesis
  proof (cases rule: invoice_Save_cases)
    case (stored sn)
    from invoice_saved_effect [where H = H, OF stored(3) assms(1,2)] stored(1,2) None assms(4,5) show ?thesis by auto
  qed (use None assms(1,2) in auto)
next
  case (Some d)
  with assms(3) have run: "saveOn env co s l w = (r, w')" by (simp add: Save_def bindA_def tryA_def in_tx_def)
  note eff = saveOn_effect [OF run]
  then have sv: "saved w' = Some d" using Some by simp
  then have rb: "db (snd (rollback w')) = d" by (simp add: rollback_def split: fault.split)
  show ?thesis
  proof (cases r)
    case (Inl e)
    with eff t have "partly_saved env co s l t (db w) (db w')" by simp
    from partly_saved_effect [where H = H, OF this assms(1,2)] Inl Some sv rb stored show ?thesis by auto
  next
    case (Inr v)
    with eff t obtain sn where "v = is_Version s" "invoice_saved env co s l t sn (db w) (db w')" by auto
    with invoice_saved_effect [where H = H, OF this(2) assms(1,2)] Inr Some sv rb stored show ?thesis by auto
  qed
qed

text \<open>C11. The as-of lookup returns the state of the last save at or before the instant, and not-found
  when there is none, for any history whose saves are ordered in time.\<close>

theorem invoice_asof:
  assumes "calm w" and "history_ok i xs (db w)" and "sorted (map fst xs)"
    and "\<forall>x \<in> set xs. co_dec (ik_history co) (snd x) = Some (snap x) \<and> ik_valid co (snap x)"
  shows "FindByIDAsOf env co i t w =
    (case filter (\<lambda>x. fst x \<le> me_time env t) xs of
       [] \<Rightarrow> (Inl (DomainError ErrCodeNotFound None), w)
     | y # ys \<Rightarrow> (Inr \<lparr>in_snap = snap (last (y # ys)), in_loaded = is_Version (snap (last (y # ys)))\<rparr>, w))"
proof -
  have f: "filter (\<lambda>r. hr_id r = i) (t_history (db w)) = windows i 1 xs"
    using assms(2) by (simp add: history_ok_def)
  note v = valid_at_windows [OF f assms(3), of "me_time env t"]
  show ?thesis
  proof (cases "filter (\<lambda>x. fst x \<le> me_time env t) xs")
    case Nil
    with v assms(1) show ?thesis by (simp add: FindByIDAsOf_def tryA_def query_row_run)
  next
    case (Cons y ys)
    have "last (y # ys) \<in> set (filter (\<lambda>x. fst x \<le> me_time env t) xs)" unfolding Cons by simp
    then have m: "last (y # ys) \<in> set xs" by simp
    from v Cons obtain r where "valid_at i (me_time env t) (t_history (db w)) = Some r"
      "hr_snapshot r = snd (last (y # ys))" by auto
    with assms(1,4) Cons m show ?thesis
      by (auto simp: FindByIDAsOf_def tryA_def query_row_run InvoiceFromSnapshot_def liftA_def)
  qed
qed

text \<open>Of any number of writers that loaded the same version of an invoice, at most one \<open>Save\<close> succeeds
  and the stored version is then the winner's.\<close>

theorem invoice_one_winner:
  assumes "quiet w" and "invoices_keyed (db w)"
    and "\<forall>s \<in> set ss. is_ID s = k \<and> is_Version s \<noteq> l"
    and "attempts (\<lambda>s. Save env co s l) ss w = (ws, w')"
  shows "(ws = [] \<and> db w' = db w) \<or>
    (\<exists>s \<in> set ss. ws = [s] \<and> invoice_version (db w) k \<in> {None, Some l} \<and>
       invoice_version (db w') k = Some (is_Version s))"
  by (rule invoices.one_winner [OF assms])

lemma unique_keys_same:
  assumes "unique_keys keys rows" and "k \<in> set keys" and "x \<in> set rows" "y \<in> set rows" and "snd k x = Some a" "snd k y = Some a"
  shows "x = y"
proof -
  have "distinct (map (snd k) (filter (\<lambda>r. snd k r \<noteq> None) rows))"
    using assms(1,2) by (simp add: unique_keys_def filter_map comp_def)
  moreover have "x \<in> set (filter (\<lambda>r. snd k r \<noteq> None) rows)" "y \<in> set (filter (\<lambda>r. snd k r \<noteq> None) rows)"
    using assms(3-) by simp_all
  ultimately show ?thesis using assms(5,6) by (metis distinct_map inj_on_def)
qed

text \<open>C12. A contract is invoiced at most once for a billing period: of the invoices that are neither voided nor prorations,
  no two are of one contract and one period. A save in its own transaction keeps that, whatever fails; and without faults a
  new invoice for a period that is taken by another is refused with a conflict that is not retryable, nothing being
  changed.\<close>

theorem invoice_period_once:
  assumes "saved w = None" and "unique_keys (tb_keys (invoices_table env co)) (t_invoices (db w))"
    and "Save env co s l w = (r, w')"
  shows "unique_keys (tb_keys (invoices_table env co)) (t_invoices (db w')) \<and>
    (\<forall>r1 \<in> set (t_invoices (db w')). \<forall>r2 \<in> set (t_invoices (db w')). \<forall>t1 t2.
       ir_status r1 \<noteq> ''voided'' \<and> me_extract env (ir_metadata r1) ''$.invoice_type'' \<noteq> Some ''proration'' \<and>
       ir_status r2 \<noteq> ''voided'' \<and> me_extract env (ir_metadata r2) ''$.invoice_type'' \<noteq> Some ''proration'' \<and>
       ir_contract r1 = ir_contract r2 \<and> ir_from r1 = Some t1 \<and> ir_from r2 = Some t1 \<and>
       ir_to r1 = Some t2 \<and> ir_to r2 = Some t2 \<longrightarrow> r1 = r2) \<and>
    (\<forall>js md st m r0 k. calm w \<and> is_ID s \<notin> ir_id ` set (t_invoices (db w)) \<and>
       co_enc (ik_state co) (is_state s) = Some js \<and> co_enc (ik_meta co) (is_Metadata s) = Some md \<and>
       json_columns env js md = Inr (st, m) \<and> r0 \<in> set (t_invoices (db w)) \<and>
       period_uniq_key env co r0 = Some k \<and>
       period_uniq_key env co (invoice_to_row env co s st m (snow w)) = Some k \<longrightarrow>
       r = Inl (DomainError ErrCodeConflict None) \<and> db w' = db w)"
proof (intro conjI ballI allI impI)
  note s = assms(1)
  from s assms(3) show u: "unique_keys (tb_keys (invoices_table env co)) (t_invoices (db w'))"
  proof (cases rule: invoice_Save_cases)
    case (stored sn)
    with assms(2) show ?thesis
      by (auto simp: invoice_saved_def invoice_written_def intro: insert_row_unique update_one_unique)
  qed (use assms(2) in simp)
  fix r1 r2 t1 t2
  assume m: "r1 \<in> set (t_invoices (db w'))" "r2 \<in> set (t_invoices (db w'))"
    and "ir_status r1 \<noteq> ''voided'' \<and> me_extract env (ir_metadata r1) ''$.invoice_type'' \<noteq> Some ''proration'' \<and>
       ir_status r2 \<noteq> ''voided'' \<and> me_extract env (ir_metadata r2) ''$.invoice_type'' \<noteq> Some ''proration'' \<and>
       ir_contract r1 = ir_contract r2 \<and> ir_from r1 = Some t1 \<and> ir_from r2 = Some t1 \<and>
       ir_to r1 = Some t2 \<and> ir_to r2 = Some t2"
  then have "period_uniq_key env co r1 = Some (ir_contract r1 @ ''|'' @ ik_datetime co t1 @ ''|'' @ ik_datetime co t2)"
    "period_uniq_key env co r2 = Some (ir_contract r1 @ ''|'' @ ik_datetime co t1 @ ''|'' @ ik_datetime co t2)"
    by (simp_all add: period_uniq_key_def)
  with m show "r1 = r2"
    by (intro unique_keys_same [OF u, of "(''ux_invoice_period'', period_uniq_key env co)"]) (simp_all add: invoices_table_def)
next
  note s = assms(1)
  fix js md st m r0 k
  assume a: "calm w \<and> is_ID s \<notin> ir_id ` set (t_invoices (db w)) \<and>
       co_enc (ik_state co) (is_state s) = Some js \<and> co_enc (ik_meta co) (is_Metadata s) = Some md \<and>
       json_columns env js md = Inr (st, m) \<and> r0 \<in> set (t_invoices (db w)) \<and>
       period_uniq_key env co r0 = Some k \<and>
       period_uniq_key env co (invoice_to_row env co s st m (snow w)) = Some k"
  then have c: "calm w" by blast
  let ?row = "invoice_to_row env co s st m (snow w)"
  let ?w = "w\<lparr>saved := Some (db w)\<rparr>"
  have cl: "find (clashes (t_invoices (db w)) ?row) (tb_keys (invoices_table env co))
      = Some (''ux_invoice_period'', period_uniq_key env co)"
    using a by (force simp: invoices_table_def clashes_def)
  have dup: "dupEntryOnKey (DbError (dup_error (tb_name (invoices_table env co))
      (''ux_invoice_period'', period_uniq_key env co) ?row)) ''ux_invoice_period''"
    by (subst dupEntryOnKey_dup) (auto simp: quote_char_def contains_def sublist_code invoices_table_def)
  have "\<forall>x \<in> set (t_invoices (db w)). ir_id x \<noteq> is_ID s" using a by (auto simp: image_iff)
  then have miss: "List.extract (\<lambda>r. ir_id r = is_ID s \<and> ir_lock_version r = l) (t_invoices (db w)) = None"
    "find (\<lambda>r. ir_id r = is_ID s) (t_invoices (db w)) = None"
    by (auto simp: extract_None_iff find_None_iff)
  have "write_invoice env co s l js md ?w = (Inl (DomainError ErrCodeConflict None), ?w)"
    using a c cl dup miss
    by (simp add: write_invoice_def bindA_def tryA_def mapErrA_def update_invoice_def insert_invoice_def
        update_where_run insert_into_run query_row_run update_one_def insert_row_def translateInvoiceSaveErr_def)
  with a c s assms(3) show "r = Inl (DomainError ErrCodeConflict None)" "db w' = db w"
    by (auto simp: Save_own_tx in_own_tx_def saveOn_def bindA_def tryA_def begin_tx_run rollback_run)
qed

section \<open>Witnesses\<close>

text \<open>A table with one invoice, issued at 3 for the period from 10 to 20.\<close>

definition demo_state :: invoiceJSONState where
  "demo_state = zero_invoiceJSONState\<lparr>iv_BillingPeriod := Some (10, 20)\<rparr>"

definition demo_inv :: "string \<Rightarrow> string \<Rightarrow> int \<Rightarrow> invoice_snapshot" where
  "demo_inv i status v = \<lparr>is_ID = i, is_InvoiceNumber = ''1'', is_AccountID = ''a'', is_ContractID = ''c'',
     is_Status = status, is_state = demo_state, is_IssueDate = 3, is_DueDate = 30, is_PaidAt = None,
     is_PaymentMethodID = None, is_AllowPartialPay = False, is_OriginalInvoiceID = None, is_RevisionOf = None,
     is_VoidReason = [], is_Metadata = [], is_Version = v\<rparr>"

definition demo_inv_core :: invoice_core where
  "demo_inv_core = \<lparr>ik_int64 = (\<lambda>_. 0), ik_state = \<lparr>co_enc = (\<lambda>_. Some ''S''), co_dec = (\<lambda>_. Some demo_state)\<rparr>,
     ik_meta = \<lparr>co_enc = (\<lambda>_. Some ''M''), co_dec = (\<lambda>_. Some [])\<rparr>,
     ik_history = \<lparr>co_enc = (\<lambda>s. Some (is_Status s)), co_dec = (\<lambda>t. Some (demo_inv ''v1'' t 1))\<rparr>,
     ik_valid = (\<lambda>_. True), ik_datetime = format_int\<rparr>"

definition demo_invs :: "invoice_db world" where
  "demo_invs = \<lparr>db = \<lparr>t_invoices = [invoice_to_row demo_env demo_inv_core (demo_inv ''v1'' ''issued'' 1) ''S'' ''M'' 3],
       t_history = [\<lparr>hr_id = ''v1'', hr_version = 1, hr_snapshot = ''issued'', hr_from = 3, hr_to = None\<rparr>]\<rparr>,
     saved = None, autoinc = 1, clk = 5, snow = 6, faults = []\<rparr>"

definition demo_hist :: "string \<Rightarrow> (time \<times> string) list" where
  "demo_hist i = (if i = ''v1'' then [(3, ''issued'')] else [])"

lemma demo_invs_ok: "calm demo_invs" "quiet demo_invs" "saved demo_invs = None" "invoices_keyed (db demo_invs)"
    "history_ok i (demo_hist i) (db demo_invs)"
    "unique_keys (tb_keys (invoices_table demo_env demo_inv_core)) (t_invoices (db demo_invs))"
  by (auto simp: demo_invs_def quiet_def invoices_keyed_def history_ok_def demo_hist_def lookup_row_def demo_inv_def
      unique_keys_def)

lemma demo_columns: "json_columns demo_env ''S'' ''M'' = Inr (''S'', ''M'')"
    "co_enc (ik_state demo_inv_core) a = Some ''S''" "co_enc (ik_meta demo_inv_core) b = Some ''M''"
  by (simp_all add: json_columns_def demo_env_def demo_inv_core_def)

lemma demo_paid: "\<exists>w'. Save demo_env demo_inv_core (demo_inv ''v1'' ''paid'' 2) 1 demo_invs = (Inr 2, w')"
proof -
  let ?s = "demo_inv ''v1'' ''paid'' 2"
  let ?w = "demo_invs\<lparr>saved := Some (db demo_invs)\<rparr>"
  let ?f = "\<lambda>r. (invoice_to_row demo_env demo_inv_core ?s ''S'' ''M'' 6)\<lparr>ir_account := ir_account r,
     ir_contract := ir_contract r, ir_version := ir_version r + 1, ir_created := ir_created r\<rparr>"
  have "\<exists>rows. update_one (tb_name (invoices_table demo_env demo_inv_core)) (tb_keys (invoices_table demo_env demo_inv_core))
      (\<lambda>r. ir_id r = is_ID ?s \<and> ir_lock_version r = 1) ?f (t_invoices (db demo_invs)) = Inr (1, rows)"
    by (simp add: demo_invs_def update_one_def extract_Cons_code demo_inv_def clashes_def invoice_to_row_def Let_def
        invoices_table_def)
  moreover have "snow demo_invs = 6" by (simp add: demo_invs_def)
  ultimately have "\<exists>w1. write_invoice demo_env demo_inv_core ?s 1 ''S'' ''M'' ?w = (Inr (), w1)"
    by (auto simp add: write_invoice_def bindA_def tryA_def mapErrA_def update_invoice_def update_where_run
        demo_invs_ok(1) demo_columns(1))
  then obtain w1 where w1: "write_invoice demo_env demo_inv_core ?s 1 ''S'' ''M'' ?w = (Inr (), w1)" ..
  have "keeps calm (write_invoice demo_env demo_inv_core ?s 1 ''S'' ''M'')"
    unfolding write_invoice_def update_invoice_def insert_invoice_def by (intro keeps_intros)
  from keepsD [OF this, of ?w] w1 have c1: "calm w1" using demo_invs_ok(1) by simp
  have "\<exists>w2. write_history demo_env demo_inv_core ?s w1 = (Inr (), w2) \<and> calm w2"
    using c1 by (simp add: write_history_def bindA_def tryA_def clock_now_def close_current_def exec_stmt_run
        insert_history_def json_column_def demo_env_def demo_inv_core_def)
  then obtain w2 where "write_history demo_env demo_inv_core ?s w1 = (Inr (), w2)" "calm w2" by blast
  moreover have "is_Version ?s = 2" by (simp add: demo_inv_def)
  ultimately show ?thesis using w1
    by (simp add: Save_own_tx demo_invs_ok in_own_tx_def bindA_def tryA_def begin_tx_run saveOn_def demo_columns
        commit_run)
qed

theorem invoice_Save_all_or_nothing_witness:
  "\<exists>w'. Save demo_env demo_inv_core (demo_inv ''v1'' ''paid'' 2) 1 demo_invs = (Inr 2, w') \<and>
     history_ok ''v1'' [(3, ''issued''), (5, ''paid'')] (db w')"
proof -
  obtain w' where run: "Save demo_env demo_inv_core (demo_inv ''v1'' ''paid'' 2) 1 demo_invs = (Inr 2, w')"
    using demo_paid by blast
  have rec: "recorded demo_env demo_inv_core (demo_inv ''v1'' ''paid'' 2) sn \<Longrightarrow> sn = ''paid''" for sn
    by (simp add: recorded_def demo_inv_core_def demo_env_def json_column_def demo_inv_def)
  have t: "me_time demo_env (clk demo_invs) = 5" "is_ID (demo_inv ''v1'' ''paid'' 2) = ''v1''"
    by (simp_all add: demo_env_def demo_invs_def demo_inv_def)
  from invoice_Save_all_or_nothing [OF demo_invs_ok(4,5) run refl refl] obtain sn
    where "recorded demo_env demo_inv_core (demo_inv ''v1'' ''paid'' 2) sn"
      "history_ok ''v1'' (demo_hist ''v1'' @ [(5, sn)]) (db w')"
    unfolding t demo_invs_ok(3) by auto
  with rec run show ?thesis by (auto simp: demo_hist_def)
qed

theorem invoice_asof_witness:
  "FindByIDAsOf demo_env demo_inv_core ''v1'' 4 demo_invs
     = (Inr \<lparr>in_snap = demo_inv ''v1'' ''issued'' 1, in_loaded = 1\<rparr>, demo_invs) \<and>
   FindByIDAsOf demo_env demo_inv_core ''v1'' 2 demo_invs = (Inl (DomainError ErrCodeNotFound None), demo_invs)"
proof -
  have h: "history_ok ''v1'' [(3, ''issued'')] (db demo_invs)" using demo_invs_ok(5) [of "''v1''"] by (simp add: demo_hist_def)
  have d: "\<forall>x \<in> set [(3, ''issued'')]. co_dec (ik_history demo_inv_core) (snd x) = Some (demo_inv ''v1'' ''issued'' 1) \<and>
      ik_valid demo_inv_core (demo_inv ''v1'' ''issued'' 1)"
    by (simp add: demo_inv_core_def)
  from invoice_asof [OF demo_invs_ok(1) h _ d, of demo_env 4] invoice_asof [OF demo_invs_ok(1) h _ d, of demo_env 2]
  show ?thesis by (simp add: demo_env_def demo_inv_def)
qed

theorem invoice_one_winner_witness:
  "\<exists>s w'. attempts (\<lambda>s. Save demo_env demo_inv_core s 1) [demo_inv ''v1'' ''paid'' 2, demo_inv ''v1'' ''voided'' 2]
     demo_invs = ([s], w') \<and> invoice_version (db w') ''v1'' = Some 2"
proof -
  let ?ss = "[demo_inv ''v1'' ''paid'' 2, demo_inv ''v1'' ''voided'' 2]"
  obtain ws w' where run: "attempts (\<lambda>s. Save demo_env demo_inv_core s 1) ?ss demo_invs = (ws, w')" by fastforce
  obtain w1 where "Save demo_env demo_inv_core (demo_inv ''v1'' ''paid'' 2) 1 demo_invs = (Inr 2, w1)"
    using demo_paid by blast
  with run have "ws \<noteq> []" by (auto split: prod.splits)
  with invoice_one_winner [OF demo_invs_ok(2,4) _ run, of "''v1''"] run show ?thesis
    by (auto simp: demo_inv_def)
qed

theorem invoice_period_once_witness:
  "\<exists>w'. Save demo_env demo_inv_core (demo_inv ''v2'' ''issued'' 1) 0 demo_invs
     = (Inl (DomainError ErrCodeConflict None), w') \<and> db w' = db demo_invs"
proof -
  let ?s = "demo_inv ''v2'' ''issued'' 1"
  obtain r w' where run: "Save demo_env demo_inv_core ?s 0 demo_invs = (r, w')" by fastforce
  let ?r0 = "invoice_to_row demo_env demo_inv_core (demo_inv ''v1'' ''issued'' 1) ''S'' ''M'' 3"
  have rows: "t_invoices (db demo_invs) = [?r0]" by (simp add: demo_invs_def)
  have k: "period_uniq_key demo_env demo_inv_core (invoice_to_row demo_env demo_inv_core (demo_inv i ''issued'' v) st m n)
      = Some (''c|10|20'')" for i v st m n
  proof -
    have "format_int 10 = ''10''" "format_int 20 = ''20''" by code_simp+
    then show ?thesis
      by (simp add: period_uniq_key_def invoice_to_row_def Let_def demo_inv_def demo_state_def demo_env_def demo_inv_core_def)
  qed
  have "is_ID ?s \<notin> ir_id ` set (t_invoices (db demo_invs))" by (simp add: rows demo_inv_def)
  with conjunct2 [OF conjunct2 [OF invoice_period_once [OF demo_invs_ok(3,6) run]]] demo_invs_ok(1) demo_columns k rows
  have "r = Inl (DomainError ErrCodeConflict None) \<and> db w' = db demo_invs" by (metis list.set_intros(1))
  with run show ?thesis by blast
qed

end
