(* ===== verification/My_Tx.thy ===== *)
theory My_Tx
  imports My_EventStore_Props
begin

text \<open>
  The unit of work of \<open>mysql/tx_manager.go\<close> and the context functions of \<open>mysql/conn.go\<close>: \<open>RunInTx\<close> runs a function in a transaction of its own, or
  in the one its context carries. What the function does is a parameter; here are the laws of any function
  that leaves the transaction's scope alone, and the composition of two appends of the event store.
\<close>

fun TxFromContext :: "'t gocontext \<Rightarrow> 't option" where
  "TxFromContext Background = None"
| "TxFromContext (WithTx ctx tx) = Some tx"
| "TxFromContext (WithValue ctx _) = TxFromContext ctx"

definition ContextWithTx :: "'t gocontext \<Rightarrow> 't \<Rightarrow> 't gocontext" where
  "ContextWithTx ctx tx = WithTx ctx tx"

definition querierFromContext :: "'t gocontext \<Rightarrow> 'p \<Rightarrow> ('t, 'p) querier" where
  "querierFromContext ctx d = (case TxFromContext ctx of Some tx \<Rightarrow> TxQuerier tx | None \<Rightarrow> PoolQuerier d)"

text \<open>Whatever values are added to it, a context of a transaction leads every repository to that transaction.\<close>

lemma TxFromContext_values: "TxFromContext (foldl WithValue ctx vs) = TxFromContext ctx"
  by (induction vs arbitrary: ctx) simp_all

lemma querier_in_tx:
  "querierFromContext (foldl WithValue (ContextWithTx ctx tx) vs) d = TxQuerier tx"
  by (simp add: querierFromContext_def ContextWithTx_def TxFromContext_values)

text \<open>The error of a failed rollback wraps the function's, so it is that error.\<close>

definition RunInTx :: "('d, 'a) sql \<Rightarrow> ('d, 'a) sql" where
  "RunInTx fn = bindA in_tx (\<lambda>existing.
     if existing then fn
     else bindA begin_tx (\<lambda>_.
       tryA fn (\<lambda>err. tryA rollback (\<lambda>rbErr. throw err) (\<lambda>_. throw err))
         (\<lambda>a. bindA commit (\<lambda>_. ret a))))"

lemma RunInTx_own: "saved w = None \<Longrightarrow> RunInTx fn w = in_own_tx fn w"
  by (simp add: RunInTx_def in_own_tx_def in_tx_def bindA_run)

lemma RunInTx_nested: "saved w \<noteq> None \<Longrightarrow> RunInTx fn w = fn w"
  by (simp add: RunInTx_def in_tx_def bindA_run)

lemma RunInTx_alt: "RunInTx fn = bindA in_tx (\<lambda>ambient. if ambient then fn else in_own_tx fn)"
  unfolding RunInTx_def in_own_tx_def ..

lemma calm_RunInTx [keeps_intros]: "keeps calm fn \<Longrightarrow> keeps calm (RunInTx fn)"
  unfolding RunInTx_alt by (intro keeps_intros)

text \<open>Without faults: the function's run on the open transaction, then committed or undone.\<close>

lemma in_own_tx_calm:
  assumes "calm w" and "keeps calm fn"
  shows "in_own_tx fn w = (case fn (w\<lparr>saved := Some (db w)\<rparr>) of
      (Inl e, w2) \<Rightarrow> (Inl e, restore w2) | (Inr a, w2) \<Rightarrow> (Inr a, w2\<lparr>saved := None\<rparr>))"
proof -
  obtain r w2 where run: "fn (w\<lparr>saved := Some (db w)\<rparr>) = (r, w2)" by fastforce
  then have "calm w2" using keeps_run [OF assms(2) _ run] assms(1) by simp
  with assms(1) run show ?thesis
    by (cases r) (auto simp: in_own_tx_def bindA_def tryA_def begin_tx_run rollback_run commit_run)
qed

lemma in_own_tx_cong: "fn (w\<lparr>saved := Some (db w)\<rparr>) = gn (w\<lparr>saved := Some (db w)\<rparr>) \<Longrightarrow> calm w \<Longrightarrow>
    keeps calm fn \<Longrightarrow> keeps calm gn \<Longrightarrow> in_own_tx fn w = in_own_tx gn w"
  by (simp add: in_own_tx_calm)

text \<open>Only the function's runs inside a transaction count.\<close>

lemma in_own_tx_inside:
  assumes "\<And>w1. saved w1 \<noteq> None \<Longrightarrow> fn w1 = gn w1"
  shows "in_own_tx fn w = in_own_tx gn w"
proof -
  obtain r w1 where b: "begin_tx w = (r, w1)" by fastforce
  show ?thesis
  proof (cases r)
    case (Inl e)
    then show ?thesis by (simp add: in_own_tx_def bindA_run [of begin_tx w, OF b])
  next
    case (Inr u)
    then have "saved w1 \<noteq> None" using b by (auto simp: begin_tx_def split: fault.splits)
    then have "fn w1 = gn w1" by (rule assms)
    with Inr show ?thesis by (simp add: in_own_tx_def bindA_run [of begin_tx w, OF b] tryA_def)
  qed
qed

section \<open>Two appends in one unit of work\<close>

lemma Append_ambient: "saved w \<noteq> None \<Longrightarrow> es \<noteq> [] \<Longrightarrow> Append env s es v w = appendOn env s es v w"
  by (simp add: Append_def in_tx_def bindA_def tryA_def)

definition append_both :: "menv \<Rightarrow> string \<Rightarrow> event list \<Rightarrow> int \<Rightarrow> string \<Rightarrow> event list \<Rightarrow> int
    \<Rightarrow> ('m my_db_scheme, unit) sql" where
  "append_both env s1 es1 v1 s2 es2 v2 = bindA (Append env s1 es1 v1) (\<lambda>_. Append env s2 es2 v2)"

lemma append_both_effect:
  assumes "bindA (appendOn env s1 es1 v1) (\<lambda>_. appendOn env s2 es2 v2) w = (Inr (), w')"
    and "events_wf (db w) (autoinc w)"
  obtains rows1 rows2 where "events_wf (db w') (autoinc w')" "count_stream s1 (db w) = v1"
    "count_stream s2 ((db w)\<lparr>t_events := t_events (db w) @ rows1\<rparr>) = v2"
    "db w' = (db w)\<lparr>t_events := t_events (db w) @ rows1 @ rows2\<rparr>"
    "list_all2 (stored env s1 (clk w)) (numbered v1 es1) rows1"
    "list_all2 (stored env s2 (clk w)) (numbered v2 es2) rows2"
proof -
  from assms(1) obtain w1 where r: "appendOn env s1 es1 v1 w = (Inr (), w1)" "appendOn env s2 es2 v2 w1 = (Inr (), w')"
    by (auto simp: bindA_Inr)
  from appendOn_effect [OF r(1) assms(2)] obtain rows1 where 1: "clk w1 = clk w" "events_wf (db w1) (autoinc w1)"
    "count_stream s1 (db w) = v1" "db w1 = (db w)\<lparr>t_events := t_events (db w) @ rows1\<rparr>"
    "list_all2 (stored env s1 (clk w)) (numbered v1 es1) rows1" by auto
  from appendOn_effect [OF r(2) 1(2)] obtain rows2 where 2: "events_wf (db w') (autoinc w')"
    "count_stream s2 (db w1) = v2" "db w' = (db w1)\<lparr>t_events := t_events (db w1) @ rows2\<rparr>"
    "list_all2 (stored env s2 (clk w1)) (numbered v2 es2) rows2" by auto
  show thesis by (rule that [of rows1 rows2]) (use 1 2 in simp_all)
qed

text \<open>A unit of work of two appends is all or nothing, whatever statement fails: either the log is
  unchanged, or both streams had exactly the expected number of events and both are extended, one row per
  event. Success means the second; a failure with the second is a commit whose answer was lost. The log stays
  well formed.\<close>

theorem RunInTx_appends:
  assumes "events_wf (db w) (autoinc w)" and "saved w = None" and "es1 \<noteq> []" and "es2 \<noteq> []"
    and "RunInTx (append_both env s1 es1 v1 s2 es2 v2) w = (r, w')"
  shows "events_wf (db w') (autoinc w') \<and> saved w' = None \<and>
    (db w' = db w \<and> r \<noteq> Inr () \<or>
     (\<exists>rows1 rows2. db w' = (db w)\<lparr>t_events := t_events (db w) @ rows1 @ rows2\<rparr> \<and>
        count_stream s1 (db w) = v1 \<and> count_stream s2 ((db w)\<lparr>t_events := t_events (db w) @ rows1\<rparr>) = v2 \<and>
        list_all2 (stored env s1 (clk w)) (numbered v1 es1) rows1 \<and>
        list_all2 (stored env s2 (clk w)) (numbered v2 es2) rows2) \<and>
     (r = Inr () \<or> (\<exists>e. r = Inl (DbError e))))"
proof -
  let ?fn = "bindA (appendOn env s1 es1 v1) (\<lambda>_. appendOn env s2 es2 v2)"
  have inside: "append_both env s1 es1 v1 s2 es2 v2 w1 = ?fn w1" if "saved w1 \<noteq> None" for w1
  proof (cases "appendOn env s1 es1 v1 w1")
    case (Pair r2 w2)
    with saneD(1) [OF sane_appendOn Pair] that assms(3,4) show ?thesis
      by (cases r2) (simp_all add: append_both_def bindA_def tryA_def Append_ambient)
  qed
  have run: "in_own_tx ?fn w = (r, w')"
    using assms(5) by (simp add: RunInTx_own [OF assms(2)] in_own_tx_inside [OF inside])
  have "sane ?fn" by (intro sane_bindA sane_appendOn)
  from run assms(2) this show ?thesis
  proof (cases rule: in_own_tx_cases)
    case (committed a w1 w2)
    then have "events_wf (db w1) (autoinc w1)" using assms(1) by simp
    moreover have "?fn w1 = (Inr (), w2)" using committed(2) by simp
    ultimately show ?thesis by - (erule append_both_effect, assumption, use committed in auto)
  next
    case (failed e)
    with assms show ?thesis by (auto intro: events_wf_mono)
  next
    case (unanswered e a w1 w2)
    then have "events_wf (db w1) (autoinc w1)" using assms(1) by simp
    moreover have "?fn w1 = (Inr (), w2)" using unanswered(2) by simp
    ultimately show ?thesis by - (erule append_both_effect, assumption, use unanswered in auto)
  qed
qed

definition demo_other :: event where
  "demo_other = (demo_event 1)\<lparr>ev_ID := ''e2''\<rparr>"

theorem RunInTx_appends_witness:
  "\<exists>w' row1 row2. RunInTx (append_both demo_menv ''s'' [demo_event 1] 0 ''t'' [demo_other] 0) demo_world = (Inr (), w')
     \<and> t_events (db w') = [row1, row2] \<and> er_stream row1 = ''s'' \<and> er_stream row2 = ''t''"
proof -
  have "fst (RunInTx (append_both demo_menv ''s'' [demo_event 1] 0 ''t'' [demo_other] 0) demo_world) = Inr ()"
    by code_simp
  then obtain w' where run:
    "RunInTx (append_both demo_menv ''s'' [demo_event 1] 0 ''t'' [demo_other] 0) demo_world = (Inr (), w')"
    by (metis prod.collapse)
  from RunInTx_appends [OF demo_world_wf _ _ run] show ?thesis using run
    by (auto simp: list_all2_Cons1 stored_def demo_world_def)
qed

end
