(* ===== verification/My_Projection.thy ===== *)
theory My_Projection
  imports My_EventStore My_Values Go_Json
begin

text \<open>
  The read models of \<open>mysql/contract_projector.go\<close> and \<open>mysql/invoice_projector.go\<close> with the
  checkpoints of \<open>mysql/projection_checkpoint.go\<close>. The database extends the event store's by the
  read-model tables; their \<open>created_at\<close> and \<open>updated_at\<close> columns, which nothing reads, are left out.

  Parameters of the model (record \<open>penv\<close>): the kind of an event type, since the names of the types
  are constants of the core library, the core's upcaster chain, and the JSON parser. An object with a
  repeated key keeps the last value, as a Go map does.
\<close>

section \<open>The database\<close>

record contract_rm =
  cm_id :: string
  cm_account :: string
  cm_status :: string
  cm_start :: "time option"
  cm_end :: "time option"
  cm_renewal :: "time option"
  cm_trial_end :: "time option"
  cm_price :: string
  cm_data :: string
  cm_version :: int

record invoice_rm =
  im_id :: string
  im_contract :: string
  im_account :: string
  im_status :: string
  im_total :: int64
  im_currency :: string
  im_data :: string
  im_version :: int

record read_db = my_db +
  t_contract_rms :: "contract_rm list"
  t_invoice_rms :: "invoice_rm list"
  t_checkpoints :: "(string \<times> int) list"

datatype contract_event = ContractCreated | ContractActivated | ContractSuspended | ContractResumed
  | ContractPastDue | ContractRecovered | ContractCancelled | ContractRenewed | ContractExpired
  | TrialStarted | TrialEnded | PriceChanged | PriceChangeScheduled | PriceChangeUnscheduled
  | CancellationScheduled | CancellationUnscheduled | PaymentMethodChanged | NotContractEvent

record penv =
  pe_env :: menv
  pe_kind :: "string \<Rightarrow> contract_event"
  pe_upcast :: "event \<Rightarrow> repo_error + event"
  pe_parse :: "string \<Rightarrow> json option"

section \<open>Checkpoints\<close>

definition ContractProjectorName :: string where "ContractProjectorName = ''contract''"
definition InvoiceProjectorName :: string where "InvoiceProjectorName = ''invoice''"

definition checkpoint_Load :: "string \<Rightarrow> (read_db, int) sql" where
  "checkpoint_Load projectorName = tryA
     (query_row (\<lambda>d. map_option snd (find (\<lambda>c. fst c = projectorName) (t_checkpoints d))))
     (\<lambda>e. if as_db e = Some ErrNoRows then ret 0 else throw e) ret"

definition checkpoint_Save :: "string \<Rightarrow> int \<Rightarrow> (read_db, unit) sql" where
  "checkpoint_Save projectorName position = exec_stmt (\<lambda>d. (Inr (),
     d\<lparr>t_checkpoints := upsert_row fst (projectorName, position) (\<lambda>_. (projectorName, position)) (t_checkpoints d)\<rparr>))"

definition checkpoint_Reset :: "string \<Rightarrow> (read_db, unit) sql" where
  "checkpoint_Reset projectorName = exec_stmt (\<lambda>d. (Inr (),
     d\<lparr>t_checkpoints := filter (\<lambda>c. fst c \<noteq> projectorName) (t_checkpoints d)\<rparr>))"

section \<open>Payloads\<close>

text \<open>\<open>json.Unmarshal\<close> into a \<open>map[string]any\<close>; the type assertions on its values.\<close>

definition payload :: "(string \<Rightarrow> json option) \<Rightarrow> string \<Rightarrow> repo_error + jobj" where
  "payload parse data = (if data = [] then Inr []
     else (case parse data of
         Some (JObj o') \<Rightarrow> Inr o' | Some JNull \<Rightarrow> Inr [] | _ \<Rightarrow> Inl (OtherError ''unmarshal event data'')))"

definition key_value :: "string \<Rightarrow> jobj \<Rightarrow> json option" where
  "key_value k o' = map_of (rev o') k"

fun as_str :: "json option \<Rightarrow> string option" where
  "as_str (Some (JStr s)) = Some s"
| "as_str _ = None"

fun as_obj :: "json option \<Rightarrow> jobj option" where
  "as_obj (Some (JObj o')) = Some o'"
| "as_obj _ = None"

definition string_at :: "string \<Rightarrow> jobj \<Rightarrow> string" where
  "string_at k o' = (case as_str (key_value k o') of Some s \<Rightarrow> s | None \<Rightarrow> [])"

definition parseTime :: "string \<Rightarrow> time option" where
  "parseTime s = (if s = [] then None
     else (case parse_rfc3339 s of
         None \<Rightarrow> None | Some t \<Rightarrow> if is_zero_time t then None else Some t))"

text \<open>The time under two keys, such as the end of the current period.\<close>

definition time_at :: "string \<Rightarrow> string \<Rightarrow> jobj \<Rightarrow> time option" where
  "time_at k1 k2 o' = Option.bind (as_obj (key_value k1 o')) (\<lambda>p.
     Option.bind (as_str (key_value k2 p)) parseTime)"

section \<open>The contract projector\<close>

text \<open>\<open>UPDATE contract_read_models SET ..., data = ?, version = ? WHERE id = ?\<close>; the JSON text is
  only converted for a row that is updated.\<close>

definition update_contract :: "penv \<Rightarrow> event \<Rightarrow> (contract_rm \<Rightarrow> contract_rm) \<Rightarrow> (read_db, unit) sql" where
  "update_contract pe e f = exec_stmt (\<lambda>d.
     if \<forall>r \<in> set (t_contract_rms d). cm_id r \<noteq> ev_StreamID e then (Inr (), d)
     else (case json_column (pe_env pe) (normalizeJSON (ev_Data e)) of
         Inl x \<Rightarrow> (Inl x, d)
       | Inr data \<Rightarrow> (Inr (), d\<lparr>t_contract_rms := map (\<lambda>r. if cm_id r = ev_StreamID e
           then (f r)\<lparr>cm_data := data, cm_version := ev_Version e\<rparr> else r) (t_contract_rms d)\<rparr>)))"

definition set_status :: "string \<Rightarrow> contract_rm \<Rightarrow> contract_rm" where
  "set_status s r = r\<lparr>cm_status := s\<rparr>"

definition coalesce :: "'a option \<Rightarrow> 'a option \<Rightarrow> 'a option" where
  "coalesce a b = (case a of None \<Rightarrow> b | Some x \<Rightarrow> Some x)"

definition set_period_end :: "time option \<Rightarrow> contract_rm \<Rightarrow> contract_rm" where
  "set_period_end t r = r\<lparr>cm_end := coalesce t (cm_end r), cm_renewal := coalesce t (cm_renewal r)\<rparr>"

definition insert_contract :: "penv \<Rightarrow> event \<Rightarrow> jobj \<Rightarrow> (read_db, unit) sql" where
  "insert_contract pe e data = exec_stmt (\<lambda>d. case json_column (pe_env pe) (normalizeJSON (ev_Data e)) of
      Inl x \<Rightarrow> (Inl x, d)
    | Inr raw \<Rightarrow>
        (let start = map_option (me_time (pe_env pe)) (parseTime (string_at ''created_at'' data));
             row = \<lparr>cm_id = ev_StreamID e, cm_account = string_at ''account_id'' data, cm_status = ''draft'',
               cm_start = start, cm_end = None, cm_renewal = None, cm_trial_end = None,
               cm_price = string_at ''price_id'' data, cm_data = raw, cm_version = ev_Version e\<rparr>
         in (Inr (), d\<lparr>t_contract_rms := upsert_row cm_id row (\<lambda>r. row\<lparr>cm_end := cm_end r,
           cm_renewal := cm_renewal r, cm_trial_end := cm_trial_end r\<rparr>) (t_contract_rms d)\<rparr>)))"

definition contract_applyEvent :: "penv \<Rightarrow> event \<Rightarrow> (read_db, unit) sql" where
  "contract_applyEvent pe event0 =
     bindA (liftA (pe_upcast pe event0)) (\<lambda>e.
     bindA (liftA (payload (pe_parse pe) (ev_Data e))) (\<lambda>data.
     let tm = map_option (me_time (pe_env pe)) in
     case pe_kind pe (ev_Type e) of
       ContractCreated \<Rightarrow> insert_contract pe e data
     | ContractActivated \<Rightarrow> update_contract pe e
         (\<lambda>r. set_status ''active'' (set_period_end (tm (time_at ''current_period'' ''end'' data)) r))
     | ContractSuspended \<Rightarrow> update_contract pe e (set_status ''suspended'')
     | ContractResumed \<Rightarrow> update_contract pe e (set_status ''active'')
     | ContractPastDue \<Rightarrow> update_contract pe e (set_status ''past_due'')
     | ContractRecovered \<Rightarrow> update_contract pe e (set_status ''active'')
     | ContractCancelled \<Rightarrow> update_contract pe e (set_status ''cancelled'')
     | ContractExpired \<Rightarrow> update_contract pe e (set_status ''expired'')
     | TrialStarted \<Rightarrow> update_contract pe e (\<lambda>r. (set_status ''trialing'' r)
         \<lparr>cm_trial_end := tm (time_at ''trial_config'' ''trial_end_date'' data)\<rparr>)
     | TrialEnded \<Rightarrow> update_contract pe e (\<lambda>r. (set_status
         (if key_value ''converted'' data = Some (JBool True) then ''active'' else ''cancelled'') r)
         \<lparr>cm_trial_end := None\<rparr>)
     | ContractRenewed \<Rightarrow> update_contract pe e (set_period_end (tm (time_at ''new_period'' ''end'' data)))
     | PriceChanged \<Rightarrow> update_contract pe e (\<lambda>r. if string_at ''new_price_id'' data = [] then r
         else r\<lparr>cm_price := string_at ''new_price_id'' data\<rparr>)
     | _ \<Rightarrow> update_contract pe e (\<lambda>r. r)))"

definition contract_Project :: "penv \<Rightarrow> event \<Rightarrow> (read_db, unit) sql" where
  "contract_Project pe e = (if pe_kind pe (ev_Type e) = NotContractEvent then ret ()
     else contract_applyEvent pe e)"

section \<open>The scan of the log\<close>

text \<open>
  The loop both projectors rebuild with: batches of 1000 events, stopping before the first event that
  occurred after \<open>until\<close>. It keeps the position of the last projected event. The fuel bounds the number of
  batches; \<open>None\<close> is an exhausted fuel, which a fuel above the number of events rules out.
\<close>

definition batch :: int where "batch = 1000"

fun scan_batch :: "(event \<Rightarrow> ('d, unit) sql) \<Rightarrow> time \<Rightarrow> int \<Rightarrow> event list \<Rightarrow> ('d, int \<times> bool) sql" where
  "scan_batch project until lastPosition [] = ret (lastPosition, False)"
| "scan_batch project until lastPosition (e # es) =
     (if until < ev_OccurredAt e then ret (lastPosition, True)
      else bindA (project e) (\<lambda>_. scan_batch project until (ev_GlobalPosition e) es))"

fun scan_log :: "menv \<Rightarrow> (event \<Rightarrow> ('m my_db_scheme, unit) sql) \<Rightarrow> time \<Rightarrow> nat \<Rightarrow> int \<Rightarrow> int
    \<Rightarrow> ('m my_db_scheme, int option) sql" where
  "scan_log env project until 0 fromPosition lastPosition = ret None"
| "scan_log env project until (Suc fuel) fromPosition lastPosition =
     bindA (LoadAll env fromPosition batch) (\<lambda>events.
     if events = [] then ret (Some lastPosition)
     else bindA (scan_batch project until lastPosition events) (\<lambda>(lastPosition', stop).
       if stop then ret (Some lastPosition')
       else let newPos = ev_GlobalPosition (last events) in
         if newPos = fromPosition then throw (OtherError ''LoadAll did not advance'')
         else scan_log env project until fuel newPos lastPosition'))"

text \<open>After the scan the checkpoint is saved, unless nothing was projected.\<close>

definition save_scanned :: "string \<Rightarrow> int option \<Rightarrow> (read_db, unit option) sql" where
  "save_scanned projector r = (case r of
      None \<Rightarrow> ret None
    | Some lastPosition \<Rightarrow>
        bindA (if 0 < lastPosition then checkpoint_Save projector lastPosition else ret ()) (\<lambda>_. ret (Some ())))"

definition reloadReadModels :: "nat \<Rightarrow> penv \<Rightarrow> time \<Rightarrow> (read_db, unit option) sql" where
  "reloadReadModels fuel pe until =
     bindA (exec_stmt (\<lambda>d. (Inr (), d\<lparr>t_contract_rms := []\<rparr>))) (\<lambda>_.
     bindA (checkpoint_Reset ContractProjectorName) (\<lambda>_.
     bindA (scan_log (pe_env pe) (contract_Project pe) until fuel 0 0) (save_scanned ContractProjectorName)))"

text \<open>The transaction of \<open>Rebuild\<close>: its own, unless the context carries one.\<close>

definition contract_Rebuild :: "nat \<Rightarrow> penv \<Rightarrow> time \<Rightarrow> (read_db, unit option) sql" where
  "contract_Rebuild fuel pe until = bindA in_tx (\<lambda>ambient.
     if ambient then reloadReadModels fuel pe until else in_own_tx (reloadReadModels fuel pe until))"

section \<open>The invoice projector\<close>

text \<open>\<open>big.Rat.SetString\<close> on a text, as \<open>pe_rat\<close>; the floor of the quotient, cut to 64 bits as
  \<open>big.Int.Int64\<close> does. A JSON number is a float64, truncated by the conversion to \<open>int64\<close>.\<close>

record ienv =
  ie_env :: menv
  ie_parse :: "string \<Rightarrow> json option"
  ie_rat :: "string \<Rightarrow> rat option"
  ie_float :: "json \<Rightarrow> int64"

definition parseMoneyPayload :: "ienv \<Rightarrow> json \<Rightarrow> (int64 \<times> string) option" where
  "parseMoneyPayload ie v = (case v of
      JObj t \<Rightarrow> (case ie_rat ie (string_at ''amount'' t) of
          None \<Rightarrow> None | Some r \<Rightarrow> Some (word_of_int \<lfloor>r\<rfloor>, string_at ''currency'' t))
    | JInt _ \<Rightarrow> Some (ie_float ie v, [])
    | JFrac _ \<Rightarrow> Some (ie_float ie v, [])
    | JStr s \<Rightarrow> (case ie_rat ie s of None \<Rightarrow> None | Some r \<Rightarrow> Some (word_of_int \<lfloor>r\<rfloor>, []))
    | _ \<Rightarrow> None)"

definition update_invoice_rm :: "ienv \<Rightarrow> event \<Rightarrow> (invoice_rm \<Rightarrow> invoice_rm) \<Rightarrow> (read_db, unit) sql" where
  "update_invoice_rm ie e f = exec_stmt (\<lambda>d.
     if \<forall>r \<in> set (t_invoice_rms d). im_id r \<noteq> ev_StreamID e then (Inr (), d)
     else (case json_column (ie_env ie) (normalizeJSON (ev_Data e)) of
         Inl x \<Rightarrow> (Inl x, d)
       | Inr data \<Rightarrow> (Inr (), d\<lparr>t_invoice_rms := map (\<lambda>r. if im_id r = ev_StreamID e
           then (f r)\<lparr>im_data := data, im_version := ev_Version e\<rparr> else r) (t_invoice_rms d)\<rparr>)))"

definition text_or :: "string \<Rightarrow> string \<Rightarrow> string" where
  "text_or s dflt = (if s = [] then dflt else s)"

text \<open>The total and the currency of a payload: the currency inside the total wins.\<close>

definition total_of :: "ienv \<Rightarrow> jobj \<Rightarrow> int64 \<times> string" where
  "total_of ie data = (let currency = text_or (string_at ''currency'' data) ''JPY'' in
     case Option.bind (key_value ''total'' data) (parseMoneyPayload ie) of
       None \<Rightarrow> (0, currency)
     | Some (amt, cur) \<Rightarrow> (amt, text_or cur currency))"

definition insert_invoice_rm :: "ienv \<Rightarrow> event \<Rightarrow> jobj \<Rightarrow> (read_db, unit) sql" where
  "insert_invoice_rm ie e data = exec_stmt (\<lambda>d. case json_column (ie_env ie) (normalizeJSON (ev_Data e)) of
      Inl x \<Rightarrow> (Inl x, d)
    | Inr raw \<Rightarrow>
        (let row = \<lparr>im_id = ev_StreamID e, im_contract = string_at ''contract_id'' data,
               im_account = string_at ''account_id'' data, im_status = text_or (string_at ''status'' data) ''draft'',
               im_total = fst (total_of ie data), im_currency = snd (total_of ie data), im_data = raw,
               im_version = ev_Version e\<rparr>
         in (Inr (), d\<lparr>t_invoice_rms := upsert_row im_id row (\<lambda>r. row\<lparr>im_contract := im_contract r,
           im_account := im_account r\<rparr>) (t_invoice_rms d)\<rparr>)))"

definition invoice_applyEvent :: "ienv \<Rightarrow> event \<Rightarrow> (read_db, unit) sql" where
  "invoice_applyEvent ie e = bindA (liftA (payload (ie_parse ie) (ev_Data e))) (\<lambda>data.
     let ty = ev_Type e in
     if has_suffix ty ''.created'' \<or> has_suffix ty ''.issued'' then insert_invoice_rm ie e data
     else if has_suffix ty ''.paid'' then update_invoice_rm ie e (\<lambda>r. r\<lparr>im_status := ''paid''\<rparr>)
     else if has_suffix ty ''.voided'' \<or> has_suffix ty ''.cancelled''
     then update_invoice_rm ie e (\<lambda>r. r\<lparr>im_status := ''voided''\<rparr>)
     else update_invoice_rm ie e (\<lambda>r. r))"

definition invoice_Project :: "ienv \<Rightarrow> event \<Rightarrow> (read_db, unit) sql" where
  "invoice_Project ie e = (if \<not> has_prefix (ev_Type e) ''invoice.'' then ret () else invoice_applyEvent ie e)"

definition rebuildInTx :: "nat \<Rightarrow> ienv \<Rightarrow> time \<Rightarrow> (read_db, unit option) sql" where
  "rebuildInTx fuel ie until =
     bindA (exec_stmt (\<lambda>d. (Inr (), d\<lparr>t_invoice_rms := []\<rparr>))) (\<lambda>_.
     bindA (checkpoint_Reset InvoiceProjectorName) (\<lambda>_.
     bindA (scan_log (ie_env ie) (invoice_Project ie) until fuel 0 0) (save_scanned InvoiceProjectorName)))"

definition invoice_Rebuild :: "nat \<Rightarrow> ienv \<Rightarrow> time \<Rightarrow> (read_db, unit option) sql" where
  "invoice_Rebuild fuel ie until = bindA in_tx (\<lambda>ambient.
     if ambient then rebuildInTx fuel ie until else in_own_tx (rebuildInTx fuel ie until))"

end
