(* ===== verification/My_Projection_Props.thy ===== *)
theory My_Projection_Props
  imports My_Projection My_Tx
begin

text \<open>
  Properties of the projections. The scan of the log ends; the batched scan is one pass over the events
  up to the first one past the bound; a rebuild is all or nothing and its checkpoint separates the
  projected events from the rest. The laws are proved for any projector that leaves the log alone, the
  locale \<open>projector\<close>, which both projectors of the adapter interpret.
\<close>

section \<open>The log is only read\<close>

abbreviation log_is :: "event_row list \<Rightarrow> 'm my_db_scheme world \<Rightarrow> bool" where
  "log_is rows w \<equiv> t_events (db w) = rows"

lemma keeps_exec_log: "(\<And>d. t_events (snd (f d)) = t_events d) \<Longrightarrow> keeps (log_is rows) (exec_stmt f)"
  by (rule keepsI) (simp add: exec_stmt_def stmt_def drop_fault_def split: fault.splits prod.splits sum.splits;
      metis snd_conv)

lemma keeps_query_log: "keeps (log_is rows) (query f)" "keeps (log_is rows) (query_row g)"
  by (auto simp: keeps_def query_def query_row_def stmt_def drop_fault_def split: fault.splits)

lemma keeps_scanEvents: "keeps I (scanEvents env rows)"
  unfolding scanEvents_def by (intro keeps_intros)

lemma keeps_LoadAll: "keeps (log_is rows) (LoadAll env p n)"
  unfolding LoadAll_def by (intro keeps_bindA keeps_query_log keeps_scanEvents)

lemma LoadAll_Inr:
  assumes "LoadAll env p n w = (Inr es, w')"
  shows "decode env (all_rows p n (db w)) = Some es" "db w' = db w"
proof -
  obtain q w1 where q: "query (all_rows p n) w = (q, w1)" by fastforce
  from q show "decode env (all_rows p n (db w)) = Some es"
    by (cases rule: query_cases)
      (use assms in \<open>auto simp: LoadAll_def bindA_run [of "query (all_rows p n)" w, OF q] dest!: scanEvents_Inr\<close>)
  from q show "db w' = db w"
    by (cases rule: query_cases)
      (use assms in \<open>auto simp: LoadAll_def bindA_run [of "query (all_rows p n)" w, OF q] dest!: scanEvents_Inr\<close>)
qed

lemma LoadAll_run:
  "calm w \<Longrightarrow> decode env (all_rows p n (db w)) = Some es \<Longrightarrow> LoadAll env p n w = (Inr es, w)"
  by (simp add: LoadAll_def bindA_run [of "query (all_rows p n)" w, OF query_run] scanEvents_decode)

lemma decode_pos: "decode env rows = Some es \<Longrightarrow> map ev_GlobalPosition es = map er_pos rows"
proof (induction rows arbitrary: es)
  case (Cons r rows)
  then show ?case
    by (auto simp: decode_def row_to_event_def split: option.splits sum.splits if_splits)
qed (simp add: decode_def)

lemma decode_last:
  assumes "decode env rows = Some es" and "es \<noteq> []"
  shows "rows \<noteq> []" "ev_GlobalPosition (last es) = er_pos (last rows)"
proof -
  from decode_pos [OF assms(1)] assms(2) show "rows \<noteq> []" by auto
  with decode_pos [OF assms(1)] assms(2) show "ev_GlobalPosition (last es) = er_pos (last rows)"
    by (metis last_map)
qed

lemma all_rows_set: "set (all_rows p n d) \<subseteq> {r \<in> set (t_events d). p < er_pos r}"
  by (auto simp: all_rows_def Let_def dest: in_set_takeD)

text \<open>Each batch leaves fewer events to scan.\<close>

definition remaining :: "int \<Rightarrow> event_row list \<Rightarrow> nat" where
  "remaining p rows = length (filter (\<lambda>r. p < er_pos r) rows)"

lemma remaining_less:
  assumes "r \<in> set rows" and "p < er_pos r"
  shows "remaining (er_pos r) rows < remaining p rows"
  using assms
proof (induction rows)
  case (Cons x xs)
  have le: "remaining (er_pos r) xs \<le> remaining p xs"
    unfolding remaining_def using \<open>p < er_pos r\<close> by (induction xs) auto
  from Cons le show ?case by (auto simp: remaining_def)
qed simp

lemma remaining_le: "remaining p rows \<le> length rows"
  by (simp add: remaining_def)

section \<open>One pass over the log\<close>

lemma scan_batch_append:
  "scan_batch project until l (xs @ ys) = bindA (scan_batch project until l xs) (\<lambda>(l', stop).
     if stop then ret (l', True) else scan_batch project until l' ys)"
  by (induction xs arbitrary: l) (auto simp: bindA_assoc simp del: ret_run)

definition last_pos :: "int \<Rightarrow> event list \<Rightarrow> int" where
  "last_pos l es = (if es = [] then l else ev_GlobalPosition (last es))"

definition projectable :: "time \<Rightarrow> event list \<Rightarrow> event list" where
  "projectable until es = takeWhile (\<lambda>e. ev_OccurredAt e \<le> until) es"

lemma projectable_Cons: "projectable until (e # es) = (if ev_OccurredAt e \<le> until then e # projectable until es else [])"
  by (simp add: projectable_def)

lemma last_pos_Cons: "last_pos l (e # es) = last_pos (ev_GlobalPosition e) es"
  by (simp add: last_pos_def)

lemma scan_batch_forA:
  "scan_batch project until l es = bindA (forA project (projectable until es))
     (\<lambda>_. ret (last_pos l (projectable until es), projectable until es \<noteq> es))"
proof (induction es arbitrary: l)
  case Nil
  then show ?case by (simp add: projectable_def last_pos_def del: ret_run)
next
  case (Cons e es)
  then show ?case
    by (auto simp: projectable_Cons last_pos_Cons bindA_assoc last_pos_def not_le simp del: ret_run)
qed

lemma filter_cut: "\<forall>x \<in> set xs. \<not> P x \<Longrightarrow> \<forall>y \<in> set ys. P y \<Longrightarrow> filter P (xs @ ys) = ys"
  by (simp add: filter_empty_conv)

text \<open>A batch, and what the log holds after it.\<close>

lemma all_rows_cut:
  assumes s: "sorted_wrt (<) (map er_pos (t_events d))" and n: "0 < n" and ne: "all_rows p n d \<noteq> []"
  shows "all_rows p 0 d = all_rows p n d @ all_rows (er_pos (last (all_rows p n d))) 0 d"
proof -
  define R where "R = filter (\<lambda>r. p < er_pos r) (t_events d)"
  have flt: "sorted (map er_pos (filter P (t_events d)))" for P
    using s by (simp add: sorted_wrt_map sorted_wrt_filter strict_sorted_imp_sorted)
      (metis (no_types, lifting) order_less_imp_le sorted_wrt_filter sorted_wrt_map sorted_wrt_mono_rel)
  have all: "all_rows q 0 d = filter (\<lambda>r. q < er_pos r) (t_events d)" for q
    by (simp add: all_rows_def sort_key_sorted [OF flt])
  have B: "all_rows p n d = take (nat n) R"
    using n by (simp add: all_rows_def R_def sort_key_sorted [OF flt])
  let ?q = "er_pos (last (take (nat n) R))"
  have sR: "sorted_wrt (<) (map er_pos (take (nat n) R @ drop (nat n) R))"
    using s unfolding R_def append_take_drop_id by (simp add: sorted_wrt_map sorted_wrt_filter)
  have bl: "take (nat n) R = butlast (take (nat n) R) @ [last (take (nat n) R)]" using ne B by simp
  have "\<forall>r \<in> set (take (nat n) R). er_pos r \<le> ?q"
  proof -
    from sR have "sorted_wrt (<) (map er_pos (take (nat n) R))" unfolding map_append sorted_wrt_append by blast
    then have "\<forall>r \<in> set (butlast (take (nat n) R)). er_pos r < ?q"
      by (subst (asm) bl) (simp add: sorted_wrt_append)
    moreover have "set (take (nat n) R) = insert (last (take (nat n) R)) (set (butlast (take (nat n) R)))"
      by (subst bl) simp
    ultimately show ?thesis by auto
  qed
  moreover have "\<forall>r \<in> set (drop (nat n) R). ?q < er_pos r"
    using sR last_in_set [OF ne [unfolded B]] unfolding map_append sorted_wrt_append by auto
  ultimately have "filter (\<lambda>r. ?q < er_pos r) (take (nat n) R @ drop (nat n) R) = drop (nat n) R"
    by (intro filter_cut) (auto simp: not_less)
  moreover have "p < ?q" using last_in_set [OF ne [unfolded B]] by (auto simp: R_def dest!: in_set_takeD)
  then have "filter (\<lambda>r. ?q < er_pos r) R = filter (\<lambda>r. ?q < er_pos r) (t_events d)"
    by (auto simp: R_def intro: filter_cong)
  ultimately show ?thesis by (simp add: all B) (simp flip: R_def)
qed

section \<open>Any projector\<close>

locale projector =
  fixes project :: "event \<Rightarrow> ('m my_db_scheme, unit) sql"
  assumes project_log: "keeps (log_is rows) (project e)"
    and project_calm: "keeps calm (project e)"
    and project_sane: "sane (project e)"
begin

lemma scan_batch_keeps:
  "keeps (log_is rows) (scan_batch project until l es)" "keeps calm (scan_batch project until l es)"
  "sane (scan_batch project until l es)"
  unfolding scan_batch_forA
  by (intro keeps_bindA keeps_forA keeps_ret project_log project_calm)+
     (intro sane_bindA sane_forA sane_ret project_sane)

text \<open>The scan ends, whatever fails on the way.\<close>

lemma scan_log_ends:
  assumes "remaining p (t_events (db w)) < fuel"
  shows "fst (scan_log env project until fuel p l w) \<noteq> Inr None"
  using assms
proof (induction fuel arbitrary: p l w)
  case 0
  then show ?case by simp
next
  case (Suc fuel)
  obtain r w1 where load: "LoadAll env p batch w = (r, w1)" by fastforce
  show ?case
  proof (cases r)
    case (Inl e)
    with load show ?thesis by (simp add: bindA_run [of "LoadAll env p batch" w, OF load])
  next
    case (Inr es)
    note dec = LoadAll_Inr [OF load [unfolded Inr]]
    obtain b w2 where scan: "scan_batch project until l es w1 = (b, w2)" by fastforce
    have log: "log_is (t_events (db w)) w2"
      using keeps_run [OF scan_batch_keeps(1) _ scan, of "t_events (db w)"] dec(2) by simp
    show ?thesis
    proof (cases "es = []")
      case True
      with load Inr show ?thesis by (simp add: bindA_run [of "LoadAll env p batch" w, OF load])
    next
      case False
      let ?r = "last (all_rows p batch (db w))"
      note pos = decode_last [OF dec(1) False]
      have "?r \<in> set (t_events (db w))" "p < er_pos ?r"
        using all_rows_set last_in_set [OF pos(1)] by blast+
      from remaining_less [OF this] Suc.prems log
      have "remaining (ev_GlobalPosition (last es)) (t_events (db w2)) < fuel" by (simp add: pos(2))
      note ih = Suc.IH [OF this]
      show ?thesis using False Inr ih
        by (auto simp: bindA_run [of "LoadAll env p batch" w, OF load] bindA_run [of "scan_batch project until l es" w1, OF scan] Let_def split: sum.split)
    qed
  qed
qed

lemma LoadAll_rules: "keeps calm (LoadAll env p n)" "sane (LoadAll env p n)"
  unfolding LoadAll_def scanEvents_def by (intro keeps_intros sane_intros)+

lemma scan_log_calm: "keeps calm (scan_log env project until fuel p l)"
proof (induction fuel arbitrary: p l)
  case (Suc fuel)
  show ?case unfolding scan_log.simps Let_def by (intro keeps_intros LoadAll_rules scan_batch_keeps Suc)
qed (simp del: ret_run add: keeps_ret)

lemma scan_log_sane: "sane (scan_log env project until fuel p l)"
proof (induction fuel arbitrary: p l)
  case (Suc fuel)
  show ?case unfolding scan_log.simps Let_def by (intro sane_intros LoadAll_rules scan_batch_keeps Suc)
qed (simp del: ret_run add: sane_ret)

text \<open>Without faults the batched scan is one pass.\<close>

lemma scan_log_pass:
  assumes "calm w" and "sorted_wrt (<) (map er_pos (t_events (db w)))"
    and "decode env (all_rows p 0 (db w)) = Some es" and "remaining p (t_events (db w)) < fuel"
  shows "scan_log env project until fuel p l w =
    bindA (forA project (projectable until es)) (\<lambda>_. ret (Some (last_pos l (projectable until es)))) w"
  using assms
proof (induction fuel arbitrary: p l w es)
  case 0
  then show ?case by simp
next
  case (Suc fuel)
  let ?B = "all_rows p batch (db w)"
  show ?case
  proof (cases "?B = []")
    case True
    then have "all_rows p 0 (db w) = []" by (auto simp: all_rows_def batch_def Let_def)
    with Suc.prems(3) have es: "es = []" by (simp add: decode_def)
    have load: "LoadAll env p batch w = (Inr [], w)"
      using Suc.prems(1) True by (intro LoadAll_run) (simp_all add: decode_def)
    then show ?thesis
      by (simp add: bindA_run [of "LoadAll env p batch" w, OF load] es projectable_def last_pos_def del: ret_run)
  next
    case False
    let ?q = "er_pos (last ?B)"
    note cut = all_rows_cut [OF Suc.prems(2) _ False]
    then obtain e1 e2 where e1: "decode env ?B = Some e1" and e2: "decode env (all_rows ?q 0 (db w)) = Some e2"
      and es: "es = e1 @ e2" using Suc.prems(3) by (auto simp: batch_def decode_append split: option.splits)
    have load: "LoadAll env p batch w = (Inr e1, w)" using Suc.prems(1) e1 by (rule LoadAll_run)
    have ne: "e1 \<noteq> []" using decode_pos [OF e1] False by auto
    note pos = decode_last [OF e1 ne]
    have lastB: "last ?B \<in> set (t_events (db w))" "p < ?q" using all_rows_set last_in_set [OF False] by blast+
    obtain b w2 where scan: "scan_batch project until l e1 w = (b, w2)" by fastforce
    have w2: "calm w2" "t_events (db w2) = t_events (db w)"
      using keeps_run [OF scan_batch_keeps(2) Suc.prems(1) scan]
        keeps_run [OF scan_batch_keeps(1) refl scan] by simp_all
    have "all_rows ?q 0 (db w2) = all_rows ?q 0 (db w)" using w2 by (simp add: all_rows_def)
    moreover have "remaining ?q (t_events (db w2)) < fuel"
      using remaining_less [OF lastB] Suc.prems(4) w2 by simp
    ultimately have ih: "scan_log env project until fuel ?q l' w2 =
        bindA (forA project (projectable until e2)) (\<lambda>_. ret (Some (last_pos l' (projectable until e2)))) w2" for l'
      using w2 Suc.prems(2) e2 by (intro Suc.IH) simp_all
    have pass: "bindA (forA project (projectable until xs)) (\<lambda>_. ret (Some (last_pos k (projectable until xs)))) =
        bindA (scan_batch project until k xs) (\<lambda>(l', stop). ret (Some l'))" for k xs
      unfolding scan_batch_forA by (simp add: bindA_assoc del: ret_run)
    show ?thesis unfolding pass unfolding es scan_batch_append bindA_assoc using ne lastB pos(2)
      by (auto simp: bindA_run [of "LoadAll env p batch" w, OF load] Let_def ih pass
          bindA_run [of "scan_batch project until l e1" w, OF scan] bindA_assoc
          simp del: ret_run split: sum.split prod.split)
  qed
qed

end

section \<open>The two projectors\<close>

lemma update_contract_log [keeps_intros]:
  "keeps (log_is rows) (update_contract pe e f)" "keeps (log_is rows) (insert_contract pe e data)"
  unfolding update_contract_def insert_contract_def
  by (intro keeps_exec_log; auto simp: Let_def split: sum.split)+

lemma update_invoice_log [keeps_intros]:
  "keeps (log_is rows) (update_invoice_rm ie e f)" "keeps (log_is rows) (insert_invoice_rm ie e data)"
  unfolding update_invoice_rm_def insert_invoice_rm_def
  by (intro keeps_exec_log; auto simp: Let_def split: sum.split)+

lemma update_calm_sane [keeps_intros, sane_intros]:
  "keeps calm (update_contract pe e f)" "keeps calm (insert_contract pe e data)"
  "keeps calm (update_invoice_rm ie e g)" "keeps calm (insert_invoice_rm ie e data)"
  "sane (update_contract pe e f)" "sane (insert_contract pe e data)"
  "sane (update_invoice_rm ie e g)" "sane (insert_invoice_rm ie e data)"
  unfolding update_contract_def insert_contract_def update_invoice_rm_def insert_invoice_rm_def
  by (intro keeps_intros sane_intros)+

interpretation cp: projector "contract_Project pe :: event \<Rightarrow> (read_db, unit) sql" for pe
proof
  fix e rows
  let ?k = "pe_kind pe"
  show "keeps (log_is rows) (contract_Project pe e)" "keeps calm (contract_Project pe e)"
    unfolding contract_Project_def contract_applyEvent_def Let_def
    by (intro keeps_if keeps_ret keeps_bindA keeps_liftA; simp split: contract_event.split; intro conjI impI keeps_intros)+
  show "sane (contract_Project pe e)"
    unfolding contract_Project_def contract_applyEvent_def Let_def
    by (intro sane_if sane_ret sane_bindA sane_liftA; simp split: contract_event.split; intro conjI impI sane_intros)
qed

interpretation ip: projector "invoice_Project ie :: event \<Rightarrow> (read_db, unit) sql" for ie
proof
  fix e rows
  show "keeps (log_is rows) (invoice_Project ie e)" "keeps calm (invoice_Project ie e)" "sane (invoice_Project ie e)"
    unfolding invoice_Project_def invoice_applyEvent_def Let_def by (intro keeps_intros sane_intros)+
qed

section \<open>Rebuild\<close>

lemma find_upsert: "find (\<lambda>c. fst c = k) (upsert_row fst (k, p) (\<lambda>_. (k, p)) rows) = Some (k, p)"
  using find_upsert_row [of fst "\<lambda>_. (k, p)" "(k, p)" rows] by (simp split: option.splits)

lemma keeps_checkpoint [keeps_intros]:
  "keeps (log_is rows) (checkpoint_Reset name)" "keeps (log_is rows) (checkpoint_Save name p)"
  "keeps calm (checkpoint_Reset name)" "keeps calm (checkpoint_Save name p)"
  unfolding checkpoint_Reset_def checkpoint_Save_def by (intro keeps_exec_log keeps_intros; simp)+

lemma sane_checkpoint [sane_intros]: "sane (checkpoint_Reset name)" "sane (checkpoint_Save name p)"
  unfolding checkpoint_Reset_def checkpoint_Save_def by (intro sane_intros)+

lemma save_scanned_rules [keeps_intros, sane_intros]: "keeps calm (save_scanned name x)" "sane (save_scanned name x)"
  unfolding save_scanned_def by (intro keeps_intros sane_intros)+

text \<open>What both rebuilds are: clear the table, drop the checkpoint, scan, save the checkpoint.\<close>

definition rebuild :: "menv \<Rightarrow> (event \<Rightarrow> (read_db, unit) sql) \<Rightarrow> string \<Rightarrow> (read_db \<Rightarrow> read_db) \<Rightarrow> nat \<Rightarrow> time
    \<Rightarrow> (read_db, unit option) sql" where
  "rebuild env project name clear fuel until =
     bindA (exec_stmt (\<lambda>d. (Inr (), clear d))) (\<lambda>_. bindA (checkpoint_Reset name) (\<lambda>_.
     bindA (scan_log env project until fuel 0 0) (save_scanned name)))"

text \<open>The reference: one pass over the events that are due.\<close>

definition replay :: "(event \<Rightarrow> (read_db, unit) sql) \<Rightarrow> string \<Rightarrow> (read_db \<Rightarrow> read_db) \<Rightarrow> event list
    \<Rightarrow> (read_db, unit option) sql" where
  "replay project name clear es =
     bindA (exec_stmt (\<lambda>d. (Inr (), clear d))) (\<lambda>_. bindA (checkpoint_Reset name) (\<lambda>_.
     bindA (forA project es) (\<lambda>_. save_scanned name (Some (last_pos 0 es)))))"

lemma contract_Rebuild_alt: "contract_Rebuild fuel pe until = RunInTx
    (rebuild (pe_env pe) (contract_Project pe) ContractProjectorName (\<lambda>d. d\<lparr>t_contract_rms := []\<rparr>) fuel until)"
  unfolding contract_Rebuild_def reloadReadModels_def RunInTx_alt rebuild_def ..

lemma invoice_Rebuild_alt: "invoice_Rebuild fuel ie until = RunInTx
    (rebuild (ie_env ie) (invoice_Project ie) InvoiceProjectorName (\<lambda>d. d\<lparr>t_invoice_rms := []\<rparr>) fuel until)"
  unfolding invoice_Rebuild_def rebuildInTx_def RunInTx_alt rebuild_def ..

locale rebuilder = projector project for project :: "event \<Rightarrow> (read_db, unit) sql" +
  fixes clear :: "read_db \<Rightarrow> read_db"
    and name :: string
  assumes clear_log: "t_events (clear d) = t_events d"
begin

abbreviation clearing :: "(read_db, unit) sql" where
  "clearing \<equiv> exec_stmt (\<lambda>d. (Inr (), clear d))"

lemma clearing_rules: "keeps (log_is rows) clearing" "keeps calm clearing" "sane clearing"
  by (intro keeps_exec_log keeps_intros sane_intros; simp add: clear_log)+

lemma rebuild_rules: "keeps calm (rebuild env project name clear fuel until)"
    "sane (rebuild env project name clear fuel until)" "keeps calm (replay project name clear es)"
  unfolding rebuild_def replay_def
  by (intro keeps_intros clearing_rules scan_log_calm project_calm)
     (intro sane_intros clearing_rules scan_log_sane,
      intro keeps_intros clearing_rules project_calm)

lemma rebuild_ends:
  assumes "length (t_events (db w)) < fuel"
  shows "fst (rebuild env project name clear fuel until w) \<noteq> Inr None"
proof -
  obtain r1 w1 where c: "clearing w = (r1, w1)" by fastforce
  obtain r2 w2 where d: "checkpoint_Reset name w1 = (r2, w2)" by fastforce
  obtain r3 w3 where e: "scan_log env project until fuel 0 0 w2 = (r3, w3)" by fastforce
  have "t_events (db w2) = t_events (db w)"
    using keeps_run [OF clearing_rules(1) refl c] keeps_run [OF keeps_checkpoint(1) refl d] by simp
  with scan_log_ends [of 0 w2 fuel env until 0] remaining_le [of 0 "t_events (db w2)"] assms e
  have "r3 \<noteq> Inr None" by auto
  moreover have "fst (save_scanned name (Some l) v) \<noteq> Inr None" for l v
    by (auto simp: save_scanned_def bindA_def tryA_def split: sum.split prod.split)
  ultimately show ?thesis
    by (auto simp: rebuild_def bindA_run [of clearing w, OF c] bindA_run [of "checkpoint_Reset name" w1, OF d]
        bindA_run [of "scan_log env project until fuel 0 0" w2, OF e] split: sum.split option.split)
qed

lemma rebuild_pass:
  assumes "calm w" and "sorted_wrt (<) (map er_pos (t_events (db w)))"
    and "decode env (all_rows 0 0 (db w)) = Some es" and "length (t_events (db w)) < fuel"
  shows "rebuild env project name clear fuel until w = replay project name clear (projectable until es) w"
proof -
  obtain r1 w1 where c: "clearing w = (r1, w1)" by fastforce
  obtain r2 w2 where d: "checkpoint_Reset name w1 = (r2, w2)" by fastforce
  have log: "t_events (db w2) = t_events (db w)"
    using keeps_run [OF clearing_rules(1) refl c] keeps_run [OF keeps_checkpoint(1) refl d] by simp
  have "calm w2"
    using keeps_run [OF keeps_checkpoint(3) keeps_run [OF clearing_rules(2) assms(1) c] d] .
  then have "scan_log env project until fuel 0 0 w2 = bindA (forA project (projectable until es))
      (\<lambda>_. ret (Some (last_pos 0 (projectable until es)))) w2"
    using assms(2-4) log remaining_le [of 0 "t_events (db w2)"]
    by (intro scan_log_pass) (simp_all add: all_rows_def)
  then have "bindA (scan_log env project until fuel 0 0) (save_scanned name) w2 =
      bindA (bindA (forA project (projectable until es)) (\<lambda>_. ret (Some (last_pos 0 (projectable until es)))))
        (save_scanned name) w2"
    by (simp add: bindA_def tryA_def)
  then show ?thesis
    by (auto simp: rebuild_def replay_def bindA_run [of clearing w, OF c] bindA_assoc
        bindA_run [of "checkpoint_Reset name" w1, OF d] simp del: ret_run split: sum.split)
qed

text \<open>The checkpoint of a finished rebuild.\<close>

lemma replay_checkpoint:
  assumes "calm w" and run: "replay project name clear es w = (Inr (Some ()), w')"
    and "es \<noteq> [] \<longrightarrow> 0 < last_pos 0 es"
  shows "fst (checkpoint_Load name w') = Inr (last_pos 0 es)" "t_events (db w') = t_events (db w)"
proof -
  from run obtain w1 w2 w3 where c: "clearing w = (Inr (), w1)" and d: "checkpoint_Reset name w1 = (Inr (), w2)"
    and e: "forA project es w2 = (Inr (), w3)" and f: "save_scanned name (Some (last_pos 0 es)) w3 = (Inr (Some ()), w')"
    unfolding replay_def bindA_Inr by auto
  have calm1: "calm w1" using keeps_run [OF clearing_rules(2) assms(1) c] .
  have calm2: "calm w2" using keeps_run [OF keeps_checkpoint(3) calm1 d] .
  have calm3: "calm w3" using keeps_run [OF keeps_forA [OF project_calm] calm2 e] .
  have w2: "find (\<lambda>c. fst c = name) (t_checkpoints (db w2)) = None"
    using d calm1 by (auto simp: checkpoint_Reset_def exec_stmt_run find_None_iff)
  have log: "t_events (db w3) = t_events (db w)"
    using keeps_run [OF clearing_rules(1) refl c] keeps_run [OF keeps_checkpoint(1) refl d]
      keeps_run [OF keeps_forA [OF project_log] refl e] by simp
  have "calm w' \<and> t_events (db w') = t_events (db w) \<and>
    map_option snd (find (\<lambda>c. fst c = name) (t_checkpoints (db w'))) =
      (if 0 < last_pos 0 es then Some (last_pos 0 es) else None)"
  proof (cases "0 < last_pos 0 es")
    case True
    with f calm3 log show ?thesis
      by (auto simp: save_scanned_def checkpoint_Save_def bindA_def tryA_def exec_stmt_run find_upsert)
  next
    case False
    with assms(3) have "es = []" by blast
    with e have "w3 = w2" by simp
    with f False calm3 log w2 show ?thesis by (auto simp: save_scanned_def)
  qed
  moreover have "\<not> 0 < last_pos 0 es \<Longrightarrow> last_pos 0 es = 0" using assms(3) by (auto simp: last_pos_def)
  ultimately show "fst (checkpoint_Load name w') = Inr (last_pos 0 es)" "t_events (db w') = t_events (db w)"
    by (auto simp: checkpoint_Load_def tryA_def query_row_run split: if_splits option.splits)
qed

end

interpretation crb: rebuilder "contract_Project pe" "\<lambda>d. d\<lparr>t_contract_rms := []\<rparr>" ContractProjectorName for pe
  by (intro rebuilder.intro cp.projector_axioms rebuilder_axioms.intro) simp

interpretation irb: rebuilder "invoice_Project ie" "\<lambda>d. d\<lparr>t_invoice_rms := []\<rparr>" InvoiceProjectorName for ie
  by (intro rebuilder.intro ip.projector_axioms rebuilder_axioms.intro) simp

lemma begin_tx_db: "begin_tx w = (r, w1) \<Longrightarrow> db w1 = db w"
  by (auto simp: begin_tx_def split: fault.splits)

lemma RunInTx_not_None:
  assumes "\<And>w1. db w1 = db w \<Longrightarrow> fst (fn w1) \<noteq> Inr None"
  shows "fst (RunInTx fn w) \<noteq> Inr None"
proof (cases "saved w")
  case None
  obtain r w1 where b: "begin_tx w = (r, w1)" by fastforce
  have f: "fst (fn w1) \<noteq> Inr None" using assms begin_tx_db [OF b] by simp
  show ?thesis unfolding RunInTx_own [OF None] in_own_tx_def bindA_run [of begin_tx w, OF b]
    using f by (cases "fn w1") (auto simp: tryA_def bindA_def split: sum.splits prod.splits)
next
  case (Some d)
  then show ?thesis using assms [of w] by (simp add: RunInTx_nested)
qed

text \<open>A log of two contract events, the second after the bound of the demonstration.\<close>

definition demo_log :: "event_row list" where
  "demo_log =
     [\<lparr>er_pos = 1, er_id = ''e1'', er_stream = ''c'', er_type = ''contract.created'', er_version = 1, er_schema = 2,
       er_data = ''{}'', er_meta = [], er_occurred = 3, er_recorded = 3\<rparr>,
      \<lparr>er_pos = 4, er_id = ''e2'', er_stream = ''c'', er_type = ''contract.suspended'', er_version = 2, er_schema = 2,
       er_data = ''{}'', er_meta = [], er_occurred = 50, er_recorded = 50\<rparr>]"

definition demo_penv :: penv where
  "demo_penv = \<lparr>pe_env = demo_env, pe_kind = (\<lambda>t. if t = ''contract.created'' then ContractCreated
       else if t = ''contract.suspended'' then ContractSuspended else NotContractEvent),
     pe_upcast = Inr, pe_parse = (\<lambda>_. Some (JObj []))\<rparr>"

definition demo_read :: "fault list \<Rightarrow> read_db world" where
  "demo_read fs = \<lparr>db = \<lparr>t_events = demo_log, t_snapshots = [], t_append_lock = [1], t_contract_rms = [],
     t_invoice_rms = [], t_checkpoints = [(''contract'', 9)]\<rparr>, saved = None, autoinc = 5, clk = 60, snow = 60,
     faults = fs\<rparr>"

text \<open>C20. A rebuild of the contract read models ends: with more fuel than there are events it never runs
  out of it, whatever statements fail. And in a transaction of its own it is all or nothing: when it fails, the
  read models, the checkpoint and everything else are as before, unless the whole rebuild was done and only the
  answer to its commit was lost.\<close>

theorem contract_Rebuild_ends:
  assumes "length (t_events (db w)) < fuel" and "contract_Rebuild fuel pe until w = (r, w')"
  shows "r \<noteq> Inr None \<and> (saved w = None \<longrightarrow> isl r \<longrightarrow> saved w' = None \<and> (db w' = db w \<or>
    (\<exists>w1 w2. db w1 = db w \<and> reloadReadModels fuel pe until w1 = (Inr (Some ()), w2) \<and> db w' = db w2)))"
proof -
  let ?fn = "reloadReadModels fuel pe until"
  have fn: "?fn = rebuild (pe_env pe) (contract_Project pe) ContractProjectorName (\<lambda>d. d\<lparr>t_contract_rms := []\<rparr>) fuel until"
    unfolding reloadReadModels_def rebuild_def ..
  have ends: "fst (?fn w1) \<noteq> Inr None" if "db w1 = db w" for w1
    unfolding fn by (rule crb.rebuild_ends) (use assms(1) that in simp)
  have R: "contract_Rebuild fuel pe until = RunInTx ?fn" unfolding contract_Rebuild_alt fn ..
  have "r \<noteq> Inr None" using RunInTx_not_None [of w ?fn] ends assms(2) unfolding R by force
  moreover have "saved w' = None \<and> (db w' = db w \<or>
    (\<exists>w1 w2. db w1 = db w \<and> ?fn w1 = (Inr (Some ()), w2) \<and> db w' = db w2))"
    if none: "saved w = None" and fail: "isl r"
  proof -
    have run: "in_own_tx ?fn w = (r, w')" using assms(2) by (simp add: R RunInTx_own [OF none])
    have s: "sane ?fn" unfolding fn by (rule crb.rebuild_rules)
    from run none s show ?thesis
    proof (cases rule: in_own_tx_cases)
      case (unanswered e a w1 w2)
      then have "a = Some ()" using ends [of w1] by (cases a) auto
      with unanswered show ?thesis by blast
    qed (use fail in auto)
  qed
  ultimately show ?thesis by blast
qed

theorem contract_Rebuild_ends_witness:
  "\<exists>e w'. contract_Rebuild 3 demo_penv 10 (demo_read [NoFault, NoFault, NoFault, NoFault, FaultBefore DriverError]) = (Inl e, w')
     \<and> t_checkpoints (db w') = [(''contract'', 9)]"
proof -
  let ?w = "demo_read [NoFault, NoFault, NoFault, NoFault, FaultBefore DriverError]"
  have "isl (fst (contract_Rebuild 3 demo_penv 10 ?w))" by code_simp
  then obtain e w' where run: "contract_Rebuild 3 demo_penv 10 ?w = (Inl e, w')" by (metis isl_def prod.collapse)
  have "length (t_events (db ?w)) < 3" by (simp add: demo_read_def demo_log_def)
  from contract_Rebuild_ends [OF this run] have "db w' = db ?w \<or>
    (\<exists>w1 w2. db w1 = db ?w \<and> reloadReadModels 3 demo_penv 10 w1 = (Inr (Some ()), w2) \<and> db w' = db w2)"
    by (simp add: demo_read_def)
  moreover have "t_checkpoints (db (snd (contract_Rebuild 3 demo_penv 10 ?w))) = [(''contract'', 9)]" by code_simp
  ultimately show ?thesis using run by auto
qed

lemma checkpoint_Load_calm: "calm w \<Longrightarrow> fst (checkpoint_Load name w) =
    Inr (case find (\<lambda>c. fst c = name) (t_checkpoints (db w)) of None \<Rightarrow> 0 | Some c \<Rightarrow> snd c)"
  by (simp add: checkpoint_Load_def tryA_def query_row_run split: option.split)

text \<open>The log after the position of a prefix of its events.\<close>

lemma decode_after:
  assumes s: "sorted_wrt (<) (map er_pos (t_events d))" and pos: "\<forall>r \<in> set (t_events d). 0 < er_pos r"
    and dec: "decode env (t_events d) = Some (xs @ ys)"
  shows "decode env (all_rows (last_pos 0 xs) 0 d) = Some ys" "xs \<noteq> [] \<longrightarrow> 0 < last_pos 0 xs"
proof -
  define n where "n = length xs"
  have srt: "sorted (map er_pos (t_events d))" using s by (rule strict_sorted_imp_sorted)
  have all: "all_rows 0 k d = (if 0 < k then take (nat k) (t_events d) else t_events d)" for k
    using pos by (simp add: all_rows_def Let_def sort_key_sorted [OF srt] filter_True)
  have "decode env (take n (t_events d) @ drop n (t_events d)) = Some (xs @ ys)" using dec by simp
  then obtain e1 e2 where e: "decode env (take n (t_events d)) = Some e1"
    "decode env (drop n (t_events d)) = Some e2" "e1 @ e2 = xs @ ys"
    unfolding decode_append by (auto split: option.splits)
  have len: "length (t_events d) = length (xs @ ys)" "length e1 = length (take n (t_events d))"
    using arg_cong [OF decode_pos [OF dec], of length] arg_cong [OF decode_pos [OF e(1)], of length] by simp_all
  then have "length e1 = length xs" by (simp add: n_def)
  with e(3) have e': "e1 = xs" "e2 = ys" by simp_all
  show "decode env (all_rows (last_pos 0 xs) 0 d) = Some ys"
  proof (cases "xs = []")
    case True
    with dec show ?thesis by (simp add: last_pos_def all)
  next
    case False
    then have n: "0 < int n" by (simp add: n_def)
    have ne: "all_rows 0 (int n) d \<noteq> []" using n len False by (auto simp: all n_def)
    have "last_pos 0 xs = er_pos (last (all_rows 0 (int n) d))"
      using decode_last [OF e(1) [unfolded e']] False n by (simp add: last_pos_def all)
    then have "t_events d = take n (t_events d) @ all_rows (last_pos 0 xs) 0 d"
      using all_rows_cut [OF s n ne] n by (simp add: all)
    then have "all_rows (last_pos 0 xs) 0 d = drop n (t_events d)"
      by (metis append_take_drop_id same_append_eq)
    with e(2) e' show ?thesis by simp
  qed
  show "xs \<noteq> [] \<longrightarrow> 0 < last_pos 0 xs"
  proof
    assume "xs \<noteq> []"
    with decode_last [OF e(1) [unfolded e']] have "last (take n (t_events d)) \<in> set (t_events d)"
      by (intro in_set_takeD [OF last_in_set]) auto
    with pos decode_last [OF e(1) [unfolded e']] \<open>xs \<noteq> []\<close> show "0 < last_pos 0 xs" by (simp add: last_pos_def)
  qed
qed

context rebuilder begin

lemma one_pass:
  assumes "calm w" and "sorted_wrt (<) (map er_pos (t_events (db w)))" and "\<forall>r \<in> set (t_events (db w)). 0 < er_pos r"
    and "decode env (t_events (db w)) = Some es" and "length (t_events (db w)) < fuel"
  shows "RunInTx (rebuild env project name clear fuel until) w = RunInTx (replay project name clear (projectable until es)) w"
proof -
  have "all_rows 0 0 (db w) = t_events (db w)"
    using assms(3) by (simp add: all_rows_def Let_def sort_key_sorted [OF strict_sorted_imp_sorted [OF assms(2)]] filter_True)
  then have pass: "rebuild env project name clear fuel until w1 = replay project name clear (projectable until es) w1"
    if "calm w1" "db w1 = db w" for w1
    using assms that by (intro rebuild_pass) simp_all
  show ?thesis
  proof (cases "saved w")
    case None
    then show ?thesis using pass [of "w\<lparr>saved := Some (db w)\<rparr>"] assms(1)
      by (simp add: RunInTx_own in_own_tx_cong [OF _ assms(1) rebuild_rules(1,3)])
  next
    case (Some d)
    then show ?thesis using pass assms(1) by (simp add: RunInTx_nested)
  qed
qed

lemma resumes:
  assumes "calm w" and "sorted_wrt (<) (map er_pos (t_events (db w)))" and "\<forall>r \<in> set (t_events (db w)). 0 < er_pos r"
    and "decode env (t_events (db w)) = Some (xs @ ys)" and run: "RunInTx (replay project name clear xs) w = (Inr (Some ()), w')"
  shows "fst (checkpoint_Load name w') = Inr (last_pos 0 xs)"
    "decode env (all_rows (last_pos 0 xs) 0 (db w')) = Some ys"
proof -
  obtain w1 w2 where 1: "calm w1" "db w1 = db w" "replay project name clear xs w1 = (Inr (Some ()), w2)" "db w' = db w2"
  proof (cases "saved w")
    case None
    with run obtain v where "replay project name clear xs (w\<lparr>saved := Some (db w)\<rparr>) = (Inr (Some ()), v)"
      "w' = v\<lparr>saved := None\<rparr>"
      by (auto simp: RunInTx_own in_own_tx_calm [OF assms(1) rebuild_rules(3)] split: prod.splits sum.splits)
    with assms(1) show ?thesis by (intro that [of "w\<lparr>saved := Some (db w)\<rparr>" v]) simp_all
  next
    case (Some d)
    with run assms(1) that show ?thesis by (auto simp: RunInTx_nested)
  qed
  note d = decode_after [OF assms(2-4)]
  note c = replay_checkpoint [OF 1(1,3) d(2)]
  have "calm w2" using keeps_run [OF rebuild_rules(3) 1(1,3)] .
  moreover have "calm w'" using keeps_run [OF calm_RunInTx [OF rebuild_rules(3)] assms(1) run] .
  ultimately show "fst (checkpoint_Load name w') = Inr (last_pos 0 xs)"
    using c(1) 1(4) by (simp add: checkpoint_Load_calm)
  have "all_rows p 0 (db w') = all_rows p 0 (db w)" for p using c(2) 1 by (simp add: all_rows_def)
  with d(1) show "decode env (all_rows (last_pos 0 xs) 0 (db w')) = Some ys" by simp
qed

end

text \<open>C21. The batched rebuild is one pass: without faults, over a log with increasing positions whose events
  decode, it does exactly what clearing the table, projecting the events up to the first one that occurred after
  the bound, one after the other, and saving the position of the last of them does. When it succeeds, the stored
  checkpoint separates the projected events from the others: loading on from it yields exactly the events that
  were not projected.\<close>

theorem contract_Rebuild_one_pass:
  assumes "calm w" and "sorted_wrt (<) (map er_pos (t_events (db w)))" and "\<forall>r \<in> set (t_events (db w)). 0 < er_pos r"
    and "decode (pe_env pe) (t_events (db w)) = Some es" and "length (t_events (db w)) < fuel"
  shows "contract_Rebuild fuel pe until w = RunInTx (replay (contract_Project pe) ContractProjectorName
        (\<lambda>d. d\<lparr>t_contract_rms := []\<rparr>) (projectable until es)) w
    \<and> (\<forall>w'. contract_Rebuild fuel pe until w = (Inr (Some ()), w') \<longrightarrow> (\<exists>c.
         fst (checkpoint_Load ContractProjectorName w') = Inr c
       \<and> decode (pe_env pe) (all_rows c 0 (db w')) = Some (drop (length (projectable until es)) es)))"
proof -
  have split: "es = projectable until es @ drop (length (projectable until es)) es"
    unfolding projectable_def by (metis append_take_drop_id takeWhile_eq_take)
  have R: "contract_Rebuild fuel pe until w = RunInTx (replay (contract_Project pe) ContractProjectorName
        (\<lambda>d. d\<lparr>t_contract_rms := []\<rparr>) (projectable until es)) w"
    unfolding contract_Rebuild_alt by (rule crb.one_pass [OF assms])
  show ?thesis
  proof (intro conjI R allI impI)
    fix w' assume "contract_Rebuild fuel pe until w = (Inr (Some ()), w')"
    with R have run: "RunInTx (replay (contract_Project pe) ContractProjectorName
        (\<lambda>d. d\<lparr>t_contract_rms := []\<rparr>) (projectable until es)) w = (Inr (Some ()), w')" by simp
    from assms(4) split have "decode (pe_env pe) (t_events (db w)) =
        Some (projectable until es @ drop (length (projectable until es)) es)" by simp
    from crb.resumes [OF assms(1-3) this run]
    show "\<exists>c. fst (checkpoint_Load ContractProjectorName w') = Inr c
       \<and> decode (pe_env pe) (all_rows c 0 (db w')) = Some (drop (length (projectable until es)) es)" by blast
  qed
qed

theorem contract_Rebuild_one_pass_witness:
  "\<exists>w' e. contract_Rebuild 3 demo_penv 10 (demo_read []) = (Inr (Some ()), w')
     \<and> fst (checkpoint_Load ContractProjectorName w') = Inr 1
     \<and> decode demo_env (all_rows 1 0 (db w')) = Some [e] \<and> ev_ID e = ''e2''"
proof -
  have run: "fst (contract_Rebuild 3 demo_penv 10 (demo_read [])) = Inr (Some ())" by code_simp
  then obtain w' where w': "contract_Rebuild 3 demo_penv 10 (demo_read []) = (Inr (Some ()), w')"
    by (metis prod.collapse)
  obtain e1 e2 where d: "decode demo_env demo_log = Some [e1, e2]" "ev_OccurredAt e1 = 3" "ev_OccurredAt e2 = 50"
      "ev_ID e2 = ''e2''" "ev_GlobalPosition e1 = 1"
    by (simp add: decode_def demo_log_def row_to_event_def)
  have p: "projectable 10 [e1, e2] = [e1]" using d by (simp add: projectable_def)
  have "sorted_wrt (<) (map er_pos (t_events (db (demo_read []))))" "\<forall>r \<in> set (t_events (db (demo_read []))). 0 < er_pos r"
    "calm (demo_read [])" "length (t_events (db (demo_read []))) < 3"
    by (simp_all add: demo_read_def demo_log_def)
  moreover have "decode (pe_env demo_penv) (t_events (db (demo_read []))) = Some [e1, e2]"
    using d(1) by (simp add: demo_read_def demo_penv_def)
  ultimately obtain c where c: "fst (checkpoint_Load ContractProjectorName w') = Inr c"
      "decode demo_env (all_rows c 0 (db w')) = Some [e2]"
    using contract_Rebuild_one_pass [of "demo_read []" demo_penv "[e1, e2]" 3 10] w' p
    by (auto simp: demo_penv_def)
  have "fst (checkpoint_Load ContractProjectorName (snd (contract_Rebuild 3 demo_penv 10 (demo_read [])))) = Inr 1"
    by code_simp
  with c(1) w' have "c = 1" by simp
  with c w' d show ?thesis by blast
qed

end
