(* ===== verification/My_Contract_Repo.thy ===== *)
theory My_Contract_Repo
  imports My_Projection My_EventStore_Props "HOL-Library.Char_ord" "HOL-Library.List_Lexorder"
begin

text \<open>
  The contract repository of \<open>mysql/contract_repo.go\<close>: contracts are rebuilt from the latest usable
  snapshot and the events after it; lists of contracts come from the read model. The aggregate is the
  core library's: its operations are the parameter \<open>contract_core\<close>. An aggregate that a failed load
  leaves half built is dropped by every caller.
\<close>

record 'a contract_core =
  cc_new :: "string \<Rightarrow> 'a"
  cc_ID :: "'a \<Rightarrow> string"
  cc_Version :: "'a \<Rightarrow> int"
  cc_Uncommitted :: "'a \<Rightarrow> event list"
  cc_SetVersion :: "int \<Rightarrow> 'a \<Rightarrow> 'a"
  cc_ClearUncommitted :: "'a \<Rightarrow> 'a"
  cc_LoadFromSnapshot :: "snapshot \<Rightarrow> 'a \<Rightarrow> repo_error + 'a"
  cc_LoadFromHistory :: "event list \<Rightarrow> 'a \<Rightarrow> repo_error + 'a"

section \<open>Save\<close>

definition contract_Save :: "menv \<Rightarrow> 'a contract_core \<Rightarrow> 'a \<Rightarrow> ('m my_db_scheme, 'a) sql" where
  "contract_Save env cc a = (let events = cc_Uncommitted cc a in
     if events = [] then ret a
     else bindA (Append env (cc_ID cc a) events (cc_Version cc a)) (\<lambda>_.
       ret (cc_ClearUncommitted cc (cc_SetVersion cc (cc_Version cc a + int (length events)) a))))"

section \<open>Rehydration\<close>

definition loadEventsAfter :: "menv \<Rightarrow> string \<Rightarrow> int \<Rightarrow> ('m my_db_scheme, event list) sql" where
  "loadEventsAfter env streamID afterVersion =
     bindA (query (\<lambda>d. filter (\<lambda>r. afterVersion < er_version r) (stream_rows streamID d))) (scanEvents env)"

definition restoreSnapshot :: "'a contract_core \<Rightarrow> snapshot option \<Rightarrow> 'a \<Rightarrow> repo_error + 'a" where
  "restoreSnapshot cc so a = (case so of None \<Rightarrow> Inr a | Some s \<Rightarrow> cc_LoadFromSnapshot cc s a)"

definition replayEvents :: "'a contract_core \<Rightarrow> event list \<Rightarrow> 'a \<Rightarrow> repo_error + 'a" where
  "replayEvents cc es a = (if es = [] then Inr a else cc_LoadFromHistory cc es a)"

definition contract_FindByID :: "menv \<Rightarrow> 'a contract_core \<Rightarrow> string \<Rightarrow> ('m my_db_scheme, 'a) sql" where
  "contract_FindByID env cc i =
     bindA (LoadSnapshot i) (\<lambda>snap.
     bindA (liftA (restoreSnapshot cc snap (cc_new cc i))) (\<lambda>agg.
     bindA (loadEventsAfter env i (cc_Version cc agg)) (\<lambda>events.
     if snap = None \<and> events = [] then throw (DomainError ErrCodeNotFound None)
     else liftA (replayEvents cc events agg))))"

text \<open>The highest version among events, zero for none.\<close>

definition maxVersion :: "event list \<Rightarrow> int" where
  "maxVersion events = fold (\<lambda>e m. if m < ev_Version e then ev_Version e else m) events 0"

definition usable :: "snapshot option \<Rightarrow> int \<Rightarrow> snapshot option" where
  "usable snap maxVersionAsOf = (case snap of
      Some s \<Rightarrow> if sn_Version s \<le> maxVersionAsOf then Some s else None | None \<Rightarrow> None)"

definition contract_FindByIDAsOf :: "menv \<Rightarrow> 'a contract_core \<Rightarrow> string \<Rightarrow> time \<Rightarrow> ('m my_db_scheme, 'a) sql" where
  "contract_FindByIDAsOf env cc i asOf =
     bindA (LoadUntil env i asOf) (\<lambda>events.
     bindA (LoadSnapshotBefore env i asOf) (\<lambda>snap.
     let snap' = usable snap (maxVersion events) in
     bindA (liftA (restoreSnapshot cc snap' (cc_new cc i))) (\<lambda>agg.
     let relevant = filter (\<lambda>e. cc_Version cc agg < ev_Version e) events in
     if snap' = None \<and> relevant = [] then throw (DomainError ErrCodeNotFound None)
     else liftA (replayEvents cc relevant agg))))"

section \<open>Lists from the read model\<close>

definition findManyFromReadModel :: "menv \<Rightarrow> 'a contract_core \<Rightarrow> (read_db \<Rightarrow> contract_rm list) \<Rightarrow> (read_db, 'a list) sql" where
  "findManyFromReadModel env cc sel =
     bindA (query (\<lambda>d. map cm_id (sel d))) (\<lambda>ids. mapA (contract_FindByID env cc) ids)"

definition contract_FindByAccountID :: "menv \<Rightarrow> 'a contract_core \<Rightarrow> string \<Rightarrow> (read_db, 'a list) sql" where
  "contract_FindByAccountID env cc account =
     findManyFromReadModel env cc (\<lambda>d. filter (\<lambda>r. cm_account r = account) (t_contract_rms d))"

definition before_opt :: "time option \<Rightarrow> time \<Rightarrow> bool" where
  "before_opt t bound \<longleftrightarrow> (case t of None \<Rightarrow> False | Some x \<Rightarrow> x < bound)"

definition FindExpiring :: "menv \<Rightarrow> 'a contract_core \<Rightarrow> time \<Rightarrow> (read_db, 'a list) sql" where
  "FindExpiring env cc before = findManyFromReadModel env cc
     (\<lambda>d. filter (\<lambda>r. before_opt (cm_end r) (me_time env before) \<and> cm_status r = ''active'') (t_contract_rms d))"

text \<open>\<open>ORDER BY t ASC, id ASC LIMIT n\<close>, the limit only when it is positive.\<close>

definition ordered_limited :: "(contract_rm \<Rightarrow> time) \<Rightarrow> int \<Rightarrow> contract_rm list \<Rightarrow> contract_rm list" where
  "ordered_limited f lmt rows = (let sorted_rows = sort_key f (sort_key cm_id rows)
     in if 0 < lmt then take (nat lmt) sorted_rows else sorted_rows)"

definition FindTrialsEndingBefore :: "menv \<Rightarrow> 'a contract_core \<Rightarrow> time \<Rightarrow> int \<Rightarrow> (read_db, 'a list) sql" where
  "FindTrialsEndingBefore env cc before lmt = findManyFromReadModel env cc
     (\<lambda>d. ordered_limited (\<lambda>r. the (cm_trial_end r)) lmt
       (filter (\<lambda>r. before_opt (cm_trial_end r) (me_time env before) \<and> cm_status r = ''trialing'') (t_contract_rms d)))"

definition due_opt :: "time option \<Rightarrow> time \<Rightarrow> bool" where
  "due_opt t bound \<longleftrightarrow> (case t of None \<Rightarrow> False | Some x \<Rightarrow> x \<le> bound)"

definition FindDueForRenewal :: "menv \<Rightarrow> 'a contract_core \<Rightarrow> time \<Rightarrow> int \<Rightarrow> (read_db, 'a list) sql" where
  "FindDueForRenewal env cc asOf lmt = findManyFromReadModel env cc
     (\<lambda>d. ordered_limited (\<lambda>r. the (cm_renewal r)) lmt
       (filter (\<lambda>r. due_opt (cm_renewal r) (me_time env asOf) \<and> cm_status r = ''active'') (t_contract_rms d)))"

section \<open>Runs without faults\<close>

lemma scanSnapshot_run: "calm w \<Longrightarrow> scanSnapshot (query_row f) w =
    (Inr (map_option row_to_snapshot (f (db w))), w)"
  by (simp add: scanSnapshot_def tryA_def query_row_run split: option.split)

definition latest_snapshot :: "string \<Rightarrow> 'm my_db_scheme \<Rightarrow> snapshot_row option" where
  "latest_snapshot i d = first_row (sort_key (\<lambda>r. - sr_version r) (filter (\<lambda>r. sr_stream r = i) (t_snapshots d)))"

lemma LoadSnapshot_run: "calm w \<Longrightarrow> LoadSnapshot i w = (Inr (map_option row_to_snapshot (latest_snapshot i (db w))), w)"
  by (simp add: LoadSnapshot_def scanSnapshot_run latest_snapshot_def)

lemma decode_filter:
  assumes "decode env rows = Some es" and "\<And>r e. row_to_event env r = Inr e \<Longrightarrow> P r = Q e"
  shows "decode env (filter P rows) = Some (filter Q es)"
  using assms(1)
proof (induction rows arbitrary: es)
  case (Cons r rows)
  then obtain e es' where "row_to_event env r = Inr e" "decode env rows = Some es'" "es = e # es'"
    by (auto simp: decode_def split: option.splits sum.splits)
  with Cons.IH [of es'] assms(2) show ?case by (simp add: decode_def)
qed (simp add: decode_def)

lemma row_to_event_sel:
  "row_to_event env r = Inr e \<Longrightarrow> ev_Version e = er_version r \<and> ev_OccurredAt e = er_occurred r"
  by (auto simp: row_to_event_def split: option.splits)

lemma loadEventsAfter_run:
  assumes "calm w" and "decode env (stream_rows i (db w)) = Some es"
  shows "loadEventsAfter env i v w = (Inr (filter (\<lambda>e. v < ev_Version e) es), w)"
proof -
  have "decode env (filter (\<lambda>r. v < er_version r) (stream_rows i (db w))) = Some (filter (\<lambda>e. v < ev_Version e) es)"
    using assms(2) by (rule decode_filter) (simp add: row_to_event_sel)
  with assms(1) show ?thesis
    by (simp add: loadEventsAfter_def scanEvents_decode
        bindA_run [of "query (\<lambda>d. filter (\<lambda>r. v < er_version r) (stream_rows i d))" w, OF query_run])
qed

lemma LoadUntil_run:
  assumes "calm w" and "decode env (stream_rows i (db w)) = Some es"
  shows "LoadUntil env i t w = (Inr (filter (\<lambda>e. ev_OccurredAt e \<le> me_time env t) es), w)"
proof -
  have "decode env (filter (\<lambda>r. er_occurred r \<le> me_time env t) (stream_rows i (db w))) =
      Some (filter (\<lambda>e. ev_OccurredAt e \<le> me_time env t) es)"
    using assms(2) by (rule decode_filter) (simp add: row_to_event_sel)
  with assms(1) show ?thesis
    by (simp add: LoadUntil_def scanEvents_decode
        bindA_run [of "query (\<lambda>d. filter (\<lambda>r. er_occurred r \<le> me_time env t) (stream_rows i d))" w, OF query_run])
qed

end
