(* ===== verification/My_Contract_Props.thy ===== *)
theory My_Contract_Props
  imports My_Contract_Repo
begin

text \<open>
  Snapshots are only an optimisation: under the laws of the core's aggregate (\<open>core_laws\<close>: history can be
  replayed in parts; \<open>faithful\<close>: a snapshot is the replay up to its version) a contract found by id is the
  replay of its whole stream, and one found as of an instant is the replay of the events up to it, provided the
  events of the stream occurred in the order of their versions. Without that order a snapshot leaks later
  events.
\<close>

definition core_laws :: "'a contract_core \<Rightarrow> string \<Rightarrow> bool" where
  "core_laws cc i \<longleftrightarrow> cc_Version cc (cc_new cc i) = 0 \<and> (\<forall>xs ys. xs \<noteq> [] \<longrightarrow> ys \<noteq> [] \<longrightarrow>
     cc_LoadFromHistory cc (xs @ ys) (cc_new cc i) = (case cc_LoadFromHistory cc xs (cc_new cc i) of
        Inl e \<Rightarrow> Inl e | Inr a \<Rightarrow> cc_LoadFromHistory cc ys a))"

definition faithful :: "'a contract_core \<Rightarrow> string \<Rightarrow> event list \<Rightarrow> snapshot_row list \<Rightarrow> bool" where
  "faithful cc i es snaps \<longleftrightarrow> (\<forall>r \<in> set snaps. sr_stream r = i \<longrightarrow> (\<exists>a.
     cc_LoadFromSnapshot cc (row_to_snapshot r) (cc_new cc i) = Inr a \<and> cc_Version cc a = sr_version r \<and>
     replayEvents cc (filter (\<lambda>e. ev_Version e \<le> sr_version r) es) (cc_new cc i) = Inr a))"

lemma replay_parts:
  assumes "core_laws cc i"
  shows "replayEvents cc (xs @ ys) (cc_new cc i) = (case replayEvents cc xs (cc_new cc i) of
    Inl e \<Rightarrow> Inl e | Inr a \<Rightarrow> replayEvents cc ys a)"
  using assms by (cases "xs = []"; cases "ys = []") (auto simp: replayEvents_def core_laws_def split: sum.split)

lemma sorted_split:
  "sorted (map f xs) \<Longrightarrow> xs = filter (\<lambda>x. f x \<le> v) xs @ filter (\<lambda>x. v < f x) xs"
proof (induction xs)
  case (Cons x xs)
  show ?case
  proof (cases "f x \<le> v")
    case True
    with Cons show ?thesis by simp
  next
    case False
    with Cons.prems have "\<forall>y \<in> set xs. v < f y" by fastforce
    then have "filter (\<lambda>x. f x \<le> v) xs = []" "filter (\<lambda>x. v < f x) xs = xs" by (auto simp: filter_empty_conv filter_id_conv)
    with False show ?thesis by simp
  qed
qed simp

lemma decode_versions: "decode env rows = Some es \<Longrightarrow> map ev_Version es = map er_version rows"
proof (induction rows arbitrary: es)
  case (Cons r rows)
  then show ?case by (auto simp: decode_def split: option.splits sum.splits dest!: row_to_event_sel)
qed (simp add: decode_def)

lemma stream_versions:
  assumes "events_wf d n" and "decode env (stream_rows i d) = Some es"
  shows "sorted (map ev_Version es)" "\<forall>e \<in> set es. 0 < ev_Version e"
proof -
  have v: "map ev_Version es = versions_of i (t_events d)"
    using decode_versions [OF assms(2)] by (simp add: stream_rows_wf [OF assms(1)] versions_of_def)
  have c: "contiguous (versions_of i (t_events d))" using assms(1) by (simp add: events_wf_def)
  show "sorted (map ev_Version es)" unfolding v by (rule contiguous_sorted [OF c])
  have "\<forall>x \<in> set (versions_of i (t_events d)). 0 < x"
    using c unfolding contiguous_def by (metis (no_types, lifting) ex_map_conv of_nat_0_le_iff zle_iff_zadd add.commute int_one_le_iff_zero_less le_add_same_cancel2)
  then show "\<forall>e \<in> set es. 0 < ev_Version e" unfolding v [symmetric] by simp
qed

text \<open>Loading a snapshot and the events after it is replaying all of them.\<close>

lemma snapshot_then_rest:
  assumes "core_laws cc i" and "faithful cc i es snaps" and "r \<in> set snaps" "sr_stream r = i"
    and "sorted (map ev_Version es)"
  obtains a where "restoreSnapshot cc (Some (row_to_snapshot r)) (cc_new cc i) = Inr a" "cc_Version cc a = sr_version r"
    "replayEvents cc (filter (\<lambda>e. sr_version r < ev_Version e) es) a = replayEvents cc es (cc_new cc i)"
proof -
  from assms(2-4) obtain a where a: "cc_LoadFromSnapshot cc (row_to_snapshot r) (cc_new cc i) = Inr a"
    "cc_Version cc a = sr_version r"
    "replayEvents cc (filter (\<lambda>e. ev_Version e \<le> sr_version r) es) (cc_new cc i) = Inr a"
    unfolding faithful_def by blast
  have "replayEvents cc es (cc_new cc i) = replayEvents cc (filter (\<lambda>e. sr_version r < ev_Version e) es) a"
    using replay_parts [OF assms(1), of "filter (\<lambda>e. ev_Version e \<le> sr_version r) es"
        "filter (\<lambda>e. sr_version r < ev_Version e) es"] a(3) sorted_split [OF assms(5), of "sr_version r"] by simp
  with a that show thesis by (simp add: restoreSnapshot_def)
qed

lemma first_row_in: "first_row (sort_key f rows) = Some r \<Longrightarrow> r \<in> set rows"
proof -
  assume "first_row (sort_key f rows) = Some r"
  then obtain rest where "sort_key f rows = r # rest" by (auto simp: first_row_def split: list.splits)
  then have "r \<in> set (sort_key f rows)" by (simp del: set_sort)
  then show ?thesis by simp
qed

lemma latest_snapshot_in: "latest_snapshot i d = Some r \<Longrightarrow> r \<in> set (t_snapshots d) \<and> sr_stream r = i"
  unfolding latest_snapshot_def by (drule first_row_in) simp

section \<open>Lookup by id\<close>

lemma contract_FindByID_run:
  assumes "calm w" and "events_wf (db w) n" and "decode env (stream_rows i (db w)) = Some es" and "es \<noteq> []"
    and "core_laws cc i" and "faithful cc i es (t_snapshots (db w))"
  shows "contract_FindByID env cc i w = (replayEvents cc es (cc_new cc i), w)"
proof -
  note v = stream_versions [OF assms(2,3)]
  note load = LoadSnapshot_run [OF assms(1), of i]
  note after = loadEventsAfter_run [OF assms(1,3)]
  show ?thesis
  proof (cases "latest_snapshot i (db w)")
    case None
    have "filter (\<lambda>e. 0 < ev_Version e) es = es" using v(2) by (simp add: filter_id_conv)
    with None assms(4,5) after [of 0] load show ?thesis
      by (simp add: contract_FindByID_def bindA_def tryA_def restoreSnapshot_def core_laws_def)
  next
    case (Some r)
    from latest_snapshot_in [OF Some] obtain a where
      a: "restoreSnapshot cc (Some (row_to_snapshot r)) (cc_new cc i) = Inr a" "cc_Version cc a = sr_version r"
        "replayEvents cc (filter (\<lambda>e. sr_version r < ev_Version e) es) a = replayEvents cc es (cc_new cc i)"
      using snapshot_then_rest [OF assms(5,6) _ _ v(1)] by blast
    with Some after [of "sr_version r"] load show ?thesis
      by (simp add: contract_FindByID_def bindA_def tryA_def)
  qed
qed

text \<open>C22. Looking up a contract is replaying its whole stream, whatever snapshots are stored: with a log that is
  well formed and snapshots that are faithful, \<open>FindByID\<close> returns exactly what loading all events of the stream
  into a new aggregate returns, errors included.\<close>

theorem contract_FindByID_replays:
  assumes "calm w" and "events_wf (db w) n" and "decode env (stream_rows i (db w)) = Some es" and "es \<noteq> []"
    and "core_laws cc i" and "faithful cc i es (t_snapshots (db w))"
  shows "contract_FindByID env cc i w = (replayEvents cc es (cc_new cc i), w)"
  using assms by (rule contract_FindByID_run)

section \<open>Lookup as of an instant\<close>

lemma contiguous_distinct: "contiguous vs \<Longrightarrow> distinct vs"
proof -
  assume "contiguous vs"
  moreover have "distinct (map (\<lambda>i. int i + 1) [0..<k])" for k by (simp add: distinct_map inj_on_def)
  ultimately show ?thesis unfolding contiguous_def by metis
qed

lemma maxVersion_bounds:
  "\<forall>e \<in> set es. ev_Version e \<le> maxVersion es" "maxVersion es \<in> insert 0 (ev_Version ` set es)"
proof -
  let ?m = "fold (\<lambda>e m. if m < ev_Version e then ev_Version e else m)"
  have "m \<le> ?m es m \<and> (\<forall>e \<in> set es. ev_Version e \<le> ?m es m) \<and> ?m es m \<in> insert m (ev_Version ` set es)" for m
  proof (induction es arbitrary: m)
    case (Cons a es)
    from Cons.IH [of m] Cons.IH [of "ev_Version a"] show ?case by (cases "m < ev_Version a") auto
  qed simp
  from this [of 0] show "\<forall>e \<in> set es. ev_Version e \<le> maxVersion es" "maxVersion es \<in> insert 0 (ev_Version ` set es)"
    by (simp_all add: maxVersion_def)
qed

text \<open>Up to the horizon's highest version, the events of the horizon are all events.\<close>

lemma horizon_prefix:
  assumes "sorted (map ev_Version es)" and "sorted (map ev_OccurredAt es)" and "distinct (map ev_Version es)"
    and "v \<le> maxVersion (filter (\<lambda>e. ev_OccurredAt e \<le> t) es)" and "\<forall>e \<in> set es. 0 < ev_Version e"
  shows "filter (\<lambda>e. ev_Version e \<le> v) (filter (\<lambda>e. ev_OccurredAt e \<le> t) es) = filter (\<lambda>e. ev_Version e \<le> v) es"
proof -
  have "ev_OccurredAt x \<le> t" if x: "x \<in> set es" "ev_Version x \<le> v" for x
  proof -
    have "0 < maxVersion (filter (\<lambda>e. ev_OccurredAt e \<le> t) es)" using assms(4,5) x by force
    then obtain y where y: "y \<in> set es" "ev_OccurredAt y \<le> t" "ev_Version x \<le> ev_Version y"
      using maxVersion_bounds(2) [of "filter (\<lambda>e. ev_OccurredAt e \<le> t) es"] assms(4) x(2) by fastforce
    from x(1) y(1) obtain j k where jk: "j < length es" "k < length es" "x = es ! j" "y = es ! k"
      by (auto simp: in_set_conv_nth)
    show ?thesis
    proof (cases "j \<le> k")
      case True
      then have "ev_OccurredAt x \<le> ev_OccurredAt y" using sorted_nth_mono [OF assms(2), of j k] jk by simp
      with y show ?thesis by simp
    next
      case False
      then have "ev_Version y \<le> ev_Version x" using sorted_nth_mono [OF assms(1), of k j] jk by simp
      with y(3) have "map ev_Version es ! j = map ev_Version es ! k" using jk by simp
      with nth_eq_iff_index_eq [OF assms(3), of j k] jk have "j = k" by simp
      with False show ?thesis by simp
    qed
  qed
  then show ?thesis by (auto simp: conj_commute intro: filter_cong)
qed

definition snapshot_before :: "menv \<Rightarrow> string \<Rightarrow> time \<Rightarrow> 'm my_db_scheme \<Rightarrow> snapshot_row option" where
  "snapshot_before env i t d = first_row (sort_key (\<lambda>r. - sr_created r) (sort_key (\<lambda>r. - sr_version r)
     (filter (\<lambda>r. sr_stream r = i \<and> sr_created r < me_time env t) (t_snapshots d))))"

lemma LoadSnapshotBefore_run:
  "calm w \<Longrightarrow> LoadSnapshotBefore env i t w = (Inr (map_option row_to_snapshot (snapshot_before env i t (db w))), w)"
  by (simp add: LoadSnapshotBefore_def scanSnapshot_run snapshot_before_def)

lemma snapshot_before_in: "snapshot_before env i t d = Some r \<Longrightarrow> r \<in> set (t_snapshots d) \<and> sr_stream r = i"
  unfolding snapshot_before_def by (drule first_row_in) simp

text \<open>C23. Looking up a contract as of an instant is replaying the events that occurred up to it, snapshots or
  not: with a well-formed log, faithful snapshots, and a stream whose events occurred in the order of their
  versions, \<open>FindByIDAsOf\<close> returns exactly what loading those events into a new aggregate returns.\<close>

theorem contract_FindByIDAsOf_replays:
  assumes "calm w" and "events_wf (db w) n" and "decode env (stream_rows i (db w)) = Some es"
    and "core_laws cc i" and "faithful cc i es (t_snapshots (db w))" and "sorted (map ev_OccurredAt es)"
    and "due = filter (\<lambda>e. ev_OccurredAt e \<le> me_time env t) es" and "due \<noteq> []"
  shows "contract_FindByIDAsOf env cc i t w = (replayEvents cc due (cc_new cc i), w)"
proof -
  note v = stream_versions [OF assms(2,3)]
  let ?f = "snapshot_before env i t (db w)"
  note before = LoadSnapshotBefore_run [OF assms(1), of env i t]
  have until: "LoadUntil env i t w = (Inr due, w)" unfolding assms(7) by (rule LoadUntil_run [OF assms(1,3)])
  show ?thesis
  proof (cases "usable (map_option row_to_snapshot (?f)) (maxVersion due)")
    case None
    have "filter (\<lambda>e. 0 < ev_Version e) due = due" using v(2) by (simp add: filter_id_conv assms(7) del: filter_filter)
    with None assms(4,8) before until show ?thesis
      by (simp add: contract_FindByIDAsOf_def bindA_def tryA_def restoreSnapshot_def core_laws_def)
  next
    case (Some s)
    then obtain r where r: "?f = Some r" "s = row_to_snapshot r" "sr_version r \<le> maxVersion due"
      by (auto simp: usable_def row_to_snapshot_def split: option.splits if_splits)
    then have r': "r \<in> set (t_snapshots (db w))" "sr_stream r = i"
      by (auto dest: snapshot_before_in)
    have "distinct (map ev_Version es)"
      using decode_versions [OF assms(3)] assms(2) stream_rows_wf [OF assms(2)]
      by (metis contiguous_distinct events_wf_def versions_of_def)
    from horizon_prefix [OF v(1) assms(6) this, of "sr_version r" "me_time env t"] r(3) v(2)
    have pre: "filter (\<lambda>e. ev_Version e \<le> sr_version r) due = filter (\<lambda>e. ev_Version e \<le> sr_version r) es"
      by (simp add: assms(7))
    have "sorted (map ev_Version due)" unfolding assms(7) by (rule sorted_filter [OF v(1)])
    moreover have "faithful cc i due [r]" using assms(5) r' by (simp add: faithful_def pre)
    ultimately obtain a where
      a: "restoreSnapshot cc (Some (row_to_snapshot r)) (cc_new cc i) = Inr a" "cc_Version cc a = sr_version r"
        "replayEvents cc (filter (\<lambda>e. sr_version r < ev_Version e) due) a = replayEvents cc due (cc_new cc i)"
      using snapshot_then_rest [OF assms(4) _ _ r'(2), of due "[r]"] by auto
    with Some r(2) before until show ?thesis
      by (simp add: contract_FindByIDAsOf_def bindA_def tryA_def)
  qed
qed

section \<open>Witnesses and a leak\<close>

text \<open>An aggregate that collects the ids of its events; its snapshot's state is those ids.\<close>

definition demo_agg :: "(int \<times> string list) contract_core" where
  "demo_agg = \<lparr>cc_new = (\<lambda>_. (0, [])), cc_ID = (\<lambda>_. ''c''), cc_Version = fst, cc_Uncommitted = (\<lambda>_. []),
     cc_SetVersion = (\<lambda>v a. (v, snd a)), cc_ClearUncommitted = (\<lambda>a. a),
     cc_LoadFromSnapshot = (\<lambda>s a. Inr (sn_Version s, map (\<lambda>c. [c]) (sn_State s))),
     cc_LoadFromHistory = (\<lambda>es a. Inr (ev_Version (last es), snd a @ map ev_ID es))\<rparr>"

lemma demo_agg_laws: "core_laws demo_agg i"
  by (simp add: core_laws_def demo_agg_def)

definition demo_contract_row :: "int \<Rightarrow> string \<Rightarrow> time \<Rightarrow> event_row" where
  "demo_contract_row v i t = \<lparr>er_pos = v, er_id = i, er_stream = ''c'', er_type = ''t'', er_version = v, er_schema = 1,
     er_data = ''{}'', er_meta = [], er_occurred = t, er_recorded = t\<rparr>"

definition demo_contracts :: "event_row list \<Rightarrow> int \<Rightarrow> string \<Rightarrow> my_db world" where
  "demo_contracts rows v state = \<lparr>db = \<lparr>t_events = rows, t_snapshots =
       [\<lparr>sr_stream = ''c'', sr_version = v, sr_state = state, sr_as_of = 6, sr_created = 6\<rparr>], t_append_lock = [1]\<rparr>,
     saved = None, autoinc = 9, clk = 60, snow = 60, faults = []\<rparr>"

definition demo_ordered :: "my_db world" where
  "demo_ordered = demo_contracts [demo_contract_row 1 ''1'' 1, demo_contract_row 2 ''2'' 50] 1 ''1''"

definition demo_event_of :: "event_row \<Rightarrow> event" where
  "demo_event_of r = projr (row_to_event demo_env r)"

lemma demo_ordered_facts:
  "calm demo_ordered" "events_wf (db demo_ordered) 9"
  "decode demo_env (stream_rows ''c'' (db demo_ordered)) =
     Some [demo_event_of (demo_contract_row 1 ''1'' 1), demo_event_of (demo_contract_row 2 ''2'' 50)]"
  "faithful demo_agg ''c'' [demo_event_of (demo_contract_row 1 ''1'' 1), demo_event_of (demo_contract_row 2 ''2'' 50)]
     (t_snapshots (db demo_ordered))"
  by (simp_all add: demo_ordered_def demo_contracts_def demo_contract_row_def demo_event_of_def events_wf_def
      versions_of_def contiguous_def stream_rows_def decode_def row_to_event_def faithful_def
      row_to_snapshot_def replayEvents_def demo_agg_def)

theorem contract_FindByID_replays_witness:
  "fst (contract_FindByID demo_env demo_agg ''c'' demo_ordered) = Inr (2, [''1'', ''2''])"
  using contract_FindByID_replays [OF demo_ordered_facts(1,2,3) _ demo_agg_laws demo_ordered_facts(4)]
  by (simp add: replayEvents_def demo_agg_def demo_event_of_def demo_contract_row_def row_to_event_def)

theorem contract_FindByIDAsOf_replays_witness:
  "fst (contract_FindByIDAsOf demo_env demo_agg ''c'' 10 demo_ordered) = Inr (1, [''1''])"
proof -
  let ?es = "[demo_event_of (demo_contract_row 1 ''1'' 1), demo_event_of (demo_contract_row 2 ''2'' 50)]"
  have "sorted (map ev_OccurredAt ?es)"
    and due: "filter (\<lambda>e. ev_OccurredAt e \<le> me_time demo_env 10) ?es = [demo_event_of (demo_contract_row 1 ''1'' 1)]"
    by (simp_all add: demo_event_of_def demo_contract_row_def row_to_event_def demo_env_def)
  from contract_FindByIDAsOf_replays [OF demo_ordered_facts(1,2,3) demo_agg_laws demo_ordered_facts(4) this(1) refl, of 10] due show ?thesis
    by (simp add: replayEvents_def demo_agg_def demo_event_of_def demo_contract_row_def row_to_event_def)
qed

text \<open>The order is needed: here the second event occurred after the instant and the third before it; a faithful
  snapshot of the first two is used, and the contract as of the instant contains the second event.\<close>

lemma asof_snapshot_leaks:
  "let w = demo_contracts [demo_contract_row 1 ''1'' 1, demo_contract_row 2 ''2'' 50, demo_contract_row 3 ''3'' 5] 2 ''12''
   in fst (contract_FindByIDAsOf demo_env demo_agg ''c'' 10 w) = Inr (3, [''1'', ''2'', ''3''])"
  by code_simp

end
