(* ===== verification/My_Usage_Repo.thy ===== *)
theory My_Usage_Repo
  imports My_Values "HOL-Library.Multiset"
begin

text \<open>
  The usage repository of \<open>mysql/usage_repo.go\<close>: recording with an idempotency key, the summary of a period
  and the records behind it. The JSON form of the metadata and the validation of \<open>FromSnapshot\<close> are
  parameters (\<open>usage_core\<close>).
\<close>

record usage_snapshot =
  us_ID :: string
  us_ContractID :: string
  us_MetricName :: string
  us_Quantity :: int64
  us_Timestamp :: time
  us_IdempotencyKey :: string
  us_Metadata :: "(string \<times> string) list"

record usage_core =
  uc_metadata :: "(string \<times> string) list codec"
  uc_valid :: "usage_snapshot \<Rightarrow> bool"

definition usage_FromSnapshot :: "usage_core \<Rightarrow> usage_snapshot \<Rightarrow> repo_error + usage_snapshot" where
  "usage_FromSnapshot co s = (if uc_valid co s then Inr s else Inl (OtherError ''usage snapshot''))"

record usage_row =
  uw_id :: string
  uw_contract :: string
  uw_metric :: string
  uw_quantity :: int64
  uw_timestamp :: time
  uw_key :: "string option"
  uw_metadata :: string

record usage_db =
  t_usage :: "usage_row list"

definition usage_table :: "(usage_db, usage_row) table" where
  "usage_table = \<lparr>tb_name = ''usage_records'',
     tb_keys = [(''PRIMARY'', \<lambda>r. Some (uw_id r)), (''idempotency_key'', uw_key)],
     tb_get = t_usage, tb_set = (\<lambda>rows d. d\<lparr>t_usage := rows\<rparr>)\<rparr>"

section \<open>Record\<close>

definition usage_to_row :: "menv \<Rightarrow> usage_snapshot \<Rightarrow> string \<Rightarrow> usage_row" where
  "usage_to_row env s metadata = \<lparr>uw_id = us_ID s, uw_contract = us_ContractID s, uw_metric = us_MetricName s,
     uw_quantity = us_Quantity s, uw_timestamp = me_time env (us_Timestamp s),
     uw_key = opt_string (us_IdempotencyKey s), uw_metadata = metadata\<rparr>"

definition Record :: "menv \<Rightarrow> usage_core \<Rightarrow> usage_snapshot \<Rightarrow> (usage_db, unit) sql" where
  "Record env co s = (case co_enc (uc_metadata co) (us_Metadata s) of
      None \<Rightarrow> throw (OtherError ''marshal usage metadata'')
    | Some metadata \<Rightarrow> mapErrA
        (\<lambda>err. if dupEntryOnKey err ''idempotency_key'' then DomainError ErrCodeDuplicateRequest None else err)
        (insert_into usage_table (\<lambda>_. case json_column env metadata of
           Inl e \<Rightarrow> Inl e | Inr m \<Rightarrow> Inr (usage_to_row env s m))))"

section \<open>Queries\<close>

definition in_period :: "menv \<Rightarrow> string \<Rightarrow> string \<Rightarrow> time \<Rightarrow> time \<Rightarrow> usage_row \<Rightarrow> bool" where
  "in_period env contract metric fromT toT r \<longleftrightarrow> uw_contract r = contract \<and> uw_metric r = metric \<and>
     me_time env fromT \<le> uw_timestamp r \<and> uw_timestamp r < me_time env toT"

record usage_summary =
  um_ContractID :: string
  um_MetricName :: string
  um_Period :: "time \<times> time"
  um_TotalUsage :: int64

text \<open>\<open>COALESCE(SUM(quantity), 0)\<close> is exact; scanning it into an \<open>int64\<close> fails out of range.\<close>

definition GetSummary :: "menv \<Rightarrow> string \<Rightarrow> string \<Rightarrow> time \<times> time \<Rightarrow> (usage_db, usage_summary) sql" where
  "GetSummary env contract metric period =
     bindA (query (\<lambda>d. sum_list (map (\<lambda>r. sint (uw_quantity r))
       (filter (in_period env contract metric (fst period) (snd period)) (t_usage d))))) (\<lambda>total.
     if \<not> is_int64 total then throw (OtherError ''scan usage summary'')
     else ret \<lparr>um_ContractID = contract, um_MetricName = metric, um_Period = period,
       um_TotalUsage = word_of_int total\<rparr>)"

text \<open>Metadata that does not decode is left empty.\<close>

definition usage_of_row :: "usage_core \<Rightarrow> usage_row \<Rightarrow> repo_error + usage_snapshot" where
  "usage_of_row co r = usage_FromSnapshot co
     \<lparr>us_ID = uw_id r, us_ContractID = uw_contract r, us_MetricName = uw_metric r, us_Quantity = uw_quantity r,
      us_Timestamp = uw_timestamp r, us_IdempotencyKey = (case uw_key r of Some k \<Rightarrow> k | None \<Rightarrow> []),
      us_Metadata = (if uw_metadata r = [] then []
        else case co_dec (uc_metadata co) (uw_metadata r) of Some m \<Rightarrow> m | None \<Rightarrow> [])\<rparr>"

definition GetRecords :: "menv \<Rightarrow> usage_core \<Rightarrow> string \<Rightarrow> string \<Rightarrow> time \<Rightarrow> time \<Rightarrow> (usage_db, usage_snapshot list) sql" where
  "GetRecords env co contract metric fromT toT =
     bindA (query (\<lambda>d. sort_key uw_timestamp (filter (in_period env contract metric fromT toT) (t_usage d)))) (\<lambda>rows.
     mapA (\<lambda>r. liftA (usage_of_row co r)) rows)"

section \<open>The summary is the sum of the records\<close>

lemma GetRecords_Inr:
  assumes "calm w" and "GetRecords env co contract metric a b w = (Inr recs, w')"
  shows "w' = w \<and> map us_Quantity recs = map uw_quantity (sort_key uw_timestamp (filter (in_period env contract metric a b) (t_usage (db w))))"
proof -
  let ?q = "\<lambda>d. sort_key uw_timestamp (filter (in_period env contract metric a b) (t_usage d))"
  have "mapA (\<lambda>r. liftA (usage_of_row co r)) rows w = (Inr recs, w') \<Longrightarrow>
      w' = w \<and> map us_Quantity recs = map uw_quantity rows" for rows
  proof (induction rows arbitrary: recs)
    case (Cons r rows)
    then show ?case by (auto simp: bindA_Inr usage_of_row_def usage_FromSnapshot_def split: if_splits)
  qed simp
  with assms show ?thesis by (simp add: GetRecords_def bindA_run [of "query ?q" w, OF query_run])
qed

lemma sum_list_sort_key: "sum_list (map f (sort_key k xs)) = sum_list (map (f :: 'a \<Rightarrow> int) xs)"
  by (metis mset_map mset_sort sum_mset_sum_list)

text \<open>C24. The records found for a period are those of the contract and the metric from its start on and before its end, in
  the order of their time; its summary is the exact sum of their quantities, and it is refused, never wrapped, when
  that sum leaves the range of 64 bits.\<close>

theorem usage_summary_exact:
  assumes "calm w" and "GetRecords env co contract metric a b w = (Inr recs, w')"
  shows "map us_Quantity recs = map uw_quantity (sort_key uw_timestamp (filter (\<lambda>r. uw_contract r = contract \<and>
      uw_metric r = metric \<and> me_time env a \<le> uw_timestamp r \<and> uw_timestamp r < me_time env b) (t_usage (db w)))) \<and>
    (let total = sum_list (map (\<lambda>u. sint (us_Quantity u)) recs) in
     case fst (GetSummary env contract metric (a, b) w) of
       Inr s \<Rightarrow> sint (um_TotalUsage s) = total \<and> um_ContractID s = contract \<and> um_MetricName s = metric
     | Inl e \<Rightarrow> \<not> is_int64 total)"
proof -
  let ?q = "\<lambda>d. sum_list (map (\<lambda>r. sint (uw_quantity r)) (filter (in_period env contract metric a b) (t_usage d)))"
  from GetRecords_Inr [OF assms] have "map sint (map us_Quantity recs) = map sint (map uw_quantity
      (sort_key uw_timestamp (filter (in_period env contract metric a b) (t_usage (db w)))))" by simp
  then have "sum_list (map (\<lambda>u. sint (us_Quantity u)) recs) = ?q (db w)"
    using sum_list_sort_key [of "\<lambda>r. sint (uw_quantity r)"] by (simp add: comp_def)
  with assms(1) have "let total = sum_list (map (\<lambda>u. sint (us_Quantity u)) recs) in
     case fst (GetSummary env contract metric (a, b) w) of
       Inr s \<Rightarrow> sint (um_TotalUsage s) = total \<and> um_ContractID s = contract \<and> um_MetricName s = metric
     | Inl e \<Rightarrow> \<not> is_int64 total"
    by (simp add: GetSummary_def Let_def bindA_run [of "query ?q" w, OF query_run] sint_of_int64)
  then show ?thesis using GetRecords_Inr [OF assms] by (simp add: in_period_def [abs_def])
qed

definition demo_usage_row :: "string \<Rightarrow> int64 \<Rightarrow> time \<Rightarrow> usage_row" where
  "demo_usage_row i q t = \<lparr>uw_id = i, uw_contract = ''c'', uw_metric = ''m'', uw_quantity = q, uw_timestamp = t,
     uw_key = None, uw_metadata = []\<rparr>"

definition demo_usage :: "usage_db world" where
  "demo_usage = \<lparr>db = \<lparr>t_usage = [demo_usage_row ''b'' 5 20, demo_usage_row ''a'' 7 10, demo_usage_row ''d'' 9 30]\<rparr>,
     saved = None, autoinc = 1, clk = 0, snow = 0, faults = []\<rparr>"

definition demo_usage_core :: usage_core where
  "demo_usage_core = \<lparr>uc_metadata = \<lparr>co_enc = (\<lambda>_. Some ''{}''), co_dec = (\<lambda>_. Some [])\<rparr>, uc_valid = (\<lambda>_. True)\<rparr>"

theorem usage_summary_exact_witness:
  "\<exists>s. fst (GetSummary demo_env ''c'' ''m'' (0, 30) demo_usage) = Inr s \<and> sint (um_TotalUsage s) = 12"
proof -
  have "map us_ID (projr (fst (GetRecords demo_env demo_usage_core ''c'' ''m'' 0 30 demo_usage))) = [''a'', ''b'']"
    and nl: "\<not> isl (fst (GetRecords demo_env demo_usage_core ''c'' ''m'' 0 30 demo_usage))" by code_simp+
  have q: "map (\<lambda>u. sint (us_Quantity u)) (projr (fst (GetRecords demo_env demo_usage_core ''c'' ''m'' 0 30 demo_usage))) = [7, 5]"
    by code_simp
  from nl obtain recs w' where run: "GetRecords demo_env demo_usage_core ''c'' ''m'' 0 30 demo_usage = (Inr recs, w')"
    by (metis prod.collapse sum.collapse(2))
  have "calm demo_usage" by (simp add: demo_usage_def)
  from usage_summary_exact [OF this run] q run show ?thesis
    by (auto simp: Let_def is_int64_def split: sum.splits)
qed

text \<open>A key that is taken is the duplicate-request error, and nothing is written.\<close>

lemma Record_duplicate_key:
  assumes "calm w" and "x \<in> set (t_usage (db w))" and "uw_key x = Some (us_IdempotencyKey s)"
    and "us_IdempotencyKey s \<noteq> []" and "us_ID s \<notin> uw_id ` set (t_usage (db w))"
    and "co_enc (uc_metadata co) (us_Metadata s) = Some md" and "json_column env md = Inr m"
  shows "Record env co s w = (Inl (DomainError ErrCodeDuplicateRequest None), w)"
proof -
  have "find (clashes (t_usage (db w)) (usage_to_row env s m)) (tb_keys usage_table) = Some (''idempotency_key'', uw_key)"
  proof -
    have "\<not> clashes (t_usage (db w)) (usage_to_row env s m) (''PRIMARY'', \<lambda>r. Some (uw_id r))"
      using assms(5) by (force simp: clashes_def usage_to_row_def)
    moreover have "clashes (t_usage (db w)) (usage_to_row env s m) (''idempotency_key'', uw_key)"
      using assms(2-4) by (auto simp: clashes_def usage_to_row_def opt_string_def)
    ultimately show ?thesis by (simp add: usage_table_def)
  qed
  then have run: "insert_into usage_table (\<lambda>_. case json_column env md of
        Inl e \<Rightarrow> Inl e | Inr m \<Rightarrow> Inr (usage_to_row env s m)) w
      = (Inl (DbError (dup_error ''usage_records'' (''idempotency_key'', uw_key) (usage_to_row env s m))), w)"
    using assms(1,7) by (simp add: insert_into_run insert_row_def usage_table_def)
  have "dupEntryOnKey (DbError (dup_error ''usage_records'' (''idempotency_key'', uw_key) (usage_to_row env s m)))
      ''idempotency_key''"
  proof (subst dupEntryOnKey_dup)
    show "quote_char \<notin> set ''idempotency_key''" "\<not> contains ''Duplicate entry '' ''idempotency_key''"
      "\<not> contains '' for key '' ''idempotency_key''" by code_simp+
    have "contains ''usage_records.idempotency_key'' ''idempotency_key''" by code_simp
    then show "contains (case snd (''idempotency_key'', uw_key) (usage_to_row env s m) of None \<Rightarrow> [] | Some v \<Rightarrow> v)
        ''idempotency_key'' \<or> contains (''usage_records'' @ ''.'' @ fst (''idempotency_key'', uw_key)) ''idempotency_key''"
      by simp
  qed simp
  with assms(6) run show ?thesis by (simp add: Record_def mapErrA_def tryA_def)
qed

end
