(* ===== verification/My_Product_Repo.thy ===== *)
theory My_Product_Repo
  imports My_Values
begin

text \<open>
  The product repository of \<open>mysql/product_repo.go\<close>: an upsert by id and the lookup. Feature lists, metrics
  and metadata are values of the core library with their JSON codecs (\<open>product_core\<close>).
\<close>

record ('f, 'u, 'm) product_snapshot =
  ps_ID :: string
  ps_Name :: string
  ps_Description :: string
  ps_Status :: string
  ps_Features :: 'f
  ps_UsageMetrics :: 'u
  ps_Metadata :: 'm
  ps_CreatedAt :: time

text \<open>Codecs, the nil values an empty column leaves, and the validation of \<open>FromSnapshot\<close>.\<close>

record ('f, 'u, 'm) product_core =
  pk_features :: "'f codec"
  pk_usage :: "'u codec"
  pk_metadata :: "'m codec"
  pk_nil :: "'f \<times> 'u \<times> 'm"
  pk_valid :: "('f, 'u, 'm) product_snapshot \<Rightarrow> bool"

record product_row =
  pw_id :: string
  pw_name :: string
  pw_description :: string
  pw_status :: string
  pw_features :: string
  pw_usage :: string
  pw_metadata :: string
  pw_created :: time

record product_db =
  t_products :: "product_row list"

definition product_FindByID :: "('f, 'u, 'm) product_core \<Rightarrow> string \<Rightarrow> (product_db, ('f, 'u, 'm) product_snapshot) sql" where
  "product_FindByID co i = tryA (query_row (\<lambda>d. find (\<lambda>r. pw_id r = i) (t_products d)))
     (\<lambda>e. if as_db e = Some ErrNoRows then throw (DomainError ErrCodeNotFound None) else throw e)
     (\<lambda>r. case (if pw_features r = [] then Some (fst (pk_nil co)) else co_dec (pk_features co) (pw_features r),
             if pw_usage r = [] then Some (fst (snd (pk_nil co))) else co_dec (pk_usage co) (pw_usage r),
             if pw_metadata r = [] then Some (snd (snd (pk_nil co))) else co_dec (pk_metadata co) (pw_metadata r)) of
         (Some f, Some u, Some m) \<Rightarrow>
           (let s = \<lparr>ps_ID = i, ps_Name = pw_name r, ps_Description = pw_description r, ps_Status = pw_status r,
              ps_Features = f, ps_UsageMetrics = u, ps_Metadata = m, ps_CreatedAt = pw_created r\<rparr>
            in if pk_valid co s then ret s else throw (OtherError ''product snapshot''))
       | _ \<Rightarrow> throw (OtherError ''unmarshal product''))"

text \<open>\<open>INSERT ... ON DUPLICATE KEY UPDATE\<close>: the creation time of an existing product stays.\<close>

definition upsert_product :: "menv \<Rightarrow> ('f, 'u, 'm) product_snapshot \<Rightarrow> string \<Rightarrow> string \<Rightarrow> string \<Rightarrow> (product_db, unit) sql" where
  "upsert_product env s f u m = exec_stmt (\<lambda>d. case (me_json env f, me_json env u, me_json env m) of
      (Some f', Some u', Some m') \<Rightarrow>
        (let row = \<lparr>pw_id = ps_ID s, pw_name = ps_Name s, pw_description = ps_Description s, pw_status = ps_Status s,
               pw_features = f', pw_usage = u', pw_metadata = m', pw_created = me_time env (ps_CreatedAt s)\<rparr>
         in (Inr (), d\<lparr>t_products := upsert_row pw_id row (\<lambda>r. row\<lparr>pw_created := pw_created r\<rparr>) (t_products d)\<rparr>))
    | _ \<Rightarrow> (Inl (MySQLError 3140 ''Invalid JSON text''), d))"

definition product_Save :: "menv \<Rightarrow> ('f, 'u, 'm) product_core \<Rightarrow> ('f, 'u, 'm) product_snapshot \<Rightarrow> (product_db, unit) sql" where
  "product_Save env co s = (case (co_enc (pk_features co) (ps_Features s), co_enc (pk_usage co) (ps_UsageMetrics s),
      co_enc (pk_metadata co) (ps_Metadata s)) of
      (Some f, Some u, Some m) \<Rightarrow> upsert_product env s f u m
    | _ \<Rightarrow> throw (OtherError ''marshal product''))"

lemma codec_text: "codec_ok env c \<Longrightarrow> co_enc c a = Some t \<Longrightarrow> me_json env t = Some x \<Longrightarrow> x \<noteq> [] \<and> co_dec c x = Some a"
  by (auto simp: codec_ok_def split: option.splits)

text \<open>A saved product is found, with the creation time of its first save.\<close>

lemma product_Save_FindByID:
  assumes "calm w" and "codec_ok env (pk_features co)" "codec_ok env (pk_usage co)" "codec_ok env (pk_metadata co)"
    and "product_Save env co s w = (Inr (), w')" and "pk_valid co s'"
    and "s' = s\<lparr>ps_CreatedAt := (case find (\<lambda>r. pw_id r = ps_ID s) (t_products (db w)) of
        None \<Rightarrow> me_time env (ps_CreatedAt s) | Some r \<Rightarrow> pw_created r)\<rparr>"
  shows "product_FindByID co (ps_ID s) w' = (Inr s', w')"
proof -
  from assms(1,5) obtain f u m f' u' m' where e: "co_enc (pk_features co) (ps_Features s) = Some f"
    "co_enc (pk_usage co) (ps_UsageMetrics s) = Some u" "co_enc (pk_metadata co) (ps_Metadata s) = Some m"
    "me_json env f = Some f'" "me_json env u = Some u'" "me_json env m = Some m'"
    and w': "w' = snd (upsert_product env s f u m w)"
    by (auto simp: product_Save_def upsert_product_def exec_stmt_run split: option.splits)
  have dec: "f' \<noteq> [] \<and> co_dec (pk_features co) f' = Some (ps_Features s)" "u' \<noteq> [] \<and> co_dec (pk_usage co) u' = Some (ps_UsageMetrics s)"
    "m' \<noteq> [] \<and> co_dec (pk_metadata co) m' = Some (ps_Metadata s)"
    by (rule codec_text [OF assms(2) e(1,4)], rule codec_text [OF assms(3) e(2,5)], rule codec_text [OF assms(4) e(3,6)])
  have "calm w'" using assms(1) w' by (simp add: upsert_product_def exec_stmt_run split: prod.split option.split)
  moreover have "find (\<lambda>r. pw_id r = ps_ID s) (t_products (db w')) = Some
      \<lparr>pw_id = ps_ID s, pw_name = ps_Name s, pw_description = ps_Description s, pw_status = ps_Status s,
       pw_features = f', pw_usage = u', pw_metadata = m', pw_created = ps_CreatedAt s'\<rparr>"
  proof -
    let ?row = "\<lparr>pw_id = ps_ID s, pw_name = ps_Name s, pw_description = ps_Description s, pw_status = ps_Status s,
       pw_features = f', pw_usage = u', pw_metadata = m', pw_created = me_time env (ps_CreatedAt s)\<rparr>"
    have "t_products (db w') = upsert_row pw_id ?row (\<lambda>r. ?row\<lparr>pw_created := pw_created r\<rparr>) (t_products (db w))"
      using assms(1) by (simp add: w' upsert_product_def exec_stmt_run e Let_def)
    with find_upsert_row [of pw_id "\<lambda>r. ?row\<lparr>pw_created := pw_created r\<rparr>" ?row "t_products (db w)"] show ?thesis
      by (simp add: assms(7) split: option.split)
  qed
  moreover have s': "\<lparr>ps_ID = ps_ID s, ps_Name = ps_Name s, ps_Description = ps_Description s, ps_Status = ps_Status s,
      ps_Features = ps_Features s, ps_UsageMetrics = ps_UsageMetrics s, ps_Metadata = ps_Metadata s,
      ps_CreatedAt = ps_CreatedAt s'\<rparr> = s'"
    by (simp add: assms(7))
  ultimately show ?thesis
    using dec assms(6) by (simp add: product_FindByID_def tryA_def query_row_run Let_def s')
qed

end
