(* ===== verification/My_Price_Repo.thy ===== *)
theory My_Price_Repo
  imports My_Values
begin

text \<open>
  The price repository of \<open>mysql/price_repo.go\<close>. The pricing models, the interval, the metadata and \<open>Money\<close>
  are the core library's: their values are type parameters or opaque, their JSON codecs and the validation of
  \<open>FromSnapshot\<close> are in \<open>price_core\<close>. The envelope that tags a pricing model with its kind is the
  adapter's own.
\<close>

section \<open>Pricing models\<close>

datatype ('f, 't, 'u) pricing_model = FlatPrice 'f | TieredPrice 't | UsagePrice 'u | OtherModel

text \<open>The envelope: its kind, and the pointer of each model (\<open>omitempty\<close>).\<close>

record ('f, 't, 'u) pricing_envelope =
  en_Kind :: string
  en_Flat :: "'f option"
  en_Tiered :: "'t option"
  en_Usage :: "'u option"

definition kindFlat :: string where "kindFlat = ''flat''"
definition kindTiered :: string where "kindTiered = ''tiered''"
definition kindUsage :: string where "kindUsage = ''usage''"

definition marshalPricingModel :: "('f, 't, 'u) pricing_envelope codec \<Rightarrow> ('f, 't, 'u) pricing_model option \<Rightarrow> repo_error + string" where
  "marshalPricingModel c mo =
     (let enc = (\<lambda>env. case co_enc c env of None \<Rightarrow> Inl (OtherError ''marshal pricing model'') | Some t \<Rightarrow> Inr t);
          none = \<lparr>en_Kind = [], en_Flat = None, en_Tiered = None, en_Usage = None\<rparr>
      in case mo of
        None \<Rightarrow> enc none
      | Some (FlatPrice v) \<Rightarrow> enc (none\<lparr>en_Kind := kindFlat, en_Flat := Some v\<rparr>)
      | Some (TieredPrice v) \<Rightarrow> enc (none\<lparr>en_Kind := kindTiered, en_Tiered := Some v\<rparr>)
      | Some (UsagePrice v) \<Rightarrow> enc (none\<lparr>en_Kind := kindUsage, en_Usage := Some v\<rparr>)
      | Some OtherModel \<Rightarrow> Inl (OtherError ''unsupported pricing model type''))"

definition unmarshalPricingModel :: "('f, 't, 'u) pricing_envelope codec \<Rightarrow> string \<Rightarrow> repo_error + ('f, 't, 'u) pricing_model option" where
  "unmarshalPricingModel c data = (if data = [] then Inr None
     else (case co_dec c data of
         None \<Rightarrow> Inl (OtherError ''unmarshal pricing model'')
       | Some env \<Rightarrow> Inr
           (if en_Kind env = kindFlat then map_option FlatPrice (en_Flat env)
            else if en_Kind env = kindTiered then map_option TieredPrice (en_Tiered env)
            else if en_Kind env = kindUsage then map_option UsagePrice (en_Usage env)
            else None)))"

text \<open>Every model the adapter can store reads back as itself.\<close>

lemma pricing_model_roundtrip:
  assumes "codec_ok env c" and "marshalPricingModel c mo = Inr t" and "me_json env t = Some x"
  shows "unmarshalPricingModel c x = Inr mo"
proof -
  have rt: "x \<noteq> [] \<and> co_dec c x = Some e" if "co_enc c e = Some t" for e
    using assms(1,3) that by (auto simp: codec_ok_def split: option.splits)
  show ?thesis
  proof (cases mo)
    case None
    with assms(2) rt show ?thesis
      by (auto simp: marshalPricingModel_def unmarshalPricingModel_def kindFlat_def kindTiered_def kindUsage_def
          split: option.splits)
  next
    case (Some m)
    with assms(2) rt show ?thesis
      by (cases m) (auto simp: marshalPricingModel_def unmarshalPricingModel_def Let_def kindFlat_def kindTiered_def
          kindUsage_def split: option.splits)
  qed
qed

section \<open>The repository\<close>

record ('f, 't, 'u, 'i, 'm) price_snapshot =
  rs_ID :: string
  rs_ProductID :: string
  rs_Amount :: money
  rs_Currency :: string
  rs_Interval :: 'i
  rs_PricingModel :: "('f, 't, 'u) pricing_model option"
  rs_Status :: string
  rs_Metadata :: "'m option"
  rs_CreatedAt :: time

record ('f, 't, 'u, 'i, 'm) price_core =
  rk_int64 :: "money \<Rightarrow> int64"
  rk_state :: "money codec"
  rk_interval :: "'i codec"
  rk_model :: "('f, 't, 'u) pricing_envelope codec"
  rk_metadata :: "'m option codec"
  rk_nil_interval :: 'i
  rk_valid :: "('f, 't, 'u, 'i, 'm) price_snapshot \<Rightarrow> bool"

record price_row =
  rw_id :: string
  rw_product :: string
  rw_amount :: int64
  rw_currency :: string
  rw_interval :: string
  rw_model :: string
  rw_status :: string
  rw_state :: "string option"
  rw_metadata :: "string option"
  rw_created :: time

record price_db =
  t_prices :: "price_row list"

text \<open>\<open>INSERT ... ON DUPLICATE KEY UPDATE\<close>: the product and the creation time of an existing price stay. A failed
  marshal of the interval is dropped by the code and leaves an empty text, which the JSON column refuses.\<close>

definition upsert_price :: "menv \<Rightarrow> ('f, 't, 'u, 'i, 'm) price_core \<Rightarrow> ('f, 't, 'u, 'i, 'm) price_snapshot
    \<Rightarrow> string \<Rightarrow> string \<Rightarrow> string \<Rightarrow> string \<Rightarrow> (price_db, unit) sql" where
  "upsert_price env co s interval mdl state metadata = exec_stmt (\<lambda>d.
     case (me_json env interval, me_json env mdl, me_json env state, me_json env metadata) of
       (Some i, Some m, Some st, Some md) \<Rightarrow>
         (let row = \<lparr>rw_id = rs_ID s, rw_product = rs_ProductID s, rw_amount = rk_int64 co (rs_Amount s),
                rw_currency = rs_Currency s, rw_interval = i, rw_model = m, rw_status = rs_Status s,
                rw_state = Some st, rw_metadata = Some md, rw_created = me_time env (rs_CreatedAt s)\<rparr>
          in (Inr (), d\<lparr>t_prices := upsert_row rw_id row
            (\<lambda>r. row\<lparr>rw_product := rw_product r, rw_created := rw_created r\<rparr>) (t_prices d)\<rparr>))
     | _ \<Rightarrow> (Inl (MySQLError 3140 ''Invalid JSON text''), d))"

definition price_Save :: "menv \<Rightarrow> ('f, 't, 'u, 'i, 'm) price_core \<Rightarrow> ('f, 't, 'u, 'i, 'm) price_snapshot \<Rightarrow> (price_db, unit) sql" where
  "price_Save env co s =
     (let interval = (case co_enc (rk_interval co) (rs_Interval s) of Some t \<Rightarrow> t | None \<Rightarrow> []) in
      bindA (liftA (marshalPricingModel (rk_model co) (rs_PricingModel s))) (\<lambda>mdl.
      case co_enc (rk_state co) (rs_Amount s) of
        None \<Rightarrow> throw (OtherError ''marshal price json state'')
      | Some state \<Rightarrow>
          (case (if rs_Metadata s = None then Some ''{}'' else co_enc (rk_metadata co) (rs_Metadata s)) of
             None \<Rightarrow> throw (OtherError ''marshal price metadata'')
           | Some metadata \<Rightarrow> upsert_price env co s interval mdl state metadata)))"

definition scanPriceSnapshot :: "('f, 't, 'u, 'i, 'm) price_core \<Rightarrow> price_row \<Rightarrow> repo_error + ('f, 't, 'u, 'i, 'm) price_snapshot" where
  "scanPriceSnapshot co r =
     (let text = (\<lambda>x. case x of Some t \<Rightarrow> t | None \<Rightarrow> []) in
      case (if text (rw_state r) = [] then Some (moneyFromInt64 (rw_amount r) (rw_currency r))
            else co_dec (rk_state co) (text (rw_state r))) of
        None \<Rightarrow> Inl (OtherError ''unmarshal price json state'')
      | Some amount \<Rightarrow>
         (case (if rw_interval r = [] then Some (rk_nil_interval co) else co_dec (rk_interval co) (rw_interval r)) of
            None \<Rightarrow> Inl (OtherError ''unmarshal price interval'')
          | Some interval \<Rightarrow>
             (case (if text (rw_metadata r) = [] then Some None else co_dec (rk_metadata co) (text (rw_metadata r))) of
                None \<Rightarrow> Inl (OtherError ''unmarshal price metadata'')
              | Some metadata \<Rightarrow> (case unmarshalPricingModel (rk_model co) (rw_model r) of
                    Inl e \<Rightarrow> Inl e
                  | Inr model \<Rightarrow> Inr
                     \<lparr>rs_ID = rw_id r, rs_ProductID = rw_product r, rs_Amount = amount, rs_Currency = rw_currency r,
                      rs_Interval = interval, rs_PricingModel = model, rs_Status = rw_status r,
                      rs_Metadata = metadata, rs_CreatedAt = rw_created r\<rparr>))))"

definition price_FromSnapshot :: "('f, 't, 'u, 'i, 'm) price_core \<Rightarrow> ('f, 't, 'u, 'i, 'm) price_snapshot
    \<Rightarrow> repo_error + ('f, 't, 'u, 'i, 'm) price_snapshot" where
  "price_FromSnapshot co s = (if rk_valid co s then Inr s else Inl (OtherError ''price snapshot''))"

definition price_of_row :: "('f, 't, 'u, 'i, 'm) price_core \<Rightarrow> price_row \<Rightarrow> repo_error + ('f, 't, 'u, 'i, 'm) price_snapshot" where
  "price_of_row co r = (case scanPriceSnapshot co r of Inl e \<Rightarrow> Inl e | Inr s \<Rightarrow> price_FromSnapshot co s)"

definition price_FindByID :: "('f, 't, 'u, 'i, 'm) price_core \<Rightarrow> string \<Rightarrow> (price_db, ('f, 't, 'u, 'i, 'm) price_snapshot) sql" where
  "price_FindByID co i = tryA (query_row (\<lambda>d. find (\<lambda>r. rw_id r = i) (t_prices d)))
     (\<lambda>e. if as_db e = Some ErrNoRows then throw (DomainError ErrCodeNotFound None) else throw e)
     (\<lambda>r. liftA (price_of_row co r))"

definition scanPriceRows :: "('f, 't, 'u, 'i, 'm) price_core \<Rightarrow> price_row list
    \<Rightarrow> (price_db, ('f, 't, 'u, 'i, 'm) price_snapshot list) sql" where
  "scanPriceRows co rows = mapA (\<lambda>r. liftA (price_of_row co r)) rows"

definition FindByProductID :: "('f, 't, 'u, 'i, 'm) price_core \<Rightarrow> string
    \<Rightarrow> (price_db, ('f, 't, 'u, 'i, 'm) price_snapshot list) sql" where
  "FindByProductID co product = bindA (query (\<lambda>d. sort_key (\<lambda>r. - rw_created r)
     (filter (\<lambda>r. rw_product r = product) (t_prices d)))) (scanPriceRows co)"

definition FindActiveByProductID :: "('f, 't, 'u, 'i, 'm) price_core \<Rightarrow> string
    \<Rightarrow> (price_db, ('f, 't, 'u, 'i, 'm) price_snapshot list) sql" where
  "FindActiveByProductID co product = bindA (query (\<lambda>d. sort_key (\<lambda>r. - rw_created r)
     (filter (\<lambda>r. rw_product r = product \<and> rw_status r = ''active'') (t_prices d)))) (scanPriceRows co)"

end
