(* ===== verification/My_Datetime.thy ===== *)
theory My_Datetime
  imports Sql_Base
begin

text \<open>
  Reading a \<open>DATETIME\<close> column: \<open>utcTime\<close> of \<open>mysql/eventstore.go\<close>. Depending on its configuration the driver
  hands over an instant or the server's text; the repositories' rows hold instants, and the theorem below is why
  they may: for every date the two readings are the same.
\<close>

text \<open>What \<open>database/sql\<close> gives a \<open>Scan\<close> method.\<close>

datatype sql_value = SqlNull | SqlTime time | SqlBytes string | SqlString string | SqlOther

definition datetime_layouts :: "layout_elem list list" where
  "datetime_layouts =
    [[Year4, Lit ''-'', Month2, Lit ''-'', Day2, Lit '' '', Hour, Lit '':'', Minute2, Lit '':'', Second2, Frac9],
     [Year4, Lit ''-'', Month2, Lit ''-'', Day2, Lit '' '', Hour, Lit '':'', Minute2, Lit '':'', Second2]]"

definition utcTime_parse :: "string \<Rightarrow> repo_error + time" where
  "utcTime_parse s = (if s = [] then Inr zero_time
     else (case first_some (\<lambda>layout. parse_in_location layout s 0) datetime_layouts of
         Some t \<Rightarrow> Inr t
       | None \<Rightarrow> Inl (OtherError ''cannot parse datetime'')))"

definition utcTime_Scan :: "sql_value \<Rightarrow> repo_error + time" where
  "utcTime_Scan v = (case v of
      SqlNull \<Rightarrow> Inr zero_time
    | SqlTime t \<Rightarrow> Inr t
    | SqlBytes s \<Rightarrow> utcTime_parse s
    | SqlString s \<Rightarrow> utcTime_parse s
    | SqlOther \<Rightarrow> Inl (OtherError ''cannot scan into time''))"

section \<open>The server's text\<close>

fun pad :: "nat \<Rightarrow> nat \<Rightarrow> string" where
  "pad 0 n = []"
| "pad (Suc k) n = pad k (n div 10) @ [char_of (48 + n mod 10)]"

text \<open>The text of a \<open>DATETIME(6)\<close> and of a \<open>DATETIME\<close> value.\<close>

definition datetime_text :: "nat \<Rightarrow> nat \<Rightarrow> nat \<Rightarrow> nat \<Rightarrow> nat \<Rightarrow> nat \<Rightarrow> string \<Rightarrow> string" where
  "datetime_text y mo d h mi s fr = pad 4 y @ ''-'' @ pad 2 mo @ ''-'' @ pad 2 d @ '' '' @ pad 2 h @ '':'' @
     pad 2 mi @ '':'' @ pad 2 s @ fr"

definition valid_civil :: "nat \<Rightarrow> nat \<Rightarrow> nat \<Rightarrow> nat \<Rightarrow> nat \<Rightarrow> nat \<Rightarrow> bool" where
  "valid_civil y mo d h mi s \<longleftrightarrow> y < 10000 \<and> 1 \<le> mo \<and> mo \<le> 12 \<and> 1 \<le> d \<and> int d \<le> days_in (int mo) (int y) \<and>
     h < 24 \<and> mi < 60 \<and> s < 60"

definition civil_instant :: "nat \<Rightarrow> nat \<Rightarrow> nat \<Rightarrow> nat \<Rightarrow> nat \<Rightarrow> nat \<Rightarrow> nat \<Rightarrow> time" where
  "civil_instant y mo d h mi s us = (days_from_civil (int y) (int mo) (int d) * 86400
     + int h * 3600 + int mi * 60 + int s) * second + int us * 1000"

lemma length_pad [simp]: "length (pad k n) = k"
  by (induction k arbitrary: n) auto

lemma pad_digits: "c \<in> set (pad k n) \<Longrightarrow> is_digit c"
  by (induction k arbitrary: n) (auto simp: is_digit_def)

lemma digits_val_pad: "digits_val 0 (pad k n) = Some (n mod 10 ^ k)"
proof (induction k arbitrary: n)
  case (Suc k)
  have "n mod 10 ^ Suc k = 10 * (n div 10 mod 10 ^ k) + n mod 10"
    using mod_mult2_eq [of n 10 "10 ^ k"] by simp
  then show ?case by (simp add: digits_val_append Suc is_digit_def)
qed simp

lemma parse_uint_pad: "0 < k \<Longrightarrow> n < 10 ^ k \<Longrightarrow> parse_uint (pad k n) = Some n"
  using digits_val_pad [of k n] by (cases k) (auto simp: parse_uint_def)

lemma pad2: "pad 2 n = [char_of (48 + n div 10 mod 10), char_of (48 + n mod 10)]"
  by (simp add: numeral_2_eq_2)

lemma digit_val_char: "k < 10 \<Longrightarrow> digit_val (char_of (48 + k)) = int k"
proof -
  assume k: "k < 10"
  have "(of_char (char_of (48 + k) :: char) :: int) = int (of_char (char_of (48 + k) :: char))"
    by (simp only: of_nat_of_char)
  with of_char_digit [OF k] show ?thesis by (simp add: digit_val_def)
qed

lemma getnum_pad: "n < 100 \<Longrightarrow> getnum fixed (pad 2 n @ v) = Some (int n, v)"
proof -
  assume "n < 100"
  then have d: "n div 10 < 10" "n mod 10 < 10" by auto
  have "int (10 * (n div 10) + n mod 10) = int n" by simp
  then have "10 * int (n div 10) + int (n mod 10) = int n" by (simp only: of_nat_add of_nat_mult of_nat_numeral)
  with d show ?thesis by (simp add: pad2 is_digit_def digit_val_char)
qed

lemma skip_pad: "skip_lit ([c] @ pad (Suc k) n @ v) [c] = Some (pad (Suc k) n @ v)"
proof -
  obtain x xs where p: "pad (Suc k) n = x # xs" by (cases "pad (Suc k) n") auto
  then have "is_digit x" using pad_digits [of x "Suc k" n] by simp
  then have "x \<noteq> CHR '' ''" by (auto simp: is_digit_def)
  with p show ?thesis by simp
qed

lemma takeWhile_pad [simp]: "takeWhile is_digit (pad k n) = pad k n"
  by (simp add: takeWhile_eq_all_conv pad_digits)

lemma take_pad [simp]: "k \<le> j \<Longrightarrow> take j (pad k n) = pad k n"
  by simp


text \<open>The fields of the text, read one after the other; what follows the seconds is left.\<close>

definition civil_fields :: "nat \<Rightarrow> nat \<Rightarrow> nat \<Rightarrow> nat \<Rightarrow> nat \<Rightarrow> nat \<Rightarrow> int \<Rightarrow> parsed" where
  "civil_fields y mo d h mi s ns = \<lparr>p_year = int y, p_month = int mo, p_day = int d, p_hour = int h,
     p_min = int mi, p_sec = int s, p_nsec = ns, p_off = None\<rparr>"

lemma skip_digit: "c \<noteq> CHR '' '' \<Longrightarrow> skip_lit (c # v) [c] = Some v"
  by simp

lemma skip_space: "0 < k \<Longrightarrow> skip_lit (CHR '' '' # pad k n @ v) '' '' = Some (pad k n @ v)"
  using skip_pad [of "CHR '' ''" "k - 1" n v] by simp

lemma take4_pad: "take 4 (pad 4 n @ v) = pad 4 n" "drop 4 (pad 4 n @ v) = v" "\<not> length (pad 4 n @ v) < 4"
  by simp_all

lemma no_frac: "\<not> has_frac []"
  by (simp add: has_frac_def)

lemma parse_frac6:
  assumes "us < 1000000"
  shows "has_frac (CHR ''.'' # pad 6 us)" "take_frac (CHR ''.'' # pad 6 us) = (CHR ''.'' # pad 6 us, [])"
    "parse_nanos (CHR ''.'' # pad 6 us) = Some (int us * 1000)"
proof -
  obtain x xs where p: "pad 6 us = x # xs"
    using length_pad [of 6 us] by (cases "pad 6 us") (simp_all del: pad.simps)
  moreover from p have "is_digit x" using pad_digits [of x 6 us] by (simp del: pad.simps)
  ultimately have p: "pad 6 us = x # xs" "is_digit x" by simp_all
  then show "has_frac (CHR ''.'' # pad 6 us)" by (simp add: has_frac_def comma_or_period_def del: pad.simps)
  show "take_frac (CHR ''.'' # pad 6 us) = (CHR ''.'' # pad 6 us, [])"
    by (simp add: take_frac_def Let_def del: pad.simps)
  show "parse_nanos (CHR ''.'' # pad 6 us) = Some (int us * 1000)"
    using assms parse_uint_pad [of 6 us] by (simp add: parse_nanos_def comma_or_period_def del: pad.simps)
qed

lemma parse_datetime:
  assumes c: "valid_civil y mo d h mi s" and f: "fr = [] \<and> us = 0 \<or> fr = CHR ''.'' # pad 6 us \<and> us < 1000000"
  shows "parse_elems [Year4, Lit ''-'', Month2, Lit ''-'', Day2, Lit '' '', Hour, Lit '':'', Minute2, Lit '':'', Second2, Frac9]
     (datetime_text y mo d h mi s fr) parsed0 = Some (civil_fields y mo d h mi s (int us * 1000))"
proof -
  have l: "y < 10 ^ 4" "mo < 100" "d < 100" "h < 100" "mi < 100" "s < 100" "Suc 0 \<le> mo" "mo \<le> 12" "h \<le> 23" "mi \<le> 59" "s \<le> 59"
    using c by (auto simp: valid_civil_def days_in_def split: if_splits)
  have y: "parse_uint (pad 4 y) = Some y" by (rule parse_uint_pad) (use l in simp_all)
  show ?thesis
    using f unfolding datetime_text_def
    by (auto simp: take4_pad y skip_digit skip_space getnum_pad in_range_def l next_is_frac_def no_frac
        parse_frac6 civil_fields_def parsed0_def simp del: skip_lit.simps getnum.simps pad.simps)
qed


text \<open>C40. Both readings of a date agree. The text the server sends for a date and time, with six digits of a
  fraction or without one, is scanned to the instant the driver would have parsed it to, and so is the text as a
  string; the zero date of the server, which is no date, is an error.\<close>

theorem utcTime_text_or_time:
  assumes "valid_civil y mo d h mi s" and "us < 1000000"
  shows "utcTime_Scan (SqlBytes (datetime_text y mo d h mi s (CHR ''.'' # pad 6 us)))
       = utcTime_Scan (SqlTime (civil_instant y mo d h mi s us)) \<and>
     utcTime_Scan (SqlString (datetime_text y mo d h mi s [])) = utcTime_Scan (SqlTime (civil_instant y mo d h mi s 0)) \<and>
     utcTime_Scan (SqlBytes ''0000-00-00 00:00:00'') = Inl (OtherError ''cannot parse datetime'')"
proof -
  have inst: "parse_in_location [Year4, Lit ''-'', Month2, Lit ''-'', Day2, Lit '' '', Hour, Lit '':'', Minute2, Lit '':'', Second2, Frac9]
      (datetime_text y mo d h mi s fr) 0 = Some (civil_instant y mo d h mi s u)"
    if "fr = [] \<and> u = 0 \<or> fr = CHR ''.'' # pad 6 u \<and> u < 1000000" for fr u
    using assms(1) unfolding parse_in_location_def parse_datetime [OF assms(1) that] valid_civil_def
    by (simp add: civil_fields_def Let_def instant_def civil_instant_def)
  have ne: "datetime_text y mo d h mi s fr \<noteq> []" for fr
    by (simp add: datetime_text_def)
  have zero: "utcTime_Scan (SqlBytes ''0000-00-00 00:00:00'') = Inl (OtherError ''cannot parse datetime'')"
    by code_simp
  show ?thesis
    using inst [of "[]" 0] inst [of "CHR ''.'' # pad 6 us" us] assms(2) zero
    by (simp add: utcTime_Scan_def utcTime_parse_def datetime_layouts_def ne del: pad.simps)
qed

theorem utcTime_text_or_time_witness:
  "utcTime_Scan (SqlBytes ''2024-02-29 23:59:59.000001'') = Inr 1709251199000001000"
proof -
  have "valid_civil 2024 2 29 23 59 59" by (simp add: valid_civil_def days_in_def is_leap_def)
  from utcTime_text_or_time [OF this, of 1]
  have "utcTime_Scan (SqlBytes (datetime_text 2024 2 29 23 59 59 (CHR ''.'' # pad 6 1)))
      = utcTime_Scan (SqlTime (civil_instant 2024 2 29 23 59 59 1))" by simp
  moreover have "datetime_text 2024 2 29 23 59 59 (CHR ''.'' # pad 6 1) = ''2024-02-29 23:59:59.000001''" by code_simp
  moreover have "civil_instant 2024 2 29 23 59 59 1 = 1709251199000001000"
    by (simp add: civil_instant_def days_from_civil_def second_def)
  ultimately show ?thesis by (simp add: utcTime_Scan_def)
qed

end
