(* ===== verification/Typed_Store.thy ===== *)
theory Typed_Store
  imports My_Values
begin

text \<open>
  What the rows of a table can be read as, as a typing judgement: a database is typed when each of its
  rows decodes. The interface \<open>typed_store\<close> is a save that keeps the databases of a world typed, the
  current one and the one a rollback returns to; then every session of saves and transactions does,
  whatever fails in between, and no lookup after it meets a row it cannot decode.
\<close>

section \<open>Typed worlds\<close>

definition all_typed :: "('d \<Rightarrow> bool) \<Rightarrow> 'd world \<Rightarrow> bool" where
  "all_typed I w \<longleftrightarrow> I (db w) \<and> (case saved w of None \<Rightarrow> True | Some d \<Rightarrow> I d)"

lemma all_typed_db: "all_typed I w \<Longrightarrow> I (db w)"
  by (simp add: all_typed_def)

lemma typed_stmt: "(\<And>d n. I d \<Longrightarrow> I (fst (snd (f d n)))) \<Longrightarrow> keeps (all_typed I) (stmt f)"
  unfolding keeps_def all_typed_def stmt_def
  by (auto split: fault.splits prod.splits option.splits) (metis fst_conv snd_conv)+

lemma typed_query [keeps_intros]: "keeps (all_typed I) (query f)" "keeps (all_typed I) (query_row g)"
  unfolding query_def query_row_def by (intro typed_stmt; simp)+

lemma typed_exec: "(\<And>d. I d \<Longrightarrow> I (snd (f d))) \<Longrightarrow> keeps (all_typed I) (exec_stmt f)"
  unfolding exec_stmt_def by (intro typed_stmt) (simp add: case_prod_unfold)

lemma typed_tx [keeps_intros]: "keeps (all_typed I) begin_tx" "keeps (all_typed I) rollback"
    "keeps (all_typed I) commit" "keeps (all_typed I) in_tx" "keeps (all_typed I) clock_now"
  by (auto simp: keeps_def all_typed_def begin_tx_def rollback_def commit_def in_tx_def clock_now_def restore_def
      drop_fault_def split: fault.splits option.splits)

lemma typed_own_tx [keeps_intros]:
  "keeps (all_typed I) body \<Longrightarrow> keeps (all_typed I) (in_own_tx body)"
  unfolding in_own_tx_def by (intro keeps_intros)

text \<open>The two statements of a save: \<open>R\<close> is what a row of the table must satisfy.\<close>

definition rows_typed :: "('d, 'r) table \<Rightarrow> ('r \<Rightarrow> bool) \<Rightarrow> ('d \<Rightarrow> bool) \<Rightarrow> bool" where
  "rows_typed T R I \<longleftrightarrow> (\<forall>d. I d \<longrightarrow> (\<forall>r \<in> set (tb_get T d). R r)) \<and>
     (\<forall>d rows. I d \<longrightarrow> (\<forall>r \<in> set rows. R r) \<longrightarrow> I (tb_set T rows d))"

lemma typed_insert:
  assumes "rows_typed T R I" and "\<And>now row. mk now = Inr row \<Longrightarrow> R row"
  shows "keeps (all_typed I) (insert_into T mk)"
  unfolding insert_into_def
proof (intro keeps_intros typed_exec)
  fix now d
  assume "I d"
  with assms show "I (snd (case mk now of Inl e \<Rightarrow> (Inl e, d)
      | Inr row \<Rightarrow> (case insert_row (tb_name T) (tb_keys T) row (tb_get T d) of
          Inl e \<Rightarrow> (Inl e, d) | Inr rows \<Rightarrow> (Inr (), tb_set T rows d))))"
    by (auto simp: rows_typed_def insert_row_def split: sum.split option.splits)
qed

lemma typed_update:
  assumes "rows_typed T R I" and "\<And>now f x. mk now = Inr f \<Longrightarrow> p x \<Longrightarrow> R x \<Longrightarrow> R (f x)"
  shows "keeps (all_typed I) (update_where T p mk)"
  unfolding update_where_def
proof (intro keeps_intros typed_exec)
  fix now d
  assume I: "I d"
  have "\<forall>r \<in> set rows. R r" if "mk now = Inr f"
    "update_one (tb_name T) (tb_keys T) p f (tb_get T d) = Inr (n, rows)" for f n rows
    using that(2)
  proof (cases rule: update_one_cases)
    case (3 xs x ys)
    then have "rows = xs @ f x # ys" by simp
    with 3(1,2) assms(1) assms(2) [OF that(1), of x] I show ?thesis by (auto simp: rows_typed_def)
  qed (use assms(1) I in \<open>auto simp: rows_typed_def\<close>)
  with assms(1) I show "I (snd (case mk now of Inl e \<Rightarrow> (Inl e, d)
      | Inr f \<Rightarrow> (case update_one (tb_name T) (tb_keys T) p f (tb_get T d) of
          Inl e \<Rightarrow> (Inl e, d) | Inr (n, rows) \<Rightarrow> (Inr n, tb_set T rows d))))"
    by (auto simp: rows_typed_def split: sum.split)
qed

lemma keeps_option_eq:
  "(x = None \<Longrightarrow> keeps I m) \<Longrightarrow> (\<And>y. x = Some y \<Longrightarrow> keeps I (f y)) \<Longrightarrow>
     keeps I (case x of None \<Rightarrow> m | Some y \<Rightarrow> f y)"
  by (cases x) simp_all

section \<open>Sessions\<close>

text \<open>Operations of a repository, transactions around them, and what the world does by itself: the
  clocks go on and any faults may be ahead.\<close>

inductive session :: "('d, 'a) sql set \<Rightarrow> 'd world \<Rightarrow> 'd world \<Rightarrow> bool" for ops w where
  session_start: "session ops w w"
| session_op: "session ops w w1 \<Longrightarrow> m \<in> ops \<Longrightarrow> session ops w (snd (m w1))"
| session_begin: "session ops w w1 \<Longrightarrow> saved w1 = None \<Longrightarrow> session ops w (snd (begin_tx w1))"
| session_commit: "session ops w w1 \<Longrightarrow> session ops w (snd (commit w1))"
| session_rollback: "session ops w w1 \<Longrightarrow> session ops w (snd (rollback w1))"
| session_world: "session ops w w1 \<Longrightarrow> session ops w (w1\<lparr>clk := c, snow := n, faults := fs\<rparr>)"

lemma session_keeps:
  assumes "session ops w w'" and "all_typed I w" and "\<And>m. m \<in> ops \<Longrightarrow> keeps (all_typed I) m"
  shows "all_typed I w'"
  using assms(1)
proof induction
  case session_start
  show ?case by (rule assms(2))
next
  case (session_world w1 c n fs)
  then show ?case by (simp add: all_typed_def)
qed (auto intro: keepsD typed_tx assms(3))

section \<open>Lookups\<close>

text \<open>An error of decoding a row, as opposed to a failed statement, a missing row or what the core's
  validation refuses.\<close>

definition decode_error :: "repo_error \<Rightarrow> bool" where
  "decode_error e = (case e of OtherError s \<Rightarrow> has_prefix s ''unmarshal'' | _ \<Rightarrow> False)"

definition found :: "('a \<Rightarrow> bool) \<Rightarrow> repo_error + 'a \<Rightarrow> bool" where
  "found P r = (case r of Inl e \<Rightarrow> \<not> decode_error e | Inr a \<Rightarrow> P a)"

lemma found_simps [simp]: "found P (Inr a) \<longleftrightarrow> P a" "found P (Inl (DbError e))" "found P (Inl (DomainError c x))"
  by (simp_all add: found_def decode_error_def)

lemma row_lookup:
  assumes "\<And>a. g (db w) = Some a \<Longrightarrow> found P (dec a)"
  shows "found P (fst (tryA (query_row g)
      (\<lambda>e. if as_db e = Some ErrNoRows then throw (DomainError c x) else throw e) (\<lambda>a. liftA (dec a)) w))"
proof -
  obtain r w1 where q: "query_row g w = (r, w1)" by fastforce
  then show ?thesis
    by (cases rule: query_row_cases) (auto simp: tryA_run [of "query_row g" w, OF q] assms)
qed

lemma mapA_lift:
  assumes "mapA (\<lambda>x. liftA (dec x)) xs w = (r, w')"
  shows "(\<exists>ys. r = Inr ys \<and> (\<forall>y \<in> set ys. \<exists>x \<in> set xs. dec x = Inr y)) \<or> (\<exists>x \<in> set xs. \<exists>e. dec x = Inl e \<and> r = Inl e)"
  using assms
proof (induction xs arbitrary: r w')
  case (Cons x xs)
  show ?case
  proof (cases "dec x")
    case (Inl e)
    with Cons.prems show ?thesis by (auto simp: act_defs)
  next
    case (Inr y)
    obtain r1 w1 where m: "mapA (\<lambda>x. liftA (dec x)) xs w = (r1, w1)" by fastforce
    have l: "liftA (dec x) w = (Inr y, w)" using Inr by simp
    have "mapA (\<lambda>x. liftA (dec x)) (x # xs) w = (case r1 of Inl e \<Rightarrow> (Inl e, w1) | Inr ys \<Rightarrow> (Inr (y # ys), w1))"
      unfolding mapA.simps bindA_run [of "liftA (dec x)" w, OF l] sum.case
        bindA_run [of "mapA (\<lambda>x. liftA (dec x)) xs" w, OF m] by (simp split: sum.split)
    from trans [OF Cons.prems [symmetric] this] have "r = (case r1 of Inl e \<Rightarrow> Inl e | Inr ys \<Rightarrow> Inr (y # ys))"
      by (cases r1) simp_all
    with Cons.IH [OF m] Inr show ?thesis by (auto split: sum.splits)
  qed
qed simp

lemma rows_lookup:
  assumes "\<And>x. x \<in> set (f (db w)) \<Longrightarrow> found P (dec x)"
  shows "found (\<lambda>vs. \<forall>v \<in> set vs. P v) (fst (bindA (query f) (mapA (\<lambda>x. liftA (dec x))) w))"
proof -
  obtain r w1 where q: "query f w = (r, w1)" by fastforce
  note b = bindA_run [of "query f" w, OF q]
  from q show ?thesis
  proof (cases rule: query_cases)
    case 1
    obtain r2 w2 where m: "mapA (\<lambda>x. liftA (dec x)) (f (db w)) w1 = (r2, w2)" by fastforce
    from mapA_lift [OF m] have "found (\<lambda>vs. \<forall>v \<in> set vs. P v) r2"
    proof
      assume "\<exists>ys. r2 = Inr ys \<and> (\<forall>y \<in> set ys. \<exists>x \<in> set (f (db w)). dec x = Inr y)"
      with assms show ?thesis by fastforce
    next
      assume "\<exists>x \<in> set (f (db w)). \<exists>e. dec x = Inl e \<and> r2 = Inl e"
      then obtain x e where "x \<in> set (f (db w))" "dec x = Inl e" "r2 = Inl e" by blast
      with assms [of x] show ?thesis by (simp add: found_def)
    qed
    with m show ?thesis by (simp add: b 1)
  qed (simp add: b)
qed

section \<open>The interface\<close>

locale typed_store =
  fixes save :: "'e \<Rightarrow> int \<Rightarrow> ('d, 'a) sql"
    and admitted :: "'e \<Rightarrow> bool"
    and typed :: "'d \<Rightarrow> bool"
  assumes save_typed: "admitted e \<Longrightarrow> keeps (all_typed typed) (save e l)"
begin

lemma session_typed:
  assumes "session {save e l | e l. admitted e} w w'" and "saved w = None" and "typed (db w)"
  shows "typed (db w')"
proof -
  have "all_typed typed w" using assms(2,3) by (simp add: all_typed_def)
  with assms(1) have "all_typed typed w'" by (rule session_keeps) (auto intro: save_typed)
  then show ?thesis by (rule all_typed_db)
qed

end

end
