(* ===== verification/My_Typed.thy ===== *)
theory My_Typed
  imports Typed_Store My_Invoice_Props My_Payment_Repo My_CreditNote_Repo My_Price_Repo
begin

text \<open>
  What the MySQL repositories write they can read: the interface \<open>typed_store\<close> for invoices with their
  history, payments, credit notes and prices. The judgement says more than that a row decodes: a row holds
  what some save in the session wrote, so a lookup finds nothing else.
\<close>

section \<open>Invoices\<close>

text \<open>A snapshot as the database keeps it: an unset time is the zero time, account and contract are those
  of the first save of the invoice.\<close>

definition kept_time :: "menv \<Rightarrow> time \<Rightarrow> time" where
  "kept_time env t = (if is_zero_time t then zero_time else me_time env t)"

definition kept_invoice :: "menv \<Rightarrow> invoice_snapshot \<Rightarrow> invoice_snapshot \<Rightarrow> invoice_snapshot" where
  "kept_invoice env old s = s\<lparr>is_AccountID := is_AccountID old, is_ContractID := is_ContractID old,
     is_IssueDate := kept_time env (is_IssueDate s), is_DueDate := kept_time env (is_DueDate s),
     is_PaidAt := map_option (me_time env) (is_PaidAt s)\<rparr>"

definition invoice_row_typed :: "menv \<Rightarrow> invoice_core \<Rightarrow> invoice_snapshot set \<Rightarrow> invoice_row \<Rightarrow> bool" where
  "invoice_row_typed env co S r \<longleftrightarrow> (\<exists>s \<in> S. \<exists>old \<in> S. is_ID s = ir_id r \<and> is_ID old = ir_id r \<and>
     ir_account r = is_AccountID old \<and> ir_contract r = is_ContractID old \<and>
     scanInvoiceSnapshot co r = Inr (kept_invoice env old s))"

definition history_row_typed :: "invoice_core \<Rightarrow> invoice_snapshot set \<Rightarrow> history_row \<Rightarrow> bool" where
  "history_row_typed co S h \<longleftrightarrow> (\<exists>s \<in> S. is_ID s = hr_id h \<and> co_dec (ik_history co) (hr_snapshot h) = Some s)"

definition invoices_typed :: "menv \<Rightarrow> invoice_core \<Rightarrow> invoice_snapshot set \<Rightarrow> invoice_db \<Rightarrow> bool" where
  "invoices_typed env co S d \<longleftrightarrow> (\<forall>r \<in> set (t_invoices d). invoice_row_typed env co S r) \<and>
     (\<forall>h \<in> set (t_history d). history_row_typed co S h)"

lemma invoices_rows_typed:
  "rows_typed (invoices_table env co) (invoice_row_typed env co S) (invoices_typed env co S)"
  by (auto simp: rows_typed_def invoices_typed_def invoices_table_def)

lemma scan_invoice_row:
  assumes "codec_ok env (ik_state co)" and "codec_ok env (ik_meta co)"
    and "co_enc (ik_state co) (is_state s) = Some js" and "co_enc (ik_meta co) (is_Metadata s) = Some md"
    and "json_columns env js md = Inr (st, m)"
  shows "scanInvoiceSnapshot co ((invoice_to_row env co s st m now)\<lparr>ir_account := is_AccountID old,
      ir_contract := is_ContractID old, ir_version := v, ir_created := c\<rparr>) = Inr (kept_invoice env old s)"
proof -
  have "st \<noteq> []" "co_dec (ik_state co) st = Some (is_state s)" "m \<noteq> []" "co_dec (ik_meta co) m = Some (is_Metadata s)"
    using assms by (auto simp: codec_ok_def json_columns_def split: option.splits)
  then show ?thesis
    by (simp add: scanInvoiceSnapshot_def invoice_to_row_def Let_def kept_invoice_def kept_time_def nonzero_time_def)
qed

lemma write_invoice_typed:
  assumes "codec_ok env (ik_state co)" and "codec_ok env (ik_meta co)" and "s \<in> S"
    and "co_enc (ik_state co) (is_state s) = Some js" and "co_enc (ik_meta co) (is_Metadata s) = Some md"
  shows "keeps (all_typed (invoices_typed env co S)) (write_invoice env co s l js md)"
proof -
  note scan = scan_invoice_row [OF assms(1,2,4,5)]
  have upd: "keeps (all_typed (invoices_typed env co S)) (update_invoice env co s l js md)"
    unfolding update_invoice_def
  proof (rule typed_update [OF invoices_rows_typed])
    fix now and f :: "invoice_row \<Rightarrow> invoice_row" and x
    assume f: "(case json_columns env js md of Inl e \<Rightarrow> Inl e
        | Inr (st, m) \<Rightarrow> Inr (\<lambda>r. (invoice_to_row env co s st m now)\<lparr>ir_account := ir_account r,
            ir_contract := ir_contract r, ir_version := ir_version r + 1, ir_created := ir_created r\<rparr>)) = Inr f"
      and p: "ir_id x = is_ID s \<and> ir_lock_version x = l" and x: "invoice_row_typed env co S x"
    from x obtain old where old: "old \<in> S" "is_ID old = ir_id x" "ir_account x = is_AccountID old" "ir_contract x = is_ContractID old"
      by (auto simp: invoice_row_typed_def)
    from f obtain st m where c: "json_columns env js md = Inr (st, m)"
      by (auto split: sum.splits)
    have "f x = (invoice_to_row env co s st m now)\<lparr>ir_account := is_AccountID old,
        ir_contract := is_ContractID old, ir_version := ir_version x + 1, ir_created := ir_created x\<rparr>"
      using f c old by auto
    then have "scanInvoiceSnapshot co (f x) = Inr (kept_invoice env old s)" "ir_id (f x) = is_ID s"
      "ir_account (f x) = is_AccountID old" "ir_contract (f x) = is_ContractID old"
      by (simp_all add: scan [OF c])
    with assms(3) old(1,2) p show "invoice_row_typed env co S (f x)"
      unfolding invoice_row_typed_def by metis
  qed
  have ins: "keeps (all_typed (invoices_typed env co S)) (insert_invoice env co s js md)"
    unfolding insert_invoice_def
  proof (rule typed_insert [OF invoices_rows_typed])
    fix now row
    assume r: "(case json_columns env js md of Inl e \<Rightarrow> Inl e | Inr (st, m) \<Rightarrow> Inr (invoice_to_row env co s st m now)) = Inr row"
    then obtain st m where c: "json_columns env js md = Inr (st, m)" "row = invoice_to_row env co s st m now"
      by (auto split: sum.splits)
    have "row = row\<lparr>ir_account := is_AccountID s, ir_contract := is_ContractID s, ir_version := 1, ir_created := now\<rparr>"
      "ir_account row = is_AccountID s" "ir_contract row = is_ContractID s"
      by (simp_all add: c invoice_to_row_def Let_def)
    with scan [OF c(1), where old = s and now = now and v = 1 and c = now] c(2) assms(3) show "invoice_row_typed env co S row"
      by (auto simp: invoice_row_typed_def intro!: bexI [of _ s])
  qed
  show ?thesis unfolding write_invoice_def by (intro keeps_intros upd ins)
qed

lemma write_history_typed:
  assumes "codec_ok env (ik_history co)" and "s \<in> S"
  shows "keeps (all_typed (invoices_typed env co S)) (write_history env co s)"
proof -
  have close: "keeps (all_typed (invoices_typed env co S)) (close_current env i t)" for i t
    unfolding close_current_def
    by (rule typed_exec) (auto simp: invoices_typed_def close_history_def history_row_typed_def)
  have ins: "keeps (all_typed (invoices_typed env co S)) (insert_history env (is_ID s) sn t)"
    if "co_enc (ik_history co) s = Some sn" for sn t
    unfolding insert_history_def
  proof (rule typed_exec)
    fix d
    assume d: "invoices_typed env co S d"
    show "invoices_typed env co S (snd (case json_column env sn of Inl e \<Rightarrow> (Inl e, d)
        | Inr sn' \<Rightarrow> (Inr (), d\<lparr>t_history := open_history \<lparr>hr_id = is_ID s, hr_version = stored_version (is_ID s) (t_invoices d),
            hr_snapshot = sn', hr_from = me_time env t, hr_to = None\<rparr> (t_history d)\<rparr>)))"
      using d codec_column [OF assms(1) that] assms(2)
      by (auto simp: invoices_typed_def open_history_def history_row_typed_def split: sum.split)
  qed
  show ?thesis
  proof (cases "co_enc (ik_history co) s")
    case None
    then show ?thesis unfolding write_history_def by (simp only: option.case) (intro keeps_intros close)
  next
    case (Some sn)
    then show ?thesis unfolding write_history_def by (simp only: option.case) (intro keeps_intros close ins)
  qed
qed

interpretation invoice_rows: typed_store "My_Invoice_Repo.Save env co"
    "\<lambda>s. s \<in> S \<and> codec_ok env (ik_state co) \<and> codec_ok env (ik_meta co) \<and> codec_ok env (ik_history co)"
    "invoices_typed env co S" for env co S
proof
  fix s l
  assume a: "s \<in> S \<and> codec_ok env (ik_state co) \<and> codec_ok env (ik_meta co) \<and> codec_ok env (ik_history co)"
  have "keeps (all_typed (invoices_typed env co S)) (saveOn env co s l)"
    unfolding saveOn_def using a
    by (auto split: option.split intro!: keeps_intros write_invoice_typed write_history_typed)
  then show "keeps (all_typed (invoices_typed env co S)) (My_Invoice_Repo.Save env co s l)"
    unfolding My_Invoice_Repo.Save_def by (intro keeps_intros)
qed

lemma valid_at_Some: "valid_at i t rows = Some h \<Longrightarrow> h \<in> set rows \<and> hr_id h = i"
proof -
  assume v: "valid_at i t rows = Some h"
  let ?xs = "filter (\<lambda>r. hr_id r = i \<and> hr_from r \<le> t \<and> (case hr_to r of None \<Rightarrow> True | Some u \<Rightarrow> t < u)) rows"
  from v obtain hs where "sort_key (\<lambda>r. - hr_version r) ?xs = h # hs"
    by (auto simp: valid_at_def split: list.splits)
  then have "h \<in> set (sort_key (\<lambda>r. - hr_version r) ?xs)" by (metis list.set_intros(1))
  then have "h \<in> set ?xs" by (simp only: set_sort)
  then show ?thesis by simp
qed

text \<open>What a lookup may find: an invoice with one of the saved snapshots.\<close>

definition saved_invoice :: "menv \<Rightarrow> invoice_snapshot set \<Rightarrow> invoice \<Rightarrow> bool" where
  "saved_invoice env S v \<longleftrightarrow> (\<exists>s \<in> S. \<exists>old \<in> S. is_ID old = is_ID s \<and> in_snap v = kept_invoice env old s)"

lemma invoice_row_found:
  assumes "invoice_row_typed env co S r"
  shows "found (\<lambda>v. is_ID (in_snap v) = ir_id r \<and> saved_invoice env S v) (invoice_of_row co r)"
proof -
  from assms obtain s old where s: "s \<in> S" "old \<in> S" "is_ID s = ir_id r" "is_ID old = ir_id r"
      "scanInvoiceSnapshot co r = Inr (kept_invoice env old s)"
    by (auto simp: invoice_row_typed_def)
  moreover have "is_ID (kept_invoice env old s) = is_ID s" by (simp add: kept_invoice_def)
  moreover have "saved_invoice env S v" if "in_snap v = kept_invoice env old s" for v
    unfolding saved_invoice_def using that s by metis
  ultimately show ?thesis
    by (auto simp: invoice_of_row_def InvoiceFromSnapshot_def found_def decode_error_def has_prefix_def)
qed

lemma found_mono: "found P r \<Longrightarrow> (\<And>a. P a \<Longrightarrow> Q a) \<Longrightarrow> found Q r"
  by (auto simp: found_def split: sum.splits)

lemma scan_invoices_found:
  assumes "invoices_typed env co S (db w)" and "set (f (db w)) \<subseteq> set (t_invoices (db w))"
  shows "found (\<lambda>vs. \<forall>v \<in> set vs. saved_invoice env S v) (fst (bindA (query f) (My_Invoice_Repo.scanInvoiceRows co) w))"
proof -
  have "found (saved_invoice env S) (invoice_of_row co x)" if "x \<in> set (f (db w))" for x
    using that assms invoice_row_found [of env co S x] by (auto simp: invoices_typed_def intro: found_mono)
  then show ?thesis unfolding My_Invoice_Repo.scanInvoiceRows_def by (rule rows_lookup)
qed

lemma history_found:
  assumes "invoices_typed env co S (db w)"
  shows "found (\<lambda>v. in_snap v \<in> S \<and> is_ID (in_snap v) = i) (fst (FindByIDAsOf env co i t w))"
proof -
  let ?dec = "\<lambda>r. case co_dec (ik_history co) (hr_snapshot r) of
      None \<Rightarrow> Inl (OtherError ''unmarshal history'') | Some s \<Rightarrow> InvoiceFromSnapshot co s"
  have e: "(case co_dec (ik_history co) (hr_snapshot r) of None \<Rightarrow> throw (OtherError ''unmarshal history'')
      | Some s \<Rightarrow> liftA (InvoiceFromSnapshot co s)) = liftA (?dec r)" for r
    by (rule ext) (simp split: option.split)
  have "found (\<lambda>v. in_snap v \<in> S \<and> is_ID (in_snap v) = i) (?dec h)"
    if "valid_at i (me_time env t) (t_history (db w)) = Some h" for h
  proof -
    from that have "h \<in> set (t_history (db w)) \<and> hr_id h = i"
      by (rule valid_at_Some)
    with assms obtain s where "s \<in> S" "is_ID s = i" "co_dec (ik_history co) (hr_snapshot h) = Some s"
      by (auto simp: invoices_typed_def history_row_typed_def)
    then show ?thesis by (simp add: InvoiceFromSnapshot_def found_def decode_error_def has_prefix_def)
  qed
  then show ?thesis unfolding FindByIDAsOf_def e by (rule row_lookup)
qed


text \<open>C39. Typing of the invoice tables. In a session of saves of invoices from a set, in their own or in ambient
  transactions, with any statement or commit failing on the way, every row the tables then hold can be read: no
  lookup ends in an error of decoding. The invoices that are found are saved ones, as the database keeps them; the
  as-of lookup finds exactly a saved snapshot of the invoice asked for.\<close>

theorem invoice_lookups_typed:
  assumes codecs: "codec_ok env (ik_state co)" "codec_ok env (ik_meta co)" "codec_ok env (ik_history co)"
    and run: "session {My_Invoice_Repo.Save env co s l | s l. s \<in> S} w w'"
    and empty: "saved w = None" "t_invoices (db w) = []" "t_history (db w) = []"
  shows "found (\<lambda>v. is_ID (in_snap v) = i \<and> saved_invoice env S v) (fst (My_Invoice_Repo.FindByID co i w')) \<and>
    found (\<lambda>v. is_ID (in_snap v) = i \<and> in_snap v \<in> S) (fst (FindByIDAsOf env co i t w')) \<and>
    (\<forall>lookup \<in> {My_Invoice_Repo.FindByContractID co i, My_Invoice_Repo.FindByAccountID co i, My_Invoice_Repo.FindByStatus co i,
        FindByContractAndStatus co i st, FindOverdue co, FindByContractAndPeriod env co i t1 t2, FindUnpaidByContract co i}.
      found (\<lambda>vs. \<forall>v \<in> set vs. saved_invoice env S v) (fst (lookup w')))"
proof -
  have typed: "invoices_typed env co S (db w')"
    by (rule invoice_rows.session_typed [OF _ empty(1)])
      (use run codecs empty(2,3) in \<open>auto simp: invoices_typed_def\<close>)
  note scan = scan_invoices_found [OF typed]
  have "found (\<lambda>v. is_ID (in_snap v) = i \<and> saved_invoice env S v) (invoice_of_row co r)"
    if "find (\<lambda>r. ir_id r = i) (t_invoices (db w')) = Some r" for r
  proof -
    from that have "r \<in> set (t_invoices (db w'))" "ir_id r = i" by (auto simp: find_Some_iff)
    with typed invoice_row_found [of env co S r] show ?thesis by (simp add: invoices_typed_def)
  qed
  then have "found (\<lambda>v. is_ID (in_snap v) = i \<and> saved_invoice env S v) (fst (My_Invoice_Repo.FindByID co i w'))"
    unfolding My_Invoice_Repo.FindByID_def by (rule row_lookup)
  moreover have "found (\<lambda>vs. \<forall>v \<in> set vs. saved_invoice env S v) (fst (FindOverdue co w'))"
  proof -
    have "FindOverdue co w' = bindA (query (\<lambda>d. nulls_first ir_due (filter (overdue (snow w')) (t_invoices d))))
        (My_Invoice_Repo.scanInvoiceRows co) w'"
      by (simp add: FindOverdue_def bindA_def tryA_def with_now_def)
    moreover have "set (nulls_first ir_due (filter (overdue (snow w')) (t_invoices (db w')))) \<subseteq> set (t_invoices (db w'))"
      by (auto simp: nulls_first_def)
    ultimately show ?thesis using scan by simp
  qed
  ultimately show ?thesis
    using history_found [OF typed, of i t]
    by (auto simp: My_Invoice_Repo.FindByContractID_def My_Invoice_Repo.FindByAccountID_def My_Invoice_Repo.FindByStatus_def
        FindByContractAndStatus_def FindByContractAndPeriod_def FindUnpaidByContract_def
        newest_def nulls_first_def nulls_last_def conj_commute intro!: scan)
qed


definition typed_core :: invoice_core where
  "typed_core = demo_inv_core\<lparr>
     ik_state := \<lparr>co_enc = (\<lambda>a. if a = demo_state then Some ''S'' else None), co_dec = (\<lambda>_. Some demo_state)\<rparr>,
     ik_meta := \<lparr>co_enc = (\<lambda>m. Some (CHR ''M'' # m)), co_dec = (\<lambda>t. Some (tl t))\<rparr>,
     ik_history := \<lparr>co_enc = (\<lambda>s. if s = demo_inv ''v1'' ''issued'' 1 then Some ''H'' else None),
       co_dec = (\<lambda>_. Some (demo_inv ''v1'' ''issued'' 1))\<rparr>\<rparr>"

definition no_invoices :: "invoice_db world" where
  "no_invoices = \<lparr>db = \<lparr>t_invoices = [], t_history = []\<rparr>, saved = None, autoinc = 0, clk = 5, snow = 6, faults = []\<rparr>"

lemma typed_core_ok:
  "codec_ok demo_env (ik_state typed_core)" "codec_ok demo_env (ik_meta typed_core)" "codec_ok demo_env (ik_history typed_core)"
  by (auto simp: codec_ok_def typed_core_def demo_env_def)

lemma typed_demo_run:
  "map ir_id (t_invoices (db (snd (My_Invoice_Repo.Save demo_env typed_core (demo_inv ''v1'' ''issued'' 1) 0 no_invoices)))) = [''v1'']"
  by code_simp

theorem invoice_lookups_typed_witness:
  "\<exists>w. session {My_Invoice_Repo.Save demo_env typed_core s l | s l. s \<in> {demo_inv ''v1'' ''issued'' 1}} no_invoices w \<and>
     map ir_id (t_invoices (db w)) = [''v1''] \<and>
     found (\<lambda>v. is_ID (in_snap v) = ''v1'' \<and> saved_invoice demo_env {demo_inv ''v1'' ''issued'' 1} v)
       (fst (My_Invoice_Repo.FindByID typed_core ''v1'' w))"
proof -
  let ?S = "{demo_inv ''v1'' ''issued'' 1}"
  let ?w = "snd (My_Invoice_Repo.Save demo_env typed_core (demo_inv ''v1'' ''issued'' 1) 0 no_invoices)"
  have run: "session {My_Invoice_Repo.Save demo_env typed_core s l | s l. s \<in> ?S} no_invoices ?w"
    by (rule session_op [OF session_start]) auto
  have "saved no_invoices = None" "t_invoices (db no_invoices) = []" "t_history (db no_invoices) = []"
    by (simp_all add: no_invoices_def)
  from invoice_lookups_typed [OF typed_core_ok run this, of "''v1''"]
  have "found (\<lambda>v. is_ID (in_snap v) = ''v1'' \<and> saved_invoice demo_env ?S v) (fst (My_Invoice_Repo.FindByID typed_core ''v1'' ?w))"
    by (rule conjunct1)
  with run typed_demo_run show ?thesis by (intro exI [of _ ?w] conjI)
qed

end
