(* ===== verification/My_Typed_Repos.thy ===== *)
theory My_Typed_Repos
  imports My_Product_Repo My_Typed My_CreditNote_Repo My_Price_Repo
begin

text \<open>
  The interface \<open>typed_store\<close> for the repositories of payments, credit notes and prices: what they save
  in a session their lookups can read.
\<close>

section \<open>Payments\<close>

definition payment_row_typed :: "menv \<Rightarrow> pay_core \<Rightarrow> payment_snapshot set \<Rightarrow> payment_row \<Rightarrow> bool" where
  "payment_row_typed env co S r \<longleftrightarrow> (\<exists>s \<in> S. ps_ID s = pr_id r \<and> scanPaymentSnapshot co r = Inr (as_stored env s))"

definition payments_typed :: "menv \<Rightarrow> pay_core \<Rightarrow> payment_snapshot set \<Rightarrow> pay_db \<Rightarrow> bool" where
  "payments_typed env co S d \<longleftrightarrow> (\<forall>r \<in> set d. payment_row_typed env co S r)"

lemma payments_rows_typed: "rows_typed payments_table (payment_row_typed env co S) (payments_typed env co S)"
  by (auto simp: rows_typed_def payments_typed_def payments_table_def)

interpretation payment_rows: typed_store "My_Payment_Repo.Save env co"
    "\<lambda>s. s \<in> S \<and> codec_ok env (pk_meta co) \<and> codec_ok env (pk_state co)" "payments_typed env co S" for env co S
proof
  fix s l
  assume a: "s \<in> S \<and> codec_ok env (pk_meta co) \<and> codec_ok env (pk_state co)"
  have row: "payment_row_typed env co S ((payment_to_row env co s m st now)\<lparr>pr_created := c\<rparr>)"
    if "co_enc (pk_meta co) (ps_Metadata s) = Some md" "co_enc (pk_state co) (ps_Amount s, ps_RefundedAmount s) = Some js"
      "json_columns env md js = Inr (m, st)" for md js m st now c
    using scan_written [of env co s md js m st c now] that a by (auto simp: payment_row_typed_def)
  have row': "payment_row_typed env co S (payment_to_row env co s m st now)"
    if "co_enc (pk_meta co) (ps_Metadata s) = Some md" "co_enc (pk_state co) (ps_Amount s, ps_RefundedAmount s) = Some js"
      "json_columns env md js = Inr (m, st)" for md js m st now
    using row [OF that, where now = now and c = "pr_created (payment_to_row env co s m st now)"] by simp
  have ins: "keeps (all_typed (payments_typed env co S)) (insert_payment env co s md js)"
    "keeps (all_typed (payments_typed env co S)) (update_payment env co s l md js)"
    if "co_enc (pk_meta co) (ps_Metadata s) = Some md" "co_enc (pk_state co) (ps_Amount s, ps_RefundedAmount s) = Some js" for md js
    unfolding insert_payment_def update_payment_def
    by (rule typed_insert [OF payments_rows_typed] typed_update [OF payments_rows_typed];
        auto split: sum.splits intro: row [OF that] row' [OF that])+
  have dup: "keeps (all_typed (payments_typed env co S)) (duplicateIdempotencyKey s)"
    unfolding duplicateIdempotencyKey_def by (intro keeps_intros)
  show "keeps (all_typed (payments_typed env co S)) (My_Payment_Repo.Save env co s l)"
    unfolding My_Payment_Repo.Save_def
    by (auto split: option.split intro!: keeps_intros ins dup)
qed

text \<open>Every lookup of payments after a session of saves finds only saved payments, or fails for another
  reason than a row it cannot decode.\<close>

theorem payment_lookups_typed:
  assumes "codec_ok env (pk_meta co)" and "codec_ok env (pk_state co)"
    and "session {My_Payment_Repo.Save env co s l | s l. s \<in> S} w w'" and "saved w = None" and "db w = []"
  shows "found (\<lambda>p. \<exists>s \<in> S. ps_ID s = i \<and> pm_snap p = as_stored env s) (fst (My_Payment_Repo.FindByID co i w')) \<and>
    found (\<lambda>ps. \<forall>p \<in> set ps. pm_snap p \<in> as_stored env ` S) (fst (My_Payment_Repo.FindByInvoiceID co i w'))"
proof -
  have "payments_typed env co S (db w')"
    by (rule payment_rows.session_typed [OF _ assms(4)]) (use assms in \<open>auto simp: payments_typed_def\<close>)
  then have row: "found (\<lambda>p. \<exists>s \<in> S. ps_ID s = pr_id r \<and> pm_snap p = as_stored env s) (payment_of_row co r)"
    if "r \<in> set (db w')" for r
    using that by (fastforce simp: payments_typed_def payment_row_typed_def payment_of_row_def payment_FromSnapshot_def
        found_def decode_error_def has_prefix_def)
  have "found (\<lambda>p. \<exists>s \<in> S. ps_ID s = i \<and> pm_snap p = as_stored env s) (fst (My_Payment_Repo.FindByID co i w'))"
    unfolding My_Payment_Repo.FindByID_def by (rule row_lookup) (use row in \<open>auto simp: find_Some_iff\<close>)
  moreover have "found (\<lambda>ps. \<forall>p \<in> set ps. pm_snap p \<in> as_stored env ` S) (fst (My_Payment_Repo.FindByInvoiceID co i w'))"
    unfolding My_Payment_Repo.FindByInvoiceID_def scanPaymentRows_def
    by (rule rows_lookup) (auto intro: found_mono [OF row])
  ultimately show ?thesis ..
qed

section \<open>Credit notes\<close>

definition creditnote_row_typed :: "menv \<Rightarrow> creditnote_core \<Rightarrow> creditnote_snapshot set \<Rightarrow> creditnote_row \<Rightarrow> bool" where
  "creditnote_row_typed env co S r \<longleftrightarrow> (\<exists>s \<in> S. cs_ID s = cr_id r \<and> scanCreditNoteSnapshot co r
     = Inr (s\<lparr>cs_IssuedAt := map_option (me_time env) (cs_IssuedAt s), cs_CreatedAt := cr_created r\<rparr>))"

definition creditnotes_typed :: "menv \<Rightarrow> creditnote_core \<Rightarrow> creditnote_snapshot set \<Rightarrow> cn_db \<Rightarrow> bool" where
  "creditnotes_typed env co S d \<longleftrightarrow> (\<forall>r \<in> set d. creditnote_row_typed env co S r)"

lemma creditnotes_rows_typed:
  "rows_typed creditnotes_table (creditnote_row_typed env co S) (creditnotes_typed env co S)"
  by (auto simp: rows_typed_def creditnotes_typed_def creditnotes_table_def)

interpretation creditnote_rows: typed_store "My_CreditNote_Repo.Save env co"
    "\<lambda>s. s \<in> S \<and> codec_ok env (ck_state co)" "creditnotes_typed env co S" for env co S
proof
  fix s l
  assume a: "s \<in> S \<and> codec_ok env (ck_state co)"
  have row: "creditnote_row_typed env co S ((creditnote_to_row env co s items now)\<lparr>cr_created := c\<rparr>)"
      "creditnote_row_typed env co S (creditnote_to_row env co s items now)"
    if "co_enc (ck_state co) (cs_state s) = Some js" "json_column env js = Inr items" for js items now c
    using codec_column [OF conjunct2 [OF a] that] a
    by (auto simp: creditnote_row_typed_def scanCreditNoteSnapshot_def creditnote_to_row_def intro!: bexI [of _ s])
  have "keeps (all_typed (creditnotes_typed env co S)) (insert_creditnote env co s js)"
    "keeps (all_typed (creditnotes_typed env co S)) (update_creditnote env co s l js)"
    if "co_enc (ck_state co) (cs_state s) = Some js" for js
    unfolding insert_creditnote_def update_creditnote_def
    by (rule typed_insert [OF creditnotes_rows_typed] typed_update [OF creditnotes_rows_typed];
        auto split: sum.splits intro: row [OF that])+
  then show "keeps (all_typed (creditnotes_typed env co S)) (My_CreditNote_Repo.Save env co s l)"
    unfolding My_CreditNote_Repo.Save_def by (auto split: option.split intro!: keeps_intros)
qed

theorem creditnote_lookups_typed:
  assumes "codec_ok env (ck_state co)"
    and "session {My_CreditNote_Repo.Save env co s l | s l. s \<in> S} w w'" and "saved w = None" and "db w = []"
  shows "found (\<lambda>p. \<exists>s \<in> S. cs_ID s = i \<and> cs_state (cn_snap p) = cs_state s) (fst (My_CreditNote_Repo.FindByID co i w')) \<and>
    found (\<lambda>ps. \<forall>p \<in> set ps. cs_state (cn_snap p) \<in> cs_state ` S) (fst (findMany co q w'))"
proof -
  have "creditnotes_typed env co S (db w')"
    by (rule creditnote_rows.session_typed [OF _ assms(3)]) (use assms in \<open>auto simp: creditnotes_typed_def\<close>)
  then have row: "found (\<lambda>p. \<exists>s \<in> S. cs_ID s = cr_id r \<and> cs_state (cn_snap p) = cs_state s) (creditnote_of_row co r)"
    if "r \<in> set (db w')" for r
    using that by (fastforce simp: creditnotes_typed_def creditnote_row_typed_def creditnote_of_row_def
        CreditNoteFromSnapshot_def found_def decode_error_def has_prefix_def)
  have "found (\<lambda>p. \<exists>s \<in> S. cs_ID s = i \<and> cs_state (cn_snap p) = cs_state s) (fst (My_CreditNote_Repo.FindByID co i w'))"
    unfolding My_CreditNote_Repo.FindByID_def by (rule row_lookup) (use row in \<open>auto simp: find_Some_iff\<close>)
  moreover have "found (\<lambda>ps. \<forall>p \<in> set ps. cs_state (cn_snap p) \<in> cs_state ` S) (fst (findMany co q w'))"
    unfolding findMany_def by (rule rows_lookup) (auto intro: found_mono [OF row])
  ultimately show ?thesis ..
qed


section \<open>Prices\<close>

text \<open>A price keeps its first product and creation time; metadata that was not set is stored as an empty
  object, \<open>md0\<close> when read.\<close>

definition kept_price :: "('f, 't, 'u, 'i, 'm) price_snapshot \<Rightarrow> string \<Rightarrow> time \<Rightarrow> 'm option
    \<Rightarrow> ('f, 't, 'u, 'i, 'm) price_snapshot" where
  "kept_price s product t md0 = s\<lparr>rs_ProductID := product, rs_CreatedAt := t,
     rs_Metadata := (if rs_Metadata s = None then md0 else rs_Metadata s)\<rparr>"

definition price_row_typed :: "('f, 't, 'u, 'i, 'm) price_core \<Rightarrow> 'm option \<Rightarrow> ('f, 't, 'u, 'i, 'm) price_snapshot set
    \<Rightarrow> price_row \<Rightarrow> bool" where
  "price_row_typed co md0 S r \<longleftrightarrow> (\<exists>s \<in> S. rs_ID s = rw_id r \<and>
     scanPriceSnapshot co r = Inr (kept_price s (rw_product r) (rw_created r) md0))"

definition prices_typed :: "('f, 't, 'u, 'i, 'm) price_core \<Rightarrow> 'm option \<Rightarrow> ('f, 't, 'u, 'i, 'm) price_snapshot set
    \<Rightarrow> price_db \<Rightarrow> bool" where
  "prices_typed co md0 S d \<longleftrightarrow> (\<forall>r \<in> set (t_prices d). price_row_typed co md0 S r)"

text \<open>The codecs of a price; the server refuses the empty text and keeps \<open>{}\<close> readable.\<close>

definition price_codecs :: "menv \<Rightarrow> ('f, 't, 'u, 'i, 'm) price_core \<Rightarrow> 'm option \<Rightarrow> bool" where
  "price_codecs env co md0 \<longleftrightarrow> codec_ok env (rk_state co) \<and> codec_ok env (rk_interval co) \<and> codec_ok env (rk_model co) \<and>
     codec_ok env (rk_metadata co) \<and> me_json env [] = None \<and>
     (\<forall>x. me_json env ''{}'' = Some x \<longrightarrow> x \<noteq> [] \<and> co_dec (rk_metadata co) x = Some md0)"

lemma scan_price_row:
  assumes ok: "price_codecs env co md0" and mdl: "marshalPricingModel (rk_model co) (rs_PricingModel s) = Inr mdl"
    and st: "co_enc (rk_state co) (rs_Amount s) = Some state"
    and md: "(if rs_Metadata s = None then Some ''{}'' else co_enc (rk_metadata co) (rs_Metadata s)) = Some metadata"
    and js: "me_json env (case co_enc (rk_interval co) (rs_Interval s) of Some t \<Rightarrow> t | None \<Rightarrow> []) = Some i'"
      "me_json env mdl = Some m'" "me_json env state = Some st'" "me_json env metadata = Some md'"
    and r: "rw_id r = rs_ID s" "rw_currency r = rs_Currency s" "rw_interval r = i'" "rw_model r = m'"
      "rw_status r = rs_Status s" "rw_state r = Some st'" "rw_metadata r = Some md'"
  shows "scanPriceSnapshot co r = Inr (kept_price s (rw_product r) (rw_created r) md0)"
proof -
  from ok have c: "codec_ok env (rk_state co)" "codec_ok env (rk_interval co)" "codec_ok env (rk_model co)"
    "codec_ok env (rk_metadata co)" "me_json env [] = None"
    "\<And>x. me_json env ''{}'' = Some x \<Longrightarrow> x \<noteq> [] \<and> co_dec (rk_metadata co) x = Some md0"
    by (auto simp: price_codecs_def)
  have "st' \<noteq> []" "co_dec (rk_state co) st' = Some (rs_Amount s)"
    using codec_text [OF c(1) st js(3)] by simp_all
  moreover from js(1) c(5) obtain t where "co_enc (rk_interval co) (rs_Interval s) = Some t" "me_json env t = Some i'"
    by (auto split: option.splits)
  then have "i' \<noteq> []" "co_dec (rk_interval co) i' = Some (rs_Interval s)"
    using codec_text [OF c(2)] by simp_all
  moreover have "md' \<noteq> [] \<and> co_dec (rk_metadata co) md' = Some (if rs_Metadata s = None then md0 else rs_Metadata s)"
    using md js(4) c(6) codec_text [OF c(4) _ js(4)] by (auto split: if_splits)
  moreover have "unmarshalPricingModel (rk_model co) m' = Inr (rs_PricingModel s)"
    by (rule pricing_model_roundtrip [OF c(3) mdl js(2)])
  ultimately show ?thesis
    by (simp add: scanPriceSnapshot_def r Let_def kept_price_def)
qed

lemma upsert_row_all:
  assumes "\<forall>r \<in> set rows. P r" and "P new" and "\<And>r. kf r = kf new \<Longrightarrow> P (upd r)"
  shows "\<forall>r \<in> set (upsert_row kf new upd rows). P r"
  using assms by (auto simp: upsert_row_def)

interpretation price_rows: typed_store "\<lambda>s (_ :: int). price_Save env co s"
    "\<lambda>s. s \<in> S \<and> price_codecs env co md0" "prices_typed co md0 S" for env co S md0
proof
  fix s :: "('a, 'b, 'c, 'd, 'e) price_snapshot" and l :: int
  assume a: "s \<in> S \<and> price_codecs env co md0"
  have "keeps (all_typed (prices_typed co md0 S)) (upsert_price env co s
      (case co_enc (rk_interval co) (rs_Interval s) of Some t \<Rightarrow> t | None \<Rightarrow> []) mdl state metadata)"
    if "marshalPricingModel (rk_model co) (rs_PricingModel s) = Inr mdl" "co_enc (rk_state co) (rs_Amount s) = Some state"
      "(if rs_Metadata s = None then Some ''{}'' else co_enc (rk_metadata co) (rs_Metadata s)) = Some metadata"
    for mdl state metadata
    unfolding upsert_price_def
  proof (rule typed_exec)
    fix d
    assume d: "prices_typed co md0 S d"
    note scan = scan_price_row [OF conjunct2 [OF a] that]
    let ?iv = "case co_enc (rk_interval co) (rs_Interval s) of Some t \<Rightarrow> t | None \<Rightarrow> []"
    let ?row = "\<lambda>i m st md. \<lparr>rw_id = rs_ID s, rw_product = rs_ProductID s, rw_amount = rk_int64 co (rs_Amount s),
      rw_currency = rs_Currency s, rw_interval = i, rw_model = m, rw_status = rs_Status s, rw_state = Some st,
      rw_metadata = Some md, rw_created = me_time env (rs_CreatedAt s)\<rparr>"
    let ?new = "\<lambda>i m st md. upsert_row rw_id (?row i m st md)
      (\<lambda>r. (?row i m st md)\<lparr>rw_product := rw_product r, rw_created := rw_created r\<rparr>) (t_prices d)"
    have "prices_typed co md0 S (d\<lparr>t_prices := ?new i m st md\<rparr>)"
      if "me_json env ?iv = Some i" "me_json env mdl = Some m" "me_json env state = Some st" "me_json env metadata = Some md"
      for i m st md
    proof -
      have "\<forall>r \<in> set (?new i m st md). price_row_typed co md0 S r"
      proof (rule upsert_row_all)
        show "\<forall>r \<in> set (t_prices d). price_row_typed co md0 S r" using d by (simp add: prices_typed_def)
      qed (use a scan [OF that] in \<open>auto simp: price_row_typed_def intro!: bexI [of _ s]\<close>)
      then show ?thesis by (simp add: prices_typed_def)
    qed
    with d show "prices_typed co md0 S (snd (case (me_json env ?iv, me_json env mdl, me_json env state, me_json env metadata) of
       (Some i, Some m, Some st, Some md) \<Rightarrow> (let row = ?row i m st md in (Inr (), d\<lparr>t_prices := upsert_row rw_id row
            (\<lambda>r. row\<lparr>rw_product := rw_product r, rw_created := rw_created r\<rparr>) (t_prices d)\<rparr>))
      | _ \<Rightarrow> (Inl (MySQLError 3140 ''Invalid JSON text''), d)))"
      by (simp add: Let_def split: option.split)
  qed
  note upsert = this
  have e: "liftA (Inl x) = throw x" "liftA (Inr y) = ret y" for x :: repo_error and y :: string
    by (rule ext, simp)+
  show "keeps (all_typed (prices_typed co md0 S)) (price_Save env co s)"
  proof (cases "marshalPricingModel (rk_model co) (rs_PricingModel s)")
    case (Inl x)
    then show ?thesis by (simp only: price_Save_def Let_def e bindA_throw) (intro keeps_intros)
  next
    case (Inr mdl)
    show ?thesis unfolding price_Save_def Let_def Inr e bindA_ret
      by (intro keeps_option_eq keeps_throw upsert [OF Inr])
  qed
qed

lemma scan_price_status: "scanPriceSnapshot co r = Inr s \<Longrightarrow> rs_Status s = rw_status r"
  by (auto simp: scanPriceSnapshot_def Let_def split: option.splits sum.splits if_splits)

text \<open>Every lookup of prices after a session of saves finds only saved prices, each with the model it was
  saved with, or fails for another reason than a row it cannot decode.\<close>

theorem price_lookups_typed:
  assumes "price_codecs env co md0"
    and "session {price_Save env co s | s. s \<in> S} w w'" and "saved w = None" and "t_prices (db w) = []"
  shows "found (\<lambda>p. \<exists>s \<in> S. rs_ID s = i \<and> p = kept_price s (rs_ProductID p) (rs_CreatedAt p) md0) (fst (price_FindByID co i w')) \<and>
    found (\<lambda>ps. \<forall>p \<in> set ps. \<exists>s \<in> S. p = kept_price s i (rs_CreatedAt p) md0) (fst (FindByProductID co i w')) \<and>
    found (\<lambda>ps. \<forall>p \<in> set ps. \<exists>s \<in> S. rs_Status s = ''active'' \<and> p = kept_price s i (rs_CreatedAt p) md0)
      (fst (FindActiveByProductID co i w'))"
proof -
  have ops: "{price_Save env co s | s. s \<in> S} = {(\<lambda>s (_ :: int). price_Save env co s) s l | s l. s \<in> S \<and> price_codecs env co md0}"
    using assms(1) by auto
  have "prices_typed co md0 S (db w')"
    by (rule price_rows.session_typed [OF assms(2) [unfolded ops] assms(3)]) (use assms(4) in \<open>simp add: prices_typed_def\<close>)
  then have row: "found (\<lambda>p. \<exists>s \<in> S. rs_ID s = rw_id r \<and> rs_Status s = rw_status r \<and>
      p = kept_price s (rw_product r) (rw_created r) md0) (price_of_row co r)" if "r \<in> set (t_prices (db w'))" for r
  proof -
    from that \<open>prices_typed co md0 S (db w')\<close> obtain s where s: "s \<in> S" "rs_ID s = rw_id r"
        "scanPriceSnapshot co r = Inr (kept_price s (rw_product r) (rw_created r) md0)"
      by (auto simp: prices_typed_def price_row_typed_def)
    have "rs_Status (kept_price s (rw_product r) (rw_created r) md0) = rw_status r"
      by (rule scan_price_status [OF s(3)])
    then have "rs_Status s = rw_status r" by (simp add: kept_price_def)
    with s show ?thesis
      by (auto simp: price_of_row_def price_FromSnapshot_def found_def decode_error_def has_prefix_def)
  qed
  have sel: "rs_ProductID (kept_price s a b c) = a" "rs_CreatedAt (kept_price s a b c) = b" for s :: "('a, 'b, 'c, 'd, 'e) price_snapshot" and a b c
    by (simp_all add: kept_price_def)
  have "found (\<lambda>p. \<exists>s \<in> S. rs_ID s = i \<and> p = kept_price s (rs_ProductID p) (rs_CreatedAt p) md0) (fst (price_FindByID co i w'))"
    unfolding price_FindByID_def
  proof (rule row_lookup)
    fix r
    assume "find (\<lambda>r. rw_id r = i) (t_prices (db w')) = Some r"
    then have "r \<in> set (t_prices (db w'))" "rw_id r = i" by (auto simp: find_Some_iff)
    then show "found (\<lambda>p. \<exists>s \<in> S. rs_ID s = i \<and> p = kept_price s (rs_ProductID p) (rs_CreatedAt p) md0) (price_of_row co r)"
      by (intro found_mono [OF row]) (auto simp: sel)
  qed
  moreover have "found (\<lambda>ps. \<forall>p \<in> set ps. \<exists>s \<in> S. p = kept_price s i (rs_CreatedAt p) md0) (fst (FindByProductID co i w'))"
    unfolding FindByProductID_def My_Price_Repo.scanPriceRows_def
    by (rule rows_lookup) (auto intro!: found_mono [OF row] simp: sel)
  moreover have "found (\<lambda>ps. \<forall>p \<in> set ps. \<exists>s \<in> S. rs_Status s = ''active'' \<and> p = kept_price s i (rs_CreatedAt p) md0)
      (fst (FindActiveByProductID co i w'))"
    unfolding FindActiveByProductID_def My_Price_Repo.scanPriceRows_def
    by (rule rows_lookup) (auto intro!: found_mono [OF row] simp: sel)
  ultimately show ?thesis by blast
qed

end
