(* ===== verification/My_Migrate.thy ===== *)
theory My_Migrate
  imports My_Errors Sql_Base "HOL-Library.Char_ord" "HOL-Library.List_Lexorder"
begin

text \<open>
  The migrations of \<open>mysql/migrate.go\<close>: each file is recorded as pending, its statements run one by
  one, and it is recorded as applied; a file that stopped half way blocks every later run. What a migration
  statement does to the rest of the database is a parameter, \<open>ddl\<close>; the ledger table
  \<open>schema_migrations\<close> is the adapter's own. \<open>g_log\<close> records the migration statements that were
  executed successfully. MySQL commits each statement by itself, so there is no transaction.
\<close>

section \<open>Splitting a file into statements\<close>

definition newline :: char where "newline = CHR 0x0A"
definition backtick :: char where "backtick = CHR 0x60"
definition backslash :: char where "backslash = CHR 0x5C"

text \<open>What follows the line comment, or the block comment, one is in.\<close>

fun skipToLineEnd :: "string \<Rightarrow> string" where
  "skipToLineEnd [] = []"
| "skipToLineEnd (c # cs) = (if c = newline then cs else skipToLineEnd cs)"

fun skipBlockComment :: "string \<Rightarrow> string" where
  "skipBlockComment (c # d # cs) =
     (if c = CHR ''*'' \<and> d = CHR ''/'' then cs else skipBlockComment (d # cs))"
| "skipBlockComment _ = []"

lemma skipToLineEnd_shorter: "length (skipToLineEnd s) \<le> length s"
  by (induction s rule: skipToLineEnd.induct) auto

lemma skipBlockComment_shorter: "length (skipBlockComment s) \<le> length s"
  by (induction s rule: skipBlockComment.induct) auto

definition flush :: "string \<Rightarrow> string list \<Rightarrow> string list" where
  "flush buf out = (let s = trim_space buf in if s \<noteq> [] then out @ [s] else out)"

definition starts_line_comment :: "char \<Rightarrow> string \<Rightarrow> bool" where
  "starts_line_comment c cs \<longleftrightarrow> c = CHR ''-'' \<and> cs \<noteq> [] \<and> hd cs = CHR ''-'' \<and>
     (tl cs = [] \<or> hd (tl cs) \<in> {CHR '' '', CHR 0x09, newline, CHR 0x0D})"

text \<open>The loop: inside a quoted text, inside a quoted identifier, the statement so far and those before it.\<close>

function split_from :: "bool \<Rightarrow> bool \<Rightarrow> string \<Rightarrow> string list \<Rightarrow> string \<Rightarrow> string list" where
  "split_from inSingle inBacktick buf out [] = flush buf out"
| "split_from inSingle inBacktick buf out (c # cs) =
     (if inSingle then
        (if c = backslash \<and> cs \<noteq> [] then split_from True inBacktick (buf @ [c, hd cs]) out (tl cs)
         else if c = quote_char \<and> cs \<noteq> [] \<and> hd cs = quote_char
         then split_from True inBacktick (buf @ [c, hd cs]) out (tl cs)
         else split_from (c \<noteq> quote_char) inBacktick (buf @ [c]) out cs)
      else if inBacktick then split_from False (c \<noteq> backtick) (buf @ [c]) out cs
      else if starts_line_comment c cs then split_from False False buf out (skipToLineEnd (c # cs))
      else if c = CHR ''#'' then split_from False False buf out (skipToLineEnd (c # cs))
      else if c = CHR ''/'' \<and> cs \<noteq> [] \<and> hd cs = CHR ''*''
      then split_from False False buf out (skipBlockComment (tl cs))
      else if c = quote_char then split_from True False (buf @ [c]) out cs
      else if c = backtick then split_from False True (buf @ [c]) out cs
      else if c = CHR '';'' then split_from False False [] (flush buf out) cs
      else split_from False False (buf @ [c]) out cs)"
  by pat_completeness auto

termination
proof (relation "measure (\<lambda>(a, b, buf, out, s). length s)", goal_cases)
  case (6 a b buf out c cs)
  then have "c \<noteq> newline" by (auto simp: starts_line_comment_def newline_def)
  then show ?case using skipToLineEnd_shorter [of cs] by simp
next
  case (7 a b buf out c cs)
  then have "c \<noteq> newline" by (auto simp: newline_def)
  then show ?case using skipToLineEnd_shorter [of cs] by simp
next
  case (8 a b buf out c cs)
  then show ?case using skipBlockComment_shorter [of "tl cs"] by (cases cs) (auto simp: less_Suc_eq_le le_Suc_eq)
qed (auto simp: neq_Nil_conv)

definition splitStatements :: "string \<Rightarrow> string list" where
  "splitStatements sql = split_from False False [] [] sql"

section \<open>The ledger\<close>

definition migrationStatusPending :: string where "migrationStatusPending = ''pending''"
definition migrationStatusApplied :: string where "migrationStatusApplied = ''applied''"

record 't mig_db =
  g_ledger :: "(string \<times> string) list option"
  g_schema :: 't
  g_log :: "string list"

text \<open>The embedded files: the entries of a directory with whether they are directories, and the contents by
  path.\<close>

record mig_fs =
  fs_ReadDir :: "string \<Rightarrow> (string \<times> bool) list option"
  fs_ReadFile :: "string \<Rightarrow> string option"

type_synonym 't server = "string \<Rightarrow> 't \<Rightarrow> (db_error + unit) \<times> 't"

definition create_schema_migrations :: "('t mig_db, unit) sql" where
  "create_schema_migrations = exec_stmt (\<lambda>d. (Inr (), case g_ledger d of
      None \<Rightarrow> d\<lparr>g_ledger := Some []\<rparr> | Some _ \<Rightarrow> d))"

definition missing_table :: db_error where
  "missing_table = MySQLError 1146 ''Table schema_migrations does not exist''"

definition loadAppliedMigrations :: "('t mig_db, string list) sql" where
  "loadAppliedMigrations =
     bindA (exec_stmt (\<lambda>d. (case g_ledger d of None \<Rightarrow> Inl missing_table | Some rows \<Rightarrow> Inr rows, d))) (\<lambda>rows.
     if \<exists>(filename, status) \<in> set rows. status \<noteq> migrationStatusApplied
     then throw (OtherError ''manual reconciliation required'')
     else ret (map fst rows))"

definition mark_pending :: "string \<Rightarrow> ('t mig_db, unit) sql" where
  "mark_pending name = exec_stmt (\<lambda>d. case g_ledger d of
      None \<Rightarrow> (Inl missing_table, d)
    | Some rows \<Rightarrow> (case insert_row ''schema_migrations'' [(''PRIMARY'', \<lambda>r. Some (fst r))]
          (name, migrationStatusPending) rows of
        Inl e \<Rightarrow> (Inl e, d)
      | Inr rows' \<Rightarrow> (Inr (), d\<lparr>g_ledger := Some rows'\<rparr>)))"

definition mark_applied :: "string \<Rightarrow> ('t mig_db, unit) sql" where
  "mark_applied name = exec_stmt (\<lambda>d. case g_ledger d of
      None \<Rightarrow> (Inl missing_table, d)
    | Some rows \<Rightarrow> (Inr (), d\<lparr>g_ledger :=
        Some (map (\<lambda>r. if fst r = name then (fst r, migrationStatusApplied) else r) rows)\<rparr>))"

definition run_statement :: "'t server \<Rightarrow> string \<Rightarrow> ('t mig_db, unit) sql" where
  "run_statement ddl s = exec_stmt (\<lambda>d. case ddl s (g_schema d) of
      (Inl e, t) \<Rightarrow> (Inl e, d\<lparr>g_schema := t\<rparr>)
    | (Inr u, t) \<Rightarrow> (Inr (), d\<lparr>g_schema := t, g_log := g_log d @ [s]\<rparr>))"

definition My_applyMigrationFile :: "'t server \<Rightarrow> string \<Rightarrow> string \<Rightarrow> ('t mig_db, unit) sql" where
  "My_applyMigrationFile ddl name sql =
     bindA (mark_pending name) (\<lambda>_.
     bindA (forA (run_statement ddl) (splitStatements sql)) (\<lambda>_.
     mark_applied name))"

definition migrationFilenames :: "mig_fs \<Rightarrow> string \<Rightarrow> repo_error + string list" where
  "migrationFilenames fsys dir = (case fs_ReadDir fsys dir of
      None \<Rightarrow> Inl (OtherError ''read migrations dir'')
    | Some entries \<Rightarrow> Inr (sort (map fst (filter (\<lambda>e. \<not> snd e) entries))))"

definition readMigration :: "mig_fs \<Rightarrow> string \<Rightarrow> string \<Rightarrow> repo_error + string" where
  "readMigration fsys dir name = (case fs_ReadFile fsys (dir @ ''/'' @ name) of
      None \<Rightarrow> Inl (OtherError ''read migration'') | Some data \<Rightarrow> Inr data)"

definition migrateOn :: "'t server \<Rightarrow> mig_fs \<Rightarrow> string \<Rightarrow> ('t mig_db, unit) sql" where
  "migrateOn ddl fsys dir =
     bindA create_schema_migrations (\<lambda>_.
     bindA loadAppliedMigrations (\<lambda>applied.
     bindA (liftA (migrationFilenames fsys dir)) (\<lambda>names.
     forA (\<lambda>name. if name \<in> set applied then ret ()
       else bindA (liftA (readMigration fsys dir name)) (My_applyMigrationFile ddl name)) names)))"

text \<open>\<open>Migrate\<close> acquires a connection of its own first.\<close>

definition migrationsDir :: string where "migrationsDir = ''migrations''"

definition Migrate :: "'t server \<Rightarrow> mig_fs \<Rightarrow> ('t mig_db, unit) sql" where
  "Migrate ddl fsys = bindA (query (\<lambda>_. ())) (\<lambda>_. migrateOn ddl fsys migrationsDir)"

end
