(* ===== verification/My_Migrate_Props.thy ===== *)
theory My_Migrate_Props
  imports My_Migrate
begin

text \<open>
  Properties of the migrations: what the splitter makes of a file written in the lexical grammar \<open>piece\<close>,
  and how far any sequence of runs can get: every file is executed at most once, in the order of the names, and
  a file that stopped half way stops all later runs.
\<close>

section \<open>A lexical grammar of migration files\<close>

text \<open>Plain characters, a quoted text (of plain, escaped and doubled characters), a quoted identifier, and the
  three kinds of comments.\<close>

datatype piece = Chars string | Quoted "string list" | Ticked string | LineComment string | HashComment string
  | BlockComment string

fun render :: "piece \<Rightarrow> string" where
  "render (Chars s) = s"
| "render (Quoted items) = quote_char # concat items @ [quote_char]"
| "render (Ticked s) = backtick # s @ [backtick]"
| "render (LineComment s) = ''-- '' @ s @ [newline]"
| "render (HashComment s) = ''#'' @ s @ [newline]"
| "render (BlockComment s) = ''/*'' @ s @ ''*/''"

fun is_comment :: "piece \<Rightarrow> bool" where
  "is_comment (LineComment s) = True"
| "is_comment (HashComment s) = True"
| "is_comment (BlockComment s) = True"
| "is_comment _ = False"

definition plain_char :: "char \<Rightarrow> bool" where
  "plain_char c \<longleftrightarrow> c \<notin> {quote_char, backtick, CHR '';'', CHR ''#''}"

text \<open>No character with a meaning, no start of a comment, and no character that could start one with what follows.\<close>

fun chars_ok :: "string \<Rightarrow> bool" where
  "chars_ok [] = True"
| "chars_ok [c] = (plain_char c \<and> c \<noteq> CHR ''-'' \<and> c \<noteq> CHR ''/'')"
| "chars_ok (c # d # cs) = (plain_char c \<and> \<not> (c = CHR ''-'' \<and> d = CHR ''-'') \<and> \<not> (c = CHR ''/'' \<and> d = CHR ''*'')
     \<and> chars_ok (d # cs))"

fun item_ok :: "string \<Rightarrow> bool" where
  "item_ok [c] = (c \<noteq> quote_char \<and> c \<noteq> backslash)"
| "item_ok [c, d] = (c = backslash \<or> c = quote_char \<and> d = quote_char)"
| "item_ok _ = False"

fun no_block_end :: "string \<Rightarrow> bool" where
  "no_block_end (c # d # cs) = (\<not> (c = CHR ''*'' \<and> d = CHR ''/'') \<and> no_block_end (d # cs))"
| "no_block_end _ = True"

fun piece_ok :: "piece \<Rightarrow> bool" where
  "piece_ok (Chars s) = (s \<noteq> [] \<and> chars_ok s)"
| "piece_ok (Quoted items) = list_all item_ok items"
| "piece_ok (Ticked s) = (backtick \<notin> set s)"
| "piece_ok (LineComment s) = (newline \<notin> set s)"
| "piece_ok (HashComment s) = (newline \<notin> set s)"
| "piece_ok (BlockComment s) = no_block_end s"

fun is_quoted :: "piece \<Rightarrow> bool" where
  "is_quoted (Quoted items) = True" | "is_quoted _ = False"

text \<open>Two quoted texts in a row would be one with a doubled quote.\<close>

fun pieces_ok :: "piece list \<Rightarrow> bool" where
  "pieces_ok [] = True"
| "pieces_ok [p] = piece_ok p"
| "pieces_ok (p # q # ps) = (piece_ok p \<and> \<not> (is_quoted p \<and> is_quoted q) \<and> pieces_ok (q # ps))"

definition source_of :: "piece list \<Rightarrow> string" where
  "source_of ps = concat (map render ps)"

definition text_of :: "piece list \<Rightarrow> string" where
  "text_of ps = concat (map render (filter (\<lambda>p. \<not> is_comment p) ps))"

text \<open>One step of the loop, by the kind of character.\<close>

lemmas chars = quote_char_def backtick_def newline_def backslash_def

declare split_from.simps(2) [simp del]

lemma split_plain:
  assumes "plain_char c" and "\<not> starts_line_comment c cs" and "\<not> (c = CHR ''/'' \<and> cs \<noteq> [] \<and> hd cs = CHR ''*'')"
  shows "split_from False False buf out (c # cs) = split_from False False (buf @ [c]) out cs"
  by (subst split_from.simps(2)) (use assms in \<open>auto simp: plain_char_def\<close>)

lemma split_openings:
  "split_from False False buf out (quote_char # cs) = split_from True False (buf @ [quote_char]) out cs"
  "split_from False False buf out (backtick # cs) = split_from False True (buf @ [backtick]) out cs"
  "split_from False False buf out (CHR '';'' # cs) = split_from False False [] (flush buf out) cs"
  by (simp_all add: split_from.simps(2) starts_line_comment_def chars)

lemma split_comments:
  "split_from False False buf out (''-- '' @ cs) = split_from False False buf out (skipToLineEnd cs)"
  "split_from False False buf out (''#'' @ cs) = split_from False False buf out (skipToLineEnd cs)"
  "split_from False False buf out (''/*'' @ cs) = split_from False False buf out (skipBlockComment cs)"
  by (simp_all add: split_from.simps(2) starts_line_comment_def chars)

lemma split_quoted:
  "c \<noteq> quote_char \<Longrightarrow> c \<noteq> backslash \<Longrightarrow> split_from True False buf out (c # cs) = split_from True False (buf @ [c]) out cs"
  "c = backslash \<or> c = quote_char \<and> d = quote_char \<Longrightarrow>
     split_from True False buf out (c # d # cs) = split_from True False (buf @ [c, d]) out cs"
  "cs = [] \<or> hd cs \<noteq> quote_char \<Longrightarrow>
     split_from True False buf out (quote_char # cs) = split_from False False (buf @ [quote_char]) out cs"
  by (subst split_from.simps(2), auto simp: quote_char_def backslash_def)+

lemma split_backticked:
  "c \<noteq> backtick \<Longrightarrow> split_from False True buf out (c # cs) = split_from False True (buf @ [c]) out cs"
  "split_from False True buf out (backtick # cs) = split_from False False (buf @ [backtick]) out cs"
  by (simp_all add: split_from.simps(2))

lemma split_chars:
  "chars_ok s \<Longrightarrow> split_from False False buf out (s @ rest) = split_from False False (buf @ s) out rest"
proof (induction s arbitrary: buf rule: chars_ok.induct)
  case (2 c)
  then show ?case by (simp add: split_plain starts_line_comment_def)
next
  case (3 c d cs)
  then have "\<not> starts_line_comment c (d # cs @ rest)" "plain_char c" "\<not> (c = CHR ''/'' \<and> d = CHR ''*'')"
    by (auto simp: starts_line_comment_def)
  with 3 show ?case by (simp add: split_plain)
qed simp

lemma split_items:
  assumes "list_all item_ok items" and "rest = [] \<or> hd rest \<noteq> quote_char"
  shows "split_from True False buf out (concat items @ quote_char # rest) =
    split_from False False (buf @ concat items @ [quote_char]) out rest"
  using assms(1)
proof (induction items arbitrary: buf)
  case Nil
  with assms(2) show ?case by (simp add: split_quoted)
next
  case (Cons it its)
  then have ok: "item_ok it" and its: "list_all item_ok its" by simp_all
  from ok show ?case
  proof (cases it rule: item_ok.cases)
    case (1 c)
    with ok Cons.IH [OF its, of "buf @ [c]"] show ?thesis by (simp add: split_quoted)
  next
    case (2 c d)
    with ok Cons.IH [OF its, of "buf @ [c, d]"] show ?thesis by (simp add: split_quoted(2))
  qed simp_all
qed

lemma split_ticked:
  "backtick \<notin> set s \<Longrightarrow> split_from False True buf out (s @ backtick # rest) =
     split_from False False (buf @ s @ [backtick]) out rest"
  by (induction s arbitrary: buf) (auto simp: split_backticked)

lemma skip_line: "newline \<notin> set s \<Longrightarrow> skipToLineEnd (s @ newline # rest) = rest"
  by (induction s) auto

lemma skip_block: "no_block_end s \<Longrightarrow> skipBlockComment (s @ CHR ''*'' # CHR ''/'' # rest) = rest"
  by (induction s rule: no_block_end.induct) auto

lemma split_piece:
  assumes "piece_ok p" and "is_quoted p \<longrightarrow> rest = [] \<or> hd rest \<noteq> quote_char"
  shows "split_from False False buf out (render p @ rest) =
    split_from False False (buf @ (if is_comment p then [] else render p)) out rest"
proof (cases p)
  case (Quoted items)
  with assms split_items [of items rest "buf @ [quote_char]" out] show ?thesis by (simp add: split_openings)
next
  case (Ticked s)
  with assms split_ticked [of s "buf @ [backtick]" out rest] show ?thesis by (simp add: split_openings)
next
  case (LineComment s)
  with assms skip_line [of s rest] split_comments(1) [of buf out "s @ newline # rest"] show ?thesis by simp
next
  case (HashComment s)
  with assms skip_line [of s rest] split_comments(2) [of buf out "s @ newline # rest"] show ?thesis by simp
next
  case (BlockComment s)
  with assms skip_block [of s rest] split_comments(3) [of buf out "s @ CHR ''*'' # CHR ''/'' # rest"] show ?thesis by simp
qed (use assms split_chars in auto)

text \<open>What follows a piece does not continue a quoted text.\<close>

lemma render_hd: "piece_ok q \<Longrightarrow> \<not> is_quoted q \<Longrightarrow> render q \<noteq> [] \<and> hd (render q) \<noteq> quote_char"
proof (cases q)
  case (Chars s)
  assume "piece_ok q"
  with Chars show ?thesis by (cases s rule: chars_ok.cases) (auto simp: plain_char_def)
qed (auto simp: quote_char_def backtick_def)

lemma split_pieces:
  "pieces_ok ps \<Longrightarrow> rest = [] \<or> hd rest \<noteq> quote_char \<Longrightarrow>
   split_from False False buf out (source_of ps @ rest) = split_from False False (buf @ text_of ps) out rest"
proof (induction ps arbitrary: buf rule: pieces_ok.induct)
  case (2 p)
  then show ?case using split_piece [of p rest buf out] by (simp add: source_of_def text_of_def)
next
  case (3 p q ps)
  then have q: "piece_ok q" by (cases ps) auto
  have "is_quoted p \<longrightarrow> source_of (q # ps) @ rest = [] \<or> hd (source_of (q # ps) @ rest) \<noteq> quote_char"
    using 3(2) render_hd [OF q] by (auto simp: source_of_def)
  from split_piece [OF _ this, of buf out] 3 show ?case
    by (simp add: source_of_def text_of_def)
qed (simp add: source_of_def text_of_def)

lemma split_statements:
  assumes "\<forall>ps \<in> set pss. pieces_ok ps" and "pieces_ok final"
  shows "split_from False False [] out (concat (map (\<lambda>ps. source_of ps @ '';'') pss) @ source_of final) =
    out @ filter (\<lambda>s. s \<noteq> []) (map (\<lambda>ps. trim_space (text_of ps)) (pss @ [final]))"
  using assms(1)
proof (induction pss arbitrary: out)
  case Nil
  from split_pieces [OF assms(2), of "[]" "[]" out] show ?case by (simp add: flush_def Let_def)
next
  case (Cons ps pss)
  let ?rest = "'';'' @ concat (map (\<lambda>ps. source_of ps @ '';'') pss) @ source_of final"
  have "hd ?rest \<noteq> quote_char" by (simp add: quote_char_def)
  with split_pieces [of ps ?rest "[]" out] Cons show ?case
    by (simp add: flush_def Let_def split_openings(3))
qed

text \<open>C26. A migration file is split at exactly the semicolons that end statements. For a file made of plain text,
  quoted texts with escapes and doubled quotes, quoted identifiers and comments, the statements are those of the
  file, in order, each without its comments and surrounding white space; semicolons and comment signs inside
  quotes, and quotes inside comments, mean nothing; empty statements disappear.\<close>

theorem splitStatements_grammar:
  assumes "\<forall>ps \<in> set pss. pieces_ok ps" and "pieces_ok final"
  shows "splitStatements (concat (map (\<lambda>ps. source_of ps @ '';'') pss) @ source_of final) =
    filter (\<lambda>s. s \<noteq> []) (map (\<lambda>ps. trim_space (text_of ps)) (pss @ [final]))"
  unfolding splitStatements_def using split_statements [OF assms, of "[]"] by simp

theorem splitStatements_grammar_witness:
  "\<exists>s. s = source_of [Chars ''SET @a := '', Quoted [''x'', '';'', [quote_char, quote_char]]] @ '';'' @
         source_of [Chars '' DROP '', BlockComment '' a; '', Chars '' '', Ticked ''t;''] \<and>
       splitStatements s = [''SET @a := '' @ render (Quoted [''x'', '';'', [quote_char, quote_char]]), ''DROP  '' @ render (Ticked ''t;'')]"
proof -
  let ?a = "[Chars ''SET @a := '', Quoted [''x'', '';'', [quote_char, quote_char]]]"
  let ?b = "[Chars '' DROP '', BlockComment '' a; '', Chars '' '', Ticked ''t;'']"
  have "\<forall>ps \<in> set [?a]. pieces_ok ps" "pieces_ok ?b" by code_simp+
  from splitStatements_grammar [OF this]
  have "splitStatements (source_of ?a @ '';'' @ source_of ?b) =
    filter (\<lambda>s. s \<noteq> []) (map (\<lambda>ps. trim_space (text_of ps)) [?a, ?b])" by simp
  also have "\<dots> = [''SET @a := '' @ render (Quoted [''x'', '';'', [quote_char, quote_char]]), ''DROP  '' @ render (Ticked ''t;'')]"
    by code_simp
  finally show ?thesis by blast
qed

text \<open>A comment is not a separator: the texts before and after it are joined, also across the end of the line
  that ends a line comment.\<close>

lemma comment_joins_words:
  "splitStatements ''SELECT/**/1'' = [''SELECT1'']"
  "splitStatements (''DROP TABLE a-- old'' @ [newline] @ ''CASCADE'') = [''DROP TABLE aCASCADE'']"
  by code_simp+

section \<open>How far the runs can get\<close>

text \<open>The files that a database seeded with the ledger \<open>seed\<close> has to apply, in order, and the statements of
  one of them.\<close>

definition todo :: "mig_fs \<Rightarrow> (string \<times> string) list \<Rightarrow> string list" where
  "todo fsys seed = (case migrationFilenames fsys migrationsDir of
      Inl e \<Rightarrow> [] | Inr names \<Rightarrow> filter (\<lambda>n. n \<notin> fst ` set seed) names)"

definition stmts_of :: "mig_fs \<Rightarrow> string \<Rightarrow> string list" where
  "stmts_of fsys name = (case readMigration fsys migrationsDir name of Inl e \<Rightarrow> [] | Inr data \<Rightarrow> splitStatements data)"

text \<open>\<open>progress fsys seed k p d\<close>: the first \<open>k\<close> files are applied, each statement of theirs was executed
  once, in order; and with \<open>p = Some j\<close> the next file is pending, after its first \<open>j\<close> statements.\<close>

definition progress :: "mig_fs \<Rightarrow> (string \<times> string) list \<Rightarrow> nat \<Rightarrow> nat option \<Rightarrow> 't mig_db \<Rightarrow> bool" where
  "progress fsys seed k p d \<longleftrightarrow>
     (let files = todo fsys seed; past = take k files;
          ledger = seed @ map (\<lambda>n. (n, migrationStatusApplied)) past; log = concat (map (stmts_of fsys) past) in
      k \<le> length files \<and> (case p of
        None \<Rightarrow> (g_ledger d = Some ledger \<or> g_ledger d = None \<and> ledger = []) \<and> g_log d = log
      | Some j \<Rightarrow> k < length files \<and> j \<le> length (stmts_of fsys (files ! k)) \<and>
          g_ledger d = Some (ledger @ [(files ! k, migrationStatusPending)]) \<and>
          g_log d = log @ take j (stmts_of fsys (files ! k))))"

lemma status_distinct [simp]: "migrationStatusPending \<noteq> migrationStatusApplied"
  by (simp add: migrationStatusPending_def migrationStatusApplied_def)

lemma run_statement_cases:
  assumes "run_statement ddl s w = (r, w')"
  obtains "g_ledger (db w') = g_ledger (db w)" "g_log (db w') = g_log (db w) @ [s]"
    | "g_ledger (db w') = g_ledger (db w)" "g_log (db w') = g_log (db w)" "isl r"
  using exec_stmt_effect [OF assms [unfolded run_statement_def]] that
  by (cases "ddl s (g_schema (db w))"; cases "fst (ddl s (g_schema (db w)))"; cases r) auto

lemma run_statements:
  assumes "forA (run_statement ddl) ss w = (r, w')"
  shows "g_ledger (db w') = g_ledger (db w) \<and> (\<exists>j \<le> length ss. g_log (db w') = g_log (db w) @ take j ss)
    \<and> (r = Inr () \<longrightarrow> g_log (db w') = g_log (db w) @ ss)"
  using assms
proof (induction ss arbitrary: w)
  case Nil
  then show ?case by simp
next
  case (Cons s ss)
  obtain r1 w1 where run: "run_statement ddl s w = (r1, w1)" by fastforce
  show ?case
  proof (cases r1)
    case (Inl e)
    with Cons.prems run have w': "w' = w1" "r = Inl e" by (simp_all add: bindA_run [of "run_statement ddl s" w, OF run])
    from run show ?thesis
    proof (cases rule: run_statement_cases)
      case 1
      with w' show ?thesis by (auto intro: exI [of _ "Suc 0"])
    qed (use w' in auto)
  next
    case (Inr u)
    with Cons.prems run have rest: "forA (run_statement ddl) ss w1 = (r, w')"
      by (simp add: bindA_run [of "run_statement ddl s" w, OF run])
    from run Inr have "g_ledger (db w1) = g_ledger (db w)" "g_log (db w1) = g_log (db w) @ [s]"
      by (auto elim: run_statement_cases)
    moreover from Cons.IH [OF rest] obtain j where "j \<le> length ss" "g_log (db w') = g_log (db w1) @ take j ss"
      by blast
    ultimately show ?thesis using Cons.IH [OF rest] by (auto intro: exI [of _ "Suc j"])
  qed
qed

text \<open>One file: it ends applied, or it stops before anything happened, pending, or applied with the answer lost.\<close>

lemma mark_pending_effect:
  assumes "mark_pending name w = (r, w')" and "g_ledger (db w) = Some rows" and "name \<notin> fst ` set rows"
  shows "db w' = (db w)\<lparr>g_ledger := Some (rows @ [(name, migrationStatusPending)])\<rparr> \<or> db w' = db w \<and> isl r"
    and "r = Inr u \<Longrightarrow> db w' = (db w)\<lparr>g_ledger := Some (rows @ [(name, migrationStatusPending)])\<rparr>"
proof -
  have "find (clashes rows (name, migrationStatusPending)) [(''PRIMARY'', \<lambda>r. Some (fst r))] = None"
    using assms(3) by (force simp: clashes_def)
  with assms(2) exec_stmt_effect [OF assms(1) [unfolded mark_pending_def]]
  show "db w' = (db w)\<lparr>g_ledger := Some (rows @ [(name, migrationStatusPending)])\<rparr> \<or> db w' = db w \<and> isl r"
    and "r = Inr u \<Longrightarrow> db w' = (db w)\<lparr>g_ledger := Some (rows @ [(name, migrationStatusPending)])\<rparr>"
    by (auto simp: insert_row_def)
qed

lemma mark_applied_effect:
  assumes "mark_applied name w = (r, w')" and "g_ledger (db w) = Some (rows @ [(name, migrationStatusPending)])"
    and "name \<notin> fst ` set rows"
  shows "db w' = (db w)\<lparr>g_ledger := Some (rows @ [(name, migrationStatusApplied)])\<rparr> \<or> db w' = db w \<and> isl r"
    and "r = Inr u \<Longrightarrow> db w' = (db w)\<lparr>g_ledger := Some (rows @ [(name, migrationStatusApplied)])\<rparr>"
proof -
  have "map (\<lambda>r. if fst r = name then (fst r, migrationStatusApplied) else r) rows = rows"
    using assms(3) by (intro map_idI) force
  with assms(2) exec_stmt_effect [OF assms(1) [unfolded mark_applied_def]]
  show "db w' = (db w)\<lparr>g_ledger := Some (rows @ [(name, migrationStatusApplied)])\<rparr> \<or> db w' = db w \<and> isl r"
    and "r = Inr u \<Longrightarrow> db w' = (db w)\<lparr>g_ledger := Some (rows @ [(name, migrationStatusApplied)])\<rparr>"
    by auto
qed

lemma apply_file:
  assumes run: "My_applyMigrationFile ddl name sql w = (r, w')"
    and rows: "g_ledger (db w) = Some rows" "name \<notin> fst ` set rows"
  obtains (untouched) "isl r" "db w' = db w"
  | (pending) j where "isl r" "j \<le> length (splitStatements sql)"
      "g_ledger (db w') = Some (rows @ [(name, migrationStatusPending)])"
      "g_log (db w') = g_log (db w) @ take j (splitStatements sql)"
  | (complete) "g_ledger (db w') = Some (rows @ [(name, migrationStatusApplied)])"
      "g_log (db w') = g_log (db w) @ splitStatements sql"
proof -
  let ?ss = "splitStatements sql"
  obtain r1 w1 where m: "mark_pending name w = (r1, w1)" by fastforce
  note m' = mark_pending_effect [OF m rows]
  show thesis
  proof (cases r1)
    case (Inl e)
    with run m have "w' = w1" "isl r" by (auto simp: My_applyMigrationFile_def bindA_run [of "mark_pending name" w, OF m])
    with m'(1) show thesis by (auto intro: untouched pending [of 0])
  next
    case (Inr u)
    with m'(2) have w1: "db w1 = (db w)\<lparr>g_ledger := Some (rows @ [(name, migrationStatusPending)])\<rparr>" by blast
    obtain r2 w2 where st: "forA (run_statement ddl) ?ss w1 = (r2, w2)" by fastforce
    from run m Inr have rest: "bindA (forA (run_statement ddl) ?ss) (\<lambda>_. mark_applied name) w1 = (r, w')"
      by (simp add: My_applyMigrationFile_def bindA_run [of "mark_pending name" w, OF m])
    from run_statements [OF st] w1 have led: "g_ledger (db w2) = Some (rows @ [(name, migrationStatusPending)])"
      and log: "\<exists>j \<le> length ?ss. g_log (db w2) = g_log (db w) @ take j ?ss"
      and full: "r2 = Inr () \<Longrightarrow> g_log (db w2) = g_log (db w) @ ?ss" by auto
    show thesis
    proof (cases r2)
      case (Inl e)
      with rest have "w' = w2" "isl r" by (auto simp: bindA_run [of "forA (run_statement ddl) ?ss" w1, OF st])
      with led log show thesis by (auto intro: pending)
    next
      case (Inr u2)
      with rest have ma: "mark_applied name w2 = (r, w')" by (simp add: bindA_run [of "forA (run_statement ddl) ?ss" w1, OF st])
      from mark_applied_effect(1) [OF ma led rows(2)] Inr full led show thesis
        by (auto intro: complete pending [of "length ?ss"])
    qed
  qed
qed

lemma apply_file_ok:
  assumes "My_applyMigrationFile ddl name sql w = (Inr u, w')" and "g_ledger (db w) = Some rows" "name \<notin> fst ` set rows"
  shows "g_ledger (db w') = Some (rows @ [(name, migrationStatusApplied)])"
proof -
  from assms(1) obtain w1 w2 where m: "mark_pending name w = (Inr (), w1)"
    and st: "forA (run_statement ddl) (splitStatements sql) w1 = (Inr (), w2)" and ma: "mark_applied name w2 = (Inr (), w')"
    by (auto simp: My_applyMigrationFile_def bindA_Inr)
  from mark_pending_effect(2) [OF m assms(2,3)] run_statements [OF st]
  have "g_ledger (db w2) = Some (rows @ [(name, migrationStatusPending)])" by simp
  from mark_applied_effect(2) [OF ma this assms(3)] show ?thesis by simp
qed

section \<open>Every file once\<close>

abbreviation migrate_file :: "'t server \<Rightarrow> mig_fs \<Rightarrow> string \<Rightarrow> ('t mig_db, unit) sql" where
  "migrate_file ddl fsys name \<equiv> bindA (liftA (readMigration fsys migrationsDir name)) (My_applyMigrationFile ddl name)"

lemma apply_next:
  assumes run: "migrate_file ddl fsys (todo fsys seed ! k) w = (r, w')"
    and at: "progress fsys seed k None (db w)" and led: "g_ledger (db w) \<noteq> None"
    and new: "distinct (todo fsys seed)" and k: "k < length (todo fsys seed)"
  shows "(\<exists>k' p. (k' = k \<or> k' = Suc k) \<and> progress fsys seed k' p (db w')) \<and>
    (r = Inr () \<longrightarrow> progress fsys seed (Suc k) None (db w') \<and> g_ledger (db w') \<noteq> None)"
proof (cases "readMigration fsys migrationsDir (todo fsys seed ! k)")
  case (Inl e)
  with run have "w' = w" "r = Inl e" by (auto simp: bindA_def tryA_def liftA_def)
  with at show ?thesis by auto
next
  case (Inr sql)
  let ?n = "todo fsys seed ! k" and ?past = "map (\<lambda>n. (n, migrationStatusApplied)) (take k (todo fsys seed))"
  from run Inr have run: "My_applyMigrationFile ddl ?n sql w = (r, w')" by (simp add: bindA_def tryA_def liftA_def)
  have ss: "stmts_of fsys ?n = splitStatements sql" using Inr by (simp add: stmts_of_def)
  have next_k: "take (Suc k) (todo fsys seed) = take k (todo fsys seed) @ [?n]" using k by (simp add: take_Suc_conv_app_nth)
  from at led have rows: "g_ledger (db w) = Some (seed @ ?past)" by (auto simp: progress_def Let_def)
  have "?n \<notin> fst ` set seed" using nth_mem [OF k] by (auto simp: todo_def split: sum.splits)
  moreover have "?n \<notin> set (take k (todo fsys seed))"
    using new k by (auto simp: in_set_conv_nth distinct_conv_nth)
  ultimately have fresh: "?n \<notin> fst ` set (seed @ ?past)" by auto
  have "(\<exists>k' p. (k' = k \<or> k' = Suc k) \<and> progress fsys seed k' p (db w'))"
    using run rows fresh
  proof (cases rule: apply_file)
    case untouched
    with at show ?thesis by auto
  next
    case (pending j)
    with at k ss have "progress fsys seed k (Some j) (db w')" by (auto simp: progress_def Let_def)
    then show ?thesis by blast
  next
    case complete
    with at k ss next_k have "progress fsys seed (Suc k) None (db w')" by (auto simp: progress_def Let_def)
    then show ?thesis by blast
  qed
  moreover have "progress fsys seed (Suc k) None (db w') \<and> g_ledger (db w') \<noteq> None" if "r = Inr ()"
  proof -
    have "g_ledger (db w') = Some ((seed @ ?past) @ [(?n, migrationStatusApplied)])"
      by (rule apply_file_ok [OF _ rows fresh]) (use run that in simp)
    moreover have "g_log (db w') = g_log (db w) @ splitStatements sql"
      using run rows fresh by (cases rule: apply_file) (use calculation in \<open>auto simp: that rows\<close>)
    ultimately show ?thesis using at k ss next_k by (auto simp: progress_def Let_def)
  qed
  ultimately show ?thesis by blast
qed

lemma apply_rest:
  assumes "forA (migrate_file ddl fsys) (drop k (todo fsys seed)) w = (r, w')"
    and "progress fsys seed k None (db w)" and "g_ledger (db w) \<noteq> None" and new: "distinct (todo fsys seed)"
  shows "\<exists>k' p. k \<le> k' \<and> progress fsys seed k' p (db w') \<and> (r = Inr () \<longrightarrow> k' = length (todo fsys seed) \<and> p = None)"
  using assms(1-3)
proof (induction "length (todo fsys seed) - k" arbitrary: k w)
  case 0
  then have "length (todo fsys seed) \<le> k" by simp
  moreover have "k \<le> length (todo fsys seed)" using 0 by (simp add: progress_def Let_def)
  ultimately show ?case using 0 by (intro exI [of _ k] exI [of _ None]) auto
next
  case (Suc n)
  then have k: "k < length (todo fsys seed)" by simp
  then have d: "drop k (todo fsys seed) = todo fsys seed ! k # drop (Suc k) (todo fsys seed)" by (simp add: Cons_nth_drop_Suc)
  obtain r1 w1 where run: "migrate_file ddl fsys (todo fsys seed ! k) w = (r1, w1)" by fastforce
  note step = apply_next [OF run Suc.prems(2,3) new k]
  show ?case
  proof (cases r1)
    case (Inl e)
    with Suc.prems(1) run have "w' = w1" "r \<noteq> Inr ()"
      by (auto simp: d bindA_run [of "migrate_file ddl fsys (todo fsys seed ! k)" w, OF run])
    with step show ?thesis by (metis le_Suc_eq order_refl)
  next
    case (Inr u)
    with Suc.prems(1) have "forA (migrate_file ddl fsys) (drop (Suc k) (todo fsys seed)) w1 = (r, w')"
      by (simp add: d bindA_run [of "migrate_file ddl fsys (todo fsys seed ! k)" w, OF run])
    moreover have "progress fsys seed (Suc k) None (db w1)" "g_ledger (db w1) \<noteq> None" using step Inr by auto
    moreover have "n = length (todo fsys seed) - Suc k" using Suc.hyps(2) by simp
    ultimately obtain k' p where "Suc k \<le> k'" "progress fsys seed k' p (db w')"
        "r = Inr () \<longrightarrow> k' = length (todo fsys seed) \<and> p = None" using Suc.hyps(1) [of "Suc k" w1] by blast
    then show ?thesis by (intro exI [of _ k'] exI [of _ p]) auto
  qed
qed

lemma forA_skip: "forA (\<lambda>x. if P x then ret () else f x) xs = forA f (filter (\<lambda>x. \<not> P x) xs)"
  by (induction xs) auto

lemma filter_not_taken: "distinct xs \<Longrightarrow> filter (\<lambda>x. x \<notin> set (take k xs)) xs = drop k xs"
proof -
  assume d: "distinct xs"
  then have "set (take k xs) \<inter> set (drop k xs) = {}" by (simp add: set_take_disj_set_drop_if_distinct)
  then have "filter (\<lambda>x. x \<notin> set (take k xs)) (drop k xs) = drop k xs" by (auto simp: filter_id_conv)
  moreover have "filter (\<lambda>x. x \<notin> set (take k xs)) (take k xs) = []" by (auto simp: filter_empty_conv)
  ultimately show ?thesis by (metis append_Nil append_take_drop_id filter_append)
qed

text \<open>The ledger after it was read: the statuses are all applied, and the files left are the rest of the list.\<close>

lemma loadAppliedMigrations_effect:
  assumes "loadAppliedMigrations w = (r, w')"
  shows "db w' = db w" and "r = Inr applied \<Longrightarrow> \<exists>rows. g_ledger (db w) = Some rows \<and> applied = map fst rows \<and>
    (\<forall>x \<in> set rows. snd x = migrationStatusApplied)"
proof -
  let ?q = "exec_stmt (\<lambda>d. (case g_ledger d of None \<Rightarrow> Inl missing_table | Some rows \<Rightarrow> Inr rows, d))"
  obtain r1 w1 where q: "?q w = (r1, w1)" by fastforce
  from exec_stmt_effect [OF q] have "db w1 = db w" "\<And>rows. r1 = Inr rows \<Longrightarrow> g_ledger (db w) = Some rows"
    by (auto split: option.splits)
  with assms show "db w' = db w" and "r = Inr applied \<Longrightarrow> \<exists>rows. g_ledger (db w) = Some rows \<and> applied = map fst rows \<and>
    (\<forall>x \<in> set rows. snd x = migrationStatusApplied)"
    by (auto simp: loadAppliedMigrations_def bindA_run [of ?q w, OF q] split: sum.splits if_splits)
qed

lemma migrate_rest:
  assumes run: "bindA loadAppliedMigrations (\<lambda>applied. bindA (liftA (migrationFilenames fsys migrationsDir)) (\<lambda>names.
      forA (\<lambda>name. if name \<in> set applied then ret () else migrate_file ddl fsys name) names)) w = (r, w')"
    and at: "progress fsys seed k p (db w)" and new: "distinct (todo fsys seed)"
  shows "\<exists>k' p'. k \<le> k' \<and> progress fsys seed k' p' (db w') \<and> (r = Inr () \<longrightarrow> k' = length (todo fsys seed) \<and> p' = None)
    \<and> (p \<noteq> None \<longrightarrow> r \<noteq> Inr () \<and> db w' = db w)"
proof -
  let ?files = "todo fsys seed"
  obtain r1 w1 where l: "loadAppliedMigrations w = (r1, w1)" by fastforce
  note l' = loadAppliedMigrations_effect [OF l]
  have stop: ?thesis if "db w' = db w" "r \<noteq> Inr ()" using at that by (intro exI [of _ k] exI [of _ p]) simp
  show ?thesis
  proof (cases "\<exists>applied names. r1 = Inr applied \<and> migrationFilenames fsys migrationsDir = Inr names")
    case False
    with run l l'(1) stop show ?thesis
      by (cases r1; cases "migrationFilenames fsys migrationsDir";
          simp add: bindA_run [of loadAppliedMigrations w, OF l]; auto simp: bindA_def tryA_def liftA_def throw_def)
  next
    case True
    then obtain applied names where r1: "r1 = Inr applied" and ns: "migrationFilenames fsys migrationsDir = Inr names" by blast
    from l'(2) [OF r1] obtain rows where rows: "g_ledger (db w) = Some rows" "applied = map fst rows"
      "\<forall>x \<in> set rows. snd x = migrationStatusApplied" by blast
    with at have p: "p = None" by (auto simp: progress_def Let_def split: option.splits)
    with at rows have "rows = seed @ map (\<lambda>n. (n, migrationStatusApplied)) (take k ?files)"
      by (auto simp: progress_def Let_def)
    with rows have "set applied = fst ` set seed \<union> set (take k ?files)" by (simp add: image_image image_Un)
    then have "filter (\<lambda>n. n \<notin> set applied) names = filter (\<lambda>n. n \<notin> set (take k ?files)) ?files"
      unfolding todo_def ns by (auto intro: filter_cong)
    then have left: "filter (\<lambda>n. n \<notin> set applied) names = drop k ?files" by (simp add: filter_not_taken [OF new])
    from run r1 ns have "forA (\<lambda>name. if name \<in> set applied then ret () else migrate_file ddl fsys name) names w1 = (r, w')"
      by (simp add: bindA_run [of loadAppliedMigrations w, OF l]) (simp add: bindA_def tryA_def liftA_def)
    then have "forA (migrate_file ddl fsys) (drop k ?files) w1 = (r, w')" by (simp add: forA_skip left)
    from apply_rest [OF this _ _ new] at l'(1) rows(1) p show ?thesis by auto
  qed
qed

lemma create_keeps_progress:
  assumes "create_schema_migrations w = (r, w')" and "progress fsys seed k p (db w)"
  shows "progress fsys seed k p (db w')" and "p \<noteq> None \<Longrightarrow> db w' = db w"
  using exec_stmt_effect(1) [OF assms(1) [unfolded create_schema_migrations_def]] assms(2)
  by (auto simp: progress_def Let_def split: option.splits)

text \<open>C25. Every migration file is executed at most once, in the order of the names, whatever fails and however
  often the migration is run. Between runs the database is always at a point \<open>k\<close> of the list of files that were
  to be applied: the first \<open>k\<close> are recorded and each of their statements was executed exactly once, in
  order, and of the others none, except those of one file recorded as pending. A run only moves forward, it succeeds
  only at the end of the list, and with a pending file it fails and changes nothing.\<close>

theorem Migrate_progress:
  assumes "progress fsys seed k p (db w)" and "distinct (todo fsys seed)" and "Migrate ddl fsys w = (r, w')"
  shows "\<exists>k' p'. k \<le> k' \<and> progress fsys seed k' p' (db w') \<and> (r = Inr () \<longrightarrow> k' = length (todo fsys seed) \<and> p' = None)
    \<and> (p \<noteq> None \<longrightarrow> r \<noteq> Inr () \<and> db w' = db w)"
proof -
  have stop: ?thesis if "progress fsys seed k p (db w')" "r \<noteq> Inr ()" "p \<noteq> None \<longrightarrow> db w' = db w"
    using that by (intro exI [of _ k] exI [of _ p]) simp
  obtain r1 w1 where c: "query (\<lambda>_. ()) w = (r1, w1)" by fastforce
  then have w1: "db w1 = db w" by (rule query_cases) auto
  obtain r2 w2 where cr: "create_schema_migrations w1 = (r2, w2)" by fastforce
  have w2: "progress fsys seed k p (db w2)" "p \<noteq> None \<longrightarrow> db w2 = db w"
    using create_keeps_progress [OF cr] assms(1) w1 by auto
  show ?thesis
  proof (cases "\<exists>u1 u2. r1 = Inr u1 \<and> r2 = Inr u2")
    case True
    with assms(3) have "bindA loadAppliedMigrations (\<lambda>applied. bindA (liftA (migrationFilenames fsys migrationsDir)) (\<lambda>names.
      forA (\<lambda>name. if name \<in> set applied then ret () else migrate_file ddl fsys name) names)) w2 = (r, w')"
      by (auto simp: Migrate_def migrateOn_def bindA_run [of "query (\<lambda>_. ())" w, OF c]
          bindA_run [of create_schema_migrations w1, OF cr])
    from migrate_rest [OF this w2(1) assms(2)] w2(2) show ?thesis by auto
  next
    case False
    with assms(3) have "w' = w1 \<and> r \<noteq> Inr () \<or> w' = w2 \<and> r \<noteq> Inr ()"
      by (cases r1) (auto simp: Migrate_def migrateOn_def bindA_run [of "query (\<lambda>_. ())" w, OF c]
          bindA_run [of create_schema_migrations w1, OF cr] split: sum.splits)
    with stop w1 w2 assms(1) show ?thesis by auto
  qed
qed

definition demo_files :: mig_fs where
  "demo_files = \<lparr>fs_ReadDir = (\<lambda>d. Some [(''b.sql'', False), (''a.sql'', False), (''old'', True)]),
     fs_ReadFile = (\<lambda>f. if f = ''migrations/a.sql'' then Some ''CREATE a; CREATE b;'' else Some ''DROP a'')\<rparr>"

definition demo_ddl :: "unit server" where
  "demo_ddl s t = (Inr (), t)"

definition demo_empty :: "fault list \<Rightarrow> unit mig_db world" where
  "demo_empty fs = \<lparr>db = \<lparr>g_ledger = None, g_schema = (), g_log = []\<rparr>, saved = None, autoinc = 1, clk = 0, snow = 0, faults = fs\<rparr>"

theorem Migrate_progress_witness:
  "\<exists>w1 w2. Migrate demo_ddl demo_files (demo_empty []) = (Inr (), w1) \<and> g_log (db w1) = [''CREATE a'', ''CREATE b'', ''DROP a'']
     \<and> snd (Migrate demo_ddl demo_files (demo_empty [NoFault, NoFault, NoFault, NoFault, NoFault, FaultBefore DriverError])) = w2
     \<and> g_log (db w2) = [''CREATE a'']
     \<and> fst (Migrate demo_ddl demo_files (w2\<lparr>faults := []\<rparr>)) \<noteq> Inr () \<and> db (snd (Migrate demo_ddl demo_files (w2\<lparr>faults := []\<rparr>))) = db w2"
proof -
  let ?fs = "[NoFault, NoFault, NoFault, NoFault, NoFault, FaultBefore DriverError]"
  let ?w2 = "snd (Migrate demo_ddl demo_files (demo_empty ?fs))" and ?run = "Migrate demo_ddl demo_files (demo_empty [])"
  have "fst ?run = Inr ()" by code_simp
  then obtain w1 where run: "?run = (Inr (), w1)" by (metis prod.collapse)
  have new: "distinct (todo demo_files [])" by code_simp
  have "progress demo_files [] 0 None (db (demo_empty []))" by code_simp
  from Migrate_progress [OF this new run] have "progress demo_files [] (length (todo demo_files [])) None (db w1)" by auto
  moreover have "concat (map (stmts_of demo_files) (todo demo_files [])) = [''CREATE a'', ''CREATE b'', ''DROP a'']" by code_simp
  ultimately have log: "g_log (db w1) = [''CREATE a'', ''CREATE b'', ''DROP a'']" by (simp add: progress_def Let_def)
  have "progress demo_files [] 0 (Some 1) (db ?w2)" by code_simp
  then have p: "progress demo_files [] 0 (Some 1) (db (?w2\<lparr>faults := []\<rparr>))" by simp
  obtain r3 w3 where run3: "Migrate demo_ddl demo_files (?w2\<lparr>faults := []\<rparr>) = (r3, w3)" by fastforce
  from Migrate_progress [OF p new run3] have "r3 \<noteq> Inr () \<and> db w3 = db ?w2" by auto
  moreover have "g_log (db ?w2) = [''CREATE a'']" by code_simp
  ultimately show ?thesis using run log run3 by (intro exI [of _ w1] exI [of _ ?w2]) simp
qed

end
