(* ===== verification/Pg_Base.thy ===== *)
theory Pg_Base
  imports Guarded_Store My_Values
begin

text \<open>
  PostgreSQL as the adapter sees it (\<open>postgres/conn.go\<close> and the driver). Statements, transactions and faults
  are those of \<open>Sql_Base\<close>, with what is different about PostgreSQL:

  \<^item> \<open>NOW()\<close> is the time the transaction began, in every statement of it;
  \<^item> an error inside a transaction aborts it: every further statement fails with code 25P02 until the rollback,
    and a commit of an aborted transaction rolls back and is reported as an error;
  \<^item> a unique violation is an error with code 23505 and the name of the constraint;
  \<^item> \<open>INSERT ... ON CONFLICT ... DO UPDATE\<close> is one statement, and an update counts the rows it matched.

  The rows of a table are the records of the MySQL theories, since both schemas have the same columns. The
  parameter \<open>menv\<close> is used for \<open>JSONB\<close> (\<open>me_json\<close>) and \<open>TIMESTAMPTZ\<close> values
  (\<open>me_time\<close>).
\<close>

record 'd pg_db =
  pg_data :: 'd
  pg_start :: time
  pg_aborted :: bool

type_synonym ('d, 'a) pgsql = "('d pg_db, 'a) sql"

definition pgUniqueViolation :: string where "pgUniqueViolation = ''23505''"

definition aborted_tx :: "'d pg_db world \<Rightarrow> bool" where
  "aborted_tx w \<longleftrightarrow> saved w \<noteq> None \<and> pg_aborted (db w)"

definition pg_now :: "'d pg_db world \<Rightarrow> time" where
  "pg_now w = (case saved w of None \<Rightarrow> snow w | Some _ \<Rightarrow> pg_start (db w))"

section \<open>Statements\<close>

text \<open>A statement of the server is not run in an aborted transaction, and aborts the transaction it fails in.\<close>

definition pg_wrap :: "('d, 'a) pgsql \<Rightarrow> ('d, 'a) pgsql" where
  "pg_wrap m w =
     (if aborted_tx w then (Inl (DbError (PgError ''25P02'' [])), drop_fault w)
      else (case m w of
          (Inr a, w') \<Rightarrow> (Inr a, w')
        | (Inl e, w') \<Rightarrow> (Inl e, if saved w = None then w' else w'\<lparr>db := (db w')\<lparr>pg_aborted := True\<rparr>\<rparr>)))"

text \<open>A statement is a function of \<open>NOW()\<close> and the contents; one that fails leaves them.\<close>

definition pg_stmt :: "(time \<Rightarrow> 'd \<Rightarrow> (db_error + 'a) \<times> 'd) \<Rightarrow> ('d, 'a) pgsql" where
  "pg_stmt f w = pg_wrap (exec_stmt (\<lambda>d. case f (pg_now w) (pg_data d) of
      (Inl e, x) \<Rightarrow> (Inl e, d) | (Inr a, x) \<Rightarrow> (Inr a, d\<lparr>pg_data := x\<rparr>))) w"

definition pg_query :: "('d \<Rightarrow> 'a) \<Rightarrow> ('d, 'a) pgsql" where
  "pg_query f = pg_stmt (\<lambda>_ d. (Inr (f d), d))"

text \<open>A missing row is noticed by the driver; the transaction goes on.\<close>

definition pg_query_row :: "('d \<Rightarrow> 'a option) \<Rightarrow> ('d, 'a) pgsql" where
  "pg_query_row f = bindA (pg_query f) (\<lambda>o'. case o' of None \<Rightarrow> throw (DbError ErrNoRows) | Some a \<Rightarrow> ret a)"

section \<open>Transactions\<close>

definition pg_begin :: "('d, unit) pgsql" where
  "pg_begin w = (case begin_tx w of
      (Inr u, w') \<Rightarrow> (Inr (), w'\<lparr>db := (db w')\<lparr>pg_start := snow w, pg_aborted := False\<rparr>\<rparr>)
    | (Inl e, w') \<Rightarrow> (Inl e, w'))"

definition pg_commit :: "('d, unit) pgsql" where
  "pg_commit w = (if aborted_tx w then (Inl (DbError TxCommitRollback), restore (drop_fault w)) else commit w)"

definition pg_own_tx :: "('d, 'a) pgsql \<Rightarrow> ('d, 'a) pgsql" where
  "pg_own_tx body =
     bindA pg_begin (\<lambda>_.
     tryA body (\<lambda>e. tryA rollback (\<lambda>_. throw e) (\<lambda>_. throw e))
       (\<lambda>a. bindA pg_commit (\<lambda>_. ret a)))"

section \<open>Rows and constraints\<close>

definition pg_check :: "'r unique_key list \<Rightarrow> 'r \<Rightarrow> 'r list \<Rightarrow> 'a \<Rightarrow> db_error + 'a" where
  "pg_check keys r rows a = (case find (clashes rows r) keys of
      Some k \<Rightarrow> Inl (PgError pgUniqueViolation (fst k)) | None \<Rightarrow> Inr a)"

definition pg_insert_row :: "'r unique_key list \<Rightarrow> 'r \<Rightarrow> 'r list \<Rightarrow> db_error + 'r list" where
  "pg_insert_row keys r rows = pg_check keys r rows (rows @ [r])"

text \<open>\<open>UPDATE\<close> of the row with a given primary key, if it meets the condition.\<close>

definition pg_update_row :: "'r unique_key list \<Rightarrow> ('r \<Rightarrow> bool) \<Rightarrow> ('r \<Rightarrow> 'r) \<Rightarrow> 'r list \<Rightarrow> db_error + nat \<times> 'r list" where
  "pg_update_row keys p f rows = (case List.extract p rows of
      None \<Rightarrow> Inr (0, rows)
    | Some (xs, x, ys) \<Rightarrow> pg_check keys (f x) (xs @ ys) (1, xs @ f x # ys))"

text \<open>\<open>INSERT ... ON CONFLICT (key) DO UPDATE SET f WHERE guard\<close>, with the number of rows affected.\<close>

definition pg_upsert_row :: "'r unique_key list \<Rightarrow> ('r \<Rightarrow> 'k) \<Rightarrow> 'r \<Rightarrow> ('r \<Rightarrow> bool) \<Rightarrow> ('r \<Rightarrow> 'r) \<Rightarrow> 'r list
    \<Rightarrow> db_error + nat \<times> 'r list" where
  "pg_upsert_row keys kf r guard f rows = (case List.extract (\<lambda>x. kf x = kf r) rows of
      None \<Rightarrow> pg_check keys r rows (1, rows @ [r])
    | Some (xs, x, ys) \<Rightarrow> if guard x then pg_check keys (f x) (xs @ ys) (1, xs @ f x # ys) else Inr (0, rows))"

text \<open>A statement that computes its rows from \<open>NOW()\<close>, after the values were converted.\<close>

definition pg_write :: "(time \<Rightarrow> 'd \<Rightarrow> db_error + 'a \<times> 'd) \<Rightarrow> ('d, 'a) pgsql" where
  "pg_write f = pg_stmt (\<lambda>now d. case f now d of Inl e \<Rightarrow> (Inl e, d) | Inr (a, d') \<Rightarrow> (Inr a, d'))"

text \<open>A query whose condition or order uses \<open>NOW()\<close>.\<close>

definition pg_query_now :: "(time \<Rightarrow> 'd \<Rightarrow> 'a) \<Rightarrow> ('d, 'a) pgsql" where
  "pg_query_now f = pg_stmt (\<lambda>now d. (Inr (f now d), d))"

text \<open>The statements on one table; the row is made from \<open>NOW()\<close> once its values are converted.\<close>

definition pg_into :: "('d, 'r) table \<Rightarrow> 'd \<Rightarrow> db_error + 'a \<times> 'r list \<Rightarrow> db_error + 'a \<times> 'd" where
  "pg_into t d x = (case x of Inl e \<Rightarrow> Inl e | Inr (a, rows) \<Rightarrow> Inr (a, tb_set t rows d))"

definition pg_insert_into :: "('d, 'r) table \<Rightarrow> (time \<Rightarrow> db_error + 'r) \<Rightarrow> ('d, unit) pgsql" where
  "pg_insert_into t mk = pg_write (\<lambda>now d. case mk now of
      Inl e \<Rightarrow> Inl e
    | Inr r \<Rightarrow> pg_into t d (map_sum id (Pair ()) (pg_insert_row (tb_keys t) r (tb_get t d))))"

definition pg_update_in :: "('d, 'r) table \<Rightarrow> ('r \<Rightarrow> bool) \<Rightarrow> (time \<Rightarrow> db_error + ('r \<Rightarrow> 'r)) \<Rightarrow> ('d, nat) pgsql" where
  "pg_update_in t p mk = pg_write (\<lambda>now d. case mk now of
      Inl e \<Rightarrow> Inl e
    | Inr f \<Rightarrow> pg_into t d (pg_update_row (tb_keys t) p f (tb_get t d)))"

definition pg_upsert_in :: "('d, 'r) table \<Rightarrow> ('r \<Rightarrow> 'k) \<Rightarrow> ('r \<Rightarrow> bool) \<Rightarrow> ('r \<Rightarrow> 'r \<Rightarrow> 'r)
    \<Rightarrow> (time \<Rightarrow> db_error + 'r) \<Rightarrow> ('d, nat) pgsql" where
  "pg_upsert_in t kf guard f mk = pg_write (\<lambda>now d. case mk now of
      Inl e \<Rightarrow> Inl e
    | Inr r \<Rightarrow> pg_into t d (pg_upsert_row (tb_keys t) kf r guard (f r) (tb_get t d)))"

text \<open>A value that is not JSON is refused with the server's own error.\<close>

definition pgInvalidText :: db_error where "pgInvalidText = PgError ''22P02'' []"

text \<open>A \<open>NULL\<close> for a column that must not be null.\<close>

definition pgNotNullViolation :: db_error where "pgNotNullViolation = PgError ''23502'' []"

definition pg_json :: "'e + 'a \<Rightarrow> db_error + 'a" where
  "pg_json x = (case x of Inl _ \<Rightarrow> Inl pgInvalidText | Inr a \<Rightarrow> Inr a)"

definition uniqueViolationOn :: "repo_error \<Rightarrow> string \<Rightarrow> bool" where
  "uniqueViolationOn err constraint = (as_db err = Some (PgError pgUniqueViolation constraint))"

section \<open>Runs without faults\<close>

lemma pg_stmt_run:
  assumes "calm w" and "\<not> aborted_tx w"
  shows "pg_stmt f w = (case f (pg_now w) (pg_data (db w)) of
      (Inl e, x) \<Rightarrow> (Inl (DbError e), if saved w = None then w else w\<lparr>db := (db w)\<lparr>pg_aborted := True\<rparr>\<rparr>)
    | (Inr a, x) \<Rightarrow> (Inr a, w\<lparr>db := (db w)\<lparr>pg_data := x\<rparr>\<rparr>))"
  using assms by (auto simp: pg_stmt_def pg_wrap_def exec_stmt_run split: prod.split sum.split)

lemma pg_query_run: "calm w \<Longrightarrow> \<not> aborted_tx w \<Longrightarrow> pg_query f w = (Inr (f (pg_data (db w))), w)"
  by (simp add: pg_query_def pg_stmt_run)

lemma pg_query_row_run: "calm w \<Longrightarrow> \<not> aborted_tx w \<Longrightarrow> pg_query_row f w =
    (case f (pg_data (db w)) of None \<Rightarrow> Inl (DbError ErrNoRows) | Some a \<Rightarrow> Inr a, w)"
  by (simp add: pg_query_row_def bindA_run [of "pg_query f" w, OF pg_query_run] ret_def throw_def split: option.split)

lemma pg_write_run: "calm w \<Longrightarrow> \<not> aborted_tx w \<Longrightarrow> pg_write f w = (case f (pg_now w) (pg_data (db w)) of
      Inl e \<Rightarrow> (Inl (DbError e), if saved w = None then w else w\<lparr>db := (db w)\<lparr>pg_aborted := True\<rparr>\<rparr>)
    | Inr (a, d) \<Rightarrow> (Inr a, w\<lparr>db := (db w)\<lparr>pg_data := d\<rparr>\<rparr>))"
  by (simp add: pg_write_def pg_stmt_run split: sum.split prod.split)

lemma pg_query_now_run: "calm w \<Longrightarrow> \<not> aborted_tx w \<Longrightarrow>
    pg_query_now f w = (Inr (f (pg_now w) (pg_data (db w))), w)"
  by (simp add: pg_query_now_def pg_stmt_run)

lemma pg_json_simps [simp]: "pg_json (Inr a) = Inr a" "pg_json (Inl e) = Inl pgInvalidText" "pg_json x = Inr a \<longleftrightarrow> x = Inr a"
  by (simp_all add: pg_json_def split: sum.split)

lemma pg_into_simps [simp]: "pg_into t d (Inl e) = Inl e" "pg_into t d (Inr (a, rows)) = Inr (a, tb_set t rows d)"
  by (simp_all add: pg_into_def)

lemma pg_into_Inr: "pg_into t d x = Inr (a, d') \<longleftrightarrow> (\<exists>rows. x = Inr (a, rows) \<and> d' = tb_set t rows d)"
  by (auto simp: pg_into_def split: sum.splits prod.splits)

text \<open>Rows decoded one after the other: the first error, or all values.\<close>

primrec decode_all :: "('r \<Rightarrow> 'e + 'a) \<Rightarrow> 'r list \<Rightarrow> 'e + 'a list" where
  "decode_all f [] = Inr []"
| "decode_all f (r # rs) = (case f r of Inl e \<Rightarrow> Inl e | Inr a \<Rightarrow> map_sum id (Cons a) (decode_all f rs))"

lemma mapA_decode: "mapA (\<lambda>r. liftA (f r)) rows w = (decode_all f rows, w)"
  by (induction rows) (auto simp: bindA_def tryA_def liftA_def ret_def throw_def split: sum.splits)

lemma pg_now_quiet [simp]: "quiet w \<Longrightarrow> pg_now w = snow w"
  by (simp add: pg_now_def quiet_def)

lemma quiet_not_aborted [simp]: "quiet w \<Longrightarrow> \<not> aborted_tx w" "saved w = None \<Longrightarrow> \<not> aborted_tx w"
  by (simp_all add: quiet_def aborted_tx_def)

text \<open>In an aborted transaction no statement runs.\<close>

lemma pg_stmt_aborted: "aborted_tx w \<Longrightarrow> pg_stmt f w = (Inl (DbError (PgError ''25P02'' [])), drop_fault w)"
  by (simp add: pg_stmt_def pg_wrap_def)

lemma pg_query_row_aborted: "aborted_tx w \<Longrightarrow> pg_query_row f w = (Inl (DbError (PgError ''25P02'' [])), drop_fault w)"
  by (simp add: pg_query_row_def pg_query_def bindA_def tryA_def pg_stmt_aborted throw_def)

section \<open>Whatever happens to a statement\<close>

text \<open>A statement may fail before or after it took effect; in a transaction a failure aborts it.\<close>

lemma exec_frame:
  assumes "exec_stmt f w = (r, w')"
  shows "saved w' = saved w" "clk w' = clk w" "snow w' = snow w"
  using assms by (cases "f (db w)"; auto simp: exec_stmt_def stmt_def split: fault.splits sum.splits)+

lemma pg_stmt_cases:
  assumes run: "pg_stmt f w = (r, w')"
  obtains (ok) a d where "r = Inr a" "f (pg_now w) (pg_data (db w)) = (Inr a, d)" "\<not> aborted_tx w"
      "db w' = (db w)\<lparr>pg_data := d\<rparr>" "saved w' = saved w" "clk w' = clk w" "snow w' = snow w"
  | (failed) e where "r = Inl (DbError e)" "saved w \<noteq> None \<longrightarrow> aborted_tx w'" "saved w' = saved w" "clk w' = clk w" "snow w' = snow w"
      "pg_start (db w') = pg_start (db w)" "saved w = None \<longrightarrow> pg_aborted (db w') = pg_aborted (db w)"
      "pg_data (db w') = pg_data (db w) \<or> (\<exists>a. f (pg_now w) (pg_data (db w)) = (Inr a, pg_data (db w')))"
proof (cases "aborted_tx w")
  case True
  with run show thesis by (intro failed) (auto simp: pg_stmt_def pg_wrap_def aborted_tx_def)
next
  case False
  let ?g = "\<lambda>d. case f (pg_now w) (pg_data d) of (Inl e, x) \<Rightarrow> (Inl e, d) | (Inr a, x) \<Rightarrow> (Inr a, d\<lparr>pg_data := x\<rparr>)"
  obtain r1 w1 where e: "exec_stmt ?g w = (r1, w1)" by fastforce
  note fr = exec_frame [OF e]
  show thesis
  proof (cases r1)
    case (Inr a)
    with run e False have rw: "r = Inr a" "w' = w1" by (simp_all add: pg_stmt_def pg_wrap_def)
    from exec_stmt_effect(2) [OF e Inr] obtain d where "f (pg_now w) (pg_data (db w)) = (Inr a, d)" "db w1 = (db w)\<lparr>pg_data := d\<rparr>"
      by (auto split: prod.splits sum.splits)
    with rw fr False show thesis by (intro ok) auto
  next
    case (Inl e1)
    with run e False have rw: "r = Inl e1"
      "w' = (if saved w = None then w1 else w1\<lparr>db := (db w1)\<lparr>pg_aborted := True\<rparr>\<rparr>)" by (simp_all add: pg_stmt_def pg_wrap_def)
    have "\<exists>x. e1 = DbError x" using e Inl unfolding exec_stmt_def by (auto elim: stmt_cases)
    moreover have "pg_data (db w1) = pg_data (db w) \<or> (\<exists>a. f (pg_now w) (pg_data (db w)) = (Inr a, pg_data (db w1)))"
      "pg_start (db w1) = pg_start (db w)" "pg_aborted (db w1) = pg_aborted (db w)"
      using exec_stmt_effect(1) [OF e] by (auto split: prod.splits sum.splits)
    ultimately show thesis using rw fr by (elim exE, intro failed) (auto simp: aborted_tx_def)
  qed
qed

text \<open>Actions inside a transaction: they leave its begin, the clocks and the saved contents, and unless they fail
  it is as aborted as before.\<close>

named_theorems pg_sane_intros \<open>composition rules for actions inside a PostgreSQL transaction\<close>

definition pg_sane :: "('d, 'a) pgsql \<Rightarrow> bool" where
  "pg_sane m \<longleftrightarrow> (\<forall>w. let (r, w') = m w in saved w' = saved w \<and> clk w' = clk w \<and> snow w' = snow w \<and>
     pg_start (db w') = pg_start (db w) \<and> autoinc w \<le> autoinc w' \<and> (\<not> isl r \<longrightarrow> pg_aborted (db w') = pg_aborted (db w)))"

lemma pg_saneD:
  assumes "pg_sane m" and "m w = (r, w')"
  shows "saved w' = saved w" "clk w' = clk w" "snow w' = snow w" "pg_start (db w') = pg_start (db w)"
    "autoinc w \<le> autoinc w'" "\<not> isl r \<Longrightarrow> pg_aborted (db w') = pg_aborted (db w)"
  using assms unfolding pg_sane_def by (auto simp: Let_def split: prod.splits)

lemma pg_saneI:
  assumes "\<And>w r w'. m w = (r, w') \<Longrightarrow> saved w' = saved w \<and> clk w' = clk w \<and> snow w' = snow w \<and>
     pg_start (db w') = pg_start (db w) \<and> autoinc w \<le> autoinc w' \<and> (\<not> isl r \<longrightarrow> pg_aborted (db w') = pg_aborted (db w))"
  shows "pg_sane m"
  using assms unfolding pg_sane_def by (auto simp: Let_def split: prod.splits)

lemma pg_sane_pure [pg_sane_intros]: "pg_sane (ret a)" "pg_sane (throw e)" "pg_sane (liftA x)" "pg_sane clock_now"
  by (auto intro!: pg_saneI simp: ret_def throw_def liftA_def clock_now_def)

lemma pg_sane_bindA [pg_sane_intros]:
  assumes m: "pg_sane m" and f: "\<And>a. pg_sane (f a)"
  shows "pg_sane (bindA m f)"
proof (rule pg_saneI)
  fix w r w' assume run: "bindA m f w = (r, w')"
  obtain r1 w1 where m1: "m w = (r1, w1)" by fastforce
  note 1 = pg_saneD [OF m m1]
  show "saved w' = saved w \<and> clk w' = clk w \<and> snow w' = snow w \<and> pg_start (db w') = pg_start (db w) \<and>
    autoinc w \<le> autoinc w' \<and> (\<not> isl r \<longrightarrow> pg_aborted (db w') = pg_aborted (db w))"
  proof (cases r1)
    case (Inl e)
    with run m1 1 show ?thesis by (auto simp: bindA_run [of m w, OF m1])
  next
    case (Inr a)
    with run have "f a w1 = (r, w')" by (simp add: bindA_run [of m w, OF m1])
    from pg_saneD [OF f this] 1 Inr show ?thesis by auto
  qed
qed

lemma pg_sane_mapErrA [pg_sane_intros]: "pg_sane m \<Longrightarrow> pg_sane (mapErrA g m)"
  by (rule pg_saneI) (auto simp: mapErrA_def tryA_def throw_def ret_def dest: pg_saneD split: prod.splits sum.splits)

lemma pg_sane_forA [pg_sane_intros]: "(\<And>x. pg_sane (f x)) \<Longrightarrow> pg_sane (forA f xs)"
  by (induction xs) (auto intro!: pg_sane_intros)

lemma pg_sane_mapA [pg_sane_intros]: "(\<And>x. pg_sane (f x)) \<Longrightarrow> pg_sane (mapA f xs)"
  by (induction xs) (auto intro!: pg_sane_intros)

lemma pg_sane_if [pg_sane_intros]: "pg_sane m \<Longrightarrow> pg_sane m' \<Longrightarrow> pg_sane (if b then m else m')"
  by simp

lemma pg_sane_option [pg_sane_intros]:
  "pg_sane m \<Longrightarrow> (\<And>x. pg_sane (f x)) \<Longrightarrow> pg_sane (case x of None \<Rightarrow> m | Some y \<Rightarrow> f y)"
  by (simp split: option.split)

lemma pg_sane_prod [pg_sane_intros]: "(\<And>x y. pg_sane (f x y)) \<Longrightarrow> pg_sane (case p of (x, y) \<Rightarrow> f x y)"
  by (simp split: prod.split)

lemma pg_sane_wrap [pg_sane_intros]:
  assumes "sane m" and "\<And>w. snow (snd (m w)) = snow w" and "\<And>w. pg_start (db (snd (m w))) = pg_start (db w)"
    and "\<And>w. pg_aborted (db (snd (m w))) = pg_aborted (db w)"
  shows "pg_sane (pg_wrap m)"
proof (rule pg_saneI)
  fix w r w' assume run: "pg_wrap m w = (r, w')"
  obtain r1 w1 where m1: "m w = (r1, w1)" by fastforce
  have "snow w1 = snow w" "pg_start (db w1) = pg_start (db w)" "pg_aborted (db w1) = pg_aborted (db w)"
    using assms(2-4) [of w] m1 by simp_all
  with saneD [OF assms(1) m1] run m1
  show "saved w' = saved w \<and> clk w' = clk w \<and> snow w' = snow w \<and> pg_start (db w') = pg_start (db w) \<and>
    autoinc w \<le> autoinc w' \<and> (\<not> isl r \<longrightarrow> pg_aborted (db w') = pg_aborted (db w))"
    by (auto simp: pg_wrap_def split: if_splits sum.splits)
qed

lemma pg_sane_stmt [pg_sane_intros]: "pg_sane (pg_stmt f)"
proof (rule pg_saneI)
  fix w r w' assume run: "pg_stmt f w = (r, w')"
  have "autoinc w \<le> autoinc w'"
    using run by (auto simp: pg_stmt_def pg_wrap_def exec_stmt_def stmt_def split: if_splits prod.splits sum.splits fault.splits)
  with run show "saved w' = saved w \<and> clk w' = clk w \<and> snow w' = snow w \<and> pg_start (db w') = pg_start (db w) \<and>
    autoinc w \<le> autoinc w' \<and> (\<not> isl r \<longrightarrow> pg_aborted (db w') = pg_aborted (db w))"
    by (cases rule: pg_stmt_cases) auto
qed

lemma pg_sane_statements [pg_sane_intros]: "pg_sane (pg_query f)" "pg_sane (pg_query_row g)" "pg_sane (pg_write h)"
  "pg_sane (pg_query_now q)" "pg_sane (pg_insert_into t mk)" "pg_sane (pg_update_in t p mf)" "pg_sane (pg_upsert_in t kf gd ff mk)"
  unfolding pg_query_row_def pg_query_def pg_query_now_def pg_insert_into_def pg_update_in_def pg_upsert_in_def pg_write_def
  by (intro pg_sane_intros)+

lemma pg_write_Inr:
  assumes "pg_write f w = (Inr a, w')"
  shows "\<not> aborted_tx w \<and> (\<exists>d. f (pg_now w) (pg_data (db w)) = Inr (a, d) \<and> db w' = (db w)\<lparr>pg_data := d\<rparr>) \<and>
    pg_now w' = pg_now w \<and> saved w' = saved w"
  using assms unfolding pg_write_def
  by (cases rule: pg_stmt_cases) (auto simp: pg_now_def split: sum.splits prod.splits option.splits)

text \<open>An operation in its own transaction is all or nothing, as for MySQL.\<close>

lemma pg_own_tx_cases:
  assumes run: "pg_own_tx body w = (r, w')" and tx: "saved w = None" and body: "pg_sane body"
  obtains (committed) a w1 w2 where "r = Inr a" "body w1 = (Inr a, w2)" "pg_data (db w1) = pg_data (db w)"
      "pg_start (db w1) = snow w" "\<not> aborted_tx w1" "saved w1 = Some (db w)" "clk w1 = clk w" "autoinc w1 = autoinc w"
      "db w' = db w2" "autoinc w' = autoinc w2" "saved w' = None"
  | (failed) e where "r = Inl e" "db w' = db w" "saved w' = None" "autoinc w \<le> autoinc w'"
  | (unanswered) e a w1 w2 where "r = Inl (DbError e)" "body w1 = (Inr a, w2)" "pg_data (db w1) = pg_data (db w)"
      "pg_start (db w1) = snow w" "\<not> aborted_tx w1" "saved w1 = Some (db w)" "clk w1 = clk w" "autoinc w1 = autoinc w"
      "db w' = db w2" "autoinc w' = autoinc w2" "saved w' = None"
proof -
  obtain rb w1 where b: "pg_begin w = (rb, w1)" by fastforce
  show thesis
  proof (cases rb)
    case (Inl e)
    with run b tx show thesis
      by (intro failed [of e]) (auto simp: pg_own_tx_def bindA_run [of pg_begin] pg_begin_def begin_tx_def
          split: fault.splits)
  next
    case (Inr u)
    with b have w1: "pg_data (db w1) = pg_data (db w)" "pg_start (db w1) = snow w" "pg_aborted (db w1) = False"
        "autoinc w1 = autoinc w" "clk w1 = clk w" "saved w1 = Some (db w)"
      by (auto simp: pg_begin_def begin_tx_def split: fault.splits)
    then have na: "\<not> aborted_tx w1" by (simp add: aborted_tx_def)
    from run b Inr have k: "tryA body (\<lambda>e. tryA rollback (\<lambda>_. throw e) (\<lambda>_. throw e))
        (\<lambda>a. bindA pg_commit (\<lambda>_. ret a)) w1 = (r, w')"
      by (simp add: pg_own_tx_def bindA_run [of pg_begin])
    then show thesis
    proof (cases rule: tryA_cases)
      case (err e w2)
      from pg_saneD [OF body err(1)] w1 have "saved w2 = Some (db w)" "autoinc w \<le> autoinc w2" by simp_all
      with err(2) show thesis
        by (intro failed [of e]) (auto simp: rollback_def tryA_def throw_def split: fault.splits)
    next
      case (ok a w2)
      from pg_saneD [OF body ok(1)] w1 have s2: "saved w2 = Some (db w)" "autoinc w \<le> autoinc w2" "\<not> aborted_tx w2"
        by (simp_all add: aborted_tx_def)
      obtain rc w3 where c: "pg_commit w2 = (rc, w3)" by fastforce
      with ok(2) have r: "w3 = w'" "r = (case rc of Inl e \<Rightarrow> Inl e | Inr _ \<Rightarrow> Inr a)"
        by (auto simp: bindA_run [of pg_commit] ret_def split: sum.splits)
      from c s2(3) have c': "commit w2 = (rc, w3)" by (simp add: pg_commit_def)
      show thesis
      proof (cases "next_fault w2")
        case NoFault
        with c' r ok(1) w1 na show thesis by (intro committed [of a w1 w2]) (auto simp: commit_def)
      next
        case (FaultBefore e)
        with c' r s2 show thesis by (intro failed [of "DbError e"]) (auto simp: commit_def)
      next
        case (FaultAfter e)
        with c' r ok(1) w1 na show thesis by (intro unanswered [of e w1 a w2]) (auto simp: commit_def)
      qed
    qed
  qed
qed

lemma calm_pg [keeps_intros]: "keeps calm (pg_stmt f)" "keeps calm (pg_query q)" "keeps calm (pg_query_row g)" "keeps calm (pg_write h)"
  "keeps calm (pg_query_now q')" "keeps calm (pg_insert_into t mk)" "keeps calm (pg_update_in t p mf)" "keeps calm (pg_upsert_in t kf gd ff mk)"
proof -
  have s: "keeps calm (pg_stmt f)" for f :: "time \<Rightarrow> 'x \<Rightarrow> (db_error + 'y) \<times> 'x"
    by (auto simp: keeps_def pg_stmt_def pg_wrap_def exec_stmt_run drop_fault_def split: sum.split prod.split)
  show "keeps calm (pg_stmt f)" "keeps calm (pg_query q)" "keeps calm (pg_query_row g)" "keeps calm (pg_write h)"
    "keeps calm (pg_query_now q')" "keeps calm (pg_insert_into t mk)" "keeps calm (pg_update_in t p mf)" "keeps calm (pg_upsert_in t kf gd ff mk)"
    unfolding pg_query_row_def pg_query_def pg_query_now_def pg_insert_into_def pg_update_in_def pg_upsert_in_def pg_write_def
    by (intro keeps_intros s)+
qed

text \<open>In a quiet world the outcome is that of the body.\<close>

lemma pg_own_tx_quiet:
  assumes q: "quiet w" and run: "pg_own_tx body w = (r, w')" and body: "pg_sane body" "keeps calm body"
  obtains (committed) a w1 w2 where "r = Inr a" "body w1 = (Inr a, w2)" "pg_data (db w1) = pg_data (db w)" "pg_now w1 = snow w"
      "\<not> aborted_tx w1" "saved w1 \<noteq> None" "calm w1" "clk w1 = clk w" "db w' = db w2" "quiet w'"
  | (failed) e where "r = Inl e" "db w' = db w" "quiet w'"
proof -
  have c: "calm w" "saved w = None" using q by (simp_all add: quiet_def)
  let ?w1 = "w\<lparr>saved := Some (db w), db := (db w)\<lparr>pg_start := snow w, pg_aborted := False\<rparr>\<rparr>"
  have b: "pg_begin w = (Inr (), ?w1)" using c by (simp add: pg_begin_def begin_tx_run)
  obtain r2 w2 where bd: "body ?w1 = (r2, w2)" by fastforce
  have c2: "calm w2" by (rule keeps_run [OF body(2) _ bd]) (use c in simp)
  note s2 = pg_saneD [OF body(1) bd]
  show thesis
  proof (cases r2)
    case (Inl e)
    have "pg_own_tx body w = (Inl e, restore w2)"
      by (simp add: pg_own_tx_def bindA_run [of pg_begin w, OF b] tryA_run [of body ?w1, OF bd] Inl
          tryA_run [of rollback w2, OF rollback_run [OF c2]] throw_def)
    with run s2 c2 show thesis by (intro failed [of e]) (auto simp: quiet_def restore_def)
  next
    case (Inr a)
    with s2 have na: "\<not> aborted_tx w2" by (simp add: aborted_tx_def)
    have cm: "pg_commit w2 = (Inr (), w2\<lparr>saved := None\<rparr>)" using na c2 by (simp add: pg_commit_def commit_run)
    have "pg_own_tx body w = (Inr a, w2\<lparr>saved := None\<rparr>)"
      by (simp add: pg_own_tx_def bindA_run [of pg_begin w, OF b] tryA_run [of body ?w1, OF bd] Inr
          bindA_run [of pg_commit w2, OF cm] ret_def)
    with run bd Inr c c2 show thesis
      by (intro committed [of a ?w1 w2]) (auto simp: quiet_def pg_now_def aborted_tx_def)
  qed
qed

section \<open>Rows written\<close>

lemma pg_check_Inr: "pg_check keys r rows a = Inr b \<longleftrightarrow> b = a \<and> (\<forall>k \<in> set keys. \<not> clashes rows r k)"
  using find_None_iff [of "clashes rows r" keys] by (cases "find (clashes rows r) keys") (auto simp: pg_check_def)

lemma pg_upsert_cases:
  assumes "pg_upsert_row keys kf r guard f rows = Inr (n, rows')"
  obtains (inserted) "n = 1" "kf r \<notin> kf ` set rows" "rows' = rows @ [r]" "\<forall>k \<in> set keys. \<not> clashes rows r k"
  | (updated) xs x ys where "n = 1" "rows = xs @ x # ys" "kf x = kf r" "\<forall>z \<in> set xs. kf z \<noteq> kf r" "guard x"
      "rows' = xs @ f x # ys"
  | (skipped) x where "n = 0" "rows' = rows" "x \<in> set rows" "kf x = kf r" "\<not> guard x"
proof (cases "List.extract (\<lambda>x. kf x = kf r) rows")
  case None
  with assms show thesis
    by (intro inserted) (auto simp: pg_upsert_row_def pg_check_Inr extract_None_iff)
next
  case (Some t3)
  then obtain xs x ys where e: "List.extract (\<lambda>x. kf x = kf r) rows = Some (xs, x, ys)" by (cases t3) auto
  then have d: "rows = xs @ x # ys" "kf x = kf r" "\<forall>z \<in> set xs. kf z \<noteq> kf r" by (auto simp: extract_Some_iff)
  show thesis
  proof (cases "guard x")
    case True
    with assms e d show thesis by (intro updated [of xs x ys]) (auto simp: pg_upsert_row_def pg_check_Inr)
  next
    case False
    with assms e d show thesis by (intro skipped [of x]) (auto simp: pg_upsert_row_def)
  qed
qed

lemma pg_update_cases:
  assumes "pg_update_row keys p f rows = Inr (n, rows')"
  obtains (updated) xs x ys where "n = 1" "rows = xs @ x # ys" "p x" "\<forall>z \<in> set xs. \<not> p z" "rows' = xs @ f x # ys"
  | (missed) "n = 0" "rows' = rows" "\<forall>x \<in> set rows. \<not> p x"
proof (cases "List.extract p rows")
  case None
  with assms show thesis by (intro missed) (auto simp: pg_update_row_def extract_None_iff)
next
  case (Some t3)
  then obtain xs x ys where e: "List.extract p rows = Some (xs, x, ys)" by (cases t3) auto
  then have "rows = xs @ x # ys" "p x" "\<forall>z \<in> set xs. \<not> p z" by (auto simp: extract_Some_iff)
  with assms e show thesis by (intro updated [of xs x ys]) (auto simp: pg_update_row_def pg_check_Inr)
qed

lemma pg_insert_Inr: "pg_insert_row keys r rows = Inr rows' \<longleftrightarrow> rows' = rows @ [r] \<and> (\<forall>k \<in> set keys. \<not> clashes rows r k)"
  by (simp add: pg_insert_row_def pg_check_Inr)

section \<open>A table guarded by a version column\<close>

definition pg_versions :: "('d \<Rightarrow> 'r list) \<Rightarrow> ('r \<Rightarrow> string) \<Rightarrow> ('r \<Rightarrow> int) \<Rightarrow> 'd pg_db \<Rightarrow> string \<Rightarrow> int option" where
  "pg_versions g kf vf d k = map_option vf (lookup_row kf k (g (pg_data d)))"

definition pg_keyed :: "('d \<Rightarrow> 'r list) \<Rightarrow> ('r \<Rightarrow> string) \<Rightarrow> 'd pg_db \<Rightarrow> bool" where
  "pg_keyed g kf d \<longleftrightarrow> distinct (map kf (g (pg_data d)))"

text \<open>What a guarded save may do: insert its row, replace the row it loaded, or change nothing.\<close>

definition rows_saved :: "('r \<Rightarrow> string) \<Rightarrow> ('r \<Rightarrow> int) \<Rightarrow> string \<Rightarrow> int \<Rightarrow> int \<Rightarrow> 'r list \<Rightarrow> 'r list \<Rightarrow> bool" where
  "rows_saved kf vf k l v rows rows' \<longleftrightarrow>
     (\<exists>row. kf row = k \<and> vf row = v \<and> k \<notin> kf ` set rows \<and> rows' = rows @ [row]) \<or>
     (\<exists>xs x ys y. rows = xs @ x # ys \<and> kf x = k \<and> vf x = l \<and> kf y = k \<and> vf y = v \<and> rows' = xs @ y # ys)"

definition pg_outcome :: "('d \<Rightarrow> 'r list) \<Rightarrow> ('r \<Rightarrow> string) \<Rightarrow> ('r \<Rightarrow> int) \<Rightarrow> string \<Rightarrow> int \<Rightarrow> int
    \<Rightarrow> 'd pg_db world \<Rightarrow> repo_error + int \<Rightarrow> 'd pg_db world \<Rightarrow> bool" where
  "pg_outcome g kf vf k l v w r w' \<longleftrightarrow> quiet w' \<and>
     (r = Inr v \<and> rows_saved kf vf k l v (g (pg_data (db w))) (g (pg_data (db w'))) \<or> isl r \<and> db w' = db w)"

lemma rows_saved_current:
  assumes "rows_saved kf vf k l v rows rows'" and "distinct (map kf rows)"
  shows "distinct (map kf rows') \<and> map_option vf (lookup_row kf k rows) \<in> {None, Some l} \<and>
    map_option vf (lookup_row kf k rows') = Some v \<and>
    (\<forall>k'. k' \<noteq> k \<longrightarrow> lookup_row kf k' rows' = lookup_row kf k' rows)"
  using assms(1) unfolding rows_saved_def
proof (elim disjE exE conjE)
  fix row assume r: "kf row = k" "vf row = v" "k \<notin> kf ` set rows" "rows' = rows @ [row]"
  then have "lookup_row kf k rows = None" by (simp add: lookup_row_None)
  moreover have "lookup_row kf k' rows' = (if k' = k then Some row else lookup_row kf k' rows)" for k'
    using r by (simp add: lookup_row_snoc)
  ultimately show ?thesis using r assms(2) by auto
next
  fix xs x ys y assume r: "rows = xs @ x # ys" "kf x = k" "vf x = l" "kf y = k" "vf y = v" "rows' = xs @ y # ys"
  then have d: "distinct (map kf (xs @ x # ys))" using assms(2) by simp
  then have "lookup_row kf k' rows' = (if k' = k then Some y else lookup_row kf k' rows)" for k'
    using lookup_row_mid [OF d, of y] r by simp
  moreover have "lookup_row kf k rows = Some x" using lookup_row_here [OF d] r by simp
  ultimately show ?thesis using d r by auto
qed

lemma pg_guarded_storeI:
  assumes out: "\<And>e l w r w'. quiet w \<Longrightarrow> save e l w = (r, w') \<Longrightarrow> pg_outcome g kf vf (key e) l (version e) w r w'"
  shows "guarded_store save key version (pg_versions g kf vf) (pg_keyed g kf)"
proof
  fix w e l v w' x
  assume q: "quiet w" and wf: "pg_keyed g kf (db w)"
  show "quiet w' \<and> db w' = db w" if "save e l w = (Inl x, w')"
    using out [OF q that] by (auto simp: pg_outcome_def)
  assume run: "save e l w = (Inr v, w')"
  from out [OF q run] have o': "quiet w'" "v = version e"
      "rows_saved kf vf (key e) l (version e) (g (pg_data (db w))) (g (pg_data (db w')))" by (auto simp: pg_outcome_def)
  from rows_saved_current [OF o'(3)] wf o'(1,2)
  show "quiet w' \<and> pg_keyed g kf (db w') \<and> v = version e \<and>
      pg_versions g kf vf (db w) (key e) \<in> {None, Some l} \<and>
      pg_versions g kf vf (db w') (key e) = Some (version e) \<and>
      (\<forall>k. k \<noteq> key e \<longrightarrow> pg_versions g kf vf (db w') k = pg_versions g kf vf (db w) k)"
    by (auto simp: pg_versions_def pg_keyed_def)
qed

text \<open>The shape of the guarded saves: a write, whose failures are handled without one, and a conflict when it
  affected no row.\<close>

lemma rows_saved_upsert:
  assumes "pg_upsert_row keys kf row (\<lambda>x. vf x = l) f rows = Inr (n, rows')"
    and "kf row = k" and "vf row = v" and "\<And>x. kf (f x) = kf x" and "\<And>x. vf (f x) = v"
  shows "n = 0 \<and> rows' = rows \<or> n \<noteq> 0 \<and> rows_saved kf vf k l v rows rows'"
  using assms(1)
proof (cases rule: pg_upsert_cases)
  case inserted
  with assms show ?thesis unfolding rows_saved_def by auto
next
  case (updated xs x ys)
  with assms have "rows_saved kf vf k l v rows rows'" unfolding rows_saved_def
    by (intro disjI2 exI [of _ xs] exI [of _ x] exI [of _ ys] exI [of _ "f x"]) simp
  with updated show ?thesis by simp
qed simp

lemma rows_saved_update:
  assumes "pg_update_row keys (\<lambda>x. kf x = k \<and> vf x = l) f rows = Inr (n, rows')"
    and "\<And>x. kf (f x) = kf x" and "\<And>x. vf (f x) = v"
  shows "n = 0 \<and> rows' = rows \<or> n \<noteq> 0 \<and> rows_saved kf vf k l v rows rows'"
  using assms(1)
proof (cases rule: pg_update_cases)
  case (updated xs x ys)
  with assms have "rows_saved kf vf k l v rows rows'" unfolding rows_saved_def
    by (intro disjI2 exI [of _ xs] exI [of _ x] exI [of _ ys] exI [of _ "f x"]) simp
  with updated show ?thesis by simp
qed simp

lemma pg_guarded_write:
  assumes q: "quiet w" and run: "tryA (pg_write F) h (\<lambda>n. if n = (0 :: nat) then throw x else ret v) w = (r, w')"
    and h: "\<And>e. \<exists>e'. h e w = (Inl e', w)"
    and F: "\<And>now d n d'. F now d = Inr (n, d') \<Longrightarrow> n = 0 \<and> d' = d \<or> n \<noteq> 0 \<and> rows_saved kf vf k l v (g d) (g d')"
  shows "pg_outcome g kf vf k l v w r w'"
proof -
  have c: "calm w" "saved w = None" using q by (simp_all add: quiet_def)
  show ?thesis
  proof (cases "F (pg_now w) (pg_data (db w))")
    case (Inl e)
    then have "pg_write F w = (Inl (DbError e), w)" using c by (simp add: pg_write_run)
    with run h [of "DbError e"] q show ?thesis by (auto simp: tryA_def pg_outcome_def)
  next
    case (Inr p)
    then obtain n d' where F': "F (pg_now w) (pg_data (db w)) = Inr (n, d')" by (cases p) auto
    then have "pg_write F w = (Inr n, w\<lparr>db := (db w)\<lparr>pg_data := d'\<rparr>\<rparr>)" using c by (simp add: pg_write_run)
    with run F [OF F'] q show ?thesis by (auto simp: tryA_def pg_outcome_def quiet_def throw_def ret_def split: if_splits)
  qed
qed

lemma pg_guarded_in:
  assumes q: "quiet w" and t: "lens t"
    and run: "bindA (pg_write (\<lambda>now d. case mk now of Inl e \<Rightarrow> Inl e | Inr x \<Rightarrow> pg_into t d (G x (tb_get t d))))
        (\<lambda>n. if n = (0 :: nat) then throw x else ret v) w = (r, w')"
    and G: "\<And>now x rows n rows'. mk now = Inr x \<Longrightarrow> G x rows = Inr (n, rows') \<Longrightarrow>
        n = 0 \<and> rows' = rows \<or> n \<noteq> 0 \<and> rows_saved kf vf k l v rows rows'"
  shows "pg_outcome (tb_get t) kf vf k l v w r w'"
  using q run [unfolded bindA_def]
proof (rule pg_guarded_write)
  show "\<exists>e'. throw e w = (Inl e', w)" for e by (simp add: throw_def)
  fix now d n d'
  assume "(case mk now of Inl e \<Rightarrow> Inl e | Inr x \<Rightarrow> pg_into t d (G x (tb_get t d))) = Inr (n, d')"
  then obtain x rows where x: "mk now = Inr x" "G x (tb_get t d) = Inr (n, rows)" "d' = tb_set t rows d"
    by (auto simp: pg_into_Inr split: sum.splits)
  from G [OF x(1,2)] t x(3) show "n = 0 \<and> d' = d \<or> n \<noteq> 0 \<and> rows_saved kf vf k l v (tb_get t d) (tb_get t d')"
    by (auto simp: lens_def)
qed

section \<open>Comparing the adapters\<close>

text \<open>The same outcome, up to the error with which the server refuses a statement.\<close>

definition same_result :: "repo_error + 'a \<Rightarrow> repo_error + 'a \<Rightarrow> bool" where
  "same_result r r' \<longleftrightarrow> r = r' \<or> (\<exists>c k n m. r = Inl (DbError (PgError c k)) \<and> r' = Inl (DbError (MySQLError n m)))"

lemma unique_mid:
  assumes "unique_keys keys (xs @ x # ys)" and "\<forall>k \<in> set keys. snd k y = snd k x"
  shows "\<forall>k \<in> set keys. \<not> clashes (xs @ ys) y k"
proof
  fix k assume k: "k \<in> set keys"
  then have "distinct (filter (\<lambda>v. v \<noteq> None) (map (snd k) (xs @ x # ys)))" using assms(1) by (simp add: unique_keys_def)
  then have "snd k x \<noteq> None \<Longrightarrow> snd k x \<notin> snd k ` set (xs @ ys)" by auto
  then show "\<not> clashes (xs @ ys) y k" using assms(2) k unfolding clashes_def by (metis imageI)
qed

section \<open>A quiet world, for examples\<close>

definition pg_demo :: "time \<Rightarrow> 'd \<Rightarrow> 'd pg_db world" where
  "pg_demo now d = \<lparr>db = \<lparr>pg_data = d, pg_start = 0, pg_aborted = False\<rparr>, saved = None, autoinc = 1, clk = now, snow = now,
     faults = []\<rparr>"

lemma pg_demo_quiet [simp]: "quiet (pg_demo now d)" "pg_data (db (pg_demo now d)) = d" "snow (pg_demo now d) = now"
  by (simp_all add: pg_demo_def quiet_def)

end
