(* ===== verification/Pg_Payment_Repo.thy ===== *)
theory Pg_Payment_Repo
  imports Pg_Base My_Payment_Repo
begin

text \<open>
  The payment repository of \<open>postgres/payment_repo.go\<close>: one guarded upsert instead of the insert and update of
  the MySQL adapter, with the same idempotency-key sentinel. It is a guarded store, it agrees with the MySQL
  repository where neither adapter changes fields the other keeps, and inside a transaction it cannot name the
  holder of a taken key.
\<close>

definition paymentsIdempotencyKeyConstraint :: string where
  "paymentsIdempotencyKeyConstraint = ''payments_idempotency_key_key''"

definition pg_payment_keys :: "payment_row unique_key list" where
  "pg_payment_keys = [(''payments_pkey'', \<lambda>r. Some (pr_id r)), (paymentsIdempotencyKeyConstraint, pr_idem)]"

definition isIdempotencyKeyConflict :: "repo_error \<Rightarrow> bool" where
  "isIdempotencyKeyConflict err = uniqueViolationOn err paymentsIdempotencyKeyConstraint"

text \<open>The row of the upsert; its update leaves the invoice, the idempotency key and the creation time.\<close>

definition pg_payment_to_row :: "menv \<Rightarrow> pay_core \<Rightarrow> payment_snapshot \<Rightarrow> string \<Rightarrow> string \<Rightarrow> time \<Rightarrow> payment_row" where
  "pg_payment_to_row env co s metadata state now =
     \<lparr>pr_id = ps_ID s, pr_invoice = ps_InvoiceID s,
      pr_idem = (if ps_IdempotencyKey s \<noteq> [] then Some (ps_IdempotencyKey s) else None),
      pr_amount = pk_int64 co (ps_Amount s), pr_refunded = pk_int64 co (ps_RefundedAmount s),
      pr_currency = m_currency (ps_Amount s), pr_status = ps_Status s, pr_method = ps_Method s,
      pr_gtx = ps_GatewayTransactionID s,
      pr_failure = (case ps_FailureReason s of Some r \<Rightarrow> r | None \<Rightarrow> []),
      pr_processed = (if is_zero_time (ps_ProcessedAt s) then None else Some (me_time env (ps_ProcessedAt s))),
      pr_metadata = metadata, pr_state = Some state, pr_lock_version = ps_Version s,
      pr_created = now, pr_updated = now\<rparr>"

definition excluded_payment :: "payment_row \<Rightarrow> payment_row \<Rightarrow> payment_row" where
  "excluded_payment new r =
     new\<lparr>pr_id := pr_id r, pr_invoice := pr_invoice r, pr_idem := pr_idem r, pr_created := pr_created r\<rparr>"

definition upsert_payment :: "menv \<Rightarrow> pay_core \<Rightarrow> payment_snapshot \<Rightarrow> int \<Rightarrow> string \<Rightarrow> string
    \<Rightarrow> (pay_db, nat) pgsql" where
  "upsert_payment env co s loaded metadata state = pg_write (\<lambda>now rows.
     case pg_json (json_columns env metadata state) of
       Inl e \<Rightarrow> Inl e
     | Inr (m, st) \<Rightarrow> (let new = pg_payment_to_row env co s m st now in
         pg_upsert_row pg_payment_keys pr_id new (\<lambda>r. pr_lock_version r = loaded) (excluded_payment new) rows))"

definition duplicateIdempotencyKey :: "payment_snapshot \<Rightarrow> (pay_db, int) pgsql" where
  "duplicateIdempotencyKey s =
     tryA (pg_query_row (\<lambda>rows. find (\<lambda>r. pr_idem r = Some (ps_IdempotencyKey s)) rows))
       (\<lambda>_. throw (DuplicateIdempotencyKey (ps_IdempotencyKey s) (ps_ID s) []))
       (\<lambda>r. throw (DuplicateIdempotencyKey (ps_IdempotencyKey s) (ps_ID s) (pr_id r)))"

definition Save :: "menv \<Rightarrow> pay_core \<Rightarrow> payment_snapshot \<Rightarrow> int \<Rightarrow> (pay_db, int) pgsql" where
  "Save env co s loaded = (case co_enc (pk_meta co) (ps_Metadata s) of
      None \<Rightarrow> throw (OtherError ''marshal metadata'')
    | Some metadata \<Rightarrow> (case co_enc (pk_state co) (ps_Amount s, ps_RefundedAmount s) of
        None \<Rightarrow> throw (OtherError ''marshal state'')
      | Some state \<Rightarrow>
          tryA (upsert_payment env co s loaded metadata state)
            (\<lambda>err. if isIdempotencyKeyConflict err then duplicateIdempotencyKey s else throw err)
            (\<lambda>affected. if affected = 0 then throw TxVersionConflict else ret (ps_Version s))))"

section \<open>Finders\<close>

text \<open>The state JSON is the source of truth; rows without one have the integer columns.\<close>

definition scanPaymentSnapshot :: "pay_core \<Rightarrow> payment_row \<Rightarrow> repo_error + payment_snapshot" where
  "scanPaymentSnapshot co r =
     (let raw = (case pr_state r of Some st \<Rightarrow> st | None \<Rightarrow> []) in
      case (if raw \<noteq> [] then co_dec (pk_state co) raw
            else Some (moneyFromInt64 (pr_amount r) (pr_currency r), moneyFromInt64 (pr_refunded r) (pr_currency r))) of
        None \<Rightarrow> Inl (OtherError ''unmarshal state'')
      | Some (amount, refunded) \<Rightarrow>
          (case (if pr_metadata r \<noteq> [] then co_dec (pk_meta co) (pr_metadata r) else Some []) of
             None \<Rightarrow> Inl (OtherError ''unmarshal metadata'')
           | Some meta \<Rightarrow> Inr
              \<lparr>ps_ID = pr_id r, ps_InvoiceID = pr_invoice r,
               ps_IdempotencyKey = (case pr_idem r of Some k \<Rightarrow> k | None \<Rightarrow> []),
               ps_Amount = amount, ps_RefundedAmount = refunded, ps_Status = pr_status r,
               ps_Method = pr_method r, ps_GatewayTransactionID = pr_gtx r,
               ps_FailureReason = (if pr_failure r \<noteq> [] then Some (pr_failure r) else None),
               ps_ProcessedAt = (case pr_processed r of Some t \<Rightarrow> t | None \<Rightarrow> zero_time),
               ps_Metadata = meta, ps_Version = pr_lock_version r\<rparr>))"

definition payment_of_row :: "pay_core \<Rightarrow> payment_row \<Rightarrow> repo_error + payment" where
  "payment_of_row co r = (case scanPaymentSnapshot co r of
      Inl e \<Rightarrow> Inl e | Inr s \<Rightarrow> payment_FromSnapshot co s)"

definition FindByID :: "pay_core \<Rightarrow> string \<Rightarrow> (pay_db, payment) pgsql" where
  "FindByID co i = tryA (pg_query_row (\<lambda>rows. find (\<lambda>r. pr_id r = i) rows))
     (\<lambda>e. if as_db e = Some ErrNoRows then throw (DomainError ErrCodeNotFound None) else throw e)
     (\<lambda>r. liftA (payment_of_row co r))"

definition scanPaymentRows :: "pay_core \<Rightarrow> payment_row list \<Rightarrow> (pay_db, payment list) pgsql" where
  "scanPaymentRows co rows = mapA (\<lambda>r. liftA (payment_of_row co r)) rows"

definition FindByInvoiceID :: "pay_core \<Rightarrow> string \<Rightarrow> (pay_db, payment list) pgsql" where
  "FindByInvoiceID co i =
     bindA (pg_query (\<lambda>rows. sort_key (\<lambda>r. - pr_created r) (filter (\<lambda>r. pr_invoice r = i) rows))) (scanPaymentRows co)"

definition FindByIdempotencyKey :: "pay_core \<Rightarrow> string \<Rightarrow> (pay_db, payment option) pgsql" where
  "FindByIdempotencyKey co k = tryA (pg_query_row (\<lambda>rows. find (\<lambda>r. pr_idem r = Some k) rows))
     (\<lambda>e. if as_db e = Some ErrNoRows then ret None else throw e)
     (\<lambda>r. bindA (liftA (payment_of_row co r)) (\<lambda>p. ret (Some p)))"

section \<open>The repository is a guarded store\<close>

lemma pg_payment_to_row_sel [simp]:
  "pr_id (pg_payment_to_row env co s m t n) = ps_ID s"
  "pr_lock_version (pg_payment_to_row env co s m t n) = ps_Version s"
  by (simp_all add: pg_payment_to_row_def)

lemma excluded_payment_sel [simp]:
  "pr_id (excluded_payment new r) = pr_id r" "pr_lock_version (excluded_payment new r) = pr_lock_version new"
  by (simp_all add: excluded_payment_def)

lemma duplicate_key_rejects: "quiet w \<Longrightarrow> \<exists>e. duplicateIdempotencyKey s w = (Inl e, w)"
  by (simp add: duplicateIdempotencyKey_def tryA_def pg_query_row_run quiet_def aborted_tx_def throw_def split: option.split)

lemma pg_payment_Save_outcome:
  assumes q: "quiet w" and run: "Save env co s l w = (r, w')"
  shows "pg_outcome (\<lambda>d. d) pr_id pr_lock_version (ps_ID s) l (ps_Version s) w r w'"
proof (cases "\<exists>md st. co_enc (pk_meta co) (ps_Metadata s) = Some md \<and>
    co_enc (pk_state co) (ps_Amount s, ps_RefundedAmount s) = Some st")
  case False
  with run q show ?thesis by (auto simp: Save_def throw_def pg_outcome_def split: option.splits)
next
  case True
  then obtain md st where "co_enc (pk_meta co) (ps_Metadata s) = Some md"
    "co_enc (pk_state co) (ps_Amount s, ps_RefundedAmount s) = Some st" by blast
  with run have "tryA (upsert_payment env co s l md st)
      (\<lambda>err. if isIdempotencyKeyConflict err then duplicateIdempotencyKey s else throw err)
      (\<lambda>affected. if affected = 0 then throw TxVersionConflict else ret (ps_Version s)) w = (r, w')"
    by (simp add: Save_def)
  from q this [unfolded upsert_payment_def] show ?thesis
  proof (rule pg_guarded_write)
    show "\<exists>e'. (if isIdempotencyKeyConflict e then duplicateIdempotencyKey s else throw e) w = (Inl e', w)" for e
      using duplicate_key_rejects [OF q, of s] by (simp add: throw_def)
    fix now d n d'
    assume "(case pg_json (json_columns env md st) of Inl e \<Rightarrow> Inl e
      | Inr (m, st) \<Rightarrow> (let new = pg_payment_to_row env co s m st now in
         pg_upsert_row pg_payment_keys pr_id new (\<lambda>r. pr_lock_version r = l) (excluded_payment new) d)) = Inr (n, d')"
    then obtain m t where "pg_upsert_row pg_payment_keys pr_id (pg_payment_to_row env co s m t now)
        (\<lambda>r. pr_lock_version r = l) (excluded_payment (pg_payment_to_row env co s m t now)) d = Inr (n, d')"
      by (auto simp: Let_def split: sum.splits)
    then show "n = 0 \<and> d' = d \<or> n \<noteq> 0 \<and> rows_saved pr_id pr_lock_version (ps_ID s) l (ps_Version s) d d'"
      by (rule rows_saved_upsert) simp_all
  qed
qed

interpretation pg_payments: guarded_store "Save env co" ps_ID ps_Version
    "pg_versions (\<lambda>d. d) pr_id pr_lock_version" "pg_keyed (\<lambda>d. d) pr_id" for env co
  by (rule pg_guarded_storeI) (rule pg_payment_Save_outcome)

section \<open>The two adapters agree\<close>

lemma pg_payment_to_row_eq: "pg_payment_to_row = payment_to_row"
  by (intro ext) (auto simp: pg_payment_to_row_def payment_to_row_def opt_string_def split: option.split)

lemma my_dup_kinds:
  assumes "\<not> contains (pr_id row) ''idempotency_key''"
  shows "\<not> dupEntryOnKey (DbError (dup_error (tb_name payments_table) (''PRIMARY'', \<lambda>r. Some (pr_id r)) row)) ''idempotency_key''"
    "dupEntryOnKey (DbError (dup_error (tb_name payments_table) (''PRIMARY'', \<lambda>r. Some (pr_id r)) row)) ''PRIMARY''"
    "dupEntryOnKey (DbError (dup_error (tb_name payments_table) (''idempotency_key'', pr_idem) row)) ''idempotency_key''"
  by (subst dupEntryOnKey_dup; use assms in \<open>simp add: payments_table_def contains_def sublist_code quote_char_def\<close>)+

text \<open>The MySQL save as one case distinction: the row exists and has the loaded version or not, or it is new and
  its idempotency key is taken or not.\<close>

lemma my_Save_existing:
  assumes c: "calm w" and m: "co_enc (pk_meta co) (ps_Metadata s) = Some md"
    "co_enc (pk_state co) (ps_Amount s, ps_RefundedAmount s) = Some st" "json_columns env md st = Inr (m, t)"
    and u: "unique_keys payment_keys (db w)" and row: "db w = xs @ x # ys" "pr_id x = ps_ID s"
    and same: "pr_idem x = opt_string (ps_IdempotencyKey s)" and v: "ps_Version s \<noteq> l"
    and clean: "\<not> contains (ps_ID s) ''idempotency_key''"
  shows "My_Payment_Repo.Save env co s l w =
    (if pr_lock_version x = l
     then (Inr (ps_Version s), w\<lparr>db := xs @ (payment_to_row env co s m t (snow w))\<lparr>pr_created := pr_created x\<rparr> # ys\<rparr>)
     else (Inl TxVersionConflict, w))"
proof -
  let ?new = "payment_to_row env co s m t (snow w)"
  let ?f = "\<lambda>r. ?new\<lparr>pr_created := pr_created r\<rparr>" and ?p = "\<lambda>r. pr_id r = ps_ID s \<and> pr_lock_version r = l"
  have ids: "distinct (map pr_id (xs @ x # ys))"
  proof -
    have "distinct (filter (\<lambda>v. v \<noteq> None) (map (\<lambda>r. Some (pr_id r)) (db w)))"
      using u by (simp add: unique_keys_def payment_keys_def)
    then have "distinct (map (\<lambda>r. Some (pr_id r)) (db w))" by (simp add: filter_map comp_def)
    then have "distinct (map Some (map pr_id (db w)))" by (simp only: map_map comp_def)
    then show ?thesis using row(1) distinct_map by metis
  qed
  have ins: "insert_row (tb_name payments_table) payment_keys ?new (db w)
      = Inl (dup_error (tb_name payments_table) (''PRIMARY'', \<lambda>r. Some (pr_id r)) ?new)"
    using row by (simp add: insert_row_def payment_keys_def clashes_def)
  have kinds: "\<not> dupEntryOnKey (DbError (dup_error (tb_name payments_table) (''PRIMARY'', \<lambda>r. Some (pr_id r)) ?new)) ''idempotency_key''"
    "dupEntryOnKey (DbError (dup_error (tb_name payments_table) (''PRIMARY'', \<lambda>r. Some (pr_id r)) ?new)) ''PRIMARY''"
    using clean by (auto intro!: my_dup_kinds)
  have upd: "update_one (tb_name payments_table) payment_keys ?p ?f (db w) =
     (if pr_lock_version x = l then Inr (1, xs @ ?f x # ys) else Inr (0, db w))"
  proof (cases "pr_lock_version x = l")
    case True
    have "\<forall>z \<in> set xs. pr_id z \<noteq> ps_ID s" using ids row(2) by auto (metis imageI)
    then have "List.extract ?p (db w) = Some (xs, x, ys)" using True row by (auto simp: extract_Some_iff)
    moreover have "\<forall>k \<in> set payment_keys. \<not> clashes (xs @ ys) (?f x) k"
      using u unfolding row(1) by (rule unique_mid) (use row same in \<open>auto simp: payment_keys_def payment_to_row_def\<close>)
    then have "find (clashes (xs @ ys) (?f x)) payment_keys = None" by (simp add: find_None_iff)
    moreover have "?f x \<noteq> x" using v True by (metis payment_to_row_sel(2) payment_row.select_convs(14) payment_row.surjective payment_row.update_convs(15))
    ultimately show ?thesis using True by (simp add: update_one_def)
  next
    case False
    have "\<forall>z \<in> set xs \<union> set ys. pr_id z \<noteq> ps_ID s" using ids row(2) by auto (metis imageI)+
    with False have "List.extract ?p (db w) = None" using row by (auto simp: extract_None_iff)
    with False show ?thesis by (simp add: update_one_def)
  qed
  show ?thesis using c m ins kinds upd row(1)
    by (simp add: My_Payment_Repo.Save_def tryA_def insert_payment_def update_payment_def insert_into_run
        update_where_run throw_def ret_def)
qed

lemma my_Save_new:
  assumes c: "calm w" and m: "co_enc (pk_meta co) (ps_Metadata s) = Some md"
    "co_enc (pk_state co) (ps_Amount s, ps_RefundedAmount s) = Some st" "json_columns env md st = Inr (m, t)"
    and new: "ps_ID s \<notin> pr_id ` set (db w)" and clean: "\<not> contains (ps_ID s) ''idempotency_key''"
  shows "My_Payment_Repo.Save env co s l w =
    (if clashes (db w) (payment_to_row env co s m t (snow w)) (''idempotency_key'', pr_idem)
     then My_Payment_Repo.duplicateIdempotencyKey s w
     else (Inr (ps_Version s), w\<lparr>db := db w @ [payment_to_row env co s m t (snow w)]\<rparr>))"
proof -
  let ?new = "payment_to_row env co s m t (snow w)"
  have "\<not> clashes (db w) ?new (''PRIMARY'', \<lambda>r. Some (pr_id r))" using new by (force simp: clashes_def)
  then have ins: "insert_row (tb_name payments_table) payment_keys ?new (db w) =
     (if clashes (db w) ?new (''idempotency_key'', pr_idem)
      then Inl (dup_error (tb_name payments_table) (''idempotency_key'', pr_idem) ?new) else Inr (db w @ [?new]))"
    by (simp add: insert_row_def payment_keys_def)
  have "dupEntryOnKey (DbError (dup_error (tb_name payments_table) (''idempotency_key'', pr_idem) ?new)) ''idempotency_key''"
    using clean by (intro my_dup_kinds) simp
  with c m ins show ?thesis
    by (simp add: My_Payment_Repo.Save_def tryA_def insert_payment_def insert_into_run throw_def ret_def)
qed

text \<open>The same for PostgreSQL.\<close>

lemma pg_Save_run:
  assumes q: "quiet v" and m: "co_enc (pk_meta co) (ps_Metadata s) = Some md"
    "co_enc (pk_state co) (ps_Amount s, ps_RefundedAmount s) = Some st" "json_columns env md st = Inr (m, t)"
  shows "Save env co s l v = (case pg_upsert_row pg_payment_keys pr_id (payment_to_row env co s m t (snow v))
        (\<lambda>r. pr_lock_version r = l) (excluded_payment (payment_to_row env co s m t (snow v))) (pg_data (db v)) of
      Inl e \<Rightarrow> if isIdempotencyKeyConflict (DbError e) then duplicateIdempotencyKey s v else (Inl (DbError e), v)
    | Inr (n, rows) \<Rightarrow> (if n = 0 then Inl TxVersionConflict else Inr (ps_Version s), v\<lparr>db := (db v)\<lparr>pg_data := rows\<rparr>\<rparr>))"
proof -
  have c: "calm v" "saved v = None" using q by (simp_all add: quiet_def)
  let ?up = "pg_upsert_row pg_payment_keys pr_id (payment_to_row env co s m t (snow v))
        (\<lambda>r. pr_lock_version r = l) (excluded_payment (payment_to_row env co s m t (snow v))) (pg_data (db v))"
  have up: "upsert_payment env co s l md st v = (case ?up of
        Inl e \<Rightarrow> (Inl (DbError e), v) | Inr (n, rows) \<Rightarrow> (Inr n, v\<lparr>db := (db v)\<lparr>pg_data := rows\<rparr>\<rparr>))"
    using c m(3) by (simp add: upsert_payment_def pg_write_run pg_now_def pg_payment_to_row_eq Let_def)
  show ?thesis
  proof (cases ?up)
    case (Inl e)
    with up have "upsert_payment env co s l md st v = (Inl (DbError e), v)" by simp
    with m Inl show ?thesis by (simp add: Save_def throw_def tryA_run [of "upsert_payment env co s l md st" v])
  next
    case (Inr p)
    with up have "upsert_payment env co s l md st v = (Inr (fst p), v\<lparr>db := (db v)\<lparr>pg_data := snd p\<rparr>\<rparr>)"
      by (simp split: prod.splits)
    with m Inr show ?thesis
      by (simp add: Save_def throw_def ret_def tryA_run [of "upsert_payment env co s l md st" v] split: prod.split)
  qed
qed

lemma pg_Save_existing:
  assumes q: "quiet v" and m: "co_enc (pk_meta co) (ps_Metadata s) = Some md"
    "co_enc (pk_state co) (ps_Amount s, ps_RefundedAmount s) = Some st" "json_columns env md st = Inr (m, t)"
    and u: "unique_keys payment_keys (pg_data (db v))" and row: "pg_data (db v) = xs @ x # ys" "pr_id x = ps_ID s"
      "\<forall>z \<in> set xs. pr_id z \<noteq> ps_ID s"
    and kept: "pr_invoice x = ps_InvoiceID s" "pr_idem x = opt_string (ps_IdempotencyKey s)"
  shows "Save env co s l v =
    (if pr_lock_version x = l
     then (Inr (ps_Version s), v\<lparr>db := (db v)\<lparr>pg_data := xs @ (payment_to_row env co s m t (snow v))\<lparr>pr_created := pr_created x\<rparr> # ys\<rparr>\<rparr>)
     else (Inl TxVersionConflict, v))"
proof -
  let ?new = "payment_to_row env co s m t (snow v)"
  have ex: "List.extract (\<lambda>x. pr_id x = pr_id ?new) (pg_data (db v)) = Some (xs, x, ys)"
    using row by (simp add: extract_Some_iff)
  have f: "excluded_payment ?new x = ?new\<lparr>pr_created := pr_created x\<rparr>"
    using kept row(2) by (simp add: excluded_payment_def payment_to_row_def)
  have "unique_keys pg_payment_keys (xs @ x # ys)"
    using u unfolding row(1) unique_keys_def pg_payment_keys_def payment_keys_def by (simp del: map_append filter_append)
  then have "\<forall>k \<in> set pg_payment_keys. \<not> clashes (xs @ ys) (?new\<lparr>pr_created := pr_created x\<rparr>) k"
    by (rule unique_mid) (use row kept in \<open>auto simp: pg_payment_keys_def payment_to_row_def\<close>)
  then have "pg_check pg_payment_keys (?new\<lparr>pr_created := pr_created x\<rparr>) (xs @ ys) (1 :: nat, zs) = Inr (1, zs)"
    for zs :: "payment_row list"
    by (simp add: pg_check_Inr)
  with ex f have up: "pg_upsert_row pg_payment_keys pr_id ?new (\<lambda>r. pr_lock_version r = l) (excluded_payment ?new)
      (pg_data (db v)) = (if pr_lock_version x = l then Inr (1, xs @ ?new\<lparr>pr_created := pr_created x\<rparr> # ys)
        else Inr (0, pg_data (db v)))"
    by (simp add: pg_upsert_row_def)
  show ?thesis unfolding pg_Save_run [OF q m] up by simp
qed

lemma pg_Save_new:
  assumes q: "quiet v" and m: "co_enc (pk_meta co) (ps_Metadata s) = Some md"
    "co_enc (pk_state co) (ps_Amount s, ps_RefundedAmount s) = Some st" "json_columns env md st = Inr (m, t)"
    and new: "ps_ID s \<notin> pr_id ` set (pg_data (db v))"
  shows "Save env co s l v =
    (if clashes (pg_data (db v)) (payment_to_row env co s m t (snow v)) (''idempotency_key'', pr_idem)
     then duplicateIdempotencyKey s v
     else (Inr (ps_Version s), v\<lparr>db := (db v)\<lparr>pg_data := pg_data (db v) @ [payment_to_row env co s m t (snow v)]\<rparr>\<rparr>))"
proof -
  let ?new = "payment_to_row env co s m t (snow v)" and ?rows = "pg_data (db v)"
  have "List.extract (\<lambda>x. pr_id x = pr_id ?new) ?rows = None"
    using new by (force simp: extract_None_iff)
  moreover have "\<not> clashes ?rows ?new (''payments_pkey'', \<lambda>r. Some (pr_id r))" using new by (force simp: clashes_def)
  moreover have "clashes ?rows ?new (paymentsIdempotencyKeyConstraint, pr_idem) =
      clashes ?rows ?new (''idempotency_key'', pr_idem)"
    by (simp add: clashes_def)
  ultimately have up: "pg_upsert_row pg_payment_keys pr_id ?new (\<lambda>r. pr_lock_version r = l) (excluded_payment ?new) ?rows =
     (if clashes ?rows ?new (''idempotency_key'', pr_idem)
      then Inl (PgError pgUniqueViolation paymentsIdempotencyKeyConstraint) else Inr (1, ?rows @ [?new]))"
    by (simp add: pg_upsert_row_def pg_check_def pg_payment_keys_def)
  show ?thesis unfolding pg_Save_run [OF q m] up
    by (simp add: isIdempotencyKeyConflict_def uniqueViolationOn_def)
qed

text \<open>A text that is not JSON is refused; the holder of a key is the same.\<close>

lemma my_Save_refused:
  assumes "calm w" and "co_enc (pk_meta co) (ps_Metadata s) = Some md"
    "co_enc (pk_state co) (ps_Amount s, ps_RefundedAmount s) = Some st" and "json_columns env md st = Inl e"
  shows "My_Payment_Repo.Save env co s l w = (Inl (DbError e), w)"
proof -
  obtain msg where e: "e = MySQLError 3140 msg" using assms(4) by (auto simp: json_columns_def split: option.splits)
  have "insert_payment env co s md st w = (Inl (DbError e), w)"
    using assms by (simp add: insert_payment_def insert_into_run)
  with assms(2,3) show ?thesis
    by (simp add: My_Payment_Repo.Save_def tryA_run [of "insert_payment env co s md st" w] dupEntryOnKey_def
        mysqlErrDupEntry_def e throw_def)
qed

lemma pg_Save_refused:
  assumes "quiet v" and "co_enc (pk_meta co) (ps_Metadata s) = Some md"
    "co_enc (pk_state co) (ps_Amount s, ps_RefundedAmount s) = Some st" and "json_columns env md st = Inl e"
  shows "Save env co s l v = (Inl (DbError pgInvalidText), v)"
proof -
  have "upsert_payment env co s l md st v = (Inl (DbError pgInvalidText), v)"
    using assms by (simp add: upsert_payment_def pg_write_run quiet_def)
  with assms(2,3) show ?thesis
    by (simp add: Save_def tryA_run [of "upsert_payment env co s l md st" v] isIdempotencyKeyConflict_def
        uniqueViolationOn_def pgInvalidText_def pgUniqueViolation_def throw_def)
qed

lemma duplicate_keys_agree:
  assumes "quiet v" and "calm w" and "pg_data (db v) = db w"
  shows "fst (duplicateIdempotencyKey s v) = fst (My_Payment_Repo.duplicateIdempotencyKey s w)"
    "snd (duplicateIdempotencyKey s v) = v" "snd (My_Payment_Repo.duplicateIdempotencyKey s w) = w"
  using assms by (auto simp: duplicateIdempotencyKey_def tryA_def pg_query_row_run quiet_def throw_def
      duplicateIdempotencyKey_run split: option.split)

text \<open>The two payment repositories agree. On the same table at the same time, outside a transaction and without
  faults, a save of a new payment, or of one that changed its version and kept its invoice and idempotency key, has
  the same result in PostgreSQL and in MySQL (the new version, the version conflict, the sentinel with the same
  holder, or a database error), and leaves the same rows.\<close>

theorem payment_adapters_agree:
  assumes "quiet w" and "quiet v" and "pg_data (db v) = db w" and "snow v = snow w"
    and u: "unique_keys payment_keys (db w)" and ver: "ps_Version s \<noteq> l" and clean: "\<not> contains (ps_ID s) ''idempotency_key''"
    and kept: "\<forall>x \<in> set (db w). pr_id x = ps_ID s \<longrightarrow>
        pr_invoice x = ps_InvoiceID s \<and> pr_idem x = opt_string (ps_IdempotencyKey s)"
  shows "same_result (fst (Save env co s l v)) (fst (My_Payment_Repo.Save env co s l w)) \<and>
    pg_data (db (snd (Save env co s l v))) = db (snd (My_Payment_Repo.Save env co s l w))"
proof (cases "\<exists>md st. co_enc (pk_meta co) (ps_Metadata s) = Some md \<and>
    co_enc (pk_state co) (ps_Amount s, ps_RefundedAmount s) = Some st")
  case False
  with assms(3) show ?thesis
    by (auto simp: Save_def My_Payment_Repo.Save_def throw_def same_result_def split: option.splits)
next
  case True
  then obtain md st where m: "co_enc (pk_meta co) (ps_Metadata s) = Some md"
    "co_enc (pk_state co) (ps_Amount s, ps_RefundedAmount s) = Some st" by blast
  have c: "calm w" "calm v" "saved v = None" using assms(1,2) by (simp_all add: quiet_def)
  show ?thesis
  proof (cases "json_columns env md st")
    case (Inl e)
    have "\<exists>n x. e = MySQLError n x"
      using Inl by (auto simp: json_columns_def json_column_def split: option.splits sum.splits)
    with pg_Save_refused [OF assms(2) m Inl] my_Save_refused [OF c(1) m Inl] assms(3) show ?thesis
      by (auto simp: same_result_def pgInvalidText_def)
  next
    case (Inr p)
    then obtain ma t where mt: "json_columns env md st = Inr (ma, t)" by (cases p) auto
    show ?thesis
    proof (cases "ps_ID s \<in> pr_id ` set (db w)")
      case True
      then obtain xs x ys where row: "db w = xs @ x # ys" "pr_id x = ps_ID s" "\<forall>z \<in> set xs. pr_id z \<noteq> ps_ID s"
        using split_list_first_prop [of "db w" "\<lambda>x. pr_id x = ps_ID s"] by (metis imageE)
      with kept have k: "pr_invoice x = ps_InvoiceID s" "pr_idem x = opt_string (ps_IdempotencyKey s)" by auto
      have "unique_keys payment_keys (pg_data (db v))" "pg_data (db v) = xs @ x # ys" using u assms(3) row(1) by simp_all
      from pg_Save_existing [OF assms(2) m mt this row(2,3) k] my_Save_existing [OF c(1) m mt u row(1,2) k(2) ver clean]
      show ?thesis using assms(3,4) by (simp add: same_result_def)
    next
      case False
      have "ps_ID s \<notin> pr_id ` set (pg_data (db v))" using False assms(3) by simp
      note pg = pg_Save_new [OF assms(2) m mt this]
      note my = my_Save_new [OF c(1) m mt False clean]
      show ?thesis unfolding pg my using assms(3,4) duplicate_keys_agree [OF assms(2) c(1) assms(3)]
        by (simp add: same_result_def)
    qed
  qed
qed

theorem payment_adapters_agree_witness:
  "fst (Save demo_env demo_core (demo_payment ''p1'' ''done'' 2) 1 (pg_demo 6 (db demo_payments))) = Inr 2 \<and>
   map pr_status (pg_data (db (snd (Save demo_env demo_core (demo_payment ''p1'' ''done'' 2) 1 (pg_demo 6 (db demo_payments))))))
     = map pr_status (db (snd (My_Payment_Repo.Save demo_env demo_core (demo_payment ''p1'' ''done'' 2) 1 demo_payments)))"
proof -
  let ?s = "demo_payment ''p1'' ''done'' 2"
  obtain w' where run: "My_Payment_Repo.Save demo_env demo_core ?s 1 demo_payments = (Inr 2, w')"
    using demo_Save_updates by blast
  have u: "unique_keys payment_keys (db demo_payments)" by (simp add: unique_keys_def payment_keys_def demo_payments_def)
  have clean: "\<not> contains (ps_ID ?s) ''idempotency_key''" by code_simp
  have kept: "\<forall>x \<in> set (db demo_payments). pr_id x = ps_ID ?s \<longrightarrow> pr_invoice x = ps_InvoiceID ?s \<and>
      pr_idem x = opt_string (ps_IdempotencyKey ?s)"
    by (simp add: demo_payments_def demo_payment_def payment_to_row_def)
  have now: "snow (pg_demo 6 (db demo_payments)) = snow demo_payments" by (simp add: demo_payments_def)
  have ver: "ps_Version ?s \<noteq> 1" by (simp add: demo_payment_def)
  from payment_adapters_agree [OF demo_payments_ok(2) pg_demo_quiet(1) pg_demo_quiet(2) now u ver clean kept,
    where env = demo_env and co = demo_core]
  show ?thesis using run by (auto simp: same_result_def)
qed

section \<open>Inside a transaction\<close>

text \<open>C27. Without faults, in a transaction the sentinel for a taken idempotency key never names the holder: the rejected
  upsert has aborted the transaction, so the lookup of the holder fails. So does every later statement of the
  transaction, whatever it is, with code 25P02 and without effect, such as the caller's own search for the payment; and
  a commit is refused and restores the contents at the begin. Outside a transaction the holder is named.\<close>

theorem key_holder_unnamed_in_tx:
  assumes "calm w" and "\<not> aborted_tx w" and "x \<in> set (pg_data (db w))" and "pr_idem x = Some (ps_IdempotencyKey s)"
    and "ps_IdempotencyKey s \<noteq> []" and "ps_ID s \<notin> pr_id ` set (pg_data (db w))"
    and "co_enc (pk_meta co) (ps_Metadata s) = Some md"
    and "co_enc (pk_state co) (ps_Amount s, ps_RefundedAmount s) = Some st" and "json_columns env md st = Inr mt"
  shows "\<exists>w'. Save env co s l w = (Inl (DuplicateIdempotencyKey (ps_IdempotencyKey s) (ps_ID s)
        (if saved w \<noteq> None then []
         else case find (\<lambda>r. pr_idem r = Some (ps_IdempotencyKey s)) (pg_data (db w)) of None \<Rightarrow> [] | Some r \<Rightarrow> pr_id r)), w')
    \<and> (saved w \<noteq> None \<longrightarrow>
         (\<forall>m. pg_wrap m w' = (Inl (DbError (PgError ''25P02'' [])), w')) \<and>
         FindByIdempotencyKey co k w' = (Inl (DbError (PgError ''25P02'' [])), w') \<and>
         (\<exists>w''. pg_commit w' = (Inl (DbError TxCommitRollback), w'') \<and> saved w'' = None \<and> Some (db w'') = saved w))"
proof -
  obtain m t where mt: "json_columns env md st = Inr (m, t)" using assms(9) by (cases mt) auto
  let ?new = "pg_payment_to_row env co s m t (pg_now w)" and ?rows = "pg_data (db w)"
  let ?w' = "if saved w = None then w else w\<lparr>db := (db w)\<lparr>pg_aborted := True\<rparr>\<rparr>"
  let ?e = "DbError (PgError pgUniqueViolation paymentsIdempotencyKeyConstraint)"
  have "clashes ?rows ?new (paymentsIdempotencyKeyConstraint, pr_idem)" "\<not> clashes ?rows ?new (''payments_pkey'', \<lambda>r. Some (pr_id r))"
    using assms(3-6) by (force simp: clashes_def pg_payment_to_row_def)+
  moreover have "List.extract (\<lambda>x. pr_id x = pr_id ?new) ?rows = None" using assms(6) by (force simp: extract_None_iff)
  ultimately have "pg_upsert_row pg_payment_keys pr_id ?new (\<lambda>r. pr_lock_version r = l) (excluded_payment ?new) ?rows =
      Inl (PgError pgUniqueViolation paymentsIdempotencyKeyConstraint)"
    by (simp add: pg_upsert_row_def pg_check_def pg_payment_keys_def)
  then have up: "upsert_payment env co s l md st w = (Inl ?e, ?w')"
    using assms(1,2) mt by (simp add: upsert_payment_def pg_write_run Let_def)
  have "Save env co s l w = duplicateIdempotencyKey s ?w'"
    using assms(7,8) by (simp add: Save_def tryA_run [of "upsert_payment env co s l md st" w, OF up]
        isIdempotencyKeyConflict_def uniqueViolationOn_def)
  moreover have calm': "drop_fault ?w' = ?w'" using assms(1) by (simp add: drop_fault_def)
  moreover have ab: "saved w \<noteq> None \<Longrightarrow> aborted_tx ?w'" by (simp add: aborted_tx_def)
  ultimately show ?thesis
    using assms(1) by (cases "saved w") (simp_all add: duplicateIdempotencyKey_def tryA_def pg_query_row_run aborted_tx_def
        pg_query_row_aborted FindByIdempotencyKey_def throw_def pg_wrap_def pg_commit_def split: option.split)
qed

definition pg_demo_tx :: "pay_db pg_db world" where
  "pg_demo_tx = (pg_demo 6 (db demo_payments))\<lparr>saved := Some (db (pg_demo 6 (db demo_payments)))\<rparr>"

theorem key_holder_unnamed_in_tx_witness:
  "\<exists>w'. Save demo_env demo_core (demo_payment ''p2'' ''pending'' 1) 0 pg_demo_tx =
        (Inl (DuplicateIdempotencyKey ''k'' ''p2'' []), w') \<and>
      FindByIdempotencyKey demo_core ''k'' w' = (Inl (DbError (PgError ''25P02'' [])), w') \<and>
      FindByID demo_core ''p1'' w' = (Inl (DbError (PgError ''25P02'' [])), w') \<and>
    fst (Save demo_env demo_core (demo_payment ''p2'' ''pending'' 1) 0 (pg_demo 6 (db demo_payments))) =
        Inl (DuplicateIdempotencyKey ''k'' ''p2'' ''p1'')"
proof -
  let ?s = "demo_payment ''p2'' ''pending'' 1" and ?x = "payment_to_row demo_env demo_core (demo_payment ''p1'' ''pending'' 1) ''m'' ''S'' 3"
  have j: "json_columns demo_env ''m'' ''S'' = Inr (''m'', ''S'')" by (simp add: json_columns_def demo_env_def)
  have m: "co_enc (pk_meta demo_core) (ps_Metadata ?s) = Some ''m''"
    "co_enc (pk_state demo_core) (ps_Amount ?s, ps_RefundedAmount ?s) = Some ''S''"
    by (simp_all add: demo_core_def demo_payment_def)
  have h: "pg_data (db pg_demo_tx) = [?x]" "saved pg_demo_tx \<noteq> None" "calm pg_demo_tx" "\<not> aborted_tx pg_demo_tx"
    "pg_data (db (pg_demo 6 (db demo_payments))) = [?x]"
    by (simp_all add: pg_demo_tx_def pg_demo_def demo_payments_def aborted_tx_def)
  have x: "pr_idem ?x = Some (ps_IdempotencyKey ?s)" "ps_IdempotencyKey ?s \<noteq> []" "ps_ID ?s \<notin> pr_id ` {?x}" "pr_id ?x = ''p1''"
    by (simp_all add: payment_to_row_def demo_payment_def opt_string_def)
  from key_holder_unnamed_in_tx [OF h(3,4) _ x(1,2) _ m j, where k = "''k''" and l = 0]
  have "\<exists>w'. Save demo_env demo_core ?s 0 pg_demo_tx = (Inl (DuplicateIdempotencyKey ''k'' ''p2'' []), w') \<and>
      FindByIdempotencyKey demo_core ''k'' w' = (Inl (DbError (PgError ''25P02'' [])), w') \<and>
      (\<forall>m :: (pay_db, payment_row option) pgsql. pg_wrap m w' = (Inl (DbError (PgError ''25P02'' [])), w'))"
    using h x by (auto simp: demo_payment_def)
  then have "\<exists>w'. Save demo_env demo_core ?s 0 pg_demo_tx = (Inl (DuplicateIdempotencyKey ''k'' ''p2'' []), w') \<and>
      FindByIdempotencyKey demo_core ''k'' w' = (Inl (DbError (PgError ''25P02'' [])), w') \<and>
      FindByID demo_core ''p1'' w' = (Inl (DbError (PgError ''25P02'' [])), w')"
    by (elim ex_forward) (simp add: FindByID_def pg_query_row_def pg_query_def pg_stmt_def bindA_def tryA_def throw_def)
  moreover have "fst (Save demo_env demo_core ?s 0 (pg_demo 6 (db demo_payments))) =
      Inl (DuplicateIdempotencyKey (ps_IdempotencyKey ?s) (ps_ID ?s) ''p1'')"
    using key_holder_unnamed_in_tx [OF _ _ _ x(1,2) _ m j, where w = "pg_demo 6 (db demo_payments)" and k = "''k''" and l = 0] h x
    by (auto simp: pg_demo_def aborted_tx_def)
  ultimately show ?thesis by (auto simp: demo_payment_def)
qed

end
