(* ===== verification/Pg_Invoice_Repo.thy ===== *)
theory Pg_Invoice_Repo
  imports Pg_Base My_Invoice_Props
begin

text \<open>
  The invoice repository of \<open>postgres/invoice_repo.go\<close>: a guarded upsert and the history rows in the ambient or
  a local transaction, the finders, and the as-of lookup. The history is stamped with \<open>NOW()\<close>, the time the
  transaction began: a save in a transaction that began before the current version was written hides that version
  from every as-of lookup. Ascending orders put \<open>NULL\<close> last. The row lock of \<open>FindByID\<close> is not modelled.
\<close>

text \<open>The partial unique index of migration 012; the columns of its key as one text, which determines them.\<close>

definition pg_period_key :: "menv \<Rightarrow> invoice_row \<Rightarrow> string option" where
  "pg_period_key env r = (case (ir_from r, ir_to r) of
      (Some from, Some to) \<Rightarrow>
        if ir_status r \<noteq> ''voided'' \<and> me_extract env (ir_metadata r) ''invoice_type'' \<noteq> Some ''proration''
        then Some (ir_contract r @ ''|'' @ format_int from @ ''|'' @ format_int to) else None
    | _ \<Rightarrow> None)"

definition pg_invoice_keys :: "menv \<Rightarrow> invoice_row unique_key list" where
  "pg_invoice_keys env = [(''invoices_pkey'', \<lambda>r. Some (ir_id r)), (''ux_invoice_period'', pg_period_key env)]"

section \<open>Save\<close>

definition nonzero :: "menv \<Rightarrow> time \<Rightarrow> time option" where
  "nonzero env t = (if is_zero_time t then None else Some (me_time env t))"

definition pg_invoice_to_row :: "menv \<Rightarrow> invoice_core \<Rightarrow> invoice_snapshot \<Rightarrow> string \<Rightarrow> string \<Rightarrow> time \<Rightarrow> invoice_row" where
  "pg_invoice_to_row env co s state metadata now = (let st = is_state s in
     \<lparr>ir_id = is_ID s, ir_number = is_InvoiceNumber s, ir_account = is_AccountID s,
      ir_contract = is_ContractID s, ir_status = is_Status s,
      ir_amounts = map (ik_int64 co) [iv_Subtotal st, iv_TaxAmount st, iv_DiscountAmount st, iv_Total st,
        iv_AppliedBalance st, iv_AmountDue st, iv_PaidAmount st, iv_Balance st],
      ir_currency = m_currency (iv_Total st),
      ir_from = map_option (\<lambda>p. me_time env (fst p)) (iv_BillingPeriod st),
      ir_to = map_option (\<lambda>p. me_time env (snd p)) (iv_BillingPeriod st),
      ir_issue = nonzero env (is_IssueDate s), ir_due = nonzero env (is_DueDate s),
      ir_paid = map_option (me_time env) (is_PaidAt s), ir_void = is_VoidReason s,
      ir_revision = is_RevisionOf s, ir_original = is_OriginalInvoiceID s, ir_method = is_PaymentMethodID s,
      ir_partial = is_AllowPartialPay s, ir_state = state, ir_metadata = metadata,
      ir_version = 1, ir_lock_version = is_Version s, ir_created = now, ir_updated = now\<rparr>)"

definition excluded_invoice :: "invoice_row \<Rightarrow> invoice_row \<Rightarrow> invoice_row" where
  "excluded_invoice new r = new\<lparr>ir_id := ir_id r, ir_account := ir_account r, ir_contract := ir_contract r,
     ir_version := ir_version r + 1, ir_created := ir_created r\<rparr>"

definition upsert_invoice :: "menv \<Rightarrow> invoice_core \<Rightarrow> invoice_snapshot \<Rightarrow> int \<Rightarrow> string \<Rightarrow> string
    \<Rightarrow> (invoice_db, nat) pgsql" where
  "upsert_invoice env co s loaded jsonState metadata = pg_write (\<lambda>now d.
     case pg_json (json_columns env jsonState metadata) of
       Inl e \<Rightarrow> Inl e
     | Inr (st, m) \<Rightarrow> (let new = pg_invoice_to_row env co s st m now in
         case pg_upsert_row (pg_invoice_keys env) ir_id new (\<lambda>r. ir_lock_version r = loaded) (excluded_invoice new)
             (t_invoices d) of
           Inl e \<Rightarrow> Inl e | Inr (n, rows) \<Rightarrow> Inr (n, d\<lparr>t_invoices := rows\<rparr>)))"

definition translateInvoiceSaveErr :: "repo_error \<Rightarrow> repo_error" where
  "translateInvoiceSaveErr err =
     (if uniqueViolationOn err ''ux_invoice_period'' then DomainError ErrCodeConflict None else err)"

text \<open>The two statements on the history; their effect on the rows is that of the MySQL statements.\<close>

definition pg_close_history :: "string \<Rightarrow> (invoice_db, unit) pgsql" where
  "pg_close_history i = pg_write (\<lambda>now d. Inr ((), d\<lparr>t_history := close_history i now (t_history d)\<rparr>))"

definition pg_insert_history :: "menv \<Rightarrow> string \<Rightarrow> string \<Rightarrow> (invoice_db, unit) pgsql" where
  "pg_insert_history env i snapshot = pg_write (\<lambda>now d. case pg_json (json_column env snapshot) of
      Inl e \<Rightarrow> Inl e
    | Inr sn \<Rightarrow> Inr ((), d\<lparr>t_history := open_history
        \<lparr>hr_id = i, hr_version = stored_version i (t_invoices d), hr_snapshot = sn, hr_from = now, hr_to = None\<rparr>
        (t_history d)\<rparr>))"

definition saveOn :: "menv \<Rightarrow> invoice_core \<Rightarrow> invoice_snapshot \<Rightarrow> int \<Rightarrow> (invoice_db, int) pgsql" where
  "saveOn env co s loaded = (case co_enc (ik_state co) (is_state s) of
      None \<Rightarrow> throw (OtherError ''marshal state'')
    | Some jsonState \<Rightarrow> (case co_enc (ik_meta co) (is_Metadata s) of
        None \<Rightarrow> throw (OtherError ''marshal metadata'')
      | Some metadata \<Rightarrow>
          bindA (mapErrA translateInvoiceSaveErr (upsert_invoice env co s loaded jsonState metadata)) (\<lambda>affected.
          if affected = 0 then throw TxVersionConflict
          else bindA (pg_close_history (is_ID s)) (\<lambda>_.
            case co_enc (ik_history co) s of
              None \<Rightarrow> throw (OtherError ''marshal snapshot'')
            | Some snapshot \<Rightarrow> bindA (pg_insert_history env (is_ID s) snapshot) (\<lambda>_. ret (is_Version s))))))"

definition Save :: "menv \<Rightarrow> invoice_core \<Rightarrow> invoice_snapshot \<Rightarrow> int \<Rightarrow> (invoice_db, int) pgsql" where
  "Save env co s loaded = bindA in_tx (\<lambda>ambient.
     if ambient then saveOn env co s loaded else pg_own_tx (saveOn env co s loaded))"

section \<open>Finders\<close>

definition scanInvoiceSnapshot :: "invoice_core \<Rightarrow> invoice_row \<Rightarrow> repo_error + invoice_snapshot" where
  "scanInvoiceSnapshot co r =
     (case (if ir_state r \<noteq> [] then co_dec (ik_state co) (ir_state r) else Some zero_invoiceJSONState) of
        None \<Rightarrow> Inl (OtherError ''unmarshal state'')
      | Some js \<Rightarrow>
          (case (if ir_metadata r \<noteq> [] then co_dec (ik_meta co) (ir_metadata r) else Some []) of
             None \<Rightarrow> Inl (OtherError ''unmarshal metadata'')
           | Some meta \<Rightarrow> Inr
              \<lparr>is_ID = ir_id r, is_InvoiceNumber = ir_number r, is_AccountID = ir_account r,
               is_ContractID = ir_contract r, is_Status = ir_status r, is_state = js,
               is_IssueDate = (case ir_issue r of Some t \<Rightarrow> t | None \<Rightarrow> zero_time),
               is_DueDate = (case ir_due r of Some t \<Rightarrow> t | None \<Rightarrow> zero_time),
               is_PaidAt = ir_paid r, is_PaymentMethodID = ir_method r, is_AllowPartialPay = ir_partial r,
               is_OriginalInvoiceID = ir_original r, is_RevisionOf = ir_revision r,
               is_VoidReason = ir_void r, is_Metadata = meta, is_Version = ir_lock_version r\<rparr>))"

definition invoice_of_row :: "invoice_core \<Rightarrow> invoice_row \<Rightarrow> repo_error + invoice" where
  "invoice_of_row co r = (case scanInvoiceSnapshot co r of
      Inl e \<Rightarrow> Inl e | Inr s \<Rightarrow> InvoiceFromSnapshot co s)"

text \<open>\<open>FindByID\<close> and \<open>scanInvoiceRow\<close>.\<close>

definition FindByID :: "invoice_core \<Rightarrow> string \<Rightarrow> (invoice_db, invoice) pgsql" where
  "FindByID co i = tryA (pg_query_row (\<lambda>d. find (\<lambda>r. ir_id r = i) (t_invoices d)))
     (\<lambda>e. if as_db e = Some ErrNoRows then throw (DomainError ErrCodeNotFound None) else throw e)
     (\<lambda>r. liftA (invoice_of_row co r))"

definition scanInvoiceRows :: "invoice_core \<Rightarrow> invoice_row list \<Rightarrow> (invoice_db, invoice list) pgsql" where
  "scanInvoiceRows co rows = mapA (\<lambda>r. liftA (invoice_of_row co r)) rows"

definition newest_first :: "(invoice_row \<Rightarrow> bool) \<Rightarrow> invoice_db \<Rightarrow> invoice_row list" where
  "newest_first p d = sort_key (\<lambda>r. - ir_created r) (filter p (t_invoices d))"

definition FindByContractID :: "invoice_core \<Rightarrow> string \<Rightarrow> (invoice_db, invoice list) pgsql" where
  "FindByContractID co c = bindA (pg_query (newest_first (\<lambda>r. ir_contract r = c))) (scanInvoiceRows co)"

definition FindByAccountID :: "invoice_core \<Rightarrow> string \<Rightarrow> (invoice_db, invoice list) pgsql" where
  "FindByAccountID co a = bindA (pg_query (newest_first (\<lambda>r. ir_account r = a))) (scanInvoiceRows co)"

definition FindByStatus :: "invoice_core \<Rightarrow> string \<Rightarrow> (invoice_db, invoice list) pgsql" where
  "FindByStatus co st = bindA (pg_query (newest_first (\<lambda>r. ir_status r = st))) (scanInvoiceRows co)"

definition FindByContractAndStatus :: "invoice_core \<Rightarrow> string \<Rightarrow> string \<Rightarrow> (invoice_db, invoice list) pgsql" where
  "FindByContractAndStatus co c st =
     bindA (pg_query (newest_first (\<lambda>r. ir_contract r = c \<and> ir_status r = st))) (scanInvoiceRows co)"

definition pg_overdue :: "time \<Rightarrow> invoice_row \<Rightarrow> bool" where
  "pg_overdue now r \<longleftrightarrow> ir_status r = ''overdue'' \<or>
     (ir_status r \<in> {''issued'', ''finalized''} \<and> (case ir_due r of None \<Rightarrow> False | Some t \<Rightarrow> t < now))"

definition FindOverdue :: "invoice_core \<Rightarrow> (invoice_db, invoice list) pgsql" where
  "FindOverdue co = bindA (pg_query_now (\<lambda>now d. nulls_last ir_due (filter (pg_overdue now) (t_invoices d))))
     (scanInvoiceRows co)"

definition FindByContractAndPeriod :: "menv \<Rightarrow> invoice_core \<Rightarrow> string \<Rightarrow> time \<Rightarrow> time
    \<Rightarrow> (invoice_db, invoice list) pgsql" where
  "FindByContractAndPeriod env co c from to = bindA (pg_query (\<lambda>d. nulls_last ir_issue (filter (\<lambda>r.
     ir_contract r = c \<and> ir_from r = Some (me_time env from) \<and> ir_to r = Some (me_time env to)) (t_invoices d))))
     (scanInvoiceRows co)"

definition FindUnpaidByContract :: "invoice_core \<Rightarrow> string \<Rightarrow> (invoice_db, invoice list) pgsql" where
  "FindUnpaidByContract co c = bindA (pg_query (\<lambda>d. nulls_last ir_due (filter (\<lambda>r.
     ir_contract r = c \<and> ir_status r \<notin> {''paid'', ''voided'', ''refunded''}) (t_invoices d))))
     (scanInvoiceRows co)"

definition FindByIDAsOf :: "menv \<Rightarrow> invoice_core \<Rightarrow> string \<Rightarrow> time \<Rightarrow> (invoice_db, invoice) pgsql" where
  "FindByIDAsOf env co i asOf = tryA (pg_query_row (\<lambda>d. valid_at i (me_time env asOf) (t_history d)))
     (\<lambda>e. if as_db e = Some ErrNoRows then throw (DomainError ErrCodeNotFound None) else throw e)
     (\<lambda>r. case co_dec (ik_history co) (hr_snapshot r) of
        None \<Rightarrow> throw (OtherError ''unmarshal history'')
      | Some s \<Rightarrow> liftA (InvoiceFromSnapshot co s))"

section \<open>The repository is a guarded store\<close>

lemma pg_sane_saveOn [pg_sane_intros]: "pg_sane (saveOn env co s l)"
  unfolding saveOn_def upsert_invoice_def pg_close_history_def pg_insert_history_def by (intro pg_sane_intros)

lemma pg_calm_saveOn [keeps_intros]: "keeps calm (saveOn env co s l)"
  unfolding saveOn_def upsert_invoice_def pg_close_history_def pg_insert_history_def by (intro keeps_intros)

text \<open>A run of the body that succeeds, statement by statement.\<close>

lemma saveOn_Inr:
  assumes "saveOn env co s l w = (Inr v, w')"
  obtains js md st m n rows snapshot sn where "co_enc (ik_state co) (is_state s) = Some js" "co_enc (ik_meta co) (is_Metadata s) = Some md"
    "json_columns env js md = Inr (st, m)" "n \<noteq> 0" "v = is_Version s"
    "pg_upsert_row (pg_invoice_keys env) ir_id (pg_invoice_to_row env co s st m (pg_now w)) (\<lambda>r. ir_lock_version r = l)
       (excluded_invoice (pg_invoice_to_row env co s st m (pg_now w))) (t_invoices (pg_data (db w))) = Inr (n, rows)"
    "co_enc (ik_history co) s = Some snapshot" "json_column env snapshot = Inr sn"
    "pg_data (db w') = (pg_data (db w))\<lparr>t_invoices := rows, t_history := open_history
        \<lparr>hr_id = is_ID s, hr_version = stored_version (is_ID s) rows, hr_snapshot = sn, hr_from = pg_now w, hr_to = None\<rparr>
        (close_history (is_ID s) (pg_now w) (t_history (pg_data (db w))))\<rparr>"
proof -
  obtain js md where m: "co_enc (ik_state co) (is_state s) = Some js" "co_enc (ik_meta co) (is_Metadata s) = Some md"
    using assms by (auto simp: saveOn_def throw_def split: option.splits)
  with assms obtain n w1 w2 snapshot w3 where u: "upsert_invoice env co s l js md w = (Inr n, w1)" "n \<noteq> 0"
    and c: "pg_close_history (is_ID s) w1 = (Inr (), w2)" and h: "co_enc (ik_history co) s = Some snapshot"
    and i: "pg_insert_history env (is_ID s) snapshot w2 = (Inr (), w3)" and r: "v = is_Version s" "w' = w3"
    by (auto simp: saveOn_def bindA_Inr mapErrA_def tryA_def throw_def ret_def split: if_splits sum.splits prod.splits option.splits)
  from pg_write_Inr [OF u(1) [unfolded upsert_invoice_def]] obtain st ma rows where
    u': "json_columns env js md = Inr (st, ma)" "pg_upsert_row (pg_invoice_keys env) ir_id
      (pg_invoice_to_row env co s st ma (pg_now w)) (\<lambda>r. ir_lock_version r = l)
      (excluded_invoice (pg_invoice_to_row env co s st ma (pg_now w))) (t_invoices (pg_data (db w))) = Inr (n, rows)"
    "pg_data (db w1) = (pg_data (db w))\<lparr>t_invoices := rows\<rparr>" "pg_now w1 = pg_now w"
    by (auto simp: Let_def split: sum.splits prod.splits)
  from pg_write_Inr [OF c [unfolded pg_close_history_def]] have c': "pg_data (db w2) =
      (pg_data (db w1))\<lparr>t_history := close_history (is_ID s) (pg_now w1) (t_history (pg_data (db w1)))\<rparr>" "pg_now w2 = pg_now w1"
    by auto
  from pg_write_Inr [OF i [unfolded pg_insert_history_def]] obtain sn where "json_column env snapshot = Inr sn"
    "pg_data (db w3) = (pg_data (db w2))\<lparr>t_history := open_history \<lparr>hr_id = is_ID s,
        hr_version = stored_version (is_ID s) (t_invoices (pg_data (db w2))), hr_snapshot = sn, hr_from = pg_now w2, hr_to = None\<rparr>
        (t_history (pg_data (db w2)))\<rparr>" by (auto split: sum.splits)
  with m u u' c' h r show thesis by (intro that) simp_all
qed

lemma pg_invoice_to_row_sel [simp]:
  "ir_id (pg_invoice_to_row env co s st m n) = is_ID s"
  "ir_lock_version (pg_invoice_to_row env co s st m n) = is_Version s"
  "ir_version (pg_invoice_to_row env co s st m n) = 1"
  by (simp_all add: pg_invoice_to_row_def Let_def)

lemma excluded_invoice_sel [simp]:
  "ir_id (excluded_invoice new r) = ir_id r" "ir_lock_version (excluded_invoice new r) = ir_lock_version new"
  "ir_version (excluded_invoice new r) = ir_version r + 1"
  by (simp_all add: excluded_invoice_def)

lemma pg_invoice_Save_outcome:
  assumes q: "quiet w" and run: "Save env co s l w = (r, w')"
  shows "pg_outcome t_invoices ir_id ir_lock_version (is_ID s) l (is_Version s) w r w'"
proof -
  have "in_tx w = (Inr False, w)" using q by (simp add: in_tx_def quiet_def)
  with run have "pg_own_tx (saveOn env co s l) w = (r, w')" by (simp add: Save_def bindA_run [of in_tx w])
  from q this pg_sane_saveOn pg_calm_saveOn show ?thesis
  proof (cases rule: pg_own_tx_quiet)
    case (committed a w1 w2)
    from saveOn_Inr [OF committed(2)] obtain js md st m n rows snapshot sn where v: "n \<noteq> 0" "a = is_Version s"
      and u: "pg_upsert_row (pg_invoice_keys env) ir_id (pg_invoice_to_row env co s st m (pg_now w1)) (\<lambda>r. ir_lock_version r = l)
         (excluded_invoice (pg_invoice_to_row env co s st m (pg_now w1))) (t_invoices (pg_data (db w1))) = Inr (n, rows)"
      and d: "pg_data (db w2) = (pg_data (db w1))\<lparr>t_invoices := rows, t_history := open_history
        \<lparr>hr_id = is_ID s, hr_version = stored_version (is_ID s) rows, hr_snapshot = sn, hr_from = pg_now w1, hr_to = None\<rparr>
        (close_history (is_ID s) (pg_now w1) (t_history (pg_data (db w1))))\<rparr>" .
    from rows_saved_upsert [OF u, of "is_ID s" "is_Version s"] v d committed show ?thesis
      by (simp add: pg_outcome_def)
  next
    case (failed e)
    then show ?thesis by (simp add: pg_outcome_def)
  qed
qed

interpretation pg_invoices: guarded_store "Save env co" is_ID is_Version
    "pg_versions t_invoices ir_id ir_lock_version" "pg_keyed t_invoices ir_id" for env co
  by (rule pg_guarded_storeI) (rule pg_invoice_Save_outcome)

end
