(* ===== verification/Pg_Invoice_Props.thy ===== *)
theory Pg_Invoice_Props
  imports Pg_Invoice_Repo
begin

text \<open>
  Properties of the PostgreSQL invoice repository: what the as-of lookup returns when a transaction that
  saves an invoice began before the version it replaces was written.
\<close>

lemma sort_key_min_snoc: "\<forall>y \<in> set ys. f h < f y \<Longrightarrow> sort_key f (ys @ [h]) = h # sort_key f ys"
  by (induction ys) auto

lemma valid_at_SomeD:
  assumes "valid_at i t rows = Some r"
  shows "r \<in> set (filter (\<lambda>r. hr_id r = i) rows)" "hr_from r \<le> t"
proof -
  let ?xs = "filter (\<lambda>r. hr_id r = i \<and> hr_from r \<le> t \<and> (case hr_to r of None \<Rightarrow> True | Some u \<Rightarrow> t < u)) rows"
  obtain rs where "sort_key (\<lambda>r. - hr_version r) ?xs = r # rs" using assms by (auto simp: valid_at_def split: list.splits)
  then have "r \<in> set (sort_key (\<lambda>r. - hr_version r) ?xs)" by (metis list.set_intros(1))
  then show "r \<in> set (filter (\<lambda>r. hr_id r = i) rows)" "hr_from r \<le> t" by simp_all
qed

lemma window_last: "r \<in> set (windows i 1 (xs @ [(t1, sn1)])) \<Longrightarrow> hr_version r = int (length xs) + 1 \<Longrightarrow> hr_from r = t1"
  unfolding windows_snoc by (auto simp: close_history_def dest!: windows_versions)

lemma open_window_moved:
  assumes h: "filter (\<lambda>r. hr_id r = i) hist = windows i 1 (xs @ [(t1, sn1)])"
    and s: "sorted (map fst (xs @ [(t1, sn1)]))" and n: "now < t1" and v: "hr_id h = i" "hr_version h = int (length xs) + 2"
      "hr_from h = now" "hr_to h = None"
  shows "valid_at i t (open_history h (close_history i now hist)) = (if now \<le> t then Some h else valid_at i t hist)"
proof -
  have fresh: "\<not> (\<exists>x \<in> set (close_history i now hist). hr_id x = hr_id h \<and> hr_version x = hr_version h)"
  proof
    assume "\<exists>x \<in> set (close_history i now hist). hr_id x = hr_id h \<and> hr_version x = hr_version h"
    then have "\<exists>x \<in> set hist. hr_id x = i \<and> hr_version x = int (length xs) + 2" unfolding v close_history_keys .
    then obtain x where "x \<in> set (filter (\<lambda>r. hr_id r = i) hist)" "hr_version x = int (length xs) + 2" by auto
    with windows_versions [of x i 1 "xs @ [(t1, sn1)]"] h show False by simp
  qed
  have f: "filter (\<lambda>r. hr_id r = i \<and> hr_from r \<le> t \<and> (case hr_to r of None \<Rightarrow> True | Some u \<Rightarrow> t < u)) rs
      = filter (in_window t) (filter (\<lambda>r. hr_id r = i) rs)" for rs
    by (simp add: in_window_def conj_commute)
  let ?last = "\<lparr>hr_id = i, hr_version = 1 + int (length xs), hr_snapshot = sn1, hr_from = t1, hr_to = None\<rparr>"
  let ?ws = "close_history i t1 (windows i 1 xs)"
  have w: "windows i 1 (xs @ [(t1, sn1)]) = ?ws @ [?last]" by (rule windows_snoc)
  have closed: "hr_to r \<noteq> None" if "r \<in> set ?ws" for r
    using that windows_versions [of _ i 1 xs] by (auto simp: close_history_def)
  then have "close_history i now ?ws = ?ws" by (auto simp: close_history_def intro!: map_idI)
  then have cw: "close_history i now (?ws @ [?last]) = ?ws @ [?last\<lparr>hr_to := Some now\<rparr>]"
    by (simp add: close_history_def)
  have "open_history h (close_history i now hist) = close_history i now hist @ [h]"
    unfolding open_history_def using fresh by (simp only: if_False)
  then have cl: "filter (\<lambda>r. hr_id r = i) (open_history h (close_history i now hist))
      = ?ws @ [?last\<lparr>hr_to := Some now\<rparr>] @ [h]"
    using v(1) by (simp add: filter_close_history h w cw)
  show ?thesis
  proof (cases "now \<le> t")
    case True
    have "\<forall>y \<in> set (filter (in_window t) ?ws). - hr_version h < - hr_version y"
      using v(2) by (auto simp: close_history_def dest!: windows_versions)
    from sort_key_min_snoc [of _ "\<lambda>r. - hr_version r", OF this]
    show ?thesis using True v n unfolding valid_at_def f cl by (simp add: in_window_def)
  next
    case False
    then show ?thesis using n v unfolding valid_at_def f cl h w by (simp add: in_window_def)
  qed
qed


text \<open>C28. A save in a transaction that began before the current version of the invoice was written, as when it
  waited for the row lock that \<open>FindByID\<close> takes: history rows are stamped with the beginning of the
  transaction, so the window of the version that is replaced is closed before it was opened, and the as-of lookup
  returns that version at no instant. From the beginning of the transaction on it returns the new state, although
  the replaced version was written later than that; before, it returns what it did.\<close>

theorem pg_history_backdated:
  assumes run: "saveOn env co s l w = (Inr v, w')" and late: "pg_now w < t1"
    and h: "history_ok (is_ID s) (xs @ [(t1, sn1)]) (pg_data (db w))" and srt: "sorted (map fst (xs @ [(t1, sn1)]))"
    and k: "pg_keyed t_invoices ir_id (db w)"
  shows "\<exists>sn. recorded env co s sn \<and> (\<forall>t. map_option hr_snapshot (valid_at (is_ID s) t (t_history (pg_data (db w')))) =
     (if pg_now w \<le> t then Some sn
      else map_option hr_snapshot (valid_at (is_ID s) t (t_history (pg_data (db w)))))) \<and>
    (\<forall>t r. valid_at (is_ID s) t (t_history (pg_data (db w'))) = Some r \<longrightarrow> hr_version r \<noteq> int (length xs) + 1)"
proof -
  from saveOn_Inr [OF run] obtain js md st m n rows snapshot sn where nz: "n \<noteq> 0"
    and u: "pg_upsert_row (pg_invoice_keys env) ir_id (pg_invoice_to_row env co s st m (pg_now w)) (\<lambda>r. ir_lock_version r = l)
      (excluded_invoice (pg_invoice_to_row env co s st m (pg_now w))) (t_invoices (pg_data (db w))) = Inr (n, rows)"
    and sn: "co_enc (ik_history co) s = Some snapshot" "json_column env snapshot = Inr sn"
    and d: "pg_data (db w') = (pg_data (db w))\<lparr>t_invoices := rows, t_history := open_history
        \<lparr>hr_id = is_ID s, hr_version = stored_version (is_ID s) rows, hr_snapshot = sn, hr_from = pg_now w, hr_to = None\<rparr>
        (close_history (is_ID s) (pg_now w) (t_history (pg_data (db w))))\<rparr>" .
  from h obtain r0 where r0: "lookup_row ir_id (is_ID s) (t_invoices (pg_data (db w))) = Some r0" "ir_version r0 = int (length xs) + 1"
    by (auto simp: history_ok_def split: option.splits)
  have sv: "stored_version (is_ID s) rows = int (length xs) + 2"
    using u
  proof (cases rule: pg_upsert_cases)
    case (updated ys x zs)
    then have "lookup_row ir_id (is_ID s) (t_invoices (pg_data (db w))) = Some x"
      using k lookup_row_here [of ir_id ys x zs] by (simp add: pg_keyed_def)
    with r0 have x: "ir_version x = int (length xs) + 1" by simp
    have "distinct (map ir_id (ys @ x # zs))" using k updated by (simp add: pg_keyed_def)
    from lookup_row_mid [OF this, of "excluded_invoice (pg_invoice_to_row env co s st m (pg_now w)) x" "is_ID s"] updated
    have "lookup_row ir_id (is_ID s) rows = Some (excluded_invoice (pg_invoice_to_row env co s st m (pg_now w)) x)" by simp
    with x show ?thesis by (simp add: stored_version_def lookup_row_def)
  next
    case inserted
    then have "lookup_row ir_id (is_ID s) (t_invoices (pg_data (db w))) = None" by (simp add: lookup_row_None)
    with r0 show ?thesis by simp
  qed (use nz in simp)
  have hd: "t_history (pg_data (db w')) = open_history
      \<lparr>hr_id = is_ID s, hr_version = stored_version (is_ID s) rows, hr_snapshot = sn, hr_from = pg_now w, hr_to = None\<rparr>
      (close_history (is_ID s) (pg_now w) (t_history (pg_data (db w))))" by (simp add: d)
  have va: "valid_at (is_ID s) t (t_history (pg_data (db w'))) = (if pg_now w \<le> t then
      Some \<lparr>hr_id = is_ID s, hr_version = stored_version (is_ID s) rows, hr_snapshot = sn, hr_from = pg_now w, hr_to = None\<rparr>
      else valid_at (is_ID s) t (t_history (pg_data (db w))))" for t
    unfolding hd by (rule open_window_moved [OF _ srt late]) (use h sv in \<open>simp_all add: history_ok_def\<close>)
  have "hr_version r \<noteq> int (length xs) + 1" if "valid_at (is_ID s) t (t_history (pg_data (db w))) = Some r" "t < t1" for t r
  proof
    assume "hr_version r = int (length xs) + 1"
    moreover have "r \<in> set (windows (is_ID s) 1 (xs @ [(t1, sn1)]))"
      using valid_at_SomeD(1) [OF that(1)] h by (simp only: history_ok_def)
    ultimately have "hr_from r = t1" by (intro window_last)
    with valid_at_SomeD(2) [OF that(1)] that(2) show False by simp
  qed
  with sn sv late show ?thesis unfolding va recorded_def by (auto split: if_splits)
qed


definition demo_pg_invs :: "invoice_db pg_db world" where
  "demo_pg_invs = \<lparr>db = \<lparr>pg_data = db demo_invs, pg_start = 2, pg_aborted = False\<rparr>,
     saved = Some \<lparr>pg_data = db demo_invs, pg_start = 2, pg_aborted = False\<rparr>, autoinc = 1, clk = 5, snow = 6, faults = []\<rparr>"

lemma demo_pg_paid: "fst (saveOn demo_env demo_inv_core (demo_inv ''v1'' ''paid'' 2) 1 demo_pg_invs) = Inr 2"
  by code_simp

theorem pg_history_backdated_witness:
  "\<exists>w'. saveOn demo_env demo_inv_core (demo_inv ''v1'' ''paid'' 2) 1 demo_pg_invs = (Inr 2, w') \<and>
     map_option hr_snapshot (valid_at ''v1'' 2 (t_history (pg_data (db w')))) = Some ''paid'' \<and>
     map_option hr_snapshot (valid_at ''v1'' 3 (t_history (pg_data (db w')))) = Some ''paid'' \<and>
     (\<forall>t r. valid_at ''v1'' t (t_history (pg_data (db w'))) = Some r \<longrightarrow> hr_version r \<noteq> 1)"
proof -
  let ?s = "demo_inv ''v1'' ''paid'' 2"
  obtain w' where run: "saveOn demo_env demo_inv_core ?s 1 demo_pg_invs = (Inr 2, w')"
    using demo_pg_paid by (metis prod.collapse)
  have s: "is_ID ?s = ''v1''" "pg_now demo_pg_invs = 2" "pg_data (db demo_pg_invs) = db demo_invs"
    by (simp_all add: demo_inv_def demo_pg_invs_def pg_now_def)
  have h: "history_ok (is_ID ?s) ([] @ [(3, ''issued'')]) (pg_data (db demo_pg_invs))"
    using demo_invs_ok(5) [of "''v1''"] unfolding s by (simp add: demo_hist_def)
  have k: "pg_keyed t_invoices ir_id (db demo_pg_invs)" using demo_invs_ok(4) by (simp add: pg_keyed_def s invoices_keyed_def)
  have rec: "recorded demo_env demo_inv_core ?s sn \<Longrightarrow> sn = ''paid''" for sn
    by (simp add: recorded_def demo_inv_core_def demo_env_def json_column_def demo_inv_def)
  from pg_history_backdated [OF run _ h _ k] obtain sn where "recorded demo_env demo_inv_core ?s sn"
    "\<forall>t. map_option hr_snapshot (valid_at ''v1'' t (t_history (pg_data (db w')))) = (if 2 \<le> t then Some sn
       else map_option hr_snapshot (valid_at ''v1'' t (t_history (db demo_invs))))"
    "\<forall>t r. valid_at ''v1'' t (t_history (pg_data (db w'))) = Some r \<longrightarrow> hr_version r \<noteq> 1"
    unfolding s by auto
  with rec [of sn] run show ?thesis by (simp del: map_option_eq_Some)
qed

end
