(* ===== verification/Pg_EventStore.thy ===== *)
theory Pg_EventStore
  imports Pg_Base My_EventStore_Props
begin

text \<open>
  The event store of \<open>postgres/eventstore.go\<close>: append, the load operations, snapshots and the options. The
  events and their rows are those of the MySQL adapter; the position is drawn from a sequence, the time of
  recording is the server's, and conflicts are told apart by the constraint an error names. The subscription is in
  \<open>Pg_Subscription\<close>. The parameter \<open>raw\<close> is \<open>json.Marshal\<close> of a raw message, \<open>None\<close> for invalid text.
\<close>

record pg_es_options =
  po_catchUpBatch :: nat
  po_maxReconnects :: nat
  po_handler :: bool

definition subscriberBuffer :: int where "subscriberBuffer = 100"

definition defaultCatchUpBatch :: nat where "defaultCatchUpBatch = 1000"

definition eventAppendLockKey :: int where "eventAppendLockKey = 111559182283891"

definition WithSubscriptionErrorHandler :: "pg_es_options \<Rightarrow> pg_es_options" where
  "WithSubscriptionErrorHandler s = s\<lparr>po_handler := True\<rparr>"

definition WithSubscriptionMaxReconnects :: "int \<Rightarrow> pg_es_options \<Rightarrow> pg_es_options" where
  "WithSubscriptionMaxReconnects n s = (if 0 < n then s\<lparr>po_maxReconnects := nat n\<rparr> else s)"

definition WithCatchUpBatchSize :: "int \<Rightarrow> pg_es_options \<Rightarrow> pg_es_options" where
  "WithCatchUpBatchSize n s = (if 0 < n then s\<lparr>po_catchUpBatch := nat n\<rparr> else s)"

definition NewEventStore :: "(pg_es_options \<Rightarrow> pg_es_options) list \<Rightarrow> pg_es_options" where
  "NewEventStore opts = fold (\<lambda>opt s. opt s) opts
     \<lparr>po_catchUpBatch = defaultCatchUpBatch, po_maxReconnects = 0, po_handler = False\<rparr>"

section \<open>Append\<close>

text \<open>An \<open>INSERT\<close> that draws from a sequence: the number drawn is used up even if the row is rejected.\<close>

definition pg_seq_write :: "(time \<Rightarrow> int \<Rightarrow> 'd \<Rightarrow> (db_error + 'd) \<times> int) \<Rightarrow> ('d, unit) pgsql" where
  "pg_seq_write f w = pg_wrap (stmt (\<lambda>d n. case f (pg_now w) n (pg_data d) of
      (Inl e, n') \<Rightarrow> (Inl e, d, n') | (Inr x, n') \<Rightarrow> (Inr (), d\<lparr>pg_data := x\<rparr>, n'))) w"

definition contractIdempotencyKeyConstraint :: string where
  "contractIdempotencyKeyConstraint = ''ux_contract_idempotency_key''"

text \<open>The partial index of migration 010 and the constraints of the table; two columns as one text, as for MySQL.\<close>

definition pg_contract_key :: "menv \<Rightarrow> event_row \<Rightarrow> string option" where
  "pg_contract_key env r =
     (if er_type r = ''contract.created''
      then (case me_extract env (er_data r) ''idempotency_key'' of Some s \<Rightarrow> if s = [] then None else Some s | None \<Rightarrow> None)
      else None)"

definition pg_event_keys :: "menv \<Rightarrow> event_row unique_key list" where
  "pg_event_keys env =
     [(''events_pkey'', \<lambda>r. Some (er_id r)),
      (''events_stream_id_version_key'', \<lambda>r. Some (er_stream r @ ''-'' @ format_int (er_version r))),
      (contractIdempotencyKeyConstraint, pg_contract_key env)]"

definition pg_insert_event :: "menv \<Rightarrow> event_row \<Rightarrow> time \<Rightarrow> int \<Rightarrow> 'm log_db_scheme
    \<Rightarrow> (db_error + 'm log_db_scheme) \<times> int" where
  "pg_insert_event env r now n d = (case (me_json env (er_data r), me_json env (er_meta r)) of
      (Some data, Some meta) \<Rightarrow>
        (case pg_insert_row (pg_event_keys env)
            (r\<lparr>er_pos := n, er_data := data, er_meta := meta, er_recorded := now\<rparr>) (t_events d) of
           Inl e \<Rightarrow> (Inl e, n + 1)
         | Inr rows \<Rightarrow> (Inr (d\<lparr>t_events := rows\<rparr>), n + 1))
    | _ \<Rightarrow> (Inl (PgError ''22P02'' []), n))"

definition pg_event_to_row :: "menv \<Rightarrow> string \<Rightarrow> int \<Rightarrow> string \<Rightarrow> string \<Rightarrow> event \<Rightarrow> event_row" where
  "pg_event_to_row env streamID version data metadata e =
     \<lparr>er_pos = 0, er_id = ev_ID e, er_stream = streamID, er_type = ev_Type e, er_version = version,
      er_schema = ev_SchemaVersion e, er_data = data, er_meta = metadata,
      er_occurred = me_time env (ev_OccurredAt e), er_recorded = 0\<rparr>"

definition isVersionConflict :: "repo_error \<Rightarrow> bool" where
  "isVersionConflict err = uniqueViolationOn err ''events_stream_id_version_key''"

definition isContractIdempotencyKeyConflict :: "repo_error \<Rightarrow> bool" where
  "isContractIdempotencyKeyConflict err = uniqueViolationOn err contractIdempotencyKeyConstraint"

definition pg_translate_insert_error :: "repo_error \<Rightarrow> repo_error" where
  "pg_translate_insert_error err =
     (if isVersionConflict err then DomainError ErrCodeVersionConflict None
      else if isContractIdempotencyKeyConflict err then DomainError ErrCodeConflict (Some err)
      else err)"

definition append_event :: "(string \<Rightarrow> string option) \<Rightarrow> menv \<Rightarrow> string \<Rightarrow> int \<times> event
    \<Rightarrow> ('m log_db_scheme, unit) pgsql" where
  "append_event raw env streamID ve = (case ve of (version, e) \<Rightarrow>
     (case raw (ev_Data e) of
        None \<Rightarrow> throw (OtherError ''marshal event data'')
      | Some data \<Rightarrow> (case me_marshal env (ev_Metadata e) of
          None \<Rightarrow> throw (OtherError ''marshal event metadata'')
        | Some metadata \<Rightarrow> mapErrA pg_translate_insert_error
            (pg_seq_write (pg_insert_event env (pg_event_to_row env streamID version data metadata e))))))"

text \<open>\<open>pg_advisory_xact_lock\<close>: what it waits for is part of the interleaved runs of \<open>Pg_Subscription\<close>.\<close>

definition advisory_xact_lock :: "int \<Rightarrow> ('d, unit) pgsql" where
  "advisory_xact_lock key = pg_query (\<lambda>_. ())"

definition appendInTx :: "(string \<Rightarrow> string option) \<Rightarrow> menv \<Rightarrow> string \<Rightarrow> event list \<Rightarrow> int
    \<Rightarrow> ('m log_db_scheme, unit) pgsql" where
  "appendInTx raw env streamID es expectedVersion =
     bindA (advisory_xact_lock eventAppendLockKey) (\<lambda>_.
     bindA (pg_query (count_stream streamID)) (\<lambda>current.
     if current \<noteq> expectedVersion then throw (DomainError ErrCodeVersionConflict None)
     else if \<exists>(v, e) \<in> set (numbered expectedVersion es). ev_Version e \<noteq> v
     then throw (DomainError ErrCodeValidation None)
     else forA (append_event raw env streamID) (numbered expectedVersion es)))"

definition Append :: "(string \<Rightarrow> string option) \<Rightarrow> menv \<Rightarrow> string \<Rightarrow> event list \<Rightarrow> int
    \<Rightarrow> ('m log_db_scheme, unit) pgsql" where
  "Append raw env streamID es expectedVersion =
     (if es = [] then ret ()
      else bindA in_tx (\<lambda>ambient.
        if ambient then appendInTx raw env streamID es expectedVersion
        else pg_own_tx (appendInTx raw env streamID es expectedVersion)))"

section \<open>Load\<close>

definition scanEvents :: "menv \<Rightarrow> event_row list \<Rightarrow> ('d, event list) pgsql" where
  "scanEvents env rows = mapA (\<lambda>r. liftA (row_to_event env r)) rows"

definition Load :: "menv \<Rightarrow> string \<Rightarrow> ('m log_db_scheme, event list) pgsql" where
  "Load env streamID = bindA (pg_query (stream_rows streamID)) (scanEvents env)"

definition LoadUntilVersion :: "menv \<Rightarrow> string \<Rightarrow> int \<Rightarrow> ('m log_db_scheme, event list) pgsql" where
  "LoadUntilVersion env streamID version =
     bindA (pg_query (\<lambda>d. filter (\<lambda>r. er_version r \<le> version) (stream_rows streamID d))) (scanEvents env)"

definition LoadUntil :: "menv \<Rightarrow> string \<Rightarrow> time \<Rightarrow> ('m log_db_scheme, event list) pgsql" where
  "LoadUntil env streamID until =
     bindA (pg_query (\<lambda>d. filter (\<lambda>r. er_occurred r \<le> me_time env until) (stream_rows streamID d))) (scanEvents env)"

definition LoadRange :: "menv \<Rightarrow> string \<Rightarrow> time \<Rightarrow> time \<Rightarrow> ('m log_db_scheme, event list) pgsql" where
  "LoadRange env streamID from to =
     bindA (pg_query (\<lambda>d. filter (\<lambda>r. me_time env from \<le> er_occurred r \<and> er_occurred r < me_time env to)
       (stream_rows streamID d))) (scanEvents env)"

definition LoadAll :: "menv \<Rightarrow> int \<Rightarrow> int \<Rightarrow> ('m log_db_scheme, event list) pgsql" where
  "LoadAll env fromPosition lmt = bindA (pg_query (all_rows fromPosition lmt)) (scanEvents env)"

section \<open>Snapshots\<close>

definition SaveSnapshot :: "(string \<Rightarrow> string option) \<Rightarrow> menv \<Rightarrow> snapshot \<Rightarrow> ('m log_db_scheme, unit) pgsql" where
  "SaveSnapshot raw env s = (case raw (sn_State s) of
      None \<Rightarrow> throw (OtherError ''marshal snapshot state'')
    | Some state \<Rightarrow> pg_write (\<lambda>now d. case me_json env state of
        None \<Rightarrow> Inl (PgError ''22P02'' [])
      | Some st \<Rightarrow> Inr ((), d\<lparr>t_snapshots := upsert_snapshot
          \<lparr>sr_stream = sn_StreamID s, sr_version = sn_Version s, sr_state = st, sr_as_of = me_time env (sn_AsOf s),
           sr_created = (if is_zero_time (sn_CreatedAt s) then now else me_time env (sn_CreatedAt s))\<rparr>
          (t_snapshots d)\<rparr>)))"

definition loadSnapshotRow :: "('m log_db_scheme \<Rightarrow> snapshot_row option) \<Rightarrow> ('m log_db_scheme, snapshot option) pgsql" where
  "loadSnapshotRow sql = tryA (pg_query_row sql)
     (\<lambda>e. if as_db e = Some ErrNoRows then ret None else throw e)
     (\<lambda>r. ret (Some (row_to_snapshot r)))"

definition LoadSnapshot :: "string \<Rightarrow> ('m log_db_scheme, snapshot option) pgsql" where
  "LoadSnapshot streamID = loadSnapshotRow (\<lambda>d. first_row
     (sort_key (\<lambda>r. - sr_version r) (filter (\<lambda>r. sr_stream r = streamID) (t_snapshots d))))"

definition LoadSnapshotBefore :: "menv \<Rightarrow> string \<Rightarrow> time \<Rightarrow> ('m log_db_scheme, snapshot option) pgsql" where
  "LoadSnapshotBefore env streamID before = loadSnapshotRow (\<lambda>d. first_row
     (sort_key (\<lambda>r. - sr_created r) (sort_key (\<lambda>r. - sr_version r)
       (filter (\<lambda>r. sr_stream r = streamID \<and> sr_created r < me_time env before) (t_snapshots d)))))"

section \<open>One insert\<close>

lemma mapErrA_InrD: "mapErrA g m w = (Inr a, w') \<Longrightarrow> m w = (Inr a, w')"
  by (auto simp: mapErrA_def tryA_def split: sum.splits prod.splits)

lemma pg_query_InrD:
  assumes "pg_query f w = (Inr a, w')"
  shows "pg_data (db w') = pg_data (db w) \<and> autoinc w' = autoinc w \<and> pg_now w' = pg_now w \<and> a = f (pg_data (db w))"
proof -
  from assms have "exec_stmt (\<lambda>d. (Inr (f (pg_data d)), d)) w = (Inr a, w')"
    by (auto simp: pg_query_def pg_stmt_def pg_wrap_def split: if_splits prod.splits sum.splits)
  then have "db w' = db w" "autoinc w' = autoinc w" "saved w' = saved w" "snow w' = snow w" "a = f (pg_data (db w))"
    by (auto simp: exec_stmt_def stmt_def split: fault.splits)
  then show ?thesis by (simp add: pg_now_def split: option.split)
qed

lemma pg_seq_write_Inr:
  assumes "pg_seq_write f w = (Inr u, w')"
  shows "\<exists>d n. f (pg_now w) (autoinc w) (pg_data (db w)) = (Inr d, n) \<and> db w' = (db w)\<lparr>pg_data := d\<rparr> \<and> autoinc w' = n \<and>
    saved w' = saved w \<and> pg_now w' = pg_now w"
proof -
  from assms have st: "stmt (\<lambda>d n. case f (pg_now w) n (pg_data d) of
      (Inl e, n') \<Rightarrow> (Inl e, d, n') | (Inr x, n') \<Rightarrow> (Inr (), d\<lparr>pg_data := x\<rparr>, n')) w = (Inr u, w')"
    by (auto simp: pg_seq_write_def pg_wrap_def split: if_splits prod.splits sum.splits)
  then have sn: "snow w' = snow w"
    by (auto simp: stmt_def split: fault.splits prod.splits sum.splits)
  from st sn show ?thesis
    by (cases rule: stmt_cases) (auto simp: pg_now_def split: prod.splits sum.splits option.splits dest!: sym [of _ "db w'"])
qed

lemma pg_sane_seq_write:
  assumes "\<And>now n d. n \<le> snd (f now n d)"
  shows "pg_sane (pg_seq_write f)"
proof (rule pg_saneI)
  fix w r w' assume run: "pg_seq_write f w = (r, w')"
  let ?g = "\<lambda>d n. case f (pg_now w) n (pg_data d) of
      (Inl e, n') \<Rightarrow> (Inl e, d, n') | (Inr x, n') \<Rightarrow> (Inr (), d\<lparr>pg_data := x\<rparr>, n')"
  have g: "n \<le> snd (snd (?g d n))" "pg_start (fst (snd (?g d n))) = pg_start d" "pg_aborted (fst (snd (?g d n))) = pg_aborted d"
    for d n using assms [of n "pg_now w" "pg_data d"] by (auto split: prod.splits sum.splits)
  have "pg_sane (pg_wrap (stmt ?g))"
  proof (rule pg_sane_wrap)
    show "sane (stmt ?g)" by (intro sane_stmt g)
  qed (auto simp: stmt_def split: fault.split prod.split sum.split)
  from pg_saneD [OF this, of w r w'] run
  show "saved w' = saved w \<and> clk w' = clk w \<and> snow w' = snow w \<and> pg_start (db w') = pg_start (db w) \<and>
    autoinc w \<le> autoinc w' \<and> (\<not> isl r \<longrightarrow> pg_aborted (db w') = pg_aborted (db w))"
    by (simp add: pg_seq_write_def)
qed


text \<open>What the table keeps of an event recorded at a time.\<close>

definition pg_stored :: "(string \<Rightarrow> string option) \<Rightarrow> menv \<Rightarrow> string \<Rightarrow> time \<Rightarrow> int \<times> event \<Rightarrow> event_row \<Rightarrow> bool" where
  "pg_stored raw env s recorded ve r \<longleftrightarrow> er_stream r = s \<and> er_version r = fst ve \<and> er_id r = ev_ID (snd ve) \<and>
     er_type r = ev_Type (snd ve) \<and> er_schema r = ev_SchemaVersion (snd ve) \<and>
     (\<exists>t. raw (ev_Data (snd ve)) = Some t \<and> me_json env t = Some (er_data r)) \<and>
     (\<exists>m. me_marshal env (ev_Metadata (snd ve)) = Some m \<and> me_json env m = Some (er_meta r)) \<and>
     er_occurred r = me_time env (ev_OccurredAt (snd ve)) \<and> er_recorded r = recorded"

lemma pg_insert_event_Inr:
  assumes ins: "pg_insert_event env (pg_event_to_row env s v data metadata e) now n d = (Inr d', n')"
    and m: "raw (ev_Data e) = Some data" "me_marshal env (ev_Metadata e) = Some metadata"
    and wf: "events_wf d n" and v: "v = count_stream s d + 1"
  shows "events_wf d' n' \<and> (\<exists>row. d' = d\<lparr>t_events := t_events d @ [row]\<rparr> \<and> pg_stored raw env s now (v, e) row)"
proof -
  from ins obtain jd jm where j: "me_json env data = Some jd" "me_json env metadata = Some jm"
    by (auto simp: pg_insert_event_def pg_event_to_row_def split: option.splits)
  let ?row = "(pg_event_to_row env s v data metadata e)\<lparr>er_pos := n, er_data := jd, er_meta := jm, er_recorded := now\<rparr>"
  from ins j have r: "d' = d\<lparr>t_events := t_events d @ [?row]\<rparr>" "n' = n + 1"
    "\<forall>k \<in> set (pg_event_keys env). \<not> clashes (t_events d) ?row k"
    by (auto simp: pg_insert_event_def pg_event_to_row_def pg_insert_Inr split: sum.splits)
  have "er_id ?row \<notin> er_id ` set (t_events d)" using r(3) by (auto simp: pg_event_keys_def clashes_def)
  then have "events_wf d' n'" unfolding r(1,2) using wf v
    by (intro events_wf_snoc) (auto simp: pg_event_to_row_def)
  moreover have "pg_stored raw env s now (v, e) ?row" using m j by (simp add: pg_stored_def pg_event_to_row_def)
  ultimately show ?thesis using r(1) by blast
qed

lemma pg_insert_event_counter: "n \<le> snd (pg_insert_event env r now n d)"
  by (auto simp: pg_insert_event_def split: option.splits sum.splits)

lemma append_event_Inr:
  assumes run: "append_event raw env s (v, e) w = (Inr u, w')" and wf: "events_wf (pg_data (db w)) (autoinc w)"
    and v: "v = count_stream s (pg_data (db w)) + 1"
  shows "events_wf (pg_data (db w')) (autoinc w') \<and> pg_now w' = pg_now w \<and>
    (\<exists>row. pg_data (db w') = (pg_data (db w))\<lparr>t_events := t_events (pg_data (db w)) @ [row]\<rparr> \<and>
       pg_stored raw env s (pg_now w) (v, e) row)"
proof -
  from run obtain data metadata where m: "raw (ev_Data e) = Some data" "me_marshal env (ev_Metadata e) = Some metadata"
    and ins: "pg_seq_write (pg_insert_event env (pg_event_to_row env s v data metadata e)) w = (Inr u, w')"
    by (auto simp: append_event_def throw_def dest: mapErrA_InrD split: option.splits)
  from pg_seq_write_Inr [OF ins] obtain d n where i: "pg_insert_event env (pg_event_to_row env s v data metadata e)
      (pg_now w) (autoinc w) (pg_data (db w)) = (Inr d, n)" "pg_data (db w') = d" "autoinc w' = n" "pg_now w' = pg_now w"
    by auto
  from pg_insert_event_Inr [where raw = raw, OF i(1) m wf v] i show ?thesis by simp
qed

lemma append_events_Inr:
  assumes "forA (append_event raw env s) (numbered v es) w = (Inr u, w')" and "events_wf (pg_data (db w)) (autoinc w)"
    and "count_stream s (pg_data (db w)) = v"
  shows "events_wf (pg_data (db w')) (autoinc w') \<and>
    (\<exists>rows. pg_data (db w') = (pg_data (db w))\<lparr>t_events := t_events (pg_data (db w)) @ rows\<rparr> \<and>
       list_all2 (pg_stored raw env s (pg_now w)) (numbered v es) rows)"
  using assms
proof (induction es arbitrary: v w)
  case Nil
  then show ?case by (auto simp: ret_def)
next
  case (Cons e es)
  from Cons.prems(1) obtain w1 where one: "append_event raw env s (v + 1, e) w = (Inr (), w1)"
    and rest: "forA (append_event raw env s) (numbered (v + 1) es) w1 = (Inr u, w')" by (auto simp: bindA_Inr)
  from append_event_Inr [OF one Cons.prems(2)] Cons.prems(3) obtain row where
    1: "events_wf (pg_data (db w1)) (autoinc w1)" "pg_now w1 = pg_now w"
      "pg_data (db w1) = (pg_data (db w))\<lparr>t_events := t_events (pg_data (db w)) @ [row]\<rparr>"
      "pg_stored raw env s (pg_now w) (v + 1, e) row" by auto
  have "count_stream s (pg_data (db w1)) = v + 1"
    using 1(3,4) Cons.prems(3) by (simp add: count_stream_snoc pg_stored_def)
  from Cons.IH [OF rest 1(1) this] 1(2-4) show ?case by auto
qed

lemma pg_sane_append_event [pg_sane_intros]: "pg_sane (append_event raw env s ve)"
proof -
  note [pg_sane_intros] = pg_sane_seq_write [OF pg_insert_event_counter]
  show ?thesis unfolding append_event_def by (cases ve) (simp, intro pg_sane_intros)
qed

lemma pg_sane_appendInTx [pg_sane_intros]: "pg_sane (appendInTx raw env s es v)"
  unfolding appendInTx_def advisory_xact_lock_def by (intro pg_sane_intros)

lemma appendInTx_Inr:
  assumes run: "appendInTx raw env s es v w = (Inr u, w')" and wf: "events_wf (pg_data (db w)) (autoinc w)"
  shows "events_wf (pg_data (db w')) (autoinc w') \<and> count_stream s (pg_data (db w)) = v \<and>
    (\<exists>rows. pg_data (db w') = (pg_data (db w))\<lparr>t_events := t_events (pg_data (db w)) @ rows\<rparr> \<and>
       list_all2 (pg_stored raw env s (pg_now w)) (numbered v es) rows)"
proof -
  from run obtain w1 c w2 where "pg_query (\<lambda>_. ()) w = (Inr (), w1)" "pg_query (count_stream s) w1 = (Inr c, w2)"
    and k: "(if c \<noteq> v then throw (DomainError ErrCodeVersionConflict None)
     else if \<exists>(x, e) \<in> set (numbered v es). ev_Version e \<noteq> x then throw (DomainError ErrCodeValidation None)
     else forA (append_event raw env s) (numbered v es)) w2 = (Inr u, w')"
    unfolding appendInTx_def advisory_xact_lock_def bindA_Inr by auto
  with pg_query_InrD [of "\<lambda>_. ()" w "()" w1] pg_query_InrD [of "count_stream s" w1 c w2]
  have w2: "pg_data (db w2) = pg_data (db w)" "autoinc w2 = autoinc w" "pg_now w2 = pg_now w" "c = count_stream s (pg_data (db w))"
    by simp_all
  from k have "c = v" "forA (append_event raw env s) (numbered v es) w2 = (Inr u, w')"
    by (auto simp: throw_def split: if_splits)
  with append_events_Inr [of raw env s v es w2 u w'] w2 wf show ?thesis by simp
qed

text \<open>An append that fails. A statement that fails may have taken effect, and aborts the transaction it fails in; an event
  that cannot be encoded stops the append before its statement.\<close>

definition marshal_failure :: "repo_error \<Rightarrow> bool" where
  "marshal_failure e \<longleftrightarrow> e \<in> {OtherError ''marshal event data'', OtherError ''marshal event metadata''}"

lemma pg_seq_write_Inl:
  assumes run: "pg_seq_write f w = (Inl e, w')" and mono: "\<And>now n d. n \<le> snd (f now n d)"
  shows "saved w' = saved w \<and> pg_start (db w') = pg_start (db w) \<and> (saved w \<noteq> None \<longrightarrow> pg_aborted (db w')) \<and>
    (pg_data (db w') = pg_data (db w) \<and> autoinc w \<le> autoinc w' \<or>
     f (pg_now w) (autoinc w) (pg_data (db w)) = (Inr (pg_data (db w')), autoinc w'))"
proof -
  note frame = pg_saneD [OF pg_sane_seq_write [OF mono] run]
  show ?thesis
  proof (cases "aborted_tx w")
    case True
    with run show ?thesis by (auto simp: pg_seq_write_def pg_wrap_def aborted_tx_def)
  next
    case False
    with run obtain w1 where st: "stmt (\<lambda>d n. case f (pg_now w) n (pg_data d) of
        (Inl e, n') \<Rightarrow> (Inl e, d, n') | (Inr x, n') \<Rightarrow> (Inr (), d\<lparr>pg_data := x\<rparr>, n')) w = (Inl e, w1)"
      and w': "w' = (if saved w = None then w1 else w1\<lparr>db := (db w1)\<lparr>pg_aborted := True\<rparr>\<rparr>)"
      by (auto simp: pg_seq_write_def pg_wrap_def split: prod.splits sum.splits)
    have same: "pg_data (db w') = pg_data (db w1)" "autoinc w' = autoinc w1" using w' by simp_all
    have "pg_data (db w') = pg_data (db w) \<or>
        f (pg_now w) (autoinc w) (pg_data (db w)) = (Inr (pg_data (db w')), autoinc w')"
      unfolding same using st by (cases rule: stmt_cases) (auto split: prod.splits sum.splits dest!: sym [of _ "db w1"])
    with frame w' show ?thesis by auto
  qed
qed

lemma append_event_Inl:
  assumes run: "append_event raw env s (v, e) w = (Inl x, w')" and wf: "events_wf (pg_data (db w)) (autoinc w)"
    and v: "v = count_stream s (pg_data (db w)) + 1"
  shows "events_wf (pg_data (db w')) (autoinc w') \<and> saved w' = saved w \<and>
    (saved w \<noteq> None \<longrightarrow> pg_aborted (db w') \<or> marshal_failure x) \<and>
    (pg_data (db w') = pg_data (db w) \<or>
     (\<exists>row. pg_data (db w') = (pg_data (db w))\<lparr>t_events := t_events (pg_data (db w)) @ [row]\<rparr> \<and>
       pg_stored raw env s (pg_now w) (v, e) row))"
proof (cases "raw (ev_Data e)")
  case None
  with run wf show ?thesis by (auto simp: append_event_def throw_def marshal_failure_def)
next
  case (Some data)
  show ?thesis
  proof (cases "me_marshal env (ev_Metadata e)")
    case None
    with Some run wf show ?thesis by (auto simp: append_event_def throw_def marshal_failure_def)
  next
    case meta: (Some metadata)
    with Some run obtain y where "pg_seq_write (pg_insert_event env (pg_event_to_row env s v data metadata e)) w = (Inl y, w')"
      by (auto simp: append_event_def throw_def ret_def mapErrA_def tryA_def split: prod.splits sum.splits)
    from pg_seq_write_Inl [OF this pg_insert_event_counter]
    have f: "saved w' = saved w" "saved w \<noteq> None \<longrightarrow> pg_aborted (db w')"
      "pg_data (db w') = pg_data (db w) \<and> autoinc w \<le> autoinc w' \<or>
        pg_insert_event env (pg_event_to_row env s v data metadata e) (pg_now w) (autoinc w) (pg_data (db w))
          = (Inr (pg_data (db w')), autoinc w')" by blast+
    from f(3) show ?thesis
    proof
      assume "pg_data (db w') = pg_data (db w) \<and> autoinc w \<le> autoinc w'"
      with f wf show ?thesis by (auto intro: events_wf_mono)
    next
      assume "pg_insert_event env (pg_event_to_row env s v data metadata e) (pg_now w) (autoinc w) (pg_data (db w))
          = (Inr (pg_data (db w')), autoinc w')"
      from pg_insert_event_Inr [where raw = raw, OF this Some meta wf v] f(1,2) show ?thesis by blast
    qed
  qed
qed

lemma append_events_Inl:
  assumes "forA (append_event raw env s) (numbered v es) w = (Inl x, w')" and "events_wf (pg_data (db w)) (autoinc w)"
    and "count_stream s (pg_data (db w)) = v"
  shows "events_wf (pg_data (db w')) (autoinc w') \<and> saved w' = saved w \<and>
    (saved w \<noteq> None \<longrightarrow> pg_aborted (db w') \<or> marshal_failure x) \<and>
    (\<exists>k rows. pg_data (db w') = (pg_data (db w))\<lparr>t_events := t_events (pg_data (db w)) @ rows\<rparr> \<and>
       list_all2 (pg_stored raw env s (pg_now w)) (numbered v (take k es)) rows)"
  using assms
proof (induction es arbitrary: v w)
  case Nil
  then show ?case by (simp add: ret_def)
next
  case (Cons e es)
  from Cons.prems(1) consider (here) "append_event raw env s (v + 1, e) w = (Inl x, w')"
    | (later) w1 where "append_event raw env s (v + 1, e) w = (Inr (), w1)"
      "forA (append_event raw env s) (numbered (v + 1) es) w1 = (Inl x, w')" by (auto simp: bindA_Inl)
  then show ?case
  proof cases
    case here
    from append_event_Inl [OF here Cons.prems(2)] Cons.prems(3)
    have 1: "events_wf (pg_data (db w')) (autoinc w')" "saved w' = saved w" "saved w \<noteq> None \<longrightarrow> pg_aborted (db w') \<or> marshal_failure x"
      "pg_data (db w') = pg_data (db w) \<or>
       (\<exists>row. pg_data (db w') = (pg_data (db w))\<lparr>t_events := t_events (pg_data (db w)) @ [row]\<rparr> \<and>
         pg_stored raw env s (pg_now w) (v + 1, e) row)" by simp_all
    from 1(4) have "\<exists>k rows. pg_data (db w') = (pg_data (db w))\<lparr>t_events := t_events (pg_data (db w)) @ rows\<rparr> \<and>
       list_all2 (pg_stored raw env s (pg_now w)) (numbered v (take k (e # es))) rows"
    proof
      assume "pg_data (db w') = pg_data (db w)"
      then show ?thesis by (intro exI [of _ 0] exI [of _ "[]"]) simp
    next
      assume "\<exists>row. pg_data (db w') = (pg_data (db w))\<lparr>t_events := t_events (pg_data (db w)) @ [row]\<rparr> \<and>
         pg_stored raw env s (pg_now w) (v + 1, e) row"
      then obtain row where "pg_data (db w') = (pg_data (db w))\<lparr>t_events := t_events (pg_data (db w)) @ [row]\<rparr>"
        "pg_stored raw env s (pg_now w) (v + 1, e) row" by blast
      then show ?thesis by (intro exI [of _ 1] exI [of _ "[row]"]) simp
    qed
    with 1(1-3) show ?thesis by blast
  next
    case later
    from append_event_Inr [OF later(1) Cons.prems(2)] Cons.prems(3) obtain row where
      1: "events_wf (pg_data (db w1)) (autoinc w1)" "pg_now w1 = pg_now w"
        "pg_data (db w1) = (pg_data (db w))\<lparr>t_events := t_events (pg_data (db w)) @ [row]\<rparr>"
        "pg_stored raw env s (pg_now w) (v + 1, e) row" by auto
    have "count_stream s (pg_data (db w1)) = v + 1"
      using 1(3,4) Cons.prems(3) by (simp add: count_stream_snoc pg_stored_def)
    from Cons.IH [OF later(2) 1(1) this] obtain k rows where
      2: "events_wf (pg_data (db w')) (autoinc w')" "saved w' = saved w1" "saved w1 \<noteq> None \<longrightarrow> pg_aborted (db w') \<or> marshal_failure x"
        "pg_data (db w') = (pg_data (db w1))\<lparr>t_events := t_events (pg_data (db w1)) @ rows\<rparr>"
        "list_all2 (pg_stored raw env s (pg_now w1)) (numbered (v + 1) (take k es)) rows" by blast
    have "saved w1 = saved w" using pg_saneD(1) [OF pg_sane_append_event later(1)] .
    with 1 2 show ?thesis by (intro conjI exI [of _ "Suc k"] exI [of _ "row # rows"]) simp_all
  qed
qed

lemma pg_query_Inl:
  assumes "pg_query f w = (Inl x, w')"
  shows "pg_data (db w') = pg_data (db w) \<and> saved w' = saved w \<and> autoinc w \<le> autoinc w' \<and> (saved w \<noteq> None \<longrightarrow> pg_aborted (db w'))"
proof -
  have "autoinc w \<le> autoinc w'" using pg_saneD(5) [OF pg_sane_stmt assms [unfolded pg_query_def]] .
  with assms [unfolded pg_query_def] show ?thesis
    by (cases rule: pg_stmt_cases) (auto simp: aborted_tx_def)
qed

lemma appendInTx_Inl:
  assumes run: "appendInTx raw env s es v w = (Inl x, w')" and wf: "events_wf (pg_data (db w)) (autoinc w)"
  shows "events_wf (pg_data (db w')) (autoinc w') \<and> saved w' = saved w \<and>
    (\<exists>k rows. pg_data (db w') = (pg_data (db w))\<lparr>t_events := t_events (pg_data (db w)) @ rows\<rparr> \<and>
       list_all2 (pg_stored raw env s (pg_now w)) (numbered v (take k es)) rows \<and>
       (rows \<noteq> [] \<longrightarrow> count_stream s (pg_data (db w)) = v \<and> (saved w \<noteq> None \<longrightarrow> pg_aborted (db w') \<or> marshal_failure x)))"
proof -
  have none: ?thesis if "pg_data (db w') = pg_data (db w)" "autoinc w \<le> autoinc w'" "saved w' = saved w"
    using that events_wf_mono [OF wf] by (intro conjI exI [of _ 0] exI [of _ "[]"]) simp_all
  show ?thesis
  proof (cases "pg_query (\<lambda>_. ()) w")
    case (Pair r1 w1)
    show ?thesis
    proof (cases r1)
      case (Inl y)
      with run Pair have "w' = w1" by (simp add: appendInTx_def advisory_xact_lock_def bindA_run [of "pg_query (\<lambda>_. ())" w, OF Pair])
      with pg_query_Inl [of "\<lambda>_. ()" w y w1] Pair Inl none show ?thesis by simp
    next
      case (Inr u1)
      with pg_query_InrD [of "\<lambda>_. ()" w u1 w1] Pair pg_saneD(1) [OF pg_sane_stmt, of _ w "Inr u1" w1]
      have w1: "pg_data (db w1) = pg_data (db w)" "autoinc w1 = autoinc w" "pg_now w1 = pg_now w" "saved w1 = saved w"
        by (auto simp: pg_query_def)
      show ?thesis
      proof (cases "pg_query (count_stream s) w1")
        case q: (Pair r2 w2)
        have run2: "(case r2 of Inl e \<Rightarrow> (Inl e, w2) | Inr c \<Rightarrow> (if c \<noteq> v then throw (DomainError ErrCodeVersionConflict None)
           else if \<exists>(v, e) \<in> set (numbered v es). ev_Version e \<noteq> v then throw (DomainError ErrCodeValidation None)
           else forA (append_event raw env s) (numbered v es)) w2) = (Inl x, w')"
          using run Inr by (simp add: appendInTx_def advisory_xact_lock_def bindA_run [of "pg_query (\<lambda>_. ())" w, OF Pair]
              bindA_run [of "pg_query (count_stream s)" w1, OF q])
        show ?thesis
        proof (cases r2)
          case (Inl y)
          with run2 pg_query_Inl [of "count_stream s" w1 y w2] q w1 none show ?thesis by simp
        next
          case c: (Inr c)
          with pg_query_InrD [of "count_stream s" w1 c w2] q w1 pg_saneD(1) [OF pg_sane_stmt, of _ w1 "Inr c" w2]
          have w2: "pg_data (db w2) = pg_data (db w)" "autoinc w2 = autoinc w" "pg_now w2 = pg_now w" "saved w2 = saved w"
            "c = count_stream s (pg_data (db w))"
            by (auto simp: pg_query_def)
          show ?thesis
          proof (cases "c = v \<and> \<not> (\<exists>(v, e) \<in> set (numbered v es). ev_Version e \<noteq> v)")
            case True
            with run2 c have "forA (append_event raw env s) (numbered v es) w2 = (Inl x, w')" by simp
            from append_events_Inl [OF this] wf w2 True show ?thesis by auto
          next
            case False
            with run2 c have "w' = w2" by (auto simp: throw_def split: if_splits)
            with w2 none show ?thesis by simp
          qed
        qed
      qed
    qed
  qed
qed

text \<open>C29. An append to PostgreSQL, whatever statement fails, keeps the log well formed. In a transaction of its own it is
  all or nothing, whether or not the commit is answered. Either the log is unchanged; or the stream had exactly the
  expected number of events and the log is extended by one row per event, in order, numbered from there on, recorded at
  the time the transaction began. Success means the second. In a transaction of the caller's success means the same, but
  a failure may leave rows of the first events, in order, in that transaction. Then the transaction is aborted, so that it
  cannot be committed, or the next event could not be encoded, and the transaction is as before: it is for the caller to
  roll back, which restores the contents at its begin.\<close>

theorem pg_Append_all_or_nothing:
  assumes wf: "events_wf (pg_data (db w)) (autoinc w)" and run: "Append raw env s es v w = (r, w')"
  shows "events_wf (pg_data (db w')) (autoinc w') \<and> saved w' = saved w \<and>
    (case saved w of
      None \<Rightarrow>
        pg_data (db w') = pg_data (db w) \<and> (r \<noteq> Inr () \<or> es = []) \<or>
        count_stream s (pg_data (db w)) = v \<and>
        (\<exists>rows. pg_data (db w') = (pg_data (db w))\<lparr>t_events := t_events (pg_data (db w)) @ rows\<rparr> \<and>
           list_all2 (pg_stored raw env s (snow w)) (numbered v es) rows) \<and>
        (r = Inr () \<or> (\<exists>e. r = Inl (DbError e)))
    | Some d \<Rightarrow> db (snd (rollback w')) = d \<and>
        (\<exists>k rows. pg_data (db w') = (pg_data (db w))\<lparr>t_events := t_events (pg_data (db w)) @ rows\<rparr> \<and>
           list_all2 (pg_stored raw env s (pg_start (db w))) (numbered v (take k es)) rows \<and>
           (rows \<noteq> [] \<longrightarrow> count_stream s (pg_data (db w)) = v) \<and>
           (case r of
              Inr _ \<Rightarrow> length rows = length es
            | Inl e \<Rightarrow> rows = [] \<or> aborted_tx w' \<or> marshal_failure e)))"
proof (cases "es = []")
  case True
  with assms show ?thesis by (auto simp: Append_def ret_def rollback_def split: option.split fault.split)
next
  case False
  have amb: "in_tx w = (Inr (saved w \<noteq> None), w)" by (simp add: in_tx_def)
  show ?thesis
  proof (cases "saved w")
    case tx: None
    with amb False run have "pg_own_tx (appendInTx raw env s es v) w = (r, w')" by (simp add: Append_def bindA_run [of in_tx w])
    from this tx pg_sane_appendInTx show ?thesis
    proof (cases rule: pg_own_tx_cases)
      case (committed a w1 w2)
      then have "pg_now w1 = snow w" by (simp add: pg_now_def)
      with appendInTx_Inr [of raw env s es v w1 a w2] committed wf tx show ?thesis by auto
    next
      case (failed e)
      with wf tx show ?thesis by (auto intro: events_wf_mono)
    next
      case (unanswered e a w1 w2)
      then have "pg_now w1 = snow w" by (simp add: pg_now_def)
      with appendInTx_Inr [of raw env s es v w1 a w2] unanswered wf tx show ?thesis by auto
    qed
  next
    case tx: (Some d)
    with amb False run have run': "appendInTx raw env s es v w = (r, w')" by (simp add: Append_def bindA_run [of in_tx w])
    have sv: "saved w' = Some d" using pg_saneD(1) [OF pg_sane_appendInTx run'] tx by simp
    then have rb: "db (snd (rollback w')) = d" by (simp add: rollback_def split: fault.split)
    have now: "pg_now w = pg_start (db w)" using tx by (simp add: pg_now_def)
    show ?thesis
    proof (cases r)
      case (Inl e)
      with appendInTx_Inl [of raw env s es v w e w'] run' wf tx sv rb now show ?thesis
        by (auto simp: aborted_tx_def)
    next
      case (Inr u)
      with appendInTx_Inr [of raw env s es v w u w'] run' wf obtain rows where
        "events_wf (pg_data (db w')) (autoinc w')" "count_stream s (pg_data (db w)) = v"
        "pg_data (db w') = (pg_data (db w))\<lparr>t_events := t_events (pg_data (db w)) @ rows\<rparr>"
        "list_all2 (pg_stored raw env s (pg_now w)) (numbered v es) rows" by auto
      moreover from this have "length rows = length es" by (simp add: list_all2_lengthD [symmetric] length_numbered)
      ultimately show ?thesis using Inr tx sv rb now
        by (auto intro!: exI [of _ "length es"] exI [of _ rows])
    qed
  qed
qed

definition demo_log :: "log_db pg_db world" where
  "demo_log = \<lparr>db = \<lparr>pg_data = \<lparr>t_events = [], t_snapshots = []\<rparr>, pg_start = 0, pg_aborted = False\<rparr>, saved = None,
     autoinc = 1, clk = 5, snow = 6, faults = []\<rparr>"

lemma demo_log_wf: "events_wf (pg_data (db demo_log)) (autoinc demo_log)" "saved demo_log = None"
  by (simp_all add: demo_log_def events_wf_def versions_of_def contiguous_def)

lemma demo_log_append: "fst (Append Some demo_menv ''s'' [demo_event 1] 0 demo_log) = Inr ()"
  by code_simp

theorem pg_Append_all_or_nothing_witness:
  "\<exists>w' row. Append Some demo_menv ''s'' [demo_event 1] 0 demo_log = (Inr (), w') \<and>
     t_events (pg_data (db w')) = [row] \<and> pg_stored Some demo_menv ''s'' 6 (1, demo_event 1) row"
proof -
  obtain w' where run: "Append Some demo_menv ''s'' [demo_event 1] 0 demo_log = (Inr (), w')"
    using demo_log_append by (metis prod.collapse)
  from pg_Append_all_or_nothing [OF demo_log_wf(1) run] demo_log_wf(2) run show ?thesis
    by (auto simp: demo_log_def list_all2_Cons1)
qed

section \<open>Errors of an append\<close>

text \<open>A rejected insert is classified by the constraint alone, whatever values clash: a duplicate event id stays the
  server's error.\<close>

lemma rejected_insert_classified:
  "pg_translate_insert_error (DbError (PgError pgUniqueViolation c)) =
    (if c = ''events_stream_id_version_key'' then DomainError ErrCodeVersionConflict None
     else if c = ''ux_contract_idempotency_key'' then DomainError ErrCodeConflict (Some (DbError (PgError pgUniqueViolation c)))
     else DbError (PgError pgUniqueViolation c))"
  by (simp add: pg_translate_insert_error_def isVersionConflict_def isContractIdempotencyKeyConflict_def
      uniqueViolationOn_def contractIdempotencyKeyConstraint_def)

end
