(* ===== verification/Pg_Subscription.thy ===== *)
theory Pg_Subscription
  imports Pg_EventStore
begin

text \<open>
  The subscription of \<open>postgres/eventstore.go\<close>: \<open>catchUp\<close>, \<open>listenAndTail\<close>, \<open>runSubscription\<close>. It may run for
  ever, so its loops take fuel, and a run that uses it up ends with \<open>Unfinished\<close> in the state reached so far: what
  holds of every fuel holds of every moment of an endless run. Everything outside the loops, that is the pool, the
  connection, the context, the clock, the consumer of the channel and the log as it is at that moment, is asked in
  turn, and the environment gives the answer to the call of each number.
\<close>

datatype sub_stop = SubErr repo_error | Unfinished

text \<open>The seams of \<open>PostgresEventStore\<close> and \<open>subListenConn\<close>, the context and the channel. A send is taken by the
  consumer, or abandoned because the context is done.\<close>

record sub_env =
  sv_acquire :: "nat \<Rightarrow> repo_error option"
  sv_listen :: "nat \<Rightarrow> repo_error option"
  sv_wait :: "nat \<Rightarrow> repo_error option"
  sv_load :: "nat \<Rightarrow> int \<Rightarrow> nat \<Rightarrow> repo_error + event list"
  sv_sent :: "nat \<Rightarrow> bool"
  sv_done :: "nat \<Rightarrow> bool"
  sv_now :: "nat \<Rightarrow> time"

text \<open>The number of the next call, the position, and what was done so far: events delivered, errors reported,
  connections held, back-offs waited, the channel closed.\<close>

record sub_state =
  ss_n :: nat
  ss_pos :: int
  ss_out :: "event list"
  ss_errs :: "repo_error list"
  ss_conns :: int
  ss_naps :: "time list"
  ss_closed :: bool

type_synonym 'a sub = "(sub_state, sub_stop, 'a) act"

definition ask :: "(nat \<Rightarrow> 'a) \<Rightarrow> 'a sub" where
  "ask f s = (Inr (f (ss_n s)), s\<lparr>ss_n := ss_n s + 1\<rparr>)"

definition seam :: "(nat \<Rightarrow> repo_error option) \<Rightarrow> unit sub" where
  "seam f = bindA (ask f) (\<lambda>r. case r of None \<Rightarrow> ret () | Some e \<Rightarrow> throw (SubErr e))"

definition update_sub :: "(sub_state \<Rightarrow> sub_state) \<Rightarrow> unit sub" where
  "update_sub f s = (Inr (), f s)"

text \<open>A call whose error the code handles itself.\<close>

definition attempt :: "'a sub \<Rightarrow> (repo_error \<Rightarrow> 'b sub) \<Rightarrow> ('a \<Rightarrow> 'b sub) \<Rightarrow> 'b sub" where
  "attempt m h f = tryA m (\<lambda>stop. case stop of SubErr e \<Rightarrow> h e | Unfinished \<Rightarrow> throw Unfinished) f"

definition ctxErr :: repo_error where "ctxErr = DbError ContextDone"

definition subReconnectInitialBackoff :: time where "subReconnectInitialBackoff = 100000000"

definition subReconnectMaxBackoff :: time where "subReconnectMaxBackoff = 5 * second"

definition subReconnectHealthyAfter :: time where "subReconnectHealthyAfter = 30 * second"

section \<open>One connection cycle\<close>

definition load_page :: "sub_env \<Rightarrow> nat \<Rightarrow> event list sub" where
  "load_page env batch s = (case sv_load env (ss_n s) (ss_pos s) batch of
      Inl e \<Rightarrow> Inl (SubErr e) | Inr es \<Rightarrow> Inr es, s\<lparr>ss_n := ss_n s + 1\<rparr>)"

definition send :: "sub_env \<Rightarrow> event \<Rightarrow> unit sub" where
  "send env evt = bindA (ask (sv_sent env)) (\<lambda>taken.
     if taken then update_sub (\<lambda>s. s\<lparr>ss_out := ss_out s @ [evt], ss_pos := ev_GlobalPosition evt\<rparr>)
     else throw (SubErr ctxErr))"

fun catchUp :: "nat \<Rightarrow> sub_env \<Rightarrow> nat \<Rightarrow> unit sub" where
  "catchUp 0 env batch = throw Unfinished"
| "catchUp (Suc k) env batch =
     bindA (load_page env batch) (\<lambda>events.
     bindA (forA (send env) events) (\<lambda>_.
     if length events < batch then ret () else catchUp k env batch))"

text \<open>The tail loop; it ends with an error.\<close>

fun tail_loop :: "nat \<Rightarrow> sub_env \<Rightarrow> nat \<Rightarrow> repo_error sub" where
  "tail_loop 0 env batch = throw Unfinished"
| "tail_loop (Suc k) env batch =
     bindA (ask (sv_done env)) (\<lambda>cancelled.
     if cancelled then ret ctxErr
     else attempt (seam (sv_wait env))
       (\<lambda>err. bindA (ask (sv_done env)) (\<lambda>cancelled. ret (if cancelled then ctxErr else err)))
       (\<lambda>_. attempt (catchUp k env batch) ret (\<lambda>_. tail_loop k env batch)))"

definition release :: "unit sub" where
  "release = update_sub (\<lambda>s. s\<lparr>ss_conns := ss_conns s - 1\<rparr>)"

text \<open>The instant at which the cycle was established, zero if it was not, and the error that ended it.\<close>

definition listenAndTail :: "nat \<Rightarrow> sub_env \<Rightarrow> nat \<Rightarrow> (time \<times> repo_error) sub" where
  "listenAndTail k env batch = attempt (seam (sv_acquire env)) (\<lambda>err. ret (zero_time, err)) (\<lambda>_.
     bindA (update_sub (\<lambda>s. s\<lparr>ss_conns := ss_conns s + 1\<rparr>)) (\<lambda>_.
     bindA (attempt (seam (sv_listen env)) (\<lambda>err. ret (zero_time, err)) (\<lambda>_.
       attempt (catchUp k env batch) (\<lambda>err. ret (zero_time, err)) (\<lambda>_.
       bindA (ask (sv_now env)) (\<lambda>establishedAt.
       bindA (tail_loop k env batch) (\<lambda>err. ret (establishedAt, err))))))
     (\<lambda>result. bindA release (\<lambda>_. ret result))))"

section \<open>The reconnect loop\<close>

definition reportSubErr :: "pg_es_options \<Rightarrow> repo_error \<Rightarrow> unit sub" where
  "reportSubErr opts err = update_sub (\<lambda>s.
     if reportable err \<and> po_handler opts then s\<lparr>ss_errs := ss_errs s @ [err]\<rparr> else s)"

text \<open>Whether the failure budget starts afresh: the cycle was established and then stayed up.\<close>

definition healthy :: "sub_env \<Rightarrow> time \<Rightarrow> bool sub" where
  "healthy env establishedAt = (if is_zero_time establishedAt then ret False
     else bindA (ask (sv_now env)) (\<lambda>now. ret (subReconnectHealthyAfter \<le> now - establishedAt)))"

fun cycles :: "nat \<Rightarrow> sub_env \<Rightarrow> pg_es_options \<Rightarrow> time \<Rightarrow> nat \<Rightarrow> unit sub" where
  "cycles 0 env opts backoff reconnects = throw Unfinished"
| "cycles (Suc k) env opts backoff reconnects =
     bindA (listenAndTail k env (po_catchUpBatch opts)) (\<lambda>(establishedAt, err).
     bindA (ask (sv_done env)) (\<lambda>cancelled.
     if cancelled then ret ()
     else bindA (reportSubErr opts err) (\<lambda>_.
     bindA (healthy env establishedAt) (\<lambda>ok.
     let reconnects = (if ok then 0 else reconnects); backoff = (if ok then subReconnectInitialBackoff else backoff) in
     if 0 < po_maxReconnects opts \<and> po_maxReconnects opts \<le> reconnects then reportSubErr opts err
     else bindA (update_sub (\<lambda>s. s\<lparr>ss_naps := ss_naps s @ [backoff]\<rparr>)) (\<lambda>_.
       bindA (ask (sv_done env)) (\<lambda>cancelled.
       if cancelled then ret ()
       else cycles k env opts (min (backoff * 2) subReconnectMaxBackoff) (reconnects + 1)))))))"

definition runSubscription :: "nat \<Rightarrow> sub_env \<Rightarrow> pg_es_options \<Rightarrow> unit sub" where
  "runSubscription k env opts = bindA (cycles k env opts subReconnectInitialBackoff 0) (\<lambda>_.
     update_sub (\<lambda>s. s\<lparr>ss_closed := True\<rparr>))"

definition Subscribe :: "int \<Rightarrow> sub_state" where
  "Subscribe fromPosition = \<lparr>ss_n = 0, ss_pos = fromPosition, ss_out = [], ss_errs = [], ss_conns = 0, ss_naps = [],
     ss_closed = False\<rparr>"

lemma ask_run [simp]: "ask f s = (Inr (f (ss_n s)), s\<lparr>ss_n := ss_n s + 1\<rparr>)"
  by (simp add: ask_def)

lemma update_sub_run [simp]: "update_sub f s = (Inr (), f s)"
  by (simp add: update_sub_def)

section \<open>Concurrent appends\<close>

text \<open>Append transactions as the server interleaves them: the advisory lock is held from the first statement to
  the end of the transaction, positions are drawn when rows are inserted, rows become visible at the commit.\<close>

record appends =
  ap_log :: "event_row list"
  ap_pend :: "nat \<Rightarrow> event_row list option"
  ap_lock :: "nat option"
  ap_next :: int

inductive append_step :: "appends \<Rightarrow> appends \<Rightarrow> bool" where
  take_lock: "ap_lock \<sigma> = None \<Longrightarrow> append_step \<sigma> (\<sigma>\<lparr>ap_lock := Some t, ap_pend := (ap_pend \<sigma>)(t \<mapsto> [])\<rparr>)"
| insert_row: "ap_lock \<sigma> = Some t \<Longrightarrow> ap_pend \<sigma> t = Some rows \<Longrightarrow>
    append_step \<sigma> (\<sigma>\<lparr>ap_pend := (ap_pend \<sigma>)(t \<mapsto> rows @ [row\<lparr>er_pos := ap_next \<sigma>\<rparr>]), ap_next := ap_next \<sigma> + 1\<rparr>)"
| insert_rejected: "ap_lock \<sigma> = Some t \<Longrightarrow> append_step \<sigma> (\<sigma>\<lparr>ap_next := ap_next \<sigma> + 1\<rparr>)"
| commit: "ap_pend \<sigma> t = Some rows \<Longrightarrow>
    append_step \<sigma> (\<sigma>\<lparr>ap_log := ap_log \<sigma> @ rows, ap_pend := (ap_pend \<sigma>)(t := None), ap_lock := None\<rparr>)"
| rollback: "ap_pend \<sigma> t = Some rows \<Longrightarrow> append_step \<sigma> (\<sigma>\<lparr>ap_pend := (ap_pend \<sigma>)(t := None), ap_lock := None\<rparr>)"

definition no_appends :: "event_row list \<Rightarrow> int \<Rightarrow> appends" where
  "no_appends rows n = \<lparr>ap_log = rows, ap_pend = (\<lambda>_. None), ap_lock = None, ap_next = n\<rparr>"

end
