(* ===== verification/Pg_Subscription_Props.thy ===== *)
theory Pg_Subscription_Props
  imports Pg_Subscription My_Subscription
begin

text \<open>
  Properties of the PostgreSQL subscription: what it has delivered at any moment of a run with concurrent appends,
  failures and reconnects; that a catch-up delivers all there is; when the reconnect loop gives up and what it
  reports.
\<close>

section \<open>The log that readers see only grows at its end\<close>

definition pending :: "appends \<Rightarrow> event_row list" where
  "pending \<sigma> = (case ap_lock \<sigma> of None \<Rightarrow> []
     | Some t \<Rightarrow> (case ap_pend \<sigma> t of None \<Rightarrow> [] | Some rows \<Rightarrow> rows))"

definition appends_ok :: "appends \<Rightarrow> bool" where
  "appends_ok \<sigma> \<longleftrightarrow> (\<forall>t. ap_pend \<sigma> t = None \<or> ap_lock \<sigma> = Some t) \<and>
     log_sorted (ap_log \<sigma> @ pending \<sigma>) \<and> (\<forall>r \<in> set (ap_log \<sigma> @ pending \<sigma>). er_pos r < ap_next \<sigma>)"

lemma pending_of:
  assumes "appends_ok \<sigma>" and "ap_pend \<sigma> t = Some rows"
  shows "ap_lock \<sigma> = Some t" "pending \<sigma> = rows" "\<forall>t'. t' \<noteq> t \<longrightarrow> ap_pend \<sigma> t' = None"
proof -
  show l: "ap_lock \<sigma> = Some t" using assms unfolding appends_ok_def by (metis option.distinct(1))
  with assms show "pending \<sigma> = rows" by (simp add: pending_def)
  show "\<forall>t'. t' \<noteq> t \<longrightarrow> ap_pend \<sigma> t' = None" using l assms(1) unfolding appends_ok_def by (metis option.inject)
qed

lemma append_step_ok:
  assumes "append_step \<sigma> \<sigma>'" and ok: "appends_ok \<sigma>"
  shows "appends_ok \<sigma>' \<and> (\<exists>rows. ap_log \<sigma>' = ap_log \<sigma> @ rows)"
  using assms(1)
proof (cases rule: append_step.cases)
  case (take_lock t)
  then have "\<forall>t. ap_pend \<sigma> t = None" "pending \<sigma> = []" "pending \<sigma>' = []"
    using ok by (auto simp: appends_ok_def pending_def)
  with take_lock ok show ?thesis by (auto simp: appends_ok_def)
next
  case (insert_row t rows row)
  note pd = pending_of [OF ok insert_row(3)]
  have "pending \<sigma>' = rows @ [row\<lparr>er_pos := ap_next \<sigma>\<rparr>]" using insert_row by (simp add: pending_def)
  moreover have "log_sorted ((ap_log \<sigma> @ rows) @ [row\<lparr>er_pos := ap_next \<sigma>\<rparr>])"
    using ok pd(2) by (intro log_sorted_snoc) (auto simp: appends_ok_def)
  ultimately show ?thesis using ok pd insert_row by (auto simp: appends_ok_def intro: less_imp_le)
next
  case (insert_rejected t)
  then have "pending \<sigma>' = pending \<sigma>" by (simp add: pending_def cong: option.case_cong)
  with insert_rejected ok show ?thesis unfolding appends_ok_def by (auto intro: less_imp_le)
next
  case (commit t rows)
  note pd = pending_of [OF ok commit(2)]
  have "pending \<sigma>' = []" using commit by (simp add: pending_def)
  with commit pd ok show ?thesis by (auto simp: appends_ok_def)
next
  case (rollback t rows)
  note pd = pending_of [OF ok rollback(2)]
  have "pending \<sigma>' = []" using rollback by (simp add: pending_def)
  with rollback pd ok show ?thesis by (auto simp: appends_ok_def dest: log_sorted_prefix)
qed

lemma append_steps_ok:
  assumes "append_step\<^sup>*\<^sup>* \<sigma> \<sigma>'" and "appends_ok \<sigma>"
  shows "appends_ok \<sigma>' \<and> (\<exists>rows. ap_log \<sigma>' = ap_log \<sigma> @ rows)"
  using assms
proof (induction rule: rtranclp_induct)
  case (step \<sigma>1 \<sigma>2)
  then obtain rows where "appends_ok \<sigma>1" "ap_log \<sigma>1 = ap_log \<sigma> @ rows" by blast
  with append_step_ok [OF step.hyps(2)] show ?case by auto
qed simp

text \<open>A history of the appends: what is visible at the time of each call of the subscriber.\<close>

definition growing :: "(nat \<Rightarrow> event_row list) \<Rightarrow> bool" where
  "growing lg \<longleftrightarrow> (\<forall>n. log_sorted (lg n)) \<and> (\<forall>n m. n \<le> m \<longrightarrow> (\<exists>rows. lg m = lg n @ rows))"

lemma history_growing:
  assumes wf: "events_wf \<lparr>t_events = rows0, t_snapshots = []\<rparr> n0" and start: "\<sigma> 0 = no_appends rows0 n0"
    and steps: "\<forall>n. append_step\<^sup>*\<^sup>* (\<sigma> n) (\<sigma> (Suc n))"
  shows "growing (\<lambda>n. ap_log (\<sigma> n))"
proof -
  have "appends_ok (\<sigma> 0)" using wf by (auto simp: start no_appends_def appends_ok_def pending_def events_wf_def log_sorted_def)
  then have ok: "appends_ok (\<sigma> n)" for n
    by (induction n) (use steps append_steps_ok in blast)+
  have "\<exists>rows. ap_log (\<sigma> (n + k)) = ap_log (\<sigma> n) @ rows" for n k
  proof (induction k)
    case (Suc k)
    then obtain rows where "ap_log (\<sigma> (n + k)) = ap_log (\<sigma> n) @ rows" by blast
    moreover obtain rows' where "ap_log (\<sigma> (Suc (n + k))) = ap_log (\<sigma> (n + k)) @ rows'"
      using append_steps_ok steps ok by blast
    ultimately show ?case by simp
  qed simp
  then have "\<exists>rows. ap_log (\<sigma> m) = ap_log (\<sigma> n) @ rows" if "n \<le> m" for n m using that le_Suc_ex by metis
  moreover have "log_sorted (ap_log (\<sigma> n))" for n using ok [of n] by (auto simp: appends_ok_def dest: log_sorted_prefix)
  ultimately show ?thesis by (simp add: growing_def)
qed

section \<open>What is delivered\<close>

abbreviation decoded :: "menv \<Rightarrow> event \<Rightarrow> event_row \<Rightarrow> bool" where
  "decoded env e r \<equiv> row_to_event env r = Inr e"

text \<open>The store as \<open>LoadAll\<close> finds it on a pooled connection.\<close>

definition log_store :: "event_row list \<Rightarrow> log_db pg_db world" where
  "log_store rows = \<lparr>db = \<lparr>pg_data = \<lparr>t_events = rows, t_snapshots = []\<rparr>, pg_start = 0, pg_aborted = False\<rparr>, saved = None,
     autoinc = 1, clk = 0, snow = 0, faults = []\<rparr>"

text \<open>The answers of the seam: \<open>LoadAll\<close> of what is visible at that moment, or an error.\<close>

definition loads_from :: "menv \<Rightarrow> (nat \<Rightarrow> event_row list) \<Rightarrow> sub_env \<Rightarrow> bool" where
  "loads_from menv lg env \<longleftrightarrow> (\<forall>n p b es. sv_load env n p b = Inr es \<longrightarrow>
     fst (LoadAll menv p (int b) (log_store (lg n))) = Inr es)"

lemma scan_decoded: "fst (scanEvents env rows w) = Inr es \<Longrightarrow> list_all2 (decoded env) es rows"
proof (induction rows arbitrary: es w)
  case Nil
  then show ?case by (simp add: scanEvents_def)
next
  case (Cons r rows)
  then obtain e es' where "row_to_event env r = Inr e" "es = e # es'" "fst (scanEvents env rows w) = Inr es'"
    by (auto simp: scanEvents_def bindA_def tryA_def split: sum.splits prod.splits)
  with Cons.IH show ?case by simp
qed

lemma decoded_pos: "decoded env e r \<Longrightarrow> ev_GlobalPosition e = er_pos r"
  by (auto simp: row_to_event_def split: option.splits)

lemma load_page_decoded:
  assumes "loads_from menv lg env" and "load_page env batch s = (Inr es, s')"
  shows "list_all2 (decoded menv) es (all_rows (ss_pos s) (int batch) \<lparr>t_events = lg (ss_n s), t_snapshots = []\<rparr>) \<and>
    s' = s\<lparr>ss_n := ss_n s + 1\<rparr>"
proof -
  let ?w = "log_store (lg (ss_n s))"
  have w: "faults ?w = []" "\<not> aborted_tx ?w" "pg_data (db ?w) = \<lparr>t_events = lg (ss_n s), t_snapshots = []\<rparr>"
    by (simp_all add: log_store_def aborted_tx_def)
  have "sv_load env (ss_n s) (ss_pos s) batch = Inr es" "s' = s\<lparr>ss_n := ss_n s + 1\<rparr>"
    using assms(2) by (auto simp: load_page_def split: sum.splits)
  with assms(1) have "fst (LoadAll menv (ss_pos s) (int batch) ?w) = Inr es" "s' = s\<lparr>ss_n := ss_n s + 1\<rparr>"
    by (auto simp: loads_from_def)
  with scan_decoded show ?thesis
    by (simp add: LoadAll_def bindA_run [of "pg_query _" ?w, OF pg_query_run] w)
qed

lemma sorted_next:
  assumes "log_sorted xs" and f: "filter (\<lambda>x. p < er_pos x) xs = r # zs" and "a \<le> p"
  shows "between a (er_pos r) xs = between a p xs @ [r]" "filter (\<lambda>x. er_pos r < er_pos x) xs = zs" "p < er_pos r"
proof -
  have "r \<in> set (filter (\<lambda>x. p < er_pos x) xs)" by (simp add: f)
  then have p: "p < er_pos r" by simp
  then show "p < er_pos r" .
  have s: "log_sorted (r # zs)" using assms(1) unfolding f [symmetric] by (simp add: log_sorted_def sorted_wrt_map sorted_wrt_filter)
  then have gt: "\<forall>x \<in> set zs. er_pos r < er_pos x" by (simp add: log_sorted_def)
  have "between p (er_pos r) xs = filter (\<lambda>x. er_pos x \<le> er_pos r) (r # zs)"
    unfolding f [symmetric] by (simp add: between_def conj_commute)
  also have "\<dots> = [r]" using gt by (auto simp: filter_empty_conv)
  finally show "between a (er_pos r) xs = between a p xs @ [r]"
    using between_split [OF assms(1,3) less_imp_le [OF p]] by simp
  have "filter (\<lambda>x. er_pos r < er_pos x) xs = filter (\<lambda>x. er_pos r < er_pos x) (r # zs)"
    unfolding f [symmetric] filter_filter using p by (intro filter_cong) auto
  with gt show "filter (\<lambda>x. er_pos r < er_pos x) xs = zs" by (simp add: filter_id_conv)
qed

text \<open>The invariant of every run: exactly the rows up to the position, in the log at this moment or any later one.\<close>

definition delivered :: "menv \<Rightarrow> (nat \<Rightarrow> event_row list) \<Rightarrow> int \<Rightarrow> sub_state \<Rightarrow> bool" where
  "delivered menv lg from s \<longleftrightarrow> from \<le> ss_pos s \<and>
     (\<forall>m \<ge> ss_n s. list_all2 (decoded menv) (ss_out s) (between from (ss_pos s) (lg m)))"

text \<open>The rows a page holds come next.\<close>

definition next_rows :: "(nat \<Rightarrow> event_row list) \<Rightarrow> event_row list \<Rightarrow> sub_state \<Rightarrow> bool" where
  "next_rows lg rows s \<longleftrightarrow> (\<forall>m \<ge> ss_n s. \<exists>more. filter (\<lambda>r. ss_pos s < er_pos r) (lg m) = rows @ more)"

lemma send_run: "send env e s = (if sv_sent env (ss_n s)
    then (Inr (), s\<lparr>ss_n := ss_n s + 1, ss_out := ss_out s @ [e], ss_pos := ev_GlobalPosition e\<rparr>)
    else (Inl (SubErr ctxErr), s\<lparr>ss_n := ss_n s + 1\<rparr>))"
  by (simp add: send_def bindA_def tryA_def)

lemma send_page:
  assumes g: "growing lg" and "delivered menv lg from s" and "next_rows lg rows s" and "list_all2 (decoded menv) es rows"
  shows "delivered menv lg from (snd (forA (send env) es s))"
  using assms(2-)
proof (induction es arbitrary: rows s)
  case (Cons e es)
  then obtain r rows' where rows: "rows = r # rows'" "decoded menv e r" "list_all2 (decoded menv) es rows'"
    by (cases rows) auto
  let ?s = "s\<lparr>ss_n := ss_n s + 1\<rparr>"
  have d: "delivered menv lg from ?s" using Cons.prems(1) by (simp add: delivered_def)
  show ?case
  proof (cases "sv_sent env (ss_n s)")
    case False
    then have "send env e s = (Inl (SubErr ctxErr), ?s)" by (subst send_run) simp
    with d show ?thesis by (simp add: bindA_run [of "send env e" s])
  next
    case True
    let ?s' = "?s\<lparr>ss_out := ss_out s @ [e], ss_pos := ev_GlobalPosition e\<rparr>"
    have nx: "between from (er_pos r) (lg m) = between from (ss_pos s) (lg m) @ [r]" "ss_pos s < er_pos r"
      "\<exists>more. filter (\<lambda>x. er_pos r < er_pos x) (lg m) = rows' @ more" if m: "ss_n s \<le> m" for m
    proof -
      have "\<exists>more. filter (\<lambda>x. ss_pos s < er_pos x) (lg m) = (r # rows') @ more"
        using Cons.prems(2) m unfolding next_rows_def rows(1) by blast
      then obtain more where "filter (\<lambda>x. ss_pos s < er_pos x) (lg m) = r # rows' @ more" by auto
      from sorted_next [OF _ this, of "from"] g Cons.prems(1)
      show "between from (er_pos r) (lg m) = between from (ss_pos s) (lg m) @ [r]" "ss_pos s < er_pos r"
        "\<exists>more. filter (\<lambda>x. er_pos r < er_pos x) (lg m) = rows' @ more"
        by (auto simp: growing_def delivered_def)
    qed
    have "delivered menv lg from ?s'"
      using Cons.prems(1) nx [of "ss_n s"] nx(1) rows(2) decoded_pos [OF rows(2)]
      by (auto simp: delivered_def intro!: list_all2_appendI)
    moreover have "next_rows lg rows' ?s'" using nx(3) decoded_pos [OF rows(2)] by (simp add: next_rows_def)
    ultimately have "delivered menv lg from (snd (forA (send env) es ?s'))" using Cons.IH rows(3) by blast
    moreover have "send env e s = (Inr (), ?s')" using True by (subst send_run) simp
    ultimately show ?thesis by (simp add: bindA_run [of "send env e" s])
  qed
qed simp

lemma page_next_rows:
  assumes g: "growing lg" and s': "ss_n s \<le> ss_n s'" "ss_pos s' = ss_pos s"
  shows "next_rows lg (all_rows (ss_pos s) b \<lparr>t_events = lg (ss_n s), t_snapshots = []\<rparr>) s'"
  unfolding next_rows_def
proof (intro allI impI)
  fix m assume "ss_n s' \<le> m"
  with g s'(1) obtain rows where m: "lg m = lg (ss_n s) @ rows" unfolding growing_def by (meson order_trans)
  let ?f = "filter (\<lambda>r. ss_pos s < er_pos r) (lg (ss_n s))"
  obtain more where "?f = all_rows (ss_pos s) b \<lparr>t_events = lg (ss_n s), t_snapshots = []\<rparr> @ more"
    using all_rows_sorted [of "\<lparr>t_events = lg (ss_n s), t_snapshots = []\<rparr>" "ss_pos s" b] g
    by (auto simp: growing_def Let_def intro: append_take_drop_id [symmetric] split: if_splits)
  then show "\<exists>more. filter (\<lambda>r. ss_pos s' < er_pos r) (lg m)
      = all_rows (ss_pos s) b \<lparr>t_events = lg (ss_n s), t_snapshots = []\<rparr> @ more"
    by (simp add: m s'(2))
qed

lemma keeps_catchUp [keeps_intros]:
  assumes g: "growing lg" and l: "loads_from menv lg env"
  shows "keeps (delivered menv lg from) (catchUp k env batch)"
proof (induction k)
  case (Suc k)
  show ?case
  proof (rule keepsI)
    fix s assume d: "delivered menv lg from s"
    obtain r1 s1 where p: "load_page env batch s = (r1, s1)" by fastforce
    then have s1: "s1 = s\<lparr>ss_n := ss_n s + 1\<rparr>" by (auto simp: load_page_def)
    have d1: "delivered menv lg from s1" using d by (simp add: s1 delivered_def)
    show "delivered menv lg from (snd (catchUp (Suc k) env batch s))"
    proof (cases r1)
      case (Inl e)
      with p d1 show ?thesis by (simp add: bindA_run [of "load_page env batch" s])
    next
      case (Inr es)
      with p have "list_all2 (decoded menv) es (all_rows (ss_pos s) (int batch) \<lparr>t_events = lg (ss_n s), t_snapshots = []\<rparr>)"
        using load_page_decoded [OF l] by blast
      with send_page [OF g d1 page_next_rows [OF g, of s s1]] have d2: "delivered menv lg from (snd (forA (send env) es s1))"
        by (simp add: s1)
      obtain r2 s2 where f: "forA (send env) es s1 = (r2, s2)" by fastforce
      with d2 keepsD [OF Suc.IH] show ?thesis
        by (cases r2) (simp_all add: bindA_run [of "load_page env batch" s, OF p] Inr bindA_run [of "forA (send env) es" s1, OF f])
    qed
  qed
qed (simp only: catchUp.simps cycles.simps keeps_throw)

lemma keeps_ask [keeps_intros]: "keeps (delivered menv lg from) (ask f)"
  by (rule keepsI) (simp add: delivered_def)

lemma keeps_seam [keeps_intros]: "keeps (delivered menv lg from) (seam f)"
  unfolding seam_def by (intro keeps_intros)

lemma keeps_update [keeps_intros]:
  "(\<And>s. ss_pos (f s) = ss_pos s \<and> ss_out (f s) = ss_out s \<and> ss_n (f s) = ss_n s) \<Longrightarrow>
     keeps (delivered menv lg from) (update_sub f)"
  by (rule keepsI) (simp add: delivered_def)

lemma keeps_attempt [keeps_intros]:
  assumes "keeps I m" and "\<And>e. keeps I (h e)" and "\<And>a. keeps I (f a)"
  shows "keeps I (attempt m h f)"
proof -
  have "keeps I (case stop of SubErr e \<Rightarrow> h e | Unfinished \<Rightarrow> throw Unfinished)" for stop
    using assms(2) by (cases stop) (auto intro: keeps_throw)
  with assms(1,3) show ?thesis unfolding attempt_def by (intro keeps_intros)
qed

lemma keeps_tail [keeps_intros]:
  "growing lg \<Longrightarrow> loads_from menv lg env \<Longrightarrow> keeps (delivered menv lg from) (tail_loop k env batch)"
  by (induction k) (simp_all, (intro keeps_intros; assumption)+)

lemma keeps_cycle [keeps_intros]:
  "growing lg \<Longrightarrow> loads_from menv lg env \<Longrightarrow> keeps (delivered menv lg from) (listenAndTail k env batch)"
  unfolding listenAndTail_def release_def by (intro keeps_intros; simp)

lemma keeps_cycles [keeps_intros]:
  "growing lg \<Longrightarrow> loads_from menv lg env \<Longrightarrow> keeps (delivered menv lg from) (cycles k env opts b n)"
proof (induction k arbitrary: b n)
  case (Suc k)
  then show ?case unfolding cycles.simps Let_def reportSubErr_def healthy_def by (intro keeps_intros; simp)
qed (simp only: catchUp.simps cycles.simps keeps_throw)


text \<open>C30. The subscription delivers the log, without gaps and without repetition, across every failure and reconnect.
  Whatever appends run at the same time, as long as they take the append lock, and whatever errors the pool, the
  connection and the loads give: at every moment of the run (every fuel) the events sent to the channel are exactly
  the committed events after the start and up to the current position, in order, and no event that is committed
  later has a position at or below it.\<close>

theorem pg_subscription_gap_free:
  assumes "events_wf \<lparr>t_events = rows0, t_snapshots = []\<rparr> n0" and "\<sigma> 0 = no_appends rows0 n0"
    and "\<forall>n. append_step\<^sup>*\<^sup>* (\<sigma> n) (\<sigma> (Suc n))" and "loads_from menv (\<lambda>n. ap_log (\<sigma> n)) env"
    and run: "runSubscription k env opts (Subscribe p0) = (r, s)"
  shows "\<forall>m \<ge> ss_n s. list_all2 (decoded menv) (ss_out s) (between p0 (ss_pos s) (ap_log (\<sigma> m)))"
proof -
  note g = history_growing [OF assms(1-3)]
  have "delivered menv (\<lambda>n. ap_log (\<sigma> n)) p0 (Subscribe p0)"
    by (simp add: delivered_def Subscribe_def between_def)
  moreover have "keeps (delivered menv (\<lambda>n. ap_log (\<sigma> n)) p0) (runSubscription k env opts)"
    unfolding runSubscription_def using g assms(4) by (intro keeps_intros; simp)
  ultimately show ?thesis using keepsD run by (fastforce simp: delivered_def)
qed

section \<open>A catch-up delivers all there is\<close>

lemma send_all:
  assumes "log_sorted xs" and "forA (send env) es s = (Inr u, s')" and "list_all2 (decoded menv) es rows"
    and "filter (\<lambda>r. ss_pos s < er_pos r) xs = rows @ tl_rows"
  shows "filter (\<lambda>r. ss_pos s' < er_pos r) xs = tl_rows \<and> ss_out s' = ss_out s @ es \<and> ss_n s' = ss_n s + length es"
  using assms(2-)
proof (induction es arbitrary: rows s)
  case (Cons e es)
  then obtain r rows' where rows: "rows = r # rows'" "decoded menv e r" "list_all2 (decoded menv) es rows'"
    by (cases rows) auto
  from Cons.prems(1) have t: "sv_sent env (ss_n s)"
    by (auto simp: bindA_Inr send_run split: if_splits)
  let ?s = "s\<lparr>ss_n := ss_n s + 1, ss_out := ss_out s @ [e], ss_pos := ev_GlobalPosition e\<rparr>"
  have "send env e s = (Inr (), ?s)" using t by (subst send_run) simp
  with Cons.prems(1) have rest: "forA (send env) es ?s = (Inr u, s')" by (simp add: bindA_run [of "send env e" s])
  have "filter (\<lambda>x. er_pos r < er_pos x) xs = rows' @ tl_rows"
    using sorted_next(2) [OF assms(1), of "ss_pos s" r "rows' @ tl_rows" "ss_pos s"] Cons.prems(3) rows(1) by simp
  then have "filter (\<lambda>x. ss_pos ?s < er_pos x) xs = rows' @ tl_rows" using decoded_pos [OF rows(2)] by simp
  from Cons.IH [OF rest rows(3) this] show ?case by simp
qed simp

lemma page_all:
  assumes "log_sorted xs"
  shows "all_rows p (int b) \<lparr>t_events = xs, t_snapshots = []\<rparr> =
    (if 0 < b then take b (filter (\<lambda>r. p < er_pos r) xs) else filter (\<lambda>r. p < er_pos r) xs)"
  using all_rows_sorted [of "\<lparr>t_events = xs, t_snapshots = []\<rparr>" p "int b"] assms by (simp add: Let_def)

text \<open>A catch-up that succeeds ends with a page after which nothing was left in the log.\<close>

lemma catchUp_complete:
  assumes g: "growing lg" and l: "loads_from menv lg env" and "catchUp k env batch s = (Inr u, s')"
  shows "\<exists>n. ss_n s \<le> n \<and> n < ss_n s' \<and> filter (\<lambda>r. ss_pos s' < er_pos r) (lg n) = []"
  using assms(3)
proof (induction k arbitrary: s)
  case (Suc k)
  then obtain es s1 s2 where p: "load_page env batch s = (Inr es, s1)" and f: "forA (send env) es s1 = (Inr (), s2)"
    and rest: "(if length es < batch then ret () else catchUp k env batch) s2 = (Inr u, s')"
    by (auto simp: bindA_Inr)
  note dec = load_page_decoded [OF l p]
  have so: "log_sorted (lg (ss_n s))" using g by (simp add: growing_def)
  let ?f = "filter (\<lambda>r. ss_pos s < er_pos r) (lg (ss_n s))"
  let ?rows = "all_rows (ss_pos s) (int batch) \<lparr>t_events = lg (ss_n s), t_snapshots = []\<rparr>"
  have rows: "?f = ?rows @ (if 0 < batch then drop batch ?f else [])" using page_all [OF so] by simp
  have pos: "ss_pos s1 = ss_pos s" "ss_n s1 = ss_n s + 1" using dec by simp_all
  from send_all [OF so f conjunct1 [OF dec]] rows pos
  have s2: "filter (\<lambda>r. ss_pos s2 < er_pos r) (lg (ss_n s)) = (if 0 < batch then drop batch ?f else [])"
    "ss_n s2 = ss_n s + 1 + length es" by simp_all
  show ?case
  proof (cases "length es < batch")
    case True
    with rest have "s' = s2" by simp
    moreover have "length ?rows < batch" using True dec by (auto dest: list_all2_lengthD)
    then have "drop batch ?f = []" using page_all [OF so, of "ss_pos s" batch] by (auto split: if_splits)
    ultimately show ?thesis using s2 by (intro exI [of _ "ss_n s"]) simp
  next
    case False
    with rest have "catchUp k env batch s2 = (Inr u, s')" by simp
    from Suc.IH [OF this] obtain n where "ss_n s2 \<le> n" "n < ss_n s'" "filter (\<lambda>r. ss_pos s' < er_pos r) (lg n) = []" by blast
    with s2(2) show ?thesis by (intro exI [of _ n]) simp
  qed
qed simp

text \<open>C31. A catch-up ends and delivers everything, when the log does not grow meanwhile, no load fails and the
  consumer takes what is sent: as many pages as the backlog fills, and one more, are enough. A page that is exactly
  full does not end it early.\<close>

theorem catchUp_delivers_backlog:
  assumes "0 < batch" and "log_sorted xs" and "loads_from menv lg env" and "\<forall>n \<ge> ss_n s. lg n = xs"
    and "\<forall>n \<ge> ss_n s. \<forall>p. \<exists>es. sv_load env n p batch = Inr es" and "\<forall>n \<ge> ss_n s. sv_sent env n"
    and "length (filter (\<lambda>r. ss_pos s < er_pos r) xs) div batch < k"
  shows "\<exists>es s'. catchUp k env batch s = (Inr (), s') \<and> ss_out s' = ss_out s @ es \<and>
    list_all2 (decoded menv) es (filter (\<lambda>r. ss_pos s < er_pos r) xs) \<and> filter (\<lambda>r. ss_pos s' < er_pos r) xs = []"
  using assms(4-)
proof (induction k arbitrary: s)
  case (Suc k)
  let ?f = "filter (\<lambda>r. ss_pos s < er_pos r) xs"
  obtain es where ld: "sv_load env (ss_n s) (ss_pos s) batch = Inr es" using Suc.prems(2) by blast
  let ?s1 = "s\<lparr>ss_n := ss_n s + 1\<rparr>"
  have p: "load_page env batch s = (Inr es, ?s1)" by (simp add: load_page_def ld)
  have dec: "list_all2 (decoded menv) es (take batch ?f)"
    using load_page_decoded [OF assms(3) p] Suc.prems(1) page_all [OF assms(2)] assms(1) by simp
  have "\<exists>s'. forA (send env) es t = (Inr (), s')" if "ss_n s \<le> ss_n t" for t
    using that
  proof (induction es arbitrary: t)
    case (Cons e es)
    let ?t = "t\<lparr>ss_n := ss_n t + 1, ss_out := ss_out t @ [e], ss_pos := ev_GlobalPosition e\<rparr>"
    have "send env e t = (Inr (), ?t)" using Cons.prems Suc.prems(3) by (subst send_run) simp
    moreover obtain s' where "forA (send env) es ?t = (Inr (), s')" using Cons.IH [of ?t] Cons.prems by auto
    ultimately show ?case by (simp add: bindA_run [of "send env e" t])
  qed simp
  then obtain s2 where f: "forA (send env) es ?s1 = (Inr (), s2)" by fastforce
  have s2: "filter (\<lambda>r. ss_pos s2 < er_pos r) xs = drop batch ?f" "ss_out s2 = ss_out s @ es" "ss_n s2 = ss_n s + 1 + length es"
    using send_all [OF assms(2) f dec, of "drop batch ?f"] by simp_all
  have run: "catchUp (Suc k) env batch s = (if length es < batch then ret () else catchUp k env batch) s2"
    by (simp add: bindA_run [of "load_page env batch" s, OF p]) (simp add: bindA_run [of "forA (send env) es", OF f [simplified]])
  have len: "length es = min batch (length ?f)" using dec by (auto dest: list_all2_lengthD)
  show ?case
  proof (cases "length es < batch")
    case True
    with len have "length ?f < batch" by simp
    with True run s2 dec show ?thesis by auto
  next
    case False
    with len have "batch \<le> length ?f" by simp
    then have "length (drop batch ?f) div batch < k" using Suc.prems(4) assms(1)
      by (simp add: le_div_geq)
    then have less: "length (filter (\<lambda>r. ss_pos s2 < er_pos r) xs) div batch < k" by (simp only: s2(1))
    obtain es' s' where "catchUp k env batch s2 = (Inr (), s')" "ss_out s' = ss_out s2 @ es'"
      "list_all2 (decoded menv) es' (filter (\<lambda>r. ss_pos s2 < er_pos r) xs)" "filter (\<lambda>r. ss_pos s' < er_pos r) xs = []"
      using Suc.IH [OF _ _ _ less] Suc.prems(1-3) s2(3) by auto
    moreover from this have "list_all2 (decoded menv) (es @ es') (take batch ?f @ drop batch ?f)"
      using dec unfolding s2(1) by (intro list_all2_appendI)
    ultimately show ?thesis using False run s2(2) by (auto simp del: append_take_drop_id simp: append_take_drop_id)
  qed
qed simp



section \<open>An established cycle has closed the gap\<close>

lemma keeps_out: "keeps (\<lambda>s. prefix es (ss_out s)) (catchUp k env batch)" "keeps (\<lambda>s. prefix es (ss_out s)) (tail_loop k env batch)"
proof -
  have a: "keeps (\<lambda>s. prefix es (ss_out s)) (ask f)" for f :: "nat \<Rightarrow> 'x"
    by (rule keepsI) simp
  have ld: "keeps (\<lambda>s. prefix es (ss_out s)) (load_page env batch)"
    by (rule keepsI) (simp add: load_page_def)
  have sd: "keeps (\<lambda>s. prefix es (ss_out s)) (send env e)" for e
    by (rule keepsI) (subst send_run, simp add: prefix_order.trans)
  have sm: "keeps (\<lambda>s. prefix es (ss_out s)) (seam f)" for f unfolding seam_def by (intro keeps_intros a)
  have c: "keeps (\<lambda>s. prefix es (ss_out s)) (catchUp k env batch)" for k
  proof (induction k)
    case (Suc k)
    then show ?case unfolding catchUp.simps by (intro keeps_intros ld sd)
  qed (simp only: catchUp.simps keeps_throw)
  then show "keeps (\<lambda>s. prefix es (ss_out s)) (catchUp k env batch)" .
  show "keeps (\<lambda>s. prefix es (ss_out s)) (tail_loop k env batch)"
  proof (induction k)
    case (Suc k)
    then show ?case unfolding tail_loop.simps by (intro keeps_intros a sm c)
  qed (simp only: tail_loop.simps keeps_throw)
qed

lemma list_all2_right: "list_all2 P xs ys \<Longrightarrow> y \<in> set ys \<Longrightarrow> \<exists>x \<in> set xs. P x y"
  by (induction xs ys rule: list_all2_induct) auto

lemma bind_ask: "bindA (ask f) g s = g (f (ss_n s)) (s\<lparr>ss_n := ss_n s + 1\<rparr>)"
  by (simp add: bindA_def tryA_def)

lemma bind_update: "bindA (update_sub f) g s = g () (f s)"
  by (simp add: bindA_def tryA_def)

lemma attempt_Inr:
  "attempt m h f w = (Inr b, w'') \<longleftrightarrow> (\<exists>e w'. m w = (Inl (SubErr e), w') \<and> h e w' = (Inr b, w'')) \<or>
    (\<exists>a w'. m w = (Inr a, w') \<and> f a w' = (Inr b, w''))"
  by (auto simp: attempt_def tryA_def split: prod.splits sum.splits sub_stop.splits)

text \<open>An established cycle has closed the gap. When a connection cycle got as far as its tail loop, everything
  that was committed before the cycle began, in an outage of any length, has been delivered by its end. The position
  alone carries the subscription from one connection to the next.\<close>

theorem reconnect_closes_gap:
  assumes "events_wf \<lparr>t_events = rows0, t_snapshots = []\<rparr> n0" and "\<sigma> 0 = no_appends rows0 n0"
    and "\<forall>n. append_step\<^sup>*\<^sup>* (\<sigma> n) (\<sigma> (Suc n))" and "loads_from menv (\<lambda>n. ap_log (\<sigma> n)) env"
    and d: "delivered menv (\<lambda>n. ap_log (\<sigma> n)) p0 s" and run: "listenAndTail k env batch s = (Inr (t, err), s')"
    and t: "t \<noteq> zero_time"
  shows "\<forall>r \<in> set (ap_log (\<sigma> (ss_n s))). p0 < er_pos r \<longrightarrow> (\<exists>e \<in> set (ss_out s'). decoded menv e r)"
proof -
  let ?lg = "\<lambda>n. ap_log (\<sigma> n)"
  note g = history_growing [OF assms(1-3)]
  from run t obtain s1 s2 sc s4 where s1: "seam (sv_acquire env) s = (Inr (), s1)"
    and s2: "seam (sv_listen env) (s1\<lparr>ss_conns := ss_conns s1 + 1\<rparr>) = (Inr (), s2)"
    and c: "catchUp k env batch s2 = (Inr (), sc)" and tl: "tail_loop k env batch (sc\<lparr>ss_n := ss_n sc + 1\<rparr>) = (Inr err, s4)"
    and s': "s' = s4\<lparr>ss_conns := ss_conns s4 - 1\<rparr>"
    by (auto simp: listenAndTail_def release_def bindA_Inr attempt_Inr)
  have n: "ss_n s \<le> ss_n s2" "ss_pos s2 = ss_pos s" "ss_out s2 = ss_out s"
    using s1 s2 by (auto simp: seam_def bindA_Inr split: option.splits)
  from catchUp_complete [OF g assms(4) c] obtain n where nn: "ss_n s2 \<le> n" "n < ss_n sc" "filter (\<lambda>r. ss_pos sc < er_pos r) (?lg n) = []"
    by blast
  have "delivered menv ?lg p0 s2" using d n by (simp add: delivered_def)
  from keeps_run [OF keeps_catchUp [OF g assms(4)] this c] have dc: "delivered menv ?lg p0 sc" .
  have all: "\<exists>e \<in> set (ss_out sc). decoded menv e r" if r: "r \<in> set (?lg (ss_n s))" "p0 < er_pos r" for r
  proof -
    obtain xs ys where "?lg n = ?lg (ss_n s) @ xs" "?lg (ss_n sc) = ?lg n @ ys"
      using g n nn unfolding growing_def by (meson less_imp_le order_trans)
    with r nn(3) have "r \<in> set (between p0 (ss_pos sc) (?lg (ss_n sc)))"
      by (auto simp: between_def filter_empty_conv not_less)
    moreover have "list_all2 (decoded menv) (ss_out sc) (between p0 (ss_pos sc) (?lg (ss_n sc)))"
      using dc by (simp add: delivered_def)
    ultimately show ?thesis by (rule list_all2_right [rotated])
  qed
  have "prefix (ss_out sc) (ss_out s4)"
    using keeps_run [OF keeps_out(2) _ tl, of "ss_out sc"] by simp
  then have "set (ss_out sc) \<subseteq> set (ss_out s')" unfolding s' by (simp add: set_mono_prefix)
  with all show ?thesis by blast
qed

section \<open>Giving up\<close>

text \<open>The back-off before each reconnect: doubled every time, up to the maximum.\<close>

definition backoff_at :: "nat \<Rightarrow> time" where
  "backoff_at j = min (2 ^ j * subReconnectInitialBackoff) subReconnectMaxBackoff"

lemma backoff_Suc: "min (backoff_at j * 2) subReconnectMaxBackoff = backoff_at (Suc j)"
  by (simp add: backoff_at_def subReconnectInitialBackoff_def subReconnectMaxBackoff_def second_def min_def)

text \<open>An environment in which no connection can be set up: the pool gives none, or the first statement on it fails.\<close>

definition unreachable :: "sub_env \<Rightarrow> bool" where
  "unreachable env \<longleftrightarrow> (\<forall>n. \<not> sv_done env n \<and> (sv_acquire env n \<noteq> None \<or> sv_listen env (Suc n) \<noteq> None))"

text \<open>The errors of that many failed cycles in a row, the first of which starts with the call of the given number: a
  cycle asks for a connection, perhaps for \<open>LISTEN\<close>, and twice whether the context is done.\<close>

fun outage_errors :: "sub_env \<Rightarrow> nat \<Rightarrow> nat \<Rightarrow> repo_error list" where
  "outage_errors env 0 n = []"
| "outage_errors env (Suc k) n = (case sv_acquire env n of
      Some e \<Rightarrow> e # outage_errors env k (n + 3)
    | None \<Rightarrow> (case sv_listen env (n + 1) of Some e \<Rightarrow> e # outage_errors env k (n + 4) | None \<Rightarrow> []))"

lemma length_outage_errors: "unreachable env \<Longrightarrow> length (outage_errors env k n) = k"
proof (induction k arbitrary: n)
  case (Suc k)
  then have "sv_acquire env n \<noteq> None \<or> sv_listen env (Suc n) \<noteq> None" unfolding unreachable_def by blast
  with Suc show ?case by (auto split: option.split)
qed simp

text \<open>What is reported of errors: nothing without a handler, and no cancellations and exceeded deadlines.\<close>

definition reported :: "pg_es_options \<Rightarrow> repo_error list \<Rightarrow> repo_error list" where
  "reported opts es = (if po_handler opts then filter reportable es else [])"

lemma reported_append: "reported opts (es @ fs) = reported opts es @ reported opts fs"
  by (simp add: reported_def)

lemma reportSubErr_run: "reportSubErr opts e s = (Inr (), s\<lparr>ss_errs := ss_errs s @ reported opts [e]\<rparr>)"
  by (simp add: reportSubErr_def reported_def)

lemma unreachable_cycle:
  assumes "unreachable env"
  obtains e n where "listenAndTail k env batch s = (Inr (zero_time, e), s\<lparr>ss_n := n\<rparr>)"
    "\<And>j. outage_errors env (Suc j) (ss_n s) = e # outage_errors env j (n + 2)"
proof (cases "sv_acquire env (ss_n s)")
  case None
  with assms obtain e where e: "sv_listen env (Suc (ss_n s)) = Some e" unfolding unreachable_def by blast
  have "seam (sv_acquire env) s = (Inr (), s\<lparr>ss_n := Suc (ss_n s)\<rparr>)"
    by (simp add: seam_def bindA_def tryA_def None)
  moreover have "seam (sv_listen env) (s\<lparr>ss_n := Suc (ss_n s), ss_conns := ss_conns s + 1\<rparr>)
      = (Inl (SubErr e), s\<lparr>ss_n := Suc (Suc (ss_n s)), ss_conns := ss_conns s + 1\<rparr>)"
    by (simp add: seam_def bindA_def tryA_def e)
  ultimately show thesis using None e
    by (intro that [of e "Suc (Suc (ss_n s))"])
      (simp_all add: listenAndTail_def attempt_def tryA_def bindA_def release_def numeral_eq_Suc)
next
  case (Some e)
  then have "seam (sv_acquire env) s = (Inl (SubErr e), s\<lparr>ss_n := Suc (ss_n s)\<rparr>)"
    by (simp add: seam_def bindA_def tryA_def)
  with Some show thesis
    by (intro that [of e "Suc (ss_n s)"]) (simp_all add: listenAndTail_def attempt_def tryA_def numeral_eq_Suc)
qed

text \<open>What a run of failed cycles leaves behind, apart from the number of calls: the waits from the \<open>j\<close>-th to before
  the \<open>m\<close>-th, and the reports of the errors.\<close>

definition outage :: "pg_es_options \<Rightarrow> nat \<Rightarrow> nat \<Rightarrow> repo_error list \<Rightarrow> sub_state \<Rightarrow> sub_state \<Rightarrow> bool" where
  "outage opts j m es s s' \<longleftrightarrow> ss_pos s' = ss_pos s \<and> ss_out s' = ss_out s \<and> ss_conns s' = ss_conns s \<and> ss_closed s' = ss_closed s \<and>
     ss_naps s' = ss_naps s @ map backoff_at [j..<m] \<and> ss_errs s' = ss_errs s @ reported opts es"

lemma unreachable_cycles:
  assumes u: "unreachable env" and "0 < po_maxReconnects opts \<longrightarrow> j \<le> po_maxReconnects opts"
  shows "\<exists>s'. cycles k env opts (backoff_at j) j s = (if 0 < po_maxReconnects opts \<and> po_maxReconnects opts < j + k
     then Inr () else Inl Unfinished, s') \<and>
     (let es = outage_errors env (Suc (po_maxReconnects opts - j)) (ss_n s)
      in if 0 < po_maxReconnects opts \<and> po_maxReconnects opts < j + k
         then outage opts j (po_maxReconnects opts) (es @ [last es]) s s'
         else outage opts j (j + k) (outage_errors env k (ss_n s)) s s')"
  using assms(2)
proof (induction k arbitrary: j s)
  case (Suc k)
  let ?m = "po_maxReconnects opts"
  obtain e n where c: "listenAndTail k env (po_catchUpBatch opts) s = (Inr (zero_time, e), s\<lparr>ss_n := n\<rparr>)"
    and es: "\<And>j. outage_errors env (Suc j) (ss_n s) = e # outage_errors env j (n + 2)"
    using unreachable_cycle [OF u, of k "po_catchUpBatch opts" s] by blast
  have live: "\<not> sv_done env n" for n using u by (simp add: unreachable_def)
  let ?s1 = "s\<lparr>ss_n := n + 1, ss_errs := ss_errs s @ reported opts [e]\<rparr>"
  let ?s2 = "?s1\<lparr>ss_naps := ss_naps s @ [backoff_at j], ss_n := n + 2\<rparr>"
  have run: "cycles (Suc k) env opts (backoff_at j) j s =
    (if 0 < ?m \<and> ?m \<le> j then (Inr (), ?s1\<lparr>ss_errs := ss_errs s @ reported opts [e] @ reported opts [e]\<rparr>)
     else cycles k env opts (backoff_at (Suc j)) (Suc j) ?s2)"
    by (simp add: bindA_run [of "listenAndTail k env (po_catchUpBatch opts)" s, OF c] bind_ask bind_update live
        bindA_run [of "reportSubErr opts e", OF reportSubErr_run] reportSubErr_run healthy_def is_zero_time_def Let_def backoff_Suc
        del: cycles.simps add: cycles.simps(2))
  show ?case
  proof (cases "0 < ?m \<and> ?m \<le> j")
    case True
    with Suc.prems have "j = ?m" by simp
    with True run es [of 0] show ?thesis by (simp add: outage_def reported_append [symmetric] del: outage_errors.simps(2))
  next
    case False
    then have "0 < ?m \<longrightarrow> Suc j \<le> ?m" by auto
    have n2: "ss_n ?s2 = n + 2" by simp
    from Suc.IH [OF \<open>0 < ?m \<longrightarrow> Suc j \<le> ?m\<close>, of ?s2, unfolded n2] obtain s' where s': "cycles k env opts (backoff_at (Suc j)) (Suc j) ?s2 =
        (if 0 < ?m \<and> ?m < Suc j + k then Inr () else Inl Unfinished, s')"
      "let fs = outage_errors env (Suc (?m - Suc j)) (n + 2)
       in if 0 < ?m \<and> ?m < Suc j + k then outage opts (Suc j) ?m (fs @ [last fs]) ?s2 s'
          else outage opts (Suc j) (Suc j + k) (outage_errors env k (n + 2)) ?s2 s'" by blast
    have step: "outage opts j m (e # fs) s s'" if "outage opts (Suc j) m fs ?s2 s'" "Suc j \<le> m" for m fs
      using that reported_append [of opts "[e]" fs] by (simp add: outage_def upt_conv_Cons)
    show ?thesis
    proof (cases "0 < ?m \<and> ?m < Suc j + k")
      case fin: True
      with False have "Suc (?m - Suc j) = ?m - j" by simp
      with es [of "?m - j"] s' fin False step run length_outage_errors [OF u, of "?m - j" "n + 2"]
      show ?thesis by (auto simp: Let_def simp del: outage_errors.simps(2) cycles.simps)
    next
      case more: False
      with s' False step run es [of k] show ?thesis
        by (auto simp: Let_def simp del: outage_errors.simps(2) cycles.simps)
    qed
  qed
qed (auto simp: outage_def reported_def Let_def)

lemma Subscribe_sel [simp]: "ss_pos (Subscribe p) = p" "ss_out (Subscribe p) = []" "ss_conns (Subscribe p) = 0"
  "ss_n (Subscribe p) = 0" "ss_naps (Subscribe p) = []" "ss_errs (Subscribe p) = []" "\<not> ss_closed (Subscribe p)"
  by (simp_all add: Subscribe_def)

lemma backoff_0: "subReconnectInitialBackoff = backoff_at 0"
  by (simp add: backoff_at_def subReconnectInitialBackoff_def subReconnectMaxBackoff_def second_def)

text \<open>Without a bound the loop tries for ever, waiting five seconds at most, and reports the attempts.\<close>

lemma outage_retried:
  assumes "unreachable env" and "po_maxReconnects opts = 0"
  shows "\<exists>s. runSubscription k env opts (Subscribe p) = (Inl Unfinished, s) \<and> \<not> ss_closed s \<and>
    ss_naps s = map backoff_at [0..<k] \<and> (\<forall>t \<in> set (ss_naps s). t \<le> subReconnectMaxBackoff) \<and>
    ss_errs s = reported opts (outage_errors env k 0)"
proof -
  obtain s' where c: "cycles k env opts subReconnectInitialBackoff 0 (Subscribe p) = (Inl Unfinished, s')"
    and s': "outage opts 0 k (outage_errors env k 0) (Subscribe p) s'"
    using unreachable_cycles [OF assms(1), of opts 0 k "Subscribe p"] assms(2) by (auto simp: backoff_0)
  show ?thesis unfolding runSubscription_def bindA_run [of "cycles k env opts subReconnectInitialBackoff 0", OF c]
    using s' by (auto simp: outage_def backoff_at_def)
qed

text \<open>C32. A bounded subscription gives up when no connection can be set up. The loop makes one attempt more than
  \<open>maxReconnects\<close> and waits between them, 100 milliseconds at first, then twice as long each time but five seconds at most;
  it delivers nothing, holds no connection, and closes the channel. If a handler is registered it is given the error of
  each attempt and once more that of the last, save those that are a cancellation or an exceeded deadline: where the
  pool's own connect time-out ran out, the subscription ends without any report. As much fuel as there are attempts is
  enough.\<close>

theorem subscription_gives_up:
  assumes "unreachable env" and "0 < po_maxReconnects opts" and "po_maxReconnects opts < k"
    and "es = outage_errors env (po_maxReconnects opts + 1) 0"
  shows "\<exists>s. runSubscription k env opts (Subscribe p) = (Inr (), s) \<and> ss_closed s \<and> ss_conns s = 0 \<and> ss_out s = [] \<and>
    ss_pos s = p \<and> ss_naps s = map (\<lambda>j. min (2 ^ j * subReconnectInitialBackoff) subReconnectMaxBackoff) [0..<po_maxReconnects opts] \<and>
    length es = po_maxReconnects opts + 1 \<and>
    ss_errs s = (if po_handler opts then filter reportable (es @ [last es]) else [])"
proof -
  obtain s' where c: "cycles k env opts subReconnectInitialBackoff 0 (Subscribe p) = (Inr (), s')"
    and s': "outage opts 0 (po_maxReconnects opts) (es @ [last es]) (Subscribe p) s'"
    using unreachable_cycles [OF assms(1), of opts 0 k "Subscribe p"] assms(2-4)
    by (auto simp: backoff_0 Let_def simp del: outage_errors.simps)
  have "length es = po_maxReconnects opts + 1" unfolding assms(4) by (rule length_outage_errors [OF assms(1)])
  then show ?thesis unfolding runSubscription_def bindA_run [of "cycles k env opts subReconnectInitialBackoff 0", OF c]
    using s' by (simp add: outage_def backoff_at_def reported_def)
qed

section \<open>Witnesses\<close>

definition demo_rows :: "event_row list" where
  "demo_rows = [\<lparr>er_pos = 1, er_id = ''e1'', er_stream = ''s'', er_type = ''t'', er_version = 1, er_schema = 1, er_data = ''{}'',
      er_meta = [], er_occurred = 0, er_recorded = 0\<rparr>,
    \<lparr>er_pos = 2, er_id = ''e2'', er_stream = ''s'', er_type = ''t'', er_version = 2, er_schema = 1, er_data = ''{}'',
      er_meta = [], er_occurred = 0, er_recorded = 0\<rparr>]"

text \<open>Every wait fails; the acquisitions as given.\<close>

definition demo_sub :: "(nat \<Rightarrow> repo_error option) \<Rightarrow> sub_env" where
  "demo_sub acquire = \<lparr>sv_acquire = acquire, sv_listen = (\<lambda>_. None), sv_wait = (\<lambda>_. Some (DbError DriverError)),
     sv_load = (\<lambda>n p b. fst (LoadAll demo_menv p (int b) (log_store demo_rows))), sv_sent = (\<lambda>_. True),
     sv_done = (\<lambda>_. False), sv_now = (\<lambda>n. int n)\<rparr>"

definition demo_opts :: pg_es_options where
  "demo_opts = NewEventStore [WithSubscriptionErrorHandler, WithSubscriptionMaxReconnects 2, WithCatchUpBatchSize 2]"

definition flaky :: "nat \<Rightarrow> repo_error option" where
  "flaky n = (if n = 0 then Some (DbError DriverError) else None)"

lemma demo_rows_wf: "events_wf \<lparr>t_events = demo_rows, t_snapshots = []\<rparr> 3"
proof -
  have "contiguous (versions_of s demo_rows)" for s
    by (cases "s = ''s''") (simp_all add: versions_of_def demo_rows_def contiguous_def upt_rec)
  then show ?thesis by (simp add: events_wf_def demo_rows_def)
qed

lemma demo_loads: "loads_from demo_menv (\<lambda>n. ap_log (no_appends demo_rows 3)) (demo_sub f)"
  by (simp add: loads_from_def demo_sub_def no_appends_def)

lemma demo_run: "fst (runSubscription 4 (demo_sub flaky) demo_opts (Subscribe 0)) = Inr ()"
    "ss_pos (snd (runSubscription 4 (demo_sub flaky) demo_opts (Subscribe 0))) = 2"
    "length (ss_errs (snd (runSubscription 4 (demo_sub flaky) demo_opts (Subscribe 0)))) = 4"
  by code_simp+

theorem pg_subscription_gap_free_witness:
  "\<exists>s. runSubscription 4 (demo_sub flaky) demo_opts (Subscribe 0) = (Inr (), s) \<and> length (ss_errs s) = 4 \<and>
     list_all2 (decoded demo_menv) (ss_out s) demo_rows"
proof -
  obtain s where run: "runSubscription 4 (demo_sub flaky) demo_opts (Subscribe 0) = (Inr (), s)"
    using demo_run(1) by (metis prod.collapse)
  with demo_run(2,3) have s: "ss_pos s = 2" "length (ss_errs s) = 4" by simp_all
  have "between 0 2 (ap_log (no_appends demo_rows 3)) = demo_rows" by (simp add: between_def demo_rows_def no_appends_def)
  with pg_subscription_gap_free [OF demo_rows_wf _ _ demo_loads run] run s show ?thesis by auto
qed

theorem catchUp_delivers_backlog_witness:
  "\<exists>es s'. catchUp 2 (demo_sub flaky) 2 (Subscribe 0) = (Inr (), s') \<and> ss_out s' = es \<and>
     list_all2 (decoded demo_menv) es demo_rows"
proof -
  have ld: "\<exists>es. sv_load (demo_sub flaky) n p 2 = Inr es" for n p
  proof -
    have "\<exists>es. scanEvents demo_menv rows w = (Inr es, w)" if "set rows \<subseteq> set demo_rows" for rows and w :: "log_db pg_db world"
      using that
    proof (induction rows)
      case (Cons r rows)
      then obtain es where "scanEvents demo_menv rows w = (Inr es, w)" by auto
      moreover have "\<exists>e. row_to_event demo_menv r = Inr e" using Cons.prems by (auto simp: demo_rows_def row_to_event_def)
      ultimately show ?case by (auto simp: scanEvents_def bindA_def tryA_def)
    qed (simp add: scanEvents_def)
    moreover have "set (all_rows p 2 \<lparr>t_events = demo_rows, t_snapshots = []\<rparr>) \<subseteq> set demo_rows"
      by (auto simp: all_rows_def Let_def dest!: in_set_takeD)
    moreover have "faults (log_store demo_rows) = []" "\<not> aborted_tx (log_store demo_rows)"
      "pg_data (db (log_store demo_rows)) = \<lparr>t_events = demo_rows, t_snapshots = []\<rparr>"
      by (simp_all add: log_store_def aborted_tx_def)
    ultimately have "\<exists>es w. LoadAll demo_menv p 2 (log_store demo_rows) = (Inr es, w)"
      by (simp add: LoadAll_def bindA_run [of "pg_query _" "log_store demo_rows", OF pg_query_run]) blast
    then show ?thesis by (auto simp: demo_sub_def)
  qed
  have "filter (\<lambda>r. ss_pos (Subscribe 0) < er_pos r) demo_rows = demo_rows" "length demo_rows = 2" "log_sorted demo_rows"
    by (simp_all add: demo_rows_def Subscribe_def log_sorted_def)
  with catchUp_delivers_backlog [where batch = 2 and xs = demo_rows and k = 2 and s = "Subscribe 0", OF _ _ demo_loads] ld
  show ?thesis by (auto simp: no_appends_def demo_sub_def Subscribe_def)
qed

theorem reconnect_closes_gap_witness:
  "\<exists>t e s'. listenAndTail 2 (demo_sub (\<lambda>_. None)) 1000 (Subscribe 1) = (Inr (t, e), s') \<and> t \<noteq> zero_time \<and>
     (\<exists>e \<in> set (ss_out s'). decoded demo_menv e (demo_rows ! 1))"
proof -
  have r: "(case fst (listenAndTail 2 (demo_sub (\<lambda>_. None)) 1000 (Subscribe 1)) of Inl _ \<Rightarrow> None | Inr x \<Rightarrow> Some (fst x))
      = Some 4" by code_simp
  then obtain e s' where run: "listenAndTail 2 (demo_sub (\<lambda>_. None)) 1000 (Subscribe 1) = (Inr (4, e), s')"
    by (cases "listenAndTail 2 (demo_sub (\<lambda>_. None)) 1000 (Subscribe 1)") (auto split: sum.splits)
  have t: "4 \<noteq> zero_time" by (simp add: zero_time_value)
  have d: "delivered demo_menv (\<lambda>n. ap_log (no_appends demo_rows 3)) 1 (Subscribe 1)"
    by (simp add: delivered_def Subscribe_def between_def)
  have "demo_rows ! 1 \<in> set (ap_log (no_appends demo_rows 3))" "1 < er_pos (demo_rows ! 1)"
    by (simp_all add: demo_rows_def no_appends_def)
  with reconnect_closes_gap [OF demo_rows_wf _ _ demo_loads d run t] run t show ?thesis by blast
qed

text \<open>Three attempts, the second of which runs into a deadline; and three that all do.\<close>

theorem subscription_gives_up_witness:
  "(\<exists>s. runSubscription 3 (demo_sub (\<lambda>n. Some (DbError (if n = 3 then ContextDone else DriverError)))) demo_opts (Subscribe 0)
       = (Inr (), s) \<and> ss_closed s \<and> ss_naps s = [100000000, 200000000] \<and> ss_errs s = replicate 3 (DbError DriverError)) \<and>
   (\<exists>s. runSubscription 3 (demo_sub (\<lambda>_. Some (DbError ContextDone))) demo_opts (Subscribe 0) = (Inr (), s) \<and>
     ss_closed s \<and> ss_errs s = [])"
proof -
  have u: "unreachable (demo_sub (\<lambda>n. Some (f n)))" for f by (simp add: unreachable_def demo_sub_def)
  have o: "po_handler demo_opts" "po_maxReconnects demo_opts = 2"
    by (simp_all add: demo_opts_def NewEventStore_def WithSubscriptionErrorHandler_def WithSubscriptionMaxReconnects_def
        WithCatchUpBatchSize_def)
  have es: "outage_errors (demo_sub (\<lambda>n. Some (f n))) 3 0 = [f 0, f 3, f 6]" for f
    by (simp add: numeral_eq_Suc demo_sub_def)
  have run: "\<exists>s. runSubscription 3 (demo_sub (\<lambda>n. Some (f n))) demo_opts (Subscribe 0) = (Inr (), s) \<and> ss_closed s \<and>
      ss_naps s = [100000000, 200000000] \<and> ss_errs s = filter reportable [f 0, f 3, f 6, f 6]" for f
    using subscription_gives_up [OF u [of f], of demo_opts 3 "[f 0, f 3, f 6]" 0] o es [of f]
    by (auto simp: numeral_3_eq_3 upt_rec subReconnectInitialBackoff_def subReconnectMaxBackoff_def second_def)
  from run [of "\<lambda>n. DbError (if n = 3 then ContextDone else DriverError)"] run [of "\<lambda>_. DbError ContextDone"]
  show ?thesis by (auto simp: reportable_def numeral_eq_Suc)
qed

end
