(* ===== verification/Pg_Alike.thy ===== *)
theory Pg_Alike
  imports Pg_Base
begin

text \<open>
  A simulation between the two stores. Two worlds are in step when they hold the same rows at the same time, outside a
  transaction and with no faults to come; two operations are alike when from worlds in step they give the same result
  and leave worlds in step. The rules follow the operators the repositories are composed with, so that an operation of
  the PostgreSQL adapter is compared with that of the MySQL adapter statement by statement.
\<close>

named_theorems alike_intros \<open>composition rules for operations of the two stores\<close>

definition in_step :: "('d \<Rightarrow> bool) \<Rightarrow> 'd pg_db world \<Rightarrow> 'd world \<Rightarrow> bool" where
  "in_step I v w \<longleftrightarrow> quiet v \<and> quiet w \<and> pg_data (db v) = db w \<and> snow v = snow w \<and> clk v = clk w \<and> I (db w)"

definition alike :: "('d \<Rightarrow> bool) \<Rightarrow> ('d, 'a) pgsql \<Rightarrow> ('d, 'a) sql \<Rightarrow> bool" where
  "alike I m m' \<longleftrightarrow> (\<forall>v w. in_step I v w \<longrightarrow>
     same_result (fst (m v)) (fst (m' w)) \<and> in_step I (snd (m v)) (snd (m' w)))"

lemma alikeI:
  assumes "\<And>v w. in_step I v w \<Longrightarrow> same_result (fst (m v)) (fst (m' w)) \<and> in_step I (snd (m v)) (snd (m' w))"
  shows "alike I m m'"
  using assms by (simp add: alike_def)

lemma in_stepD:
  assumes "in_step I v w"
  shows "quiet v" "quiet w" "calm v" "calm w" "saved v = None" "saved w = None" "pg_data (db v) = db w" "snow v = snow w"
    "clk v = clk w" "I (db w)" "\<not> aborted_tx v"
  using assms by (simp_all add: in_step_def quiet_def)

text \<open>A difference in the server's error is not seen by the adapters' own error handling, which asks for missing rows.\<close>

lemma alike_pure [alike_intros]: "alike I (ret a) (ret a)" "alike I (throw e) (throw e)" "alike I (liftA x) (liftA x)"
  "alike I clock_now clock_now"
  by (auto simp: alike_def same_result_def ret_def throw_def liftA_def clock_now_def in_step_def)

lemma alike_server_errors: "alike I (throw (DbError (PgError c k))) (throw (DbError (MySQLError n m)))"
  by (simp add: alike_def same_result_def throw_def)

lemma alike_tryA:
  assumes "alike I m m'" and "\<And>e. alike I (h e) (h' e)" and "\<And>a. alike I (f a) (f' a)"
    and "\<And>c k n x. alike I (h (DbError (PgError c k))) (h' (DbError (MySQLError n x)))"
  shows "alike I (tryA m h f) (tryA m' h' f')"
proof (rule alikeI)
  fix v w assume s: "in_step I v w"
  obtain r v1 r' w1 where run: "m v = (r, v1)" "m' w = (r', w1)" by (meson surj_pair)
  with assms(1) s have 1: "same_result r r'" "in_step I v1 w1" by (force simp: alike_def)+
  show "same_result (fst (tryA m h f v)) (fst (tryA m' h' f' w)) \<and> in_step I (snd (tryA m h f v)) (snd (tryA m' h' f' w))"
    using 1(1) [unfolded same_result_def]
  proof (elim disjE exE conjE)
    assume "r = r'"
    with run assms(2,3) 1(2) show ?thesis by (cases r) (auto simp: tryA_def alike_def)
  next
    fix c k n x assume "r = Inl (DbError (PgError c k))" "r' = Inl (DbError (MySQLError n x))"
    with run assms(4) 1(2) show ?thesis by (auto simp: tryA_def alike_def)
  qed
qed

lemma alike_bindA [alike_intros]:
  "alike I m m' \<Longrightarrow> (\<And>a. alike I (f a) (f' a)) \<Longrightarrow> alike I (bindA m f) (bindA m' f')"
  unfolding bindA_def by (rule alike_tryA) (simp_all add: alike_pure alike_server_errors)

lemma alike_not_found [alike_intros]:
  "alike I m m' \<Longrightarrow> alike I h h' \<Longrightarrow> (\<And>a. alike I (f a) (f' a)) \<Longrightarrow>
     alike I (tryA m (\<lambda>e. if as_db e = Some ErrNoRows then h else throw e) f)
             (tryA m' (\<lambda>e. if as_db e = Some ErrNoRows then h' else throw e) f')"
  by (rule alike_tryA) (simp_all add: alike_pure alike_server_errors)

lemma alike_mapA [alike_intros]: "(\<And>x. alike I (f x) (f' x)) \<Longrightarrow> alike I (mapA f xs) (mapA f' xs)"
  by (induction xs) (auto intro!: alike_intros)

lemma alike_if [alike_intros]: "(b \<Longrightarrow> alike I m m') \<Longrightarrow> (\<not> b \<Longrightarrow> alike I n n') \<Longrightarrow> alike I (if b then m else n) (if b then m' else n')"
  by simp

lemma alike_option [alike_intros]:
  "(x = None \<Longrightarrow> alike I m m') \<Longrightarrow> (\<And>y. x = Some y \<Longrightarrow> alike I (f y) (f' y)) \<Longrightarrow>
     alike I (case x of None \<Rightarrow> m | Some y \<Rightarrow> f y) (case x of None \<Rightarrow> m' | Some y \<Rightarrow> f' y)"
  by (simp split: option.split)

lemma alike_prod [alike_intros]:
  "(\<And>x y. p = (x, y) \<Longrightarrow> alike I (f x y) (f' x y)) \<Longrightarrow> alike I (case p of (x, y) \<Rightarrow> f x y) (case p of (x, y) \<Rightarrow> f' x y)"
  by (simp split: prod.split)

section \<open>Statements\<close>

lemma alike_query [alike_intros]: "(\<And>d. I d \<Longrightarrow> f d = g d) \<Longrightarrow> alike I (pg_query f) (query g)"
  by (rule alikeI) (simp add: pg_query_run query_run in_stepD same_result_def)

lemma alike_query_row [alike_intros]: "(\<And>d. I d \<Longrightarrow> f d = g d) \<Longrightarrow> alike I (pg_query_row f) (query_row g)"
  by (rule alikeI) (simp add: pg_query_row_run query_row_run in_stepD same_result_def split: option.split)

lemma alike_query_now [alike_intros]:
  "(\<And>now d. I d \<Longrightarrow> f now d = g now d) \<Longrightarrow> alike I (pg_query_now f) (with_now (\<lambda>now. query (g now)))"
  by (rule alikeI) (simp add: pg_query_now_run query_run with_now_def in_stepD same_result_def)

text \<open>A write is alike when both servers accept the same values and write the same rows.\<close>

definition same_write :: "db_error + 'a \<Rightarrow> db_error + 'a \<Rightarrow> bool" where
  "same_write x y \<longleftrightarrow> (\<exists>a. x = Inr a \<and> y = Inr a) \<or> (\<exists>c k n m. x = Inl (PgError c k) \<and> y = Inl (MySQLError n m))"

lemma same_write_simps [simp]:
  "same_write (Inr a) (Inr b) \<longleftrightarrow> a = b" "\<not> same_write (Inl e) (Inr b)" "\<not> same_write (Inr a) (Inl e)"
  "same_write (Inl (PgError c k)) (Inl (MySQLError n m))"
  by (auto simp: same_write_def)

lemma alike_write:
  assumes "\<And>d now. I d \<Longrightarrow> same_write (f now d) (case g now d of (Inl e, _) \<Rightarrow> Inl e | (Inr a, d') \<Rightarrow> Inr (a, d'))"
    and "\<And>d now a d'. I d \<Longrightarrow> f now d = Inr (a, d') \<Longrightarrow> I d'"
    and "\<And>d now e d'. I d \<Longrightarrow> g now d = (Inl e, d') \<Longrightarrow> d' = d"
  shows "alike I (pg_write f) (with_now (\<lambda>now. exec_stmt (g now)))"
proof (rule alikeI)
  fix v w assume s: "in_step I v w"
  note d = in_stepD [OF s]
  obtain r d' where g: "g (snow w) (db w) = (r, d')" by fastforce
  from assms(1) [OF d(10), of "snow w"] g have "same_write (f (snow w) (db w)) (case r of Inl e \<Rightarrow> Inl e | Inr a \<Rightarrow> Inr (a, d'))"
    by simp
  moreover have run: "with_now (\<lambda>now. exec_stmt (g now)) w = (map_sum DbError id r, w\<lparr>db := d'\<rparr>)"
    using g d by (cases r) (simp_all add: with_now_def exec_stmt_run)
  ultimately consider (ok) a where "r = Inr a" "f (snow w) (db w) = Inr (a, d')"
    | (refused) c k n m where "r = Inl (MySQLError n m)" "f (snow w) (db w) = Inl (PgError c k)"
    by (cases r) (auto simp: same_write_def)
  then show "same_result (fst (pg_write f v)) (fst (with_now (\<lambda>now. exec_stmt (g now)) w)) \<and>
      in_step I (snd (pg_write f v)) (snd (with_now (\<lambda>now. exec_stmt (g now)) w))"
  proof cases
    case ok
    with d run assms(2) [OF d(10) ok(2)] show ?thesis
      by (simp add: pg_write_run same_result_def in_step_def quiet_def)
  next
    case refused
    with assms(3) [OF d(10)] g have "d' = db w" by blast
    with refused d run s show ?thesis by (simp add: pg_write_run same_result_def)
  qed
qed

text \<open>The same table on both servers: the same rows, and keys on the same columns.\<close>

definition same_table :: "('d, 'r) table \<Rightarrow> ('d, 'r) table \<Rightarrow> bool" where
  "same_table t t' \<longleftrightarrow> tb_get t = tb_get t' \<and> tb_set t = tb_set t' \<and> map snd (tb_keys t) = map snd (tb_keys t') \<and> lens t"

lemma clash_same:
  assumes "map snd ks = map snd ks'"
  shows "find (clashes rows r) ks = None \<longleftrightarrow> find (clashes rows r) ks' = None"
proof -
  have "find (clashes rows r) ks = None \<longleftrightarrow> (\<forall>kf \<in> snd ` set ks. \<not> clashes rows r ([], kf))" for ks :: "'a unique_key list"
    unfolding find_None_iff ball_simps clashes_def snd_conv by blast
  moreover have "snd ` set ks = snd ` set ks'" using assms by (metis set_map)
  ultimately show ?thesis by (simp only:)
qed

text \<open>Two updates that change a row they apply to, and in the same way.\<close>

definition same_update :: "('r \<Rightarrow> bool) \<Rightarrow> db_error + ('r \<Rightarrow> 'r) \<Rightarrow> db_error + ('r \<Rightarrow> 'r) \<Rightarrow> bool" where
  "same_update p x y \<longleftrightarrow> (\<exists>f f'. x = Inr f \<and> y = Inr f' \<and> (\<forall>z. p z \<longrightarrow> f z = f' z \<and> f z \<noteq> z)) \<or>
     (\<exists>c k n m. x = Inl (PgError c k) \<and> y = Inl (MySQLError n m))"

lemma alike_insert_into [alike_intros]:
  assumes "same_table t t'" and "\<And>now. same_write (mk now) (mk' now)" and "\<And>d rows. I d \<Longrightarrow> I (tb_set t rows d)"
  shows "alike I (pg_insert_into t mk) (insert_into t' mk')"
  unfolding pg_insert_into_def insert_into_def
proof (rule alike_write)
  fix d :: 'a and now
  note t = assms(1) [unfolded same_table_def]
  show "same_write (case mk now of Inl e \<Rightarrow> Inl e | Inr r \<Rightarrow> pg_into t d (map_sum id (Pair ()) (pg_insert_row (tb_keys t) r (tb_get t d))))
     (case (case mk' now of Inl e \<Rightarrow> (Inl e, d)
       | Inr row \<Rightarrow> (case insert_row (tb_name t') (tb_keys t') row (tb_get t' d) of Inl e \<Rightarrow> (Inl e, d) | Inr rows \<Rightarrow> (Inr (), tb_set t' rows d)))
      of (Inl e, _) \<Rightarrow> Inl e | (Inr a, d') \<Rightarrow> Inr (a, d'))"
    using assms(2) [of now] t clash_same [of "tb_keys t" "tb_keys t'" "tb_get t d"]
    by (auto simp: same_write_def pg_insert_row_def pg_check_def insert_row_def dup_error_def pg_into_def
        split: option.splits sum.splits) (metis option.distinct(1))+
qed (use assms(3) in \<open>auto simp: pg_into_def split: sum.splits\<close>)

lemma same_json: "same_write (pg_json (json_column env t)) (json_column env t)" "same_write (pg_json (json_columns env t u)) (json_columns env t u)"
  by (simp_all add: json_column_def json_columns_def pg_json_def pgInvalidText_def split: option.split)

lemma same_write_map:
  "same_write x y \<Longrightarrow> (\<And>a. f a = g a) \<Longrightarrow> same_write (map_sum id f x) (case y of Inl e \<Rightarrow> Inl e | Inr a \<Rightarrow> Inr (g a))"
  by (auto simp: same_write_def)

lemma same_update_map:
  assumes "same_write x y" and "\<And>a z. p z \<Longrightarrow> f a z = g a z" and "\<And>a z. p z \<Longrightarrow> f a z \<noteq> z"
  shows "same_update p (map_sum id f x) (case y of Inl e \<Rightarrow> Inl e | Inr a \<Rightarrow> Inr (g a))"
  using assms(1) unfolding same_write_def
proof (elim disjE exE conjE)
  fix a assume "x = Inr a" "y = Inr a"
  with assms(2,3) show ?thesis unfolding same_update_def
    by (intro disjI1 exI [of _ "f a"] exI [of _ "g a"]) simp
qed (simp add: same_update_def)

lemma alike_update_in [alike_intros]:
  assumes "same_table t t'" and "\<And>now. same_update p (mk now) (mk' now)" and "\<And>d rows. I d \<Longrightarrow> I (tb_set t rows d)"
  shows "alike I (pg_update_in t p mk) (update_where t' p mk')"
  unfolding pg_update_in_def update_where_def
proof (rule alike_write)
  fix d :: 'a and now
  note t = assms(1) [unfolded same_table_def]
  show "same_write (case mk now of Inl e \<Rightarrow> Inl e | Inr f \<Rightarrow> pg_into t d (pg_update_row (tb_keys t) p f (tb_get t d)))
     (case (case mk' now of Inl e \<Rightarrow> (Inl e, d)
       | Inr f \<Rightarrow> (case update_one (tb_name t') (tb_keys t') p f (tb_get t' d) of Inl e \<Rightarrow> (Inl e, d) | Inr (n, rows) \<Rightarrow> (Inr n, tb_set t' rows d)))
      of (Inl e, _) \<Rightarrow> Inl e | (Inr a, d') \<Rightarrow> Inr (a, d'))"
    using assms(2) [of now, unfolded same_update_def]
  proof (elim disjE exE conjE)
    fix f f' assume f: "mk now = Inr f" "mk' now = Inr f'" "\<forall>z. p z \<longrightarrow> f z = f' z \<and> f z \<noteq> z"
    show ?thesis
    proof (cases "List.extract p (tb_get t d)")
      case None
      with f t show ?thesis by (simp add: pg_update_row_def update_one_def)
    next
      case (Some q)
      then obtain xs x ys where e: "List.extract p (tb_get t d) = Some (xs, x, ys)" by (cases q) auto
      then have x: "p x" by (simp add: extract_Some_iff)
      with f(3) have "f' x = f x" "f x \<noteq> x" by auto
      with e f t clash_same [of "tb_keys t" "tb_keys t'" "xs @ ys" "f x"] show ?thesis
        by (auto simp: pg_update_row_def update_one_def pg_check_def dup_error_def split: option.split)
    qed
  qed simp
qed (use assms(3) in \<open>auto simp: pg_into_def split: sum.splits prod.splits\<close>)

section \<open>Statements in a quiet world\<close>

lemma pg_insert_into_quiet: "quiet w \<Longrightarrow> pg_insert_into t mk w = (case mk (snow w) of
      Inl e \<Rightarrow> (Inl (DbError e), w)
    | Inr r \<Rightarrow> (case pg_insert_row (tb_keys t) r (tb_get t (pg_data (db w))) of
          Inl e \<Rightarrow> (Inl (DbError e), w)
        | Inr rows \<Rightarrow> (Inr (), w\<lparr>db := (db w)\<lparr>pg_data := tb_set t rows (pg_data (db w))\<rparr>\<rparr>)))"
  using pg_now_quiet [of w] by (simp add: pg_insert_into_def pg_write_run pg_into_def quiet_def split: sum.split)

lemma pg_upsert_in_quiet: "quiet w \<Longrightarrow> pg_upsert_in t kf gd ff mk w = (case mk (snow w) of
      Inl e \<Rightarrow> (Inl (DbError e), w)
    | Inr r \<Rightarrow> (case pg_upsert_row (tb_keys t) kf r gd (ff r) (tb_get t (pg_data (db w))) of
          Inl e \<Rightarrow> (Inl (DbError e), w)
        | Inr (n, rows) \<Rightarrow> (Inr n, w\<lparr>db := (db w)\<lparr>pg_data := tb_set t rows (pg_data (db w))\<rparr>\<rparr>)))"
  using pg_now_quiet [of w] by (simp add: pg_upsert_in_def pg_write_run pg_into_def quiet_def split: sum.split prod.split)

text \<open>An upsert by the primary key, on tables that have one row of each key.\<close>

lemma pg_upsert_is_upsert:
  fixes kf :: "'r \<Rightarrow> string"
  assumes "distinct (map kf rows)" and "\<And>r. kf r = kf new \<Longrightarrow> kf (f r) = kf new"
  shows "pg_upsert_row [(n, \<lambda>r. Some (kf r))] kf new (\<lambda>_. True) f rows = Inr (1, upsert_row kf new f rows) \<and>
    distinct (map kf (upsert_row kf new f rows))"
proof (cases "List.extract (\<lambda>x. kf x = kf new) rows")
  case None
  then have a: "kf new \<notin> kf ` set rows" by (auto simp: extract_None_iff)
  then have "\<not> clashes rows new (n, \<lambda>r. Some (kf r))" by (simp add: clashes_def image_iff) metis
  moreover have "\<not> (\<exists>r \<in> set rows. kf r = kf new)" using a by (metis imageI)
  ultimately show ?thesis using None a assms(1)
    by (auto simp: pg_upsert_row_def pg_check_def upsert_row_def)
next
  case (Some q)
  then obtain xs x ys where e: "List.extract (\<lambda>x. kf x = kf new) rows = Some (xs, x, ys)" by (cases q) auto
  then have r: "rows = xs @ x # ys" "kf x = kf new" by (simp_all add: extract_Some_iff)
  then have o': "kf new \<notin> kf ` set (xs @ ys)" using assms(1) by auto
  have fx: "kf (f x) = kf new" using assms(2) r(2) by blast
  have "map (\<lambda>r. if kf r = kf new then f r else r) zs = zs" if "kf new \<notin> kf ` set zs" for zs
    using that by (intro map_idI) (metis imageI)
  then have "upsert_row kf new f rows = xs @ f x # ys" using o' r by (auto simp: upsert_row_def)
  moreover have "\<not> clashes (xs @ ys) (f x) (n, \<lambda>r. Some (kf r))" using o' fx by (simp add: clashes_def image_iff) metis
  ultimately show ?thesis using e o' fx r assms(1) by (auto simp: pg_upsert_row_def pg_check_def)
qed

lemma alike_upsert:
  assumes t: "lens t" "tb_keys t = [(n, \<lambda>r. Some (kf r))]" and mk: "\<And>now. same_write (mk now) mk'"
    and ff: "\<And>new r. kf r = kf new \<Longrightarrow> kf (ff new r) = kf new"
    and g: "\<And>d. g d = (case mk' of Inl e \<Rightarrow> (Inl e, d) | Inr new \<Rightarrow> (Inr (), tb_set t (upsert_row kf new (ff new) (tb_get t d)) d))"
  shows "alike (keyed t kf) (bindA (pg_upsert_in t kf (\<lambda>_. True) ff mk) (\<lambda>_. ret ())) (exec_stmt g)"
proof (rule alikeI)
  fix v w assume s: "in_step (keyed t kf) v w"
  note d = in_stepD [OF s]
  show "same_result (fst (bindA (pg_upsert_in t kf (\<lambda>_. True) ff mk) (\<lambda>_. ret ()) v)) (fst (exec_stmt g w)) \<and>
      in_step (keyed t kf) (snd (bindA (pg_upsert_in t kf (\<lambda>_. True) ff mk) (\<lambda>_. ret ()) v)) (snd (exec_stmt g w))"
  proof (cases mk')
    case (Inl e)
    with mk [of "snow v"] obtain c k m x where "e = MySQLError m x" "mk (snow v) = Inl (PgError c k)" by (auto simp: same_write_def)
    with Inl d s show ?thesis
      by (simp add: bindA_def tryA_def pg_upsert_in_quiet exec_stmt_run g throw_def same_result_def)
  next
    case (Inr new)
    with mk [of "snow v"] have m: "mk (snow v) = Inr new" by (auto simp: same_write_def)
    have "distinct (map kf (tb_get t (db w)))" using d(10) by (simp add: keyed_def)
    from pg_upsert_is_upsert [OF this, of new "ff new" n] ff
    have "pg_upsert_row (tb_keys t) kf new (\<lambda>_. True) (ff new) (tb_get t (db w)) = Inr (1, upsert_row kf new (ff new) (tb_get t (db w)))"
      "distinct (map kf (upsert_row kf new (ff new) (tb_get t (db w))))" unfolding t(2) by blast+
    with Inr m d t(1) show ?thesis
      by (simp add: bindA_def tryA_def pg_upsert_in_quiet exec_stmt_run g ret_def same_result_def in_step_def quiet_def keyed_def lens_def)
  qed
qed

end
