(* ===== verification/Pg_Balance_Repo.thy ===== *)
theory Pg_Balance_Repo
  imports Pg_Alike My_Balance_Repo
begin

text \<open>
  The balance repository of \<open>postgres/balance_repo.go\<close>: the same statements as the MySQL adapter in the
  server's dialect, so the two are shown to answer alike. What differs is the clock of the availability queries:
  inside a transaction \<open>NOW()\<close> is its start.
\<close>

definition pg_entries_table :: "(balance_db, balance_row) table" where
  "pg_entries_table = \<lparr>tb_name = ''balance_entries'', tb_keys = [(''balance_entries_pkey'', \<lambda>r. Some (br_id r))],
     tb_get = t_entries, tb_set = (\<lambda>rows d. d\<lparr>t_entries := rows\<rparr>)\<rparr>"

definition pg_applications_table :: "(balance_db, application_row) table" where
  "pg_applications_table = \<lparr>tb_name = ''balance_applications'', tb_keys = [(''balance_applications_pkey'', \<lambda>r. Some (ar_id r))],
     tb_get = t_applications, tb_set = (\<lambda>rows d. d\<lparr>t_applications := rows\<rparr>)\<rparr>"

definition pg_refunds_table :: "(balance_db, refund_row) table" where
  "pg_refunds_table = \<lparr>tb_name = ''balance_refunds'', tb_keys = [(''balance_refunds_pkey'', \<lambda>r. Some (rr_id r))],
     tb_get = t_refunds, tb_set = (\<lambda>rows d. d\<lparr>t_refunds := rows\<rparr>)\<rparr>"

section \<open>Save\<close>

definition pg_entry_to_row :: "menv \<Rightarrow> balance_core \<Rightarrow> balance_snapshot \<Rightarrow> string \<Rightarrow> balance_row" where
  "pg_entry_to_row env co s state =
     \<lparr>br_id = bs_ID s, br_account = bs_AccountID s, br_original = bk_int64 co (bs_OriginalAmount s),
      br_remaining = bk_int64 co (bs_RemainingAmount s), br_currency = m_currency (bs_OriginalAmount s),
      br_reason = bs_Reason s, br_source_type = bs_SourceType s, br_source_id = bs_SourceID s,
      br_description = bs_Description s, br_expires = map_option (me_time env) (bs_ExpiresAt s),
      br_version = bs_Version s, br_created = me_time env (bs_CreatedAt s), br_state = Some state\<rparr>"

definition pg_insert_entry :: "menv \<Rightarrow> balance_core \<Rightarrow> balance_snapshot \<Rightarrow> string \<Rightarrow> (balance_db, unit) pgsql" where
  "pg_insert_entry env co s jsonState = pg_insert_into pg_entries_table
     (\<lambda>_. map_sum id (pg_entry_to_row env co s) (pg_json (json_column env jsonState)))"

text \<open>The columns the update sets.\<close>

definition set_entry :: "menv \<Rightarrow> balance_core \<Rightarrow> balance_snapshot \<Rightarrow> string \<Rightarrow> balance_row \<Rightarrow> balance_row" where
  "set_entry env co s state r = r
     \<lparr>br_original := bk_int64 co (bs_OriginalAmount s), br_remaining := bk_int64 co (bs_RemainingAmount s),
      br_currency := m_currency (bs_OriginalAmount s), br_reason := bs_Reason s, br_source_type := bs_SourceType s,
      br_source_id := bs_SourceID s, br_description := bs_Description s,
      br_expires := map_option (me_time env) (bs_ExpiresAt s), br_version := bs_Version s, br_state := Some state\<rparr>"

definition pg_update_entry :: "menv \<Rightarrow> balance_core \<Rightarrow> balance_snapshot \<Rightarrow> int \<Rightarrow> string \<Rightarrow> (balance_db, nat) pgsql" where
  "pg_update_entry env co s loaded jsonState = pg_update_in pg_entries_table
     (\<lambda>r. br_id r = bs_ID s \<and> br_version r = loaded)
     (\<lambda>_. map_sum id (set_entry env co s) (pg_json (json_column env jsonState)))"

definition Save :: "menv \<Rightarrow> balance_core \<Rightarrow> balance_snapshot \<Rightarrow> int \<Rightarrow> (balance_db, int) pgsql" where
  "Save env co s loaded = (case co_enc (bk_state co) (bs_OriginalAmount s, bs_RemainingAmount s) of
      None \<Rightarrow> throw (OtherError ''marshal state'')
    | Some jsonState \<Rightarrow>
        if loaded = 0 then bindA (pg_insert_entry env co s jsonState) (\<lambda>_. ret (bs_Version s))
        else bindA (pg_update_entry env co s loaded jsonState) (\<lambda>affected.
          if affected = 0 then throw TxVersionConflict else ret (bs_Version s)))"

section \<open>Finders\<close>

text \<open>The state JSON is preferred; rows without one fall back to the integer columns.\<close>

definition scanBalanceEntrySnapshot :: "balance_core \<Rightarrow> balance_row \<Rightarrow> repo_error + balance_snapshot" where
  "scanBalanceEntrySnapshot co r =
     (let raw = (case br_state r of Some st \<Rightarrow> st | None \<Rightarrow> []) in
      case (if raw \<noteq> [] then co_dec (bk_state co) raw
            else Some (moneyFromInt64 (br_original r) (br_currency r), moneyFromInt64 (br_remaining r) (br_currency r))) of
        None \<Rightarrow> Inl (OtherError ''unmarshal state'')
      | Some (original, remaining) \<Rightarrow> Inr
         \<lparr>bs_ID = br_id r, bs_AccountID = br_account r, bs_OriginalAmount = original,
          bs_RemainingAmount = remaining, bs_Reason = br_reason r, bs_SourceType = br_source_type r,
          bs_SourceID = br_source_id r, bs_Description = br_description r, bs_ExpiresAt = br_expires r,
          bs_Version = br_version r, bs_CreatedAt = br_created r\<rparr>)"

definition pg_entry_of_row :: "balance_core \<Rightarrow> balance_row \<Rightarrow> repo_error + balance_entry" where
  "pg_entry_of_row co r = (case scanBalanceEntrySnapshot co r of
      Inl e \<Rightarrow> Inl e | Inr s \<Rightarrow> balance_FromSnapshot co s)"

definition scanBalanceEntries :: "balance_core \<Rightarrow> balance_row list \<Rightarrow> (balance_db, balance_entry list) pgsql" where
  "scanBalanceEntries co rows = mapA (\<lambda>r. liftA (pg_entry_of_row co r)) rows"

definition FindByID :: "balance_core \<Rightarrow> string \<Rightarrow> (balance_db, balance_entry) pgsql" where
  "FindByID co i = tryA (pg_query_row (\<lambda>d. find (\<lambda>r. br_id r = i) (t_entries d)))
     (\<lambda>e. if as_db e = Some ErrNoRows then throw (DomainError ErrCodeNotFound None) else throw e)
     (\<lambda>r. liftA (pg_entry_of_row co r))"

text \<open>The filters of \<open>postgres/money.go\<close>.\<close>

definition filterAvailableBalance :: "balance_core \<Rightarrow> balance_entry list \<Rightarrow> balance_entry list" where
  "filterAvailableBalance co entries = filter (\<lambda>e. \<not> bk_isZero co (RemainingAmount e) \<and>
     \<not> bk_isNegative co (RemainingAmount e)) entries"

definition filterExpiredBalance :: "balance_core \<Rightarrow> balance_entry list \<Rightarrow> balance_entry list" where
  "filterExpiredBalance co entries = filter (\<lambda>e. \<not> bk_isZero co (RemainingAmount e)) entries"

fun pg_sum_from :: "balance_core \<Rightarrow> money \<Rightarrow> balance_entry list \<Rightarrow> repo_error + money" where
  "pg_sum_from co acc [] = Inr acc"
| "pg_sum_from co acc (e # es) = (case bk_add co acc (RemainingAmount e) of
      Inl x \<Rightarrow> Inl x | Inr t \<Rightarrow> pg_sum_from co t es)"

definition sumRemaining :: "balance_core \<Rightarrow> balance_entry list \<Rightarrow> string \<Rightarrow> repo_error + money" where
  "sumRemaining co entries currency = pg_sum_from co (bk_zero co currency) entries"

text \<open>\<open>WHERE account_id = $1 AND currency = $2 AND (expires_at IS NULL OR expires_at > NOW())\<close>.\<close>

definition unexpired :: "string \<Rightarrow> string \<Rightarrow> time \<Rightarrow> balance_row \<Rightarrow> bool" where
  "unexpired account currency now r \<longleftrightarrow> br_account r = account \<and> br_currency r = currency \<and>
     (br_expires r = None \<or> now < the (br_expires r))"

definition FindAvailable :: "balance_core \<Rightarrow> string \<Rightarrow> string \<Rightarrow> (balance_db, balance_entry list) pgsql" where
  "FindAvailable co account currency =
     bindA (pg_query_now (\<lambda>now d. sort_key br_created (filter (unexpired account currency now) (t_entries d)))) (\<lambda>rows.
     bindA (scanBalanceEntries co rows) (\<lambda>entries. ret (filterAvailableBalance co entries)))"

definition GetBalance :: "balance_core \<Rightarrow> string \<Rightarrow> string \<Rightarrow> (balance_db, money) pgsql" where
  "GetBalance co account currency =
     bindA (pg_query_now (\<lambda>now d. filter (unexpired account currency now) (t_entries d))) (\<lambda>rows.
     bindA (scanBalanceEntries co rows) (\<lambda>entries. liftA (sumRemaining co entries currency)))"

text \<open>\<open>WHERE expires_at IS NOT NULL AND expires_at < $1 ORDER BY created_at ASC, id ASC\<close> and a \<open>LIMIT\<close> when it is
  positive, before the filter.\<close>

definition FindExpired :: "menv \<Rightarrow> balance_core \<Rightarrow> time \<Rightarrow> int \<Rightarrow> (balance_db, balance_entry list) pgsql" where
  "FindExpired env co asOf lmt =
     bindA (pg_query (\<lambda>d. (if lmt > 0 then take (nat lmt) else id) (sort_key br_created (sort_key br_id
         (filter (\<lambda>r. br_expires r \<noteq> None \<and> the (br_expires r) < me_time env asOf) (t_entries d)))))) (\<lambda>rows.
     bindA (scanBalanceEntries co rows) (\<lambda>entries. ret (filterExpiredBalance co entries)))"

definition FindByAccountID :: "balance_core \<Rightarrow> string \<Rightarrow> string \<Rightarrow> (balance_db, balance_entry list) pgsql" where
  "FindByAccountID co account currency =
     bindA (pg_query (\<lambda>d. sort_key br_created (filter (\<lambda>r. br_account r = account \<and> br_currency r = currency)
       (t_entries d)))) (scanBalanceEntries co)"

section \<open>Applications and refunds\<close>

text \<open>\<open>CHECK (amount > 0)\<close> of both tables.\<close>

definition pgCheckViolation :: db_error where "pgCheckViolation = PgError ''23514'' []"

definition pg_check_amount :: "int64 \<Rightarrow> 'r \<Rightarrow> db_error + 'r" where
  "pg_check_amount amount r = (if 0 < sint amount then Inr r else Inl pgCheckViolation)"

definition SaveApplication :: "menv \<Rightarrow> balance_core \<Rightarrow> balance_application \<Rightarrow> (balance_db, unit) pgsql" where
  "SaveApplication env co app = pg_insert_into pg_applications_table (\<lambda>_. pg_check_amount (bk_int64 co (ba_Amount app))
     \<lparr>ar_id = ba_ID app, ar_entry = ba_BalanceEntryID app, ar_invoice = ba_InvoiceID app,
      ar_amount = bk_int64 co (ba_Amount app), ar_currency = m_currency (ba_Amount app),
      ar_applied = me_time env (ba_AppliedAt app)\<rparr>)"

definition FindApplicationsByInvoice :: "string \<Rightarrow> (balance_db, balance_application list) pgsql" where
  "FindApplicationsByInvoice i = bindA (pg_query (\<lambda>d. sort_key ar_applied
     (filter (\<lambda>r. ar_invoice r = i) (t_applications d)))) (\<lambda>rows. ret (map (\<lambda>r.
       \<lparr>ba_ID = ar_id r, ba_BalanceEntryID = ar_entry r, ba_InvoiceID = ar_invoice r,
        ba_Amount = moneyFromInt64 (ar_amount r) (ar_currency r), ba_AppliedAt = ar_applied r\<rparr>) rows))"

definition SaveRefund :: "menv \<Rightarrow> balance_core \<Rightarrow> balance_refund \<Rightarrow> (balance_db, unit) pgsql" where
  "SaveRefund env co rf = pg_insert_into pg_refunds_table (\<lambda>_. pg_check_amount (bk_int64 co (bf_Amount rf))
     \<lparr>rr_id = bf_ID rf, rr_entry = bf_BalanceEntryID rf, rr_account = bf_AccountID rf,
      rr_amount = bk_int64 co (bf_Amount rf), rr_currency = m_currency (bf_Amount rf),
      rr_refunded = me_time env (bf_RefundedAt rf), rr_invoice = bf_InvoiceID rf,
      rr_application = bf_ApplicationID rf\<rparr>)"

definition FindRefundsByInvoice :: "string \<Rightarrow> (balance_db, balance_refund list) pgsql" where
  "FindRefundsByInvoice i = bindA (pg_query (\<lambda>d. sort_key rr_refunded
     (filter (\<lambda>r. rr_invoice r = i) (t_refunds d)))) (\<lambda>rows. ret (map (\<lambda>r.
       \<lparr>bf_ID = rr_id r, bf_BalanceEntryID = rr_entry r, bf_AccountID = rr_account r,
        bf_Amount = moneyFromInt64 (rr_amount r) (rr_currency r), bf_RefundedAt = rr_refunded r,
        bf_InvoiceID = rr_invoice r, bf_ApplicationID = rr_application r\<rparr>) rows))"

section \<open>The repository is a guarded store\<close>

lemma pg_balance_lenses [simp]: "lens pg_entries_table" "lens pg_applications_table" "lens pg_refunds_table"
  by (simp_all add: lens_def pg_entries_table_def pg_applications_table_def pg_refunds_table_def)

lemma pg_entries_sel [simp]: "tb_get pg_entries_table = t_entries" "tb_set pg_entries_table rows d = d\<lparr>t_entries := rows\<rparr>"
  by (simp_all add: pg_entries_table_def)

lemma pg_entry_sel [simp]:
  "br_id (pg_entry_to_row env co s st) = bs_ID s" "br_version (pg_entry_to_row env co s st) = bs_Version s"
  "br_id (set_entry env co s st r) = br_id r" "br_version (set_entry env co s st r) = bs_Version s"
  by (simp_all add: pg_entry_to_row_def set_entry_def)

lemma map_sum_Inr: "map_sum f g x = Inr b \<longleftrightarrow> (\<exists>a. x = Inr a \<and> b = g a)"
  by (cases x) auto

lemma pg_balance_Save_outcome:
  assumes q: "quiet w" and run: "Save env co s l w = (r, w')"
  shows "pg_outcome t_entries br_id br_version (bs_ID s) l (bs_Version s) w r w'"
proof (cases "co_enc (bk_state co) (bs_OriginalAmount s, bs_RemainingAmount s)")
  case None
  with run q show ?thesis by (auto simp: Save_def throw_def pg_outcome_def)
next
  case (Some js)
  show ?thesis
  proof (cases "l = 0")
    case True
    with run Some have b: "bindA (pg_insert_entry env co s js) (\<lambda>_. ret (bs_Version s)) w = (r, w')" by (simp add: Save_def)
    note i = pg_insert_into_quiet [OF q, of pg_entries_table "\<lambda>_. map_sum id (pg_entry_to_row env co s) (pg_json (json_column env js))",
        folded pg_insert_entry_def]
    show ?thesis
    proof (cases "json_column env js")
      case (Inl e)
      with b i q show ?thesis by (auto simp: bindA_run [of "pg_insert_entry env co s js"] pg_outcome_def)
    next
      case (Inr st)
      let ?row = "pg_entry_to_row env co s st"
      show ?thesis
      proof (cases "pg_insert_row (tb_keys pg_entries_table) ?row (t_entries (pg_data (db w)))")
        case (Inl e)
        with Inr b i q show ?thesis by (auto simp: bindA_run [of "pg_insert_entry env co s js"] pg_outcome_def)
      next
        case (Inr rows)
        then have "bs_ID s \<notin> br_id ` set (t_entries (pg_data (db w)))" "rows = t_entries (pg_data (db w)) @ [?row]"
          by (force simp: pg_insert_Inr pg_entries_table_def clashes_def)+
        then have "rows_saved br_id br_version (bs_ID s) l (bs_Version s) (t_entries (pg_data (db w))) rows"
          unfolding rows_saved_def by (intro disjI1 exI [of _ ?row]) simp
        with \<open>json_column env js = Inr st\<close> Inr b i q show ?thesis
          by (auto simp: bindA_run [of "pg_insert_entry env co s js"] pg_outcome_def ret_def quiet_def)
      qed
    qed
  next
    case False
    from run Some False have "bindA (pg_update_entry env co s l js)
        (\<lambda>n. if n = 0 then throw TxVersionConflict else ret (bs_Version s)) w = (r, w')" by (simp add: Save_def)
    from q pg_balance_lenses(1) this [unfolded pg_update_entry_def pg_update_in_def]
    have "pg_outcome (tb_get pg_entries_table) br_id br_version (bs_ID s) l (bs_Version s) w r w'"
    proof (rule pg_guarded_in)
      fix now x rows n rows'
      assume "map_sum id (set_entry env co s) (pg_json (json_column env js)) = Inr x"
        and u: "pg_update_row (tb_keys pg_entries_table) (\<lambda>r. br_id r = bs_ID s \<and> br_version r = l) x rows = Inr (n, rows')"
      then obtain st where "x = set_entry env co s st" by (auto simp: map_sum_Inr)
      with u have "pg_update_row (tb_keys pg_entries_table) (\<lambda>r. br_id r = bs_ID s \<and> br_version r = l) (set_entry env co s st) rows
          = Inr (n, rows')" by simp
      then show "n = 0 \<and> rows' = rows \<or> n \<noteq> 0 \<and> rows_saved br_id br_version (bs_ID s) l (bs_Version s) rows rows'"
        by (rule rows_saved_update [where kf = br_id and vf = br_version]) simp_all
    qed
    then show ?thesis by simp
  qed
qed

interpretation pg_balances: guarded_store "Save env co" bs_ID bs_Version
    "pg_versions t_entries br_id br_version" "pg_keyed t_entries br_id" for env co
  by (rule pg_guarded_storeI) (rule pg_balance_Save_outcome)

section \<open>The two adapters answer alike\<close>

lemma balance_tables_same [simp]: "same_table pg_entries_table entries_table" "same_table pg_applications_table applications_table"
  "same_table pg_refunds_table refunds_table"
  by (simp_all add: same_table_def pg_entries_table_def entries_table_def pg_applications_table_def applications_table_def
      pg_refunds_table_def refunds_table_def lens_def)

lemma same_check: "same_write (pg_check_amount a r) (check_amount a r)"
  by (simp add: pg_check_amount_def check_amount_def pgCheckViolation_def)

lemma pg_entry_of_row_eq: "pg_entry_of_row = entry_of_row"
  by (intro ext) (simp add: pg_entry_of_row_def entry_of_row_def scanBalanceEntrySnapshot_def
      My_Balance_Repo.scanBalanceEntrySnapshot_def Let_def split: option.split)

lemma alike_scanBalanceEntries [alike_intros]:
  "alike I (scanBalanceEntries co rows) (My_Balance_Repo.scanBalanceEntries co rows)"
  unfolding scanBalanceEntries_def My_Balance_Repo.scanBalanceEntries_def pg_entry_of_row_eq by (intro alike_intros)

lemma balance_filters_eq: "filterAvailableBalance = My_Balance_Repo.filterAvailableBalance"
  "filterExpiredBalance = My_Balance_Repo.filterExpiredBalance" "sumRemaining = My_Balance_Repo.sumRemaining"
proof -
  have "pg_sum_from co acc es = sum_from co acc es" for co acc es
    by (induction es arbitrary: acc) (simp_all split: sum.split)
  then show "sumRemaining = My_Balance_Repo.sumRemaining"
    by (intro ext) (simp add: sumRemaining_def My_Balance_Repo.sumRemaining_def)
qed (simp_all add: fun_eq_iff filterAvailableBalance_def My_Balance_Repo.filterAvailableBalance_def
    filterExpiredBalance_def My_Balance_Repo.filterExpiredBalance_def)

lemma unexpired_rows: "filter (unexpired account currency now) (t_entries d) = live_rows account currency now d"
  unfolding live_rows_def by (rule filter_cong) (auto simp: unexpired_def split: option.split)

lemma expired_rows_eq: "(if lmt > 0 then take (nat lmt) else id) (sort_key br_created (sort_key br_id
    (filter (\<lambda>r. br_expires r \<noteq> None \<and> the (br_expires r) < t) (t_entries d)))) = expired_rows t lmt d"
proof -
  have "filter (\<lambda>r. br_expires r \<noteq> None \<and> the (br_expires r) < t) (t_entries d)
      = filter (\<lambda>r. case br_expires r of None \<Rightarrow> False | Some e \<Rightarrow> e < t) (t_entries d)"
    by (rule filter_cong) (auto split: option.split)
  then show ?thesis by (simp add: expired_rows_def Let_def)
qed

lemma alike_balance_Save:
  assumes "bs_Version s \<noteq> l"
  shows "alike (\<lambda>_. True) (Save env co s l) (My_Balance_Repo.Save env co s l)"
proof -
  have i: "alike (\<lambda>_. True) (pg_insert_entry env co s js) (insert_entry env co s js)" for js
    unfolding pg_insert_entry_def insert_entry_def
    by (intro alike_insert_into same_write_map same_json) (simp_all add: pg_entry_to_row_def entry_to_row_def)
  have u: "alike (\<lambda>_. True) (pg_update_entry env co s l js) (update_entry env co s l js)" for js
    unfolding pg_update_entry_def update_entry_def
  proof (intro alike_update_in same_update_map same_json)
    fix st and z :: balance_row assume z: "br_id z = bs_ID s \<and> br_version z = l"
    then show "set_entry env co s st z = (entry_to_row env co s st)\<lparr>br_account := br_account z, br_created := br_created z\<rparr>"
      by (simp add: set_entry_def entry_to_row_def)
    show "set_entry env co s st z \<noteq> z" using z assms pg_entry_sel(4) [of env co s st z] by metis
  qed simp_all
  show ?thesis unfolding Save_def My_Balance_Repo.Save_def by (intro alike_intros i u)
qed

lemma alike_FindExpired: "alike (\<lambda>_. True) (FindExpired env co asOf lmt) (My_Balance_Repo.FindExpired env co asOf lmt)"
  unfolding FindExpired_def My_Balance_Repo.FindExpired_def balance_filters_eq expired_rows_eq by (intro alike_intros refl)

text \<open>So the limit of the expiry query has the defect it has in MySQL: it counts consumed entries.\<close>

lemma pg_FindExpired_starved:
  assumes "in_step (\<lambda>_. True) v w" and "0 < lmt"
    and "map (entry_of_row co) (expired_rows (me_time env asOf) 0 (db w)) = map Inr es"
    and "\<forall>e \<in> set (take (nat lmt) es). bk_isZero co (RemainingAmount e)"
  shows "fst (FindExpired env co asOf lmt v) = Inr [] \<and>
    fst (FindExpired env co asOf 0 v) = Inr (filter (\<lambda>e. \<not> bk_isZero co (RemainingAmount e)) es)"
proof -
  have "map (entry_of_row co) (expired_rows (me_time env asOf) lmt (db w)) = map Inr (take (nat lmt) es)"
    using assms(2,3) by (simp add: expired_rows_def Let_def take_map flip: take_map)
  with assms(3,4) in_stepD(4) [OF assms(1)]
  have "fst (My_Balance_Repo.FindExpired env co asOf lmt w) = Inr []"
    "fst (My_Balance_Repo.FindExpired env co asOf 0 w) = Inr (filter (\<lambda>e. \<not> bk_isZero co (RemainingAmount e)) es)"
    by (simp_all add: My_Balance_Repo.FindExpired_def bindA_def tryA_def query_run scanBalanceEntries_run
        My_Balance_Repo.filterExpiredBalance_def filter_empty_conv)
  moreover have "same_result (fst (FindExpired env co asOf n v)) (fst (My_Balance_Repo.FindExpired env co asOf n w))" for n
    using alike_FindExpired assms(1) by (simp add: alike_def)
  ultimately show ?thesis by (metis same_result_def Inl_Inr_False)
qed

text \<open>C33. The two balance repositories answer alike. From the same entries, applications and refunds at the same time,
  outside a transaction and without faults, every query has the same result in PostgreSQL as in MySQL and every write has
  the same result and leaves the same rows: saves of an entry that changed its version, applications and refunds, also
  those the table's check refuses. Results may differ only in the error with which the server refuses a statement.\<close>

theorem balance_adapters_alike:
  assumes "bs_Version s \<noteq> l"
  shows "alike (\<lambda>_. True) (Save env co s l) (My_Balance_Repo.Save env co s l) \<and>
    alike (\<lambda>_. True) (FindByID co i) (My_Balance_Repo.FindByID co i) \<and>
    alike (\<lambda>_. True) (FindAvailable co a c) (My_Balance_Repo.FindAvailable co a c) \<and>
    alike (\<lambda>_. True) (GetBalance co a c) (My_Balance_Repo.GetBalance co a c) \<and>
    alike (\<lambda>_. True) (FindExpired env co asOf lmt) (My_Balance_Repo.FindExpired env co asOf lmt) \<and>
    alike (\<lambda>_. True) (FindByAccountID co a c) (My_Balance_Repo.FindByAccountID co a c) \<and>
    alike (\<lambda>_. True) (SaveApplication env co app) (My_Balance_Repo.SaveApplication env co app) \<and>
    alike (\<lambda>_. True) (FindApplicationsByInvoice i) (My_Balance_Repo.FindApplicationsByInvoice i) \<and>
    alike (\<lambda>_. True) (SaveRefund env co rf) (My_Balance_Repo.SaveRefund env co rf) \<and>
    alike (\<lambda>_. True) (FindRefundsByInvoice i) (My_Balance_Repo.FindRefundsByInvoice i)"
proof (intro conjI)
  show "alike (\<lambda>_. True) (Save env co s l) (My_Balance_Repo.Save env co s l)" by (rule alike_balance_Save [OF assms])
  show "alike (\<lambda>_. True) (FindByID co i) (My_Balance_Repo.FindByID co i)"
    unfolding FindByID_def My_Balance_Repo.FindByID_def pg_entry_of_row_eq by (intro alike_intros refl)
  show "alike (\<lambda>_. True) (FindAvailable co a c) (My_Balance_Repo.FindAvailable co a c)"
    unfolding FindAvailable_def My_Balance_Repo.FindAvailable_def balance_filters_eq unexpired_rows by (intro alike_intros refl)
  show "alike (\<lambda>_. True) (GetBalance co a c) (My_Balance_Repo.GetBalance co a c)"
    unfolding GetBalance_def My_Balance_Repo.GetBalance_def balance_filters_eq unexpired_rows by (intro alike_intros refl)
  show "alike (\<lambda>_. True) (FindExpired env co asOf lmt) (My_Balance_Repo.FindExpired env co asOf lmt)"
    by (rule alike_FindExpired)
  show "alike (\<lambda>_. True) (FindByAccountID co a c) (My_Balance_Repo.FindByAccountID co a c)"
    unfolding FindByAccountID_def My_Balance_Repo.FindByAccountID_def by (intro alike_intros refl)
  show "alike (\<lambda>_. True) (SaveApplication env co app) (My_Balance_Repo.SaveApplication env co app)"
    unfolding SaveApplication_def My_Balance_Repo.SaveApplication_def by (intro alike_intros same_check) simp_all
  show "alike (\<lambda>_. True) (FindApplicationsByInvoice i) (My_Balance_Repo.FindApplicationsByInvoice i)"
    unfolding FindApplicationsByInvoice_def My_Balance_Repo.FindApplicationsByInvoice_def application_of_row_def
    by (intro alike_intros refl)
  show "alike (\<lambda>_. True) (SaveRefund env co rf) (My_Balance_Repo.SaveRefund env co rf)"
    unfolding SaveRefund_def My_Balance_Repo.SaveRefund_def by (intro alike_intros same_check) simp_all
  show "alike (\<lambda>_. True) (FindRefundsByInvoice i) (My_Balance_Repo.FindRefundsByInvoice i)"
    unfolding FindRefundsByInvoice_def My_Balance_Repo.FindRefundsByInvoice_def refund_of_row_def by (intro alike_intros refl)
qed

definition pg_demo_balances :: "balance_db pg_db world" where
  "pg_demo_balances = (pg_demo 6 (db demo_balances))\<lparr>clk := 5\<rparr>"

theorem balance_adapters_alike_witness:
  "fst (Save demo_env demo_balance_core (demo_entry ''b2'' 2 (1/4) 2) 1 pg_demo_balances) = Inr 2 \<and>
   pg_data (db (snd (Save demo_env demo_balance_core (demo_entry ''b2'' 2 (1/4) 2) 1 pg_demo_balances)))
     = db (snd (My_Balance_Repo.Save demo_env demo_balance_core (demo_entry ''b2'' 2 (1/4) 2) 1 demo_balances))"
proof -
  let ?s = "demo_entry ''b2'' 2 (1/4) 2"
  have s: "in_step (\<lambda>_. True) pg_demo_balances demo_balances"
    using pg_demo_quiet(1) [of 6 "db demo_balances"] demo_balances_ok(2)
    by (simp add: in_step_def pg_demo_balances_def pg_demo_def demo_balances_def quiet_def)
  have v: "bs_Version ?s \<noteq> 1" by (simp add: demo_entry_def)
  from balance_adapters_alike [OF v, where env = demo_env and co = demo_balance_core]
  have a: "alike (\<lambda>_. True) (Save demo_env demo_balance_core ?s 1) (My_Balance_Repo.Save demo_env demo_balance_core ?s 1)" by blast
  have "\<exists>w1. My_Balance_Repo.Save demo_env demo_balance_core ?s 1 demo_balances = (Inr 2, w1)"
    by (simp add: My_Balance_Repo.Save_def demo_balance_core_def update_entry_def bindA_def tryA_def update_where_run demo_balances_ok
        json_column_def demo_env_def)
      (simp add: demo_balances_def update_one_def extract_Cons_code demo_entry_row_def demo_entry_def entry_to_row_def
        entries_table_def clashes_def)
  then have my: "fst (My_Balance_Repo.Save demo_env demo_balance_core ?s 1 demo_balances) = Inr 2" by auto
  from a s have "same_result (fst (Save demo_env demo_balance_core ?s 1 pg_demo_balances))
      (fst (My_Balance_Repo.Save demo_env demo_balance_core ?s 1 demo_balances)) \<and>
    in_step (\<lambda>_. True) (snd (Save demo_env demo_balance_core ?s 1 pg_demo_balances))
      (snd (My_Balance_Repo.Save demo_env demo_balance_core ?s 1 demo_balances))" by (simp add: alike_def)
  then show ?thesis unfolding my by (simp add: same_result_def in_step_def)
qed

end
