(* ===== verification/Pg_CreditNote_Repo.thy ===== *)
theory Pg_CreditNote_Repo
  imports Pg_Alike My_CreditNote_Repo
begin

text \<open>
  The credit note repository of \<open>postgres/creditnote_repo.go\<close>: one guarded upsert. Unlike the MySQL adapter's
  update, the upsert leaves the number, the invoice, the contract and the account of an existing note.
\<close>

definition pg_creditnotes_table :: "(cn_db, creditnote_row) table" where
  "pg_creditnotes_table = \<lparr>tb_name = ''credit_notes'', tb_keys = [(''credit_notes_pkey'', \<lambda>r. Some (cr_id r))],
     tb_get = (\<lambda>d. d), tb_set = (\<lambda>rows _. rows)\<rparr>"

definition pg_creditnote_to_row :: "menv \<Rightarrow> creditnote_core \<Rightarrow> creditnote_snapshot \<Rightarrow> time \<Rightarrow> string \<Rightarrow> creditnote_row" where
  "pg_creditnote_to_row env co s now items =
     (let js = cs_state s in
      \<lparr>cr_id = cs_ID s, cr_number = cs_Number s, cr_invoice = cs_InvoiceID s, cr_contract = cs_ContractID s,
       cr_account = cs_AccountID s, cr_status = cs_Status s, cr_reason = cs_Reason s, cr_memo = cs_Memo s,
       cr_items = items, cr_subtotal = ck_int64 co (js_Subtotal js), cr_tax = ck_int64 co (js_TaxAmount js),
       cr_total = ck_int64 co (js_Total js), cr_credit = ck_int64 co (js_CreditAmount js),
       cr_refund = ck_int64 co (js_RefundAmount js), cr_currency = m_currency (js_Total js),
       cr_issued = map_option (me_time env) (cs_IssuedAt s), cr_lock_version = cs_Version s,
       cr_created = now, cr_updated = now\<rparr>)"

text \<open>\<open>ON CONFLICT (id) DO UPDATE SET ...\<close>: the columns that are set, the others stay.\<close>

definition excluded_creditnote :: "creditnote_row \<Rightarrow> creditnote_row \<Rightarrow> creditnote_row" where
  "excluded_creditnote new r = r
     \<lparr>cr_status := cr_status new, cr_reason := cr_reason new, cr_memo := cr_memo new, cr_items := cr_items new,
      cr_subtotal := cr_subtotal new, cr_tax := cr_tax new, cr_total := cr_total new, cr_credit := cr_credit new,
      cr_refund := cr_refund new, cr_currency := cr_currency new, cr_issued := cr_issued new,
      cr_lock_version := cr_lock_version new, cr_updated := cr_updated new\<rparr>"

definition upsert_creditnote :: "menv \<Rightarrow> creditnote_core \<Rightarrow> creditnote_snapshot \<Rightarrow> int \<Rightarrow> string \<Rightarrow> (cn_db, nat) pgsql" where
  "upsert_creditnote env co s loaded jsonState =
     pg_upsert_in pg_creditnotes_table cr_id (\<lambda>r. cr_lock_version r = loaded) excluded_creditnote
       (\<lambda>now. map_sum id (pg_creditnote_to_row env co s now) (pg_json (json_column env jsonState)))"

definition Save :: "menv \<Rightarrow> creditnote_core \<Rightarrow> creditnote_snapshot \<Rightarrow> int \<Rightarrow> (cn_db, int) pgsql" where
  "Save env co s loaded = (case co_enc (ck_state co) (cs_state s) of
      None \<Rightarrow> throw (OtherError ''marshal state'')
    | Some jsonState \<Rightarrow> bindA (upsert_creditnote env co s loaded jsonState) (\<lambda>affected.
        if affected = 0 then throw TxVersionConflict else ret (cs_Version s)))"

section \<open>Finders\<close>

definition scanCreditNoteSnapshot :: "creditnote_core \<Rightarrow> creditnote_row \<Rightarrow> repo_error + creditnote_snapshot" where
  "scanCreditNoteSnapshot co r =
     (case (if cr_items r \<noteq> [] then co_dec (ck_state co) (cr_items r) else Some zero_creditNoteJSONState) of
        None \<Rightarrow> Inl (OtherError ''unmarshal state'')
      | Some js \<Rightarrow> Inr
         \<lparr>cs_ID = cr_id r, cs_Number = cr_number r, cs_InvoiceID = cr_invoice r, cs_AccountID = cr_account r,
          cs_ContractID = cr_contract r, cs_Status = cr_status r, cs_Reason = cr_reason r, cs_Memo = cr_memo r,
          cs_state = js, cs_IssuedAt = cr_issued r, cs_CreatedAt = cr_created r, cs_Version = cr_lock_version r\<rparr>)"

definition pg_creditnote_of_row :: "creditnote_core \<Rightarrow> creditnote_row \<Rightarrow> repo_error + creditnote" where
  "pg_creditnote_of_row co r = (case scanCreditNoteSnapshot co r of
      Inl e \<Rightarrow> Inl e | Inr s \<Rightarrow> CreditNoteFromSnapshot co s)"

definition FindByID :: "creditnote_core \<Rightarrow> string \<Rightarrow> (cn_db, creditnote) pgsql" where
  "FindByID co i = tryA (pg_query_row (\<lambda>d. find (\<lambda>r. cr_id r = i) d))
     (\<lambda>e. if as_db e = Some ErrNoRows then throw (DomainError ErrCodeNotFound None) else throw e)
     (\<lambda>r. liftA (pg_creditnote_of_row co r))"

definition findMany :: "creditnote_core \<Rightarrow> (creditnote_row \<Rightarrow> bool) \<Rightarrow> (cn_db, creditnote list) pgsql" where
  "findMany co p = bindA (pg_query (\<lambda>d. sort_key (\<lambda>r. - cr_created r) (filter p d)))
     (\<lambda>rows. mapA (\<lambda>r. liftA (pg_creditnote_of_row co r)) rows)"

definition FindByInvoiceID :: "creditnote_core \<Rightarrow> string \<Rightarrow> (cn_db, creditnote list) pgsql" where
  "FindByInvoiceID co i = findMany co (\<lambda>r. cr_invoice r = i)"

definition FindByAccountID :: "creditnote_core \<Rightarrow> string \<Rightarrow> (cn_db, creditnote list) pgsql" where
  "FindByAccountID co i = findMany co (\<lambda>r. cr_account r = i)"

definition FindByContractID :: "creditnote_core \<Rightarrow> string \<Rightarrow> (cn_db, creditnote list) pgsql" where
  "FindByContractID co i = findMany co (\<lambda>r. cr_contract r = i)"

definition FindByStatus :: "creditnote_core \<Rightarrow> string \<Rightarrow> (cn_db, creditnote list) pgsql" where
  "FindByStatus co i = findMany co (\<lambda>r. cr_status r = i)"

section \<open>The repository is a guarded store\<close>

lemma pg_creditnotes_sel [simp]: "tb_get pg_creditnotes_table = (\<lambda>d. d)" "tb_set pg_creditnotes_table rows d = rows"
  "lens pg_creditnotes_table"
  by (simp_all add: pg_creditnotes_table_def lens_def)

lemma pg_creditnote_to_row_sel [simp]:
  "cr_id (pg_creditnote_to_row env co s now items) = cs_ID s"
  "cr_lock_version (pg_creditnote_to_row env co s now items) = cs_Version s"
  by (simp_all add: pg_creditnote_to_row_def Let_def)

lemma excluded_creditnote_sel [simp]:
  "cr_id (excluded_creditnote new r) = cr_id r" "cr_lock_version (excluded_creditnote new r) = cr_lock_version new"
  by (simp_all add: excluded_creditnote_def)

lemma pg_creditnote_Save_outcome:
  assumes q: "quiet w" and run: "Save env co s l w = (r, w')"
  shows "pg_outcome (\<lambda>d. d) cr_id cr_lock_version (cs_ID s) l (cs_Version s) w r w'"
proof (cases "co_enc (ck_state co) (cs_state s)")
  case None
  with run q show ?thesis by (auto simp: Save_def throw_def pg_outcome_def)
next
  case (Some js)
  with run have "bindA (upsert_creditnote env co s l js)
      (\<lambda>n. if n = 0 then throw TxVersionConflict else ret (cs_Version s)) w = (r, w')" by (simp add: Save_def)
  from q pg_creditnotes_sel(3) this [unfolded upsert_creditnote_def pg_upsert_in_def]
  have "pg_outcome (tb_get pg_creditnotes_table) cr_id cr_lock_version (cs_ID s) l (cs_Version s) w r w'"
  proof (rule pg_guarded_in)
    fix now x rows n rows'
    assume "map_sum id (pg_creditnote_to_row env co s now) (pg_json (json_column env js)) = Inr x"
      and u: "pg_upsert_row (tb_keys pg_creditnotes_table) cr_id x (\<lambda>r. cr_lock_version r = l) (excluded_creditnote x) rows
        = Inr (n, rows')"
    then have "cr_id x = cs_ID s" "cr_lock_version x = cs_Version s"
      by (cases "json_column env js"; auto)+
    note x = this
    from u show "n = 0 \<and> rows' = rows \<or> n \<noteq> 0 \<and> rows_saved cr_id cr_lock_version (cs_ID s) l (cs_Version s) rows rows'"
      by (rule rows_saved_upsert [where kf = cr_id and vf = cr_lock_version]) (simp_all add: x)
  qed
  then show ?thesis by simp
qed

interpretation pg_creditnotes: guarded_store "Save env co" cs_ID cs_Version
    "pg_versions (\<lambda>d. d) cr_id cr_lock_version" "pg_keyed (\<lambda>d. d) cr_id" for env co
  by (rule pg_guarded_storeI) (rule pg_creditnote_Save_outcome)

section \<open>What a saved note reads back as\<close>

lemma find_mid:
  assumes "rows = xs @ x # ys" and "\<forall>z \<in> set xs. kf z \<noteq> k" and "kf x = k" and "kf y = k"
  shows "find (\<lambda>r. kf r = k) rows = Some x \<and> find (\<lambda>r. kf r = k) (xs @ y # ys) = Some y"
  unfolding assms(1) using assms(2-) by (induction xs) auto

lemma find_absent: "k \<notin> kf ` set rows \<Longrightarrow> find (\<lambda>r. kf r = k) rows = None" 
  by (auto simp: find_None_iff)

lemma find_snoc: "k \<notin> kf ` set rows \<Longrightarrow> kf y = k \<Longrightarrow> find (\<lambda>r. kf r = k) (rows @ [y]) = Some y"
  by (induction rows) auto

text \<open>The snapshot a save leaves behind: what the row keeps is what the first save wrote.\<close>

definition kept_creditnote :: "menv \<Rightarrow> time \<Rightarrow> creditnote_row option \<Rightarrow> creditnote_snapshot \<Rightarrow> creditnote_snapshot" where
  "kept_creditnote env now old s = (case old of
      None \<Rightarrow> s\<lparr>cs_IssuedAt := map_option (me_time env) (cs_IssuedAt s), cs_CreatedAt := now\<rparr>
    | Some r \<Rightarrow> s\<lparr>cs_IssuedAt := map_option (me_time env) (cs_IssuedAt s), cs_CreatedAt := cr_created r,
        cs_Number := cr_number r, cs_InvoiceID := cr_invoice r, cs_ContractID := cr_contract r, cs_AccountID := cr_account r\<rparr>)"

text \<open>A credit note that was saved is found under its id, based on the saved version, with everything that was saved
  but what the upsert keeps: the number, invoice, contract, account and creation time of an existing note stay those of
  its first save, whatever the saved note says, and the save succeeds nevertheless.\<close>

theorem pg_creditnote_Save_FindByID:
  assumes q: "quiet w" and c: "codec_ok env (ck_state co)" and run: "Save env co s l w = (Inr v, w')"
    and s': "s' = kept_creditnote env (snow w) (find (\<lambda>r. cr_id r = cs_ID s) (pg_data (db w))) s" and ok: "ck_valid co s'"
  shows "v = cs_Version s \<and> FindByID co (cs_ID s) w' = (Inr \<lparr>cn_snap = s', cn_loaded = cs_Version s\<rparr>, w')"
proof -
  let ?rows = "pg_data (db w)"
  from run obtain js where js: "co_enc (ck_state co) (cs_state s) = Some js" by (auto simp: Save_def throw_def split: option.splits)
  with run have b: "bindA (upsert_creditnote env co s l js) (\<lambda>n. if n = 0 then throw TxVersionConflict else ret (cs_Version s)) w
      = (Inr v, w')" by (simp add: Save_def)
  note u = pg_upsert_in_quiet [OF q, of pg_creditnotes_table cr_id "\<lambda>r. cr_lock_version r = l" excluded_creditnote
      "\<lambda>now. map_sum id (pg_creditnote_to_row env co s now) (pg_json (json_column env js))", folded upsert_creditnote_def]
  obtain items where items: "json_column env js = Inr items"
    using b u by (cases "json_column env js") (auto simp: bindA_run [of "upsert_creditnote env co s l js"])
  let ?new = "pg_creditnote_to_row env co s (snow w) items"
  obtain n rows where up: "pg_upsert_row (tb_keys pg_creditnotes_table) cr_id ?new (\<lambda>r. cr_lock_version r = l)
      (excluded_creditnote ?new) ?rows = Inr (n, rows)" and n: "n \<noteq> 0"
    and w': "v = cs_Version s" "w' = w\<lparr>db := (db w)\<lparr>pg_data := rows\<rparr>\<rparr>"
    using b u items by (auto simp: bindA_run [of "upsert_creditnote env co s l js"] ret_def throw_def split: sum.splits if_splits)
  from codec_column [OF c js items] have dec: "items \<noteq> []" "co_dec (ck_state co) items = Some (cs_state s)" by simp_all
  have "\<exists>row. find (\<lambda>r. cr_id r = cs_ID s) rows = Some row \<and> scanCreditNoteSnapshot co row = Inr s'"
    using up
  proof (cases rule: pg_upsert_cases)
    case inserted
    then show ?thesis using dec find_absent [of "cs_ID s" cr_id ?rows] find_snoc [of "cs_ID s" cr_id ?rows ?new]
      by (simp add: s' kept_creditnote_def scanCreditNoteSnapshot_def pg_creditnote_to_row_def Let_def)
  next
    case (updated xs x ys)
    then show ?thesis using dec find_mid [of ?rows xs x ys cr_id "cs_ID s" "excluded_creditnote ?new x"]
      by (simp add: s' kept_creditnote_def scanCreditNoteSnapshot_def pg_creditnote_to_row_def excluded_creditnote_def Let_def)
  next
    case (skipped x)
    with n show ?thesis by simp
  qed
  moreover have "calm w'" "\<not> aborted_tx w'" using q w' by (auto simp: quiet_def aborted_tx_def)
  ultimately show ?thesis using w' ok
    by (auto simp: FindByID_def tryA_def pg_query_row_run pg_creditnote_of_row_def CreditNoteFromSnapshot_def s' kept_creditnote_def
        liftA_def split: option.splits)
qed

text \<open>Saving the issued note as applied, with another number: the number is not changed.\<close>

theorem pg_creditnote_Save_FindByID_witness:
  "\<exists>w'. Save demo_env demo_cn_core ((demo_note ''applied'' 2)\<lparr>cs_Number := ''9''\<rparr>) 1 (pg_demo 6 (db demo_notes)) = (Inr 2, w') \<and>
     (\<exists>c. FindByID demo_cn_core ''c1'' w' = (Inr c, w') \<and> cs_Status (cn_snap c) = ''applied'' \<and> cs_Number (cn_snap c) = ''1'')"
proof -
  let ?s = "(demo_note ''applied'' 2)\<lparr>cs_Number := ''9''\<rparr>" and ?w = "pg_demo 6 (db demo_notes)"
  have "\<exists>w'. Save demo_env demo_cn_core ?s 1 ?w = (Inr 2, w')"
    by (simp add: Save_def upsert_creditnote_def pg_upsert_in_quiet demo_cn_core_def demo_note_def json_column_def demo_env_def
        bindA_def tryA_def) (simp add: demo_notes_def pg_upsert_row_def extract_Cons_code demo_note_def pg_check_def clashes_def
        pg_creditnotes_table_def ret_def creditnote_to_row_def)
  then obtain w' where run: "Save demo_env demo_cn_core ?s 1 ?w = (Inr 2, w')" ..
  have "codec_ok demo_env (ck_state demo_cn_core)"
    by (simp add: codec_ok_def demo_cn_core_def demo_env_def)
  moreover have "ck_valid demo_cn_core x" for x by (simp add: demo_cn_core_def)
  ultimately have "FindByID demo_cn_core ''c1'' w' = (Inr \<lparr>cn_snap = kept_creditnote demo_env 6
      (find (\<lambda>r. cr_id r = ''c1'') (db demo_notes)) ?s, cn_loaded = 2\<rparr>, w')"
    using pg_creditnote_Save_FindByID [OF pg_demo_quiet(1) _ run refl] by (simp add: demo_note_def)
  with run show ?thesis
    by (simp add: kept_creditnote_def demo_notes_def demo_note_def creditnote_to_row_def)
qed

end
