(* ===== verification/Pg_Usage_Repo.thy ===== *)
theory Pg_Usage_Repo
  imports Pg_Alike My_Usage_Repo
begin

text \<open>
  The usage repository of \<open>postgres/usage_repo.go\<close>: recording with an idempotency key whose duplicate is told by
  the name of the constraint, the summary of a period and its records.
\<close>

definition usageRecordsIdempotencyKeyConstraint :: string where
  "usageRecordsIdempotencyKeyConstraint = ''usage_records_idempotency_key_key''"

definition pg_usage_table :: "(usage_db, usage_row) table" where
  "pg_usage_table = \<lparr>tb_name = ''usage_records'',
     tb_keys = [(''usage_records_pkey'', \<lambda>r. Some (uw_id r)), (usageRecordsIdempotencyKeyConstraint, uw_key)],
     tb_get = t_usage, tb_set = (\<lambda>rows d. d\<lparr>t_usage := rows\<rparr>)\<rparr>"

definition isUsageIdempotencyKeyConflict :: "repo_error \<Rightarrow> bool" where
  "isUsageIdempotencyKeyConflict err = uniqueViolationOn err usageRecordsIdempotencyKeyConstraint"

definition Record :: "menv \<Rightarrow> usage_core \<Rightarrow> usage_snapshot \<Rightarrow> (usage_db, unit) pgsql" where
  "Record env co s = (case co_enc (uc_metadata co) (us_Metadata s) of
      None \<Rightarrow> throw (OtherError ''marshal usage metadata'')
    | Some metadata \<Rightarrow> mapErrA
        (\<lambda>err. if isUsageIdempotencyKeyConflict err then DomainError ErrCodeDuplicateRequest None else err)
        (pg_insert_into pg_usage_table (\<lambda>_. map_sum id (\<lambda>m.
           \<lparr>uw_id = us_ID s, uw_contract = us_ContractID s, uw_metric = us_MetricName s, uw_quantity = us_Quantity s,
            uw_timestamp = me_time env (us_Timestamp s),
            uw_key = (if us_IdempotencyKey s \<noteq> [] then Some (us_IdempotencyKey s) else None), uw_metadata = m\<rparr>)
           (pg_json (json_column env metadata)))))"

text \<open>\<open>WHERE contract_id = $1 AND metric = $2 AND timestamp >= $3 AND timestamp < $4\<close>.\<close>

definition pg_in_period :: "menv \<Rightarrow> string \<Rightarrow> string \<Rightarrow> time \<Rightarrow> time \<Rightarrow> usage_row \<Rightarrow> bool" where
  "pg_in_period env contract metric fromT toT r \<longleftrightarrow> uw_contract r = contract \<and> uw_metric r = metric \<and>
     uw_timestamp r \<ge> me_time env fromT \<and> uw_timestamp r < me_time env toT"

definition GetSummary :: "menv \<Rightarrow> string \<Rightarrow> string \<Rightarrow> time \<times> time \<Rightarrow> (usage_db, usage_summary) pgsql" where
  "GetSummary env contract metric period =
     bindA (pg_query (\<lambda>d. sum_list (map (sint \<circ> uw_quantity)
       (filter (pg_in_period env contract metric (fst period) (snd period)) (t_usage d))))) (\<lambda>total.
     if is_int64 total then ret \<lparr>um_ContractID = contract, um_MetricName = metric, um_Period = period,
       um_TotalUsage = word_of_int total\<rparr>
     else throw (OtherError ''scan usage summary''))"

definition pg_usage_of_row :: "usage_core \<Rightarrow> usage_row \<Rightarrow> repo_error + usage_snapshot" where
  "pg_usage_of_row co r =
     (let metadata = (if uw_metadata r \<noteq> [] then co_dec (uc_metadata co) (uw_metadata r) else None) in
      usage_FromSnapshot co
        \<lparr>us_ID = uw_id r, us_ContractID = uw_contract r, us_MetricName = uw_metric r, us_Quantity = uw_quantity r,
         us_Timestamp = uw_timestamp r, us_IdempotencyKey = (case uw_key r of None \<Rightarrow> [] | Some k \<Rightarrow> k),
         us_Metadata = (case metadata of None \<Rightarrow> [] | Some m \<Rightarrow> m)\<rparr>)"

definition GetRecords :: "menv \<Rightarrow> usage_core \<Rightarrow> string \<Rightarrow> string \<Rightarrow> time \<Rightarrow> time \<Rightarrow> (usage_db, usage_snapshot list) pgsql" where
  "GetRecords env co contract metric fromT toT =
     bindA (pg_query (\<lambda>d. sort_key uw_timestamp (filter (pg_in_period env contract metric fromT toT) (t_usage d)))) (\<lambda>rows.
     mapA (\<lambda>r. liftA (pg_usage_of_row co r)) rows)"

section \<open>The two adapters answer alike\<close>

lemma pg_in_period_eq: "pg_in_period = in_period"
  by (intro ext) (simp add: pg_in_period_def in_period_def)

lemma pg_usage_of_row_eq: "pg_usage_of_row = usage_of_row"
  by (intro ext) (simp add: pg_usage_of_row_def usage_of_row_def Let_def cong: option.case_cong)

lemma usage_dup_kinds:
  "dupEntryOnKey (DbError (dup_error (tb_name usage_table) (''idempotency_key'', uw_key) row)) ''idempotency_key''"
  "\<not> contains (uw_id row) ''idempotency_key'' \<Longrightarrow>
     \<not> dupEntryOnKey (DbError (dup_error (tb_name usage_table) (''PRIMARY'', \<lambda>r. Some (uw_id r)) row)) ''idempotency_key''"
  by (subst dupEntryOnKey_dup; simp add: usage_table_def contains_def sublist_code quote_char_def)+

lemma alike_Record:
  assumes clean: "\<not> contains (us_ID s) ''idempotency_key''"
  shows "alike (\<lambda>_. True) (Record env co s) (My_Usage_Repo.Record env co s)"
proof (cases "co_enc (uc_metadata co) (us_Metadata s)")
  case None
  then show ?thesis by (simp add: Record_def My_Usage_Repo.Record_def alike_pure)
next
  case (Some md)
  show ?thesis
  proof (rule alikeI)
    fix v and w :: "usage_db world" assume s: "in_step (\<lambda>_. True) v w"
    note d = in_stepD [OF s]
    show "same_result (fst (Record env co s v)) (fst (My_Usage_Repo.Record env co s w)) \<and>
        in_step (\<lambda>_. True) (snd (Record env co s v)) (snd (My_Usage_Repo.Record env co s w))"
    proof (cases "json_column env md")
      case (Inl e)
      then obtain m where e: "e = MySQLError 3140 m" by (auto simp: json_column_def split: option.splits)
      have "Record env co s v = (Inl (DbError pgInvalidText), v)" "My_Usage_Repo.Record env co s w = (Inl (DbError e), w)"
        using Some Inl d by (simp_all add: Record_def My_Usage_Repo.Record_def mapErrA_def tryA_def pg_insert_into_quiet
            insert_into_run isUsageIdempotencyKeyConflict_def uniqueViolationOn_def pgInvalidText_def pgUniqueViolation_def
            dupEntryOnKey_def mysqlErrDupEntry_def e throw_def)
      with s show ?thesis by (simp add: same_result_def e pgInvalidText_def)
    next
      case (Inr m)
      let ?row = "usage_to_row env s m" and ?rows = "t_usage (db w)"
      have row: "\<lparr>uw_id = us_ID s, uw_contract = us_ContractID s, uw_metric = us_MetricName s, uw_quantity = us_Quantity s,
            uw_timestamp = me_time env (us_Timestamp s),
            uw_key = (if us_IdempotencyKey s \<noteq> [] then Some (us_IdempotencyKey s) else None), uw_metadata = m\<rparr> = ?row"
        by (simp add: usage_to_row_def opt_string_def)
      have id: "uw_id ?row = us_ID s" by (simp add: usage_to_row_def)
      note runs = Record_def My_Usage_Repo.Record_def mapErrA_def tryA_def pg_insert_into_quiet insert_into_run throw_def ret_def
        isUsageIdempotencyKeyConflict_def uniqueViolationOn_def pg_insert_row_def pg_check_def insert_row_def
      have k: "tb_keys pg_usage_table = [(''usage_records_pkey'', \<lambda>r. Some (uw_id r)), (usageRecordsIdempotencyKeyConstraint, uw_key)]"
        "tb_keys usage_table = [(''PRIMARY'', \<lambda>r. Some (uw_id r)), (''idempotency_key'', uw_key)]"
        "tb_get pg_usage_table = t_usage" "tb_get usage_table = t_usage" "tb_set pg_usage_table = tb_set usage_table"
        by (simp_all add: pg_usage_table_def usage_table_def)
      have c: "clashes ?rows ?row (n, f) = clashes ?rows ?row ([], f)" for n f by (simp add: clashes_def)
      consider (id) "clashes ?rows ?row ([], \<lambda>r. Some (uw_id r))"
        | (key) "\<not> clashes ?rows ?row ([], \<lambda>r. Some (uw_id r))" "clashes ?rows ?row ([], uw_key)"
        | (unused) "\<not> clashes ?rows ?row ([], \<lambda>r. Some (uw_id r))" "\<not> clashes ?rows ?row ([], uw_key)" by blast
      then show ?thesis
      proof cases
        case id
        have "Record env co s v = (Inl (DbError (PgError pgUniqueViolation ''usage_records_pkey'')), v)"
          using Some Inr d id by (simp add: runs k row c [of "''usage_records_pkey''"] usageRecordsIdempotencyKeyConstraint_def)
        moreover have "My_Usage_Repo.Record env co s w
            = (Inl (DbError (dup_error (tb_name usage_table) (''PRIMARY'', \<lambda>r. Some (uw_id r)) ?row)), w)"
          using Some Inr d id clean usage_dup_kinds(2) [of ?row] by (simp add: runs k c [of "''PRIMARY''"] \<open>uw_id ?row = us_ID s\<close>)
        ultimately show ?thesis using s by (simp add: same_result_def dup_error_def)
      next
        case key
        have "Record env co s v = (Inl (DomainError ErrCodeDuplicateRequest None), v)"
          using Some Inr d key by (simp add: runs k row c [of "''usage_records_pkey''"] c [of usageRecordsIdempotencyKeyConstraint])
        moreover have "My_Usage_Repo.Record env co s w = (Inl (DomainError ErrCodeDuplicateRequest None), w)"
          using Some Inr d key usage_dup_kinds(1) [of ?row]
          by (simp add: runs k c [of "''PRIMARY''"] c [of "''idempotency_key''"])
        ultimately show ?thesis using s by (simp add: same_result_def)
      next
        case unused
        have "Record env co s v = (Inr (), v\<lparr>db := (db v)\<lparr>pg_data := tb_set usage_table (?rows @ [?row]) (db w)\<rparr>\<rparr>)"
          using Some Inr d unused by (simp add: runs k row c [of "''usage_records_pkey''"] c [of usageRecordsIdempotencyKeyConstraint])
        moreover have "My_Usage_Repo.Record env co s w = (Inr (), w\<lparr>db := tb_set usage_table (?rows @ [?row]) (db w)\<rparr>)"
          using Some Inr d unused by (simp add: runs k c [of "''PRIMARY''"] c [of "''idempotency_key''"])
        ultimately show ?thesis using d by (simp add: same_result_def in_step_def quiet_def)
      qed
    qed
  qed
qed

text \<open>The two usage repositories answer alike. A record with a taken idempotency key is the duplicate-request error in
  both, although one adapter looks for the key's name in the message and the other compares the constraint.\<close>

theorem usage_adapters_alike:
  assumes "\<not> contains (us_ID s) ''idempotency_key''"
  shows "alike (\<lambda>_. True) (Record env co s) (My_Usage_Repo.Record env co s) \<and>
    alike (\<lambda>_. True) (GetSummary env c m p) (My_Usage_Repo.GetSummary env c m p) \<and>
    alike (\<lambda>_. True) (GetRecords env co c m a b) (My_Usage_Repo.GetRecords env co c m a b)"
proof (intro conjI alike_Record assms)
  show "alike (\<lambda>_. True) (GetSummary env c m p) (My_Usage_Repo.GetSummary env c m p)"
    unfolding GetSummary_def My_Usage_Repo.GetSummary_def pg_in_period_eq if_not_P
    by (intro alike_intros) (simp_all add: comp_def alike_pure)
  show "alike (\<lambda>_. True) (GetRecords env co c m a b) (My_Usage_Repo.GetRecords env co c m a b)"
    unfolding GetRecords_def My_Usage_Repo.GetRecords_def pg_in_period_eq pg_usage_of_row_eq by (intro alike_intros refl)
qed

end
