(* ===== verification/Pg_Product_Repo.thy ===== *)
theory Pg_Product_Repo
  imports Pg_Alike My_Product_Repo
begin

text \<open>
  The product repository of \<open>postgres/product_repo.go\<close>: an upsert by id that keeps the creation time, and the
  lookup. It answers as the MySQL adapter does.
\<close>

definition pg_products_table :: "(product_db, product_row) table" where
  "pg_products_table = \<lparr>tb_name = ''products'', tb_keys = [(''products_pkey'', \<lambda>r. Some (pw_id r))],
     tb_get = t_products, tb_set = (\<lambda>rows d. d\<lparr>t_products := rows\<rparr>)\<rparr>"

definition product_FindByID :: "('f, 'u, 'm) product_core \<Rightarrow> string \<Rightarrow> (product_db, ('f, 'u, 'm) product_snapshot) pgsql" where
  "product_FindByID co i = tryA (pg_query_row (\<lambda>d. find (\<lambda>r. pw_id r = i) (t_products d)))
     (\<lambda>e. if as_db e = Some ErrNoRows then throw (DomainError ErrCodeNotFound None) else throw e)
     (\<lambda>r. let decode = (\<lambda>x. case x of None \<Rightarrow> Inl (OtherError ''unmarshal product'') | Some a \<Rightarrow> Inr a) in
       bindA (liftA (decode (if pw_features r \<noteq> [] then map_option (\<lambda>x. (\<lambda>(_, u, m). (x, u, m))) (co_dec (pk_features co) (pw_features r))
           else Some id))) (\<lambda>setFeatures.
       bindA (liftA (decode (if pw_usage r \<noteq> [] then map_option (\<lambda>x. (\<lambda>(f, _, m). (f, x, m))) (co_dec (pk_usage co) (pw_usage r))
           else Some id))) (\<lambda>setUsageMetrics.
       bindA (liftA (decode (if pw_metadata r \<noteq> [] then map_option (\<lambda>x. (\<lambda>(f, u, _). (f, u, x))) (co_dec (pk_metadata co) (pw_metadata r))
           else Some id))) (\<lambda>setMetadata.
       case setMetadata (setUsageMetrics (setFeatures (pk_nil co))) of (f, u, m) \<Rightarrow>
         (let s = \<lparr>ps_ID = i, ps_Name = pw_name r, ps_Description = pw_description r, ps_Status = pw_status r,
            ps_Features = f, ps_UsageMetrics = u, ps_Metadata = m, ps_CreatedAt = pw_created r\<rparr>
          in if pk_valid co s then ret s else throw (OtherError ''product snapshot''))))))"

text \<open>\<open>ON CONFLICT (id) DO UPDATE SET\<close>: all columns but the id and the creation time.\<close>

definition excluded_product :: "product_row \<Rightarrow> product_row \<Rightarrow> product_row" where
  "excluded_product new r = r\<lparr>pw_name := pw_name new, pw_description := pw_description new, pw_status := pw_status new,
     pw_features := pw_features new, pw_usage := pw_usage new, pw_metadata := pw_metadata new\<rparr>"

definition pg_upsert_product :: "menv \<Rightarrow> ('f, 'u, 'm) product_snapshot \<Rightarrow> string \<Rightarrow> string \<Rightarrow> string \<Rightarrow> (product_db, nat) pgsql" where
  "pg_upsert_product env s features usageMetrics metadata =
     pg_upsert_in pg_products_table pw_id (\<lambda>_. True) excluded_product (\<lambda>_.
       case (me_json env features, me_json env usageMetrics, me_json env metadata) of
         (Some f, Some u, Some m) \<Rightarrow> Inr
           \<lparr>pw_id = ps_ID s, pw_name = ps_Name s, pw_description = ps_Description s, pw_status = ps_Status s,
            pw_features = f, pw_usage = u, pw_metadata = m, pw_created = me_time env (ps_CreatedAt s)\<rparr>
       | _ \<Rightarrow> Inl pgInvalidText)"

definition product_Save :: "menv \<Rightarrow> ('f, 'u, 'm) product_core \<Rightarrow> ('f, 'u, 'm) product_snapshot \<Rightarrow> (product_db, unit) pgsql" where
  "product_Save env co s = (case co_enc (pk_features co) (ps_Features s) of
      None \<Rightarrow> throw (OtherError ''marshal product'')
    | Some features \<Rightarrow> (case co_enc (pk_usage co) (ps_UsageMetrics s) of
        None \<Rightarrow> throw (OtherError ''marshal product'')
      | Some usageMetrics \<Rightarrow> (case co_enc (pk_metadata co) (ps_Metadata s) of
          None \<Rightarrow> throw (OtherError ''marshal product'')
        | Some metadata \<Rightarrow> bindA (pg_upsert_product env s features usageMetrics metadata) (\<lambda>_. ret ()))))"

section \<open>The two adapters answer alike\<close>

lemma pg_products_sel [simp]: "lens pg_products_table" "tb_keys pg_products_table = [(''products_pkey'', \<lambda>r. Some (pw_id r))]"
  "tb_get pg_products_table = t_products" "tb_set pg_products_table rows d = d\<lparr>t_products := rows\<rparr>"
  by (simp_all add: pg_products_table_def lens_def)

lemma alike_upsert_product:
  "alike (keyed pg_products_table pw_id) (bindA (pg_upsert_product env s f u m) (\<lambda>_. ret ())) (upsert_product env s f u m)"
proof -
  let ?mk = "case (me_json env f, me_json env u, me_json env m) of
         (Some f, Some u, Some m) \<Rightarrow> Inr
           \<lparr>pw_id = ps_ID s, pw_name = ps_Name s, pw_description = ps_Description s, pw_status = ps_Status s,
            pw_features = f, pw_usage = u, pw_metadata = m, pw_created = me_time env (ps_CreatedAt s)\<rparr>
       | _ \<Rightarrow> Inl (MySQLError 3140 ''Invalid JSON text'')"
  show ?thesis unfolding pg_upsert_product_def upsert_product_def
  proof (rule alike_upsert [where mk' = ?mk])
    fix d :: product_db
    have "upsert_row pw_id new (excluded_product new) rows = upsert_row pw_id new (\<lambda>r. new\<lparr>pw_created := pw_created r\<rparr>) rows" for new rows
      unfolding upsert_row_def excluded_product_def by auto
    then show "(case (me_json env f, me_json env u, me_json env m) of
      (Some f', Some u', Some m') \<Rightarrow>
        (let row = \<lparr>pw_id = ps_ID s, pw_name = ps_Name s, pw_description = ps_Description s, pw_status = ps_Status s,
               pw_features = f', pw_usage = u', pw_metadata = m', pw_created = me_time env (ps_CreatedAt s)\<rparr>
         in (Inr (), d\<lparr>t_products := upsert_row pw_id row (\<lambda>r. row\<lparr>pw_created := pw_created r\<rparr>) (t_products d)\<rparr>))
      | _ \<Rightarrow> (Inl (MySQLError 3140 ''Invalid JSON text''), d)) =
      (case ?mk of Inl e \<Rightarrow> (Inl e, d) | Inr new \<Rightarrow> (Inr (), tb_set pg_products_table (upsert_row pw_id new (excluded_product new)
         (tb_get pg_products_table d)) d))"
      by (simp add: Let_def split: option.split)
  qed (simp_all add: excluded_product_def pgInvalidText_def split: option.split)
qed

lemma alike_product_FindByID: "alike I (product_FindByID co i) (My_Product_Repo.product_FindByID co i)"
  unfolding product_FindByID_def My_Product_Repo.product_FindByID_def
proof (intro alike_intros refl)
  fix r
  let ?my = "case (if pw_features r = [] then Some (fst (pk_nil co)) else co_dec (pk_features co) (pw_features r),
             if pw_usage r = [] then Some (fst (snd (pk_nil co))) else co_dec (pk_usage co) (pw_usage r),
             if pw_metadata r = [] then Some (snd (snd (pk_nil co))) else co_dec (pk_metadata co) (pw_metadata r)) of
         (Some f, Some u, Some m) \<Rightarrow>
           (let s = \<lparr>ps_ID = i, ps_Name = pw_name r, ps_Description = pw_description r, ps_Status = pw_status r,
              ps_Features = f, ps_UsageMetrics = u, ps_Metadata = m, ps_CreatedAt = pw_created r\<rparr>
            in if pk_valid co s then ret s else throw (OtherError ''product snapshot''))
       | _ \<Rightarrow> throw (OtherError ''unmarshal product'')"
  obtain nf nu nm where n: "pk_nil co = (nf, nu, nm)" by (cases "pk_nil co") auto
  show "alike I (let decode = (\<lambda>x. case x of None \<Rightarrow> Inl (OtherError ''unmarshal product'') | Some a \<Rightarrow> Inr a) in
       bindA (liftA (decode (if pw_features r \<noteq> [] then map_option (\<lambda>x. (\<lambda>(_, u, m). (x, u, m))) (co_dec (pk_features co) (pw_features r))
           else Some id))) (\<lambda>setFeatures.
       bindA (liftA (decode (if pw_usage r \<noteq> [] then map_option (\<lambda>x. (\<lambda>(f, _, m). (f, x, m))) (co_dec (pk_usage co) (pw_usage r))
           else Some id))) (\<lambda>setUsageMetrics.
       bindA (liftA (decode (if pw_metadata r \<noteq> [] then map_option (\<lambda>x. (\<lambda>(f, u, _). (f, u, x))) (co_dec (pk_metadata co) (pw_metadata r))
           else Some id))) (\<lambda>setMetadata.
       case setMetadata (setUsageMetrics (setFeatures (pk_nil co))) of (f, u, m) \<Rightarrow>
         (let s = \<lparr>ps_ID = i, ps_Name = pw_name r, ps_Description = pw_description r, ps_Status = pw_status r,
            ps_Features = f, ps_UsageMetrics = u, ps_Metadata = m, ps_CreatedAt = pw_created r\<rparr>
          in if pk_valid co s then ret s else throw (OtherError ''product snapshot'')))))) ?my"
    by (rule alikeI) (cases "co_dec (pk_features co) (pw_features r)"; cases "co_dec (pk_usage co) (pw_usage r)";
      cases "co_dec (pk_metadata co) (pw_metadata r)"; simp add: Let_def n bindA_def tryA_def liftA_def throw_def ret_def same_result_def)
qed

text \<open>The two product repositories answer alike.\<close>

theorem product_adapters_alike:
  "alike (keyed pg_products_table pw_id) (product_Save env co s) (My_Product_Repo.product_Save env co s) \<and>
   alike (keyed pg_products_table pw_id) (product_FindByID co i) (My_Product_Repo.product_FindByID co i)"
proof
  show "alike (keyed pg_products_table pw_id) (product_Save env co s) (My_Product_Repo.product_Save env co s)"
    unfolding product_Save_def My_Product_Repo.product_Save_def
    by (cases "co_enc (pk_features co) (ps_Features s)"; cases "co_enc (pk_usage co) (ps_UsageMetrics s)";
        cases "co_enc (pk_metadata co) (ps_Metadata s)") (simp_all add: alike_pure alike_upsert_product)
qed (rule alike_product_FindByID)

end
