(* ===== verification/Pg_Price_Repo.thy ===== *)
theory Pg_Price_Repo
  imports Pg_Alike My_Price_Repo
begin

text \<open>
  The price repository of \<open>postgres/price_repo.go\<close>: the envelope of the pricing models, an upsert by id that
  keeps the product and the creation time, and the finders. It answers as the MySQL adapter does.
\<close>

definition pg_prices_table :: "(price_db, price_row) table" where
  "pg_prices_table = \<lparr>tb_name = ''prices'', tb_keys = [(''prices_pkey'', \<lambda>r. Some (rw_id r))],
     tb_get = t_prices, tb_set = (\<lambda>rows d. d\<lparr>t_prices := rows\<rparr>)\<rparr>"

section \<open>Pricing models\<close>

definition pg_kind :: "('f, 't, 'u) pricing_model \<Rightarrow> string option" where
  "pg_kind m = (case m of FlatPrice _ \<Rightarrow> Some ''flat'' | TieredPrice _ \<Rightarrow> Some ''tiered'' | UsagePrice _ \<Rightarrow> Some ''usage''
     | OtherModel \<Rightarrow> None)"

definition marshalPricingModel :: "('f, 't, 'u) pricing_envelope codec \<Rightarrow> ('f, 't, 'u) pricing_model option \<Rightarrow> repo_error + string" where
  "marshalPricingModel c mo =
     (case (case mo of
          None \<Rightarrow> Inr \<lparr>en_Kind = [], en_Flat = None, en_Tiered = None, en_Usage = None\<rparr>
        | Some m \<Rightarrow> (case pg_kind m of
            None \<Rightarrow> Inl (OtherError ''unsupported pricing model type'')
          | Some k \<Rightarrow> Inr
             \<lparr>en_Kind = k, en_Flat = (case m of FlatPrice v \<Rightarrow> Some v | _ \<Rightarrow> None),
              en_Tiered = (case m of TieredPrice v \<Rightarrow> Some v | _ \<Rightarrow> None),
              en_Usage = (case m of UsagePrice v \<Rightarrow> Some v | _ \<Rightarrow> None)\<rparr>)) of
        Inl e \<Rightarrow> Inl e
      | Inr env \<Rightarrow> (case co_enc c env of None \<Rightarrow> Inl (OtherError ''marshal pricing model'') | Some t \<Rightarrow> Inr t))"

definition unmarshalPricingModel :: "('f, 't, 'u) pricing_envelope codec \<Rightarrow> string \<Rightarrow> repo_error + ('f, 't, 'u) pricing_model option" where
  "unmarshalPricingModel c data = (if data = [] then Inr None
     else (case co_dec c data of
         None \<Rightarrow> Inl (OtherError ''unmarshal pricing model'')
       | Some env \<Rightarrow> Inr
          (case (if en_Kind env = ''flat'' then map_option FlatPrice (en_Flat env) else None) of Some m \<Rightarrow> Some m | None \<Rightarrow>
          (case (if en_Kind env = ''tiered'' then map_option TieredPrice (en_Tiered env) else None) of Some m \<Rightarrow> Some m | None \<Rightarrow>
          (if en_Kind env = ''usage'' then map_option UsagePrice (en_Usage env) else None)))))"

section \<open>The repository\<close>

text \<open>An interval that does not marshal is passed as \<open>NULL\<close>, which the column refuses.\<close>

definition pg_price_to_row :: "menv \<Rightarrow> ('f, 't, 'u, 'i, 'm) price_core \<Rightarrow> ('f, 't, 'u, 'i, 'm) price_snapshot
    \<Rightarrow> string option \<Rightarrow> string \<Rightarrow> string \<Rightarrow> string \<Rightarrow> db_error + price_row" where
  "pg_price_to_row env co s intervalJSON modelJSON jsonState metadataJSON =
     (case (me_json env modelJSON, me_json env jsonState, me_json env metadataJSON) of
        (Some m, Some st, Some md) \<Rightarrow> (case intervalJSON of
            None \<Rightarrow> Inl pgNotNullViolation
          | Some interval \<Rightarrow> (case me_json env interval of
              None \<Rightarrow> Inl pgInvalidText
            | Some i \<Rightarrow> Inr
               \<lparr>rw_id = rs_ID s, rw_product = rs_ProductID s, rw_amount = rk_int64 co (rs_Amount s),
                rw_currency = rs_Currency s, rw_interval = i, rw_model = m, rw_status = rs_Status s,
                rw_state = Some st, rw_metadata = Some md, rw_created = me_time env (rs_CreatedAt s)\<rparr>))
      | _ \<Rightarrow> Inl pgInvalidText)"

definition excluded_price :: "price_row \<Rightarrow> price_row \<Rightarrow> price_row" where
  "excluded_price new r = r\<lparr>rw_amount := rw_amount new, rw_currency := rw_currency new, rw_interval := rw_interval new,
     rw_model := rw_model new, rw_status := rw_status new, rw_state := rw_state new, rw_metadata := rw_metadata new\<rparr>"

definition price_Save :: "menv \<Rightarrow> ('f, 't, 'u, 'i, 'm) price_core \<Rightarrow> ('f, 't, 'u, 'i, 'm) price_snapshot \<Rightarrow> (price_db, unit) pgsql" where
  "price_Save env co s =
     (let intervalJSON = co_enc (rk_interval co) (rs_Interval s) in
      bindA (liftA (marshalPricingModel (rk_model co) (rs_PricingModel s))) (\<lambda>modelJSON.
      case co_enc (rk_state co) (rs_Amount s) of
        None \<Rightarrow> throw (OtherError ''marshal price json state'')
      | Some jsonState \<Rightarrow>
          (case (case rs_Metadata s of None \<Rightarrow> Some ''{}'' | Some md \<Rightarrow> co_enc (rk_metadata co) (Some md)) of
             None \<Rightarrow> throw (OtherError ''marshal price metadata'')
           | Some metadataJSON \<Rightarrow>
               bindA (pg_upsert_in pg_prices_table rw_id (\<lambda>_. True) excluded_price
                   (\<lambda>_. pg_price_to_row env co s intervalJSON modelJSON jsonState metadataJSON)) (\<lambda>_. ret ()))))"

definition scanPriceSnapshot :: "('f, 't, 'u, 'i, 'm) price_core \<Rightarrow> price_row \<Rightarrow> repo_error + ('f, 't, 'u, 'i, 'm) price_snapshot" where
  "scanPriceSnapshot co r =
     (let stateRaw = (case rw_state r of None \<Rightarrow> [] | Some t \<Rightarrow> t);
          metadataRaw = (case rw_metadata r of None \<Rightarrow> [] | Some t \<Rightarrow> t) in
      case (if stateRaw \<noteq> [] then co_dec (rk_state co) stateRaw else Some (moneyFromInt64 (rw_amount r) (rw_currency r))) of
        None \<Rightarrow> Inl (OtherError ''unmarshal price json state'')
      | Some amount \<Rightarrow>
      (case (if rw_interval r \<noteq> [] then co_dec (rk_interval co) (rw_interval r) else Some (rk_nil_interval co)) of
         None \<Rightarrow> Inl (OtherError ''unmarshal price interval'')
       | Some interval \<Rightarrow>
      (case (if metadataRaw \<noteq> [] then co_dec (rk_metadata co) metadataRaw else Some None) of
         None \<Rightarrow> Inl (OtherError ''unmarshal price metadata'')
       | Some metadata \<Rightarrow>
      (case unmarshalPricingModel (rk_model co) (rw_model r) of
         Inl e \<Rightarrow> Inl e
       | Inr model \<Rightarrow> Inr
          \<lparr>rs_ID = rw_id r, rs_ProductID = rw_product r, rs_Amount = amount, rs_Currency = rw_currency r,
           rs_Interval = interval, rs_PricingModel = model, rs_Status = rw_status r,
           rs_Metadata = metadata, rs_CreatedAt = rw_created r\<rparr>))))"

definition pg_price_of_row :: "('f, 't, 'u, 'i, 'm) price_core \<Rightarrow> price_row \<Rightarrow> repo_error + ('f, 't, 'u, 'i, 'm) price_snapshot" where
  "pg_price_of_row co r = (case scanPriceSnapshot co r of
      Inl e \<Rightarrow> Inl e
    | Inr s \<Rightarrow> (if rk_valid co s then Inr s else Inl (OtherError ''price snapshot'')))"

definition scanPriceRow :: "('f, 't, 'u, 'i, 'm) price_core \<Rightarrow> (price_db, price_row) pgsql
    \<Rightarrow> (price_db, ('f, 't, 'u, 'i, 'm) price_snapshot) pgsql" where
  "scanPriceRow co row = tryA row
     (\<lambda>e. if as_db e = Some ErrNoRows then throw (DomainError ErrCodeNotFound None) else throw e)
     (\<lambda>r. liftA (pg_price_of_row co r))"

definition scanPriceRows :: "('f, 't, 'u, 'i, 'm) price_core \<Rightarrow> price_row list
    \<Rightarrow> (price_db, ('f, 't, 'u, 'i, 'm) price_snapshot list) pgsql" where
  "scanPriceRows co rows = mapA (\<lambda>r. liftA (pg_price_of_row co r)) rows"

definition price_FindByID :: "('f, 't, 'u, 'i, 'm) price_core \<Rightarrow> string \<Rightarrow> (price_db, ('f, 't, 'u, 'i, 'm) price_snapshot) pgsql" where
  "price_FindByID co i = scanPriceRow co (pg_query_row (\<lambda>d. find (\<lambda>r. rw_id r = i) (t_prices d)))"

definition FindByProductID :: "('f, 't, 'u, 'i, 'm) price_core \<Rightarrow> string
    \<Rightarrow> (price_db, ('f, 't, 'u, 'i, 'm) price_snapshot list) pgsql" where
  "FindByProductID co product = bindA (pg_query (\<lambda>d. sort_key (\<lambda>r. - rw_created r)
     (filter (\<lambda>r. rw_product r = product) (t_prices d)))) (scanPriceRows co)"

definition FindActiveByProductID :: "('f, 't, 'u, 'i, 'm) price_core \<Rightarrow> string
    \<Rightarrow> (price_db, ('f, 't, 'u, 'i, 'm) price_snapshot list) pgsql" where
  "FindActiveByProductID co product = bindA (pg_query (\<lambda>d. sort_key (\<lambda>r. - rw_created r)
     (filter (\<lambda>r. rw_product r = product \<and> rw_status r = ''active'') (t_prices d)))) (scanPriceRows co)"

section \<open>The two adapters answer alike\<close>

lemma pg_prices_sel [simp]: "lens pg_prices_table" "tb_keys pg_prices_table = [(''prices_pkey'', \<lambda>r. Some (rw_id r))]"
  "tb_get pg_prices_table = t_prices" "tb_set pg_prices_table rows d = d\<lparr>t_prices := rows\<rparr>"
  by (simp_all add: pg_prices_table_def lens_def)

lemma marshalPricingModel_eq: "marshalPricingModel = My_Price_Repo.marshalPricingModel"
  by (intro ext) (simp add: marshalPricingModel_def My_Price_Repo.marshalPricingModel_def pg_kind_def Let_def kindFlat_def
      kindTiered_def kindUsage_def split: option.split pricing_model.split)

lemma unmarshalPricingModel_eq: "unmarshalPricingModel = My_Price_Repo.unmarshalPricingModel"
  by (intro ext) (simp add: unmarshalPricingModel_def My_Price_Repo.unmarshalPricingModel_def kindFlat_def
      kindTiered_def kindUsage_def split: option.split)

lemma pg_price_of_row_eq: "pg_price_of_row = price_of_row"
  by (intro ext) (simp add: pg_price_of_row_def price_of_row_def price_FromSnapshot_def scanPriceSnapshot_def
      My_Price_Repo.scanPriceSnapshot_def unmarshalPricingModel_eq Let_def cong: option.case_cong sum.case_cong)

lemma alike_scanPriceRows [alike_intros]: "alike I (scanPriceRows co rows) (My_Price_Repo.scanPriceRows co rows)"
  unfolding scanPriceRows_def My_Price_Repo.scanPriceRows_def pg_price_of_row_eq by (intro alike_intros)

lemma alike_upsert_price:
  assumes "me_json env [] = None"
  shows "alike (keyed pg_prices_table rw_id)
     (bindA (pg_upsert_in pg_prices_table rw_id (\<lambda>_. True) excluded_price (\<lambda>_. pg_price_to_row env co s interval m st md)) (\<lambda>_. ret ()))
     (upsert_price env co s (case interval of Some t \<Rightarrow> t | None \<Rightarrow> []) m st md)"
  unfolding upsert_price_def
proof (rule alike_upsert [where mk' = "map_sum (\<lambda>_. MySQLError 3140 ''Invalid JSON text'') id (pg_price_to_row env co s interval m st md)"])
  fix d :: price_db
  have "upsert_row rw_id new (excluded_price new) rows = upsert_row rw_id new (\<lambda>r. new\<lparr>rw_product := rw_product r, rw_created := rw_created r\<rparr>) rows"
    if "rw_state new \<noteq> None" for new rows
    unfolding upsert_row_def excluded_price_def by auto
  then show "(case (me_json env (case interval of Some t \<Rightarrow> t | None \<Rightarrow> []), me_json env m, me_json env st, me_json env md) of
       (Some i, Some m, Some st, Some md) \<Rightarrow>
         (let row = \<lparr>rw_id = rs_ID s, rw_product = rs_ProductID s, rw_amount = rk_int64 co (rs_Amount s),
                rw_currency = rs_Currency s, rw_interval = i, rw_model = m, rw_status = rs_Status s,
                rw_state = Some st, rw_metadata = Some md, rw_created = me_time env (rs_CreatedAt s)\<rparr>
          in (Inr (), d\<lparr>t_prices := upsert_row rw_id row
            (\<lambda>r. row\<lparr>rw_product := rw_product r, rw_created := rw_created r\<rparr>) (t_prices d)\<rparr>))
     | _ \<Rightarrow> (Inl (MySQLError 3140 ''Invalid JSON text''), d)) =
     (case map_sum (\<lambda>_. MySQLError 3140 ''Invalid JSON text'') id (pg_price_to_row env co s interval m st md) of
        Inl e \<Rightarrow> (Inl e, d)
      | Inr new \<Rightarrow> (Inr (), tb_set pg_prices_table (upsert_row rw_id new (excluded_price new) (tb_get pg_prices_table d)) d))"
    using assms by (simp add: pg_price_to_row_def Let_def split: option.split)
qed (simp_all add: excluded_price_def pg_price_to_row_def pgInvalidText_def pgNotNullViolation_def split: option.split)

text \<open>The two price repositories answer alike. An interval that does not marshal is dropped by both adapters; the
  empty text one of them then sends and the \<open>NULL\<close> the other sends are both refused by the column.\<close>

theorem price_adapters_alike:
  assumes "me_json env [] = None"
  shows "alike (keyed pg_prices_table rw_id) (price_Save env co s) (My_Price_Repo.price_Save env co s) \<and>
    alike I (price_FindByID co i) (My_Price_Repo.price_FindByID co i) \<and>
    alike I (FindByProductID co p) (My_Price_Repo.FindByProductID co p) \<and>
    alike I (FindActiveByProductID co p) (My_Price_Repo.FindActiveByProductID co p)"
proof (intro conjI)
  have md: "(case rs_Metadata s of None \<Rightarrow> Some ''{}'' | Some md \<Rightarrow> co_enc (rk_metadata co) (Some md)) =
      (if rs_Metadata s = None then Some ''{}'' else co_enc (rk_metadata co) (rs_Metadata s))"
    by (cases "rs_Metadata s") auto
  show "alike (keyed pg_prices_table rw_id) (price_Save env co s) (My_Price_Repo.price_Save env co s)"
    unfolding price_Save_def My_Price_Repo.price_Save_def Let_def marshalPricingModel_eq md
    by (intro alike_intros alike_upsert_price [OF assms])
  show "alike I (price_FindByID co i) (My_Price_Repo.price_FindByID co i)"
    unfolding price_FindByID_def My_Price_Repo.price_FindByID_def scanPriceRow_def pg_price_of_row_eq by (intro alike_intros refl)
  show "alike I (FindByProductID co p) (My_Price_Repo.FindByProductID co p)"
    unfolding FindByProductID_def My_Price_Repo.FindByProductID_def by (intro alike_intros refl)
  show "alike I (FindActiveByProductID co p) (My_Price_Repo.FindActiveByProductID co p)"
    unfolding FindActiveByProductID_def My_Price_Repo.FindActiveByProductID_def by (intro alike_intros refl)
qed

end
