(* ===== verification/Pg_Projection.thy ===== *)
theory Pg_Projection
  imports Pg_EventStore My_Projection
begin

text \<open>
  The read models of \<open>postgres/contract_projector.go\<close> and \<open>postgres/invoice_projector.go\<close> with the
  checkpoints of \<open>postgres/projection_checkpoint.go\<close>. Tables, payload access and parameters are those of
  \<open>My_Projection\<close> (the lock row in its database is MySQL's and is not used here). Unlike the MySQL adapter the
  event's data is written as it is: data that is missing is a \<open>NULL\<close>, which the column refuses, and text that is
  not JSON is refused when the statement is sent, whether or not it matches a row.
\<close>

section \<open>Checkpoints\<close>

definition ContractProjectorName :: string where "ContractProjectorName = ''contract''"
definition InvoiceProjectorName :: string where "InvoiceProjectorName = ''invoice''"

definition pg_checkpoints_table :: "(read_db, string \<times> int) table" where
  "pg_checkpoints_table = \<lparr>tb_name = ''projection_checkpoints'', tb_keys = [(''projection_checkpoints_pkey'', \<lambda>r. Some (fst r))],
     tb_get = t_checkpoints, tb_set = (\<lambda>rows d. d\<lparr>t_checkpoints := rows\<rparr>)\<rparr>"

definition checkpoint_Load :: "string \<Rightarrow> (read_db, int) pgsql" where
  "checkpoint_Load projectorName = tryA
     (pg_query_row (\<lambda>d. map_option snd (find (\<lambda>c. fst c = projectorName) (t_checkpoints d))))
     (\<lambda>e. if as_db e = Some ErrNoRows then ret 0 else throw e) ret"

definition checkpoint_Save :: "string \<Rightarrow> int \<Rightarrow> (read_db, unit) pgsql" where
  "checkpoint_Save projectorName position =
     bindA (pg_upsert_in pg_checkpoints_table fst (\<lambda>_. True) (\<lambda>new r. (fst r, snd new)) (\<lambda>_. Inr (projectorName, position)))
       (\<lambda>_. ret ())"

definition checkpoint_Reset :: "string \<Rightarrow> (read_db, unit) pgsql" where
  "checkpoint_Reset projectorName = pg_write (\<lambda>_ d. Inr ((),
     d\<lparr>t_checkpoints := filter (\<lambda>c. fst c \<noteq> projectorName) (t_checkpoints d)\<rparr>))"

section \<open>The contract projector\<close>

definition pg_contracts_table :: "(read_db, contract_rm) table" where
  "pg_contracts_table = \<lparr>tb_name = ''contract_read_models'', tb_keys = [(''contract_read_models_pkey'', \<lambda>r. Some (cm_id r))],
     tb_get = t_contract_rms, tb_set = (\<lambda>rows d. d\<lparr>t_contract_rms := rows\<rparr>)\<rparr>"

text \<open>The value of the \<open>data\<close> column.\<close>

definition pg_data_column :: "menv \<Rightarrow> string \<Rightarrow> db_error + string" where
  "pg_data_column env raw = (if raw = [] then Inl pgNotNullViolation else pg_json (json_column env raw))"

text \<open>\<open>UPDATE contract_read_models SET ..., data = $n, version = $m WHERE id = $k\<close>. A missing value is refused only
  for a row that is updated.\<close>

definition pg_update_contract :: "penv \<Rightarrow> event \<Rightarrow> (contract_rm \<Rightarrow> contract_rm) \<Rightarrow> (read_db, unit) pgsql" where
  "pg_update_contract pe e upd = pg_write (\<lambda>_ d.
     if ev_Data e = [] \<and> (\<forall>r \<in> set (t_contract_rms d). cm_id r \<noteq> ev_StreamID e) then Inr ((), d)
     else (case pg_data_column (pe_env pe) (ev_Data e) of
         Inl x \<Rightarrow> Inl x
       | Inr data \<Rightarrow> Inr ((), d\<lparr>t_contract_rms := map (\<lambda>r. if cm_id r = ev_StreamID e
            then (upd r)\<lparr>cm_data := data, cm_version := ev_Version e\<rparr> else r) (t_contract_rms d)\<rparr>)))"

text \<open>\<open>INSERT ... ON CONFLICT (id) DO UPDATE\<close> of a created contract: the end, renewal and trial dates of an existing
  row stay.\<close>

definition pg_insert_contract :: "penv \<Rightarrow> event \<Rightarrow> jobj \<Rightarrow> (read_db, unit) pgsql" where
  "pg_insert_contract pe e data =
     bindA (pg_upsert_in pg_contracts_table cm_id (\<lambda>_. True)
       (\<lambda>new r. r\<lparr>cm_account := cm_account new, cm_status := ''draft'', cm_start := cm_start new, cm_price := cm_price new,
          cm_data := cm_data new, cm_version := cm_version new\<rparr>)
       (\<lambda>_. map_sum id (\<lambda>raw.
          \<lparr>cm_id = ev_StreamID e, cm_account = string_at ''account_id'' data, cm_status = ''draft'',
           cm_start = map_option (me_time (pe_env pe)) (parseTime (string_at ''created_at'' data)),
           cm_end = None, cm_renewal = None, cm_trial_end = None, cm_price = string_at ''price_id'' data,
           cm_data = raw, cm_version = ev_Version e\<rparr>) (pg_data_column (pe_env pe) (ev_Data e))))
     (\<lambda>_. ret ())"

text \<open>The period's end replaces both dates unless it is absent.\<close>

definition pg_period_end :: "time option \<Rightarrow> contract_rm \<Rightarrow> contract_rm" where
  "pg_period_end t r = (case t of None \<Rightarrow> r | Some x \<Rightarrow> r\<lparr>cm_end := Some x, cm_renewal := Some x\<rparr>)"

definition contract_applyEvent :: "penv \<Rightarrow> event \<Rightarrow> (read_db, unit) pgsql" where
  "contract_applyEvent pe original =
     bindA (liftA (pe_upcast pe original)) (\<lambda>e.
     bindA (liftA (payload (pe_parse pe) (ev_Data e))) (\<lambda>data.
     let column = map_option (me_time (pe_env pe));
         upd = pg_update_contract pe e;
         status = (\<lambda>s r. r\<lparr>cm_status := s\<rparr>)
     in case pe_kind pe (ev_Type e) of
       ContractCreated \<Rightarrow> pg_insert_contract pe e data
     | ContractActivated \<Rightarrow> upd (\<lambda>r. status ''active'' (pg_period_end (column (time_at ''current_period'' ''end'' data)) r))
     | ContractSuspended \<Rightarrow> upd (status ''suspended'')
     | ContractResumed \<Rightarrow> upd (status ''active'')
     | ContractPastDue \<Rightarrow> upd (status ''past_due'')
     | ContractRecovered \<Rightarrow> upd (status ''active'')
     | ContractCancelled \<Rightarrow> upd (status ''cancelled'')
     | ContractExpired \<Rightarrow> upd (status ''expired'')
     | TrialStarted \<Rightarrow> upd (\<lambda>r. (status ''trialing'' r)\<lparr>cm_trial_end := column (time_at ''trial_config'' ''trial_end_date'' data)\<rparr>)
     | TrialEnded \<Rightarrow> (let converted = (key_value ''converted'' data = Some (JBool True)) in
         upd (\<lambda>r. (status (if converted then ''active'' else ''cancelled'') r)\<lparr>cm_trial_end := None\<rparr>))
     | ContractRenewed \<Rightarrow> upd (pg_period_end (column (time_at ''new_period'' ''end'' data)))
     | PriceChanged \<Rightarrow> (let newPriceID = string_at ''new_price_id'' data in
         upd (\<lambda>r. r\<lparr>cm_price := (if newPriceID = [] then cm_price r else newPriceID)\<rparr>))
     | _ \<Rightarrow> upd (\<lambda>r. r)))"

definition contract_Project :: "penv \<Rightarrow> event \<Rightarrow> (read_db, unit) pgsql" where
  "contract_Project pe e = (if pe_kind pe (ev_Type e) = NotContractEvent then ret ()
     else contract_applyEvent pe e)"

section \<open>Rebuild\<close>

text \<open>The scan of both projectors, with fuel for the number of batches as in \<open>My_Projection\<close>.\<close>

fun pg_scan_log :: "menv \<Rightarrow> (event \<Rightarrow> ('m log_db_scheme, unit) pgsql) \<Rightarrow> time \<Rightarrow> nat \<Rightarrow> int \<Rightarrow> int
    \<Rightarrow> ('m log_db_scheme, int option) pgsql" where
  "pg_scan_log env project until 0 fromPosition lastPosition = ret None"
| "pg_scan_log env project until (Suc fuel) fromPosition lastPosition =
     bindA (Pg_EventStore.LoadAll env fromPosition 1000) (\<lambda>events.
     if events = [] then ret (Some lastPosition)
     else bindA (scan_batch project until lastPosition events) (\<lambda>(lastPosition', broke).
       if broke then ret (Some lastPosition')
       else let newPos = ev_GlobalPosition (last events) in
         if newPos = fromPosition then throw (OtherError ''LoadAll did not advance'')
         else pg_scan_log env project until fuel newPos lastPosition'))"

definition pg_save_scanned :: "string \<Rightarrow> int option \<Rightarrow> (read_db, unit option) pgsql" where
  "pg_save_scanned projector r = (case r of
      None \<Rightarrow> ret None
    | Some lastPosition \<Rightarrow>
        bindA (if lastPosition > 0 then checkpoint_Save projector lastPosition else ret ()) (\<lambda>_. ret (Some ())))"

definition contract_rebuildInTx :: "nat \<Rightarrow> penv \<Rightarrow> time \<Rightarrow> (read_db, unit option) pgsql" where
  "contract_rebuildInTx fuel pe until =
     bindA (pg_write (\<lambda>_ d. Inr ((), d\<lparr>t_contract_rms := []\<rparr>))) (\<lambda>_.
     bindA (checkpoint_Reset ContractProjectorName) (\<lambda>_.
     bindA (pg_scan_log (pe_env pe) (contract_Project pe) until fuel 0 0) (pg_save_scanned ContractProjectorName)))"

definition contract_Rebuild :: "nat \<Rightarrow> penv \<Rightarrow> time \<Rightarrow> (read_db, unit option) pgsql" where
  "contract_Rebuild fuel pe until = bindA in_tx (\<lambda>ambient.
     if \<not> ambient then pg_own_tx (contract_rebuildInTx fuel pe until) else contract_rebuildInTx fuel pe until)"

section \<open>The invoice projector\<close>

definition pg_invoices_rm_table :: "(read_db, invoice_rm) table" where
  "pg_invoices_rm_table = \<lparr>tb_name = ''invoice_read_models'', tb_keys = [(''invoice_read_models_pkey'', \<lambda>r. Some (im_id r))],
     tb_get = t_invoice_rms, tb_set = (\<lambda>rows d. d\<lparr>t_invoice_rms := rows\<rparr>)\<rparr>"

text \<open>\<open>parseMoneyPayload\<close> of \<open>postgres/money.go\<close>.\<close>

definition parseMoneyPayload :: "ienv \<Rightarrow> json \<Rightarrow> (int64 \<times> string) option" where
  "parseMoneyPayload ie v =
     (let parse = (\<lambda>amountStr cur. map_option (\<lambda>r. (word_of_int \<lfloor>r\<rfloor>, cur)) (ie_rat ie amountStr))
      in case v of
        JObj t \<Rightarrow> parse (string_at ''amount'' t) (string_at ''currency'' t)
      | JStr s \<Rightarrow> parse s []
      | JInt _ \<Rightarrow> Some (ie_float ie v, [])
      | JFrac _ \<Rightarrow> Some (ie_float ie v, [])
      | _ \<Rightarrow> None)"

definition pg_update_invoice_rm :: "ienv \<Rightarrow> event \<Rightarrow> (invoice_rm \<Rightarrow> invoice_rm) \<Rightarrow> (read_db, unit) pgsql" where
  "pg_update_invoice_rm ie e upd = pg_write (\<lambda>_ d.
     if ev_Data e = [] \<and> (\<forall>r \<in> set (t_invoice_rms d). im_id r \<noteq> ev_StreamID e) then Inr ((), d)
     else (case pg_data_column (ie_env ie) (ev_Data e) of
         Inl x \<Rightarrow> Inl x
       | Inr data \<Rightarrow> Inr ((), d\<lparr>t_invoice_rms := map (\<lambda>r. if im_id r = ev_StreamID e
            then (upd r)\<lparr>im_data := data, im_version := ev_Version e\<rparr> else r) (t_invoice_rms d)\<rparr>)))"

definition pg_insert_invoice_rm :: "ienv \<Rightarrow> event \<Rightarrow> jobj \<Rightarrow> (read_db, unit) pgsql" where
  "pg_insert_invoice_rm ie e data =
     (let status = (case as_str (key_value ''status'' data) of Some s \<Rightarrow> if s \<noteq> [] then s else ''draft'' | None \<Rightarrow> ''draft'');
          currency = (case as_str (key_value ''currency'' data) of Some c \<Rightarrow> if c \<noteq> [] then c else ''JPY'' | None \<Rightarrow> ''JPY'');
          money = (case key_value ''total'' data of
              None \<Rightarrow> (0, currency)
            | Some v \<Rightarrow> (case parseMoneyPayload ie v of
                None \<Rightarrow> (0, currency)
              | Some (amt, cur) \<Rightarrow> (amt, if cur \<noteq> [] then cur else currency)))
      in bindA (pg_upsert_in pg_invoices_rm_table im_id (\<lambda>_. True)
           (\<lambda>new r. r\<lparr>im_status := im_status new, im_total := im_total new, im_currency := im_currency new,
              im_data := im_data new, im_version := im_version new\<rparr>)
           (\<lambda>_. map_sum id (\<lambda>raw.
              \<lparr>im_id = ev_StreamID e, im_contract = string_at ''contract_id'' data, im_account = string_at ''account_id'' data,
               im_status = status, im_total = fst money, im_currency = snd money, im_data = raw, im_version = ev_Version e\<rparr>)
             (pg_data_column (ie_env ie) (ev_Data e))))
         (\<lambda>_. ret ()))"

definition invoice_applyEvent :: "ienv \<Rightarrow> event \<Rightarrow> (read_db, unit) pgsql" where
  "invoice_applyEvent ie e = bindA (liftA (payload (ie_parse ie) (ev_Data e))) (\<lambda>data.
     let eventType = ev_Type e in
     if has_suffix eventType ''.created'' \<or> has_suffix eventType ''.issued'' then pg_insert_invoice_rm ie e data
     else if has_suffix eventType ''.paid'' then pg_update_invoice_rm ie e (\<lambda>r. r\<lparr>im_status := ''paid''\<rparr>)
     else if has_suffix eventType ''.voided'' \<or> has_suffix eventType ''.cancelled''
     then pg_update_invoice_rm ie e (\<lambda>r. r\<lparr>im_status := ''voided''\<rparr>)
     else pg_update_invoice_rm ie e (\<lambda>r. r))"

definition invoice_Project :: "ienv \<Rightarrow> event \<Rightarrow> (read_db, unit) pgsql" where
  "invoice_Project ie e = (if has_prefix (ev_Type e) ''invoice.'' then invoice_applyEvent ie e else ret ())"

definition invoice_rebuildInTx :: "nat \<Rightarrow> ienv \<Rightarrow> time \<Rightarrow> (read_db, unit option) pgsql" where
  "invoice_rebuildInTx fuel ie until =
     bindA (pg_write (\<lambda>_ d. Inr ((), d\<lparr>t_invoice_rms := []\<rparr>))) (\<lambda>_.
     bindA (checkpoint_Reset InvoiceProjectorName) (\<lambda>_.
     bindA (pg_scan_log (ie_env ie) (invoice_Project ie) until fuel 0 0) (pg_save_scanned InvoiceProjectorName)))"

definition invoice_Rebuild :: "nat \<Rightarrow> ienv \<Rightarrow> time \<Rightarrow> (read_db, unit option) pgsql" where
  "invoice_Rebuild fuel ie until = bindA in_tx (\<lambda>ambient.
     if \<not> ambient then pg_own_tx (invoice_rebuildInTx fuel ie until) else invoice_rebuildInTx fuel ie until)"

end
