(* ===== verification/Pg_Alike_Tx.thy ===== *)
theory Pg_Alike_Tx
  imports Pg_Alike
begin

text \<open>
  The simulation of \<open>Pg_Alike\<close> inside a transaction. There a failed statement aborts the PostgreSQL transaction but
  not the MySQL one, so after a failure only what a rollback restores is compared; an operation that goes on after a
  failure has no rule here. A whole operation in its own transaction is then alike in the sense of \<open>Pg_Alike\<close>.
\<close>

named_theorems alike_tx_intros \<open>composition rules inside a transaction\<close>

definition framed :: "'d world \<Rightarrow> 'd world \<Rightarrow> bool" where
  "framed w w' \<longleftrightarrow> calm w' \<and> saved w' = saved w \<and> snow w' = snow w \<and> clk w' = clk w"

definition tx_step :: "('d \<Rightarrow> bool) \<Rightarrow> 'd pg_db world \<Rightarrow> 'd world \<Rightarrow> bool" where
  "tx_step I v w \<longleftrightarrow> calm v \<and> calm w \<and> \<not> aborted_tx v \<and> saved v \<noteq> None \<and> saved w \<noteq> None \<and> pg_data (db v) = db w \<and>
     pg_now v = snow w \<and> clk v = clk w \<and> I (db w)"

definition alike_tx :: "('d \<Rightarrow> bool) \<Rightarrow> ('d, 'a) pgsql \<Rightarrow> ('d, 'a) sql \<Rightarrow> bool" where
  "alike_tx I m m' \<longleftrightarrow> (\<forall>v w. tx_step I v w \<longrightarrow> same_result (fst (m v)) (fst (m' w)) \<and>
     framed v (snd (m v)) \<and> framed w (snd (m' w)) \<and> (\<not> isl (fst (m v)) \<longrightarrow> tx_step I (snd (m v)) (snd (m' w))))"

lemma alike_txI:
  assumes "\<And>v w. tx_step I v w \<Longrightarrow> same_result (fst (m v)) (fst (m' w)) \<and> framed v (snd (m v)) \<and> framed w (snd (m' w)) \<and>
     (\<not> isl (fst (m v)) \<longrightarrow> tx_step I (snd (m v)) (snd (m' w)))"
  shows "alike_tx I m m'"
  using assms by (simp add: alike_tx_def)

lemma tx_stepD:
  assumes "tx_step I v w"
  shows "calm v" "calm w" "\<not> aborted_tx v" "saved v \<noteq> None" "saved w \<noteq> None" "pg_data (db v) = db w"
    "pg_now v = snow w" "clk v = clk w" "I (db w)"
  using assms by (simp_all add: tx_step_def)

lemma framed_refl: "calm w \<Longrightarrow> framed w w"
  by (simp add: framed_def)

lemma framed_trans: "framed w w1 \<Longrightarrow> framed w1 w2 \<Longrightarrow> framed w w2"
  by (simp add: framed_def)

lemma same_result_isl: "same_result r r' \<Longrightarrow> isl r' = isl r"
  by (auto simp: same_result_def)

lemma same_result_Inr: "same_result r r' \<Longrightarrow> r = Inr a \<Longrightarrow> r' = Inr a"
  by (auto simp: same_result_def)

lemma same_result_Inl: "same_result (Inl e :: repo_error + 'a) (Inl e') \<Longrightarrow> same_result (Inl e :: repo_error + 'b) (Inl e')"
  by (auto simp: same_result_def)

lemma alike_tx_pure [alike_tx_intros]: "alike_tx I (ret a) (ret a)" "alike_tx I (throw e) (throw e)" "alike_tx I (liftA x) (liftA x)"
  by (rule alike_txI; auto simp: same_result_def ret_def throw_def liftA_def framed_def dest: tx_stepD)+

lemma alike_tx_bindA [alike_tx_intros]:
  assumes "alike_tx I m m'" and "\<And>a. alike_tx I (f a) (f' a)"
  shows "alike_tx I (bindA m f) (bindA m' f')"
proof (rule alike_txI)
  fix v w assume s: "tx_step I v w"
  obtain r v1 r' w1 where run: "m v = (r, v1)" "m' w = (r', w1)" by (meson surj_pair)
  with assms(1) s have 1: "same_result r r'" "framed v v1" "framed w w1" "\<not> isl r \<Longrightarrow> tx_step I v1 w1"
    by (force simp: alike_tx_def)+
  show "same_result (fst (bindA m f v)) (fst (bindA m' f' w)) \<and> framed v (snd (bindA m f v)) \<and> framed w (snd (bindA m' f' w)) \<and>
     (\<not> isl (fst (bindA m f v)) \<longrightarrow> tx_step I (snd (bindA m f v)) (snd (bindA m' f' w)))"
  proof (cases r)
    case (Inl e)
    then obtain e' where r': "r' = Inl e'" using same_result_isl [OF 1(1)] by (cases r') auto
    with Inl 1 same_result_Inl [of e e'] show ?thesis
      by (simp add: bindA_run [of m v, OF run(1)] bindA_run [of m' w, OF run(2)])
  next
    case (Inr a)
    with 1 have r': "r' = Inr a" and t: "tx_step I v1 w1" by (auto dest: same_result_Inr)
    from assms(2) t have 2: "same_result (fst (f a v1)) (fst (f' a w1))" "framed v1 (snd (f a v1))" "framed w1 (snd (f' a w1))"
      "\<not> isl (fst (f a v1)) \<Longrightarrow> tx_step I (snd (f a v1)) (snd (f' a w1))" by (simp_all add: alike_tx_def)
    with Inr r' framed_trans [OF 1(2) 2(2)] framed_trans [OF 1(3) 2(3)] show ?thesis
      by (auto simp: bindA_run [of m v, OF run(1)] bindA_run [of m' w, OF run(2)])
  qed
qed

lemma alike_tx_if [alike_tx_intros]:
  "(b \<Longrightarrow> alike_tx I m m') \<Longrightarrow> (\<not> b \<Longrightarrow> alike_tx I n n') \<Longrightarrow> alike_tx I (if b then m else n) (if b then m' else n')"
  by simp

lemma alike_tx_option [alike_tx_intros]:
  "(x = None \<Longrightarrow> alike_tx I m m') \<Longrightarrow> (\<And>y. x = Some y \<Longrightarrow> alike_tx I (f y) (f' y)) \<Longrightarrow>
     alike_tx I (case x of None \<Rightarrow> m | Some y \<Rightarrow> f y) (case x of None \<Rightarrow> m' | Some y \<Rightarrow> f' y)"
  by (simp split: option.split)

lemma alike_tx_prod [alike_tx_intros]:
  "(\<And>x y. p = (x, y) \<Longrightarrow> alike_tx I (f x y) (f' x y)) \<Longrightarrow> alike_tx I (case p of (x, y) \<Rightarrow> f x y) (case p of (x, y) \<Rightarrow> f' x y)"
  by (simp split: prod.split)

lemma alike_tx_mapA [alike_tx_intros]: "(\<And>x. alike_tx I (f x) (f' x)) \<Longrightarrow> alike_tx I (mapA f xs) (mapA f' xs)"
  by (induction xs) (auto intro!: alike_tx_intros)

lemma alike_tx_query [alike_tx_intros]: "(\<And>d. I d \<Longrightarrow> f d = g d) \<Longrightarrow> alike_tx I (pg_query f) (query g)"
  by (rule alike_txI) (simp add: pg_query_run query_run tx_stepD same_result_def framed_def)

lemma alike_tx_write:
  assumes "\<And>d now. I d \<Longrightarrow> same_write (f now d) (case g now d of (Inl e, _) \<Rightarrow> Inl e | (Inr a, d') \<Rightarrow> Inr (a, d'))"
    and "\<And>d now a d'. I d \<Longrightarrow> f now d = Inr (a, d') \<Longrightarrow> I d'"
  shows "alike_tx I (pg_write f) (with_now (\<lambda>now. exec_stmt (g now)))"
proof (rule alike_txI)
  fix v w assume s: "tx_step I v w"
  note d = tx_stepD [OF s]
  obtain r d' where g: "g (snow w) (db w) = (r, d')" by fastforce
  from assms(1) [OF d(9), of "snow w"] g have "same_write (f (snow w) (db w)) (case r of Inl e \<Rightarrow> Inl e | Inr a \<Rightarrow> Inr (a, d'))"
    by simp
  moreover have run: "with_now (\<lambda>now. exec_stmt (g now)) w = (map_sum DbError id r, w\<lparr>db := d'\<rparr>)"
    using g d by (cases r) (simp_all add: with_now_def exec_stmt_run)
  ultimately consider (ok) a where "r = Inr a" "f (snow w) (db w) = Inr (a, d')"
    | (refused) c k n m where "r = Inl (MySQLError n m)" "f (snow w) (db w) = Inl (PgError c k)"
    by (cases r) (auto simp: same_write_def)
  then show "same_result (fst (pg_write f v)) (fst (with_now (\<lambda>now. exec_stmt (g now)) w)) \<and>
      framed v (snd (pg_write f v)) \<and> framed w (snd (with_now (\<lambda>now. exec_stmt (g now)) w)) \<and>
      (\<not> isl (fst (pg_write f v)) \<longrightarrow> tx_step I (snd (pg_write f v)) (snd (with_now (\<lambda>now. exec_stmt (g now)) w)))"
  proof cases
    case ok
    with d run assms(2) [OF d(9) ok(2)] show ?thesis
      by (auto simp: pg_write_run same_result_def framed_def tx_step_def aborted_tx_def pg_now_def split: option.splits)
  next
    case refused
    with d run show ?thesis by (simp add: pg_write_run same_result_def framed_def)
  qed
qed

lemma alike_tx_own:
  assumes "alike_tx I body body'"
  shows "alike I (pg_own_tx body) (in_own_tx body')"
proof (rule alikeI)
  fix v w assume s: "in_step I v w"
  note d = in_stepD [OF s]
  let ?v1 = "v\<lparr>saved := Some (db v), db := (db v)\<lparr>pg_start := snow v, pg_aborted := False\<rparr>\<rparr>" and ?w1 = "w\<lparr>saved := Some (db w)\<rparr>"
  have b: "pg_begin v = (Inr (), ?v1)" "begin_tx w = (Inr (), ?w1)" using d by (simp_all add: pg_begin_def begin_tx_run)
  have t: "tx_step I ?v1 ?w1" using d by (simp add: tx_step_def aborted_tx_def pg_now_def)
  obtain r v2 r' w2 where run: "body ?v1 = (r, v2)" "body' ?w1 = (r', w2)" by (meson surj_pair)
  from assms [unfolded alike_tx_def, rule_format, OF t] run
  have 2: "same_result r r'" "framed ?v1 v2" "framed ?w1 w2" "\<not> isl r \<Longrightarrow> tx_step I v2 w2" by simp_all
  show "same_result (fst (pg_own_tx body v)) (fst (in_own_tx body' w)) \<and> in_step I (snd (pg_own_tx body v)) (snd (in_own_tx body' w))"
  proof (cases r)
    case (Inl e)
    then obtain e' where r': "r' = Inl e'" using same_result_isl [OF 2(1)] by (cases r') auto
    have c: "calm v2" "calm w2" using 2 by (simp_all add: framed_def)
    have "pg_own_tx body v = (Inl e, restore v2)"
      by (simp add: pg_own_tx_def bindA_run [of pg_begin v, OF b(1)] tryA_run [of body ?v1, OF run(1)] Inl
          tryA_run [of rollback v2, OF rollback_run [OF c(1)]] throw_def)
    moreover have "in_own_tx body' w = (Inl e', restore w2)"
      by (simp add: in_own_tx_def bindA_run [of begin_tx w, OF b(2)] tryA_run [of body' ?w1, OF run(2)] r'
          tryA_run [of rollback w2, OF rollback_run [OF c(2)]] throw_def)
    ultimately show ?thesis using 2 Inl r' d same_result_Inl [of e e']
      by (auto simp: in_step_def framed_def quiet_def restore_def)
  next
    case (Inr a)
    with 2 have r': "r' = Inr a" and t2: "tx_step I v2 w2" by (auto dest: same_result_Inr)
    note d2 = tx_stepD [OF t2]
    have "pg_commit v2 = (Inr (), v2\<lparr>saved := None\<rparr>)" "commit w2 = (Inr (), w2\<lparr>saved := None\<rparr>)"
      using d2 by (simp_all add: pg_commit_def commit_run)
    note cm = this
    have "pg_own_tx body v = (Inr a, v2\<lparr>saved := None\<rparr>)"
      by (simp add: pg_own_tx_def bindA_run [of pg_begin v, OF b(1)] tryA_run [of body ?v1, OF run(1)] Inr
          bindA_run [of pg_commit v2, OF cm(1)] ret_def)
    moreover have "in_own_tx body' w = (Inr a, w2\<lparr>saved := None\<rparr>)"
      by (simp add: in_own_tx_def bindA_run [of begin_tx w, OF b(2)] tryA_run [of body' ?w1, OF run(2)] r'
          bindA_run [of commit w2, OF cm(2)] ret_def)
    ultimately show ?thesis using 2 d d2 by (simp add: in_step_def framed_def quiet_def same_result_def)
  qed
qed

section \<open>Upserts\<close>

lemma pg_write_unit: "bindA (pg_write f) (\<lambda>_. ret ()) = pg_write (\<lambda>now d. map_sum id (\<lambda>(a, d'). ((), d')) (f now d))"
proof
  fix w
  show "bindA (pg_write f) (\<lambda>_. ret ()) w = pg_write (\<lambda>now d. map_sum id (\<lambda>(a, d'). ((), d')) (f now d)) w"
    by (cases "f (pg_now w) (pg_data (db w))")
      (auto simp: bindA_def tryA_def throw_def ret_def pg_write_def pg_stmt_def pg_wrap_def exec_stmt_def stmt_def
        split: fault.split prod.split)
qed

lemma alike_tx_upsert:
  assumes t: "lens t" "tb_keys t = [(n, \<lambda>r. Some (kf r))]" and mk: "\<And>now. same_write (mk now) mk'"
    and ff: "\<And>new r. kf r = kf new \<Longrightarrow> kf (ff new r) = kf new"
    and g: "\<And>d. g d = (case mk' of Inl e \<Rightarrow> (Inl e, d) | Inr new \<Rightarrow> (Inr (), tb_set t (upsert_row kf new (ff new) (tb_get t d)) d))"
    and I: "\<And>d. I d \<Longrightarrow> keyed t kf d" "\<And>d rows. I d \<Longrightarrow> distinct (map kf rows) \<Longrightarrow> I (tb_set t rows d)"
  shows "alike_tx I (bindA (pg_upsert_in t kf (\<lambda>_. True) ff mk) (\<lambda>_. ret ())) (exec_stmt g)" (is ?A)
    and "alike I (bindA (pg_upsert_in t kf (\<lambda>_. True) ff mk) (\<lambda>_. ret ())) (exec_stmt g)" (is ?B)
proof -
  let ?f = "\<lambda>now d. map_sum id (\<lambda>(a, d'). ((), d')) (case mk now of Inl e \<Rightarrow> Inl e
    | Inr r \<Rightarrow> pg_into t d (pg_upsert_row (tb_keys t) kf r (\<lambda>_. True) (ff r) (tb_get t d)))"
  have e: "with_now (\<lambda>now. exec_stmt g) = exec_stmt g" by (intro ext) (simp add: with_now_def)
  have up: "pg_upsert_row (tb_keys t) kf new (\<lambda>_. True) (ff new) (tb_get t d) = Inr (1, upsert_row kf new (ff new) (tb_get t d)) \<and>
      distinct (map kf (upsert_row kf new (ff new) (tb_get t d)))" if "I d" for d new
    using pg_upsert_is_upsert [of kf "tb_get t d" new "ff new" n] I(1) [OF that] ff t(2) by (simp add: keyed_def)
  have 1: "same_write (?f now d) (case g d of (Inl e, _) \<Rightarrow> Inl e | (Inr a, d') \<Rightarrow> Inr (a, d'))" if "I d" for d now
    using mk [of now] up [OF that] by (auto simp: same_write_def g)
  have 2: "I d'" if "I d" "?f now d = Inr (a, d')" for d now a d'
    using that up [OF that(1)] I(2) [OF that(1)] by (auto split: sum.splits)
  from alike_tx_write [of I ?f "\<lambda>_. g", OF 1 2] show ?A unfolding e pg_upsert_in_def pg_write_unit .
  have "d' = d" if "g d = (Inl x, d')" for d x d' using that by (auto simp: g split: sum.splits)
  from alike_write [of I ?f "\<lambda>_. g", OF 1 2 this] show ?B unfolding e pg_upsert_in_def pg_write_unit .
qed

end
