(* ===== verification/Pg_Projection_Props.thy ===== *)
theory Pg_Projection_Props
  imports Pg_Projection Pg_Alike_Tx My_Projection_Props
begin

text \<open>
  The projectors of the two adapters answer alike, event by event and for whole rebuilds, on logs whose data are JSON
  texts. So what is shown for the read models of MySQL holds for those of PostgreSQL in worlds without faults.
\<close>

section \<open>Outside and inside a transaction at once\<close>

named_theorems both_intros \<open>composition rules for both settings\<close>

definition alike_both :: "('d \<Rightarrow> bool) \<Rightarrow> ('d, 'a) pgsql \<Rightarrow> ('d, 'a) sql \<Rightarrow> bool" where
  "alike_both I m m' \<longleftrightarrow> alike I m m' \<and> alike_tx I m m'"

lemma both_pure [both_intros]: "alike_both I (ret a) (ret a)" "alike_both I (throw e) (throw e)" "alike_both I (liftA x) (liftA x)"
  by (simp_all add: alike_both_def alike_pure alike_tx_pure)

lemma both_bindA [both_intros]:
  "alike_both I m m' \<Longrightarrow> (\<And>a. alike_both I (f a) (f' a)) \<Longrightarrow> alike_both I (bindA m f) (bindA m' f')"
  by (simp add: alike_both_def alike_bindA alike_tx_bindA)

lemma both_if [both_intros]:
  "(b \<Longrightarrow> alike_both I m m') \<Longrightarrow> (\<not> b \<Longrightarrow> alike_both I n n') \<Longrightarrow> alike_both I (if b then m else n) (if b then m' else n')"
  by simp

lemma both_option [both_intros]:
  "(x = None \<Longrightarrow> alike_both I m m') \<Longrightarrow> (\<And>y. x = Some y \<Longrightarrow> alike_both I (f y) (f' y)) \<Longrightarrow>
     alike_both I (case x of None \<Rightarrow> m | Some y \<Rightarrow> f y) (case x of None \<Rightarrow> m' | Some y \<Rightarrow> f' y)"
  by (simp split: option.split)

lemma both_prod [both_intros]:
  "(\<And>x y. p = (x, y) \<Longrightarrow> alike_both I (f x y) (f' x y)) \<Longrightarrow> alike_both I (case p of (x, y) \<Rightarrow> f x y) (case p of (x, y) \<Rightarrow> f' x y)"
  by (simp split: prod.split)

lemma both_mapA [both_intros]: "(\<And>x. alike_both I (f x) (f' x)) \<Longrightarrow> alike_both I (mapA f xs) (mapA f' xs)"
  by (simp add: alike_both_def alike_mapA alike_tx_mapA)

lemma both_query [both_intros]: "(\<And>d. I d \<Longrightarrow> f d = g d) \<Longrightarrow> alike_both I (pg_query f) (query g)"
  by (simp add: alike_both_def alike_query alike_tx_query)

text \<open>What is known of a value read goes into the rest.\<close>

lemma both_bindA_post:
  assumes "alike_both I m m'" and Q: "\<And>v a v'. I (pg_data (db v)) \<Longrightarrow> m v = (Inr a, v') \<Longrightarrow> Q a"
    and f: "\<And>a. Q a \<Longrightarrow> alike_both I (f a) (f' a)"
  shows "alike_both I (bindA m f) (bindA m' f')"
proof -
  let ?g = "\<lambda>a. if Q a then f a else throw (OtherError [])" and ?g' = "\<lambda>a. if Q a then f' a else throw (OtherError [])"
  have g: "alike_both I (bindA m ?g) (bindA m' ?g')"
    using assms(1) f by (intro both_intros) auto
  have eq: "bindA m ?g v = bindA m f v" if "I (pg_data (db v))" for v
    using Q [OF that] by (auto simp: bindA_def tryA_def split: prod.split sum.split)
  have eq': "bindA m' ?g' w = bindA m' f' w" if "I (db w)" "same_result (fst (m v)) (fst (m' w))" "pg_data (db v) = db w" for v w
  proof (cases "m' w")
    case (Pair r' w')
    show ?thesis
    proof (cases r')
      case (Inr a)
      with that(2) Pair have "m v = (Inr a, snd (m v))" by (cases "m v") (auto simp: same_result_def)
      with Q [of v a "snd (m v)"] that(1,3) have "Q a" by simp
      with Pair Inr show ?thesis by (simp add: bindA_def tryA_def)
    qed (simp add: Pair bindA_def tryA_def)
  qed
  have a: "alike I (bindA m ?g) (bindA m' ?g')" "alike_tx I (bindA m ?g) (bindA m' ?g')" using g unfolding alike_both_def by blast+
  show ?thesis unfolding alike_both_def
  proof
    show "alike I (bindA m f) (bindA m' f')"
    proof (rule alikeI)
      fix v w assume s: "in_step I v w"
      note d = in_stepD [OF s]
      have 1: "bindA m ?g v = bindA m f v" by (rule eq) (simp add: d)
      have 2: "bindA m' ?g' w = bindA m' f' w"
        by (rule eq' [of w v]) (use assms(1) s d in \<open>simp_all add: alike_both_def alike_def\<close>)
      from a(1) s show "same_result (fst (bindA m f v)) (fst (bindA m' f' w)) \<and> in_step I (snd (bindA m f v)) (snd (bindA m' f' w))"
        unfolding alike_def 1 [symmetric] 2 [symmetric] by blast
    qed
    show "alike_tx I (bindA m f) (bindA m' f')"
    proof (rule alike_txI)
      fix v w assume s: "tx_step I v w"
      note d = tx_stepD [OF s]
      have 1: "bindA m ?g v = bindA m f v" by (rule eq) (simp add: d)
      have 2: "bindA m' ?g' w = bindA m' f' w"
        by (rule eq' [of w v]) (use assms(1) s d in \<open>simp_all add: alike_both_def alike_tx_def\<close>)
      from a(2) s show "same_result (fst (bindA m f v)) (fst (bindA m' f' w)) \<and> framed v (snd (bindA m f v)) \<and>
          framed w (snd (bindA m' f' w)) \<and> (\<not> isl (fst (bindA m f v)) \<longrightarrow> tx_step I (snd (bindA m f v)) (snd (bindA m' f' w)))"
        unfolding alike_tx_def 1 [symmetric] 2 [symmetric] by blast
    qed
  qed
qed

lemma both_write:
  assumes "\<And>d now. I d \<Longrightarrow> f now d = Inr ((), h d)" and "\<And>d. I d \<Longrightarrow> g d = (Inr (), h d)" and "\<And>d. I d \<Longrightarrow> I (h d)"
  shows "alike_both I (pg_write f) (exec_stmt g)"
proof -
  have e: "with_now (\<lambda>now. exec_stmt g) = exec_stmt g" by (intro ext) (simp add: with_now_def)
  have 1: "same_write (f now d) (case g d of (Inl e, _) \<Rightarrow> Inl e | (Inr a, d') \<Rightarrow> Inr (a, d'))" if "I d" for d now
    using assms that by simp
  have 2: "I d'" if "I d" "f now d = Inr (a, d')" for d now a d' using assms(1) [OF that(1), of now] assms(3) [OF that(1)] that(2) by auto
  have 3: "d' = d" if "I d" "g d = (Inl x, d')" for d x d' using assms(2) [OF that(1)] that(2) by simp
  have "alike_tx I (pg_write f) (with_now (\<lambda>now. exec_stmt g))" by (rule alike_tx_write [OF 1 2])
  moreover have "alike I (pg_write f) (with_now (\<lambda>now. exec_stmt g))" by (rule alike_write [OF 1 2 3])
  ultimately show ?thesis unfolding e alike_both_def by blast
qed

lemma both_upsert:
  assumes "lens t" "tb_keys t = [(n, \<lambda>r. Some (kf r))]" and "\<And>now. same_write (mk now) mk'"
    and "\<And>new r. kf r = kf new \<Longrightarrow> kf (ff new r) = kf new"
    and "\<And>d. g d = (case mk' of Inl e \<Rightarrow> (Inl e, d) | Inr new \<Rightarrow> (Inr (), tb_set t (upsert_row kf new (ff new) (tb_get t d)) d))"
    and "\<And>d. I d \<Longrightarrow> keyed t kf d" "\<And>d rows. I d \<Longrightarrow> distinct (map kf rows) \<Longrightarrow> I (tb_set t rows d)"
  shows "alike_both I (bindA (pg_upsert_in t kf (\<lambda>_. True) ff mk) (\<lambda>_. ret ())) (exec_stmt g)"
  unfolding alike_both_def
  using alike_tx_upsert [where t = t and n = n and kf = kf and mk = mk and mk' = mk' and ff = ff and g = g and I = I, OF assms] by blast

section \<open>Logs and read models\<close>

definition valid_data :: "menv \<Rightarrow> string \<Rightarrow> bool" where
  "valid_data env t \<longleftrightarrow> t \<noteq> [] \<and> me_json env t \<noteq> None"

definition read_ok :: "menv \<Rightarrow> read_db \<Rightarrow> bool" where
  "read_ok env d \<longleftrightarrow> distinct (map cm_id (t_contract_rms d)) \<and> distinct (map im_id (t_invoice_rms d)) \<and>
     distinct (map fst (t_checkpoints d)) \<and> (\<forall>r \<in> set (t_events d). valid_data env (er_data r))"

definition upcast_ok :: "penv \<Rightarrow> bool" where
  "upcast_ok pe \<longleftrightarrow> (\<forall>e e'. valid_data (pe_env pe) (ev_Data e) \<longrightarrow> pe_upcast pe e = Inr e' \<longrightarrow> valid_data (pe_env pe) (ev_Data e'))"

lemma read_ok_sets [simp]:
  "read_ok env d \<Longrightarrow> distinct (map cm_id rows) \<Longrightarrow> read_ok env (d\<lparr>t_contract_rms := rows\<rparr>)"
  "read_ok env d \<Longrightarrow> distinct (map im_id irows) \<Longrightarrow> read_ok env (d\<lparr>t_invoice_rms := irows\<rparr>)"
  "read_ok env d \<Longrightarrow> distinct (map fst crows) \<Longrightarrow> read_ok env (d\<lparr>t_checkpoints := crows\<rparr>)"
  by (simp_all add: read_ok_def)

lemma pg_read_tables [simp]: "lens pg_checkpoints_table" "lens pg_contracts_table" "lens pg_invoices_rm_table"
  "tb_keys pg_checkpoints_table = [(''projection_checkpoints_pkey'', \<lambda>r. Some (fst r))]"
  "tb_keys pg_contracts_table = [(''contract_read_models_pkey'', \<lambda>r. Some (cm_id r))]"
  "tb_keys pg_invoices_rm_table = [(''invoice_read_models_pkey'', \<lambda>r. Some (im_id r))]"
  "tb_get pg_checkpoints_table = t_checkpoints" "tb_get pg_contracts_table = t_contract_rms" "tb_get pg_invoices_rm_table = t_invoice_rms"
  "tb_set pg_checkpoints_table crows d = d\<lparr>t_checkpoints := crows\<rparr>" "tb_set pg_contracts_table rows d = d\<lparr>t_contract_rms := rows\<rparr>"
  "tb_set pg_invoices_rm_table irows d = d\<lparr>t_invoice_rms := irows\<rparr>"
  by (simp_all add: lens_def pg_checkpoints_table_def pg_contracts_table_def pg_invoices_rm_table_def)

lemma data_columns:
  assumes "valid_data env t"
  obtains raw where "pg_data_column env t = Inr raw" "json_column env (normalizeJSON t) = Inr raw"
  using assms by (auto simp: valid_data_def pg_data_column_def normalizeJSON_def json_column_def)

section \<open>Checkpoints\<close>

lemma both_checkpoint_Save [both_intros]:
  "alike_both (read_ok env) (checkpoint_Save name p) (My_Projection.checkpoint_Save name p)"
  unfolding checkpoint_Save_def My_Projection.checkpoint_Save_def
proof (rule both_upsert [where mk' = "Inr (name, p)"])
  fix d :: read_db
  have "upsert_row fst (name, p) (\<lambda>_. (name, p)) rows = upsert_row fst (name, p) (\<lambda>r. (fst r, p)) rows" for rows
    unfolding upsert_row_def by auto
  then show "(Inr (), d\<lparr>t_checkpoints := upsert_row fst (name, p) (\<lambda>_. (name, p)) (t_checkpoints d)\<rparr>) =
    (case Inr (name, p) of Inl e \<Rightarrow> (Inl e, d)
     | Inr new \<Rightarrow> (Inr (), tb_set pg_checkpoints_table (upsert_row fst new (\<lambda>r. (fst r, snd new)) (tb_get pg_checkpoints_table d)) d))"
    by simp
qed (simp_all add: keyed_def read_ok_def)

lemma both_checkpoint_Reset [both_intros]:
  "alike_both (read_ok env) (checkpoint_Reset name) (My_Projection.checkpoint_Reset name)"
  unfolding checkpoint_Reset_def My_Projection.checkpoint_Reset_def
  by (rule both_write [where h = "\<lambda>d. d\<lparr>t_checkpoints := filter (\<lambda>c. fst c \<noteq> name) (t_checkpoints d)\<rparr>"])
    (auto simp: read_ok_def distinct_map_filter)

section \<open>Events\<close>

lemma both_update_contract:
  assumes "valid_data (pe_env pe) (ev_Data e)" and "\<And>r. upd r = upd' r" and "\<And>r. cm_id (upd r) = cm_id r"
  shows "alike_both (read_ok (pe_env pe)) (pg_update_contract pe e upd) (update_contract pe e upd')"
proof -
  obtain raw where raw: "pg_data_column (pe_env pe) (ev_Data e) = Inr raw" "json_column (pe_env pe) (normalizeJSON (ev_Data e)) = Inr raw"
    using data_columns [OF assms(1)] by blast
  let ?m = "map (\<lambda>r. if cm_id r = ev_StreamID e then (upd r)\<lparr>cm_data := raw, cm_version := ev_Version e\<rparr> else r)"
  have u: "upd' = upd" using assms(2) by auto
  have none: "?m rows = rows" if "\<forall>r \<in> set rows. cm_id r \<noteq> ev_StreamID e" for rows
    using that by (intro map_idI) auto
  have ids: "map cm_id (?m rows) = map cm_id rows" for rows using assms(3) by simp
  show ?thesis unfolding pg_update_contract_def update_contract_def u raw sum.case
  proof (rule both_write [where h = "\<lambda>d. d\<lparr>t_contract_rms := ?m (t_contract_rms d)\<rparr>"])
    fix d assume "read_ok (pe_env pe) d"
    then show "read_ok (pe_env pe) (d\<lparr>t_contract_rms := ?m (t_contract_rms d)\<rparr>)" 
      by (intro read_ok_sets) (simp_all only: ids, simp add: read_ok_def)
  qed (use assms(1) none in \<open>auto simp: valid_data_def\<close>)
qed

lemma both_update_invoice:
  assumes "valid_data (ie_env ie) (ev_Data e)" and "\<And>r. im_id (upd r) = im_id r"
  shows "alike_both (read_ok (ie_env ie)) (pg_update_invoice_rm ie e upd) (update_invoice_rm ie e upd)"
proof -
  obtain raw where raw: "pg_data_column (ie_env ie) (ev_Data e) = Inr raw" "json_column (ie_env ie) (normalizeJSON (ev_Data e)) = Inr raw"
    using data_columns [OF assms(1)] by blast
  let ?m = "map (\<lambda>r. if im_id r = ev_StreamID e then (upd r)\<lparr>im_data := raw, im_version := ev_Version e\<rparr> else r)"
  have none: "?m rows = rows" if "\<forall>r \<in> set rows. im_id r \<noteq> ev_StreamID e" for rows
    using that by (intro map_idI) auto
  have ids: "map im_id (?m rows) = map im_id rows" for rows using assms(2) by simp
  show ?thesis unfolding pg_update_invoice_rm_def update_invoice_rm_def raw sum.case
  proof (rule both_write [where h = "\<lambda>d. d\<lparr>t_invoice_rms := ?m (t_invoice_rms d)\<rparr>"])
    fix d assume "read_ok (ie_env ie) d"
    then show "read_ok (ie_env ie) (d\<lparr>t_invoice_rms := ?m (t_invoice_rms d)\<rparr>)"
      by (intro read_ok_sets) (simp_all only: ids, simp add: read_ok_def)
  qed (use assms(1) none in \<open>auto simp: valid_data_def\<close>)
qed

lemma both_insert_contract:
  assumes "valid_data (pe_env pe) (ev_Data e)"
  shows "alike_both (read_ok (pe_env pe)) (pg_insert_contract pe e data) (insert_contract pe e data)"
proof -
  obtain raw where raw: "pg_data_column (pe_env pe) (ev_Data e) = Inr raw" "json_column (pe_env pe) (normalizeJSON (ev_Data e)) = Inr raw"
    using data_columns [OF assms] by blast
  let ?row = "\<lparr>cm_id = ev_StreamID e, cm_account = string_at ''account_id'' data, cm_status = ''draft'',
           cm_start = map_option (me_time (pe_env pe)) (parseTime (string_at ''created_at'' data)),
           cm_end = None, cm_renewal = None, cm_trial_end = None, cm_price = string_at ''price_id'' data,
           cm_data = raw, cm_version = ev_Version e\<rparr>"
  show ?thesis unfolding pg_insert_contract_def insert_contract_def raw map_sum.simps sum.case Let_def
  proof (rule both_upsert [where mk' = "Inr ?row"])
    fix d :: read_db
    have "upsert_row cm_id ?row (\<lambda>r. ?row\<lparr>cm_end := cm_end r, cm_renewal := cm_renewal r, cm_trial_end := cm_trial_end r\<rparr>) rows =
      upsert_row cm_id ?row (\<lambda>r. r\<lparr>cm_account := cm_account ?row, cm_status := ''draft'', cm_start := cm_start ?row,
          cm_price := cm_price ?row, cm_data := cm_data ?row, cm_version := cm_version ?row\<rparr>) rows" for rows
      unfolding upsert_row_def by auto
    then show "(Inr (), d\<lparr>t_contract_rms := upsert_row cm_id ?row (\<lambda>r. ?row\<lparr>cm_end := cm_end r, cm_renewal := cm_renewal r,
        cm_trial_end := cm_trial_end r\<rparr>) (t_contract_rms d)\<rparr>) =
      (case Inr ?row of Inl e \<Rightarrow> (Inl e, d) | Inr new \<Rightarrow> (Inr (), tb_set pg_contracts_table (upsert_row cm_id new
        (\<lambda>r. r\<lparr>cm_account := cm_account new, cm_status := ''draft'', cm_start := cm_start new,
          cm_price := cm_price new, cm_data := cm_data new, cm_version := cm_version new\<rparr>) (tb_get pg_contracts_table d)) d))"
      by simp
  qed (simp_all add: keyed_def read_ok_def)
qed

lemma money_payload_eq: "parseMoneyPayload = My_Projection.parseMoneyPayload"
  by (intro ext) (simp add: parseMoneyPayload_def My_Projection.parseMoneyPayload_def Let_def split: json.split option.split)

lemma both_insert_invoice:
  assumes "valid_data (ie_env ie) (ev_Data e)"
  shows "alike_both (read_ok (ie_env ie)) (pg_insert_invoice_rm ie e data) (insert_invoice_rm ie e data)"
proof -
  obtain raw where raw: "pg_data_column (ie_env ie) (ev_Data e) = Inr raw" "json_column (ie_env ie) (normalizeJSON (ev_Data e)) = Inr raw"
    using data_columns [OF assms] by blast
  let ?row = "\<lparr>im_id = ev_StreamID e, im_contract = string_at ''contract_id'' data,
               im_account = string_at ''account_id'' data, im_status = text_or (string_at ''status'' data) ''draft'',
               im_total = fst (total_of ie data), im_currency = snd (total_of ie data), im_data = raw,
               im_version = ev_Version e\<rparr>"
  have t: "(case as_str (key_value k data) of Some s \<Rightarrow> if s \<noteq> [] then s else dflt | None \<Rightarrow> dflt) = text_or (string_at k data) dflt" for k dflt
    by (simp add: text_or_def string_at_def split: option.split)
  have m: "(case key_value ''total'' data of None \<Rightarrow> (0, c)
      | Some v \<Rightarrow> (case parseMoneyPayload ie v of None \<Rightarrow> (0, c) | Some (amt, cur) \<Rightarrow> (amt, if cur \<noteq> [] then cur else c)))
     = total_of ie data" if "c = text_or (string_at ''currency'' data) ''JPY''" for c
    using that by (simp add: total_of_def money_payload_eq text_or_def Let_def split: option.split)
  show ?thesis unfolding pg_insert_invoice_rm_def insert_invoice_rm_def raw map_sum.simps sum.case Let_def t m [OF refl]
  proof (rule both_upsert [where mk' = "Inr ?row"])
    fix d :: read_db
    have "upsert_row im_id ?row (\<lambda>r. ?row\<lparr>im_contract := im_contract r, im_account := im_account r\<rparr>) rows =
      upsert_row im_id ?row (\<lambda>r. r\<lparr>im_status := im_status ?row, im_total := im_total ?row, im_currency := im_currency ?row,
          im_data := im_data ?row, im_version := im_version ?row\<rparr>) rows" for rows
      unfolding upsert_row_def by auto
    then show "(Inr (), d\<lparr>t_invoice_rms := upsert_row im_id ?row (\<lambda>r. ?row\<lparr>im_contract := im_contract r,
        im_account := im_account r\<rparr>) (t_invoice_rms d)\<rparr>) =
      (case Inr ?row of Inl e \<Rightarrow> (Inl e, d) | Inr new \<Rightarrow> (Inr (), tb_set pg_invoices_rm_table (upsert_row im_id new
        (\<lambda>r. r\<lparr>im_status := im_status new, im_total := im_total new, im_currency := im_currency new,
          im_data := im_data new, im_version := im_version new\<rparr>) (tb_get pg_invoices_rm_table d)) d))"
      by simp
  qed (simp_all add: keyed_def read_ok_def)
qed

lemma both_contract_Project:
  assumes "upcast_ok pe" and "valid_data (pe_env pe) (ev_Data e)"
  shows "alike_both (read_ok (pe_env pe)) (contract_Project pe e) (My_Projection.contract_Project pe e)"
proof -
  have apply_alike: "alike_both (read_ok (pe_env pe)) (contract_applyEvent pe e) (My_Projection.contract_applyEvent pe e)"
    unfolding contract_applyEvent_def My_Projection.contract_applyEvent_def
  proof (rule both_bindA_post [where Q = "\<lambda>e'. valid_data (pe_env pe) (ev_Data e')"], goal_cases)
    case 1
    show ?case by (intro both_intros)
  next
    case (2 v a v')
    with assms show ?case by (auto simp: liftA_def upcast_ok_def)
  next
    case (3 e')
    have per: "pg_period_end t r = set_period_end t r" for t r
      by (simp add: pg_period_end_def set_period_end_def coalesce_def split: option.split)
    have u: "alike_both (read_ok (pe_env pe)) (pg_update_contract pe e' upd) (update_contract pe e' upd')"
      if "\<And>r. upd r = upd' r" "\<And>r. cm_id (upd r) = cm_id r" for upd upd'
      by (rule both_update_contract [OF 3 that])
    show ?case
      by (intro both_intros, cases "pe_kind pe (ev_Type e')")
        (simp_all only: Let_def contract_event.case, (rule both_insert_contract [OF 3] | (rule u; simp add: per set_status_def set_period_end_def))+)
  qed
  then show ?thesis unfolding contract_Project_def My_Projection.contract_Project_def by (intro both_intros)
qed

lemma both_invoice_Project:
  assumes "valid_data (ie_env ie) (ev_Data e)"
  shows "alike_both (read_ok (ie_env ie)) (invoice_Project ie e) (My_Projection.invoice_Project ie e)"
proof -
  have "alike_both (read_ok (ie_env ie)) (invoice_applyEvent ie e) (My_Projection.invoice_applyEvent ie e)"
    unfolding invoice_applyEvent_def My_Projection.invoice_applyEvent_def Let_def
    by (intro both_intros both_insert_invoice both_update_invoice assms) simp_all
  then show ?thesis by (simp add: invoice_Project_def My_Projection.invoice_Project_def both_pure)
qed

section \<open>Rebuilds\<close>

lemma both_LoadAll:
  "alike_both I (Pg_EventStore.LoadAll env p n) (My_EventStore.LoadAll env p n :: (read_db, event list) sql)"
  unfolding Pg_EventStore.LoadAll_def My_EventStore.LoadAll_def Pg_EventStore.scanEvents_def My_EventStore.scanEvents_def
  by (intro both_intros refl)

lemma LoadAll_valid:
  fixes v :: "read_db pg_db world"
  assumes "read_ok env (pg_data (db v))" and "Pg_EventStore.LoadAll env p n v = (Inr es, v')"
  shows "\<forall>e \<in> set es. valid_data env (ev_Data e)"
proof -
  from assms(2) obtain rows v1 where q: "pg_query (all_rows p n) v = (Inr rows, v1)"
    and m: "mapA (\<lambda>r. liftA (row_to_event env r)) rows v1 = (Inr es, v')"
    by (auto simp: Pg_EventStore.LoadAll_def Pg_EventStore.scanEvents_def bindA_Inr)
  from pg_query_InrD [OF q] have "rows = all_rows p n (pg_data (db v))" by blast
  then have r: "\<forall>r \<in> set rows. valid_data env (er_data r)"
    using assms(1) all_rows_set [of p n "pg_data (db v)"] by (auto simp: read_ok_def)
  from m have "decode_all (row_to_event env) rows = Inr es" by (simp only: mapA_decode prod.inject)
  then show ?thesis using r
  proof (induction rows arbitrary: es)
    case (Cons r rows)
    then show ?case by (auto simp: row_to_event_def map_sum_def split: sum.splits option.splits)
  qed simp
qed

lemma both_scan_batch:
  assumes "\<And>e. valid_data env (ev_Data e) \<Longrightarrow> alike_both I (proj e) (proj' e)" and "\<forall>e \<in> set es. valid_data env (ev_Data e)"
  shows "alike_both I (scan_batch proj until l es) (scan_batch proj' until l es)"
  using assms(2) by (induction es arbitrary: l) (auto intro!: both_intros assms(1))

lemma both_scan_log:
  assumes "\<And>e. valid_data env (ev_Data e) \<Longrightarrow> alike_both (read_ok env) (proj e) (proj' e)"
  shows "alike_both (read_ok env) (pg_scan_log env proj until fuel p l) (scan_log env proj' until fuel p l)"
proof (induction fuel arbitrary: p l)
  case (Suc fuel)
  show ?case unfolding pg_scan_log.simps scan_log.simps batch_def
  proof (rule both_bindA_post [where Q = "\<lambda>es. \<forall>e \<in> set es. valid_data env (ev_Data e)"], goal_cases)
    case 1
    show ?case by (rule both_LoadAll)
  next
    case (2 v a v')
    then show ?case by (rule LoadAll_valid)
  next
    case (3 es)
    then show ?case unfolding Let_def by (intro both_intros both_scan_batch [OF assms] Suc.IH)
  qed
qed (simp add: both_pure)

lemma both_save_scanned [both_intros]:
  "alike_both (read_ok env) (pg_save_scanned name x) (save_scanned name x)"
  unfolding pg_save_scanned_def save_scanned_def by (intro both_intros)

lemma both_contract_rebuild:
  assumes "upcast_ok pe"
  shows "alike_both (read_ok (pe_env pe)) (contract_rebuildInTx fuel pe until) (reloadReadModels fuel pe until)"
  unfolding contract_rebuildInTx_def reloadReadModels_def ContractProjectorName_def My_Projection.ContractProjectorName_def
  by (intro both_intros both_scan_log both_contract_Project [OF assms] both_write [where h = "\<lambda>d. d\<lparr>t_contract_rms := []\<rparr>"])
    simp_all

lemma both_invoice_rebuild:
  "alike_both (read_ok (ie_env ie)) (invoice_rebuildInTx fuel ie until) (rebuildInTx fuel ie until)"
  unfolding invoice_rebuildInTx_def rebuildInTx_def InvoiceProjectorName_def My_Projection.InvoiceProjectorName_def
  by (intro both_intros both_scan_log both_invoice_Project both_write [where h = "\<lambda>d. d\<lparr>t_invoice_rms := []\<rparr>"])
    simp_all

lemma both_unit_of_work:
  assumes "alike_both I body body'"
  shows "alike_both I (bindA in_tx (\<lambda>ambient. if \<not> ambient then pg_own_tx body else body))
    (bindA in_tx (\<lambda>ambient. if ambient then body' else in_own_tx body'))"
proof -
  let ?m = "bindA in_tx (\<lambda>ambient. if \<not> ambient then pg_own_tx body else body)"
  let ?m' = "bindA in_tx (\<lambda>ambient. if ambient then body' else in_own_tx body')"
  have run: "?m v = (if saved v = None then pg_own_tx body v else body v)"
    "?m' w = (if saved w = None then in_own_tx body' w else body' w)" for v w
    by (auto simp: bindA_def tryA_def in_tx_def)
  from assms have b: "alike I body body'" "alike_tx I body body'" by (simp_all add: alike_both_def)
  have "alike I ?m ?m'"
  proof (rule alikeI)
    fix v w assume s: "in_step I v w"
    from alike_tx_own [OF b(2)] s
    show "same_result (fst (?m v)) (fst (?m' w)) \<and> in_step I (snd (?m v)) (snd (?m' w))"
      using in_stepD(5,6) [OF s] by (simp add: run alike_def)
  qed
  moreover have "alike_tx I ?m ?m'"
  proof (rule alike_txI)
    fix v w assume s: "tx_step I v w"
    have "?m v = body v" "?m' w = body' w" using tx_stepD(4,5) [OF s] by (simp_all only: run if_False)
    with b(2) s show "same_result (fst (?m v)) (fst (?m' w)) \<and> framed v (snd (?m v)) \<and> framed w (snd (?m' w)) \<and>
        (\<not> isl (fst (?m v)) \<longrightarrow> tx_step I (snd (?m v)) (snd (?m' w)))"
      by (simp add: alike_tx_def)
  qed
  ultimately show ?thesis by (simp add: alike_both_def)
qed

text \<open>C34. Without faults, on logs whose data are JSON texts and with upcasters that keep them so, the projectors of the
  two adapters answer alike, outside a transaction (where a rebuild opens its own) and inside one of the caller's: the
  projection of an event whose data are a JSON text and a rebuild, whatever fuel bounds its batches, have the same result
  up to the error with which a server refuses a statement, and leave the same read models and checkpoints, in the
  caller's transaction unless they fail, since a failure leaves it to be rolled back.\<close>

theorem projectors_alike:
  assumes "upcast_ok pe"
  shows "alike_both (read_ok (pe_env pe)) (contract_Rebuild fuel pe until) (My_Projection.contract_Rebuild fuel pe until) \<and>
    alike_both (read_ok (ie_env ie)) (invoice_Rebuild fuel ie until) (My_Projection.invoice_Rebuild fuel ie until) \<and>
    (valid_data (pe_env pe) (ev_Data e) \<longrightarrow>
       alike_both (read_ok (pe_env pe)) (contract_Project pe e) (My_Projection.contract_Project pe e)) \<and>
    (valid_data (ie_env ie) (ev_Data e) \<longrightarrow>
       alike_both (read_ok (ie_env ie)) (invoice_Project ie e) (My_Projection.invoice_Project ie e))"
proof (intro conjI impI)
  show "alike_both (read_ok (pe_env pe)) (contract_Rebuild fuel pe until) (My_Projection.contract_Rebuild fuel pe until)"
    unfolding contract_Rebuild_def My_Projection.contract_Rebuild_def
    by (rule both_unit_of_work) (rule both_contract_rebuild [OF assms])
  show "alike_both (read_ok (ie_env ie)) (invoice_Rebuild fuel ie until) (My_Projection.invoice_Rebuild fuel ie until)"
    unfolding invoice_Rebuild_def My_Projection.invoice_Rebuild_def
    by (rule both_unit_of_work) (rule both_invoice_rebuild)
qed (use assms in \<open>auto intro: both_contract_Project both_invoice_Project\<close>)

theorem projectors_alike_witness:
  "fst (contract_Rebuild 3 demo_penv 10 (pg_demo 60 (db (demo_read [])))) = Inr (Some ()) \<and>
   pg_data (db (snd (contract_Rebuild 3 demo_penv 10 (pg_demo 60 (db (demo_read []))))))
     = db (snd (My_Projection.contract_Rebuild 3 demo_penv 10 ((demo_read [])\<lparr>clk := clk (pg_demo 60 (db (demo_read [])))\<rparr>)))"
proof -
  let ?v = "pg_demo 60 (db (demo_read []))"
  let ?w = "(demo_read [])\<lparr>clk := clk ?v\<rparr>"
  have "upcast_ok demo_penv" by (simp add: upcast_ok_def demo_penv_def)
  from projectors_alike [OF this, of 3 10]
  have a: "alike (read_ok (pe_env demo_penv)) (contract_Rebuild 3 demo_penv 10) (My_Projection.contract_Rebuild 3 demo_penv 10)"
    unfolding alike_both_def by blast
  have ok: "read_ok (pe_env demo_penv) (db (demo_read []))"
    by (simp add: read_ok_def demo_read_def My_Projection_Props.demo_log_def demo_penv_def demo_env_def valid_data_def)
  have s: "in_step (read_ok (pe_env demo_penv)) ?v ?w"
    using ok pg_demo_quiet [of 60 "db (demo_read [])"]
    by (simp add: in_step_def) (simp add: quiet_def demo_read_def)
  have my: "fst (My_Projection.contract_Rebuild 3 demo_penv 10 ?w) = Inr (Some ())"
    by code_simp
  from a s have "same_result (fst (contract_Rebuild 3 demo_penv 10 ?v)) (fst (My_Projection.contract_Rebuild 3 demo_penv 10 ?w)) \<and>
    in_step (read_ok (pe_env demo_penv)) (snd (contract_Rebuild 3 demo_penv 10 ?v)) (snd (My_Projection.contract_Rebuild 3 demo_penv 10 ?w))"
    unfolding alike_def by blast
  then show ?thesis unfolding my by (simp add: same_result_def in_step_def)
qed

end
