(* ===== verification/Pg_Contract_Repo.thy ===== *)
theory Pg_Contract_Repo
  imports Pg_EventStore Pg_Alike My_Contract_Repo
begin

text \<open>
  The contract repository of \<open>postgres/contract_repo.go\<close>: contracts are stored as events and rebuilt from the
  latest usable snapshot and the events after it; lists of contracts come from the read model. The aggregate's
  operations are the parameter \<open>contract_core\<close> of \<open>My_Contract_Repo\<close>, whose pure steps (restoring a
  snapshot, replaying events, the highest version, the row order) are used here too.
\<close>

section \<open>Save\<close>

definition contract_Save :: "(string \<Rightarrow> string option) \<Rightarrow> menv \<Rightarrow> 'a contract_core \<Rightarrow> 'a \<Rightarrow> ('m log_db_scheme, 'a) pgsql" where
  "contract_Save raw env cc aggregate = (let events = cc_Uncommitted cc aggregate in
     if length events = 0 then ret aggregate
     else (let expectedVersion = cc_Version cc aggregate in
       bindA (Append raw env (cc_ID cc aggregate) events expectedVersion) (\<lambda>_.
       ret (cc_ClearUncommitted cc (cc_SetVersion cc (expectedVersion + int (length events)) aggregate)))))"

section \<open>Rehydration\<close>

definition loadEventsAfter :: "menv \<Rightarrow> string \<Rightarrow> int \<Rightarrow> ('m log_db_scheme, event list) pgsql" where
  "loadEventsAfter env streamID afterVersion =
     bindA (pg_query (\<lambda>d. filter (\<lambda>r. afterVersion < er_version r) (stream_rows streamID d))) (scanEvents env)"

definition contract_FindByID :: "menv \<Rightarrow> 'a contract_core \<Rightarrow> string \<Rightarrow> ('m log_db_scheme, 'a) pgsql" where
  "contract_FindByID env cc i =
     bindA (LoadSnapshot i) (\<lambda>snap.
     bindA (liftA (restoreSnapshot cc snap (cc_new cc i))) (\<lambda>agg.
     bindA (loadEventsAfter env i (cc_Version cc agg)) (\<lambda>events.
     if snap = None \<and> length events = 0 then throw (DomainError ErrCodeNotFound None)
     else if length events > 0 then liftA (cc_LoadFromHistory cc events agg)
     else ret agg)))"

text \<open>A snapshot is used only when it does not reach past the last event within the horizon.\<close>

definition contract_FindByIDAsOf :: "menv \<Rightarrow> 'a contract_core \<Rightarrow> string \<Rightarrow> time \<Rightarrow> ('m log_db_scheme, 'a) pgsql" where
  "contract_FindByIDAsOf env cc i asOf =
     bindA (LoadUntil env i asOf) (\<lambda>events.
     let maxVersionAsOf = maxVersion events in
     bindA (LoadSnapshotBefore env i asOf) (\<lambda>snap.
     let useSnapshot = (case snap of None \<Rightarrow> False | Some s \<Rightarrow> sn_Version s \<le> maxVersionAsOf) in
     bindA (liftA (restoreSnapshot cc (if useSnapshot then snap else None) (cc_new cc i))) (\<lambda>agg.
     let relevant = filter (\<lambda>e. cc_Version cc agg < ev_Version e) events in
     if \<not> useSnapshot \<and> length relevant = 0 then throw (DomainError ErrCodeNotFound None)
     else if length relevant > 0 then liftA (cc_LoadFromHistory cc relevant agg)
     else ret agg)))"

section \<open>Lists from the read model\<close>

definition findManyFromReadModel :: "menv \<Rightarrow> 'a contract_core \<Rightarrow> (read_db \<Rightarrow> contract_rm list) \<Rightarrow> (read_db, 'a list) pgsql" where
  "findManyFromReadModel env cc sql =
     bindA (pg_query (\<lambda>d. map cm_id (sql d))) (\<lambda>ids. mapA (contract_FindByID env cc) ids)"

definition contract_FindByAccountID :: "menv \<Rightarrow> 'a contract_core \<Rightarrow> string \<Rightarrow> (read_db, 'a list) pgsql" where
  "contract_FindByAccountID env cc accountID =
     findManyFromReadModel env cc (\<lambda>d. filter (\<lambda>r. cm_account r = accountID) (t_contract_rms d))"

definition FindExpiring :: "menv \<Rightarrow> 'a contract_core \<Rightarrow> time \<Rightarrow> (read_db, 'a list) pgsql" where
  "FindExpiring env cc before = findManyFromReadModel env cc
     (\<lambda>d. filter (\<lambda>r. cm_end r \<noteq> None \<and> the (cm_end r) < me_time env before \<and> cm_status r = ''active'') (t_contract_rms d))"

definition FindTrialsEndingBefore :: "menv \<Rightarrow> 'a contract_core \<Rightarrow> time \<Rightarrow> int \<Rightarrow> (read_db, 'a list) pgsql" where
  "FindTrialsEndingBefore env cc before lmt = findManyFromReadModel env cc
     (\<lambda>d. ordered_limited (\<lambda>r. the (cm_trial_end r)) lmt
       (filter (\<lambda>r. cm_trial_end r \<noteq> None \<and> the (cm_trial_end r) < me_time env before \<and> cm_status r = ''trialing'')
         (t_contract_rms d)))"

definition FindDueForRenewal :: "menv \<Rightarrow> 'a contract_core \<Rightarrow> time \<Rightarrow> int \<Rightarrow> (read_db, 'a list) pgsql" where
  "FindDueForRenewal env cc asOf lmt = findManyFromReadModel env cc
     (\<lambda>d. ordered_limited (\<lambda>r. the (cm_renewal r)) lmt
       (filter (\<lambda>r. cm_renewal r \<noteq> None \<and> the (cm_renewal r) \<le> me_time env asOf \<and> cm_status r = ''active'')
         (t_contract_rms d)))"

section \<open>The two adapters answer alike\<close>

lemma alike_scanEvents [alike_intros]: "alike I (Pg_EventStore.scanEvents env rows) (My_EventStore.scanEvents env rows)"
  unfolding Pg_EventStore.scanEvents_def My_EventStore.scanEvents_def by (intro alike_intros)

lemma alike_LoadSnapshot [alike_intros]:
  "alike I (Pg_EventStore.LoadSnapshot i) (My_EventStore.LoadSnapshot i)"
  "alike I (Pg_EventStore.LoadSnapshotBefore env i t) (My_EventStore.LoadSnapshotBefore env i t)"
  unfolding Pg_EventStore.LoadSnapshot_def My_EventStore.LoadSnapshot_def Pg_EventStore.LoadSnapshotBefore_def
    My_EventStore.LoadSnapshotBefore_def loadSnapshotRow_def scanSnapshot_def
  by (intro alike_intros refl)+

lemma alike_LoadUntil [alike_intros]: "alike I (Pg_EventStore.LoadUntil env i t) (My_EventStore.LoadUntil env i t)"
  unfolding Pg_EventStore.LoadUntil_def My_EventStore.LoadUntil_def by (intro alike_intros refl)

lemma replay_or_stop: "(if length es > 0 then liftA (cc_LoadFromHistory cc es a) else ret a) = liftA (replayEvents cc es a)"
  by (auto simp: replayEvents_def liftA_def ret_def)

lemma alike_contract_FindByID [alike_intros]:
  "alike I (contract_FindByID env cc i) (My_Contract_Repo.contract_FindByID env cc i)"
  unfolding contract_FindByID_def My_Contract_Repo.contract_FindByID_def loadEventsAfter_def
    My_Contract_Repo.loadEventsAfter_def replay_or_stop length_0_conv
  by (intro alike_intros refl)

lemma alike_contract_FindByIDAsOf:
  "alike I (contract_FindByIDAsOf env cc i t) (My_Contract_Repo.contract_FindByIDAsOf env cc i t)"
proof -
  have u: "(if (case snap of None \<Rightarrow> False | Some s \<Rightarrow> sn_Version s \<le> m) then snap else None) = usable snap m"
    "\<not> (case snap of None \<Rightarrow> False | Some s \<Rightarrow> sn_Version s \<le> m) \<longleftrightarrow> usable snap m = None" for snap m
    by (simp_all add: usable_def split: option.split)
  show ?thesis
    unfolding contract_FindByIDAsOf_def My_Contract_Repo.contract_FindByIDAsOf_def Let_def replay_or_stop length_0_conv u
    by (intro alike_intros)
qed

lemma alike_findMany [alike_intros]:
  "(\<And>d. sel d = sel' d) \<Longrightarrow> alike I (findManyFromReadModel env cc sel) (My_Contract_Repo.findManyFromReadModel env cc sel')"
  unfolding findManyFromReadModel_def My_Contract_Repo.findManyFromReadModel_def by (intro alike_intros) simp

text \<open>Every lookup of contracts answers alike on both adapters: on the same rows, at the same time and outside a
  transaction it gives the same aggregates or the same error and changes nothing that one adapter sees and the other
  does not.\<close>

theorem contract_adapters_alike:
  shows "alike I (contract_FindByID env cc i) (My_Contract_Repo.contract_FindByID env cc i) \<and>
    alike I (contract_FindByIDAsOf env cc i t) (My_Contract_Repo.contract_FindByIDAsOf env cc i t) \<and>
    alike J (contract_FindByAccountID env cc i) (My_Contract_Repo.contract_FindByAccountID env cc i) \<and>
    alike J (FindExpiring env cc t) (My_Contract_Repo.FindExpiring env cc t) \<and>
    alike J (FindTrialsEndingBefore env cc t n) (My_Contract_Repo.FindTrialsEndingBefore env cc t n) \<and>
    alike J (FindDueForRenewal env cc t n) (My_Contract_Repo.FindDueForRenewal env cc t n)"
proof -
  have b: "before_opt x y \<longleftrightarrow> x \<noteq> None \<and> the x < y" "due_opt x y \<longleftrightarrow> x \<noteq> None \<and> the x \<le> y" for x y
    by (simp_all add: before_opt_def due_opt_def split: option.split)
  show ?thesis
    unfolding contract_FindByAccountID_def My_Contract_Repo.contract_FindByAccountID_def FindExpiring_def
      My_Contract_Repo.FindExpiring_def FindTrialsEndingBefore_def My_Contract_Repo.FindTrialsEndingBefore_def
      FindDueForRenewal_def My_Contract_Repo.FindDueForRenewal_def b
    by (intro conjI alike_intros alike_contract_FindByIDAsOf) simp_all
qed

end
