(* ===== verification/Pg_Contract_Props.thy ===== *)
theory Pg_Contract_Props
  imports Pg_Contract_Repo My_Contract_Props
begin

text \<open>
  A contract that was saved is found with its new events. Saving and finding go through the event store: the version
  the aggregate was loaded at guards the append, and what is found is the replay of the whole stream, whatever
  snapshots are stored (\<open>My_Contract_Props\<close>).
\<close>

section \<open>Reading without faults\<close>

lemma pg_scanEvents_run: "Pg_EventStore.scanEvents env rows v = (fst (My_EventStore.scanEvents env rows w), v)"
  unfolding Pg_EventStore.scanEvents_def My_EventStore.scanEvents_def by (simp only: mapA_decode fst_conv)

lemma pg_LoadSnapshot_run:
  "calm v \<Longrightarrow> \<not> aborted_tx v \<Longrightarrow>
     Pg_EventStore.LoadSnapshot i v = (Inr (map_option row_to_snapshot (latest_snapshot i (pg_data (db v)))), v)"
  by (simp add: Pg_EventStore.LoadSnapshot_def loadSnapshotRow_def latest_snapshot_def tryA_def pg_query_row_run ret_def
      split: option.split)

text \<open>A lookup in or outside a transaction is the lookup of the MySQL adapter on the same rows.\<close>

lemma pg_contract_FindByID_run:
  assumes "calm v" "\<not> aborted_tx v" and "calm w" "db w = pg_data (db v)"
  shows "contract_FindByID env cc i v = (fst (My_Contract_Repo.contract_FindByID env cc i w), v)"
proof -
  let ?snap = "map_option row_to_snapshot (latest_snapshot i (pg_data (db v)))"
  have after: "loadEventsAfter env i x v = (fst (My_Contract_Repo.loadEventsAfter env i x w), v)" for x
    using assms pg_scanEvents_run [of env _ v w]
    by (simp add: loadEventsAfter_def My_Contract_Repo.loadEventsAfter_def bindA_def tryA_def pg_query_run query_run)
  have snd: "snd (My_Contract_Repo.loadEventsAfter env i x w) = w" for x
    using assms unfolding My_Contract_Repo.loadEventsAfter_def My_EventStore.scanEvents_def
    by (simp add: bindA_def tryA_def query_run) (simp only: mapA_decode snd_conv)
  have "contract_FindByID env cc i v = (case restoreSnapshot cc ?snap (cc_new cc i) of
      Inl e \<Rightarrow> (Inl e, v)
    | Inr agg \<Rightarrow> (case fst (My_Contract_Repo.loadEventsAfter env i (cc_Version cc agg) w) of
        Inl e \<Rightarrow> (Inl e, v)
      | Inr events \<Rightarrow> (if ?snap = None \<and> events = [] then Inl (DomainError ErrCodeNotFound None) else replayEvents cc events agg, v)))"
    unfolding contract_FindByID_def replay_or_stop
    by (auto simp: bindA_def tryA_def pg_LoadSnapshot_run assms after liftA_def throw_def split: sum.split)
  moreover have "fst (My_Contract_Repo.contract_FindByID env cc i w) = (case restoreSnapshot cc ?snap (cc_new cc i) of
      Inl e \<Rightarrow> Inl e
    | Inr agg \<Rightarrow> (case fst (My_Contract_Repo.loadEventsAfter env i (cc_Version cc agg) w) of
        Inl e \<Rightarrow> Inl e
      | Inr events \<Rightarrow> if ?snap = None \<and> events = [] then Inl (DomainError ErrCodeNotFound None) else replayEvents cc events agg))"
    unfolding My_Contract_Repo.contract_FindByID_def
    by (auto simp: bindA_def tryA_def LoadSnapshot_run assms liftA_def throw_def split: sum.split prod.split)
  ultimately show ?thesis by (simp split: sum.split)
qed

section \<open>Saving\<close>

lemma Append_Inr:
  assumes run: "Append raw env s es v w = (Inr u, w')" and wf: "events_wf (pg_data (db w)) (autoinc w)" and "es \<noteq> []"
  shows "\<not> aborted_tx w' \<and> events_wf (pg_data (db w')) (autoinc w') \<and> count_stream s (pg_data (db w)) = v \<and>
    (\<exists>rows. pg_data (db w') = (pg_data (db w))\<lparr>t_events := t_events (pg_data (db w)) @ rows\<rparr> \<and>
       list_all2 (pg_stored raw env s (pg_now w)) (numbered v es) rows)"
proof (cases "saved w")
  case None
  with assms have "pg_own_tx (appendInTx raw env s es v) w = (Inr u, w')" by (simp add: Append_def in_tx_def bindA_run [of in_tx w])
  from this None pg_sane_appendInTx show ?thesis
  proof (cases rule: pg_own_tx_cases)
    case (committed a w1 w2)
    then have "pg_now w1 = pg_now w" "\<not> aborted_tx w'" using None by (simp_all add: pg_now_def aborted_tx_def)
    with appendInTx_Inr [of raw env s es v w1 a w2] committed wf show ?thesis by auto
  qed auto
next
  case (Some d)
  with assms have a: "appendInTx raw env s es v w = (Inr u, w')" by (simp add: Append_def in_tx_def bindA_run [of in_tx w])
  have na: "\<not> aborted_tx w"
  proof
    assume "aborted_tx w"
    with a show False
      by (simp add: appendInTx_def advisory_xact_lock_def pg_query_def bindA_def tryA_def pg_stmt_aborted throw_def)
  qed
  moreover from pg_saneD [OF pg_sane_appendInTx a] have "saved w' = saved w" "pg_aborted (db w') = pg_aborted (db w)" by auto
  ultimately have "\<not> aborted_tx w'" by (simp add: aborted_tx_def)
  with appendInTx_Inr [OF a wf] show ?thesis by blast
qed

text \<open>Metadata that was marshalled and stored can be read.\<close>

definition metadata_readable :: "menv \<Rightarrow> bool" where
  "metadata_readable env \<longleftrightarrow> (\<forall>m t j. me_marshal env m = Some t \<longrightarrow> me_json env t = Some j \<longrightarrow> me_unmarshal env j \<noteq> None)"

lemma stored_decodes:
  assumes "list_all2 (pg_stored raw env s now) ves rows" and "metadata_readable env"
  shows "\<exists>new. decode env rows = Some new"
  using assms(1)
proof (induction rule: list_all2_induct)
  case (Cons ve ves r rows)
  from Cons.hyps(1) obtain m t where "me_marshal env m = Some t" "me_json env t = Some (er_meta r)"
    by (auto simp: pg_stored_def)
  with assms(2) have "me_unmarshal env (er_meta r) \<noteq> None" unfolding metadata_readable_def by blast
  then obtain m' where "me_unmarshal env (er_meta r) = Some m'" by blast
  then have "\<exists>e. row_to_event env r = Inr e" by (cases "er_meta r = []") (simp_all add: row_to_event_def)
  with Cons.IH show ?case by (auto simp: decode_def)
qed (simp add: decode_def)

lemma faithful_append:
  assumes "faithful cc i old snaps" and "\<forall>r \<in> set snaps. sr_stream r = i \<longrightarrow> (\<forall>e \<in> set new. sr_version r < ev_Version e)"
  shows "faithful cc i (old @ new) snaps"
  unfolding faithful_def
proof (intro ballI impI)
  fix r assume r: "r \<in> set snaps" "sr_stream r = i"
  with assms(2) have "\<forall>e \<in> set new. sr_version r < ev_Version e" by blast
  then have "filter (\<lambda>e. ev_Version e \<le> sr_version r) new = []" by (auto simp: filter_empty_conv)
  with assms(1) r show "\<exists>a. cc_LoadFromSnapshot cc (row_to_snapshot r) (cc_new cc i) = Inr a \<and> cc_Version cc a = sr_version r \<and>
      replayEvents cc (filter (\<lambda>e. ev_Version e \<le> sr_version r) (old @ new)) (cc_new cc i) = Inr a"
    by (simp add: faithful_def)
qed

lemma decode_both: "decode env xs = Some es \<Longrightarrow> decode env ys = Some fs \<Longrightarrow> decode env (xs @ ys) = Some (es @ fs)"
  by (simp add: decode_def those_append)

lemma numbered_above: "list_all2 (pg_stored raw env s now) (numbered v es) rows \<Longrightarrow> \<forall>r \<in> set rows. v < er_version r"
proof (induction es arbitrary: v rows)
  case (Cons e es)
  then obtain r rows' where "rows = r # rows'" "pg_stored raw env s now (v + 1, e) r"
    "list_all2 (pg_stored raw env s now) (numbered (v + 1) es) rows'"
    by (auto simp: list_all2_Cons1)
  moreover from this(3) have "\<forall>x \<in> set rows'. v + 1 < er_version x" by (rule Cons.IH)
  moreover have "er_version r = v + 1" using calculation(2) by (simp add: pg_stored_def)
  ultimately show ?case by auto
qed simp

text \<open>C35. A contract that was saved is found again with its new events, in or outside a transaction: if the save of an
  aggregate succeeds, the stream stood at the version the aggregate was loaded at, the new events are stored under the
  next versions, and finding the contract is replaying the old events and the stored ones into a new aggregate, whatever
  snapshots the stream has. Snapshots are faithful and do not reach past the events they were taken of.\<close>

theorem pg_contract_Save_FindByID:
  fixes w :: "'m my_db_scheme pg_db world"
  assumes wf: "events_wf (pg_data (db w)) (autoinc w)"
    and old: "decode env (stream_rows (cc_ID cc a) (pg_data (db w))) = Some old"
    and core: "core_laws cc (cc_ID cc a)" "metadata_readable env"
    and snaps: "faithful cc (cc_ID cc a) old (t_snapshots (pg_data (db w)))"
      "\<forall>r \<in> set (t_snapshots (pg_data (db w))). sr_stream r = cc_ID cc a \<longrightarrow> sr_version r \<le> count_stream (cc_ID cc a) (pg_data (db w))"
    and save: "cc_Uncommitted cc a \<noteq> []" "contract_Save raw env cc a w = (Inr a', w')" "calm w'"
  shows "cc_Version cc a = int (length old) \<and>
    (\<exists>rows new. list_all2 (pg_stored raw env (cc_ID cc a) (pg_now w)) (numbered (cc_Version cc a) (cc_Uncommitted cc a)) rows \<and>
       decode env rows = Some new \<and>
       contract_FindByID env cc (cc_ID cc a) w' = (replayEvents cc (old @ new) (cc_new cc (cc_ID cc a)), w'))"
proof -
  let ?i = "cc_ID cc a" and ?v = "cc_Version cc a"
  from save(1,2) obtain u where "Append raw env ?i (cc_Uncommitted cc a) ?v w = (Inr u, w')"
    by (auto simp: contract_Save_def Let_def bindA_Inr ret_def)
  from Append_Inr [OF this wf save(1)] obtain rows where ap: "\<not> aborted_tx w'" "events_wf (pg_data (db w')) (autoinc w')"
      "count_stream ?i (pg_data (db w)) = ?v"
      "pg_data (db w') = (pg_data (db w))\<lparr>t_events := t_events (pg_data (db w)) @ rows\<rparr>"
      "list_all2 (pg_stored raw env ?i (pg_now w)) (numbered ?v (cc_Uncommitted cc a)) rows" by blast
  from stored_decodes [OF ap(5) core(2)] obtain new where new: "decode env rows = Some new" by blast
  have "\<forall>r \<in> set rows. er_stream r = ?i"
    using ap(5) by (auto simp: list_all2_conv_all_nth in_set_conv_nth pg_stored_def)
  then have rows: "stream_rows ?i (pg_data (db w')) = stream_rows ?i (pg_data (db w)) @ rows"
    unfolding stream_rows_wf [OF ap(2)] stream_rows_wf [OF wf] by (simp add: ap(4) filter_id_conv)
  have all: "decode env (stream_rows ?i (pg_data (db w'))) = Some (old @ new)"
    unfolding rows by (rule decode_both [OF old new])
  have "rows \<noteq> []" using ap(5) save(1) by (cases "cc_Uncommitted cc a") auto
  then have ne: "old @ new \<noteq> []" using decode_versions [OF new] by auto
  have len: "int (length old) = count_stream ?i (pg_data (db w))"
    using decode_versions [OF old] stream_rows_wf [OF wf] unfolding count_stream_def
    by (metis length_map)
  have "ev_Version e \<in> er_version ` set rows" if "e \<in> set new" for e
    using decode_versions [OF new] that by (metis image_eqI image_set)
  then have above: "\<forall>e \<in> set new. ?v < ev_Version e" using numbered_above [OF ap(5)] by fastforce
  have same: "t_snapshots (pg_data (db w')) = t_snapshots (pg_data (db w))" by (simp add: ap(4))
  have "faithful cc ?i (old @ new) (t_snapshots (pg_data (db w)))"
  proof (rule faithful_append [OF snaps(1)], intro ballI impI)
    fix r e assume "r \<in> set (t_snapshots (pg_data (db w)))" "sr_stream r = ?i" "e \<in> set new"
    then have "sr_version r \<le> ?v" "?v < ev_Version e" using snaps(2) above ap(3) by auto
    then show "sr_version r < ev_Version e" by simp
  qed
  then have faith: "faithful cc ?i (old @ new) (t_snapshots (pg_data (db w')))" unfolding same .
  define w1 :: "'m my_db_scheme world" where
    "w1 = \<lparr>db = pg_data (db w'), saved = None, autoinc = 1, clk = 0, snow = 0, faults = []\<rparr>"
  then have d: "calm w1" "db w1 = pg_data (db w')" by simp_all
  have "My_Contract_Repo.contract_FindByID env cc ?i w1 = (replayEvents cc (old @ new) (cc_new cc ?i), w1)"
    by (rule contract_FindByID_run [OF d(1), where n = "autoinc w'"]) (use ap(2) all ne core faith d(2) in simp_all)
  then have "contract_FindByID env cc ?i w' = (replayEvents cc (old @ new) (cc_new cc ?i), w')"
    using pg_contract_FindByID_run [OF save(3) ap(1) d, of env cc ?i] by simp
  with new ap(3,5) len show ?thesis by auto
qed

section \<open>A witness\<close>

definition demo_saver :: "(int \<times> string list) contract_core" where
  "demo_saver = demo_agg\<lparr>cc_ID := \<lambda>_. ''c'', cc_Uncommitted := \<lambda>_. [demo_event 3]\<rparr>"

definition pg_demo_contracts :: "my_db pg_db world" where
  "pg_demo_contracts = (pg_demo 6 (db demo_ordered))\<lparr>autoinc := 9\<rparr>"

lemma demo_saver_facts: "cc_ID demo_saver a = ''c''" "cc_Version demo_saver a = fst a" "cc_Uncommitted demo_saver a = [demo_event 3]"
  "core_laws demo_saver i" "cc_LoadFromSnapshot demo_saver = cc_LoadFromSnapshot demo_agg"
  "replayEvents demo_saver es a = replayEvents demo_agg es a" "cc_new demo_saver i = cc_new demo_agg i"
  "faithful demo_saver i es snaps = faithful demo_agg i es snaps"
  using demo_agg_laws [of i] by (simp_all add: demo_saver_def demo_agg_def core_laws_def replayEvents_def faithful_def)

theorem pg_contract_Save_FindByID_witness:
  "\<exists>w'. contract_Save Some demo_menv demo_saver (2, [''1'', ''2'']) pg_demo_contracts = (Inr (3, [''1'', ''2'']), w') \<and>
     fst (contract_FindByID demo_menv demo_saver ''c'' w') = Inr (3, [''1'', ''2'', ''e1''])"
proof -
  let ?a = "(2 :: int, [''1'', ''2''])"
  have "fst (contract_Save Some demo_menv demo_saver ?a pg_demo_contracts) = Inr (3, [''1'', ''2''])"
    "faults (snd (contract_Save Some demo_menv demo_saver ?a pg_demo_contracts)) = []" by code_simp+
  then obtain w' where run: "contract_Save Some demo_menv demo_saver ?a pg_demo_contracts = (Inr (3, [''1'', ''2'']), w')" "calm w'"
    by (metis prod.collapse)
  have d: "pg_data (db pg_demo_contracts) = db demo_ordered" "autoinc pg_demo_contracts = 9"
    by (simp_all add: pg_demo_contracts_def pg_demo_def)
  have old: "decode demo_menv (stream_rows ''c'' (db demo_ordered)) =
      Some [demo_event_of (demo_contract_row 1 ''1'' 1), demo_event_of (demo_contract_row 2 ''2'' 50)]"
    by (simp add: demo_ordered_def demo_contracts_def demo_contract_row_def demo_event_of_def stream_rows_def decode_def
        row_to_event_def)
  have snaps: "\<forall>r \<in> set (t_snapshots (db demo_ordered)). sr_stream r = ''c'' \<longrightarrow> sr_version r \<le> count_stream ''c'' (db demo_ordered)"
    by (simp add: demo_ordered_def demo_contracts_def count_stream_def demo_contract_row_def)
  have meta: "metadata_readable demo_menv" by (simp add: metadata_readable_def demo_menv_def)
  have "events_wf (db demo_ordered) 9" by (rule demo_ordered_facts(2))
  from pg_contract_Save_FindByID [of pg_demo_contracts demo_menv demo_saver ?a, unfolded demo_saver_facts d, OF this old
      demo_saver_facts(4) [of "''c''"] meta demo_ordered_facts(4) snaps _ run] obtain rows new where
    st: "list_all2 (pg_stored Some demo_menv ''c'' (pg_now pg_demo_contracts)) (numbered 2 [demo_event 3]) rows"
    and de: "decode demo_menv rows = Some new"
    and found: "contract_FindByID demo_menv demo_saver ''c'' w' =
      (replayEvents demo_agg ([demo_event_of (demo_contract_row 1 ''1'' 1), demo_event_of (demo_contract_row 2 ''2'' 50)] @ new)
         (cc_new demo_agg ''c''), w')" by auto
  from st obtain r where r: "rows = [r]" "er_version r = 3" "er_id r = ''e1''"
    by (auto simp: list_all2_Cons1 pg_stored_def demo_event_def)
  from de r obtain e where "new = [e]" "ev_Version e = 3" "ev_ID e = ''e1''"
    by (auto simp: decode_def row_to_event_def split: option.splits sum.splits)
  with found run(1) show ?thesis
    by (simp add: replayEvents_def demo_agg_def demo_event_of_def demo_contract_row_def row_to_event_def)
qed

end
