(* ===== verification/Pg_Tx.thy ===== *)
theory Pg_Tx
  imports Pg_EventStore
begin

text \<open>
  The unit of work of \<open>postgres/tx_manager.go\<close> and the context functions of \<open>postgres/conn.go\<close>, over the
  contexts of \<open>Sql_Base\<close>.
\<close>

section \<open>Contexts\<close>

fun TxFromContext :: "'t gocontext \<Rightarrow> 't option" where
  "TxFromContext Background = None"
| "TxFromContext (WithTx ctx tx) = Some tx"
| "TxFromContext (WithValue ctx _) = TxFromContext ctx"

definition ContextWithTx :: "'t gocontext \<Rightarrow> 't \<Rightarrow> 't gocontext" where
  "ContextWithTx ctx tx = WithTx ctx tx"

definition QuerierFromContext :: "'t gocontext \<Rightarrow> 'p \<Rightarrow> ('t, 'p) querier" where
  "QuerierFromContext ctx pool = (case TxFromContext ctx of Some tx \<Rightarrow> TxQuerier tx | None \<Rightarrow> PoolQuerier pool)"

section \<open>The unit of work\<close>

text \<open>The error of a failed rollback wraps the function's, so it is that error.\<close>

definition RunInTx :: "('d, 'a) pgsql \<Rightarrow> ('d, 'a) pgsql" where
  "RunInTx fn = bindA in_tx (\<lambda>existing.
     if existing then fn
     else bindA pg_begin (\<lambda>_.
       tryA fn (\<lambda>err. tryA rollback (\<lambda>rbErr. throw err) (\<lambda>_. throw err))
         (\<lambda>a. bindA pg_commit (\<lambda>_. ret a))))"

lemma pg_RunInTx_own: "saved w = None \<Longrightarrow> RunInTx fn w = pg_own_tx fn w"
  by (simp add: RunInTx_def pg_own_tx_def in_tx_def bindA_run)

lemma pg_RunInTx_nested: "saved w \<noteq> None \<Longrightarrow> RunInTx fn w = fn w"
  by (simp add: RunInTx_def in_tx_def bindA_run)

section \<open>Work that handles its errors as it likes\<close>

text \<open>What a function run in a transaction can do: whatever statements it runs and however it handles their errors, the
  transaction stays open, and once aborted it stays aborted.\<close>

named_theorems scoped_intros \<open>composition rules for functions run in a transaction\<close>

definition pg_scoped :: "('d, 'a) pgsql \<Rightarrow> bool" where
  "pg_scoped m \<longleftrightarrow> (\<forall>w. saved w \<noteq> None \<longrightarrow> saved (snd (m w)) = saved w \<and> (aborted_tx w \<longrightarrow> aborted_tx (snd (m w))))"

lemma pg_scopedI:
  assumes "\<And>w r w'. saved w \<noteq> None \<Longrightarrow> m w = (r, w') \<Longrightarrow> saved w' = saved w \<and> (aborted_tx w \<longrightarrow> aborted_tx w')"
  shows "pg_scoped m"
  using assms by (auto simp: pg_scoped_def) (metis prod.collapse)+

lemma pg_scopedD:
  assumes "pg_scoped m" and "m w = (r, w')" and "saved w \<noteq> None"
  shows "saved w' = saved w" "aborted_tx w \<Longrightarrow> aborted_tx w'"
  using assms by (auto simp: pg_scoped_def)

lemma scoped_pure [scoped_intros]: "pg_scoped (ret a)" "pg_scoped (throw e)" "pg_scoped (liftA x)" "pg_scoped in_tx" "pg_scoped clock_now"
  by (simp_all add: pg_scoped_def ret_def throw_def liftA_def in_tx_def clock_now_def)

lemma scoped_tryA [scoped_intros]:
  assumes "pg_scoped m" and "\<And>e. pg_scoped (h e)" and "\<And>a. pg_scoped (f a)"
  shows "pg_scoped (tryA m h f)"
proof (rule pg_scopedI)
  fix w r w' assume s: "saved w \<noteq> None" and run: "tryA m h f w = (r, w')"
  from run show "saved w' = saved w \<and> (aborted_tx w \<longrightarrow> aborted_tx w')"
  proof (cases rule: tryA_cases)
    case (err e w1)
    note 1 = pg_scopedD [OF assms(1) err(1) s]
    with pg_scopedD [OF assms(2) err(2)] s show ?thesis by simp
  next
    case (ok a w1)
    note 1 = pg_scopedD [OF assms(1) ok(1) s]
    with pg_scopedD [OF assms(3) ok(2)] s show ?thesis by simp
  qed
qed

lemma scoped_bindA [scoped_intros]: "pg_scoped m \<Longrightarrow> (\<And>a. pg_scoped (f a)) \<Longrightarrow> pg_scoped (bindA m f)"
  unfolding bindA_def by (intro scoped_intros)

lemma scoped_forA [scoped_intros]: "(\<And>x. x \<in> set xs \<Longrightarrow> pg_scoped (f x)) \<Longrightarrow> pg_scoped (forA f xs)"
  by (induction xs) (auto intro!: scoped_intros)

lemma scoped_mapA [scoped_intros]: "(\<And>x. pg_scoped (f x)) \<Longrightarrow> pg_scoped (mapA f xs)"
  by (induction xs) (auto intro!: scoped_intros)

lemma scoped_if [scoped_intros]: "pg_scoped m \<Longrightarrow> pg_scoped n \<Longrightarrow> pg_scoped (if b then m else n)"
  by simp

lemma scoped_option [scoped_intros]:
  "pg_scoped m \<Longrightarrow> (\<And>y. pg_scoped (f y)) \<Longrightarrow> pg_scoped (case x of None \<Rightarrow> m | Some y \<Rightarrow> f y)"
  by (simp split: option.split)

lemma scoped_stmt [scoped_intros]: "pg_scoped (pg_stmt f)" "pg_scoped (pg_query q)" "pg_scoped (pg_query_row g)" "pg_scoped (pg_write h)"
proof -
  have s: "pg_scoped (pg_stmt f)" for f :: "time \<Rightarrow> 'x \<Rightarrow> (db_error + 'y) \<times> 'x"
  proof (rule pg_scopedI)
    fix w r w' assume s: "saved w \<noteq> None" and run: "pg_stmt f w = (r, w')"
    from run show "saved w' = saved w \<and> (aborted_tx w \<longrightarrow> aborted_tx w')"
      by (cases rule: pg_stmt_cases) (use s in auto)
  qed
  show "pg_scoped (pg_stmt f)" "pg_scoped (pg_query q)" "pg_scoped (pg_query_row g)" "pg_scoped (pg_write h)"
    unfolding pg_query_row_def pg_query_def pg_write_def by (intro scoped_intros s)+
qed

lemma scoped_RunInTx [scoped_intros]: "pg_scoped fn \<Longrightarrow> pg_scoped (RunInTx fn)"
  by (simp add: pg_scoped_def pg_RunInTx_nested)

text \<open>A unit of work stores what a run of its function left in a transaction that was never aborted, or nothing.\<close>

lemma RunInTx_cases:
  assumes run: "RunInTx fn w = (r, w')" and tx: "saved w = None" and fn: "pg_scoped fn"
  obtains (stored) a w1 w2 where "r = Inr a \<or> (\<exists>e. r = Inl (DbError e))" "fn w1 = (Inr a, w2)" "pg_data (db w1) = pg_data (db w)"
      "saved w1 = Some (db w)" "pg_now w1 = snow w" "\<not> aborted_tx w1" "\<not> aborted_tx w2" "db w' = db w2" "saved w' = None"
  | (undone) e where "r = Inl e" "db w' = db w" "saved w' = None"
proof -
  from run pg_RunInTx_own [OF tx, of fn] have run: "pg_own_tx fn w = (r, w')" by simp
  obtain rb w1 where b: "pg_begin w = (rb, w1)" by fastforce
  show thesis
  proof (cases rb)
    case (Inl e)
    from b Inl have w1: "db w1 = db w" "saved w1 = saved w" by (auto simp: pg_begin_def begin_tx_def drop_fault_def split: fault.splits)
    from run Inl have "r = Inl e" "w' = w1" by (auto simp: pg_own_tx_def bindA_run [of pg_begin, OF b])
    with w1 tx show thesis using undone [of e] by simp
  next
    case (Inr u)
    with b have w1: "pg_data (db w1) = pg_data (db w)" "pg_now w1 = snow w" "saved w1 = Some (db w)" "\<not> aborted_tx w1"
      by (auto simp: pg_begin_def begin_tx_def pg_now_def aborted_tx_def split: fault.splits)
    obtain rf w2 where f: "fn w1 = (rf, w2)" by fastforce
    from pg_scopedD(1) [OF fn f] w1(3) have s2: "saved w2 = Some (db w)" by simp
    from run b Inr have k: "tryA fn (\<lambda>e. tryA rollback (\<lambda>_. throw e) (\<lambda>_. throw e)) (\<lambda>a. bindA pg_commit (\<lambda>_. ret a)) w1 = (r, w')"
      by (simp add: pg_own_tx_def bindA_run [of pg_begin])
    show thesis
    proof (cases rf)
      case (Inl e)
      with k f s2 show thesis
        by (intro undone [of e]) (auto simp: tryA_def rollback_def restore_def drop_fault_def throw_def split: fault.splits)
    next
      case (Inr a)
      obtain rc w3 where c: "pg_commit w2 = (rc, w3)" by fastforce
      with k f Inr have r: "w3 = w'" "r = (case rc of Inl e \<Rightarrow> Inl e | Inr _ \<Rightarrow> Inr a)"
        by (auto simp: tryA_def bindA_run [of pg_commit] ret_def split: sum.splits)
      show thesis
      proof (cases "aborted_tx w2")
        case True
        with c r s2 show thesis by (intro undone) (auto simp: pg_commit_def restore_def drop_fault_def)
      next
        case False
        note commits = stored [of a w1 w2, OF _ _ w1(1,3,2,4) False]
        show thesis
        proof (cases "next_fault w2")
          case NoFault
          with c r False f Inr show thesis by (intro commits) (auto simp: pg_commit_def commit_def drop_fault_def)
        next
          case (FaultBefore e)
          with c r False s2 show thesis
            by (intro undone) (auto simp: pg_commit_def commit_def restore_def drop_fault_def)
        next
          case (FaultAfter e)
          with c r False f Inr show thesis by (intro commits) (auto simp: pg_commit_def commit_def drop_fault_def)
        qed
      qed
    qed
  qed
qed

section \<open>Errors that are dropped\<close>

text \<open>A function that runs statements one after the other and ignores their errors.\<close>

definition attempt :: "('d, unit) pgsql \<Rightarrow> ('d, unit) pgsql" where
  "attempt m = tryA m (\<lambda>_. ret ()) ret"

definition attempts :: "(time \<Rightarrow> 'd \<Rightarrow> (db_error + unit) \<times> 'd) list \<Rightarrow> ('d, unit) pgsql" where
  "attempts stmts = forA (\<lambda>f. attempt (pg_stmt f)) stmts"

lemma scoped_attempts [scoped_intros]: "pg_scoped (attempts stmts)"
  unfolding attempts_def attempt_def by (intro scoped_intros)

text \<open>If the transaction was not aborted, every statement succeeded.\<close>

lemma attempts_clean:
  assumes "attempts stmts w = (r, w')" and "saved w \<noteq> None" and "\<not> aborted_tx w'"
  shows "forA pg_stmt stmts w = (Inr (), w')"
  using assms
proof (induction stmts arbitrary: w)
  case Nil
  then show ?case by (simp add: attempts_def ret_def)
next
  case (Cons f stmts)
  obtain rf w1 where f: "pg_stmt f w = (rf, w1)" by fastforce
  with Cons.prems(1) have rest: "attempts stmts w1 = (r, w')"
    by (cases rf) (auto simp: attempts_def attempt_def bindA_def tryA_def ret_def)
  from f show ?case
  proof (cases rule: pg_stmt_cases)
    case (ok a d)
    then have "forA pg_stmt stmts w1 = (Inr (), w')" using Cons.IH [OF rest] Cons.prems(2,3) by simp
    with f ok(1) show ?thesis by (simp add: bindA_def tryA_def)
  next
    case (failed e)
    then have "aborted_tx w1" "saved w1 \<noteq> None" using Cons.prems(2) by simp_all
    from pg_scopedD(2) [OF scoped_attempts rest this(2,1)] Cons.prems(3) show ?thesis by simp
  qed
qed


definition demo_writes :: "(time \<Rightarrow> int list \<Rightarrow> (db_error + unit) \<times> int list) list" where
  "demo_writes = [\<lambda>_ d. (Inr (), d @ [1]), \<lambda>_ d. (Inl (PgError ''23505'' ''k''), d), \<lambda>_ d. (Inr (), d @ [3])]"


end
