(* ===== verification/Pg_Conn.thy ===== *)
theory Pg_Conn
  imports Go_Url "HOL-Library.Word"
begin

text \<open>
  Connecting, \<open>postgres/conn.go\<close>: the connection string of a configuration and the opening of a pool. The driver's
  functions are the parameter \<open>pool_driver\<close>; the calls that open, check and close a pool are recorded. What the
  driver reads from a connection URI is the parameter \<open>creds\<close>, with what it documents of URIs of the form the adapter writes
  as a hypothesis.
\<close>

record pg_config =
  cf_Host :: string
  cf_Port :: "16 word"
  cf_Database :: string
  cf_User :: string
  cf_Password :: string
  cf_SSLMode :: string
  cf_MaxConns :: "32 word"
  cf_MinConns :: "32 word"

definition ConnString :: "pg_config \<Rightarrow> string" where
  "ConnString c = (let sslMode = (if cf_SSLMode c = [] then ''disable'' else cf_SSLMode c) in
     ''postgres://'' @ query_escape (cf_User c) @ '':'' @ query_escape (cf_Password c) @ ''@'' @
     cf_Host c @ '':'' @ format_int (uint (cf_Port c)) @ ''/'' @ cf_Database c @ ''?sslmode='' @ sslMode)"

section \<open>Pools\<close>

record 'x pool_config =
  pc_MaxConns :: "32 word"
  pc_MinConns :: "32 word"
  pc_rest :: 'x

record ('x, 'p) pool_driver =
  drv_ParseConfig :: "string \<Rightarrow> string + 'x pool_config"
  drv_NewWithConfig :: "'x pool_config \<Rightarrow> string + 'p"
  drv_Ping :: "'p \<Rightarrow> string option"

datatype conn_error = ParseFailed string | CreateFailed string | PingFailed string

datatype 'p pool_call = Opened 'p | Pinged 'p | Closed 'p

definition sized :: "pg_config \<Rightarrow> 'x pool_config \<Rightarrow> 'x pool_config" where
  "sized cfg pc = (let pc1 = (if 0 <s cf_MaxConns cfg then pc\<lparr>pc_MaxConns := cf_MaxConns cfg\<rparr> else pc)
     in if 0 <s cf_MinConns cfg then pc1\<lparr>pc_MinConns := cf_MinConns cfg\<rparr> else pc1)"

definition NewPool :: "('x, 'p) pool_driver \<Rightarrow> pg_config \<Rightarrow> (conn_error + 'p) \<times> 'p pool_call list" where
  "NewPool drv cfg = (case drv_ParseConfig drv (ConnString cfg) of
      Inl err \<Rightarrow> (Inl (ParseFailed err), [])
    | Inr poolCfg \<Rightarrow> (case drv_NewWithConfig drv (sized cfg poolCfg) of
        Inl err \<Rightarrow> (Inl (CreateFailed err), [])
      | Inr pool \<Rightarrow> (case drv_Ping drv pool of
          Some err \<Rightarrow> (Inl (PingFailed err), [Opened pool, Pinged pool, Closed pool])
        | None \<Rightarrow> (Inr pool, [Opened pool, Pinged pool]))))"

text \<open>The pools left open are exactly the one returned; it answered, and it was opened with the sizes asked for.\<close>

lemma NewPool_no_leak:
  assumes "NewPool drv cfg = (r, calls)"
  shows "{p. Opened p \<in> set calls \<and> Closed p \<notin> set calls} = (case r of Inl _ \<Rightarrow> {} | Inr p \<Rightarrow> {p})"
    and "r = Inr p \<Longrightarrow> drv_Ping drv p = None \<and> (\<exists>pc. drv_ParseConfig drv (ConnString cfg) = Inr pc \<and>
      drv_NewWithConfig drv (sized cfg pc) = Inr p)"
  using assms by (auto simp: NewPool_def split: sum.splits option.splits)

section \<open>Credentials\<close>

text \<open>What the driver documents of a connection URI, for URIs of the form the adapter writes: with a host, a port, a
  database and a mode that need no escaping, the user and the password are its percent-decoded user information. Texts
  of unreserved characters, escapes and plus signs are valid there; empty ones are replaced by defaults and left out.\<close>

definition userinfo_text :: "string \<Rightarrow> bool" where
  "userinfo_text s \<longleftrightarrow> s \<noteq> [] \<and> (\<forall>c \<in> set s. unreserved c \<or> c \<in> set ''%+'')"

definition plain_text :: "string \<Rightarrow> bool" where
  "plain_text s \<longleftrightarrow> s \<noteq> [] \<and> (\<forall>c \<in> set s. unreserved c)"

definition ssl_modes :: "string list" where
  "ssl_modes = [''disable'', ''allow'', ''prefer'', ''require'', ''verify-ca'', ''verify-full'']"

definition decoded_pair :: "string \<Rightarrow> string \<Rightarrow> (string \<times> string) option" where
  "decoded_pair u p = (case (percent_decode u, percent_decode p) of (Some a, Some b) \<Rightarrow> Some (a, b) | _ \<Rightarrow> None)"

definition reads_userinfo :: "(string \<Rightarrow> (string \<times> string) option) \<Rightarrow> bool" where
  "reads_userinfo creds \<longleftrightarrow> (\<forall>u p host (port :: 16 word) database mode.
     userinfo_text u \<longrightarrow> userinfo_text p \<longrightarrow> plain_text host \<longrightarrow> port \<noteq> 0 \<longrightarrow> plain_text database \<longrightarrow> mode \<in> set ssl_modes \<longrightarrow>
     creds (''postgres://'' @ u @ '':'' @ p @ ''@'' @ host @ '':'' @ format_int (uint port) @ ''/'' @ database @ ''?sslmode='' @ mode)
       = decoded_pair u p)"

text \<open>C37. For a host and a database of unreserved characters, a port other than 0, one of the driver's modes (or none)
  and a user and a password that are not empty, the driver reads the configured user and password from the connection
  string exactly if neither contains a space: every other character survives, and each space arrives as a plus sign.\<close>

theorem ConnString_credentials:
  assumes "reads_userinfo creds" and "cf_User c \<noteq> []" and "cf_Password c \<noteq> []"
    and "plain_text (cf_Host c)" and "plain_text (cf_Database c)" and "cf_Port c \<noteq> 0"
    and "cf_SSLMode c \<in> set ([] # ssl_modes)"
  shows "creds (ConnString c) = Some (map (\<lambda>x. if x = CHR '' '' then CHR ''+'' else x) (cf_User c),
      map (\<lambda>x. if x = CHR '' '' then CHR ''+'' else x) (cf_Password c)) \<and>
    (creds (ConnString c) = Some (cf_User c, cf_Password c) \<longleftrightarrow> CHR '' '' \<notin> set (cf_User c) \<union> set (cf_Password c))"
proof -
  let ?plus = "\<lambda>x. if x = CHR '' '' then CHR ''+'' else x"
  have ui: "userinfo_text (query_escape s)" if "s \<noteq> []" for s
    using that query_escape_chars [of _ s] percent_decode_query_escape [of s] by (auto simp: userinfo_text_def)
  have mode: "(if cf_SSLMode c = [] then ''disable'' else cf_SSLMode c) \<in> set ssl_modes"
    using assms(7) by (auto simp: ssl_modes_def)
  have "creds (ConnString c) = decoded_pair (query_escape (cf_User c)) (query_escape (cf_Password c))"
    unfolding ConnString_def Let_def
    by (rule assms(1) [unfolded reads_userinfo_def, rule_format]) (use assms(2-6) ui mode in blast)+
  then have run: "creds (ConnString c) = Some (map ?plus (cf_User c), map ?plus (cf_Password c))"
    by (simp add: decoded_pair_def percent_decode_query_escape)
  have "map ?plus s = s \<longleftrightarrow> CHR '' '' \<notin> set s" for s by (induction s) auto
  with run show ?thesis by auto
qed

text \<open>A reader of connection URIs: the text after the scheme and up to the at sign, split at its first colon.\<close>

definition split_userinfo :: "string \<Rightarrow> (string \<times> string) option" where
  "split_userinfo s = (let info = takeWhile (\<lambda>c. c \<noteq> CHR ''@'') (drop 11 s); u = takeWhile (\<lambda>c. c \<noteq> CHR '':'') info
     in decoded_pair u (drop (length u + 1) info))"

lemma split_userinfo_reads: "reads_userinfo split_userinfo"
  unfolding reads_userinfo_def
proof (intro allI impI)
  fix u p host database mode and port :: "16 word" assume u: "userinfo_text u" and p: "userinfo_text p"
  let ?rest = "host @ '':'' @ format_int (uint port) @ ''/'' @ database @ ''?sslmode='' @ mode"
  have n: "c \<noteq> CHR '':'' \<and> c \<noteq> CHR ''@''" if "unreserved c \<or> c \<in> set ''%+''" for c
    using that by (auto simp: unreserved_def is_digit_def)
  have a: "\<forall>c \<in> set u. c \<noteq> CHR '':'' \<and> c \<noteq> CHR ''@''" "\<forall>c \<in> set p. c \<noteq> CHR ''@''"
    using u p n unfolding userinfo_text_def by blast+
  then have 1: "takeWhile (\<lambda>c. c \<noteq> CHR ''@'') (u @ '':'' @ p @ ''@'' @ ?rest) = u @ '':'' @ p"
    by (subst takeWhile_append2) auto
  from a have 2: "takeWhile (\<lambda>c. c \<noteq> CHR '':'') (u @ '':'' @ p) = u"
    by (subst takeWhile_append2) auto
  show "split_userinfo (''postgres://'' @ u @ '':'' @ p @ ''@'' @ ?rest) = decoded_pair u p"
    using 1 2 by (simp add: split_userinfo_def Let_def)
qed

definition demo_config :: pg_config where
  "demo_config = \<lparr>cf_Host = ''db'', cf_Port = 5432, cf_Database = ''app'', cf_User = ''u'', cf_Password = ''a b:/@'',
     cf_SSLMode = [], cf_MaxConns = 4, cf_MinConns = 0\<rparr>"

theorem ConnString_credentials_witness:
  "split_userinfo (ConnString demo_config) = Some (''u'', ''a+b:/@'') \<and>
   split_userinfo (ConnString demo_config) \<noteq> Some (cf_User demo_config, cf_Password demo_config)"
  using ConnString_credentials [OF split_userinfo_reads, of demo_config] by (simp add: demo_config_def plain_text_def unreserved_def is_digit_def)

end
