(* ===== verification/Pg_Migrate.thy ===== *)
theory Pg_Migrate
  imports Pg_Base My_Migrate_Props
begin

text \<open>
  The migrations of \<open>postgres/migrate.go\<close>: each file runs in a transaction of its own together with the row that
  records it. What a file does to the rest of the database is the parameter \<open>ddl\<close>; it is sent as one batch and
  controls no transaction of its own. The ledger table \<open>schema_migrations\<close> is the adapter's. The embedded files are
  the \<open>mig_fs\<close> of \<open>My_Migrate\<close>. The pool is used directly, so no transaction is open when a run begins.
\<close>

record 't pg_mig =
  pm_ledger :: "(string \<times> string) list option"
  pm_schema :: 't

type_synonym 't pg_server = "string \<Rightarrow> 't \<Rightarrow> db_error + 't"

definition pg_undefined_table :: db_error where "pg_undefined_table = PgError ''42P01'' []"

definition migrationsDir :: string where "migrationsDir = ''migrations''"

section \<open>Statements\<close>

definition create_schema_migrations :: "('t pg_mig, unit) pgsql" where
  "create_schema_migrations = pg_write (\<lambda>_ d. Inr ((), case pm_ledger d of
      None \<Rightarrow> d\<lparr>pm_ledger := Some []\<rparr> | Some _ \<Rightarrow> d))"

definition loadAppliedMigrations :: "('t pg_mig, string list) pgsql" where
  "loadAppliedMigrations =
     bindA (pg_write (\<lambda>_ d. case pm_ledger d of None \<Rightarrow> Inl pg_undefined_table | Some rows \<Rightarrow> Inr (rows, d))) (\<lambda>rows.
     if \<exists>(filename, status) \<in> set rows. status \<noteq> ''applied''
     then throw (OtherError ''manual intervention required'')
     else ret (map fst rows))"

definition run_file :: "'t pg_server \<Rightarrow> string \<Rightarrow> ('t pg_mig, unit) pgsql" where
  "run_file ddl sql = pg_write (\<lambda>_ d. case ddl sql (pm_schema d) of
      Inl e \<Rightarrow> Inl e | Inr t \<Rightarrow> Inr ((), d\<lparr>pm_schema := t\<rparr>))"

definition record_migration :: "string \<Rightarrow> ('t pg_mig, unit) pgsql" where
  "record_migration name = pg_write (\<lambda>_ d. case pm_ledger d of
      None \<Rightarrow> Inl pg_undefined_table
    | Some rows \<Rightarrow> (case pg_insert_row [(''schema_migrations_pkey'', \<lambda>r. Some (fst r))] (name, ''applied'') rows of
        Inl e \<Rightarrow> Inl e | Inr rows' \<Rightarrow> Inr ((), d\<lparr>pm_ledger := Some rows'\<rparr>)))"

text \<open>The deferred rollback after a failed commit finds the transaction closed.\<close>

definition applyMigrationFile :: "'t pg_server \<Rightarrow> string \<Rightarrow> string \<Rightarrow> ('t pg_mig, unit) pgsql" where
  "applyMigrationFile ddl name sql =
     bindA pg_begin (\<lambda>_.
     tryA (bindA (run_file ddl sql) (\<lambda>_. record_migration name))
       (\<lambda>err. tryA rollback (\<lambda>_. throw err) (\<lambda>_. throw err))
       (\<lambda>_. bindA pg_commit (\<lambda>_. ret ())))"

section \<open>A run\<close>

definition migrationFilenames :: "mig_fs \<Rightarrow> string \<Rightarrow> repo_error + string list" where
  "migrationFilenames fsys dir = (case fs_ReadDir fsys dir of
      None \<Rightarrow> Inl (OtherError ''read migrations dir'')
    | Some entries \<Rightarrow> Inr (sort (map fst (filter (\<lambda>e. \<not> snd e) entries))))"

definition migrate_file :: "'t pg_server \<Rightarrow> mig_fs \<Rightarrow> string \<Rightarrow> string \<Rightarrow> ('t pg_mig, unit) pgsql" where
  "migrate_file ddl fsys dir name = (case fs_ReadFile fsys (dir @ ''/'' @ name) of
      None \<Rightarrow> throw (OtherError ''read migration'')
    | Some data \<Rightarrow> applyMigrationFile ddl name data)"

definition migratePool :: "'t pg_server \<Rightarrow> mig_fs \<Rightarrow> string \<Rightarrow> ('t pg_mig, unit) pgsql" where
  "migratePool ddl fsys dir =
     bindA create_schema_migrations (\<lambda>_.
     bindA loadAppliedMigrations (\<lambda>applied.
     bindA (liftA (migrationFilenames fsys dir)) (\<lambda>names.
     forA (\<lambda>name. if name \<in> set applied then ret () else migrate_file ddl fsys dir name) names)))"

definition Migrate :: "'t pg_server \<Rightarrow> mig_fs \<Rightarrow> ('t pg_mig, unit) pgsql" where
  "Migrate ddl fsys = migratePool ddl fsys migrationsDir"

section \<open>What a run does\<close>

definition ledger_names :: "'t pg_mig \<Rightarrow> string list" where
  "ledger_names d = (case pm_ledger d of None \<Rightarrow> [] | Some rows \<Rightarrow> map fst rows)"

text \<open>The files still to be applied, in the order of their names, and what applying some of them makes of a schema.\<close>

definition todo :: "mig_fs \<Rightarrow> 't pg_mig \<Rightarrow> string list" where
  "todo fsys d = (case migrationFilenames fsys migrationsDir of
      Inl _ \<Rightarrow> [] | Inr names \<Rightarrow> filter (\<lambda>n. n \<notin> set (ledger_names d)) names)"

fun run_files :: "'t pg_server \<Rightarrow> mig_fs \<Rightarrow> string list \<Rightarrow> 't \<Rightarrow> 't option" where
  "run_files ddl fsys [] t = Some t"
| "run_files ddl fsys (n # ns) t = (case fs_ReadFile fsys (migrationsDir @ ''/'' @ n) of
      None \<Rightarrow> None
    | Some sql \<Rightarrow> (case ddl sql t of Inl _ \<Rightarrow> None | Inr t' \<Rightarrow> run_files ddl fsys ns t'))"

lemma applyMigrationFile_own: "applyMigrationFile ddl name sql = pg_own_tx (bindA (run_file ddl sql) (\<lambda>_. record_migration name))"
  by (simp add: applyMigrationFile_def pg_own_tx_def)

text \<open>A file is applied and recorded, or neither; a recorded file is not applied again, whatever the caller knew.\<close>

lemma applyMigrationFile_effect:
  assumes run: "applyMigrationFile ddl name sql w = (r, w')" and tx: "saved w = None"
  shows "saved w' = None \<and> (pg_data (db w') = pg_data (db w) \<and> isl r \<or>
    (\<exists>rows t. pm_ledger (pg_data (db w)) = Some rows \<and> name \<notin> fst ` set rows \<and> ddl sql (pm_schema (pg_data (db w))) = Inr t \<and>
       pg_data (db w') = \<lparr>pm_ledger = Some (rows @ [(name, ''applied'')]), pm_schema = t\<rparr>))"
proof -
  let ?body = "bindA (run_file ddl sql) (\<lambda>_. record_migration name)"
  have sane: "pg_sane ?body" unfolding run_file_def record_migration_def by (intro pg_sane_intros)
  have ok: "\<exists>rows t. pm_ledger (pg_data (db w1)) = Some rows \<and> name \<notin> fst ` set rows \<and> ddl sql (pm_schema (pg_data (db w1))) = Inr t \<and>
      pg_data (db w2) = \<lparr>pm_ledger = Some (rows @ [(name, ''applied'')]), pm_schema = t\<rparr>"
    if "?body w1 = (Inr a, w2)" for a w1 w2
  proof -
    from that obtain u w3 where b: "run_file ddl sql w1 = (Inr u, w3)" "record_migration name w3 = (Inr a, w2)"
      by (auto simp: bindA_Inr)
    from pg_write_Inr [OF b(1) [unfolded run_file_def]] pg_write_Inr [OF b(2) [unfolded record_migration_def]]
    show ?thesis by (auto simp: pg_insert_Inr clashes_def split: sum.splits option.splits)
  qed
  from run [unfolded applyMigrationFile_own] tx sane show ?thesis
  proof (cases rule: pg_own_tx_cases)
    case (committed a w1 w2)
    with ok [OF committed(2)] show ?thesis by auto
  next
    case (unanswered e a w1 w2)
    with ok [OF unanswered(2)] show ?thesis by auto
  qed auto
qed

lemma migrate_file_effect:
  assumes run: "migrate_file ddl fsys migrationsDir name w = (r, w')" and tx: "saved w = None"
  shows "saved w' = None \<and> (pg_data (db w') = pg_data (db w) \<and> isl r \<or>
    ledger_names (pg_data (db w')) = ledger_names (pg_data (db w)) @ [name] \<and>
    run_files ddl fsys [name] (pm_schema (pg_data (db w))) = Some (pm_schema (pg_data (db w'))))"
proof (cases "fs_ReadFile fsys (migrationsDir @ ''/'' @ name)")
  case None
  with run tx show ?thesis by (auto simp: migrate_file_def throw_def)
next
  case (Some sql)
  with run have "applyMigrationFile ddl name sql w = (r, w')" by (simp add: migrate_file_def)
  from applyMigrationFile_effect [OF this tx] Some show ?thesis by (auto simp: ledger_names_def)
qed

lemma migrate_files:
  assumes "forA (migrate_file ddl fsys migrationsDir) names w = (r, w')" and "saved w = None"
  shows "saved w' = None \<and> (\<exists>k \<le> length names. ledger_names (pg_data (db w')) = ledger_names (pg_data (db w)) @ take k names \<and>
    run_files ddl fsys (take k names) (pm_schema (pg_data (db w))) = Some (pm_schema (pg_data (db w'))) \<and>
    (r = Inr () \<longrightarrow> k = length names))"
  using assms
proof (induction names arbitrary: w)
  case Nil
  then show ?case by (simp add: ret_def)
next
  case (Cons n ns)
  obtain r1 w1 where one: "migrate_file ddl fsys migrationsDir n w = (r1, w1)" by fastforce
  note eff = migrate_file_effect [OF one Cons.prems(2)]
  show ?case
  proof (cases r1)
    case (Inl e)
    with Cons.prems(1) one have r: "r = Inl e" "w' = w1" by (simp_all add: bindA_run [of "migrate_file ddl fsys migrationsDir n" w])
    from eff show ?thesis
    proof (elim conjE disjE)
      assume "saved w1 = None" "pg_data (db w1) = pg_data (db w)"
      with r show ?thesis by (intro conjI exI [of _ 0]) simp_all
    next
      assume "saved w1 = None" "ledger_names (pg_data (db w1)) = ledger_names (pg_data (db w)) @ [n]"
        "run_files ddl fsys [n] (pm_schema (pg_data (db w))) = Some (pm_schema (pg_data (db w1)))"
      with r show ?thesis by (intro conjI exI [of _ 1]) simp_all
    qed
  next
    case (Inr u)
    with Cons.prems(1) one have rest: "forA (migrate_file ddl fsys migrationsDir) ns w1 = (r, w')"
      by (simp add: bindA_run [of "migrate_file ddl fsys migrationsDir n" w])
    from eff Inr have 1: "saved w1 = None" "ledger_names (pg_data (db w1)) = ledger_names (pg_data (db w)) @ [n]"
      "run_files ddl fsys [n] (pm_schema (pg_data (db w))) = Some (pm_schema (pg_data (db w1)))" by auto
    from Cons.IH [OF rest 1(1)] obtain k where k: "saved w' = None" "k \<le> length ns"
      "ledger_names (pg_data (db w')) = ledger_names (pg_data (db w1)) @ take k ns"
      "run_files ddl fsys (take k ns) (pm_schema (pg_data (db w1))) = Some (pm_schema (pg_data (db w')))"
      "r = Inr () \<longrightarrow> k = length ns" by blast
    from 1 k show ?thesis by (intro conjI exI [of _ "Suc k"]) (auto split: option.splits sum.splits)
  qed
qed

lemma pg_write_same:
  assumes "pg_write f w = (r, w')" and "saved w = None" and "\<And>now a d'. f now (pg_data (db w)) = Inr (a, d') \<Longrightarrow> P d'" and "P (pg_data (db w))"
  shows "saved w' = None \<and> P (pg_data (db w'))"
  using assms(1) [unfolded pg_write_def]
proof (cases rule: pg_stmt_cases)
  case (ok a d)
  with assms(2-4) show ?thesis by (auto split: sum.splits prod.splits)
next
  case (failed e)
  with assms(2-4) show ?thesis by (auto split: sum.splits prod.splits)
qed

lemma pg_loadApplied_effect:
  assumes "loadAppliedMigrations w = (r, w')" and "saved w = None"
  shows "saved w' = None \<and> pg_data (db w') = pg_data (db w) \<and> (\<forall>applied. r = Inr applied \<longrightarrow> applied = ledger_names (pg_data (db w)))"
proof -
  let ?q = "pg_write (\<lambda>_ d. case pm_ledger d of None \<Rightarrow> Inl pg_undefined_table | Some rows \<Rightarrow> Inr (rows, d))"
  obtain q w1 where st: "?q w = (q, w1)" by fastforce
  have 1: "saved w1 = None \<and> pg_data (db w1) = pg_data (db w)"
    using st assms(2) by (rule pg_write_same) (auto split: option.splits)
  show ?thesis
  proof (cases q)
    case (Inl e)
    with assms(1) 1 show ?thesis by (auto simp: loadAppliedMigrations_def bindA_run [of ?q w, OF st])
  next
    case (Inr rows)
    from pg_write_Inr [OF st [unfolded Inr]] have "pm_ledger (pg_data (db w)) = Some rows" by (auto split: option.splits)
    with assms(1) 1 Inr show ?thesis
      by (auto simp: loadAppliedMigrations_def bindA_run [of ?q w, OF st] throw_def ret_def ledger_names_def split: if_splits)
  qed
qed

text \<open>C38. A run of the migrations executes, in the order of the names, the first \<open>k\<close> of the files that were not
  recorded, each once and completely, and records exactly these: the schema afterwards is what these files made of the
  schema before, whatever statement or commit fails. A success means all of them. So the next run goes on where this one
  stopped.\<close>

theorem pg_Migrate_exact:
  assumes "saved w = None" and "Migrate ddl fsys w = (r, w')"
  shows "saved w' = None \<and> (\<exists>k \<le> length (todo fsys (pg_data (db w))).
    ledger_names (pg_data (db w')) = ledger_names (pg_data (db w)) @ take k (todo fsys (pg_data (db w))) \<and>
    run_files ddl fsys (take k (todo fsys (pg_data (db w)))) (pm_schema (pg_data (db w))) = Some (pm_schema (pg_data (db w'))) \<and>
    (r = Inr () \<longrightarrow> k = length (todo fsys (pg_data (db w)))))"
proof -
  let ?same = "\<lambda>d. ledger_names d = ledger_names (pg_data (db w)) \<and> pm_schema d = pm_schema (pg_data (db w))"
  let ?rest = "\<lambda>applied. bindA (liftA (migrationFilenames fsys migrationsDir)) (forA (\<lambda>name.
      if name \<in> set applied then ret () else migrate_file ddl fsys migrationsDir name))"
  have stop: ?thesis if "saved w' = None" "?same (pg_data (db w'))" "isl r"
    using that by (intro conjI exI [of _ 0]) auto
  obtain r1 w1 where c: "create_schema_migrations w = (r1, w1)" by fastforce
  have w1: "saved w1 = None \<and> ?same (pg_data (db w1))"
    using c [unfolded create_schema_migrations_def] assms(1)
    by (rule pg_write_same) (auto simp: ledger_names_def split: option.splits)
  obtain r2 w2 where l: "loadAppliedMigrations w1 = (r2, w2)" by fastforce
  from pg_loadApplied_effect [OF l] w1 have w2: "saved w2 = None" "pg_data (db w2) = pg_data (db w1)"
    "\<And>applied. r2 = Inr applied \<Longrightarrow> applied = ledger_names (pg_data (db w))" by (auto simp: ledger_names_def)
  note step = bindA_run [of create_schema_migrations w, OF c] bindA_run [of loadAppliedMigrations w1, OF l]
  show ?thesis
  proof (cases "isl r1 \<or> isl r2")
    case True
    then have "isl r \<and> (w' = w1 \<or> w' = w2)"
      using assms(2) by (cases r1) (auto simp: Migrate_def migratePool_def step split: sum.splits)
    with stop w1 w2 show ?thesis by auto
  next
    case False
    then obtain u applied where ok: "r1 = Inr u" "r2 = Inr applied" by (metis isl_def sum.collapse(2))
    then have ap: "applied = ledger_names (pg_data (db w))" using w2(3) by blast
    show ?thesis
    proof (cases "migrationFilenames fsys migrationsDir")
      case (Inl e)
      then have "isl r \<and> w' = w2"
        using assms(2) ok by (auto simp: Migrate_def migratePool_def step bindA_def [of "liftA _"] tryA_def liftA_def)
      with stop w1 w2 show ?thesis by auto
    next
      case (Inr names)
      then have "forA (migrate_file ddl fsys migrationsDir) (todo fsys (pg_data (db w))) w2 = (r, w')"
        using assms(2) ok ap forA_skip [of "\<lambda>n. n \<in> set applied" "migrate_file ddl fsys migrationsDir" names]
        by (auto simp: Migrate_def migratePool_def step todo_def bindA_def [of "liftA _"] tryA_def liftA_def)
      from migrate_files [OF this] w1 w2 show ?thesis by simp
    qed
  qed
qed

text \<open>A run whose second file fails after its statements ran, and the run after it.\<close>

definition pg_demo_ddl :: "string list pg_server" where
  "pg_demo_ddl sql t = Inr (t @ [sql])"

definition pg_demo_mig :: "fault list \<Rightarrow> string list pg_mig pg_db world" where
  "pg_demo_mig fs = (pg_demo 6 \<lparr>pm_ledger = None, pm_schema = []\<rparr>)\<lparr>faults := fs\<rparr>"

theorem pg_Migrate_exact_witness:
  "\<exists>w1 w2. snd (Migrate pg_demo_ddl demo_files (pg_demo_mig (replicate 8 NoFault @ [FaultBefore DriverError]))) = w1 \<and>
     pm_schema (pg_data (db w1)) = [''CREATE a; CREATE b;''] \<and> ledger_names (pg_data (db w1)) = [''a.sql''] \<and>
     Migrate pg_demo_ddl demo_files (w1\<lparr>faults := []\<rparr>) = (Inr (), w2) \<and>
     pm_schema (pg_data (db w2)) = [''CREATE a; CREATE b;'', ''DROP a''] \<and> ledger_names (pg_data (db w2)) = [''a.sql'', ''b.sql'']"
proof -
  let ?w1 = "snd (Migrate pg_demo_ddl demo_files (pg_demo_mig (replicate 8 NoFault @ [FaultBefore DriverError])))"
  have 1: "pm_schema (pg_data (db ?w1)) = [''CREATE a; CREATE b;'']" "ledger_names (pg_data (db ?w1)) = [''a.sql'']"
    "saved (?w1\<lparr>faults := []\<rparr>) = None" "todo demo_files (pg_data (db (?w1\<lparr>faults := []\<rparr>))) = [''b.sql'']"
    "fst (Migrate pg_demo_ddl demo_files (?w1\<lparr>faults := []\<rparr>)) = Inr ()" by code_simp+
  then obtain w2 where run: "Migrate pg_demo_ddl demo_files (?w1\<lparr>faults := []\<rparr>) = (Inr (), w2)" by (metis prod.collapse)
  from pg_Migrate_exact [OF 1(3) run] 1(1,2,4)
  have "ledger_names (pg_data (db w2)) = [''a.sql'', ''b.sql'']" "pm_schema (pg_data (db w2)) = [''CREATE a; CREATE b;'', ''DROP a'']"
    by (auto simp: demo_files_def migrationsDir_def pg_demo_ddl_def)
  with 1 run show ?thesis by blast
qed

end
