(* ===== verification/Stripe_Types.thy ===== *)
theory Stripe_Types
  imports Core_Port Go_Header
begin

text \<open>
  \<open>stripe/types.go\<close> and the wire types of the Stripe SDK that the adapter reads and writes: amounts in
  minor units, currencies and card brands. The SDK (\<open>stripe-go\<close>) is not part of the repository: the
  records here are the fields of its types that the adapter uses, and its endpoints are the parameter
  \<open>stripe_sdk\<close> of \<open>Stripe_Client\<close>. A pointer field is an option.
\<close>

definition stripeGatewayID :: string where "stripeGatewayID = ''stripe''"

text \<open>\<open>time.Unix\<close> keeps the seconds since the year 1 in 64 bits, so adding the epoch's wraps.\<close>

definition time_Unix :: "int64 \<Rightarrow> time" where
  "time_Unix sec = (sint (sec + 62135596800) - 62135596800) * second"

section \<open>Amounts\<close>

definition currencyExponent :: "string \<Rightarrow> nat option" where
  "currencyExponent c =
     (if c = CurrencyJPY then Some 0 else if c = CurrencyUSD then Some 2
      else if c = CurrencyEUR then Some 2 else None)"

definition pow10 :: "nat \<Rightarrow> int" where "pow10 n = 10 ^ n"

text \<open>An amount that is a nil pointer panics in \<open>Rat.Mul\<close>.\<close>

definition toMinorUnits :: "string \<Rightarrow> money \<Rightarrow> go_error + (int64 \<times> string)" where
  "toMinorUnits field m = (case currencyExponent (m_currency m) of
      None \<Rightarrow> Inl (GatewayError CurrencyNotSupported [] False None)
    | Some e \<Rightarrow> (case m_amount m of
        None \<Rightarrow> Inl (PlainError ''panic: nil amount'')
      | Some amount \<Rightarrow>
          let scaled = amount * of_int (pow10 e) in
          if \<not> rat_is_int scaled then Inl (ValidationError field)
          else if \<not> is_int64 (rat_num scaled) then Inl (ValidationError field)
          else if sint (word_of_int (rat_num scaled) :: int64) \<le> 0 then Inl (ValidationError field)
          else Inr (word_of_int (rat_num scaled), to_lower (m_currency m))))"

definition fromMinorUnits :: "int64 \<Rightarrow> string \<Rightarrow> go_error + money" where
  "fromMinorUnits amount cur = (let currency = to_upper cur in
     case currencyExponent currency of
       None \<Rightarrow> Inl (GatewayError CurrencyNotSupported [] False None)
     | Some e \<Rightarrow> Inr (new_money (of_int (sint amount) / of_int (pow10 e)) currency))"

definition supportedCurrencies :: "string list" where
  "supportedCurrencies = [CurrencyJPY, CurrencyUSD, CurrencyEUR]"

definition cardBrandMap :: "(string \<times> card_brand) list" where
  "cardBrandMap = [(''visa'', Visa), (''mastercard'', Mastercard), (''amex'', Amex), (''jcb'', JCB),
     (''diners'', Diners), (''discover'', Discover)]"

definition toCardBrand :: "string \<Rightarrow> card_brand" where
  "toCardBrand brand = (case map_of cardBrandMap (to_lower brand) of Some b \<Rightarrow> b | None \<Rightarrow> BrandUnknown)"

section \<open>Types of the SDK\<close>

record stripe_card =
  sc_Brand :: string
  sc_Last4 :: string
  sc_ExpMonth :: int64
  sc_ExpYear :: int64
  sc_Fingerprint :: string
  sc_Country :: string
  sc_Funding :: string

record us_bank_account =
  ub_BankName :: string
  ub_RoutingNumber :: string
  ub_AccountType :: string
  ub_Last4 :: string

record payment_method =
  sm_ID :: string
  sm_Type :: string
  sm_Created :: int64
  sm_Customer :: "string option"
  sm_Card :: "stripe_card option"
  sm_USBankAccount :: "us_bank_account option"
  sm_BillingName :: "string option"

text \<open>The URLs of \<open>next_action\<close>: redirect, konbini voucher, bank-transfer instructions.\<close>

record next_action =
  na_RedirectToURL :: "string option"
  na_KonbiniVoucherURL :: "string option"
  na_BankTransferURL :: "string option"

record payment_intent =
  pi_ID :: string
  pi_Amount :: int64
  pi_AmountReceived :: int64
  pi_Currency :: string
  pi_Status :: string
  pi_Created :: int64
  pi_CanceledAt :: int64
  pi_Description :: string
  pi_Metadata :: "(string \<times> string) list"
  pi_Customer :: "string option"
  pi_PaymentMethod :: "payment_method option"
  pi_NextAction :: "next_action option"

record stripe_refund =
  sr_ID :: string
  sr_Amount :: int64
  sr_Currency :: string
  sr_Status :: string
  sr_Created :: int64

record stripe_address =
  sa_Line1 :: string
  sa_Line2 :: string
  sa_City :: string
  sa_State :: string
  sa_PostalCode :: string
  sa_Country :: string

record stripe_customer =
  su_ID :: string
  su_Email :: string
  su_Name :: string
  su_Description :: string
  su_Phone :: string
  su_Address :: "stripe_address option"
  su_Metadata :: "(string \<times> string) list"
  su_Created :: int64
  su_Deleted :: bool
  su_DefaultPaymentMethod :: "string option"

text \<open>The parameters of the endpoints; the list of entries of a metadata map.\<close>

record intent_params =
  ip_Amount :: int64
  ip_Currency :: string
  ip_CaptureMethod :: string
  ip_Confirm :: bool
  ip_PaymentMethod :: string
  ip_Description :: "string option"
  ip_Customer :: "string option"
  ip_ReturnURL :: "string option"
  ip_PaymentMethodTypes :: "string list"
  ip_RequestThreeDSecure :: "string option"
  ip_CustomerBalance :: "(string \<times> string) option"
  ip_AutomaticPaymentMethods :: "(bool \<times> string option) option"
  ip_Metadata :: "(string \<times> string) list"
  ip_IdempotencyKey :: "string option"

record capture_params =
  kp_AmountToCapture :: "int64 option"
  kp_Metadata :: "(string \<times> string) list"
  kp_IdempotencyKey :: "string option"

record cancel_params =
  xp_CancellationReason :: string
  xp_IdempotencyKey :: "string option"

record refund_params =
  fp_PaymentIntent :: string
  fp_Amount :: "int64 option"
  fp_Reason :: "string option"
  fp_Metadata :: "(string \<times> string) list"
  fp_IdempotencyKey :: "string option"

record address_params =
  dp_Line1 :: "string option"
  dp_Line2 :: "string option"
  dp_City :: "string option"
  dp_State :: "string option"
  dp_PostalCode :: "string option"
  dp_Country :: "string option"

record customer_params =
  up_Email :: "string option"
  up_Name :: "string option"
  up_Description :: "string option"
  up_Phone :: "string option"
  up_Address :: "address_params option"
  up_Metadata :: "(string \<times> string) list"
  up_DefaultPaymentMethod :: "string option"

section \<open>Requests and responses of the port that only this adapter fills\<close>

record stripe_charge_request = charge_request +
  cq_Metadata :: "(string \<times> string) list"

record stripe_authorize_request = authorize_request +
  aq_Metadata :: "(string \<times> string) list"

record stripe_capture_request = capture_request +
  pq_Metadata :: "(string \<times> string) list"

record stripe_refund_request = refund_request +
  rq_Metadata :: "(string \<times> string) list"

text \<open>\<open>ThreeDSecureResult\<close> with status required: its redirect URL.\<close>

record stripe_charge_response = charge_response +
  cr_ThreeDSecure :: "string option"

record stripe_authorize_response = authorize_response +
  ar_ThreeDSecure :: "string option"

record stripe_transaction = transaction +
  tx_Description :: string
  tx_ThreeDSecure :: "string option"

record stripe_card_details = card_details +
  cd_Fingerprint :: string
  cd_Country :: string
  cd_Funding :: string

record bank_account_details =
  bd_BankName :: string
  bd_BankCode :: string
  bd_AccountType :: string
  bd_AccountNumber :: string
  bd_AccountHolder :: string

record stripe_method_detail =
  md_ID :: string
  md_CustomerID :: string
  md_Type :: method_type
  md_IsDefault :: bool
  md_CreatedAt :: time
  md_Card :: "stripe_card_details option"
  md_QRCode :: "string option"
  md_BankAccount :: "bank_account_details option"

record stripe_port_customer = customer +
  cu_Description :: string
  cu_Metadata :: "(string \<times> string) list"

section \<open>Properties of amounts\<close>

lemma pow10_pos [simp]: "0 < pow10 n" "pow10 n \<noteq> 0"
  by (simp_all add: pow10_def)

lemma currency_case: "currencyExponent c = Some e \<Longrightarrow> to_upper (to_lower c) = c"
proof -
  have "to_upper (to_lower CurrencyJPY) = CurrencyJPY" "to_upper (to_lower CurrencyUSD) = CurrencyUSD"
    "to_upper (to_lower CurrencyEUR) = CurrencyEUR" by code_simp+
  then show "currencyExponent c = Some e \<Longrightarrow> to_upper (to_lower c) = c"
    by (auto simp: currencyExponent_def split: if_splits)
qed

lemma toMinorUnits_Inr:
  assumes "toMinorUnits field m = Inr (v, cur)"
  obtains e amount where "currencyExponent (m_currency m) = Some e" "m_amount m = Some amount"
    "amount * of_int (pow10 e) = of_int (sint v)" "0 < sint v" "cur = to_lower (m_currency m)"
proof -
  from assms obtain e amount where *: "currencyExponent (m_currency m) = Some e" "m_amount m = Some amount"
    "rat_is_int (amount * of_int (pow10 e))" "is_int64 (rat_num (amount * of_int (pow10 e)))"
    "v = word_of_int (rat_num (amount * of_int (pow10 e)))" "0 < sint v" "cur = to_lower (m_currency m)"
    by (auto simp: toMinorUnits_def Let_def split: option.splits if_splits)
  then have "sint v = rat_num (amount * of_int (pow10 e))" by (simp add: sint_of_int64)
  with * rat_is_int_eq [OF *(3)] show thesis by (intro that) auto
qed

end
