(* ===== verification/Stripe_Gateway.thy ===== *)
theory Stripe_Gateway
  imports Stripe_Types
begin

text \<open>
  The Stripe client and payment gateway (\<open>stripe/client.go\<close>, \<open>stripe/gateway.go\<close>). The SDK's resource
  clients are the parameter \<open>stripe_sdk\<close>: each endpoint answers on a server state of any type. The
  world has that state, the injected clock and a log of the calls made, with which theorems say what an
  operation asks of Stripe. The caller's context has no part of its own: its cancellation is a failed
  call. A fetched list is the list of its items, all pages.
\<close>

datatype stripe_call =
    NewIntent intent_params
  | CaptureIntent string capture_params
  | CancelIntent string cancel_params
  | GetIntent string
  | NewRefund refund_params
  | GetMethod string
  | AttachMethod string string
  | DetachMethod string
  | ListMethods string
  | NewCustomer customer_params
  | UpdateCustomerCall string customer_params
  | GetCustomerCall string
  | DelCustomer string

record 's stripe_sdk =
  sdk_NewIntent :: "intent_params \<Rightarrow> 's \<Rightarrow> (go_error + payment_intent) \<times> 's"
  sdk_CaptureIntent :: "string \<Rightarrow> capture_params \<Rightarrow> 's \<Rightarrow> (go_error + payment_intent) \<times> 's"
  sdk_CancelIntent :: "string \<Rightarrow> cancel_params \<Rightarrow> 's \<Rightarrow> (go_error + payment_intent) \<times> 's"
  sdk_GetIntent :: "string \<Rightarrow> 's \<Rightarrow> (go_error + payment_intent) \<times> 's"
  sdk_NewRefund :: "refund_params \<Rightarrow> 's \<Rightarrow> (go_error + stripe_refund) \<times> 's"
  sdk_GetMethod :: "string \<Rightarrow> 's \<Rightarrow> (go_error + payment_method) \<times> 's"
  sdk_AttachMethod :: "string \<Rightarrow> string \<Rightarrow> 's \<Rightarrow> (go_error + payment_method) \<times> 's"
  sdk_DetachMethod :: "string \<Rightarrow> 's \<Rightarrow> (go_error + payment_method) \<times> 's"
  sdk_ListMethods :: "string \<Rightarrow> 's \<Rightarrow> (go_error + payment_method list) \<times> 's"
  sdk_NewCustomer :: "customer_params \<Rightarrow> 's \<Rightarrow> (go_error + stripe_customer) \<times> 's"
  sdk_UpdateCustomer :: "string \<Rightarrow> customer_params \<Rightarrow> 's \<Rightarrow> (go_error + stripe_customer) \<times> 's"
  sdk_GetCustomer :: "string \<Rightarrow> 's \<Rightarrow> (go_error + stripe_customer) \<times> 's"
  sdk_DelCustomer :: "string \<Rightarrow> 's \<Rightarrow> (go_error + stripe_customer) \<times> 's"

record 's stripe_world =
  st_srv :: 's
  st_clock :: time
  st_calls :: "stripe_call list"

type_synonym ('s, 'a) stripe = "('s stripe_world, go_error, 'a) act"

definition sdk_call :: "stripe_call \<Rightarrow> ('s \<Rightarrow> (go_error + 'a) \<times> 's) \<Rightarrow> ('s, 'a) stripe" where
  "sdk_call c f w = (case f (st_srv w) of (r, s) \<Rightarrow> (r, w\<lparr>st_srv := s, st_calls := st_calls w @ [c]\<rparr>))"

record stripe_config =
  scf_SecretKey :: string
  scf_APIBase :: string

text \<open>The backend a client is configured with: its key and the URL where one is set.\<close>

definition NewClient :: "stripe_config \<Rightarrow> go_error + (string \<times> string option)" where
  "NewClient cfg = (if scf_SecretKey cfg = [] then Inl (ValidationError ''SecretKey'')
     else Inr (scf_SecretKey cfg, if scf_APIBase cfg \<noteq> [] then Some (scf_APIBase cfg) else None))"

section \<open>Errors\<close>

text \<open>\<open>errors.As\<close> for the SDK's error.\<close>

fun as_stripe :: "go_error \<Rightarrow> (string \<times> string \<times> string \<times> int) option"
  and as_stripe_list :: "go_error list \<Rightarrow> (string \<times> string \<times> string \<times> int) option" where
  "as_stripe (StripeError ty code decline st) = Some (ty, code, decline, st)"
| "as_stripe (GatewayError _ _ _ raw) = (case raw of None \<Rightarrow> None | Some e \<Rightarrow> as_stripe e)"
| "as_stripe (PartialAuthorizeError _ _ c) = as_stripe c"
| "as_stripe (WebhookError _ c) = (case c of None \<Rightarrow> None | Some e \<Rightarrow> as_stripe e)"
| "as_stripe (HTTPError _ _ _ _ _) = None"
| "as_stripe (ValidationError _) = None"
| "as_stripe (PlainError _) = None"
| "as_stripe (JoinedErrors es) = as_stripe_list es"
| "as_stripe_list [] = None"
| "as_stripe_list (e # es) = (case as_stripe e of None \<Rightarrow> as_stripe_list es | Some h \<Rightarrow> Some h)"

definition stripeCodeMap :: "(string \<times> error_code) list" where
  "stripeCodeMap = [(''card_declined'', CardDeclined), (''expired_card'', CardExpired),
     (''incorrect_cvc'', InvalidCVC), (''invalid_cvc'', InvalidCVC), (''insufficient_funds'', InsufficientFunds),
     (''incorrect_number'', InvalidCard), (''invalid_number'', InvalidCard),
     (''invalid_expiry_month'', InvalidExpiryMonth), (''invalid_expiry_year'', InvalidExpiryYear),
     (''processing_error'', ProcessingError), (''rate_limit'', RateLimitExceeded),
     (''amount_too_small'', AmountTooSmall), (''amount_too_large'', AmountTooLarge),
     (''authentication_required'', AuthenticationRequired)]"

definition mapStripeErrorCode :: "string \<Rightarrow> string \<Rightarrow> int \<Rightarrow> error_code" where
  "mapStripeErrorCode ty code st = (case map_of stripeCodeMap code of
      Some c \<Rightarrow> c
    | None \<Rightarrow>
        if ty = ''card_error'' then CardDeclined
        else if ty = ''api_error'' then GatewayUnavailable
        else if ty = ''idempotency_error'' then DuplicateTransaction
        else if st = 429 then RateLimitExceeded
        else if st = 408 \<or> st = 504 then GatewayTimeout
        else if 500 \<le> st then GatewayUnavailable
        else ProcessingError)"

definition isRetryable :: "string \<Rightarrow> string \<Rightarrow> int \<Rightarrow> bool" where
  "isRetryable ty code st \<longleftrightarrow> code = ''rate_limit'' \<or> ty = ''api_error'' \<or> st \<in> {429, 408, 504} \<or> 500 \<le> st"

definition wrapGatewayError :: "go_error \<Rightarrow> go_error" where
  "wrapGatewayError err = (case as_stripe err of
      Some (ty, code, decline, st) \<Rightarrow>
        GatewayError (mapStripeErrorCode ty code st) decline (isRetryable ty code st) (Some err)
    | None \<Rightarrow> GatewayError GatewayUnavailable [] True (Some err))"

section \<open>Helpers\<close>

definition unixTime :: "int64 \<Rightarrow> time" where
  "unixTime sec = (if sec = 0 then zero_time else time_Unix sec)"

definition timeOrNow :: "int64 \<Rightarrow> ('s, time) stripe" where
  "timeOrNow sec = (if sec = 0 then askA st_clock else ret (time_Unix sec))"

definition keyOf :: "string \<Rightarrow> string option" where
  "keyOf key = (if key \<noteq> [] then Some key else None)"

definition resolvePaymentMethod :: "string option \<Rightarrow> string option \<Rightarrow> go_error + string" where
  "resolvePaymentMethod methodID token =
     (if methodID \<noteq> None \<and> methodID \<noteq> Some [] then Inr (the methodID)
      else if token \<noteq> None \<and> token \<noteq> Some [] then Inr (the token)
      else Inl (ValidationError ''PaymentMethodID''))"

definition isAsyncSettlementType :: "string \<Rightarrow> bool" where
  "isAsyncSettlementType t \<longleftrightarrow> t = ''konbini'' \<or> t = ''customer_balance''"

definition isChargeOnlyType :: "string \<Rightarrow> bool" where
  "isChargeOnlyType t \<longleftrightarrow> isAsyncSettlementType t \<or> t = ''paypay''"

definition requireJPY :: "string \<Rightarrow> go_error + unit" where
  "requireJPY currency = (if currency \<noteq> ''jpy'' then Inl (GatewayError CurrencyNotSupported [] False None)
     else Inr ())"

definition applyThreeDS :: "three_d_secure_request option \<Rightarrow> intent_params \<Rightarrow> intent_params" where
  "applyThreeDS tdso p = (case tdso of
      None \<Rightarrow> p
    | Some tds \<Rightarrow>
        let p1 = (if tds_ReturnURL tds \<noteq> [] then p\<lparr>ip_ReturnURL := Some (tds_ReturnURL tds)\<rparr> else p)
        in if tds_Required tds then p1\<lparr>ip_RequestThreeDSecure := Some ''any''\<rparr> else p1)"

definition applyAutomaticPaymentMethods :: "intent_params \<Rightarrow> intent_params" where
  "applyAutomaticPaymentMethods p = p\<lparr>ip_AutomaticPaymentMethods :=
     Some (True, if ip_ReturnURL p = None then Some ''never'' else None)\<rparr>"

definition applyMethodTypeParams :: "string \<Rightarrow> three_d_secure_request option \<Rightarrow> string \<Rightarrow> string \<Rightarrow> intent_params
    \<Rightarrow> go_error + intent_params" where
  "applyMethodTypeParams pmType tds currency customerID p =
     (if pmType = ''konbini''
      then (case requireJPY currency of
          Inl e \<Rightarrow> Inl e
        | Inr _ \<Rightarrow> Inr (p\<lparr>ip_PaymentMethodTypes := [''konbini'']\<rparr>))
      else if pmType = ''customer_balance''
      then (case requireJPY currency of
          Inl e \<Rightarrow> Inl e
        | Inr _ \<Rightarrow>
            if customerID = [] then Inl (ValidationError ''CustomerID'')
            else Inr (p\<lparr>ip_PaymentMethodTypes := [''customer_balance''],
              ip_CustomerBalance := Some (''bank_transfer'', ''jp_bank_transfer'')\<rparr>))
      else if pmType = ''paypay''
      then (case requireJPY currency of
          Inl e \<Rightarrow> Inl e
        | Inr _ \<Rightarrow> (case tds of
              None \<Rightarrow> Inl (ValidationError ''ThreeDSecure.ReturnURL'')
            | Some t \<Rightarrow>
                if tds_ReturnURL t = [] then Inl (ValidationError ''ThreeDSecure.ReturnURL'')
                else Inr (p\<lparr>ip_ReturnURL := Some (tds_ReturnURL t), ip_PaymentMethodTypes := [''paypay'']\<rparr>)))
      else Inr (applyAutomaticPaymentMethods (applyThreeDS tds p)))"

definition cardFundingToMethodType :: "string \<Rightarrow> method_type" where
  "cardFundingToMethodType funding = (if funding = ''debit'' then DebitCard else CreditCard)"

definition stripePMToPortType :: "payment_method \<Rightarrow> method_type" where
  "stripePMToPortType pm =
     (if sm_Type pm = ''card''
      then (case sm_Card pm of Some c \<Rightarrow> cardFundingToMethodType (sc_Funding c) | None \<Rightarrow> CreditCard)
      else if sm_Type pm = ''konbini'' then ConvenienceStore
      else if sm_Type pm = ''customer_balance'' then BankTransfer
      else if sm_Type pm = ''paypay'' then QRCode
      else if sm_Type pm = ''us_bank_account'' then DirectDebit
      else (case sm_Card pm of
          Some c \<Rightarrow> cardFundingToMethodType (sc_Funding c)
        | None \<Rightarrow> if sm_Type pm = [] then CreditCard else MethodRaw (sm_Type pm)))"

definition intentPaymentMethodID :: "payment_intent \<Rightarrow> string" where
  "intentPaymentMethodID pint = (case pi_PaymentMethod pint of Some pm \<Rightarrow> sm_ID pm | None \<Rightarrow> [])"

definition intentPaymentMethodType :: "payment_intent \<Rightarrow> method_type" where
  "intentPaymentMethodType pint = (case pi_PaymentMethod pint of
      Some pm \<Rightarrow> (case sm_Card pm of Some c \<Rightarrow> cardFundingToMethodType (sc_Funding c) | None \<Rightarrow> CreditCard)
    | None \<Rightarrow> CreditCard)"

definition set_url :: "string option \<Rightarrow> bool" where
  "set_url u \<longleftrightarrow> u \<noteq> None \<and> u \<noteq> Some []"

definition nextActionResult :: "payment_intent \<Rightarrow> string option" where
  "nextActionResult pint = (case pi_NextAction pint of
      None \<Rightarrow> None
    | Some na \<Rightarrow>
        if set_url (na_RedirectToURL na) then na_RedirectToURL na
        else if set_url (na_KonbiniVoucherURL na) then na_KonbiniVoucherURL na
        else if set_url (na_BankTransferURL na) then na_BankTransferURL na
        else None)"

definition mapIntentStatus :: "string \<Rightarrow> transaction_status" where
  "mapIntentStatus s =
     (if s = ''succeeded'' then TxSucceeded
      else if s = ''requires_capture'' then TxAuthorized
      else if s = ''requires_action'' \<or> s = ''requires_confirmation'' then TxRequiresAction
      else if s = ''processing'' then TxPending
      else if s = ''canceled'' then TxCanceled
      else if s = ''requires_payment_method'' then TxFailed
      else TxPending)"

definition mapRefundStatus :: "string \<Rightarrow> refund_status" where
  "mapRefundStatus s = (if s = ''succeeded'' then RefundSucceeded else if s = ''failed'' then RefundFailed
     else if s = ''canceled'' then RefundCanceled else RefundPending)"

definition mapRefundReason :: "refund_reason \<Rightarrow> string option" where
  "mapRefundReason r = (case r of ReasonDuplicate \<Rightarrow> Some ''duplicate'' | ReasonFraudulent \<Rightarrow> Some ''fraudulent''
     | ReasonRequestedByCustomer \<Rightarrow> Some ''requested_by_customer'' | _ \<Rightarrow> None)"

definition toPaymentMethodDetail :: "payment_method \<Rightarrow> bool \<Rightarrow> stripe_method_detail" where
  "toPaymentMethodDetail pm isDefault =
     \<lparr>md_ID = sm_ID pm, md_CustomerID = (case sm_Customer pm of Some c \<Rightarrow> c | None \<Rightarrow> []),
      md_Type = stripePMToPortType pm, md_IsDefault = isDefault, md_CreatedAt = unixTime (sm_Created pm),
      md_Card = map_option (\<lambda>c. \<lparr>cd_Brand = toCardBrand (sc_Brand c), cd_Last4 = sc_Last4 c,
          cd_ExpYear = sint (sc_ExpYear c), cd_ExpMonth = sint (sc_ExpMonth c),
          cd_Fingerprint = sc_Fingerprint c, cd_Country = sc_Country c, cd_Funding = sc_Funding c\<rparr>) (sm_Card pm),
      md_QRCode = (if sm_Type pm = ''paypay'' then Some ''paypay'' else None),
      md_BankAccount = map_option (\<lambda>b. \<lparr>bd_BankName = ub_BankName b, bd_BankCode = ub_RoutingNumber b,
          bd_AccountType = ub_AccountType b, bd_AccountNumber = ub_Last4 b,
          bd_AccountHolder = (case sm_BillingName pm of Some n \<Rightarrow> n | None \<Rightarrow> [])\<rparr>) (sm_USBankAccount pm)\<rparr>"

section \<open>Responses\<close>

text \<open>An empty method type (\<open>MethodRaw ''''\<close>) falls back to the intent's own payment method.\<close>

definition toChargeResponse :: "payment_intent \<Rightarrow> method_type \<Rightarrow> go_error + stripe_charge_response" where
  "toChargeResponse pint methodType = (case fromMinorUnits (pi_Amount pint) (pi_Currency pint) of
      Inl e \<Rightarrow> Inl e
    | Inr amount \<Rightarrow> Inr
       \<lparr>cr_TransactionID = pi_ID pint, cr_Status = mapIntentStatus (pi_Status pint), cr_Amount = amount,
        cr_PaymentMethodID = intentPaymentMethodID pint,
        cr_PaymentMethodType = (if methodType = MethodRaw [] then intentPaymentMethodType pint else methodType),
        cr_CreatedAt = unixTime (pi_Created pint), cr_Metadata = pi_Metadata pint,
        cr_ThreeDSecure = nextActionResult pint\<rparr>)"

definition toAuthorizeResponse :: "payment_intent \<Rightarrow> go_error + stripe_authorize_response" where
  "toAuthorizeResponse pint = (case fromMinorUnits (pi_Amount pint) (pi_Currency pint) of
      Inl e \<Rightarrow> Inl e
    | Inr amount \<Rightarrow> Inr
       \<lparr>ar_AuthorizationID = pi_ID pint, ar_TransactionID = pi_ID pint, ar_Status = mapIntentStatus (pi_Status pint),
        ar_Amount = amount, ar_CreatedAt = unixTime (pi_Created pint), ar_ExpiresAt = None,
        ar_Metadata = pi_Metadata pint, ar_ThreeDSecure = nextActionResult pint\<rparr>)"

definition toTransaction :: "payment_intent \<Rightarrow> go_error + stripe_transaction" where
  "toTransaction pint = (case fromMinorUnits (pi_Amount pint) (pi_Currency pint) of
      Inl e \<Rightarrow> Inl e
    | Inr amount \<Rightarrow> (let auth = pi_Status pint = ''requires_capture'' in Inr
       \<lparr>tx_ID = pi_ID pint, tx_GatewayID = stripeGatewayID,
        tx_Type = (if auth then TypeAuthorize else TypeCharge), tx_Status = mapIntentStatus (pi_Status pint),
        tx_Amount = amount, tx_CustomerID = (case pi_Customer pint of Some c \<Rightarrow> c | None \<Rightarrow> []),
        tx_PaymentMethodID = intentPaymentMethodID pint,
        tx_AuthorizationID = (if auth then Some (pi_ID pint) else None), tx_Metadata = pi_Metadata pint,
        tx_CreatedAt = unixTime (pi_Created pint), tx_UpdatedAt = unixTime (pi_Created pint),
        tx_Description = pi_Description pint, tx_ThreeDSecure = nextActionResult pint\<rparr>))"

section \<open>Operations\<close>

definition fetchPaymentMethod :: "'s stripe_sdk \<Rightarrow> string \<Rightarrow> ('s, payment_method) stripe" where
  "fetchPaymentMethod sdk i = mapErrA wrapGatewayError (sdk_call (GetMethod i) (sdk_GetMethod sdk i))"

definition base_params :: "int64 \<Rightarrow> string \<Rightarrow> string \<Rightarrow> string \<Rightarrow> intent_params" where
  "base_params amount currency captureMethod pm =
     \<lparr>ip_Amount = amount, ip_Currency = currency, ip_CaptureMethod = captureMethod, ip_Confirm = True,
      ip_PaymentMethod = pm, ip_Description = None, ip_Customer = None, ip_ReturnURL = None,
      ip_PaymentMethodTypes = [], ip_RequestThreeDSecure = None, ip_CustomerBalance = None,
      ip_AutomaticPaymentMethods = None, ip_Metadata = [], ip_IdempotencyKey = None\<rparr>"

definition Charge :: "'s stripe_sdk \<Rightarrow> stripe_charge_request option \<Rightarrow> ('s, stripe_charge_response) stripe" where
  "Charge sdk reqo = (case reqo of
      None \<Rightarrow> throw (ValidationError ''req'')
    | Some req \<Rightarrow>
        bindA (liftA (toMinorUnits ''amount'' (cq_Amount req))) (\<lambda>(amount, currency).
        bindA (liftA (resolvePaymentMethod (cq_PaymentMethodID req) (cq_Token req))) (\<lambda>pm.
        bindA (fetchPaymentMethod sdk pm) (\<lambda>spm.
        let p = (base_params amount currency ''automatic'' pm)
          \<lparr>ip_Description := (if cq_Description req \<noteq> [] then Some (cq_Description req) else None),
           ip_Customer := (if cq_CustomerID req \<noteq> [] then Some (cq_CustomerID req) else None)\<rparr> in
        bindA (liftA (applyMethodTypeParams (sm_Type spm) (cq_ThreeDSecure req) currency (cq_CustomerID req) p)) (\<lambda>p1.
        let params = p1\<lparr>ip_Metadata := cq_Metadata req, ip_IdempotencyKey := keyOf (cq_IdempotencyKey req)\<rparr> in
        bindA (mapErrA wrapGatewayError (sdk_call (NewIntent params) (sdk_NewIntent sdk params))) (\<lambda>pint.
        liftA (toChargeResponse pint (stripePMToPortType spm))))))))"

definition Authorize :: "'s stripe_sdk \<Rightarrow> stripe_authorize_request option \<Rightarrow> ('s, stripe_authorize_response) stripe" where
  "Authorize sdk reqo = (case reqo of
      None \<Rightarrow> throw (ValidationError ''req'')
    | Some req \<Rightarrow>
        bindA (liftA (toMinorUnits ''amount'' (aq_Amount req))) (\<lambda>(amount, currency).
        bindA (liftA (resolvePaymentMethod (aq_PaymentMethodID req) (aq_Token req))) (\<lambda>pm.
        bindA (fetchPaymentMethod sdk pm) (\<lambda>spm.
        if isChargeOnlyType (sm_Type spm) then throw (GatewayError MethodNotSupported [] False None)
        else
          let params = (applyAutomaticPaymentMethods (applyThreeDS (aq_ThreeDSecure req)
              ((base_params amount currency ''manual'' pm)
                \<lparr>ip_Customer := (if aq_CustomerID req \<noteq> [] then Some (aq_CustomerID req) else None)\<rparr>)))
              \<lparr>ip_Metadata := aq_Metadata req, ip_IdempotencyKey := keyOf (aq_IdempotencyKey req)\<rparr> in
          bindA (mapErrA wrapGatewayError (sdk_call (NewIntent params) (sdk_NewIntent sdk params))) (\<lambda>pint.
          liftA (toAuthorizeResponse pint))))))"

text \<open>The optional amount of captures and refunds.\<close>

definition optional_amount :: "money option \<Rightarrow> go_error + int64 option" where
  "optional_amount mo = (case mo of
      None \<Rightarrow> Inr None
    | Some m \<Rightarrow> (case toMinorUnits ''amount'' m of Inl e \<Rightarrow> Inl e | Inr (a, _) \<Rightarrow> Inr (Some a)))"

definition Capture :: "'s stripe_sdk \<Rightarrow> stripe_capture_request option \<Rightarrow> ('s, capture_response) stripe" where
  "Capture sdk reqo = (case reqo of
      None \<Rightarrow> throw (ValidationError ''req'')
    | Some req \<Rightarrow>
        if pq_AuthorizationID req = [] then throw (ValidationError ''AuthorizationID'')
        else bindA (liftA (optional_amount (pq_Amount req))) (\<lambda>amount.
          let params = \<lparr>kp_AmountToCapture = amount, kp_Metadata = pq_Metadata req,
            kp_IdempotencyKey = keyOf (pq_IdempotencyKey req)\<rparr> in
          bindA (mapErrA wrapGatewayError (sdk_call (CaptureIntent (pq_AuthorizationID req) params)
            (sdk_CaptureIntent sdk (pq_AuthorizationID req) params))) (\<lambda>pint.
          let capturedMinor = (if pi_AmountReceived pint = 0 \<and> pi_Status pint = ''succeeded''
            then pi_Amount pint else pi_AmountReceived pint) in
          bindA (liftA (fromMinorUnits capturedMinor (pi_Currency pint))) (\<lambda>captured.
          bindA (askA st_clock) (\<lambda>now.
          ret \<lparr>pc_TransactionID = pi_ID pint, pc_AuthorizationID = pi_ID pint,
            pc_Status = mapIntentStatus (pi_Status pint), pc_Amount = captured, pc_CapturedAt = now\<rparr>)))))"

definition Void :: "'s stripe_sdk \<Rightarrow> void_request option \<Rightarrow> ('s, void_response) stripe" where
  "Void sdk reqo = (case reqo of
      None \<Rightarrow> throw (ValidationError ''req'')
    | Some req \<Rightarrow>
        if vq_AuthorizationID req = [] then throw (ValidationError ''AuthorizationID'')
        else
          let params = \<lparr>xp_CancellationReason = ''abandoned'', xp_IdempotencyKey = keyOf (vq_IdempotencyKey req)\<rparr> in
          bindA (mapErrA wrapGatewayError (sdk_call (CancelIntent (vq_AuthorizationID req) params)
            (sdk_CancelIntent sdk (vq_AuthorizationID req) params))) (\<lambda>pint.
          bindA (timeOrNow (pi_CanceledAt pint)) (\<lambda>t.
          ret \<lparr>vr_AuthorizationID = pi_ID pint, vr_Status = mapIntentStatus (pi_Status pint), vr_VoidedAt = t\<rparr>)))"

definition Cancel :: "'s stripe_sdk \<Rightarrow> cancel_request option \<Rightarrow> ('s, cancel_response) stripe" where
  "Cancel sdk reqo = (case reqo of
      None \<Rightarrow> throw (ValidationError ''req'')
    | Some req \<Rightarrow>
        if nq_TransactionID req = [] then throw (ValidationError ''TransactionID'')
        else
          let params = \<lparr>xp_CancellationReason = ''requested_by_customer'',
            xp_IdempotencyKey = keyOf (nq_IdempotencyKey req)\<rparr> in
          bindA (mapErrA wrapGatewayError (sdk_call (CancelIntent (nq_TransactionID req) params)
            (sdk_CancelIntent sdk (nq_TransactionID req) params))) (\<lambda>pint.
          bindA (timeOrNow (pi_CanceledAt pint)) (\<lambda>t.
          ret \<lparr>nr_TransactionID = pi_ID pint, nr_Status = mapIntentStatus (pi_Status pint), nr_CanceledAt = t\<rparr>)))"

definition Refund :: "'s stripe_sdk \<Rightarrow> stripe_refund_request option \<Rightarrow> ('s, refund_response) stripe" where
  "Refund sdk reqo = (case reqo of
      None \<Rightarrow> throw (ValidationError ''req'')
    | Some req \<Rightarrow>
        if rq_TransactionID req = [] then throw (ValidationError ''TransactionID'')
        else bindA (liftA (optional_amount (rq_Amount req))) (\<lambda>amount.
          let params = \<lparr>fp_PaymentIntent = rq_TransactionID req, fp_Amount = amount,
            fp_Reason = mapRefundReason (rq_Reason req), fp_Metadata = rq_Metadata req,
            fp_IdempotencyKey = keyOf (rq_IdempotencyKey req)\<rparr> in
          bindA (mapErrA wrapGatewayError (sdk_call (NewRefund params) (sdk_NewRefund sdk params))) (\<lambda>r.
          bindA (liftA (fromMinorUnits (sr_Amount r) (sr_Currency r))) (\<lambda>refunded.
          bindA (timeOrNow (sr_Created r)) (\<lambda>t.
          ret \<lparr>rr_RefundID = sr_ID r, rr_TransactionID = rq_TransactionID req,
            rr_Status = mapRefundStatus (sr_Status r), rr_Amount = refunded, rr_Reason = rq_Reason req,
            rr_RefundedAt = t\<rparr>)))))"

definition GetTransaction :: "'s stripe_sdk \<Rightarrow> string \<Rightarrow> ('s, stripe_transaction) stripe" where
  "GetTransaction sdk i = (if i = [] then throw (ValidationError ''transactionID'')
     else bindA (mapErrA wrapGatewayError (sdk_call (GetIntent i) (sdk_GetIntent sdk i))) (\<lambda>pint.
       liftA (toTransaction pint)))"

section \<open>Payment methods\<close>

definition empty_customer_params :: customer_params where
  "empty_customer_params = \<lparr>up_Email = None, up_Name = None, up_Description = None, up_Phone = None,
     up_Address = None, up_Metadata = [], up_DefaultPaymentMethod = None\<rparr>"

definition wrapCustomerError :: "go_error \<Rightarrow> go_error" where
  "wrapCustomerError err = (case wrapGatewayError err of
      GatewayError code decline retryable raw \<Rightarrow> (case as_stripe err of
          Some (ty, c, d, st) \<Rightarrow>
            GatewayError (if c = ''resource_missing'' then CustomerNotFound else code) decline retryable raw
        | None \<Rightarrow> GatewayError code decline retryable raw)
    | e \<Rightarrow> e)"

definition SetDefaultPaymentMethod :: "'s stripe_sdk \<Rightarrow> string \<Rightarrow> string \<Rightarrow> ('s, unit) stripe" where
  "SetDefaultPaymentMethod sdk customerID methodID =
     (if customerID = [] then throw (ValidationError ''customerID'')
      else if methodID = [] then throw (ValidationError ''paymentMethodID'')
      else let params = empty_customer_params\<lparr>up_DefaultPaymentMethod := Some methodID\<rparr> in
        bindA (mapErrA wrapCustomerError (sdk_call (UpdateCustomerCall customerID params)
          (sdk_UpdateCustomer sdk customerID params))) (\<lambda>_. ret ()))"

definition defaultPaymentMethodID :: "'s stripe_sdk \<Rightarrow> string \<Rightarrow> ('s, string) stripe" where
  "defaultPaymentMethodID sdk customerID = (if customerID = [] then ret []
     else bindA (mapErrA wrapGatewayError (sdk_call (GetCustomerCall customerID) (sdk_GetCustomer sdk customerID)))
       (\<lambda>cust. ret (case su_DefaultPaymentMethod cust of Some i \<Rightarrow> i | None \<Rightarrow> [])))"

definition RegisterPaymentMethod :: "'s stripe_sdk \<Rightarrow> register_request option \<Rightarrow> ('s, stripe_method_detail) stripe" where
  "RegisterPaymentMethod sdk reqo = (case reqo of
      None \<Rightarrow> throw (ValidationError ''req'')
    | Some req \<Rightarrow>
        if gq_Type req \<notin> {MethodRaw [], CreditCard, DebitCard}
        then throw (GatewayError MethodNotSupported [] False None)
        else if gq_CustomerID req = [] then throw (ValidationError ''CustomerID'')
        else if gq_Token req = [] then throw (ValidationError ''Token'')
        else bindA (mapErrA wrapGatewayError (sdk_call (AttachMethod (gq_Token req) (gq_CustomerID req))
            (sdk_AttachMethod sdk (gq_Token req) (gq_CustomerID req)))) (\<lambda>pm.
          bindA (if gq_SetAsDefault req then SetDefaultPaymentMethod sdk (gq_CustomerID req) (sm_ID pm) else ret ())
            (\<lambda>_. ret (toPaymentMethodDetail pm (gq_SetAsDefault req)))))"

definition DeletePaymentMethod :: "'s stripe_sdk \<Rightarrow> string \<Rightarrow> ('s, unit) stripe" where
  "DeletePaymentMethod sdk i = (if i = [] then throw (ValidationError ''paymentMethodID'')
     else bindA (mapErrA wrapGatewayError (sdk_call (DetachMethod i) (sdk_DetachMethod sdk i))) (\<lambda>_. ret ()))"

definition GetPaymentMethod :: "'s stripe_sdk \<Rightarrow> string \<Rightarrow> ('s, stripe_method_detail) stripe" where
  "GetPaymentMethod sdk i = (if i = [] then throw (ValidationError ''paymentMethodID'')
     else bindA (fetchPaymentMethod sdk i) (\<lambda>pm.
       case sm_Customer pm of
         None \<Rightarrow> ret (toPaymentMethodDetail pm False)
       | Some c \<Rightarrow> bindA (defaultPaymentMethodID sdk c) (\<lambda>defaultID.
           ret (toPaymentMethodDetail pm (defaultID \<noteq> [] \<and> defaultID = sm_ID pm)))))"

definition ListPaymentMethods :: "'s stripe_sdk \<Rightarrow> string \<Rightarrow> ('s, stripe_method_detail list) stripe" where
  "ListPaymentMethods sdk customerID = (if customerID = [] then throw (ValidationError ''customerID'')
     else bindA (defaultPaymentMethodID sdk customerID) (\<lambda>defaultID.
       bindA (mapErrA wrapGatewayError (sdk_call (ListMethods customerID) (sdk_ListMethods sdk customerID))) (\<lambda>pms.
       ret (map (\<lambda>pm. toPaymentMethodDetail pm (defaultID \<noteq> [] \<and> sm_ID pm = defaultID)) pms))))"

definition SupportedMethods :: "method_type list" where
  "SupportedMethods = [CreditCard, DebitCard, ConvenienceStore, BankTransfer, QRCode]"

end
