(* ===== verification/Stripe_Customer.thy ===== *)
theory Stripe_Customer
  imports Stripe_Gateway
begin

text \<open>
  The customer operations of \<open>stripe/customer.go\<close>: creation, update of the fields the caller set,
  lookup (a deleted customer counts as not found) and deletion, with the address mapping both ways.
  Metadata is the list of the map's entries; a later entry of a key wins, as in the map the SDK builds.
\<close>

definition MetadataInternalIDKey :: string where "MetadataInternalIDKey = ''internal_id''"

definition nonempty :: "string \<Rightarrow> string option" where
  "nonempty s = (if s \<noteq> [] then Some s else None)"

definition toStripeAddressParams :: "address option \<Rightarrow> address_params option" where
  "toStripeAddressParams ao = map_option (\<lambda>a. \<lparr>dp_Line1 = nonempty (ad_Line1 a), dp_Line2 = nonempty (ad_Line2 a),
     dp_City = nonempty (ad_City a), dp_State = nonempty (ad_State a),
     dp_PostalCode = nonempty (ad_PostalCode a), dp_Country = nonempty (ad_Country a)\<rparr>) ao"

definition fromStripeAddress :: "stripe_address option \<Rightarrow> address option" where
  "fromStripeAddress ao = map_option (\<lambda>a. \<lparr>ad_Line1 = sa_Line1 a, ad_Line2 = sa_Line2 a, ad_City = sa_City a,
     ad_State = sa_State a, ad_PostalCode = sa_PostalCode a, ad_Country = sa_Country a\<rparr>) ao"

definition toCustomer :: "stripe_customer \<Rightarrow> stripe_port_customer" where
  "toCustomer c = \<lparr>cu_ID = su_ID c, cu_Name = su_Name c, cu_Email = su_Email c, cu_Phone = su_Phone c,
     cu_Address = fromStripeAddress (su_Address c), cu_DefaultPaymentMethodID = su_DefaultPaymentMethod c,
     cu_CreatedAt = unixTime (su_Created c), cu_UpdatedAt = unixTime (su_Created c),
     cu_Description = su_Description c, cu_Metadata = su_Metadata c\<rparr>"

definition create_params :: "create_customer_request \<Rightarrow> customer_params" where
  "create_params req = \<lparr>up_Email = nonempty (ccq_Email req), up_Name = nonempty (ccq_Name req),
     up_Description = nonempty (ccq_Description req), up_Phone = nonempty (ccq_Phone req),
     up_Address = toStripeAddressParams (ccq_Address req),
     up_Metadata = ccq_Metadata req @
       (if ccq_InternalID req \<noteq> [] then [(MetadataInternalIDKey, ccq_InternalID req)] else []),
     up_DefaultPaymentMethod = None\<rparr>"

definition CreateCustomer :: "'s stripe_sdk \<Rightarrow> create_customer_request option \<Rightarrow> ('s, stripe_port_customer) stripe" where
  "CreateCustomer sdk reqo = (case reqo of
      None \<Rightarrow> throw (ValidationError ''req'')
    | Some req \<Rightarrow>
        let params = create_params req in
        bindA (mapErrA wrapCustomerError (sdk_call (NewCustomer params) (sdk_NewCustomer sdk params))) (\<lambda>c.
        ret (toCustomer c)))"

definition update_params :: "update_customer_request \<Rightarrow> customer_params" where
  "update_params req = \<lparr>up_Email = ucq_Email req, up_Name = ucq_Name req, up_Description = ucq_Description req,
     up_Phone = ucq_Phone req, up_Address = toStripeAddressParams (ucq_Address req),
     up_Metadata = ucq_Metadata req, up_DefaultPaymentMethod = None\<rparr>"

definition UpdateCustomer :: "'s stripe_sdk \<Rightarrow> update_customer_request option \<Rightarrow> ('s, stripe_port_customer) stripe" where
  "UpdateCustomer sdk reqo = (case reqo of
      None \<Rightarrow> throw (ValidationError ''req'')
    | Some req \<Rightarrow>
        if ucq_CustomerID req = [] then throw (ValidationError ''CustomerID'')
        else let params = update_params req in
        bindA (mapErrA wrapCustomerError (sdk_call (UpdateCustomerCall (ucq_CustomerID req) params)
          (sdk_UpdateCustomer sdk (ucq_CustomerID req) params))) (\<lambda>c.
        ret (toCustomer c)))"

definition GetCustomer :: "'s stripe_sdk \<Rightarrow> string \<Rightarrow> ('s, stripe_port_customer) stripe" where
  "GetCustomer sdk i = (if i = [] then throw (ValidationError ''customerID'')
     else bindA (mapErrA wrapCustomerError (sdk_call (GetCustomerCall i) (sdk_GetCustomer sdk i))) (\<lambda>c.
       if su_Deleted c then throw (GatewayError CustomerNotFound [] False None)
       else ret (toCustomer c)))"

definition DeleteCustomer :: "'s stripe_sdk \<Rightarrow> string \<Rightarrow> ('s, unit) stripe" where
  "DeleteCustomer sdk i = (if i = [] then throw (ValidationError ''customerID'')
     else bindA (mapErrA wrapCustomerError (sdk_call (DelCustomer i) (sdk_DelCustomer sdk i))) (\<lambda>_. ret ()))"

end
