(* ===== verification/Stripe_Webhook.thy ===== *)
theory Stripe_Webhook
  imports Stripe_Gateway Go_Hash
begin

text \<open>
  The Stripe webhook handler (\<open>stripe/webhook.go\<close>). The SDK's \<open>ConstructEventWithOptions\<close>, which
  checks the HMAC signature and decodes the event, is the parameter \<open>construct_event\<close>; the JSON parser of the
  event's inner object is \<open>parse\<close>; the reading of the injected clock is \<open>now\<close>.
\<close>

section \<open>Configuration\<close>

definition DefaultSignatureHeader :: string where "DefaultSignatureHeader = ''Stripe-Signature''"
definition DefaultTolerance :: int64 where "DefaultTolerance = 300000000000"

record StripeWebhookConfig =
  swc_Secret :: string
  swc_SignatureHeader :: string
  swc_Tolerance :: int64

record StripeWebhookHandler =
  swh_secret :: string
  swh_signatureHeader :: string
  swh_tolerance :: int64

definition NewWebhookHandler :: "StripeWebhookConfig \<Rightarrow> go_error + StripeWebhookHandler" where
  "NewWebhookHandler cfg =
     (if swc_Secret cfg = [] then Inl (ValidationError ''Secret'')
      else if sint (swc_Tolerance cfg) < 0 then Inl (ValidationError ''Tolerance'')
      else Inr \<lparr>swh_secret = swc_Secret cfg,
        swh_signatureHeader = (if swc_SignatureHeader cfg = [] then DefaultSignatureHeader
          else swc_SignatureHeader cfg),
        swh_tolerance = (if swc_Tolerance cfg = 0 then DefaultTolerance else swc_Tolerance cfg)\<rparr>)"

section \<open>The signed timestamp\<close>

fun split_on :: "char \<Rightarrow> string \<Rightarrow> string list" where
  "split_on c [] = [[]]"
| "split_on c (x # xs) = (if x = c then [] # split_on c xs
     else (case split_on c xs of [] \<Rightarrow> [[x]] | y # ys \<Rightarrow> (x # y) # ys))"

text \<open>\<open>strings.Cut\<close>: what is before and after the first separator.\<close>

fun cut :: "char \<Rightarrow> string \<Rightarrow> (string \<times> string) option" where
  "cut c [] = None"
| "cut c (x # xs) = (if x = c then Some ([], xs)
     else (case cut c xs of None \<Rightarrow> None | Some (a, b) \<Rightarrow> Some (x # a, b)))"

definition parse_int64 :: "string \<Rightarrow> int64 option" where
  "parse_int64 s = (case parse_int s of
      Some i \<Rightarrow> if is_int64 i then Some (word_of_int i) else None | None \<Rightarrow> None)"

fun timestamp_in :: "string list \<Rightarrow> int64 option" where
  "timestamp_in [] = None"
| "timestamp_in (part # parts) = (case cut (CHR ''='') (trim_space part) of
      Some (k, v) \<Rightarrow> if k = ''t'' then parse_int64 (trim_space v) else timestamp_in parts
    | None \<Rightarrow> timestamp_in parts)"

definition parseSignatureTimestamp :: "string \<Rightarrow> int64 option" where
  "parseSignatureTimestamp sg = timestamp_in (split_on (CHR '','') sg)"

text \<open>\<open>Time.Sub\<close> saturates at the ends of a 64-bit \<open>Duration\<close>; negating the smallest one wraps.\<close>

definition time_sub :: "time \<Rightarrow> time \<Rightarrow> int64" where
  "time_sub a b = word_of_int (max (- (2 ^ 63)) (min (2 ^ 63 - 1) (a - b)))"

definition verifyTimestamp :: "StripeWebhookHandler \<Rightarrow> time \<Rightarrow> string \<Rightarrow> go_error + unit" where
  "verifyTimestamp h now sg = (case parseSignatureTimestamp sg of
      None \<Rightarrow> Inl (WebhookError InvalidSignature None)
    | Some ts \<Rightarrow>
        let skew = time_sub now (time_Unix ts);
            skew' = (if sint skew < 0 then - skew else skew)
        in if sint skew' > sint (swh_tolerance h) then Inl (WebhookError InvalidSignature None) else Inr ())"

section \<open>Event types\<close>

definition stripeEventMap :: "(string \<times> webhook_event_type) list" where
  "stripeEventMap =
     [(''payment_intent.succeeded'', PaymentSucceeded), (''payment_intent.payment_failed'', PaymentFailed),
      (''payment_intent.processing'', PaymentPending), (''refund.failed'', EvRefundFailed),
      (''charge.dispute.created'', ChargebackCreated), (''charge.dispute.updated'', ChargebackUpdated),
      (''charge.dispute.closed'', ChargebackClosed), (''payment_method.attached'', PaymentMethodAttached),
      (''payment_method.detached'', PaymentMethodDetached),
      (''customer.subscription.created'', SubscriptionCreated),
      (''customer.subscription.updated'', SubscriptionUpdated),
      (''customer.subscription.deleted'', SubscriptionCanceled)]"

definition refundEventTypes :: "string list" where
  "refundEventTypes = [''refund.created'', ''refund.updated'', ''charge.refund.updated'']"

definition refund_status_event :: "string \<Rightarrow> string \<Rightarrow> webhook_event_type" where
  "refund_status_event stripeType st =
     (if st = ''succeeded'' then EvRefundSucceeded
      else if st = ''failed'' \<or> st = ''canceled'' then EvRefundFailed else EventRaw stripeType)"

text \<open>The inner object, parsed: \<open>None\<close> when it is not JSON.\<close>

definition dec_status :: "json \<Rightarrow> string option" where
  "dec_status = conv_struct (str_field ''status'')"

definition classifyRefundEvent :: "string \<Rightarrow> json option \<Rightarrow> webhook_event_type" where
  "classifyRefundEvent stripeType data = (case Option.bind data dec_status of
      None \<Rightarrow> EventRaw stripeType
    | Some st \<Rightarrow> refund_status_event stripeType st)"

text \<open>A nested struct: every object given for its key fills the same struct, so their entries count as
  those of one object.\<close>

definition nested_entries :: "json list \<Rightarrow> jobj" where
  "nested_entries vs = concat (map (\<lambda>v. case v of JObj o' \<Rightarrow> o' | _ \<Rightarrow> []) vs)"

definition struct_field :: "(jobj \<Rightarrow> 'a option) \<Rightarrow> string \<Rightarrow> jobj \<Rightarrow> 'a option" where
  "struct_field dec tag o' = (let vs = nonnull_vals tag o' in
     if list_all (\<lambda>v. case v of JObj _ \<Rightarrow> True | _ \<Rightarrow> False) vs then dec (nested_entries vs) else None)"

definition dec_refund_statuses :: "json \<Rightarrow> string list option" where
  "dec_refund_statuses = conv_struct (struct_field (slice_field dec_status ''data'') ''refunds'')"

definition classifyChargeRefundedEvent :: "string \<Rightarrow> json option \<Rightarrow> webhook_event_type" where
  "classifyChargeRefundedEvent stripeType data = (case Option.bind data dec_refund_statuses of
      Some (st # _) \<Rightarrow> refund_status_event stripeType st
    | _ \<Rightarrow> EventRaw stripeType)"

text \<open>An element \<open>null\<close> of a slice of strings is the empty string.\<close>

fun conv_str_elem :: "json \<Rightarrow> string option" where
  "conv_str_elem JNull = Some []"
| "conv_str_elem v = conv_str v"

definition dec_types :: "json \<Rightarrow> string list option" where
  "dec_types = conv_struct (slice_field conv_str_elem ''payment_method_types'')"

text \<open>The type of the expanded payment method. A value of another kind makes the first \<open>Unmarshal\<close>
  fail, but it is only skipped: what the other values filled in stays, and only
  \<open>payment_method_types\<close> is then read again.\<close>

definition expanded_method_type :: "json \<Rightarrow> string" where
  "expanded_method_type j = (case j of
      JObj o' \<Rightarrow> last ([] # concat (map (\<lambda>v. case v of JStr s \<Rightarrow> [s] | _ \<Rightarrow> [])
        (field_vals ''type'' (nested_entries (field_vals ''payment_method'' o')))))
    | _ \<Rightarrow> [])"

definition classifyRequiresActionEvent :: "string \<Rightarrow> json option \<Rightarrow> webhook_event_type" where
  "classifyRequiresActionEvent stripeType data = (case Option.bind data dec_types of
      None \<Rightarrow> EventRaw stripeType
    | Some types \<Rightarrow>
        if isAsyncSettlementType (case data of Some j \<Rightarrow> expanded_method_type j | None \<Rightarrow> [])
           \<or> list_ex isAsyncSettlementType types
        then PaymentInstructionCreated else EventRaw stripeType)"

definition toWebhookEventType :: "string \<Rightarrow> json option \<Rightarrow> webhook_event_type" where
  "toWebhookEventType stripeType data =
     (if stripeType \<in> set refundEventTypes then classifyRefundEvent stripeType data
      else if stripeType = ''charge.refunded'' then classifyChargeRefundedEvent stripeType data
      else if stripeType = ''payment_intent.requires_action'' then classifyRequiresActionEvent stripeType data
      else (case map_of stripeEventMap stripeType of Some t \<Rightarrow> t | None \<Rightarrow> EventRaw stripeType))"

section \<open>ParseAndVerify\<close>

definition lookupHeader :: "(string \<times> string) list \<Rightarrow> string \<Rightarrow> string option" where
  "lookupHeader headers name = (case map_of headers name of
      Some v \<Rightarrow> Some v
    | None \<Rightarrow> (case map_of headers (canonical_header name) of
          Some v \<Rightarrow> Some v
        | None \<Rightarrow> find_fold headers name))"

text \<open>The SDK's event (the raw text of its inner object, if it has one) and its errors.\<close>

record stripe_event =
  se_ID :: string
  se_Type :: string
  se_Created :: int64
  se_Raw :: "string option"

datatype construct_error = ErrNotSigned | ErrInvalidHeader | ErrNoValidSignature | ErrTooOld | ConstructOther string

definition classifyWebhookError :: "construct_error \<Rightarrow> go_error" where
  "classifyWebhookError e = (case e of
      ConstructOther s \<Rightarrow> WebhookError InvalidPayload (Some (PlainError s))
    | _ \<Rightarrow> WebhookError InvalidSignature (Some (PlainError ''signature'')))"

record stripe_webhook_event = webhook_event +
  wv_RawData :: string

definition rawEventData :: "stripe_event \<Rightarrow> string" where
  "rawEventData ev = (case se_Raw ev of Some r \<Rightarrow> r | None \<Rightarrow> [])"

definition ParseAndVerify :: "(string \<Rightarrow> string \<Rightarrow> string \<Rightarrow> construct_error + stripe_event) \<Rightarrow> (string \<Rightarrow> json option)
    \<Rightarrow> StripeWebhookHandler \<Rightarrow> time \<Rightarrow> webhook_request option \<Rightarrow> go_error + stripe_webhook_event" where
  "ParseAndVerify construct_event parse h now reqo = (case reqo of
      None \<Rightarrow> Inl (WebhookError InvalidPayload None)
    | Some req \<Rightarrow> (case lookupHeader (wq_Headers req) (swh_signatureHeader h) of
          None \<Rightarrow> Inl (WebhookError InvalidSignature None)
        | Some sg \<Rightarrow>
            if sg = [] then Inl (WebhookError InvalidSignature None)
            else (case construct_event (wq_Body req) sg (swh_secret h) of
                Inl e \<Rightarrow> Inl (classifyWebhookError e)
              | Inr ev \<Rightarrow> (case verifyTimestamp h now sg of
                    Inl e \<Rightarrow> Inl e
                  | Inr _ \<Rightarrow> Inr
                     \<lparr>wv_ID = se_ID ev, wv_Type = toWebhookEventType (se_Type ev) (parse (rawEventData ev)),
                      wv_CreatedAt = time_Unix (se_Created ev), wv_Data = rawEventData ev,
                      wv_RawData = wq_Body req\<rparr>))))"

end
