(* ===== verification/Stripe_Props.thy ===== *)
theory Stripe_Props
  imports Stripe_Customer Stripe_Webhook
begin

text \<open>
  Properties of the Stripe adapter: what a charge or an authorization asks of Stripe, the exactness of
  amounts both ways, and what the webhook handler accepts. The log \<open>st_calls\<close> of the gateway's world
  holds the calls; \<open>sdk_logged\<close> says which calls an action adds to it.
\<close>

section \<open>The log of calls\<close>

lemma sdk_call_cases:
  assumes "sdk_call c f w = (r, w')"
  obtains s where "f (st_srv w) = (r, s)" "w' = w\<lparr>st_srv := s, st_calls := st_calls w @ [c]\<rparr>"
  using assms by (auto simp: sdk_call_def split: prod.splits)

lemma wrapped_call_cases:
  assumes "mapErrA g (sdk_call c f) w = (r, w')"
  obtains (failed) e s where "f (st_srv w) = (Inl e, s)" "r = Inl (g e)"
      "w' = w\<lparr>st_srv := s, st_calls := st_calls w @ [c]\<rparr>"
  | (answered) x s where "f (st_srv w) = (Inr x, s)" "r = Inr x"
      "w' = w\<lparr>st_srv := s, st_calls := st_calls w @ [c]\<rparr>"
proof (cases "sdk_call c f w")
  case (Pair r0 w0)
  then obtain s where s: "f (st_srv w) = (r0, s)" "w0 = w\<lparr>st_srv := s, st_calls := st_calls w @ [c]\<rparr>"
    by (rule sdk_call_cases)
  from assms Pair have "r = (case r0 of Inl e \<Rightarrow> Inl (g e) | Inr x \<Rightarrow> Inr x) \<and> w' = w0"
    by (auto simp: mapErrA_run split: sum.splits)
  with s show thesis by (cases r0) (auto intro: failed answered)
qed

text \<open>Inversion of \<open>bindA\<close> by the outcome of its first action.\<close>

lemma bindA_cases:
  assumes "bindA m f w = (r, w')"
  obtains (stop) e where "m w = (Inl e, w')" "r = Inl e"
  | (go) a w1 where "m w = (Inr a, w1)" "f a w1 = (r, w')"
  using assms by (auto simp: act_defs split: sum.splits prod.splits)

lemma bindA_liftA_cases:
  assumes "bindA (liftA x) f w = (r, w')"
  obtains (stop) e where "x = Inl e" "r = Inl e" "w' = w" | (go) a where "x = Inr a" "f a w = (r, w')"
  using assms by (auto simp: act_defs split: sum.splits)

text \<open>The intents that a list of calls creates.\<close>

definition intents :: "stripe_call list \<Rightarrow> intent_params list" where
  "intents cs = concat (map (\<lambda>c. case c of NewIntent p \<Rightarrow> [p] | _ \<Rightarrow> []) cs)"

lemma intents_in: "intents cs = p # ps \<Longrightarrow> NewIntent p \<in> set cs"
proof -
  assume "intents cs = p # ps"
  then have "p \<in> set (intents cs)" by simp
  then show ?thesis by (auto simp: intents_def split: stripe_call.splits)
qed

section \<open>Parameters of an intent\<close>

lemma applyThreeDS_keeps [simp]:
  "ip_Amount (applyThreeDS t p) = ip_Amount p" "ip_Currency (applyThreeDS t p) = ip_Currency p"
  "ip_PaymentMethod (applyThreeDS t p) = ip_PaymentMethod p" "ip_CaptureMethod (applyThreeDS t p) = ip_CaptureMethod p"
  "ip_PaymentMethodTypes (applyThreeDS t p) = ip_PaymentMethodTypes p" "ip_Confirm (applyThreeDS t p) = ip_Confirm p"
  "ip_Customer (applyThreeDS t p) = ip_Customer p"
  by (auto simp: applyThreeDS_def Let_def split: option.splits)

lemma applyAutomatic_keeps [simp]:
  "ip_Amount (applyAutomaticPaymentMethods p) = ip_Amount p"
  "ip_Currency (applyAutomaticPaymentMethods p) = ip_Currency p"
  "ip_PaymentMethod (applyAutomaticPaymentMethods p) = ip_PaymentMethod p"
  "ip_CaptureMethod (applyAutomaticPaymentMethods p) = ip_CaptureMethod p"
  "ip_PaymentMethodTypes (applyAutomaticPaymentMethods p) = ip_PaymentMethodTypes p"
  "ip_Confirm (applyAutomaticPaymentMethods p) = ip_Confirm p"
  "ip_Customer (applyAutomaticPaymentMethods p) = ip_Customer p"
  by (simp_all add: applyAutomaticPaymentMethods_def)

lemma applyMethodTypeParams_Inr:
  assumes "applyMethodTypeParams ty tds cur cust p = Inr p1"
  shows "ip_Amount p1 = ip_Amount p" "ip_Currency p1 = ip_Currency p" "ip_PaymentMethod p1 = ip_PaymentMethod p"
    "ip_CaptureMethod p1 = ip_CaptureMethod p" "ip_Confirm p1 = ip_Confirm p" "ip_Customer p1 = ip_Customer p"
    "isChargeOnlyType ty \<Longrightarrow> ip_PaymentMethodTypes p1 = [ty] \<and> cur = ''jpy''"
    "\<not> isChargeOnlyType ty \<Longrightarrow> ip_PaymentMethodTypes p1 = ip_PaymentMethodTypes p"
    "ty = ''customer_balance'' \<Longrightarrow> cust \<noteq> []"
    "ty = ''paypay'' \<Longrightarrow> set_url (ip_ReturnURL p1)"
  using assms by (auto simp: applyMethodTypeParams_def requireJPY_def isChargeOnlyType_def isAsyncSettlementType_def
      set_url_def split: if_splits option.splits sum.splits)

section \<open>Charge and Authorize\<close>

text \<open>What charges and authorizations begin with: the amount, the method's id, the fetched method.\<close>

lemma prepare_cases:
  assumes "bindA (liftA (toMinorUnits ''amount'' m)) (\<lambda>(amount, currency).
      bindA (liftA (resolvePaymentMethod i t)) (\<lambda>pm.
      bindA (fetchPaymentMethod sdk pm) (K amount currency pm))) w = (r, w')"
  obtains (refused) e where "r = Inl e" "st_calls w' = st_calls w"
  | (unfetched) pm e where "resolvePaymentMethod i t = Inr pm" "r = Inl e" "st_calls w' = st_calls w @ [GetMethod pm]"
  | (fetched) amount currency pm spm w1 where "toMinorUnits ''amount'' m = Inr (amount, currency)"
      "resolvePaymentMethod i t = Inr pm" "fst (sdk_GetMethod sdk pm (st_srv w)) = Inr spm"
      "st_calls w1 = st_calls w @ [GetMethod pm]" "K amount currency pm spm w1 = (r, w')"
  using assms
proof (cases rule: bindA_liftA_cases)
  case stop
  then show ?thesis by (intro refused) auto
next
  case (go ac)
  obtain amount currency where ac: "ac = (amount, currency)" by (cases ac)
  from go(2) [unfolded ac prod.case] show ?thesis
  proof (cases rule: bindA_liftA_cases)
    case stop
    then show ?thesis by (intro refused) auto
  next
    case named: (go pm)
    from named(2) show ?thesis
    proof (cases rule: bindA_cases)
      case (stop e)
      from stop(1) [unfolded fetchPaymentMethod_def] have "st_calls w' = st_calls w @ [GetMethod pm]"
        by (cases rule: wrapped_call_cases) auto
      with stop named show ?thesis by (intro unfetched) auto
    next
      case pmethod: (go spm w1)
      from pmethod(1) [unfolded fetchPaymentMethod_def]
      have "fst (sdk_GetMethod sdk pm (st_srv w)) = Inr spm" "st_calls w1 = st_calls w @ [GetMethod pm]"
        by (cases rule: wrapped_call_cases; simp)+
      with pmethod(2) named(1) go(1) ac show ?thesis by (intro fetched) auto
    qed
  qed
qed

text \<open>What they end with: the intent, and a response made from it.\<close>

lemma submit_cases:
  assumes "bindA (mapErrA wrapGatewayError (sdk_call (NewIntent p) (sdk_NewIntent sdk p))) (\<lambda>pint. liftA (f pint)) w
    = (r, w')"
  obtains s s' x where "sdk_NewIntent sdk p s = (x, s')" "st_calls w' = st_calls w @ [NewIntent p]"
    "r = (case x of Inl e \<Rightarrow> Inl (wrapGatewayError e) | Inr i \<Rightarrow> f i)"
  using assms
proof (cases rule: bindA_cases)
  case (stop e)
  from stop(1) show ?thesis by (cases rule: wrapped_call_cases) (use stop(2) that in auto)
next
  case (go i w1)
  from go(1) show ?thesis by (cases rule: wrapped_call_cases) (use go(2) that in auto)
qed

text \<open>Everything a charge does, by where it stopped.\<close>

lemma stripe_Charge_cases:
  assumes "Charge sdk (Some req) w = (r, w')"
  obtains (refused) e where "r = Inl e" "st_calls w' = st_calls w"
  | (unfetched) pm e where "resolvePaymentMethod (cq_PaymentMethodID req) (cq_Token req) = Inr pm" "r = Inl e"
      "st_calls w' = st_calls w @ [GetMethod pm]"
  | (sent) pm amount currency spm p1 p s s' x where
      "resolvePaymentMethod (cq_PaymentMethodID req) (cq_Token req) = Inr pm"
      "toMinorUnits ''amount'' (cq_Amount req) = Inr (amount, currency)"
      "fst (sdk_GetMethod sdk pm (st_srv w)) = Inr spm"
      "applyMethodTypeParams (sm_Type spm) (cq_ThreeDSecure req) currency (cq_CustomerID req)
         ((base_params amount currency ''automatic'' pm)
          \<lparr>ip_Description := (if cq_Description req \<noteq> [] then Some (cq_Description req) else None),
           ip_Customer := (if cq_CustomerID req \<noteq> [] then Some (cq_CustomerID req) else None)\<rparr>) = Inr p1"
      "p = p1\<lparr>ip_Metadata := cq_Metadata req, ip_IdempotencyKey := keyOf (cq_IdempotencyKey req)\<rparr>"
      "sdk_NewIntent sdk p s = (x, s')" "st_calls w' = st_calls w @ [GetMethod pm, NewIntent p]"
      "r = (case x of Inl e \<Rightarrow> Inl (wrapGatewayError e) | Inr i \<Rightarrow> toChargeResponse i (stripePMToPortType spm))"
  using assms [unfolded Charge_def option.case]
proof (cases rule: prepare_cases)
  case (fetched amount currency pm spm w1)
  from fetched(5) [unfolded Let_def] show ?thesis
  proof (cases rule: bindA_liftA_cases)
    case stop
    with fetched show ?thesis by (intro unfetched) auto
  next
    case params: (go p1)
    from params(2) show ?thesis
      by (rule submit_cases) (use fetched(1-4) params(1) in \<open>auto intro!: sent\<close>)
  qed
qed (auto intro: refused unfetched)

lemma stripe_Authorize_cases:
  assumes "Authorize sdk (Some req) w = (r, w')"
  obtains (refused) e where "r = Inl e" "st_calls w' = st_calls w"
  | (unfetched) pm e where "resolvePaymentMethod (aq_PaymentMethodID req) (aq_Token req) = Inr pm" "r = Inl e"
      "st_calls w' = st_calls w @ [GetMethod pm]"
  | (sent) pm amount currency spm p where
      "resolvePaymentMethod (aq_PaymentMethodID req) (aq_Token req) = Inr pm"
      "toMinorUnits ''amount'' (aq_Amount req) = Inr (amount, currency)"
      "fst (sdk_GetMethod sdk pm (st_srv w)) = Inr spm" "\<not> isChargeOnlyType (sm_Type spm)"
      "p = (applyAutomaticPaymentMethods (applyThreeDS (aq_ThreeDSecure req)
          ((base_params amount currency ''manual'' pm)
            \<lparr>ip_Customer := (if aq_CustomerID req \<noteq> [] then Some (aq_CustomerID req) else None)\<rparr>)))
          \<lparr>ip_Metadata := aq_Metadata req, ip_IdempotencyKey := keyOf (aq_IdempotencyKey req)\<rparr>"
      "st_calls w' = st_calls w @ [GetMethod pm, NewIntent p]"
  using assms [unfolded Authorize_def option.case]
proof (cases rule: prepare_cases)
  case (fetched amount currency pm spm w1)
  show ?thesis
  proof (cases "isChargeOnlyType (sm_Type spm)")
    case True
    with fetched show ?thesis by (intro unfetched) auto
  next
    case False
    from fetched(5) [unfolded Let_def if_not_P [OF False]] show ?thesis
      by (rule submit_cases) (use fetched(1-4) False in \<open>auto intro!: sent\<close>)
  qed
qed (auto intro: refused unfetched)

text \<open>An intent that carries exactly the amount of a request.\<close>

definition carries :: "intent_params \<Rightarrow> money \<Rightarrow> bool" where
  "carries p m \<longleftrightarrow> (\<exists>e a. currencyExponent (m_currency m) = Some e \<and> m_amount m = Some a
     \<and> of_int (sint (ip_Amount p)) = a * of_int (pow10 e) \<and> 0 < sint (ip_Amount p)
     \<and> ip_Currency p = to_lower (m_currency m))"

lemma carriesI:
  assumes "toMinorUnits ''amount'' m = Inr (amount, currency)" "ip_Amount p = amount" "ip_Currency p = currency"
  shows "carries p m"
  using assms(1) by (rule toMinorUnits_Inr) (use assms in \<open>auto simp: carries_def\<close>)

text \<open>An SDK for the witnesses: one card, one konbini method, intents that echo their parameters.\<close>

definition demo_method :: "string \<Rightarrow> payment_method" where
  "demo_method i = \<lparr>sm_ID = i, sm_Type = (if i = ''pm_k'' then ''konbini'' else ''card''), sm_Created = 0,
     sm_Customer = None, sm_Card = None, sm_USBankAccount = None, sm_BillingName = None\<rparr>"

definition demo_intent :: "intent_params \<Rightarrow> payment_intent" where
  "demo_intent p = \<lparr>pi_ID = ''pi_1'', pi_Amount = ip_Amount p, pi_AmountReceived = 0, pi_Currency = ip_Currency p,
     pi_Status = ''succeeded'', pi_Created = 1, pi_CanceledAt = 0, pi_Description = [], pi_Metadata = [],
     pi_Customer = None, pi_PaymentMethod = None, pi_NextAction = None\<rparr>"

definition demo_sdk :: "unit stripe_sdk" where
  "demo_sdk = \<lparr>sdk_NewIntent = \<lambda>p s. (Inr (demo_intent p), s), sdk_CaptureIntent = \<lambda>_ _ s. (Inl (PlainError []), s),
     sdk_CancelIntent = \<lambda>_ _ s. (Inl (PlainError []), s), sdk_GetIntent = \<lambda>_ s. (Inl (PlainError []), s),
     sdk_NewRefund = \<lambda>_ s. (Inl (PlainError []), s), sdk_GetMethod = \<lambda>i s. (Inr (demo_method i), s),
     sdk_AttachMethod = \<lambda>i _ s. (Inr (demo_method i), s), sdk_DetachMethod = \<lambda>i s. (Inr (demo_method i), s),
     sdk_ListMethods = \<lambda>_ s. (Inr [], s), sdk_NewCustomer = \<lambda>_ s. (Inl (PlainError []), s),
     sdk_UpdateCustomer = \<lambda>_ _ s. (Inl (PlainError []), s), sdk_GetCustomer = \<lambda>_ s. (Inl (PlainError []), s),
     sdk_DelCustomer = \<lambda>_ s. (Inl (PlainError []), s)\<rparr>"

definition demo_stripe :: "unit stripe_world" where
  "demo_stripe = \<lparr>st_srv = (), st_clock = 0, st_calls = []\<rparr>"

definition demo_charge :: "string \<Rightarrow> stripe_charge_request" where
  "demo_charge i = \<lparr>cq_Token = None, cq_PaymentMethodID = Some i, cq_CustomerID = [],
     cq_Amount = \<lparr>m_amount = Some (1 / 4), m_currency = ''USD''\<rparr>, cq_Description = [], cq_IdempotencyKey = ''k'',
     cq_ThreeDSecure = None, cq_Metadata = []\<rparr>"

text \<open>C15. Whatever a charge meets, it makes at most two calls: it fetches the payment method that the
  request names and then creates one intent, which carries exactly the requested amount in minor units,
  its currency, the method, the metadata and the idempotency key, is captured automatically and
  confirmed; a konbini, bank-transfer or PayPay method is charged in yen and alone in the intent, a bank
  transfer only for a customer. A charge that succeeds has created the intent.\<close>

theorem Charge_calls:
  assumes "Charge sdk (Some req) w = (r, w')"
  shows "\<exists>cs. st_calls w' = st_calls w @ cs \<and> (cs = [] \<and> isl r \<or> (\<exists>pm.
      resolvePaymentMethod (cq_PaymentMethodID req) (cq_Token req) = Inr pm \<and>
      (cs = [GetMethod pm] \<and> isl r \<or> (\<exists>p spm. cs = [GetMethod pm, NewIntent p]
        \<and> fst (sdk_GetMethod sdk pm (st_srv w)) = Inr spm \<and> carries p (cq_Amount req)
        \<and> ip_PaymentMethod p = pm \<and> ip_CaptureMethod p = ''automatic'' \<and> ip_Confirm p
        \<and> ip_Metadata p = cq_Metadata req \<and> ip_IdempotencyKey p = keyOf (cq_IdempotencyKey req)
        \<and> (if isChargeOnlyType (sm_Type spm) then ip_PaymentMethodTypes p = [sm_Type spm] \<and> ip_Currency p = ''jpy''
           else ip_PaymentMethodTypes p = [])
        \<and> (sm_Type spm = ''customer_balance'' \<longrightarrow> ip_Customer p = Some (cq_CustomerID req))))))"
  using assms
proof (cases rule: stripe_Charge_cases)
  case (sent pm amount currency spm p1 p s s' x)
  note params = applyMethodTypeParams_Inr [OF sent(4)]
  have base: "ip_Amount p = amount" "ip_Currency p = currency" "ip_PaymentMethod p = pm" "ip_CaptureMethod p = ''automatic''"
    "ip_Confirm p" "ip_Metadata p = cq_Metadata req" "ip_IdempotencyKey p = keyOf (cq_IdempotencyKey req)"
    using params(1-5) sent(5) by (simp_all add: base_params_def)
  have types: "if isChargeOnlyType (sm_Type spm) then ip_PaymentMethodTypes p = [sm_Type spm] \<and> ip_Currency p = ''jpy''
           else ip_PaymentMethodTypes p = []"
    using params(2,7,8) sent(5) by (auto simp: base_params_def)
  have cust: "sm_Type spm = ''customer_balance'' \<longrightarrow> ip_Customer p = Some (cq_CustomerID req)"
    using params(6,9) sent(5) by simp
  have "carries p (cq_Amount req)" using sent(2) base(1,2) by (rule carriesI)
  with sent(1,3,7) base types cust show ?thesis by blast
qed auto

theorem Charge_calls_witness:
  "\<exists>p. st_calls (snd (Charge demo_sdk (Some (demo_charge ''pm_1'')) demo_stripe)) = [GetMethod ''pm_1'', NewIntent p]
     \<and> carries p \<lparr>m_amount = Some (1 / 4), m_currency = ''USD''\<rparr> \<and> ip_CaptureMethod p = ''automatic''"
proof -
  have "\<not> isl (fst (Charge demo_sdk (Some (demo_charge ''pm_1'')) demo_stripe))" by code_simp
  with Charge_calls [OF prod.collapse [symmetric], of demo_sdk "demo_charge ''pm_1''" demo_stripe] show ?thesis
    by (auto simp: demo_stripe_def demo_charge_def resolvePaymentMethod_def)
qed

text \<open>C16. An authorization never creates an intent for a payment method that Stripe can only charge (konbini,
  bank transfer, PayPay), and the intent it does create is captured manually and carries exactly the
  requested amount, the method and the idempotency key.\<close>

theorem Authorize_holds_only:
  assumes "Authorize sdk (Some req) w = (r, w')" "st_calls w' = st_calls w @ cs" "NewIntent p \<in> set cs"
  shows "\<exists>pm spm. cs = [GetMethod pm, NewIntent p]
    \<and> resolvePaymentMethod (aq_PaymentMethodID req) (aq_Token req) = Inr pm
    \<and> fst (sdk_GetMethod sdk pm (st_srv w)) = Inr spm
    \<and> sm_Type spm \<notin> {''konbini'', ''customer_balance'', ''paypay''} \<and> ip_CaptureMethod p = ''manual''
    \<and> ip_PaymentMethod p = pm \<and> ip_PaymentMethodTypes p = [] \<and> carries p (aq_Amount req)
    \<and> ip_IdempotencyKey p = keyOf (aq_IdempotencyKey req)"
  using assms(1)
proof (cases rule: stripe_Authorize_cases)
  case (sent pm amount currency spm p')
  with assms(2,3) have cs: "cs = [GetMethod pm, NewIntent p]" "p = p'" by auto
  have "carries p (aq_Amount req)" using sent(2) by (rule carriesI) (simp_all add: cs sent(5) base_params_def)
  with sent(1,3,4) cs show ?thesis
    by (auto simp: sent(5) base_params_def isChargeOnlyType_def isAsyncSettlementType_def)
qed (use assms(2,3) in auto)

definition demo_authorize :: "string \<Rightarrow> stripe_authorize_request" where
  "demo_authorize i = \<lparr>aq_Token = None, aq_PaymentMethodID = Some i, aq_CustomerID = [],
     aq_Amount = \<lparr>m_amount = Some 100, m_currency = ''JPY''\<rparr>, aq_IdempotencyKey = ''k'',
     aq_ThreeDSecure = None, aq_Metadata = []\<rparr>"

theorem Authorize_holds_only_witness:
  "(\<exists>p. st_calls (snd (Authorize demo_sdk (Some (demo_authorize ''pm_1'')) demo_stripe)) = [GetMethod ''pm_1'', NewIntent p]
     \<and> ip_CaptureMethod p = ''manual'')
   \<and> st_calls (snd (Authorize demo_sdk (Some (demo_authorize ''pm_k'')) demo_stripe)) = [GetMethod ''pm_k'']"
proof
  define x where "x = st_calls (snd (Authorize demo_sdk (Some (demo_authorize ''pm_1'')) demo_stripe))"
  have "intents (st_calls (snd (Authorize demo_sdk (Some (demo_authorize ''pm_1'')) demo_stripe))) \<noteq> []" by code_simp
  then obtain p where p: "NewIntent p \<in> set x" by (auto simp: x_def neq_Nil_conv dest: intents_in)
  have x': "x = st_calls demo_stripe @ x" by (simp add: demo_stripe_def)
  from Authorize_holds_only [OF prod.collapse [symmetric] x' [unfolded x_def] p [unfolded x_def]]
  show "\<exists>p. x = [GetMethod ''pm_1'', NewIntent p] \<and> ip_CaptureMethod p = ''manual''"
    unfolding x_def [symmetric] by (auto simp: demo_authorize_def resolvePaymentMethod_def)
next
  show "st_calls (snd (Authorize demo_sdk (Some (demo_authorize ''pm_k'')) demo_stripe)) = [GetMethod ''pm_k'']"
    by code_simp
qed

section \<open>Amounts\<close>

lemma minor_units_roundtrip:
  assumes "toMinorUnits field m = Inr (v, cur)"
  shows "fromMinorUnits v cur = Inr m"
proof -
  from assms obtain e a where *: "currencyExponent (m_currency m) = Some e" "m_amount m = Some a"
      "a * of_int (pow10 e) = of_int (sint v)" "cur = to_lower (m_currency m)" by (rule toMinorUnits_Inr)
  then have "of_int (sint v) / of_int (pow10 e) = a" by (simp add: field_simps)
  with * currency_case [OF *(1)] show ?thesis by (cases m) (simp add: fromMinorUnits_def Let_def new_money_def)
qed

text \<open>C17. Amounts survive the trip through minor units: when Stripe echoes the amount and the currency of
  the intent it was asked for, the response of a successful charge has exactly the requested amount and
  currency, in every currency the adapter supports.\<close>

theorem Charge_amount_roundtrip:
  assumes echo: "\<And>p s i s'. sdk_NewIntent sdk p s = (Inr i, s') \<Longrightarrow> pi_Amount i = ip_Amount p \<and> pi_Currency i = ip_Currency p"
    and run: "Charge sdk (Some req) w = (Inr resp, w')"
  shows "cr_Amount resp = cq_Amount req"
  using run
proof (cases rule: stripe_Charge_cases)
  case (sent pm amount currency spm p1 p s s' x)
  then obtain i where x: "x = Inr i" and resp: "toChargeResponse i (stripePMToPortType spm) = Inr resp"
    by (cases x) auto
  have "ip_Amount p = amount" "ip_Currency p = currency"
    using applyMethodTypeParams_Inr(1,2) [OF sent(4)] sent(5) by (simp_all add: base_params_def)
  with echo [OF sent(6) [unfolded x]] minor_units_roundtrip [OF sent(2)] resp show ?thesis
    by (auto simp: toChargeResponse_def)
qed auto

theorem Charge_amount_roundtrip_witness:
  "\<exists>resp w'. Charge demo_sdk (Some (demo_charge ''pm_1'')) demo_stripe = (Inr resp, w')
     \<and> cr_Amount resp = \<lparr>m_amount = Some (1 / 4), m_currency = ''USD''\<rparr>"
proof -
  have "\<not> isl (fst (Charge demo_sdk (Some (demo_charge ''pm_1'')) demo_stripe))" by code_simp
  then obtain resp w' where run: "Charge demo_sdk (Some (demo_charge ''pm_1'')) demo_stripe = (Inr resp, w')"
    by (metis prod.collapse sum.collapse(2))
  have "cr_Amount resp = cq_Amount (demo_charge ''pm_1'')"
    by (rule Charge_amount_roundtrip [OF _ run]) (auto simp: demo_sdk_def demo_intent_def)
  with run show ?thesis by (auto simp: demo_charge_def)
qed

section \<open>Webhooks\<close>

lemma ParseAndVerify_Inr:
  assumes "ParseAndVerify construct_event parse h now (Some req) = Inr ev"
  obtains sg e where "lookupHeader (wq_Headers req) (swh_signatureHeader h) = Some sg" "sg \<noteq> []"
    "construct_event (wq_Body req) sg (swh_secret h) = Inr e" "verifyTimestamp h now sg = Inr ()"
    "wv_ID ev = se_ID e" "wv_Type ev = toWebhookEventType (se_Type e) (parse (rawEventData e))"
    "wv_RawData ev = wq_Body req"
proof -
  from assms obtain sg where sg: "lookupHeader (wq_Headers req) (swh_signatureHeader h) = Some sg" "sg \<noteq> []"
    by (simp add: ParseAndVerify_def split: option.splits if_splits)
  with assms obtain e where e: "construct_event (wq_Body req) sg (swh_secret h) = Inr e"
    by (simp add: ParseAndVerify_def split: sum.splits)
  with sg assms have t: "verifyTimestamp h now sg = Inr ()"
    by (simp add: ParseAndVerify_def split: sum.splits)
  with sg e assms show thesis by (intro that [OF sg e t]) (auto simp: ParseAndVerify_def)
qed

definition skew :: "time \<Rightarrow> int64 \<Rightarrow> int" where
  "skew now ts = (let d = time_sub now (time_Unix ts) in sint (if sint d < 0 then - d else d))"

lemma verifyTimestamp_Inr: "verifyTimestamp h now sg = Inr () \<longleftrightarrow>
    (\<exists>ts. parseSignatureTimestamp sg = Some ts \<and> skew now ts \<le> sint (swh_tolerance h))"
proof (cases "parseSignatureTimestamp sg")
  case (Some ts)
  then show ?thesis by (simp add: verifyTimestamp_def skew_def Let_def not_less)
qed (simp add: verifyTimestamp_def)

text \<open>Within 292 years of the clock the skew is the exact distance. Beyond, \<open>Time.Sub\<close> saturates: at the largest
  duration for the past, and for the future at the smallest, which negation leaves negative.\<close>

lemma skew_exact:
  assumes "\<bar>now - time_Unix ts\<bar> < 2 ^ 63"
  shows "skew now ts = \<bar>now - time_Unix ts\<bar>"
proof -
  define d where "d = now - time_Unix ts"
  have t: "time_sub now (time_Unix ts) = word_of_int d" using assms by (simp add: time_sub_def d_def)
  have "is_int64 d" "is_int64 (- d)" using assms by (auto simp: is_int64_def d_def)
  then have "sint (word_of_int d :: int64) = d" "sint (- (word_of_int d :: int64)) = - d"
    using sint_of_int64 [of "- d"] by (simp_all add: sint_of_int64)
  then show ?thesis by (simp add: skew_def t Let_def d_def [symmetric])
qed

lemma skew_far_past:
  assumes "time_Unix ts + 2 ^ 63 \<le> now"
  shows "skew now ts = 2 ^ 63 - 1"
proof -
  have "time_sub now (time_Unix ts) = word_of_int (2 ^ 63 - 1)" using assms by (simp add: time_sub_def)
  then show ?thesis by (simp add: skew_def Let_def)
qed

lemma skew_far_future:
  assumes "now + 2 ^ 63 \<le> time_Unix ts"
  shows "skew now ts = - (2 ^ 63)"
proof -
  have "time_sub now (time_Unix ts) = word_of_int (- (2 ^ 63))" using assms by (simp add: time_sub_def)
  then show ?thesis by (simp add: skew_def Let_def)
qed

text \<open>The timestamps that pass, for every clock and tolerance.\<close>

lemma skew_within:
  "skew now ts \<le> sint (tol :: int64) \<longleftrightarrow>
     \<bar>now - time_Unix ts\<bar> \<le> sint tol \<or> now + 2 ^ 63 \<le> time_Unix ts \<or> sint tol = 2 ^ 63 - 1"
proof -
  have t: "- (2 ^ 63) \<le> sint tol" "sint tol \<le> 2 ^ 63 - 1"
    using sint_greater_eq [of tol] sint_less [of tol] by simp_all
  consider "\<bar>now - time_Unix ts\<bar> < 2 ^ 63" | "time_Unix ts + 2 ^ 63 \<le> now" | "now + 2 ^ 63 \<le> time_Unix ts" by linarith
  then show ?thesis
  proof cases
    case 1
    have "skew now ts = \<bar>now - time_Unix ts\<bar>" using 1 by (rule skew_exact)
    with 1 t show ?thesis by linarith
  next
    case 2
    have "skew now ts = 2 ^ 63 - 1" using 2 by (rule skew_far_past)
    with 2 t show ?thesis by linarith
  next
    case 3
    have "skew now ts = - (2 ^ 63)" using 3 by (rule skew_far_future)
    with 3 t show ?thesis by linarith
  qed
qed

lemma far_future_accepted:
  assumes "parseSignatureTimestamp sg = Some ts" "now + 2 ^ 63 \<le> time_Unix ts" "0 \<le> sint (swh_tolerance h)"
  shows "verifyTimestamp h now sg = Inr ()"
  using assms by (simp add: verifyTimestamp_Inr skew_far_future)

text \<open>When a refund event may be booked as succeeded.\<close>

definition refund_settled :: "string \<Rightarrow> json option \<Rightarrow> bool" where
  "refund_settled ty data \<longleftrightarrow>
     ty \<in> {''refund.created'', ''refund.updated'', ''charge.refund.updated''} \<and> Option.bind data dec_status = Some ''succeeded''
     \<or> ty = ''charge.refunded'' \<and> (\<exists>rest. Option.bind data dec_refund_statuses = Some (''succeeded'' # rest))"

lemma stripeEventMap_no_refund: "EvRefundSucceeded \<notin> snd ` set stripeEventMap"
  by (simp add: stripeEventMap_def)

lemma refund_status_succeeded: "refund_status_event ty st = EvRefundSucceeded \<longleftrightarrow> st = ''succeeded''"
  by (simp add: refund_status_event_def)

lemma RefundSucceeded_settled:
  "toWebhookEventType ty data = EvRefundSucceeded \<longleftrightarrow> refund_settled ty data"
proof -
  have "map_of stripeEventMap ty \<noteq> Some EvRefundSucceeded"
    using stripeEventMap_no_refund by (force dest: map_of_SomeD)
  then show ?thesis
    by (auto simp: toWebhookEventType_def refund_settled_def classifyRefundEvent_def classifyChargeRefundedEvent_def
        classifyRequiresActionEvent_def refundEventTypes_def refund_status_succeeded
        split: option.splits if_splits list.splits)
qed

text \<open>C18. A webhook becomes an event only if its signature header was accepted by the SDK for the body and the
  configured secret, and the first timestamp of that header, which is not the one the SDK verified when there are
  several, passes the replay check. The timestamps that pass are those within the tolerance of the clock and those
  \<open>2 ^ 63\<close> nanoseconds (292 years) or more ahead of it, and all of them when the tolerance is the largest duration. The
  event carries the whole body, and it reports a succeeded refund exactly when the refund (of a charge, its newest) has
  the status succeeded. A webhook the SDK accepts is refused exactly if it has no timestamp or one that does not pass.
  Every refusal is a webhook error.\<close>

theorem webhook_accepted:
  "(case ParseAndVerify construct_event parse h now (Some req) of
     Inl e \<Rightarrow> (\<exists>code cause. e = WebhookError code cause)
   | Inr ev \<Rightarrow> (\<exists>sg e ts. lookupHeader (wq_Headers req) (swh_signatureHeader h) = Some sg
       \<and> construct_event (wq_Body req) sg (swh_secret h) = Inr e \<and> parseSignatureTimestamp sg = Some ts
       \<and> (\<bar>now - time_Unix ts\<bar> \<le> sint (swh_tolerance h) \<or> now + 2 ^ 63 \<le> time_Unix ts \<or> sint (swh_tolerance h) = 2 ^ 63 - 1)
       \<and> wv_ID ev = se_ID e \<and> wv_RawData ev = wq_Body req
       \<and> (wv_Type ev = EvRefundSucceeded \<longleftrightarrow> refund_settled (se_Type e) (parse (rawEventData e))))) \<and>
   (\<forall>sg e. lookupHeader (wq_Headers req) (swh_signatureHeader h) = Some sg \<and> sg \<noteq> []
       \<and> construct_event (wq_Body req) sg (swh_secret h) = Inr e \<longrightarrow>
     (isl (ParseAndVerify construct_event parse h now (Some req)) \<longleftrightarrow>
       (case parseSignatureTimestamp sg of None \<Rightarrow> True
        | Some ts \<Rightarrow> sint (swh_tolerance h) < \<bar>now - time_Unix ts\<bar> \<and> time_Unix ts < now + 2 ^ 63 \<and>
            sint (swh_tolerance h) \<noteq> 2 ^ 63 - 1)))"
proof (intro conjI allI impI)
  show "case ParseAndVerify construct_event parse h now (Some req) of
     Inl e \<Rightarrow> (\<exists>code cause. e = WebhookError code cause)
   | Inr ev \<Rightarrow> (\<exists>sg e ts. lookupHeader (wq_Headers req) (swh_signatureHeader h) = Some sg
       \<and> construct_event (wq_Body req) sg (swh_secret h) = Inr e \<and> parseSignatureTimestamp sg = Some ts
       \<and> (\<bar>now - time_Unix ts\<bar> \<le> sint (swh_tolerance h) \<or> now + 2 ^ 63 \<le> time_Unix ts \<or> sint (swh_tolerance h) = 2 ^ 63 - 1)
       \<and> wv_ID ev = se_ID e \<and> wv_RawData ev = wq_Body req
       \<and> (wv_Type ev = EvRefundSucceeded \<longleftrightarrow> refund_settled (se_Type e) (parse (rawEventData e))))"
  proof (cases "ParseAndVerify construct_event parse h now (Some req)")
    case (Inl e)
    then show ?thesis
      by (auto simp: ParseAndVerify_def classifyWebhookError_def verifyTimestamp_def Let_def
          split: option.splits sum.splits if_splits construct_error.splits)
  next
    case (Inr ev)
    then obtain sg e where *: "lookupHeader (wq_Headers req) (swh_signatureHeader h) = Some sg"
      "construct_event (wq_Body req) sg (swh_secret h) = Inr e" "verifyTimestamp h now sg = Inr ()"
      "wv_ID ev = se_ID e" "wv_Type ev = toWebhookEventType (se_Type e) (parse (rawEventData e))"
      "wv_RawData ev = wq_Body req" by (rule ParseAndVerify_Inr)
    from *(3) obtain ts where ts: "parseSignatureTimestamp sg = Some ts" "skew now ts \<le> sint (swh_tolerance h)"
      by (auto simp: verifyTimestamp_Inr)
    with * Inr show ?thesis by (auto simp: RefundSucceeded_settled skew_within)
  qed
  fix sg e
  assume a: "lookupHeader (wq_Headers req) (swh_signatureHeader h) = Some sg \<and> sg \<noteq> []
       \<and> construct_event (wq_Body req) sg (swh_secret h) = Inr e"
  then have "isl (ParseAndVerify construct_event parse h now (Some req)) \<longleftrightarrow> verifyTimestamp h now sg \<noteq> Inr ()"
    by (auto simp: ParseAndVerify_def split: sum.split)
  then show "isl (ParseAndVerify construct_event parse h now (Some req)) \<longleftrightarrow>
       (case parseSignatureTimestamp sg of None \<Rightarrow> True
        | Some ts \<Rightarrow> sint (swh_tolerance h) < \<bar>now - time_Unix ts\<bar> \<and> time_Unix ts < now + 2 ^ 63 \<and>
            sint (swh_tolerance h) \<noteq> 2 ^ 63 - 1)"
    by (auto simp: verifyTimestamp_Inr skew_within not_le split: option.split)
qed

lemma split_on_append: "c \<notin> set a \<Longrightarrow> split_on c (a @ c # b) = a # split_on c b"
  by (induction a) auto

lemma first_timestamp:
  assumes "d \<noteq> []" "\<forall>c\<in>set d. is_digit c"
  shows "parseSignatureTimestamp (''t='' @ d @ '','' @ sg) = parse_int64 d"
proof -
  have nd: "c \<notin> set d" if "\<not> is_digit c" for c using assms(2) that by blast
  have sp: "is_ascii c \<and> \<not> is_space c" if "is_digit c" for c
    using that by (auto simp: is_digit_def is_space_def is_ascii_def)
  have "split_on (CHR '','') (''t='' @ d @ '','' @ sg) = (''t='' @ d) # split_on (CHR '','') sg"
    using split_on_append [of "CHR '',''" "''t='' @ d" sg] nd [of "CHR '',''"] by (simp add: is_digit_def)
  moreover have "trim_space (''t='' @ d) = ''t='' @ d"
    using assms sp by (intro trim_space_ascii) (auto simp: is_space_def is_ascii_def)
  moreover have "trim_space d = d" using assms sp by (intro trim_space_ascii) auto
  ultimately show ?thesis by (simp add: parseSignatureTimestamp_def)
qed

text \<open>C19. The replay check can be aimed at another timestamp than the one that is signed. The SDK takes the
  last timestamp of the header, the adapter the first: a request that was refused only for its age is
  accepted once the current time is put in front of its genuine header.\<close>

theorem webhook_replay_bypass:
  assumes last_t: "construct_event body (''t='' @ d @ '','' @ sg) (swh_secret h) = construct_event body sg (swh_secret h)"
    and signed: "sg \<noteq> []" "construct_event body sg (swh_secret h) = Inr e"
    and stale: "parseSignatureTimestamp sg = Some t0" "sint (swh_tolerance h) < skew now t0"
    and fresh: "d \<noteq> []" "\<forall>c\<in>set d. is_digit c" "parse_int64 d = Some ts" "skew now ts \<le> sint (swh_tolerance h)"
  shows "isl (ParseAndVerify construct_event parse h now (Some \<lparr>wq_Headers = [(swh_signatureHeader h, sg)], wq_Body = body\<rparr>))
    \<and> \<not> isl (ParseAndVerify construct_event parse h now
      (Some \<lparr>wq_Headers = [(swh_signatureHeader h, ''t='' @ d @ '','' @ sg)], wq_Body = body\<rparr>))"
proof
  have "verifyTimestamp h now sg \<noteq> Inr ()" using stale by (simp add: verifyTimestamp_Inr)
  then have "isl (verifyTimestamp h now sg)" by (cases "verifyTimestamp h now sg") auto
  with signed show "isl (ParseAndVerify construct_event parse h now
      (Some \<lparr>wq_Headers = [(swh_signatureHeader h, sg)], wq_Body = body\<rparr>))"
    by (auto simp: ParseAndVerify_def lookupHeader_def isl_def)
  have "verifyTimestamp h now (''t='' @ d @ '','' @ sg) = Inr ()"
    using fresh by (auto simp only: verifyTimestamp_Inr first_timestamp [OF fresh(1,2)])
  with last_t signed show "\<not> isl (ParseAndVerify construct_event parse h now
      (Some \<lparr>wq_Headers = [(swh_signatureHeader h, ''t='' @ d @ '','' @ sg)], wq_Body = body\<rparr>))"
    by (simp add: ParseAndVerify_def lookupHeader_def)
qed

text \<open>An SDK that signs with the last timestamp: \<open>x\<close> is the signature of the body \<open>b\<close> at time 1.\<close>

definition demo_construct :: "string \<Rightarrow> string \<Rightarrow> string \<Rightarrow> construct_error + stripe_event" where
  "demo_construct body sg secret = (let parts = split_on (CHR '','') sg in
     if body = ''b'' \<and> secret = ''s'' \<and> ''v1=x'' \<in> set parts
        \<and> last ([] # filter (\<lambda>p. take 2 p = ''t='') parts) = ''t=1''
     then Inr \<lparr>se_ID = ''evt_1'', se_Type = ''refund.failed'', se_Created = 1, se_Raw = None\<rparr>
     else Inl ErrNoValidSignature)"

definition demo_webhook :: StripeWebhookHandler where
  "demo_webhook = \<lparr>swh_secret = ''s'', swh_signatureHeader = ''Stripe-Signature'', swh_tolerance = DefaultTolerance\<rparr>"

theorem webhook_replay_bypass_witness:
  "isl (ParseAndVerify demo_construct (\<lambda>_. None) demo_webhook (1000 * second)
     (Some \<lparr>wq_Headers = [(''Stripe-Signature'', ''t=1,v1=x'')], wq_Body = ''b''\<rparr>))
   \<and> \<not> isl (ParseAndVerify demo_construct (\<lambda>_. None) demo_webhook (1000 * second)
     (Some \<lparr>wq_Headers = [(''Stripe-Signature'', ''t=1000,t=1,v1=x'')], wq_Body = ''b''\<rparr>))"
proof -
  have h: "swh_signatureHeader demo_webhook = ''Stripe-Signature''" "swh_secret demo_webhook = ''s''"
    by (simp_all add: demo_webhook_def)
  have c: "demo_construct ''b'' ''t=1000,t=1,v1=x'' ''s'' = demo_construct ''b'' ''t=1,v1=x'' ''s''"
    "demo_construct ''b'' ''t=1,v1=x'' ''s'' =
      Inr \<lparr>se_ID = ''evt_1'', se_Type = ''refund.failed'', se_Created = 1, se_Raw = None\<rparr>" by code_simp+
  have t: "parseSignatureTimestamp ''t=1,v1=x'' = Some 1" "parse_int64 ''1000'' = Some 1000" by code_simp+
  have k: "sint (swh_tolerance demo_webhook) < skew (1000 * second) 1"
    "skew (1000 * second) 1000 \<le> sint (swh_tolerance demo_webhook)" by code_simp+
  show ?thesis
    using webhook_replay_bypass [of demo_construct "''b''" "''1000''" "''t=1,v1=x''" demo_webhook _ 1 "1000 * second" 1000]
      h c t k by (simp add: is_digit_def)
qed

theorem webhook_accepted_witness:
  "\<exists>ev. ParseAndVerify demo_construct (\<lambda>_. None) demo_webhook (100 * second)
     (Some \<lparr>wq_Headers = [(''stripe-signature'', ''t=1,v1=x'')], wq_Body = ''b''\<rparr>) = Inr ev
   \<and> wv_RawData ev = ''b'' \<and> wv_Type ev \<noteq> EvRefundSucceeded"
proof -
  let ?req = "\<lparr>wq_Headers = [(''stripe-signature'', ''t=1,v1=x'')], wq_Body = ''b''\<rparr>"
  have "\<not> isl (ParseAndVerify demo_construct (\<lambda>_. None) demo_webhook (100 * second) (Some ?req))" by code_simp
  then obtain ev where ev: "ParseAndVerify demo_construct (\<lambda>_. None) demo_webhook (100 * second) (Some ?req) = Inr ev"
    by (metis sum.collapse(2))
  from webhook_accepted [where construct_event = demo_construct and parse = "\<lambda>_. None" and h = demo_webhook
      and now = "100 * second" and req = ?req]
  have "wv_RawData ev = ''b''" "wv_Type ev \<noteq> EvRefundSucceeded"
    unfolding ev by (auto simp: refund_settled_def)
  with ev show ?thesis by blast
qed

end
