(* ===== verification/Spec2Isabelle.thy ===== *)
theory Spec2Isabelle
  imports Fincode_Gateway_Claims Fincode_Webhook Fincode_Customer My_Subscription My_Payment_Repo My_CreditNote_Repo
    My_Balance_Repo My_Invoice_Props My_Tx My_Projection_Props My_Contract_Props My_Usage_Repo
    My_Product_Repo My_Price_Repo My_Datetime My_Typed_Repos My_Migrate_Props Pg_Payment_Repo Pg_Invoice_Props Pg_Subscription_Props
    Pg_Balance_Repo Pg_CreditNote_Repo Pg_Usage_Repo Pg_Product_Repo Pg_Price_Repo Pg_Projection_Props Pg_Contract_Props Pg_Tx Pg_Conn Pg_Migrate Stripe_Props
begin

text \<open>
  A verification development for the adapters of \<open>contract-to-cash\<close>: the implementations, in Go, of
  the ports of the core billing library. The repository has three kinds of parts. The payment gateways
  \<open>fincode/\<close> and \<open>stripe/\<close> turn the core's requests (charge, authorize, capture, void, refund,
  customers, payment methods) into calls of a payment provider, and turn the provider's webhooks into the
  core's events. The stores \<open>mysql/\<close> and \<open>postgres/\<close> keep the core's aggregates: an event store
  for contracts with snapshots, subscriptions and read models, and state repositories with optimistic locks for
  invoices, payments, credit notes, balances, usage, products and prices. The parts meet in the core: a gateway
  operation and a save are steps of one use case, and \<open>RunInTx\<close> makes several saves one transaction.

  \<^bold>\<open>How Go is represented.\<close>

  \<^item> A function with effects that returns \<open>(T, error)\<close> is an action of \<open>Go_Base\<close>, a function
    from a world to \<open>error + T\<close> and the new world; \<open>bindA\<close>, \<open>tryA\<close>, \<open>throw\<close>,
    \<open>mapA\<close> and \<open>forA\<close> are sequencing, error branches and loops. Structs are records, constants
    and maps are definitions, \<open>int64\<close> is a 64-bit word read by \<open>sint\<close>, \<open>big.Rat\<close> is
    \<open>rat\<close>, an instant is its number of nanoseconds (\<open>Go_Time\<close>). A Go panic that an operation can
    reach is an error value.
  \<^item> A Go string is the list of its bytes. Where the code works on runes (case folding,
    trimming) \<open>Go_Base\<close> decodes them: white space is that of Unicode, and a letter outside ASCII is
    folded where its image is in ASCII and left alone otherwise.
  \<^item> The errors of the core and of each adapter are the datatypes \<open>go_error\<close> (\<open>Core_Port\<close>) and
    \<open>repo_error\<close> (\<open>Sql_Base\<close>). Kinds, codes, causes and retryability are kept, the
    human-readable message texts are not. Wrapping with \<open>%w\<close> keeps the error it wraps.
  \<^item> The world of a gateway holds the provider's state, of any type, and a log of the calls made
    (\<open>sent\<close>, \<open>st_calls\<close>); each call can fail. The world of a store holds the database, the contents
    at the start of the open transaction, the clocks and the faults still to come: a statement can fail before
    or after it took effect, and a commit can be done without an answer. All properties over an arbitrary world
    hold for every sequence of faults; those about a calm world assume none.

  \<^bold>\<open>Theories.\<close>

  \<^item> Prelude: \<open>Go_Base\<close> (actions, \<open>keeps\<close>, loops), \<open>Go_Hash\<close> (SHA-256, HMAC, base32,
    base64, hex), \<open>Go_Url\<close> (escaping), \<open>Go_Time\<close>, \<open>Go_Json\<close> (encoding, and decoding of parsed values), \<open>Go_Header\<close>
    (header lookup), \<open>Core_Port\<close> (the types shared with the core), \<open>Sql_Base\<close> (statements,
    transactions, faults, tables with unique keys, the context that carries a transaction), \<open>Guarded_Store\<close>
    (the locale of repositories with an optimistic lock), \<open>Typed_Store\<close> (the locale of repositories whose rows
    all decode, over any session of saves and faults).
  \<^item> \<open>fincode/\<close>: \<open>Fincode_Types\<close> (\<open>types.go\<close>), \<open>Fincode_Client\<close>
    (\<open>client.go\<close>), \<open>Fincode_Gateway\<close> (\<open>gateway.go\<close>), \<open>Fincode_Customer\<close>
    (\<open>customer.go\<close>), \<open>Fincode_Webhook\<close> (\<open>webhook.go\<close>); lemmas on the requests an operation
    sends are in \<open>Fincode_Gateway_Props\<close>, the properties in \<open>Fincode_Gateway_Claims\<close>.
  \<^item> \<open>stripe/\<close>: \<open>Stripe_Types\<close> (\<open>types.go\<close>, \<open>client.go\<close> and the fields of the
    SDK's types that are used), \<open>Stripe_Gateway\<close> (\<open>gateway.go\<close>), \<open>Stripe_Customer\<close>
    (\<open>customer.go\<close>), \<open>Stripe_Webhook\<close> (\<open>webhook.go\<close>), properties in \<open>Stripe_Props\<close>.
  \<^item> \<open>mysql/\<close>: \<open>My_Schema\<close> (tables), \<open>My_Errors\<close> (\<open>errors.go\<close>),
    \<open>My_Values\<close> (columns, \<open>money.go\<close>), \<open>My_EventStore\<close> and \<open>My_EventStore_Props\<close>
    (\<open>eventstore.go\<close>), \<open>My_Subscription\<close> (concurrent appends and a subscriber as a step relation),
    \<open>My_Payment_Repo\<close>, \<open>My_CreditNote_Repo\<close>, \<open>My_Balance_Repo\<close>, \<open>My_Invoice_Repo\<close>
    with \<open>My_Invoice_Props\<close>, \<open>My_Usage_Repo\<close>, \<open>My_Product_Repo\<close>, \<open>My_Price_Repo\<close> (the
    repositories of the same names), \<open>My_Contract_Repo\<close> with \<open>My_Contract_Props\<close>
    (\<open>contract_repo.go\<close>), \<open>My_Projection\<close> with \<open>My_Projection_Props\<close> (both projectors and
    the checkpoint store), \<open>My_Tx\<close> (\<open>tx_manager.go\<close> and the context
    functions of \<open>conn.go\<close>), \<open>My_Datetime\<close> (\<open>utcTime\<close> of \<open>eventstore.go\<close>),
    \<open>My_Typed\<close> and \<open>My_Typed_Repos\<close> (\<open>typed_store\<close> for invoices, payments, credit notes
    and prices), \<open>My_Migrate\<close> with \<open>My_Migrate_Props\<close>
    (\<open>migrate.go\<close>).
  \<^item> \<open>postgres/\<close>: \<open>Pg_Base\<close> is the server: \<open>NOW()\<close> is the start of the transaction, an
    error inside a transaction aborts it, a commit of an aborted transaction rolls back, violations name their
    constraint. On it stand \<open>Pg_EventStore\<close> (\<open>eventstore.go\<close>) with \<open>Pg_Subscription\<close> and
    \<open>Pg_Subscription_Props\<close> (its reconnecting subscription, run against an environment that appends, drops
    connections and loses notifications), \<open>Pg_Payment_Repo\<close>, \<open>Pg_Invoice_Repo\<close> with
    \<open>Pg_Invoice_Props\<close>, \<open>Pg_Balance_Repo\<close> (with \<open>money.go\<close>), \<open>Pg_CreditNote_Repo\<close>,
    \<open>Pg_Usage_Repo\<close>, \<open>Pg_Product_Repo\<close>, \<open>Pg_Price_Repo\<close> (the repositories of the same names),
    \<open>Pg_Contract_Repo\<close> with \<open>Pg_Contract_Props\<close> (\<open>contract_repo.go\<close>), \<open>Pg_Projection\<close> with
    \<open>Pg_Projection_Props\<close> (both projectors and the checkpoint store), \<open>Pg_Tx\<close> (\<open>tx_manager.go\<close>
    and the context functions of \<open>conn.go\<close>), \<open>Pg_Conn\<close> (connection string and pool of \<open>conn.go\<close>) and
    \<open>Pg_Migrate\<close> (\<open>migrate.go\<close>). Both schemas have the same columns, so the row and snapshot records, and the
    parameters for the core library, are those of the MySQL theories.
  \<^item> Between the stores: \<open>Pg_Alike\<close> and \<open>Pg_Alike_Tx\<close> are a simulation, outside and inside a
    transaction, with a rule for each operator, so that an operation of one adapter is compared with that of the other
    statement by statement.

  A Go method is the definition of the same name in the theory of its file; where one theory would declare a name
  twice it carries the aggregate's name in front (\<open>contract_Save\<close>, \<open>price_FindByID\<close>). SQL
  statements are functions on the table contents, named after what they do (\<open>insert_payment\<close>,
  \<open>update_invoice\<close>, \<open>close_history\<close>).

  \<^bold>\<open>What is shown.\<close>

  \<^item> Gateways: exactly which requests an operation sends, with which amounts and idempotency keys, and that a
    failure after money may have moved is reported as such; that amounts are exact in both directions and that
    captures and refunds above the total are refused; that only authentic and recent webhooks become events,
    and two inputs for which the replay check fails.
  \<^item> Event store: an append in its own transaction is all or nothing (in the caller's, what a failure may leave for the
    caller to roll back is stated), what was appended is loaded, a subscriber misses nothing under
    any interleaving (and would without the append lock), and how duplicate keys are told apart.
  \<^item> Repositories: of any number of writers based on one version at most one succeeds (the locale
    \<open>guarded_store\<close>, interpreted by every repository with a lock), a row and its history are written
    together or rolled back, as-of lookups return the state of that time, saved values are read back, sums are exact.
    Every row a repository can write decodes again, so that after any session a lookup never fails to decode what
    is stored; a \<open>DATETIME\<close> column
    reads the same whether the driver gives a text or a time.
  \<^item> Projections and rehydration: a rebuild ends, is one pass over the log and leaves a checkpoint from which
    the incremental projection resumes; snapshots do not change what a contract is rebuilt to.
  \<^item> Transactions: work in one \<open>RunInTx\<close> is stored together or not at all.
  \<^item> Migrations: every file is executed at most once and in order, and the statements of a file are those its
    lexical structure says. On PostgreSQL a run applies and records a prefix of the missing files, each completely.
  \<^item> PostgreSQL: the append, the guarded saves, the invoice history and the subscription are shown for its own
    server model; in a transaction an error that is swallowed cannot lead to a partial commit, and two places are shown
    where the aborted transaction or its clock defeat what the code means to do. A contract that was saved is found with
    its new events. A password with a space does not survive the connection string.
  \<^item> The two stores answer alike: the repositories of payments, balances, usage, products, prices and contracts,
    and the projectors, give the same results and leave the same rows on both servers in worlds without faults, up to the
    code of the error with which a server refuses a statement. So what is shown for one of them there holds for the other.

  \<^bold>\<open>Fuel.\<close> The loops of the adapters are recursions on lists, except the scan of the event log,
  which loads the next batch until one is empty: \<open>scan_log\<close> takes fuel. Each round but the last consumes
  at least one event, so any fuel above the number of events is enough; \<open>contract_Rebuild_ends\<close> shows that
  with it the result is never the one for exhausted fuel. \<open>pg_scan_log\<close> is the same scan and answers alike for
  every fuel. The subscription of PostgreSQL may run for ever: its pages, notifications and connection cycles take fuel,
  what was delivered is characterised for every fuel, and \<open>catchUp_delivers_backlog\<close> and
  \<open>subscription_gives_up\<close> give the fuel that suffices.

  \<^bold>\<open>Parameters.\<close> Not under \<open>src/\<close>, hence arguments of the definitions: the fincode
  server, network and JSON parser (\<open>http_env\<close>), the Stripe SDK (\<open>stripe_sdk\<close> and the check of the
  signature), the PostgreSQL driver's pool functions and the network of a subscription, the core's aggregates with their reconstruction and validation, \<open>Money\<close>'s rounding and parsing,
  event type names and upcasters, and the JSON codecs of core types (the records whose names end in \<open>core\<close>,
  \<open>env\<close> or \<open>codec\<close>). Round trips assume that a codec decodes what it encoded.

  \<^bold>\<open>Not modelled.\<close> The goroutines and channels of the MySQL \<open>Subscribe\<close> (a poll is one step),
  waiting for the advisory lock other than in the interleaved runs,
  row locks taken by reads, cancellation of a context other than as a failing call, panics inside \<open>RunInTx\<close>,
  collation (texts compare exactly), the limits of column types, foreign keys and
  most other constraints (a violation is one of the faults), columns nothing reads,
  constructors and options that only set a field, case pairs of letters that both lie outside ASCII, the default
  timeouts of HTTP clients, the test containers (\<open>mysqltest\<close>, \<open>postgrestest\<close>), and the contents of the migration files.
\<close>

end
